(* ===== verification/Prelude.thy ===== *)
theory Prelude
  imports Main "HOL-Library.Word"
begin

text \<open>
  What every component of the model shares: the exceptions of the Python code, the outcome of a
  method call, time-zone aware instants, text as lists of code points, and the JSON values the
  aggregates carry without looking at them.

  \<^item> A method that changes an object is a function from the object to an \<open>outcome\<close>: either
    \<open>Done r s\<close>, the returned value and the object as the call leaves it, or \<open>Raise e s\<close>, the
    exception and the object as the call leaves it. Python does not undo assignments made before a
    \<open>raise\<close>, so the object is part of the failure as well.
  \<^item> A \<open>classmethod\<close> constructor has no object to leave behind and returns \<open>error + object\<close>.
  \<^item> The parameter \<open>now\<close> of a method is the instant the method uses; a call that omits it reads
    the UTC clock, which is an argument of the model.
  \<^item> A fresh identifier (\<open>new_uuid7()\<close>) is an argument of the method that draws it.
\<close>

named_theorems op_defs \<open>definitions of the operations of the aggregates\<close>
named_theorems check_defs \<open>definitions of the guards the operations call\<close>

section \<open>Exceptions\<close>

text \<open>
  The exceptions raised by the modelled code: Python's own \<open>ValueError\<close>, \<open>TypeError\<close>, \<open>RuntimeError\<close>, \<open>KeyError\<close> and
  \<open>OverflowError\<close>, the classes of \<open>workflow/errors.py\<close>, the upload failures of
  \<open>assets/errors.py\<close>, the storage failures of \<open>catalog/errors.py\<close> and of constraint violations, and the tool failures of \<open>tool-runtime/errors.py\<close> (\<open>ToolExecutionError\<close> with its
  \<open>retryable\<close> flag). Messages are not modelled.
\<close>

datatype error =
    ValueError
  | TypeError
  | RuntimeError
  | KeyError
  | OverflowError
  | AssertionError
  | NotFoundError
  | ConcurrencyError
  | InvalidTransitionError
  | LeaseConflictError
  | IdempotencyConflictError
  | ApprovalConflictError
  | RetryNotReadyError
  | RetryExhaustedError
  | AuthorizationError
  | RightsDeniedError
  | ProviderPolicyDeniedError
  | WorkflowCancellationRefusedError
  | UploadExpiredError
  | UploadAbortedError
  | UploadBusyError
  | DuplicateExternalIdentifierError
  | UniqueConstraintError
  | ReferenceConstraintError
  | ToolRegistryError
  | ToolPolicyError
  | ToolExecutionError bool

section \<open>Outcomes of method calls\<close>

datatype ('a, 's) outcome = Done (result: 'a) (object_after: 's) | Raise (raised: error) (object_after: 's)

text \<open>\<open>check\<close> runs a guard that changes nothing: it either lets the call go on or raises.\<close>

fun check :: "error option \<Rightarrow> 's \<Rightarrow> ('a, 's) outcome \<Rightarrow> ('a, 's) outcome" where
  "check None s k = k"
| "check (Some e) s k = Raise e s"

text \<open>\<open>andthen\<close> runs a call and hands its result and its object on; an exception passes through.\<close>

fun andthen :: "('a, 's) outcome \<Rightarrow> ('a \<Rightarrow> 's \<Rightarrow> ('b, 's) outcome) \<Rightarrow> ('b, 's) outcome" where
  "andthen (Done r s) k = k r s"
| "andthen (Raise e s) k = Raise e s"

text \<open>\<open>both\<close> sequences two guards, \<open>guard\<close> is the guard \<open>if bad: raise e\<close>.\<close>

fun both :: "error option \<Rightarrow> error option \<Rightarrow> error option" where
  "both None b = b"
| "both (Some e) b = Some e"

definition guard :: "bool \<Rightarrow> error \<Rightarrow> error option" where
  "guard bad e = (if bad then Some e else None)"

text \<open>The first exception of a list of guards, in the order the code checks them.\<close>

fun guards :: "error option list \<Rightarrow> error option" where
  "guards [] = None"
| "guards (g # gs) = both g (guards gs)"

lemma check_Done [simp]: "check g s k = Done r t \<longleftrightarrow> g = None \<and> k = Done r t"
  by (cases g) auto

lemma check_Raise: "check g s k = Raise e t \<longleftrightarrow> (g = Some e \<and> t = s) \<or> (g = None \<and> k = Raise e t)"
  by (cases g) auto

lemma andthen_Done: "andthen m k = Done r t \<longleftrightarrow> (\<exists>a u. m = Done a u \<and> k a u = Done r t)"
  by (cases m) auto

lemma both_None [simp]: "both a b = None \<longleftrightarrow> a = None \<and> b = None"
  by (cases a) auto

lemma guard_None [simp]: "guard bad e = None \<longleftrightarrow> \<not> bad"
  by (simp add: guard_def)

lemma guard_Some [simp]: "guard bad e = Some f \<longleftrightarrow> bad \<and> e = f"
  by (auto simp: guard_def)

lemma guard_simps [simp]: "guard False e = None" "guard True e = Some e"
  by (simp_all add: guard_def)

lemma guards_None: "guards gs = None \<longleftrightarrow> (\<forall>g \<in> set gs. g = None)"
  by (induction gs) auto

lemma guards_Some: "guards gs = Some e \<Longrightarrow> Some e \<in> set gs"
proof (induction gs)
  case (Cons g gs)
  then show ?case by (cases g) auto
qed simp

lemma both_Some: "both a b = Some e \<longleftrightarrow> a = Some e \<or> a = None \<and> b = Some e"
  by (cases a) auto

lemma guards_only: "guards gs = Some e \<Longrightarrow> (\<And>f. Some f \<in> set gs \<Longrightarrow> P f) \<Longrightarrow> P e"
  by (blast dest: guards_Some)

text \<open>A call that left the object as it found it, whatever it raised.\<close>

definition failure_atomic :: "('s \<Rightarrow> ('a, 's) outcome) \<Rightarrow> bool" where
  "failure_atomic f \<longleftrightarrow> (\<forall>s e t. f s = Raise e t \<longrightarrow> t = s)"

lemma failure_atomicI [intro]: "(\<And>s e t. f s = Raise e t \<Longrightarrow> t = s) \<Longrightarrow> failure_atomic f"
  by (simp add: failure_atomic_def)

lemma failure_atomicD: "failure_atomic f \<Longrightarrow> f s = Raise e t \<Longrightarrow> t = s"
  by (simp add: failure_atomic_def)

section \<open>Instants\<close>

text \<open>
  \<open>datetime.datetime\<close>: \<open>offset = None\<close> is a naive value, \<open>offset = Some k\<close> an aware one whose
  \<open>utcoffset()\<close> is \<open>k\<close> microseconds. \<open>instant\<close> counts microseconds: from the epoch in UTC for an
  aware value, of the wall clock for a naive one. Two aware values compare by their instants;
  comparing an aware with a naive value raises \<open>TypeError\<close>. A \<open>timedelta\<close> is an \<open>int\<close> of
  microseconds.
\<close>

record datetime =
  instant :: int
  offset :: "int option"

definition utc :: "int \<Rightarrow> datetime" where
  "utc t = \<lparr>instant = t, offset = Some 0\<rparr>"

definition is_utc :: "datetime \<Rightarrow> bool" where
  "is_utc d \<longleftrightarrow> offset d = Some 0"

definition incomparable :: "datetime \<Rightarrow> datetime \<Rightarrow> bool" where
  "incomparable a b \<longleftrightarrow> (offset a = None) \<noteq> (offset b = None)"

definition dt_le :: "datetime \<Rightarrow> datetime \<Rightarrow> bool" where
  "dt_le a b \<longleftrightarrow> instant a \<le> instant b"

definition dt_less :: "datetime \<Rightarrow> datetime \<Rightarrow> bool" where
  "dt_less a b \<longleftrightarrow> instant a < instant b"

definition dt_eq :: "datetime \<Rightarrow> datetime \<Rightarrow> bool" where
  "dt_eq a b \<longleftrightarrow> instant a = instant b \<and> \<not> incomparable a b"

definition dt_add :: "datetime \<Rightarrow> int \<Rightarrow> datetime" where
  "dt_add d delta = d\<lparr>instant := instant d + delta\<rparr>"

definition hours :: "int \<Rightarrow> int" where
  "hours n = n * 3600 * 1000000"

text \<open>\<open>_require_aware_utc\<close> and \<open>_require_utc\<close>: the guard the modules repeat.\<close>

definition require_utc :: "datetime \<Rightarrow> error option" where
  "require_utc d = guard (offset d \<noteq> Some 0) ValueError"

fun require_utc_opt :: "datetime option \<Rightarrow> error option" where
  "require_utc_opt None = None"
| "require_utc_opt (Some d) = require_utc d"

lemma require_utc_None [simp]: "require_utc d = None \<longleftrightarrow> is_utc d"
  by (simp add: require_utc_def is_utc_def)

lemma require_utc_passes [simp]: "is_utc d \<Longrightarrow> require_utc d = None"
  by simp

lemma require_utc_fails: "\<not> is_utc d \<Longrightarrow> require_utc d = Some ValueError"
  by (simp add: require_utc_def is_utc_def)

lemma require_utc_Some [simp]: "require_utc d = Some e \<longleftrightarrow> \<not> is_utc d \<and> e = ValueError"
  by (auto simp: require_utc_def is_utc_def)

text \<open>Guards that compare two instants: \<open>if a <= b: raise e\<close> and \<open>if a < b: raise e\<close>.\<close>

definition le_guard :: "datetime \<Rightarrow> datetime \<Rightarrow> error \<Rightarrow> error option" where
  "le_guard a b e = (if incomparable a b then Some TypeError else guard (dt_le a b) e)"

definition less_guard :: "datetime \<Rightarrow> datetime \<Rightarrow> error \<Rightarrow> error option" where
  "less_guard a b e = (if incomparable a b then Some TypeError else guard (dt_less a b) e)"

lemma le_guard_None [simp]: "le_guard a b e = None \<longleftrightarrow> \<not> incomparable a b \<and> \<not> dt_le a b"
  by (simp add: le_guard_def)

lemma less_guard_None [simp]: "less_guard a b e = None \<longleftrightarrow> \<not> incomparable a b \<and> \<not> dt_less a b"
  by (simp add: less_guard_def)

text \<open>Tests that compare two instants in a condition: a value, or \<open>TypeError\<close>.\<close>

definition le_test :: "datetime \<Rightarrow> datetime \<Rightarrow> error + bool" where
  "le_test a b = (if incomparable a b then Inl TypeError else Inr (dt_le a b))"

definition less_test :: "datetime \<Rightarrow> datetime \<Rightarrow> error + bool" where
  "less_test a b = (if incomparable a b then Inl TypeError else Inr (dt_less a b))"

fun branch :: "error + 'a \<Rightarrow> 's \<Rightarrow> ('a \<Rightarrow> ('b, 's) outcome) \<Rightarrow> ('b, 's) outcome" where
  "branch (Inl e) s k = Raise e s"
| "branch (Inr x) s k = k x"

lemma branch_Done: "branch b s k = Done r t \<longleftrightarrow> (\<exists>x. b = Inr x \<and> k x = Done r t)"
  by (cases b) auto

lemma le_test_Inr [simp]: "le_test a b = Inr x \<longleftrightarrow> \<not> incomparable a b \<and> x = dt_le a b"
  by (auto simp: le_test_def)

lemma less_test_Inr [simp]: "less_test a b = Inr x \<longleftrightarrow> \<not> incomparable a b \<and> x = dt_less a b"
  by (auto simp: less_test_def)

text \<open>An optional instant that is in UTC when present.\<close>

fun utc_opt :: "datetime option \<Rightarrow> bool" where
  "utc_opt None \<longleftrightarrow> True"
| "utc_opt (Some d) \<longleftrightarrow> is_utc d"

lemma require_utc_opt_None [simp]: "require_utc_opt d = None \<longleftrightarrow> utc_opt d"
  by (cases d) simp_all

lemma is_utc_utc [simp]: "is_utc (utc t)" "instant (utc t) = t" "offset (utc t) = Some 0"
  by (simp_all add: is_utc_def utc_def)

lemma dt_add_simps [simp]: "instant (dt_add d k) = instant d + k" "offset (dt_add d k) = offset d"
  by (simp_all add: dt_add_def)

lemma dt_add_utc [simp]: "dt_add (utc t) k = utc (t + k)"
  by (simp add: dt_add_def utc_def)

lemma is_utc_dt_add [simp]: "is_utc (dt_add d k) \<longleftrightarrow> is_utc d"
  by (simp add: is_utc_def)

lemma comparable_utc: "is_utc a \<Longrightarrow> is_utc b \<Longrightarrow> \<not> incomparable a b"
  by (simp add: is_utc_def incomparable_def)

lemmas dt_defs = dt_le_def dt_less_def dt_eq_def

section \<open>JSON values carried by the aggregates\<close>

datatype json =
    JNull
  | JBool bool
  | JInt int
  | JStr string
  | JArr "json list"
  | JObj "(string \<times> json) list"

section \<open>Comprehensions\<close>

text \<open>A list comprehension whose element expression can raise: the first exception ends it.\<close>

fun collect :: "('a \<Rightarrow> error + 'b) \<Rightarrow> 'a list \<Rightarrow> error + 'b list" where
  "collect f [] = Inr []"
| "collect f (x # xs) =
     (case f x of Inl e \<Rightarrow> Inl e
      | Inr y \<Rightarrow> (case collect f xs of Inl e \<Rightarrow> Inl e | Inr ys \<Rightarrow> Inr (y # ys)))"

lemma collect_Cons: "collect f (x # xs) = Inr zs \<longleftrightarrow> (\<exists>y ys. zs = y # ys \<and> f x = Inr y \<and> collect f xs = Inr ys)"
  by (auto split: sum.splits)

lemma collect_Inr: "collect f xs = Inr ys \<longleftrightarrow> list_all2 (\<lambda>x y. f x = Inr y) xs ys"
  by (induction xs arbitrary: ys) (auto simp: collect_Cons list_all2_Cons1 simp del: collect.simps(2))

lemma collect_image:
  "collect f xs = Inr ys \<Longrightarrow> (\<And>x y. f x = Inr y \<Longrightarrow> h y = g x) \<Longrightarrow> map h ys = map g xs"
  by (induction xs arbitrary: ys) (auto simp: collect_Cons simp del: collect.simps(2))

lemma collect_member: "collect f xs = Inr ys \<Longrightarrow> y \<in> set ys \<Longrightarrow> \<exists>x \<in> set xs. f x = Inr y"
  by (induction xs arbitrary: ys) (auto simp: collect_Cons simp del: collect.simps(2))

lemma collect_source: "collect f xs = Inr ys \<Longrightarrow> x \<in> set xs \<Longrightarrow> \<exists>y. f x = Inr y"
  by (induction xs arbitrary: ys) (auto simp: collect_Cons simp del: collect.simps(2))

lemma collect_answers: "(\<forall>x \<in> set xs. \<exists>y. f x = Inr y) \<Longrightarrow> \<exists>ys. collect f xs = Inr ys"
  by (induction xs) (auto split: sum.splits)

section \<open>Calls without an object\<close>

text \<open>\<open>attempt\<close> hands on the value of a call, \<open>ensure\<close> runs a guard first; an exception ends both.\<close>

fun attempt :: "error + 'a \<Rightarrow> ('a \<Rightarrow> error + 'b) \<Rightarrow> error + 'b" where
  "attempt (Inl e) k = Inl e"
| "attempt (Inr x) k = k x"

fun ensure :: "error option \<Rightarrow> error + 'b \<Rightarrow> error + 'b" where
  "ensure None k = k"
| "ensure (Some e) k = Inl e"

lemma attempt_Inr [simp]: "attempt m k = Inr y \<longleftrightarrow> (\<exists>x. m = Inr x \<and> k x = Inr y)"
  by (cases m) auto

lemma ensure_Inr [simp]: "ensure g k = Inr y \<longleftrightarrow> g = None \<and> k = Inr y"
  by (cases g) auto

lemma attempt_Inl: "attempt m k = Inl e \<longleftrightarrow> m = Inl e \<or> (\<exists>x. m = Inr x \<and> k x = Inl e)"
  by (cases m) auto

lemma ensure_Inl: "ensure g k = Inl e \<longleftrightarrow> g = Some e \<or> g = None \<and> k = Inl e"
  by (cases g) auto

section \<open>Truth of optional values\<close>

text \<open>\<open>x or y\<close> on an optional value whose present values are all true, such as a \<open>datetime\<close>.\<close>

fun or_else :: "'a option \<Rightarrow> 'a \<Rightarrow> 'a" where
  "or_else None d = d"
| "or_else (Some a) d = a"

lemma or_else_Some [simp]: "Some (or_else x d) \<noteq> None"
  by simp

end
