(* ===== verification/Identity.thy ===== *)
theory Identity
  imports Prelude "HOL-Library.List_Lexorder" "HOL-Library.Char_ord"
begin

text \<open>
  Text predicates and the identifiers of the domain package: \<open>ids.py\<close>, \<open>workspace_identity.py\<close>
  and \<open>retention.py\<close>, with the validators the other modules repeat (tokens, lower-case SHA-256
  digests, bounded text).

  A Python string is the list of its code points; \<open>char\<close> holds the first 256 of them, so the model
  covers Latin-1 text. All patterns of the code are ASCII patterns, which reject every character
  beyond it anyway.
\<close>

unbundle bit_operations_syntax

section \<open>Character classes\<close>

definition code :: "char \<Rightarrow> nat" where
  "code c = of_char c"

definition between :: "nat \<Rightarrow> nat \<Rightarrow> char \<Rightarrow> bool" where
  "between lo hi c \<longleftrightarrow> lo \<le> code c \<and> code c \<le> hi"

definition is_digit :: "char \<Rightarrow> bool" where
  "is_digit c \<longleftrightarrow> between 48 57 c"

definition is_alnum :: "char \<Rightarrow> bool" where
  "is_alnum c \<longleftrightarrow> is_digit c \<or> between 65 90 c \<or> between 97 122 c"

definition is_hex :: "char \<Rightarrow> bool" where
  "is_hex c \<longleftrightarrow> is_digit c \<or> between 65 70 c \<or> between 97 102 c"

definition is_lower_hex :: "char \<Rightarrow> bool" where
  "is_lower_hex c \<longleftrightarrow> is_digit c \<or> between 97 102 c"

text \<open>Unicode category \<open>Cc\<close> and \<open>str.isspace\<close> on the first 256 code points.\<close>

definition is_control :: "char \<Rightarrow> bool" where
  "is_control c \<longleftrightarrow> code c < 32 \<or> (127 \<le> code c \<and> code c < 160)"

definition is_space :: "char \<Rightarrow> bool" where
  "is_space c \<longleftrightarrow> between 9 13 c \<or> between 28 32 c \<or> code c = 133 \<or> code c = 160"

definition strip :: "string \<Rightarrow> string" where
  "strip s = rev (dropWhile is_space (rev (dropWhile is_space s)))"

definition lower_char :: "char \<Rightarrow> char" where
  "lower_char c =
     (if between 65 90 c \<or> (between 192 222 c \<and> code c \<noteq> 215) then char_of (code c + 32) else c)"

definition lower :: "string \<Rightarrow> string" where
  "lower s = map lower_char s"

text \<open>\<open>startswith\<close>, \<open>endswith\<close>, and the length of the UTF-8 encoding.\<close>

definition starts_with :: "string \<Rightarrow> string \<Rightarrow> bool" where
  "starts_with p s \<longleftrightarrow> take (length p) s = p"

definition ends_with :: "string \<Rightarrow> string \<Rightarrow> bool" where
  "ends_with suffix s \<longleftrightarrow> length suffix \<le> length s \<and> drop (length s - length suffix) s = suffix"

definition utf8_length :: "string \<Rightarrow> nat" where
  "utf8_length s = sum_list (map (\<lambda>c. if code c < 128 then 1 else 2) s)"

section \<open>Patterns\<close>

text \<open>\<open>^[A-Za-z0-9][A-Za-z0-9._:-]{0,127}$\<close>, the workspace and token pattern.\<close>

definition is_token_char :: "char \<Rightarrow> bool" where
  "is_token_char c \<longleftrightarrow> is_alnum c \<or> c \<in> set ''._:-''"

fun is_token :: "string \<Rightarrow> bool" where
  "is_token [] \<longleftrightarrow> False"
| "is_token (c # cs) \<longleftrightarrow> is_alnum c \<and> length cs \<le> 127 \<and> list_all is_token_char cs"

definition is_valid_workspace_id :: "string \<Rightarrow> bool" where
  "is_valid_workspace_id v \<longleftrightarrow> is_token v"

definition validate_workspace_id :: "string \<Rightarrow> error option" where
  "validate_workspace_id v = guard (\<not> is_valid_workspace_id v) ValueError"

definition validate_token :: "string \<Rightarrow> error option" where
  "validate_token v = guard (\<not> is_token v) ValueError"

fun validate_token_opt :: "string option \<Rightarrow> error option" where
  "validate_token_opt None = None"
| "validate_token_opt (Some v) = validate_token v"

text \<open>\<open>^[0-9a-f]{64}$\<close>\<close>

definition is_sha256 :: "string \<Rightarrow> bool" where
  "is_sha256 v \<longleftrightarrow> length v = 64 \<and> list_all is_lower_hex v"

definition validate_sha256 :: "string \<Rightarrow> error option" where
  "validate_sha256 v = guard (\<not> is_sha256 v) ValueError"

text \<open>Non-empty, stripped, bounded text without control characters.\<close>

definition is_text :: "nat \<Rightarrow> string \<Rightarrow> bool" where
  "is_text maximum v \<longleftrightarrow>
     v \<noteq> [] \<and> v = strip v \<and> length v \<le> maximum \<and> \<not> list_ex is_control v"

definition validate_text :: "nat \<Rightarrow> string \<Rightarrow> error option" where
  "validate_text maximum v = guard (\<not> is_text maximum v) ValueError"

lemmas validator_defs = validate_workspace_id_def validate_token_def validate_sha256_def
  validate_text_def is_valid_workspace_id_def

section \<open>UUID text\<close>

definition hex_value :: "char \<Rightarrow> nat" where
  "hex_value c = (if is_digit c then code c - 48 else if between 97 102 c then code c - 87 else code c - 55)"

definition hex_digit :: "nat \<Rightarrow> char" where
  "hex_digit n = char_of (if n < 10 then 48 + n else 87 + n)"

definition parse_hex :: "string \<Rightarrow> nat" where
  "parse_hex s = foldl (\<lambda>acc c. 16 * acc + hex_value c) 0 s"

text \<open>\<open>'%0<width>x' % n\<close> for a number of at most \<open>width\<close> hexadecimal digits.\<close>

fun format_hex :: "nat \<Rightarrow> nat \<Rightarrow> string" where
  "format_hex 0 n = []"
| "format_hex (Suc width) n = format_hex width (n div 16) @ [hex_digit (n mod 16)]"

text \<open>\<open>str(UUID(int=n))\<close>\<close>

definition hyphenate :: "string \<Rightarrow> string" where
  "hyphenate h = take 8 h @ ''-'' @ take 4 (drop 8 h) @ ''-'' @ take 4 (drop 12 h) @ ''-'' @
     take 4 (drop 16 h) @ ''-'' @ drop 20 h"

definition uuid_str :: "nat \<Rightarrow> string" where
  "uuid_str n = hyphenate (format_hex 32 n)"

text \<open>
  \<open>_HYPHENATED_UUID_PATTERN.fullmatch\<close>: groups of 8, 4, 4, 4 and 12 hexadecimal digits with
  hyphens between them.
\<close>

definition is_uuid_text :: "string \<Rightarrow> bool" where
  "is_uuid_text v \<longleftrightarrow> length v = 36 \<and>
     list_all is_hex (take 8 v) \<and> v ! 8 = CHR ''-'' \<and>
     list_all is_hex (take 4 (drop 9 v)) \<and> v ! 13 = CHR ''-'' \<and>
     list_all is_hex (take 4 (drop 14 v)) \<and> v ! 18 = CHR ''-'' \<and>
     list_all is_hex (take 4 (drop 19 v)) \<and> v ! 23 = CHR ''-'' \<and>
     list_all is_hex (drop 24 v)"

definition canonicalize_uuid :: "string \<Rightarrow> error + string" where
  "canonicalize_uuid v =
     (if \<not> is_uuid_text v then Inl ValueError
      else Inr (uuid_str (parse_hex (filter (\<lambda>c. c \<noteq> CHR ''-'') v))))"

text \<open>\<open>_validate_uuid\<close> of the aggregates: the value must already be canonical.\<close>

definition validate_uuid :: "string \<Rightarrow> error option" where
  "validate_uuid v =
     (case canonicalize_uuid v of
        Inl _ \<Rightarrow> Some ValueError
      | Inr c \<Rightarrow> guard (c \<noteq> v) ValueError)"

text \<open>\<open>canonicalize_uuid(value)\<close> called for its exception only.\<close>

definition parses_uuid :: "string \<Rightarrow> error option" where
  "parses_uuid v = (case canonicalize_uuid v of Inl e \<Rightarrow> Some e | Inr _ \<Rightarrow> None)"

text \<open>
  \<open>new_uuid7\<close>: the clock in milliseconds and the random bits are arguments, \<open>random_a\<close> of 12 and
  \<open>random_b\<close> of 62 bits.
\<close>

definition uuid7_value :: "nat \<Rightarrow> nat \<Rightarrow> nat \<Rightarrow> nat" where
  "uuid7_value unix_ms random_a random_b =
     push_bit 80 unix_ms OR push_bit 76 7 OR push_bit 64 random_a OR push_bit 62 2 OR random_b"

definition new_uuid7 :: "nat \<Rightarrow> nat \<Rightarrow> nat \<Rightarrow> error + string" where
  "new_uuid7 unix_ms random_a random_b =
     (if unix_ms \<ge> push_bit 48 1 then Inl OverflowError
      else Inr (uuid_str (uuid7_value unix_ms random_a random_b)))"

section \<open>Retention\<close>

definition task_retention_max_hours :: int where
  "task_retention_max_hours = 72"

text \<open>\<open>min\<close> keeps its first argument unless the second is smaller; instants that cannot be compared raise.\<close>

definition canonical_task_retention_deadline :: "datetime \<Rightarrow> datetime \<Rightarrow> error + datetime" where
  "canonical_task_retention_deadline created_at expires_at =
     (let limit = dt_add created_at (hours task_retention_max_hours)
      in case less_test limit expires_at of
           Inl e \<Rightarrow> Inl e
         | Inr earlier \<Rightarrow> Inr (if earlier then limit else expires_at))"

section \<open>Hexadecimal text\<close>

lemma code_char_of [simp]: "n < 256 \<Longrightarrow> code (char_of n) = n"
  by (simp add: code_def)

lemma code_eq_iff: "code c = code d \<longleftrightarrow> c = d"
  by (simp add: code_def)

lemma code_char [simp]: "char_of (code c) = c"
  by (simp add: code_def)

lemmas class_defs = between_def is_digit_def is_alnum_def is_hex_def is_lower_hex_def

lemma hex_value_digit [simp]: "n < 16 \<Longrightarrow> hex_value (hex_digit n) = n"
  by (auto simp: hex_value_def hex_digit_def class_defs)

lemma hex_digit_lower_hex [simp]: "n < 16 \<Longrightarrow> is_lower_hex (hex_digit n)"
  by (auto simp: hex_digit_def class_defs)

lemma lower_hex_is_hex: "is_lower_hex c \<Longrightarrow> is_hex c"
  by (auto simp: class_defs)

lemma hex_not_hyphen: "is_hex c \<Longrightarrow> c \<noteq> CHR ''-''"
  by (auto simp: class_defs code_def)

lemma hex_value_bound: "is_hex c \<Longrightarrow> hex_value c < 16"
  by (auto simp: hex_value_def class_defs)

lemma hex_digit_value: "is_hex c \<Longrightarrow> hex_digit (hex_value c) = lower_char c"
  by (auto simp: hex_value_def hex_digit_def lower_char_def class_defs code_eq_iff [symmetric])

lemma lower_char_lower_hex: "is_lower_hex c \<Longrightarrow> lower_char c = c"
  by (auto simp: lower_char_def class_defs)

lemma lower_char_hex: "is_hex c \<Longrightarrow> is_lower_hex (lower_char c)"
  by (auto simp: lower_char_def class_defs)

lemma parse_hex_Nil [simp]: "parse_hex [] = 0"
  by (simp add: parse_hex_def)

lemma parse_hex_snoc [simp]: "parse_hex (s @ [c]) = 16 * parse_hex s + hex_value c"
  by (simp add: parse_hex_def)

lemma length_format_hex [simp]: "length (format_hex w n) = w"
  by (induction w arbitrary: n) auto

lemma format_hex_lower_hex: "list_all is_lower_hex (format_hex w n)"
  by (induction w arbitrary: n) auto

lemma parse_format_hex: "n < 16 ^ w \<Longrightarrow> parse_hex (format_hex w n) = n"
proof (induction w arbitrary: n)
  case (Suc w)
  then have "n div 16 < 16 ^ w" by (simp add: less_mult_imp_div_less mult.commute)
  with Suc.IH show ?case by simp
qed simp

lemma parse_hex_bound: "list_all is_hex s \<Longrightarrow> parse_hex s < 16 ^ length s"
proof (induction s rule: rev_induct)
  case (snoc c s)
  then have "parse_hex s < 16 ^ length s" and "hex_value c < 16" by (auto intro: hex_value_bound)
  then show ?case by simp
qed simp

lemma format_parse_hex: "list_all is_hex s \<Longrightarrow> format_hex (length s) (parse_hex s) = lower s"
proof (induction s rule: rev_induct)
  case (snoc c s)
  then have c: "hex_value c < 16" and s: "format_hex (length s) (parse_hex s) = lower s"
    and h: "is_hex c" by (auto intro: hex_value_bound)
  from c have "(16 * parse_hex s + hex_value c) div 16 = parse_hex s"
    and "(16 * parse_hex s + hex_value c) mod 16 = hex_value c" by auto
  with s h show ?case by (simp add: lower_def hex_digit_value)
qed (simp add: lower_def)

section \<open>Canonical UUID text\<close>

lemma drop_split: "drop n v = take k (drop n v) @ drop (n + k) v"
  by (metis append_take_drop_id drop_drop add.commute)

text \<open>A UUID text is its five groups; \<open>hyphenate\<close> puts the same groups back together.\<close>

lemma uuid_text_groups:
  assumes "is_uuid_text v"
  obtains a b c d e where
    "v = a @ ''-'' @ b @ ''-'' @ c @ ''-'' @ d @ ''-'' @ e"
    "length a = 8" "length b = 4" "length c = 4" "length d = 4" "length e = 12"
    "list_all is_hex (a @ b @ c @ d @ e)"
proof -
  have len: "length v = 36" using assms by (simp add: is_uuid_text_def)
  have cut: "drop n v = v ! n # drop (Suc n) v" if "n < 36" for n
    using that len by (simp add: Cons_nth_drop_Suc)
  have "v = take 8 v @ drop 8 v" by simp
  also have "drop 8 v = ''-'' @ drop 9 v" using cut [of 8] assms by (simp add: is_uuid_text_def)
  also have "drop 9 v = take 4 (drop 9 v) @ drop 13 v" using drop_split [of 9 v 4] by simp
  also have "drop 13 v = ''-'' @ drop 14 v" using cut [of 13] assms by (simp add: is_uuid_text_def)
  also have "drop 14 v = take 4 (drop 14 v) @ drop 18 v" using drop_split [of 14 v 4] by simp
  also have "drop 18 v = ''-'' @ drop 19 v" using cut [of 18] assms by (simp add: is_uuid_text_def)
  also have "drop 19 v = take 4 (drop 19 v) @ drop 23 v" using drop_split [of 19 v 4] by simp
  also have "drop 23 v = ''-'' @ drop 24 v" using cut [of 23] assms by (simp add: is_uuid_text_def)
  finally show ?thesis using assms len by (intro that) (auto simp: is_uuid_text_def)
qed

lemma is_uuid_text_groupsI:
  assumes "length a = 8" "length b = 4" "length c = 4" "length d = 4" "length e = 12"
    and "list_all is_hex (a @ b @ c @ d @ e)"
  shows "is_uuid_text (a @ CHR ''-'' # b @ CHR ''-'' # c @ CHR ''-'' # d @ CHR ''-'' # e)"
  using assms by (simp add: is_uuid_text_def nth_append)

lemma hyphenate_groups:
  assumes "length a = 8" "length b = 4" "length c = 4" "length d = 4"
  shows "hyphenate (a @ b @ c @ d @ e) = a @ ''-'' @ b @ ''-'' @ c @ ''-'' @ d @ ''-'' @ e"
  using assms by (simp add: hyphenate_def)

lemma groups_of_32:
  assumes "length h = 32"
  obtains a b c d e where "h = a @ b @ c @ d @ e" "length a = 8" "length b = 4" "length c = 4"
    "length d = 4" "length e = 12"
proof -
  have "h = take 8 h @ drop 8 h" by simp
  also have "drop 8 h = take 4 (drop 8 h) @ drop 12 h" using drop_split [of 8 h 4] by simp
  also have "drop 12 h = take 4 (drop 12 h) @ drop 16 h" using drop_split [of 12 h 4] by simp
  also have "drop 16 h = take 4 (drop 16 h) @ drop 20 h" using drop_split [of 16 h 4] by simp
  finally show ?thesis using assms by (intro that) auto
qed

lemma filter_hex: "list_all is_hex s \<Longrightarrow> filter (\<lambda>c. c \<noteq> CHR ''-'') s = s"
  by (induction s) (auto dest: hex_not_hyphen)

lemma lower_hyphen [simp]: "lower_char CHR ''-'' = CHR ''-''"
  by (simp add: lower_char_def between_def code_def)

lemma hyphenate_inj: "length g = 32 \<Longrightarrow> length h = 32 \<Longrightarrow> hyphenate g = hyphenate h \<Longrightarrow> g = h"
  by (erule groups_of_32, erule groups_of_32) (simp add: hyphenate_groups)

lemma canonicalize_uuid_eq:
  "canonicalize_uuid v = (if is_uuid_text v then Inr (lower v) else Inl ValueError)"
proof (cases "is_uuid_text v")
  case True
  then obtain a b c d e where v: "v = a @ ''-'' @ b @ ''-'' @ c @ ''-'' @ d @ ''-'' @ e"
    and len: "length a = 8" "length b = 4" "length c = 4" "length d = 4" "length e = 12"
    and hex: "list_all is_hex (a @ b @ c @ d @ e)" by (rule uuid_text_groups)
  have "filter (\<lambda>c. c \<noteq> CHR ''-'') v = a @ b @ c @ d @ e"
    using hex by (simp add: v filter_hex)
  moreover have "uuid_str (parse_hex (a @ b @ c @ d @ e)) = hyphenate (lower (a @ b @ c @ d @ e))"
    using format_parse_hex [OF hex] len by (simp add: uuid_str_def)
  moreover have "hyphenate (lower (a @ b @ c @ d @ e)) = lower v"
    using len by (simp add: v lower_def hyphenate_groups)
  ultimately show ?thesis using True by (simp add: canonicalize_uuid_def)
qed (simp add: canonicalize_uuid_def)

lemma lower_hex_idem: "list_all is_hex s \<Longrightarrow> lower (lower s) = lower s"
  by (induction s) (auto simp: lower_def lower_char_lower_hex lower_char_hex)

lemma uuid_text_lower: "is_uuid_text v \<Longrightarrow> is_uuid_text (lower v) \<and> lower (lower v) = lower v"
  by (erule uuid_text_groups)
    (auto simp: lower_def list_all_iff lower_char_hex lower_hex_is_hex lower_char_lower_hex
          intro!: is_uuid_text_groupsI)

lemma validate_uuid_iff: "validate_uuid v = None \<longleftrightarrow> is_uuid_text v \<and> lower v = v"
  by (auto simp: validate_uuid_def canonicalize_uuid_eq)

lemma uuid_str_text: "is_uuid_text (uuid_str n) \<and> lower (uuid_str n) = uuid_str n"
proof -
  obtain a b c d e where h: "format_hex 32 n = a @ b @ c @ d @ e"
    and len: "length a = 8" "length b = 4" "length c = 4" "length d = 4" "length e = 12"
    by (rule groups_of_32 [of "format_hex 32 n"]) simp_all
  have low: "list_all is_lower_hex (a @ b @ c @ d @ e)"
    using format_hex_lower_hex [of 32 n] by (simp add: h)
  then have "list_all is_hex (a @ b @ c @ d @ e)" by (auto simp: list_all_iff lower_hex_is_hex)
  moreover have "lower s = s" if "list_all is_lower_hex s" for s
    using that by (induction s) (auto simp: lower_def lower_char_lower_hex)
  ultimately show ?thesis using len low
    by (auto simp: uuid_str_def h hyphenate_groups lower_def intro!: is_uuid_text_groupsI)
qed

lemma validate_uuid_str [simp]: "validate_uuid (uuid_str n) = None"
  by (simp add: validate_uuid_iff uuid_str_text)

lemma parses_uuid_str [simp]: "parses_uuid (uuid_str n) = None"
  using validate_uuid_str [of n] by (simp add: parses_uuid_def validate_uuid_def split: sum.splits)

section \<open>Order of UUID text\<close>

lemma append_less_append:
  "length u = length v \<Longrightarrow> (u @ x < v @ y) \<longleftrightarrow> u < v \<or> (u = v \<and> x < (y :: 'a :: linorder list))"
proof (induction u v rule: list_induct2)
  case (Cons a u b v)
  then show ?case by (simp only: append_Cons Cons_less_Cons) blast
qed simp

lemma hex_digit_less: "a < 16 \<Longrightarrow> b < 16 \<Longrightarrow> hex_digit a < hex_digit b \<longleftrightarrow> a < b"
  by (auto simp: less_char_def hex_digit_def)

lemma less_div_mod_16:
  "m < n \<longleftrightarrow> m div 16 < n div 16 \<or> (m div 16 = n div 16 \<and> m mod 16 < n mod (16 :: nat))"
proof -
  have m: "m = 16 * (m div 16) + m mod 16" "m mod 16 < 16"
    and n: "n = 16 * (n div 16) + n mod 16" "n mod 16 < 16" by simp_all
  show ?thesis
  proof (cases "m div 16 < n div 16")
    case True
    then have "m < n" using m n by linarith
    with True show ?thesis by simp
  next
    case False
    then show ?thesis using m n by linarith
  qed
qed

lemma format_hex_less:
  "m < 16 ^ w \<Longrightarrow> n < 16 ^ w \<Longrightarrow> format_hex w m < format_hex w n \<longleftrightarrow> m < n"
proof (induction w arbitrary: m n)
  case (Suc w)
  then have b: "m div 16 < 16 ^ w" "n div 16 < 16 ^ w"
    by (simp_all add: less_mult_imp_div_less mult.commute)
  have eq: "format_hex w (m div 16) = format_hex w (n div 16) \<longleftrightarrow> m div 16 = n div 16"
    using parse_format_hex [OF b(1)] parse_format_hex [OF b(2)] by metis
  have "m < n \<longleftrightarrow> m div 16 < n div 16 \<or> (m div 16 = n div 16 \<and> m mod 16 < n mod 16)"
    by (rule less_div_mod_16)
  then show ?case using Suc.IH [OF b] eq by (auto simp: append_less_append hex_digit_less)
qed simp

lemma hyphenate_less:
  "length g = 32 \<Longrightarrow> length h = 32 \<Longrightarrow> hyphenate g < hyphenate h \<longleftrightarrow> g < h"
  by (erule groups_of_32, erule groups_of_32) (simp add: hyphenate_groups append_less_append)

lemma uuid_str_less: "m < 16 ^ 32 \<Longrightarrow> n < 16 ^ 32 \<Longrightarrow> uuid_str m < uuid_str n \<longleftrightarrow> m < n"
  by (simp add: uuid_str_def hyphenate_less format_hex_less)

section \<open>Version 7 layout\<close>

lemma or_as_plus: "x < 2 ^ k \<Longrightarrow> push_bit k y OR x = y * 2 ^ k + (x :: nat)"
proof -
  assume "x < 2 ^ k"
  then have "\<not> bit x n" if "k \<le> n" for n
    using that order_less_le_trans [of x "2 ^ k" "2 ^ n"] by (simp add: bit_iff_odd)
  then have "push_bit k y AND x = 0"
    by (intro bit_eqI) (auto simp: bit_and_iff bit_push_bit_iff)
  then show ?thesis by (metis disjunctive_add_eq_or push_bit_eq_mult)
qed

lemma uuid7_value_sum:
  assumes "a < 2 ^ 12" "b < 2 ^ 62"
  shows "uuid7_value ms a b = ms * 2 ^ 80 + 7 * 2 ^ 76 + a * 2 ^ 64 + 2 * 2 ^ 62 + b"
proof -
  have "push_bit 62 2 OR b = 2 * 2 ^ 62 + b" by (metis assms(2) or_as_plus push_bit_eq_mult)
  moreover have "push_bit 64 a OR (2 * 2 ^ 62 + b) = a * 2 ^ 64 + (2 * 2 ^ 62 + b)"
    using assms(2) by (intro or_as_plus) simp
  moreover have "push_bit 76 7 OR (a * 2 ^ 64 + (2 * 2 ^ 62 + b)) = 7 * 2 ^ 76 + (a * 2 ^ 64 + (2 * 2 ^ 62 + b))"
    using assms by (intro or_as_plus) simp
  moreover have "push_bit 80 ms OR (7 * 2 ^ 76 + (a * 2 ^ 64 + (2 * 2 ^ 62 + b))) =
      ms * 2 ^ 80 + (7 * 2 ^ 76 + (a * 2 ^ 64 + (2 * 2 ^ 62 + b)))"
    using assms by (intro or_as_plus) simp
  ultimately show ?thesis by (simp add: uuid7_value_def or.assoc)
qed

lemma uuid7_value_bound:
  assumes "ms < 2 ^ 48" "a < 2 ^ 12" "b < 2 ^ 62"
  shows "uuid7_value ms a b < 16 ^ 32"
  using assms by (simp add: uuid7_value_sum)

lemma uuid7_value_less:
  assumes "ms < ms'" "a < 2 ^ 12" "b < 2 ^ 62" "a' < 2 ^ 12" "b' < 2 ^ 62"
  shows "uuid7_value ms a b < uuid7_value ms' a' b'"
  using assms by (simp add: uuid7_value_sum)

lemma format_hex_nth: "i < w \<Longrightarrow> format_hex w n ! i = hex_digit (n div 16 ^ (w - 1 - i) mod 16)"
proof (induction w arbitrary: n)
  case (Suc w)
  show ?case
  proof (cases "i < w")
    case True
    then have "w - i = Suc (w - 1 - i)" by simp
    with Suc.IH [OF True, of "n div 16"] True show ?thesis
      by (simp add: nth_append div_mult2_eq)
  next
    case False
    with Suc.prems have "i = w" by simp
    then show ?thesis by (simp add: nth_append)
  qed
qed simp

lemma uuid_str_nth:
  "uuid_str n ! 14 = hex_digit (n div 16 ^ 19 mod 16)"
  "uuid_str n ! 19 = hex_digit (n div 16 ^ 15 mod 16)"
proof -
  have "uuid_str n ! 14 = format_hex 32 n ! 12" and "uuid_str n ! 19 = format_hex 32 n ! 16"
    by (simp_all add: uuid_str_def hyphenate_def nth_append)
  then show "uuid_str n ! 14 = hex_digit (n div 16 ^ 19 mod 16)"
    and "uuid_str n ! 19 = hex_digit (n div 16 ^ 15 mod 16)"
    by (simp_all add: format_hex_nth)
qed

lemma uuid7_version_bits:
  assumes "a < 2 ^ 12" "b < 2 ^ 62"
  shows "uuid7_value ms a b div 16 ^ 19 mod 16 = 7"
    and "uuid7_value ms a b div 16 ^ 15 mod 16 \<in> {8..11}"
    and "uuid7_value ms a b div 2 ^ 80 = ms"
proof -
  let ?r = "a * 2 ^ 64 + 2 * 2 ^ 62 + b"
  have v: "uuid7_value ms a b = (16 * ms + 7) * 16 ^ 19 + ?r" and r: "?r < 16 ^ 19"
    using assms by (simp_all add: uuid7_value_sum)
  show "uuid7_value ms a b div 16 ^ 19 mod 16 = 7"
    using r by (simp only: v div_mult_self3 div_less) simp
  have w: "uuid7_value ms a b = (16 * (2 ^ 16 * ms + 7 * 2 ^ 12 + a) + 8) * 16 ^ 15 + b"
    using assms by (simp add: uuid7_value_sum)
  have "b div 16 ^ 15 < 4" using assms by (simp add: less_mult_imp_div_less)
  moreover have "uuid7_value ms a b div 16 ^ 15 = 16 * (2 ^ 16 * ms + 7 * 2 ^ 12 + a) + 8 + b div 16 ^ 15"
    by (simp only: w) simp
  moreover have "(16 * q + 8 + d) mod 16 = 8 + d" if "d < 4" for q d :: nat
    using that by (simp add: add.assoc)
  ultimately show "uuid7_value ms a b div 16 ^ 15 mod 16 \<in> {8..11}"
    by (simp only: atLeastAtMost_iff) linarith
  have "7 * 16 ^ 19 + ?r < 2 ^ 80" using r by simp
  then show "uuid7_value ms a b div 2 ^ 80 = ms" using assms by (simp add: uuid7_value_sum)
qed

lemma hex_digits:
  "hex_digit 0 = CHR ''0''" "hex_digit (Suc 0) = CHR ''1''" "hex_digit 1 = CHR ''1''" "hex_digit 2 = CHR ''2''"
  "hex_digit 3 = CHR ''3''" "hex_digit 4 = CHR ''4''" "hex_digit 5 = CHR ''5''" "hex_digit 6 = CHR ''6''"
  "hex_digit 7 = CHR ''7''" "hex_digit 8 = CHR ''8''" "hex_digit 9 = CHR ''9''" "hex_digit 10 = CHR ''a''"
  "hex_digit 11 = CHR ''b''" "hex_digit 12 = CHR ''c''" "hex_digit 13 = CHR ''d''" "hex_digit 14 = CHR ''e''"
  "hex_digit 15 = CHR ''f''"
  by (simp_all add: hex_digit_def char_of_eq_iff)

lemma format_hex_numeral:
  "format_hex (numeral w) n = format_hex (pred_numeral w) (n div 16) @ [hex_digit (n mod 16)]"
  by (metis format_hex.simps(2) numeral_eq_Suc)

section \<open>Properties\<close>

text \<open>C11: \<open>canonicalize_uuid\<close> parses the text into a 128-bit number and prints it again; the result is
  exactly the lower-case form of the input, it is accepted by the validators of the aggregates, and
  canonicalising again changes nothing. Every other text is refused.
\<close>

theorem canonicalize_uuid_roundtrip:
  "canonicalize_uuid v = (if is_uuid_text v then Inr (lower v) else Inl ValueError)
   \<and> (canonicalize_uuid v = Inr c \<longrightarrow> canonicalize_uuid c = Inr c \<and> validate_uuid c = None)"
  using uuid_text_lower by (auto simp: canonicalize_uuid_eq validate_uuid_iff)

theorem canonicalize_uuid_roundtrip_witness:
  "canonicalize_uuid ''72D9008E-6A96-5CAB-B1F8-A68054A12F4F'' = Inr ''72d9008e-6a96-5cab-b1f8-a68054a12f4f''
   \<and> validate_uuid ''72d9008e-6a96-5cab-b1f8-a68054a12f4f'' = None"
proof -
  have "canonicalize_uuid ''72D9008E-6A96-5CAB-B1F8-A68054A12F4F'' = Inr ''72d9008e-6a96-5cab-b1f8-a68054a12f4f''"
    by (simp add: canonicalize_uuid_eq is_uuid_text_def lower_def lower_char_def class_defs code_def
        char_of_eq_iff)
  with canonicalize_uuid_roundtrip show ?thesis by blast
qed

text \<open>a fresh identifier is canonical UUID text with version digit 7 and an RFC variant digit
  (8, 9, a or b), and identifiers drawn in a later millisecond are greater as text: the ordered
  database keys the function promises.
\<close>

theorem new_uuid7_ordered_keys:
  assumes "random_a < 2 ^ 12" "random_b < 2 ^ 62" "random_a' < 2 ^ 12" "random_b' < 2 ^ 62"
    and "new_uuid7 ms random_a random_b = Inr t" "new_uuid7 ms' random_a' random_b' = Inr t'"
  shows "validate_uuid t = None \<and> t ! 14 = CHR ''7'' \<and> t ! 19 \<in> set ''89ab'' \<and> (ms < ms' \<longrightarrow> t < t')"
proof (intro conjI impI)
  have ms: "ms < 2 ^ 48" "ms' < 2 ^ 48" and t: "t = uuid_str (uuid7_value ms random_a random_b)"
    "t' = uuid_str (uuid7_value ms' random_a' random_b')"
    using assms(5,6) by (auto simp: new_uuid7_def push_bit_eq_mult split: if_splits)
  show "validate_uuid t = None" by (simp add: t)
  show "t ! 14 = CHR ''7''"
    using uuid7_version_bits(1) [OF assms(1,2)] by (simp add: t uuid_str_nth hex_digits)
  have "uuid7_value ms random_a random_b div 16 ^ 15 mod 16 \<in> {8, 9, 10, 11}"
    using uuid7_version_bits(2) [OF assms(1,2), of ms] by (simp only: atLeastAtMost_iff insert_iff) linarith
  then show "t ! 19 \<in> set ''89ab''"
    by (auto simp: t uuid_str_nth hex_digits)
  assume later: "ms < ms'"
  show "t < t'"
    using uuid_str_less [OF uuid7_value_bound [OF ms(1) assms(1,2)] uuid7_value_bound [OF ms(2) assms(3,4)]]
      uuid7_value_less [OF later assms(1-4)] by (simp add: t)
qed

theorem new_uuid7_ordered_keys_witness:
  "new_uuid7 1700000000000 1 5 = Inr ''018bcfe5-6800-7001-8000-000000000005''
   \<and> ''018bcfe5-6800-7001-8000-000000000005'' < ''018bcfe5-6801-7000-8000-000000000000''"
proof -
  have a: "new_uuid7 1700000000000 1 5 = Inr ''018bcfe5-6800-7001-8000-000000000005''" 
    by (simp add: new_uuid7_def uuid7_value_sum uuid_str_def hyphenate_def format_hex_numeral hex_digits)
  have b: "new_uuid7 1700000000001 0 0 = Inr ''018bcfe5-6801-7000-8000-000000000000''" 
    by (simp add: new_uuid7_def uuid7_value_sum uuid_str_def hyphenate_def format_hex_numeral hex_digits)
  show ?thesis using a new_uuid7_ordered_keys [OF _ _ _ _ a b] by simp
qed

end
