(* ===== verification/Interfaces.thy ===== *)
theory Interfaces
  imports Prelude
begin

text \<open>
  The contracts several components share, each stated once as a locale and interpreted on the
  definitions of every component that honours it.

  \<^item> \<open>versioned\<close>: an aggregate with an optimistic version. Its consumers compare the version they
    read with the stored one (\<open>assert_version\<close>, \<open>expected_version\<close>) and act only when they are
    equal; the laws make that comparison sound.
  \<^item> \<open>state_table\<close>: a transition table with terminal states, and \<open>table_driven\<close>, an entity whose
    status only moves along such a table.
  \<^item> \<open>lease_discipline\<close>: exclusive, expiring ownership proved by a fresh token.
\<close>

section \<open>Optimistic versions\<close>

locale versioned =
  fixes step :: "'s \<Rightarrow> 's \<Rightarrow> bool"
    and version :: "'s \<Rightarrow> int"
    and view :: "'s \<Rightarrow> 'v"
  assumes step_version: "step s t \<Longrightarrow> version s < version t \<or> (version t = version s \<and> view t = view s)"
begin

lemma run_version_mono: "step\<^sup>*\<^sup>* s t \<Longrightarrow> version s \<le> version t"
proof (induction rule: rtranclp_induct)
  case base
  show ?case by simp
next
  case (step u t)
  then show ?case using step_version [of u t] by linarith
qed

text \<open>
  An unchanged version is an unchanged object: no run can change the object and come back to the
  version a reader saw (no A-B-A).
\<close>

lemma same_version_same_view: "step\<^sup>*\<^sup>* s t \<Longrightarrow> version t = version s \<Longrightarrow> view t = view s"
proof (induction rule: rtranclp_induct)
  case base
  show ?case by simp
next
  case (step u t)
  have "version s \<le> version u" using step.hyps(1) by (rule run_version_mono)
  with step_version [OF step.hyps(2)] step.prems
  have "version u = version s" and "view t = view u" by auto
  with step.IH show ?case by simp
qed

lemma changed_view_newer: "step\<^sup>*\<^sup>* s t \<Longrightarrow> view t \<noteq> view s \<Longrightarrow> version s < version t"
  using run_version_mono same_version_same_view by (metis order_le_less)

end

section \<open>Transition tables\<close>

locale state_table =
  fixes succs :: "'st \<Rightarrow> 'st list"
    and final :: "'st \<Rightarrow> bool"
    and dist :: "'st \<Rightarrow> nat"
  assumes final_stuck: "final a \<Longrightarrow> succs a = []"
    and way_out: "\<not> final a \<Longrightarrow> \<exists>b \<in> set (succs a). dist b < dist a"
begin

definition edge :: "'st \<Rightarrow> 'st \<Rightarrow> bool" where
  "edge a b \<longleftrightarrow> b \<in> set (succs a)"

lemma final_absorbing: "edge\<^sup>*\<^sup>* a b \<Longrightarrow> final a \<Longrightarrow> b = a"
  by (induction rule: rtranclp_induct) (auto simp: edge_def final_stuck)

lemma final_reachable: "\<exists>b. edge\<^sup>*\<^sup>* a b \<and> final b"
proof (induction "dist a" arbitrary: a rule: less_induct)
  case less
  show ?case
  proof (cases "final a")
    case True
    then show ?thesis by blast
  next
    case False
    then obtain b where b: "edge a b" "dist b < dist a"
      using way_out by (auto simp: edge_def)
    then obtain c where "edge\<^sup>*\<^sup>* b c" "final c" using less by blast
    with b show ?thesis by (meson converse_rtranclp_into_rtranclp)
  qed
qed

end

locale table_driven = state_table succs final dist
  for succs :: "'st \<Rightarrow> 'st list" and final :: "'st \<Rightarrow> bool" and dist :: "'st \<Rightarrow> nat" +
  fixes move :: "'s \<Rightarrow> 's \<Rightarrow> bool"
    and status :: "'s \<Rightarrow> 'st"
  assumes move_edges: "move s t \<Longrightarrow> edge\<^sup>*\<^sup>* (status s) (status t)"
begin

lemma run_follows_table: "move\<^sup>*\<^sup>* s t \<Longrightarrow> edge\<^sup>*\<^sup>* (status s) (status t)"
  by (induction rule: rtranclp_induct) (auto dest: move_edges intro: rtranclp_trans)

lemma final_status_permanent: "move\<^sup>*\<^sup>* s t \<Longrightarrow> final (status s) \<Longrightarrow> status t = status s"
  by (blast dest: run_follows_table intro: final_absorbing)

end

section \<open>Leases\<close>

locale lease_discipline =
  fixes claim :: "'x \<Rightarrow> string \<Rightarrow> datetime \<Rightarrow> 's \<Rightarrow> (string, 's) outcome"
    and settle :: "'y \<Rightarrow> string \<Rightarrow> datetime \<Rightarrow> 's \<Rightarrow> (unit, 's) outcome"
    and live :: "'s \<Rightarrow> datetime \<Rightarrow> bool"
    and token :: "'s \<Rightarrow> string option"
    and until :: "'s \<Rightarrow> datetime option"
  assumes claim_excluded: "live s now \<Longrightarrow> \<exists>e. claim x new now s = Raise e s"
    and claim_grants: "claim x new now s = Done tok t \<Longrightarrow> tok = new \<and> token t = Some new"
    and claim_live: "claim x new now s = Done tok t \<Longrightarrow> is_utc now \<Longrightarrow>
       \<exists>e. until t = Some e \<and> (\<forall>later. is_utc later \<longrightarrow> dt_less later e \<longrightarrow> live t later)"
    and settle_fenced: "token s \<noteq> Some tok \<Longrightarrow> \<exists>e. settle y tok now s = Raise e s"
begin

lemma holder_fences: "token s = Some tok \<Longrightarrow> old \<noteq> tok \<Longrightarrow> \<exists>e. settle y old now s = Raise e s"
  using settle_fenced by simp

text \<open>While the lease of a claim runs nobody else gets one, and only the holder of its token settles.\<close>

lemma claim_exclusive:
  assumes "claim x new now s = Done tok t" "is_utc now"
  shows "\<exists>e. until t = Some e \<and> (\<forall>later. is_utc later \<longrightarrow> dt_less later e \<longrightarrow>
    (\<exists>err. claim x' new' later t = Raise err t) \<and> (old \<noteq> tok \<longrightarrow> (\<exists>err. settle y old when t = Raise err t)))"
proof -
  have "token t = Some tok" using claim_grants [OF assms(1)] by simp
  then show ?thesis using claim_live [OF assms] claim_excluded [of t] holder_fences [of t] by metis
qed

end

end
