(* ===== verification/Workflow_States.thy ===== *)
theory Workflow_States
  imports Interfaces
begin

text \<open>
  The enumerations of \<open>workflow/enums.py\<close> and the transition tables of \<open>workflow/transitions.py\<close>.
  Constructors carry the prefix of their enumeration (\<open>W_\<close>, \<open>R_\<close>, \<open>S_\<close>, \<open>A_\<close>); a table is the list
  of the targets in the order of the source. The locale \<open>state_table\<close> is interpreted on each table.
\<close>

section \<open>Enumerations\<close>

datatype workflow_status =
    W_DRAFT | W_INGESTING | W_UNDERSTANDING | W_AWAITING_PRODUCT_CONFIRMATION | W_RETRIEVING
  | W_PLANNING | W_AWAITING_PLAN_APPROVAL | W_GENERATING | W_EVALUATING | W_REPAIRING
  | W_AWAITING_RESULT_APPROVAL | W_EXPORTING | W_COMPLETED | W_FAILED | W_CANCELLED

definition workflow_terminal :: "workflow_status \<Rightarrow> bool" where
  "workflow_terminal s \<longleftrightarrow> s \<in> {W_COMPLETED, W_FAILED, W_CANCELLED}"

definition workflow_waiting_for_human :: "workflow_status \<Rightarrow> bool" where
  "workflow_waiting_for_human s \<longleftrightarrow>
     s \<in> {W_AWAITING_PRODUCT_CONFIRMATION, W_AWAITING_PLAN_APPROVAL, W_AWAITING_RESULT_APPROVAL}"

datatype retention_status = R_ACTIVE | R_EXPIRING | R_DELETING | R_EXPIRED

datatype step_status =
    S_PENDING | S_QUEUED | S_CLAIMED | S_RUNNING | S_WAITING_HUMAN | S_SUCCEEDED
  | S_RETRYABLE_FAILED | S_FAILED | S_CANCELLED

definition step_terminal :: "step_status \<Rightarrow> bool" where
  "step_terminal s \<longleftrightarrow> s \<in> {S_SUCCEEDED, S_FAILED, S_CANCELLED}"

datatype attempt_status =
    A_CREATED | A_SUBMITTING | A_SUBMITTED | A_POLLING | A_SUCCEEDED | A_UNKNOWN
  | A_RETRYABLE_FAILED | A_PERMANENT_FAILED | A_CANCELLED

definition attempt_terminal :: "attempt_status \<Rightarrow> bool" where
  "attempt_terminal s \<longleftrightarrow> s \<in> {A_SUCCEEDED, A_PERMANENT_FAILED, A_CANCELLED}"

datatype step_type =
    VALIDATE_INPUT | UNDERSTAND_PRODUCT | RETRIEVE_REFERENCES | CREATE_PLAN | APPROVE_PLAN
  | EXECUTE_TOOL | EVALUATE_RESULTS | APPROVE_RESULTS | EXPORT

datatype approval_type = PRODUCT_BRIEF | CREATIVE_PLAN | RESULTS

datatype approval_decision = APPROVE | REJECT | REGENERATE

datatype inbox_status = I_PROCESSING | I_PROCESSED | I_FAILED | I_DEAD

section \<open>Transition tables\<close>

fun workflow_transitions :: "workflow_status \<Rightarrow> workflow_status list" where
  "workflow_transitions W_DRAFT = [W_INGESTING, W_CANCELLED]"
| "workflow_transitions W_INGESTING = [W_UNDERSTANDING, W_FAILED, W_CANCELLED]"
| "workflow_transitions W_UNDERSTANDING =
     [W_AWAITING_PRODUCT_CONFIRMATION, W_RETRIEVING, W_FAILED, W_CANCELLED]"
| "workflow_transitions W_AWAITING_PRODUCT_CONFIRMATION = [W_RETRIEVING, W_FAILED, W_CANCELLED]"
| "workflow_transitions W_RETRIEVING =
     [W_UNDERSTANDING, W_AWAITING_PRODUCT_CONFIRMATION, W_PLANNING, W_FAILED, W_CANCELLED]"
| "workflow_transitions W_PLANNING = [W_AWAITING_PLAN_APPROVAL, W_FAILED, W_CANCELLED]"
| "workflow_transitions W_AWAITING_PLAN_APPROVAL = [W_PLANNING, W_GENERATING, W_FAILED, W_CANCELLED]"
| "workflow_transitions W_GENERATING = [W_EVALUATING, W_FAILED, W_CANCELLED]"
| "workflow_transitions W_EVALUATING =
     [W_REPAIRING, W_AWAITING_RESULT_APPROVAL, W_FAILED, W_CANCELLED]"
| "workflow_transitions W_REPAIRING =
     [W_GENERATING, W_AWAITING_RESULT_APPROVAL, W_FAILED, W_CANCELLED]"
| "workflow_transitions W_AWAITING_RESULT_APPROVAL =
     [W_GENERATING, W_EXPORTING, W_FAILED, W_CANCELLED]"
| "workflow_transitions W_EXPORTING = [W_COMPLETED, W_FAILED, W_CANCELLED]"
| "workflow_transitions W_COMPLETED = []"
| "workflow_transitions W_FAILED = []"
| "workflow_transitions W_CANCELLED = []"

fun retention_transitions :: "retention_status \<Rightarrow> retention_status list" where
  "retention_transitions R_ACTIVE = [R_EXPIRING]"
| "retention_transitions R_EXPIRING = [R_DELETING]"
| "retention_transitions R_DELETING = [R_EXPIRED]"
| "retention_transitions R_EXPIRED = []"

fun step_transitions :: "step_status \<Rightarrow> step_status list" where
  "step_transitions S_PENDING = [S_QUEUED, S_CANCELLED]"
| "step_transitions S_QUEUED = [S_CLAIMED, S_CANCELLED]"
| "step_transitions S_CLAIMED = [S_RUNNING, S_QUEUED, S_RETRYABLE_FAILED, S_CANCELLED]"
| "step_transitions S_RUNNING =
     [S_WAITING_HUMAN, S_SUCCEEDED, S_RETRYABLE_FAILED, S_FAILED, S_CANCELLED]"
| "step_transitions S_WAITING_HUMAN = [S_SUCCEEDED, S_FAILED, S_CANCELLED]"
| "step_transitions S_RETRYABLE_FAILED = [S_QUEUED, S_FAILED, S_CANCELLED]"
| "step_transitions S_SUCCEEDED = []"
| "step_transitions S_FAILED = []"
| "step_transitions S_CANCELLED = []"

fun attempt_transitions :: "attempt_status \<Rightarrow> attempt_status list" where
  "attempt_transitions A_CREATED = [A_SUBMITTING, A_CANCELLED]"
| "attempt_transitions A_SUBMITTING =
     [A_SUBMITTED, A_SUCCEEDED, A_UNKNOWN, A_RETRYABLE_FAILED, A_PERMANENT_FAILED, A_CANCELLED]"
| "attempt_transitions A_SUBMITTED =
     [A_POLLING, A_SUCCEEDED, A_UNKNOWN, A_RETRYABLE_FAILED, A_PERMANENT_FAILED, A_CANCELLED]"
| "attempt_transitions A_POLLING =
     [A_SUCCEEDED, A_UNKNOWN, A_RETRYABLE_FAILED, A_PERMANENT_FAILED, A_CANCELLED]"
| "attempt_transitions A_UNKNOWN =
     [A_SUBMITTED, A_POLLING, A_SUCCEEDED, A_RETRYABLE_FAILED, A_PERMANENT_FAILED, A_CANCELLED]"
| "attempt_transitions A_RETRYABLE_FAILED = [A_SUBMITTING, A_PERMANENT_FAILED, A_CANCELLED]"
| "attempt_transitions A_SUCCEEDED = []"
| "attempt_transitions A_PERMANENT_FAILED = []"
| "attempt_transitions A_CANCELLED = []"

text \<open>\<open>assert_transition\<close>: staying in the same state is always allowed.\<close>

definition assert_transition :: "('st \<Rightarrow> 'st list) \<Rightarrow> 'st \<Rightarrow> 'st \<Rightarrow> error option" where
  "assert_transition transitions current target =
     (if target = current then None
      else guard (target \<notin> set (transitions current)) InvalidTransitionError)"

lemma assert_transition_None [simp]:
  "assert_transition tr a b = None \<longleftrightarrow> b = a \<or> b \<in> set (tr a)"
  by (auto simp: assert_transition_def)

section \<open>The tables as lifecycles\<close>

text \<open>Distances to a terminal status, for the law that every other status has a way out.\<close>

fun workflow_dist :: "workflow_status \<Rightarrow> nat" where
  "workflow_dist s = (if workflow_terminal s then 0 else 1)"

fun retention_dist :: "retention_status \<Rightarrow> nat" where
  "retention_dist R_ACTIVE = 3"
| "retention_dist R_EXPIRING = 2"
| "retention_dist R_DELETING = 1"
| "retention_dist R_EXPIRED = 0"

interpretation workflow_table: state_table workflow_transitions workflow_terminal workflow_dist
proof unfold_locales
  fix a
  show "workflow_terminal a \<Longrightarrow> workflow_transitions a = []"
    by (auto simp: workflow_terminal_def)
  show "\<not> workflow_terminal a \<Longrightarrow> \<exists>b\<in>set (workflow_transitions a). workflow_dist b < workflow_dist a"
    by (cases a) (auto simp: workflow_terminal_def)
qed

interpretation retention_table: state_table retention_transitions "\<lambda>s. s = R_EXPIRED" retention_dist
proof unfold_locales
  fix a
  show "a \<noteq> R_EXPIRED \<Longrightarrow> \<exists>b\<in>set (retention_transitions a). retention_dist b < retention_dist a"
    by (cases a) simp_all
qed simp

interpretation step_table: state_table step_transitions step_terminal "\<lambda>s. if step_terminal s then 0 else 1"
proof unfold_locales
  fix a
  show "step_terminal a \<Longrightarrow> step_transitions a = []"
    by (auto simp: step_terminal_def)
  show "\<not> step_terminal a \<Longrightarrow> \<exists>b\<in>set (step_transitions a).
      (if step_terminal b then 0 else 1) < (if step_terminal a then 0 else 1 :: nat)"
    by (cases a) (auto simp: step_terminal_def)
qed

interpretation attempt_table:
  state_table attempt_transitions attempt_terminal "\<lambda>s. if attempt_terminal s then 0 else 1"
proof unfold_locales
  fix a
  show "attempt_terminal a \<Longrightarrow> attempt_transitions a = []"
    by (auto simp: attempt_terminal_def)
  show "\<not> attempt_terminal a \<Longrightarrow> \<exists>b\<in>set (attempt_transitions a).
      (if attempt_terminal b then 0 else 1) < (if attempt_terminal a then 0 else 1 :: nat)"
    by (cases a) (auto simp: attempt_terminal_def)
qed

section \<open>Human gates\<close>

text \<open>
  The statuses a workflow can have before the plan approval gate, and those before the result
  approval gate. Every edge out of the first set that is not an edge into the gate stays in the set.
\<close>

definition before_plan_gate :: "workflow_status set" where
  "before_plan_gate =
     {W_DRAFT, W_INGESTING, W_UNDERSTANDING, W_AWAITING_PRODUCT_CONFIRMATION, W_RETRIEVING,
      W_PLANNING, W_FAILED, W_CANCELLED}"

definition before_result_gate :: "workflow_status set" where
  "before_result_gate =
     before_plan_gate \<union> {W_AWAITING_PLAN_APPROVAL, W_GENERATING, W_EVALUATING, W_REPAIRING}"

lemma plan_gate_closed:
  "a \<in> before_plan_gate \<Longrightarrow> b \<in> set (workflow_transitions a) \<Longrightarrow>
     b \<in> before_plan_gate \<or> b = W_AWAITING_PLAN_APPROVAL"
  by (auto simp: before_plan_gate_def)

lemma result_gate_closed:
  "a \<in> before_result_gate \<Longrightarrow> b \<in> set (workflow_transitions a) \<Longrightarrow>
     b \<in> before_result_gate \<or> b = W_AWAITING_RESULT_APPROVAL"
  by (auto simp: before_result_gate_def before_plan_gate_def)

end
