(* ===== verification/Workflow_Entities.thy ===== *)
theory Workflow_Entities
  imports Workflow_States Identity
begin

text \<open>
  The entities of \<open>workflow/entities.py\<close>: \<open>Workflow\<close>, \<open>WorkflowStep\<close>, \<open>WorkflowAttempt\<close> and
  \<open>Approval\<close>, one record each (fields prefixed \<open>wf_\<close>, \<open>st_\<close>, \<open>at_\<close>, \<open>ap_\<close>) and one definition per
  method. A call that omits \<open>now\<close> reads the clock at each use; the model takes one reading per call.
\<close>

section \<open>Workflow\<close>

record workflow =
  wf_id :: string
  wf_workspace_id :: string
  wf_created_by :: string
  wf_workflow_type :: string
  wf_status :: workflow_status
  wf_retention_status :: retention_status
  wf_current_node :: "string option"
  wf_version :: int
  wf_input_data :: json
  wf_result_data :: "json option"
  wf_expires_at :: datetime
  wf_cancellation_requested_at :: "datetime option"
  wf_created_at :: datetime
  wf_updated_at :: datetime

definition workflow_create ::
  "string \<Rightarrow> string \<Rightarrow> string \<Rightarrow> string \<Rightarrow> json \<Rightarrow> int \<Rightarrow> datetime \<Rightarrow> error + workflow" where
  "workflow_create new_id workspace_id created_by workflow_type input_data retention now =
     (case validate_workspace_id workspace_id of
        Some e \<Rightarrow> Inl e
      | None \<Rightarrow> Inr
          \<lparr>wf_id = new_id, wf_workspace_id = workspace_id, wf_created_by = created_by,
           wf_workflow_type = workflow_type, wf_status = W_DRAFT, wf_retention_status = R_ACTIVE,
           wf_current_node = None, wf_version = 1, wf_input_data = input_data,
           wf_result_data = None, wf_expires_at = dt_add now retention,
           wf_cancellation_requested_at = None, wf_created_at = now, wf_updated_at = now\<rparr>)"

definition workflow_assert_version :: "int \<Rightarrow> workflow \<Rightarrow> error option" where
  "workflow_assert_version expected_version w = guard (wf_version w \<noteq> expected_version) ConcurrencyError"

definition workflow_transition ::
  "workflow_status \<Rightarrow> string option \<Rightarrow> int option \<Rightarrow> datetime \<Rightarrow> workflow \<Rightarrow> (unit, workflow) outcome" where
  "workflow_transition target current_node expected_version now w =
     check (case expected_version of None \<Rightarrow> None | Some v \<Rightarrow> workflow_assert_version v w) w
      (if target = wf_status w \<and> current_node = wf_current_node w then Done () w
       else check (assert_transition workflow_transitions (wf_status w) target) w
        (Done () (w\<lparr>wf_status := target, wf_current_node := current_node,
                    wf_version := wf_version w + 1, wf_updated_at := now\<rparr>)))"

definition workflow_update_current_node ::
  "string \<Rightarrow> datetime \<Rightarrow> workflow \<Rightarrow> (unit, workflow) outcome" where
  "workflow_update_current_node current_node now w =
     (if wf_current_node w = Some current_node then Done () w
      else Done () (w\<lparr>wf_current_node := Some current_node, wf_version := wf_version w + 1,
                      wf_updated_at := now\<rparr>))"

definition workflow_request_cancellation ::
  "int \<Rightarrow> datetime \<Rightarrow> workflow \<Rightarrow> (unit, workflow) outcome" where
  "workflow_request_cancellation expected_version now w =
     check (workflow_assert_version expected_version w) w
      (check (guard (workflow_terminal (wf_status w)) ConcurrencyError) w
        (workflow_transition W_CANCELLED None None now (w\<lparr>wf_cancellation_requested_at := Some now\<rparr>)))"

definition workflow_transition_retention ::
  "retention_status \<Rightarrow> datetime \<Rightarrow> workflow \<Rightarrow> (unit, workflow) outcome" where
  "workflow_transition_retention target now w =
     check (assert_transition retention_transitions (wf_retention_status w) target) w
      (if target = wf_retention_status w then Done () w
       else Done () (w\<lparr>wf_retention_status := target, wf_version := wf_version w + 1,
                       wf_updated_at := now\<rparr>))"

definition workflow_record_recovery_observation ::
  "datetime \<Rightarrow> workflow \<Rightarrow> (unit, workflow) outcome" where
  "workflow_record_recovery_observation observed_at w =
     check (guard (incomparable observed_at (wf_updated_at w)) TypeError) w
      (if dt_less (wf_updated_at w) observed_at then Done () (w\<lparr>wf_updated_at := observed_at\<rparr>)
       else Done () w)"

section \<open>Workflow step\<close>

record workflow_step =
  st_id :: string
  st_workflow_id :: string
  st_step_key :: string
  st_step_type :: step_type
  st_status :: step_status
  st_sequence :: int
  st_expected_workflow_version :: int
  st_lease_owner :: "string option"
  st_lease_token :: "string option"
  st_lease_expires_at :: "datetime option"
  st_attempt_count :: int
  st_max_attempts :: int
  st_next_attempt_at :: "datetime option"
  st_input_ref :: "string option"
  st_output_ref :: "string option"
  st_input_data :: "json option"
  st_output_data :: "json option"
  st_error_class :: "string option"
  st_error_message :: "string option"
  st_started_at :: "datetime option"
  st_completed_at :: "datetime option"
  st_created_at :: datetime
  st_updated_at :: datetime
  st_version :: int

definition step_create ::
  "string \<Rightarrow> string \<Rightarrow> string \<Rightarrow> step_type \<Rightarrow> int \<Rightarrow> int \<Rightarrow> int \<Rightarrow> string option \<Rightarrow> json option \<Rightarrow>
   datetime \<Rightarrow> workflow_step" where
  "step_create new_id workflow_id step_key step_type sequence expected_workflow_version max_attempts
     input_ref input_data now =
     \<lparr>st_id = new_id, st_workflow_id = workflow_id, st_step_key = step_key, st_step_type = step_type,
      st_status = S_PENDING, st_sequence = sequence,
      st_expected_workflow_version = expected_workflow_version, st_lease_owner = None,
      st_lease_token = None, st_lease_expires_at = None, st_attempt_count = 0,
      st_max_attempts = max_attempts, st_next_attempt_at = None, st_input_ref = input_ref,
      st_output_ref = None, st_input_data = input_data, st_output_data = None,
      st_error_class = None, st_error_message = None, st_started_at = None,
      st_completed_at = None, st_created_at = now, st_updated_at = now, st_version = 1\<rparr>"

definition step_transition :: "step_status \<Rightarrow> datetime \<Rightarrow> workflow_step \<Rightarrow> (unit, workflow_step) outcome" where
  "step_transition target now s =
     (if target = st_status s then Done () s
      else check (assert_transition step_transitions (st_status s) target) s
        (Done () (s\<lparr>st_status := target, st_version := st_version s + 1, st_updated_at := now\<rparr>)))"

definition step_queue :: "datetime \<Rightarrow> workflow_step \<Rightarrow> (unit, workflow_step) outcome" where
  "step_queue now s =
     andthen (step_transition S_QUEUED now s) (\<lambda>_ t. Done () (t\<lparr>st_next_attempt_at := None\<rparr>))"

definition step_clear_lease :: "workflow_step \<Rightarrow> workflow_step" where
  "step_clear_lease s = s\<lparr>st_lease_owner := None, st_lease_token := None, st_lease_expires_at := None\<rparr>"

definition step_assert_lease :: "string \<Rightarrow> datetime \<Rightarrow> workflow_step \<Rightarrow> error option" where
  "step_assert_lease lease_token now s =
     (if st_lease_token s \<noteq> Some lease_token then Some LeaseConflictError
      else case st_lease_expires_at s of
             None \<Rightarrow> None
           | Some e \<Rightarrow> if incomparable e now then Some TypeError
                       else guard (dt_le e now) LeaseConflictError)"

text \<open>The three stages of \<open>claim\<close>: the retry budget, an expired lease, the claim itself.\<close>

definition step_claim_retry :: "datetime \<Rightarrow> workflow_step \<Rightarrow> (unit, workflow_step) outcome" where
  "step_claim_retry now s =
     (if st_status s = S_RETRYABLE_FAILED then
        (if st_max_attempts s \<le> st_attempt_count s then Raise RetryExhaustedError s
         else step_queue now s)
      else Done () s)"

definition step_claim_expired :: "datetime \<Rightarrow> workflow_step \<Rightarrow> (unit, workflow_step) outcome" where
  "step_claim_expired now s =
     (if st_status s \<in> {S_CLAIMED, S_RUNNING} then
        check (case st_lease_expires_at s of
                 None \<Rightarrow> None
               | Some e \<Rightarrow> if incomparable e now then Some TypeError
                           else guard (dt_less now e) LeaseConflictError) s
         (if st_status s = S_RUNNING then
            andthen (step_transition S_RETRYABLE_FAILED now s) (\<lambda>_ t. step_queue now t)
          else step_transition S_QUEUED now s)
      else Done () s)"

definition step_claim ::
  "string \<Rightarrow> int \<Rightarrow> string \<Rightarrow> datetime \<Rightarrow> workflow_step \<Rightarrow> (string, workflow_step) outcome" where
  "step_claim owner lease_duration new_token now s =
     andthen (step_claim_retry now s) (\<lambda>_ s1.
     andthen (step_claim_expired now s1) (\<lambda>_ s2.
     andthen (step_transition S_CLAIMED now s2) (\<lambda>_ s3.
       Done new_token (s3\<lparr>st_lease_owner := Some owner, st_lease_token := Some new_token,
         st_lease_expires_at := Some (dt_add now lease_duration),
         st_attempt_count := st_attempt_count s3 + 1\<rparr>))))"

definition step_start :: "string \<Rightarrow> datetime \<Rightarrow> workflow_step \<Rightarrow> (unit, workflow_step) outcome" where
  "step_start lease_token now s =
     check (step_assert_lease lease_token now s) s
      (andthen (step_transition S_RUNNING now s) (\<lambda>_ t.
         Done () (t\<lparr>st_started_at := Some (or_else (st_started_at t) now)\<rparr>)))"

definition step_wait_for_human :: "string \<Rightarrow> datetime \<Rightarrow> workflow_step \<Rightarrow> (unit, workflow_step) outcome" where
  "step_wait_for_human lease_token now s =
     check (step_assert_lease lease_token now s) s
      (andthen (step_transition S_WAITING_HUMAN now s) (\<lambda>_ t. Done () (step_clear_lease t)))"

definition step_succeed ::
  "string option \<Rightarrow> json option \<Rightarrow> string option \<Rightarrow> datetime \<Rightarrow> workflow_step \<Rightarrow> (unit, workflow_step) outcome" where
  "step_succeed output_ref output_data lease_token now s =
     check (if st_status s = S_WAITING_HUMAN then None
            else case lease_token of
                   None \<Rightarrow> Some LeaseConflictError
                 | Some tok \<Rightarrow> step_assert_lease tok now s) s
      (andthen (step_transition S_SUCCEEDED now s) (\<lambda>_ t.
         Done () (step_clear_lease (t\<lparr>st_output_ref := output_ref, st_output_data := output_data,
           st_completed_at := Some now\<rparr>))))"

definition step_fail_permanently ::
  "string \<Rightarrow> string \<Rightarrow> string \<Rightarrow> datetime \<Rightarrow> workflow_step \<Rightarrow> (unit, workflow_step) outcome" where
  "step_fail_permanently error_class error_message lease_token now s =
     check (step_assert_lease lease_token now s) s
      (andthen (step_transition S_FAILED now s) (\<lambda>_ t.
         Done () (step_clear_lease (t\<lparr>st_error_class := Some error_class,
           st_error_message := Some error_message, st_completed_at := Some now\<rparr>))))"

definition step_fail_retryable ::
  "string \<Rightarrow> string \<Rightarrow> datetime \<Rightarrow> string \<Rightarrow> datetime \<Rightarrow> workflow_step \<Rightarrow> (unit, workflow_step) outcome" where
  "step_fail_retryable error_class error_message retry_at lease_token now s =
     check (step_assert_lease lease_token now s) s
      (if st_max_attempts s \<le> st_attempt_count s
       then step_fail_permanently error_class error_message lease_token now s
       else andthen (step_transition S_RETRYABLE_FAILED now s) (\<lambda>_ t.
         Done () (step_clear_lease (t\<lparr>st_error_class := Some error_class,
           st_error_message := Some error_message, st_next_attempt_at := Some retry_at\<rparr>))))"

definition step_recover_expired_lease ::
  "datetime \<Rightarrow> datetime \<Rightarrow> workflow_step \<Rightarrow> (unit, workflow_step) outcome" where
  "step_recover_expired_lease retry_at now s =
     (if st_status s \<notin> {S_CLAIMED, S_RUNNING} then Done () s
      else check (case st_lease_expires_at s of
                    None \<Rightarrow> Some LeaseConflictError
                  | Some e \<Rightarrow> if incomparable e now then Some TypeError
                              else guard (dt_less now e) LeaseConflictError) s
       (andthen (step_transition S_RETRYABLE_FAILED now s) (\<lambda>_ t.
          Done () (step_clear_lease (t\<lparr>st_error_class := Some ''LeaseExpired'',
            st_error_message := Some ''worker lease expired before durable completion'',
            st_next_attempt_at := Some retry_at\<rparr>)))))"

definition step_cancel :: "datetime \<Rightarrow> workflow_step \<Rightarrow> (unit, workflow_step) outcome" where
  "step_cancel now s =
     (if step_terminal (st_status s) then Done () s
      else andthen (step_transition S_CANCELLED now s) (\<lambda>_ t.
        Done () (step_clear_lease (t\<lparr>st_completed_at := Some now\<rparr>))))"

section \<open>Workflow attempt\<close>

record workflow_attempt =
  at_id :: string
  at_workflow_id :: string
  at_step_id :: string
  at_attempt_number :: int
  at_idempotency_key :: string
  at_status :: attempt_status
  at_provider_request_id :: "string option"
  at_request_ref :: "string option"
  at_result_ref :: "string option"
  at_request_data :: "json option"
  at_result_data :: "json option"
  at_error_class :: "string option"
  at_error_message :: "string option"
  at_created_at :: datetime
  at_updated_at :: datetime
  at_started_at :: "datetime option"
  at_completed_at :: "datetime option"
  at_version :: int

definition attempt_create ::
  "string \<Rightarrow> string \<Rightarrow> string \<Rightarrow> int \<Rightarrow> string \<Rightarrow> string option \<Rightarrow> json option \<Rightarrow> datetime \<Rightarrow>
   workflow_attempt" where
  "attempt_create new_id workflow_id step_id attempt_number idempotency_key request_ref request_data now =
     \<lparr>at_id = new_id, at_workflow_id = workflow_id, at_step_id = step_id,
      at_attempt_number = attempt_number, at_idempotency_key = idempotency_key,
      at_status = A_CREATED, at_provider_request_id = None, at_request_ref = request_ref,
      at_result_ref = None, at_request_data = request_data, at_result_data = None,
      at_error_class = None, at_error_message = None, at_created_at = now, at_updated_at = now,
      at_started_at = None, at_completed_at = None, at_version = 1\<rparr>"

definition attempt_transition ::
  "attempt_status \<Rightarrow> datetime \<Rightarrow> workflow_attempt \<Rightarrow> (unit, workflow_attempt) outcome" where
  "attempt_transition target now a =
     (if target = at_status a then Done () a
      else check (assert_transition attempt_transitions (at_status a) target) a
        (Done () (a\<lparr>at_status := target, at_version := at_version a + 1, at_updated_at := now\<rparr>)))"

definition attempt_mark_submitting :: "datetime \<Rightarrow> workflow_attempt \<Rightarrow> (unit, workflow_attempt) outcome" where
  "attempt_mark_submitting now a =
     andthen (attempt_transition A_SUBMITTING now a) (\<lambda>_ b.
       Done () (b\<lparr>at_started_at := Some (or_else (at_started_at b) now)\<rparr>))"

definition attempt_succeed ::
  "string option \<Rightarrow> json option \<Rightarrow> datetime \<Rightarrow> workflow_attempt \<Rightarrow> (unit, workflow_attempt) outcome" where
  "attempt_succeed result_ref result_data now a =
     andthen (attempt_transition A_SUCCEEDED now a) (\<lambda>_ b.
       Done () (b\<lparr>at_result_ref := result_ref, at_result_data := result_data,
                  at_completed_at := Some now\<rparr>))"

section \<open>Approval\<close>

record approval =
  ap_id :: string
  ap_workflow_id :: string
  ap_approval_type :: approval_type
  ap_subject_id :: string
  ap_subject_version :: int
  ap_decision :: approval_decision
  ap_reason_code :: "string option"
  ap_comment_ref :: "string option"
  ap_approved_by :: string
  ap_expected_workflow_version :: int
  ap_created_at :: datetime

definition approval_create ::
  "string \<Rightarrow> string \<Rightarrow> approval_type \<Rightarrow> string \<Rightarrow> int \<Rightarrow> approval_decision \<Rightarrow> string \<Rightarrow> int \<Rightarrow>
   string option \<Rightarrow> string option \<Rightarrow> datetime \<Rightarrow> approval" where
  "approval_create new_id workflow_id approval_type subject_id subject_version decision approved_by
     expected_workflow_version reason_code comment_ref now =
     \<lparr>ap_id = new_id, ap_workflow_id = workflow_id, ap_approval_type = approval_type,
      ap_subject_id = subject_id, ap_subject_version = subject_version, ap_decision = decision,
      ap_reason_code = reason_code, ap_comment_ref = comment_ref, ap_approved_by = approved_by,
      ap_expected_workflow_version = expected_workflow_version, ap_created_at = now\<rparr>"

lemmas workflow_op_defs = workflow_assert_version_def workflow_transition_def
  workflow_update_current_node_def workflow_request_cancellation_def
  workflow_transition_retention_def workflow_record_recovery_observation_def

lemmas step_op_defs = step_queue_def step_clear_lease_def step_claim_retry_def
  step_claim_expired_def step_claim_def step_start_def step_wait_for_human_def step_succeed_def
  step_fail_permanently_def step_fail_retryable_def step_recover_expired_lease_def step_cancel_def

lemmas attempt_op_defs = attempt_mark_submitting_def attempt_succeed_def

end
