(* ===== verification/Workflow_Facts.thy ===== *)
theory Workflow_Facts
  imports Workflow_Entities
begin

text \<open>
  What makes the workflow entities correct. The calls of each entity are a step relation with one
  rule per method (a rule covers the calls that return); the locales of \<open>Interfaces\<close> are interpreted
  on these relations.
\<close>

section \<open>Calls of a workflow\<close>

inductive workflow_call :: "workflow \<Rightarrow> workflow \<Rightarrow> bool" where
  wc_transition: "workflow_transition target node expected now w = Done r t \<Longrightarrow> workflow_call w t"
| wc_node: "workflow_update_current_node node now w = Done r t \<Longrightarrow> workflow_call w t"
| wc_cancel: "workflow_request_cancellation expected now w = Done r t \<Longrightarrow> workflow_call w t"
| wc_retention: "workflow_transition_retention target now w = Done r t \<Longrightarrow> workflow_call w t"
| wc_observe: "workflow_record_recovery_observation now w = Done r t \<Longrightarrow> workflow_call w t"

text \<open>Everything but the freshness stamp, which the recovery scanner moves without a new version.\<close>

definition workflow_content :: "workflow \<Rightarrow> workflow" where
  "workflow_content w = w\<lparr>wf_updated_at := wf_created_at w\<rparr>"

lemma workflow_call_version:
  "workflow_call w t \<Longrightarrow> wf_version w < wf_version t \<or>
     (wf_version t = wf_version w \<and> workflow_content t = workflow_content w)"
  by (induction rule: workflow_call.induct)
    (auto simp: workflow_op_defs workflow_content_def workflow_terminal_def split: if_splits)

lemma workflow_call_status:
  "workflow_call w t \<Longrightarrow> workflow_table.edge\<^sup>*\<^sup>* (wf_status w) (wf_status t)"
  by (induction rule: workflow_call.induct)
    (auto simp: workflow_op_defs workflow_table.edge_def split: if_splits)

lemma workflow_call_retention:
  "workflow_call w t \<Longrightarrow> retention_table.edge\<^sup>*\<^sup>* (wf_retention_status w) (wf_retention_status t)"
  by (induction rule: workflow_call.induct)
    (auto simp: workflow_op_defs retention_table.edge_def split: if_splits)

lemma workflow_call_identity:
  "workflow_call w t \<Longrightarrow> wf_id t = wf_id w \<and> wf_workspace_id t = wf_workspace_id w
     \<and> wf_expires_at t = wf_expires_at w \<and> wf_created_at t = wf_created_at w"
  by (induction rule: workflow_call.induct) (auto simp: workflow_op_defs split: if_splits)

interpretation workflow_versions: versioned workflow_call wf_version workflow_content
  by unfold_locales (rule workflow_call_version)

interpretation workflow_states: table_driven workflow_transitions workflow_terminal workflow_dist
    workflow_call wf_status
  by unfold_locales (rule workflow_call_status)

interpretation workflow_retention: table_driven retention_transitions "\<lambda>s. s = R_EXPIRED"
    retention_dist workflow_call wf_retention_status
  by unfold_locales (rule workflow_call_retention)

text \<open>The history of a workflow: its states from the newest back to the creation.\<close>

inductive workflow_trace :: "workflow list \<Rightarrow> bool" where
  trace_start: "workflow_create i wsp actor ty inp ret now = Inr w \<Longrightarrow> workflow_trace [w]"
| trace_next: "workflow_trace (w # ws) \<Longrightarrow> workflow_call w t \<Longrightarrow> workflow_trace (t # w # ws)"

inductive_cases workflow_trace_cons: "workflow_trace (w # ws)"

lemma workflow_call_one_edge:
  "workflow_call w t \<Longrightarrow> wf_status t = wf_status w \<or> wf_status t \<in> set (workflow_transitions (wf_status w))"
  by (induction rule: workflow_call.induct) (auto simp: workflow_op_defs split: if_splits)

lemma trace_gate:
  assumes closed: "\<And>a b. a \<in> A \<Longrightarrow> b \<in> set (workflow_transitions a) \<Longrightarrow> b \<in> A \<or> b = gate"
    and start: "W_DRAFT \<in> A"
  shows "workflow_trace ws \<Longrightarrow> wf_status (hd ws) \<in> A \<or> gate \<in> wf_status ` set ws"
proof (induction rule: workflow_trace.induct)
  case (trace_start i wsp actor ty inp ret now w)
  then show ?case using start by (auto simp: workflow_create_def split: option.splits)
next
  case (trace_next w ws t)
  from workflow_call_one_edge [OF trace_next.hyps(2)] trace_next.IH closed [of "wf_status w" "wf_status t"]
  show ?case by auto
qed

text \<open>C7: no history of a workflow enters the generation phase around the plan approval gate, or the
  export phase around the result approval gate: a workflow that is generating (or beyond) has been
  awaiting plan approval before, one that is exporting or completed has been awaiting result
  approval.\<close>

theorem human_gates_not_bypassed:
  assumes "workflow_trace ws" "w \<in> set ws"
  shows "(wf_status w \<in> {W_GENERATING, W_EVALUATING, W_REPAIRING, W_AWAITING_RESULT_APPROVAL,
            W_EXPORTING, W_COMPLETED} \<longrightarrow> W_AWAITING_PLAN_APPROVAL \<in> wf_status ` set ws)
       \<and> (wf_status w \<in> {W_EXPORTING, W_COMPLETED} \<longrightarrow>
            W_AWAITING_RESULT_APPROVAL \<in> wf_status ` set ws)"
proof -
  have "\<exists>us. workflow_trace us \<and> hd us = w \<and> set us \<subseteq> set ws" using assms
  proof (induction rule: workflow_trace.induct)
    case (trace_start i wsp actor ty inp ret now v)
    then show ?case using workflow_trace.trace_start by fastforce
  next
    case (trace_next v vs t)
    then show ?case using workflow_trace.trace_next [OF trace_next.hyps]
      by (cases "w = t") (force, fastforce)
  qed
  then obtain us where us: "workflow_trace us" "hd us = w" "set us \<subseteq> set ws" by blast
  have start: "W_DRAFT \<in> before_plan_gate" "W_DRAFT \<in> before_result_gate"
    by (simp_all add: before_result_gate_def before_plan_gate_def)
  have plan: "wf_status w \<in> before_plan_gate \<or> W_AWAITING_PLAN_APPROVAL \<in> wf_status ` set ws"
    using trace_gate [of before_plan_gate W_AWAITING_PLAN_APPROVAL, OF _ start(1) us(1)]
      plan_gate_closed us(2,3) by blast
  have res: "wf_status w \<in> before_result_gate \<or> W_AWAITING_RESULT_APPROVAL \<in> wf_status ` set ws"
    using trace_gate [of before_result_gate W_AWAITING_RESULT_APPROVAL, OF _ start(2) us(1)]
      result_gate_closed us(2,3) by blast
  have "s \<notin> before_plan_gate" if "s \<in> {W_GENERATING, W_EVALUATING, W_REPAIRING,
      W_AWAITING_RESULT_APPROVAL, W_EXPORTING, W_COMPLETED}" for s
    using that by (auto simp: before_plan_gate_def)
  moreover have "s \<notin> before_result_gate" if "s \<in> {W_EXPORTING, W_COMPLETED}" for s
    using that by (auto simp: before_result_gate_def before_plan_gate_def)
  ultimately show ?thesis using plan res by blast
qed

lemma trace_transition:
  "workflow_trace (w # ws) \<Longrightarrow> target \<in> set (workflow_transitions (wf_status w)) \<Longrightarrow>
     target \<noteq> wf_status w \<Longrightarrow>
     workflow_trace (w\<lparr>wf_status := target, wf_current_node := None,
       wf_version := wf_version w + 1, wf_updated_at := now\<rparr> # w # ws)"
  by (rule trace_next, assumption, rule wc_transition [of target None None now])
    (simp add: workflow_transition_def)

definition sample_workflow :: workflow where
  "sample_workflow =
     \<lparr>wf_id = ''w'', wf_workspace_id = ''ws'', wf_created_by = ''u'', wf_workflow_type = ''t'',
      wf_status = W_DRAFT, wf_retention_status = R_ACTIVE, wf_current_node = None, wf_version = 1,
      wf_input_data = JNull, wf_result_data = None, wf_expires_at = utc 9,
      wf_cancellation_requested_at = None, wf_created_at = utc 0, wf_updated_at = utc 0\<rparr>"

lemma sample_workflow_created:
  "workflow_create ''w'' ''ws'' ''u'' ''t'' JNull 9 (utc 0) = Inr sample_workflow"
  by (simp add: workflow_create_def sample_workflow_def validator_defs guard_def is_alnum_def
      is_digit_def is_token_char_def between_def code_def)

theorem human_gates_not_bypassed_witness:
  "\<exists>ws w. workflow_trace ws \<and> w \<in> set ws \<and> wf_status w = W_GENERATING \<and>
     W_AWAITING_PLAN_APPROVAL \<in> wf_status ` set ws"
proof -
  have draft: "\<exists>w ws. workflow_trace (w # ws) \<and> wf_status w = W_DRAFT"
    using trace_start [OF sample_workflow_created] by (auto simp: sample_workflow_def)
  have step: "\<exists>w ws. workflow_trace (w # ws) \<and> wf_status w = b"
    if "\<exists>w ws. workflow_trace (w # ws) \<and> wf_status w = a" "b \<in> set (workflow_transitions a)" "b \<noteq> a"
    for a b
    using that trace_transition [where target = b] by fastforce
  from draft have "\<exists>w ws. workflow_trace (w # ws) \<and> wf_status w = W_INGESTING"
    by (rule step) simp_all
  then have "\<exists>w ws. workflow_trace (w # ws) \<and> wf_status w = W_UNDERSTANDING"
    by (rule step) simp_all
  then have "\<exists>w ws. workflow_trace (w # ws) \<and> wf_status w = W_RETRIEVING"
    by (rule step) simp_all
  then have "\<exists>w ws. workflow_trace (w # ws) \<and> wf_status w = W_PLANNING"
    by (rule step) simp_all
  then have "\<exists>w ws. workflow_trace (w # ws) \<and> wf_status w = W_AWAITING_PLAN_APPROVAL"
    by (rule step) simp_all
  then have "\<exists>w ws. workflow_trace (w # ws) \<and> wf_status w = W_GENERATING"
    by (rule step) simp_all
  then obtain w ws where t: "workflow_trace (w # ws)" "wf_status w = W_GENERATING" by blast
  have "W_AWAITING_PLAN_APPROVAL \<in> wf_status ` set (w # ws)"
    using human_gates_not_bypassed [OF t(1), of w] t(2) by simp
  with t show ?thesis by (intro exI [of _ "w # ws"] exI [of _ w]) simp
qed

text \<open>optimistic concurrency of workflows. A command carrying the version it read is accepted only
  on the workflow it read: once any call has changed more than the freshness stamp, the command
  raises \<open>ConcurrencyError\<close> and changes nothing.\<close>

theorem workflow_stale_command_refused:
  assumes "workflow_call\<^sup>*\<^sup>* w t" "workflow_content t \<noteq> workflow_content w"
  shows "workflow_transition target node (Some (wf_version w)) now t = Raise ConcurrencyError t
       \<and> workflow_request_cancellation (wf_version w) now t = Raise ConcurrencyError t"
  using workflow_versions.changed_view_newer [OF assms]
  by (simp add: workflow_transition_def workflow_request_cancellation_def workflow_assert_version_def
      guard_def)

theorem workflow_stale_command_refused_witness:
  "let w = sample_workflow; t = object_after (workflow_transition W_INGESTING None None (utc 5) w)
   in workflow_content t \<noteq> workflow_content w
      \<and> workflow_request_cancellation 1 (utc 6) t = Raise ConcurrencyError t"
proof -
  let ?t = "object_after (workflow_transition W_INGESTING None None (utc 5) sample_workflow)"
  have ok: "workflow_transition W_INGESTING None None (utc 5) sample_workflow = Done () ?t"
    by (simp add: workflow_transition_def sample_workflow_def assert_transition_def)
  have run: "workflow_call\<^sup>*\<^sup>* sample_workflow ?t" using wc_transition [OF ok] by blast
  have new: "workflow_content ?t \<noteq> workflow_content sample_workflow"
    by (simp add: workflow_transition_def sample_workflow_def workflow_content_def assert_transition_def)
  show ?thesis using new workflow_stale_command_refused [OF run new]
    by (simp add: sample_workflow_def)
qed

text \<open>cancellation. It succeeds exactly on a non-terminal workflow at the expected version, records
  the request and leads to \<open>CANCELLED\<close>, and no later run of calls leaves that status.\<close>

theorem workflow_cancellation:
  "(workflow_request_cancellation v now w = Done () t \<longleftrightarrow>
      v = wf_version w \<and> \<not> workflow_terminal (wf_status w) \<and>
      t = w\<lparr>wf_cancellation_requested_at := Some now, wf_status := W_CANCELLED,
            wf_current_node := None, wf_version := wf_version w + 1, wf_updated_at := now\<rparr>)
   \<and> (workflow_request_cancellation v now w = Done () t \<longrightarrow> workflow_call\<^sup>*\<^sup>* t u \<longrightarrow>
        wf_status u = W_CANCELLED)"
proof -
  have out: "W_CANCELLED \<in> set (workflow_transitions (wf_status w))"
    if "\<not> workflow_terminal (wf_status w)"
    using that by (cases "wf_status w") (simp_all add: workflow_terminal_def)
  have ok: "workflow_request_cancellation v now w = Done () t \<longleftrightarrow>
      v = wf_version w \<and> \<not> workflow_terminal (wf_status w) \<and>
      t = w\<lparr>wf_cancellation_requested_at := Some now, wf_status := W_CANCELLED,
            wf_current_node := None, wf_version := wf_version w + 1, wf_updated_at := now\<rparr>"
    using out by (auto simp: workflow_op_defs workflow_terminal_def)
  show ?thesis using ok workflow_states.final_status_permanent [of t u]
    by (auto simp: workflow_terminal_def)
qed

theorem workflow_cancellation_witness:
  "wf_status (object_after (workflow_request_cancellation 1 (utc 3) sample_workflow)) = W_CANCELLED"
proof -
  have ok: "workflow_request_cancellation 1 (utc 3) sample_workflow = Done ()
      (object_after (workflow_request_cancellation 1 (utc 3) sample_workflow))"
    by (simp add: workflow_op_defs workflow_terminal_def sample_workflow_def assert_transition_def)
  show ?thesis using workflow_cancellation ok by blast
qed

end
