(* ===== verification/Step_Facts.thy ===== *)
theory Step_Facts
  imports Workflow_Entities
begin

text \<open>
  Correctness of workflow steps and attempts: the lease and completion invariant of a step, the
  exclusivity of its lease (locale \<open>lease_discipline\<close>), its retry budget, and what versions of steps
  and attempts do and do not promise.
\<close>

section \<open>Calls of a step\<close>

inductive step_call :: "workflow_step \<Rightarrow> workflow_step \<Rightarrow> bool" where
  sc_queue: "step_queue now s = Done r t \<Longrightarrow> step_call s t"
| sc_claim: "step_claim owner dur new now s = Done tok t \<Longrightarrow> step_call s t"
| sc_start: "step_start tok now s = Done r t \<Longrightarrow> step_call s t"
| sc_wait: "step_wait_for_human tok now s = Done r t \<Longrightarrow> step_call s t"
| sc_succeed: "step_succeed ref out tok' now s = Done r t \<Longrightarrow> step_call s t"
| sc_fail_retryable: "step_fail_retryable cls msg retry_at tok now s = Done r t \<Longrightarrow> step_call s t"
| sc_fail_permanently: "step_fail_permanently cls msg tok now s = Done r t \<Longrightarrow> step_call s t"
| sc_recover: "step_recover_expired_lease retry_at now s = Done r t \<Longrightarrow> step_call s t"
| sc_cancel: "step_cancel now s = Done r t \<Longrightarrow> step_call s t"

lemma step_transition_Done:
  "step_transition target now s = Done r t \<longleftrightarrow>
     (target = st_status s \<and> t = s) \<or>
     (target \<noteq> st_status s \<and> target \<in> set (step_transitions (st_status s)) \<and>
      t = s\<lparr>st_status := target, st_version := st_version s + 1, st_updated_at := now\<rparr>)"
  by (auto simp: step_transition_def)

lemma step_assert_lease_None:
  "step_assert_lease tok now s = None \<longleftrightarrow>
     st_lease_token s = Some tok \<and>
     (\<forall>e. st_lease_expires_at s = Some e \<longrightarrow> \<not> incomparable e now \<and> \<not> dt_le e now)"
  by (auto simp: step_assert_lease_def split: option.splits)

lemmas step_call_simps = step_op_defs andthen_Done step_transition_Done step_assert_lease_None

text \<open>
  The invariant: a claimed or running step has a complete lease; outside the queue no other status
  holds one; the completion time is set exactly in the terminal statuses; a running step has
  started; a started or claimed step has used an attempt.
\<close>

definition step_ok :: "workflow_step \<Rightarrow> bool" where
  "step_ok s \<longleftrightarrow>
     (st_status s \<in> {S_CLAIMED, S_RUNNING} \<longrightarrow>
        st_lease_owner s \<noteq> None \<and> st_lease_token s \<noteq> None \<and> st_lease_expires_at s \<noteq> None) \<and>
     (st_status s \<notin> {S_QUEUED, S_CLAIMED, S_RUNNING} \<longrightarrow>
        st_lease_owner s = None \<and> st_lease_token s = None \<and> st_lease_expires_at s = None) \<and>
     (st_completed_at s \<noteq> None \<longleftrightarrow> step_terminal (st_status s)) \<and>
     (st_status s = S_RUNNING \<longrightarrow> st_started_at s \<noteq> None) \<and>
     (st_status s \<in> {S_CLAIMED, S_RUNNING, S_WAITING_HUMAN, S_RETRYABLE_FAILED} \<longrightarrow>
        1 \<le> st_attempt_count s) \<and>
     (st_status s = S_RETRYABLE_FAILED \<longrightarrow> st_next_attempt_at s \<noteq> None) \<and>
     0 \<le> st_attempt_count s \<and> 1 \<le> st_version s"

lemma step_ok_create: "step_ok (step_create i w k ty n v m ref inp now)"
  by (simp add: step_ok_def step_create_def step_terminal_def)

lemma step_edges_into:
  "S_RUNNING \<in> set (step_transitions a) \<longleftrightarrow> a = S_CLAIMED"
  "S_CLAIMED \<in> set (step_transitions a) \<longleftrightarrow> a = S_QUEUED"
  "S_WAITING_HUMAN \<in> set (step_transitions a) \<longleftrightarrow> a = S_RUNNING"
  "S_SUCCEEDED \<in> set (step_transitions a) \<longleftrightarrow> a \<in> {S_RUNNING, S_WAITING_HUMAN}"
  "S_RETRYABLE_FAILED \<in> set (step_transitions a) \<longleftrightarrow> a \<in> {S_CLAIMED, S_RUNNING}"
  "S_FAILED \<in> set (step_transitions a) \<longleftrightarrow> a \<in> {S_RUNNING, S_WAITING_HUMAN, S_RETRYABLE_FAILED}"
  "S_QUEUED \<in> set (step_transitions a) \<longleftrightarrow> a \<in> {S_PENDING, S_CLAIMED, S_RETRYABLE_FAILED}"
  by (cases a; simp)+

text \<open>What each call does to the fields the invariant speaks of.\<close>

text \<open>The fields a status change inside \<open>claim\<close> leaves alone.\<close>

definition step_frame :: "workflow_step \<Rightarrow> workflow_step \<Rightarrow> bool" where
  "step_frame s t \<longleftrightarrow> st_lease_owner t = st_lease_owner s \<and> st_lease_token t = st_lease_token s \<and>
     st_lease_expires_at t = st_lease_expires_at s \<and> st_attempt_count t = st_attempt_count s \<and>
     st_max_attempts t = st_max_attempts s \<and> st_completed_at t = st_completed_at s \<and>
     st_started_at t = st_started_at s"

lemma step_frame_simps [simp]: "step_frame s s"
  "step_frame s (s\<lparr>st_status := a, st_version := b, st_updated_at := c\<rparr>)"
  "step_frame s (t\<lparr>st_next_attempt_at := d\<rparr>) \<longleftrightarrow> step_frame s t"
  by (simp_all add: step_frame_def)

lemma step_frame_trans: "step_frame s t \<Longrightarrow> step_frame t u \<Longrightarrow> step_frame s u"
  by (simp add: step_frame_def)

lemma step_transition_effect:
  "step_transition target now s = Done r t \<Longrightarrow>
     (target = st_status s \<or> target \<in> set (step_transitions (st_status s))) \<and>
     step_frame s t \<and> st_status t = target \<and> st_next_attempt_at t = st_next_attempt_at s \<and>
     st_version t = (if target = st_status s then st_version s else st_version s + 1)"
  by (auto simp: step_transition_Done)

lemma step_queue_effect:
  "step_queue now s = Done r t \<Longrightarrow>
     st_status s \<in> {S_PENDING, S_QUEUED, S_CLAIMED, S_RETRYABLE_FAILED} \<and>
     step_frame s t \<and> st_status t = S_QUEUED \<and> st_next_attempt_at t = None \<and>
     st_version t = (if st_status s = S_QUEUED then st_version s else st_version s + 1)"
  unfolding step_queue_def andthen_Done
  by (auto dest!: step_transition_effect simp: step_edges_into split: if_splits)

lemma step_claim_retry_effect:
  "step_claim_retry now s = Done r t \<Longrightarrow>
     step_frame s t \<and>
     (if st_status s = S_RETRYABLE_FAILED
      then st_attempt_count s < st_max_attempts s \<and> st_status t = S_QUEUED \<and> st_version s < st_version t
      else t = s)"
  unfolding step_claim_retry_def
  by (auto split: if_splits dest!: step_queue_effect)

lemma step_claim_expired_effect:
  assumes "step_claim_expired now s = Done r t"
  shows "step_frame s t \<and>
     (if st_status s \<in> {S_CLAIMED, S_RUNNING}
      then st_status t = S_QUEUED \<and> st_version s < st_version t \<and>
        (\<forall>e. st_lease_expires_at s = Some e \<longrightarrow> \<not> incomparable e now \<and> \<not> dt_less now e)
      else t = s)"
proof (cases "st_status s = S_RUNNING")
  case True
  with assms obtain u r' where "step_transition S_RETRYABLE_FAILED now s = Done r' u"
    "step_queue now u = Done r t"
    by (auto simp: step_claim_expired_def andthen_Done split: if_splits)
  with True assms show ?thesis
    by (auto simp: step_claim_expired_def dest!: step_transition_effect step_queue_effect
        intro: step_frame_trans split: if_splits option.splits)
next
  case False
  with assms show ?thesis
    by (auto simp: step_claim_expired_def dest!: step_transition_effect split: if_splits option.splits)
qed

lemma step_claim_effect:
  assumes "step_claim owner dur new now s = Done tok t"
  shows "tok = new \<and> st_status t = S_CLAIMED \<and> st_lease_owner t = Some owner \<and>
     st_lease_token t = Some new \<and> st_lease_expires_at t = Some (dt_add now dur) \<and>
     st_attempt_count t = st_attempt_count s + 1 \<and> st_version s < st_version t \<and>
     st_completed_at t = st_completed_at s \<and> st_started_at t = st_started_at s \<and>
     st_max_attempts t = st_max_attempts s \<and>
     st_status s \<in> {S_QUEUED, S_CLAIMED, S_RUNNING, S_RETRYABLE_FAILED}"
proof -
  from assms obtain r1 s1 r2 s2 r3 s3 where
    c: "step_claim_retry now s = Done r1 s1" "step_claim_expired now s1 = Done r2 s2"
      "step_transition S_CLAIMED now s2 = Done r3 s3" and
    t: "tok = new" "t = s3\<lparr>st_lease_owner := Some owner, st_lease_token := Some new,
         st_lease_expires_at := Some (dt_add now dur), st_attempt_count := st_attempt_count s3 + 1\<rparr>"
    by (auto simp: step_claim_def andthen_Done)
  note e = step_claim_retry_effect [OF c(1)] step_claim_expired_effect [OF c(2)]
    step_transition_effect [OF c(3)]
  have f: "step_frame s s3" using e by (meson step_frame_trans)
  have st: "st_status s \<in> {S_QUEUED, S_CLAIMED, S_RUNNING, S_RETRYABLE_FAILED} \<and> st_version s < st_version s3"
    using e by (cases "st_status s") (auto split: if_splits)
  show ?thesis using f st e t by (simp add: step_frame_def)
qed


text \<open>A settled step: the status moved along one edge under a valid lease, and the lease is gone.\<close>

lemma step_start_effect:
  "step_start tok now s = Done r t \<Longrightarrow>
     st_lease_token s = Some tok \<and> (st_status s = S_RUNNING \<or> st_status s = S_CLAIMED) \<and>
     st_status t = S_RUNNING \<and> st_started_at t \<noteq> None \<and> st_lease_owner t = st_lease_owner s \<and>
     st_lease_token t = Some tok \<and> st_lease_expires_at t = st_lease_expires_at s \<and>
     st_attempt_count t = st_attempt_count s \<and> st_completed_at t = st_completed_at s \<and>
     st_max_attempts t = st_max_attempts s \<and> st_version s \<le> st_version t"
  unfolding step_start_def check_Done andthen_Done step_assert_lease_None
  by (auto dest!: step_transition_effect simp: step_edges_into step_frame_def)

definition step_released :: "workflow_step \<Rightarrow> bool" where
  "step_released t \<longleftrightarrow> st_lease_owner t = None \<and> st_lease_token t = None \<and> st_lease_expires_at t = None"

lemma step_released_simps [simp]: "step_released (step_clear_lease t)"
  "st_status (step_clear_lease t) = st_status t" "st_completed_at (step_clear_lease t) = st_completed_at t"
  "st_next_attempt_at (step_clear_lease t) = st_next_attempt_at t"
  "st_attempt_count (step_clear_lease t) = st_attempt_count t" "st_version (step_clear_lease t) = st_version t"
  "st_max_attempts (step_clear_lease t) = st_max_attempts t"
  by (simp_all add: step_released_def step_clear_lease_def)

definition step_settled :: "workflow_step \<Rightarrow> workflow_step \<Rightarrow> bool" where
  "step_settled s t \<longleftrightarrow> step_released t \<and>
     (st_status t = st_status s \<or> st_status t \<in> set (step_transitions (st_status s))) \<and>
     st_attempt_count t = st_attempt_count s \<and> st_version s \<le> st_version t \<and>
     st_max_attempts t = st_max_attempts s \<and>
     (if step_terminal (st_status t) then st_completed_at t \<noteq> None
      else st_completed_at t = st_completed_at s) \<and>
     (st_status t = S_RETRYABLE_FAILED \<longrightarrow> st_next_attempt_at t \<noteq> None)"

lemma step_settledI:
  assumes "step_transition target now s = Done r u"
    and "st_status v = st_status u" "st_attempt_count v = st_attempt_count u"
    and "st_version v = st_version u" "st_max_attempts v = st_max_attempts u"
    and "if step_terminal target then st_completed_at v \<noteq> None else st_completed_at v = st_completed_at u"
    and "target = S_RETRYABLE_FAILED \<Longrightarrow> st_next_attempt_at v \<noteq> None"
  shows "st_status (step_clear_lease v) = target \<and> step_settled s (step_clear_lease v)"
  using step_transition_effect [OF assms(1)] assms(2-)
  by (cases "step_terminal target") (auto simp: step_settled_def step_frame_def)

lemma step_assert_lease_token: "step_assert_lease tok now s = None \<Longrightarrow> st_lease_token s = Some tok"
  by (simp add: step_assert_lease_None)

lemma step_wait_effect:
  assumes "step_wait_for_human tok now s = Done r t"
  shows "st_lease_token s = Some tok \<and> st_status t = S_WAITING_HUMAN \<and> step_settled s t"
proof -
  from assms obtain r' u where "step_transition S_WAITING_HUMAN now s = Done r' u"
    "t = step_clear_lease u" "st_lease_token s = Some tok"
    by (auto simp: step_wait_for_human_def andthen_Done dest: step_assert_lease_token)
  then show ?thesis using step_settledI [of S_WAITING_HUMAN now s r' u u] by (simp add: step_terminal_def)
qed

lemma step_fail_permanently_effect:
  assumes "step_fail_permanently cls msg tok now s = Done r t"
  shows "st_lease_token s = Some tok \<and> st_status t = S_FAILED \<and> step_settled s t"
proof -
  from assms obtain r' u where u: "step_transition S_FAILED now s = Done r' u" and
    t: "t = step_clear_lease (u\<lparr>st_error_class := Some cls, st_error_message := Some msg,
          st_completed_at := Some now\<rparr>)" and l: "st_lease_token s = Some tok"
    by (auto simp: step_fail_permanently_def andthen_Done dest: step_assert_lease_token)
  have "st_status t = S_FAILED \<and> step_settled s t"
    unfolding t by (rule step_settledI [OF u]) (simp_all add: step_terminal_def)
  with l show ?thesis by blast
qed

lemma step_succeed_effect:
  assumes "step_succeed ref out tok' now s = Done r t"
  shows "(st_status s = S_WAITING_HUMAN \<or> (tok' \<noteq> None \<and> st_lease_token s = tok')) \<and>
     st_status t = S_SUCCEEDED \<and> step_settled s t"
proof -
  from assms obtain r' u where u: "step_transition S_SUCCEEDED now s = Done r' u" and
    t: "t = step_clear_lease (u\<lparr>st_output_ref := ref, st_output_data := out,
          st_completed_at := Some now\<rparr>)" and
    l: "st_status s = S_WAITING_HUMAN \<or> (tok' \<noteq> None \<and> st_lease_token s = tok')"
    by (auto simp: step_succeed_def andthen_Done dest: step_assert_lease_token
        split: if_splits option.splits)
  have "st_status t = S_SUCCEEDED \<and> step_settled s t"
    unfolding t by (rule step_settledI [OF u]) (simp_all add: step_terminal_def)
  with l show ?thesis by blast
qed

lemma step_recover_effect:
  assumes "step_recover_expired_lease retry_at now s = Done r t"
  shows "(st_status s \<notin> {S_CLAIMED, S_RUNNING} \<and> t = s) \<or>
     (st_status s \<in> {S_CLAIMED, S_RUNNING} \<and> st_status t = S_RETRYABLE_FAILED \<and> step_settled s t)"
proof (cases "st_status s \<in> {S_CLAIMED, S_RUNNING}")
  case True
  with assms obtain r' u where u: "step_transition S_RETRYABLE_FAILED now s = Done r' u" and
    t: "t = step_clear_lease (u\<lparr>st_error_class := Some ''LeaseExpired'',
            st_error_message := Some ''worker lease expired before durable completion'',
            st_next_attempt_at := Some retry_at\<rparr>)"
    by (auto simp: step_recover_expired_lease_def andthen_Done)
  have "st_status t = S_RETRYABLE_FAILED \<and> step_settled s t"
    unfolding t by (rule step_settledI [OF u]) (simp_all add: step_terminal_def)
  with True show ?thesis by blast
next
  case False
  with assms show ?thesis by (simp add: step_recover_expired_lease_def)
qed

lemma step_cancel_effect:
  assumes "step_cancel now s = Done r t"
  shows "(step_terminal (st_status s) \<and> t = s) \<or>
     (\<not> step_terminal (st_status s) \<and> st_status t = S_CANCELLED \<and> step_settled s t)"
proof (cases "step_terminal (st_status s)")
  case False
  with assms obtain r' u where u: "step_transition S_CANCELLED now s = Done r' u" and
    t: "t = step_clear_lease (u\<lparr>st_completed_at := Some now\<rparr>)"
    by (auto simp: step_cancel_def andthen_Done)
  have "st_status t = S_CANCELLED \<and> step_settled s t"
    unfolding t by (rule step_settledI [OF u]) (simp_all add: step_terminal_def)
  with False show ?thesis by blast
qed (use assms in \<open>simp add: step_cancel_def\<close>)

lemma step_fail_retryable_effect:
  assumes "step_fail_retryable cls msg retry_at tok now s = Done r t"
  shows "st_lease_token s = Some tok \<and> step_settled s t \<and>
     st_status t = (if st_attempt_count s < st_max_attempts s then S_RETRYABLE_FAILED else S_FAILED)"
proof (cases "st_attempt_count s < st_max_attempts s")
  case True
  with assms obtain r' u where u: "step_transition S_RETRYABLE_FAILED now s = Done r' u" and
    t: "t = step_clear_lease (u\<lparr>st_error_class := Some cls, st_error_message := Some msg,
          st_next_attempt_at := Some retry_at\<rparr>)" and l: "st_lease_token s = Some tok"
    by (auto simp: step_fail_retryable_def andthen_Done dest: step_assert_lease_token)
  have "st_status t = S_RETRYABLE_FAILED \<and> step_settled s t"
    unfolding t by (rule step_settledI [OF u]) (simp_all add: step_terminal_def)
  with True l show ?thesis by simp
next
  case False
  with assms have "step_fail_permanently cls msg tok now s = Done r t"
    by (simp add: step_fail_retryable_def)
  with False show ?thesis by (auto dest: step_fail_permanently_effect)
qed

lemma step_ok_active:
  "step_ok s \<Longrightarrow> st_status s \<in> {S_CLAIMED, S_RUNNING, S_WAITING_HUMAN, S_RETRYABLE_FAILED} \<Longrightarrow>
     1 \<le> st_attempt_count s \<and> st_completed_at s = None"
  by (cases "st_status s") (simp_all add: step_ok_def step_terminal_def)

lemma step_settled_ok:
  assumes "step_settled s t" "step_ok s"
    and "st_status t \<in> {S_WAITING_HUMAN, S_FAILED, S_SUCCEEDED, S_RETRYABLE_FAILED, S_CANCELLED}"
  shows "step_ok t"
proof -
  have base: "0 \<le> st_attempt_count t" "1 \<le> st_version t" "st_attempt_count t = st_attempt_count s"
    using assms(1,2) by (simp_all add: step_settled_def step_ok_def)
  have "1 \<le> st_attempt_count s \<and> st_completed_at s = None"
    if "st_status t \<in> {S_WAITING_HUMAN, S_RETRYABLE_FAILED}"
  proof (rule step_ok_active [OF assms(2)])
    have "st_status t = st_status s \<or> st_status t \<in> set (step_transitions (st_status s))"
      using assms(1) by (simp add: step_settled_def)
    with that show "st_status s \<in> {S_CLAIMED, S_RUNNING, S_WAITING_HUMAN, S_RETRYABLE_FAILED}"
      by (cases "st_status s") auto
  qed
  with assms(1,3) base show ?thesis
    by (cases "st_status t") (simp_all add: step_ok_def step_settled_def step_released_def step_terminal_def)
qed

lemma step_call_ok: "step_call s t \<Longrightarrow> step_ok s \<Longrightarrow> step_ok t"
proof (induction rule: step_call.induct)
  case (sc_queue now s r t)
  then show ?case using step_queue_effect [OF sc_queue.hyps]
    by (cases "st_status s") (simp_all add: step_ok_def step_terminal_def step_frame_def)
next
  case (sc_claim owner dur new now s tok t)
  then show ?case using step_claim_effect [OF sc_claim.hyps]
    by (cases "st_status s") (simp_all add: step_ok_def step_terminal_def)
next
  case (sc_start tok now s r t)
  then show ?case using step_start_effect [OF sc_start.hyps]
    by (cases "st_status s") (simp_all add: step_ok_def step_terminal_def)
next
  case (sc_wait tok now s r t)
  then show ?case using step_wait_effect [OF sc_wait.hyps] step_settled_ok [of s t] by simp
next
  case (sc_succeed ref out tok' now s r t)
  then show ?case using step_succeed_effect [OF sc_succeed.hyps] step_settled_ok [of s t] by simp
next
  case (sc_fail_permanently cls msg tok now s r t)
  then show ?case using step_fail_permanently_effect [OF sc_fail_permanently.hyps] step_settled_ok [of s t] by simp
next
  case (sc_fail_retryable cls msg retry_at tok now s r t)
  then show ?case using step_fail_retryable_effect [OF sc_fail_retryable.hyps] step_settled_ok [of s t]
    by (simp split: if_splits)
next
  case (sc_recover retry_at now s r t)
  then show ?case using step_recover_effect [OF sc_recover.hyps] step_settled_ok [of s t] by fastforce
next
  case (sc_cancel now s r t)
  then show ?case using step_cancel_effect [OF sc_cancel.hyps] step_settled_ok [of s t] by fastforce
qed

lemma step_ok_terminal:
  "step_ok s \<Longrightarrow> step_terminal (st_status s) \<Longrightarrow> st_lease_token s = None"
  by (cases "st_status s") (simp_all add: step_ok_def step_terminal_def)

lemma step_call_terminal: "step_call s t \<Longrightarrow> step_ok s \<Longrightarrow> step_terminal (st_status s) \<Longrightarrow> t = s"
proof (induction rule: step_call.induct)
  case (sc_queue now s r t)
  then show ?case using step_queue_effect [OF sc_queue.hyps] by (auto simp: step_terminal_def)
next
  case (sc_claim owner dur new now s tok t)
  then show ?case using step_claim_effect [OF sc_claim.hyps] by (auto simp: step_terminal_def)
next
  case (sc_start tok now s r t)
  then show ?case using step_start_effect [OF sc_start.hyps] step_ok_terminal by fastforce
next
  case (sc_wait tok now s r t)
  then show ?case using step_wait_effect [OF sc_wait.hyps] step_ok_terminal by fastforce
next
  case (sc_succeed ref out tok' now s r t)
  then show ?case using step_succeed_effect [OF sc_succeed.hyps] step_ok_terminal [of s]
    by (auto simp: step_terminal_def)
next
  case (sc_fail_permanently cls msg tok now s r t)
  then show ?case using step_fail_permanently_effect [OF sc_fail_permanently.hyps] step_ok_terminal
    by fastforce
next
  case (sc_fail_retryable cls msg retry_at tok now s r t)
  then show ?case using step_fail_retryable_effect [OF sc_fail_retryable.hyps] step_ok_terminal
    by fastforce
next
  case (sc_recover retry_at now s r t)
  then show ?case using step_recover_effect [OF sc_recover.hyps] by (auto simp: step_terminal_def)
next
  case (sc_cancel now s r t)
  then show ?case by (simp add: step_cancel_def)
qed

lemma step_run_ok: "step_call\<^sup>*\<^sup>* s t \<Longrightarrow> step_ok s \<Longrightarrow> step_ok t"
  by (induction rule: rtranclp_induct) (auto dest: step_call_ok)

text \<open>
  The method \<open>transition\<close> is public too. It moves the status along the table and leaves every other field to its
  caller; inside the entity each call is followed by the rest of the method, and nothing else calls it. What it
  does to a step on its own:
\<close>

definition step_fits :: "step_status \<Rightarrow> workflow_step \<Rightarrow> bool" where
  "step_fits target s \<longleftrightarrow> target = S_QUEUED \<or>
     target = S_CLAIMED \<and> st_lease_owner s \<noteq> None \<and> st_lease_token s \<noteq> None \<and> st_lease_expires_at s \<noteq> None \<and>
       1 \<le> st_attempt_count s \<or>
     target = S_RUNNING \<and> st_started_at s \<noteq> None"

lemma step_transition_ok:
  assumes "step_ok s" "step_transition target now s = Done r t" "target \<noteq> st_status s"
  shows "step_ok t \<longleftrightarrow> step_fits target s"
proof -
  have t: "t = s\<lparr>st_status := target, st_version := st_version s + 1, st_updated_at := now\<rparr>"
    and e: "target \<in> set (step_transitions (st_status s))" using assms(2,3) by (auto simp: step_transition_Done)
  show ?thesis using assms(1) e unfolding t step_ok_def step_fits_def
    by (cases "st_status s"; cases target) (auto simp: step_terminal_def)
qed

text \<open>C8: in every state a step reaches by its methods the lease fields, the completion time, the start time
  and the attempt counter agree with the status. The bare \<open>transition\<close>, a method too, keeps that agreement
  exactly when it keeps the status or enters the queue, a claim whose lease is already complete, or a run
  that has already started. And whatever is called, a bare transition included, a terminal step never
  changes again.\<close>

theorem step_invariant:
  assumes "step_call\<^sup>*\<^sup>* (step_create i w k ty n v m ref inp now) s"
  shows "step_ok s \<and>
    (\<forall>target later t. step_transition target later s = Done () t \<longrightarrow>
       (step_ok t \<longleftrightarrow> target = st_status s \<or> step_fits target s)) \<and>
    (step_terminal (st_status s) \<longrightarrow>
       (\<lambda>s t. step_call s t \<or> (\<exists>target later. step_transition target later s = Done () t))\<^sup>*\<^sup>* s t \<longrightarrow> t = s)"
proof -
  have ok: "step_ok s" using step_run_ok [OF assms step_ok_create] .
  moreover have "step_ok t \<longleftrightarrow> target = st_status s \<or> step_fits target s"
    if "step_transition target later s = Done () t" for target later t
    using step_transition_ok [OF ok that] that ok by (cases "target = st_status s") (auto simp: step_transition_Done)
  moreover have "t = s" if terminal: "step_terminal (st_status s)"
    and "(\<lambda>s t. step_call s t \<or> (\<exists>target later. step_transition target later s = Done () t))\<^sup>*\<^sup>* s t"
    using that(2)
  proof (induction rule: rtranclp_induct)
    case (step u v)
    then have "step_call s v \<or> (\<exists>target later. step_transition target later s = Done () v)" by simp
    then show ?case
      using step_call_terminal [OF _ ok terminal] terminal
      by (cases "st_status s") (auto simp: step_transition_Done step_terminal_def)
  qed simp
  ultimately show ?thesis by blast
qed

definition sample_step :: workflow_step where
  "sample_step = step_create ''s'' ''w'' ''k'' CREATE_PLAN 1 1 1 None None (utc 0)"

lemma step_runI: "step_call\<^sup>*\<^sup>* a s \<Longrightarrow> step_call s t \<Longrightarrow> step_call\<^sup>*\<^sup>* a t"
  by (rule rtranclp.rtrancl_into_rtrancl)

definition sample_queued :: workflow_step where
  "sample_queued = sample_step\<lparr>st_status := S_QUEUED, st_version := 2, st_updated_at := utc 1\<rparr>"

definition sample_claimed :: workflow_step where
  "sample_claimed = sample_queued\<lparr>st_status := S_CLAIMED, st_version := 3, st_updated_at := utc 2,
     st_lease_owner := Some ''a'', st_lease_token := Some ''t1'', st_lease_expires_at := Some (utc 12),
     st_attempt_count := 1\<rparr>"

lemmas sample_steps = sample_step_def sample_queued_def sample_claimed_def step_create_def

lemma sample_queued_run: "step_queue (utc 1) sample_step = Done () sample_queued"
  by (simp add: step_queue_def step_transition_def assert_transition_def sample_steps)

lemma sample_claimed_run:
  "step_claim ''a'' 10 ''t1'' (utc 2) sample_queued = Done ''t1'' sample_claimed"
  by (simp add: step_claim_def step_claim_retry_def step_claim_expired_def step_transition_def assert_transition_def
      sample_steps)

lemma sample_claimed_reachable: "step_call\<^sup>*\<^sup>* sample_step sample_claimed"
  by (rule step_runI [OF step_runI [OF rtranclp.rtrancl_refl sc_queue [OF sample_queued_run]]
        sc_claim [OF sample_claimed_run]])

theorem step_invariant_witness:
  "step_ok sample_claimed \<and> st_lease_token sample_claimed = Some ''t1'' \<and>
   \<not> step_ok (object_after (step_transition S_RUNNING (utc 3) sample_claimed))"
proof -
  let ?t = "sample_claimed\<lparr>st_status := S_RUNNING, st_version := 4, st_updated_at := utc 3\<rparr>"
  have t: "step_transition S_RUNNING (utc 3) sample_claimed = Done () ?t"
    by (simp add: step_transition_def assert_transition_def sample_steps)
  note inv = step_invariant [OF sample_claimed_reachable [unfolded sample_step_def], of sample_claimed]
  have "\<not> step_fits S_RUNNING sample_claimed" "S_RUNNING \<noteq> st_status sample_claimed"
    by (simp_all add: step_fits_def sample_steps)
  then have "\<not> step_ok ?t" using inv t by blast
  then show ?thesis using inv t by (simp add: sample_claimed_def)
qed

section \<open>The lease of a step\<close>

definition step_live :: "workflow_step \<Rightarrow> datetime \<Rightarrow> bool" where
  "step_live s now \<longleftrightarrow> st_status s \<in> {S_CLAIMED, S_RUNNING} \<and>
     (\<exists>e. st_lease_expires_at s = Some e \<and> \<not> incomparable e now \<and> dt_less now e)"

text \<open>The reports of a worker that must carry its lease token.\<close>

datatype step_report =
    Start
  | WaitForHuman
  | FailRetryable string string datetime
  | FailPermanently string string

fun step_settle :: "step_report \<Rightarrow> string \<Rightarrow> datetime \<Rightarrow> workflow_step \<Rightarrow> (unit, workflow_step) outcome" where
  "step_settle Start tok now s = step_start tok now s"
| "step_settle WaitForHuman tok now s = step_wait_for_human tok now s"
| "step_settle (FailRetryable cls msg retry_at) tok now s = step_fail_retryable cls msg retry_at tok now s"
| "step_settle (FailPermanently cls msg) tok now s = step_fail_permanently cls msg tok now s"

lemma step_claim_excluded:
  "step_live s now \<Longrightarrow> step_claim owner dur new now s = Raise LeaseConflictError s"
  by (auto simp: step_live_def step_claim_def step_claim_retry_def step_claim_expired_def)

lemma step_settle_fenced:
  "st_lease_token s \<noteq> Some tok \<Longrightarrow> step_settle rep tok now s = Raise LeaseConflictError s"
  by (cases rep) (simp_all add: step_start_def step_wait_for_human_def step_fail_retryable_def
      step_fail_permanently_def step_assert_lease_def)

interpretation step_lease: lease_discipline "\<lambda>(owner, dur). step_claim owner dur" step_settle step_live
    st_lease_token st_lease_expires_at
proof (unfold_locales, goal_cases)
  case (1 s now x new)
  then show ?case by (cases x) (auto dest: step_claim_excluded)
next
  case (2 x new now s tok t)
  then show ?case by (cases x) (auto dest: step_claim_effect)
next
  case (3 x new now s tok t)
  obtain owner dur where x: "x = (owner, dur)" by (cases x)
  from 3 have e: "st_status t = S_CLAIMED" "st_lease_expires_at t = Some (dt_add now dur)"
    using step_claim_effect [of owner dur new now s tok t] by (simp_all add: x)
  with 3(2) show ?case by (simp add: step_live_def comparable_utc)
next
  case (4 s tok y now)
  then show ?case by (auto dest: step_settle_fenced)
qed

text \<open>exclusive ownership of a step. While the lease a claim granted has not expired, every other
  claim of the step is refused and changes nothing, and a worker with any other token, in
  particular the holder of a lease that was taken over, can neither start the step nor report its
  outcome.\<close>

theorem step_lease_exclusive:
  assumes "step_claim owner dur new now s = Done tok t"
    and "is_utc now" "is_utc later" "instant later < instant now + dur"
  shows "step_claim owner' dur' new' later t = Raise LeaseConflictError t
       \<and> (old \<noteq> tok \<longrightarrow> step_settle rep old at t = Raise LeaseConflictError t)"
proof -
  have tok: "tok = new" "st_lease_token t = Some new" "st_lease_expires_at t = Some (dt_add now dur)"
    using step_claim_effect [OF assms(1)] by simp_all
  have "\<exists>e. st_lease_expires_at t = Some e \<and> (\<forall>later. is_utc later \<longrightarrow> dt_less later e \<longrightarrow> step_live t later)"
    using step_lease.claim_live [of "(owner, dur)" new now s tok t] assms(1,2) by simp
  with tok assms(2-4) have "step_live t later" by (auto simp: dt_less_def)
  with tok show ?thesis by (auto simp: step_claim_excluded step_settle_fenced)
qed

theorem step_lease_exclusive_witness:
  "step_claim ''b'' 10 ''t2'' (utc 11) sample_claimed = Raise LeaseConflictError sample_claimed
   \<and> step_settle (FailPermanently ''X'' ''m'') ''old'' (utc 3) sample_claimed
       = Raise LeaseConflictError sample_claimed"
  using step_lease_exclusive [OF sample_claimed_run, of "utc 11" "''b''" 10 "''t2''" "''old''"
      "FailPermanently ''X'' ''m''" "utc 3"] by simp


section \<open>The retry budget of a step\<close>

text \<open>A take-over of an expired lease, as the executor runs it when a worker has died.\<close>

lemma step_takeover:
  assumes "st_status s = S_CLAIMED" "st_lease_expires_at s = Some (utc e)"
  shows "\<exists>t. step_claim owner 1 new (utc e) s = Done new t \<and> st_status t = S_CLAIMED \<and>
     st_lease_expires_at t = Some (utc (e + 1)) \<and> st_attempt_count t = st_attempt_count s + 1 \<and>
     st_max_attempts t = st_max_attempts s"
  using assms by (simp add: step_claim_def step_claim_retry_def step_claim_expired_def
      step_transition_def assert_transition_def incomparable_def utc_def dt_less_def dt_add_def)

text \<open>C9: the two places where the budget of a step is enforced: a retryable failure of the last
  attempt is a permanent one, and a failed step without attempts left cannot be claimed. A lease
  that expired is outside both: taking it over spends an attempt without looking at
  \<open>max_attempts\<close>, so a step with a budget of one attempt can reach any number of attempts.\<close>

theorem step_retry_budget:
  "(st_status s = S_RETRYABLE_FAILED \<and> st_max_attempts s \<le> st_attempt_count s \<longrightarrow>
      step_claim owner dur new now s = Raise RetryExhaustedError s)
   \<and> (step_fail_retryable cls msg retry_at tok now s = Done () t \<and> st_max_attempts s \<le> st_attempt_count s
      \<longrightarrow> st_status t = S_FAILED)
   \<and> (\<exists>u. step_call\<^sup>*\<^sup>* sample_step u \<and> st_max_attempts u = 1 \<and> st_attempt_count u = 1 + int n)"
proof -
  have "\<exists>u e. step_call\<^sup>*\<^sup>* sample_step u \<and> st_status u = S_CLAIMED \<and> st_lease_expires_at u = Some (utc e)
      \<and> st_max_attempts u = 1 \<and> st_attempt_count u = 1 + int n"
  proof (induction n)
    case 0
    show ?case using sample_claimed_reachable
      by (intro exI [of _ sample_claimed] exI [of _ 12]) (simp add: sample_steps)
  next
    case (Suc n)
    then obtain u e where u: "step_call\<^sup>*\<^sup>* sample_step u" "st_status u = S_CLAIMED"
      "st_lease_expires_at u = Some (utc e)" "st_max_attempts u = 1" "st_attempt_count u = 1 + int n" by blast
    obtain v where v: "step_claim ''b'' 1 ''t'' (utc e) u = Done ''t'' v" "st_status v = S_CLAIMED"
      "st_lease_expires_at v = Some (utc (e + 1))" "st_attempt_count v = st_attempt_count u + 1"
      "st_max_attempts v = st_max_attempts u" using step_takeover [OF u(2,3)] by metis
    have "step_call\<^sup>*\<^sup>* sample_step v" using u(1) sc_claim [OF v(1)] by (rule step_runI)
    with u v show ?case by (intro exI [of _ v] exI [of _ "e + 1"]) simp
  qed
  moreover have "step_fail_retryable cls msg retry_at tok now s = Done () t \<Longrightarrow>
      st_max_attempts s \<le> st_attempt_count s \<Longrightarrow> st_status t = S_FAILED"
    by (drule step_fail_retryable_effect) simp
  ultimately show ?thesis by (auto simp: step_claim_def step_claim_retry_def)
qed

theorem step_retry_budget_witness:
  "\<exists>u. step_call\<^sup>*\<^sup>* sample_step u \<and> st_max_attempts u = 1 \<and> st_attempt_count u = 1 + int 6"
  using step_retry_budget [of sample_step "''a''" 1 "''t''" "utc 1" "''c''" "''m''" "utc 1" "''t''"
      sample_step 6] by blast

section \<open>Attempts\<close>

inductive attempt_call :: "workflow_attempt \<Rightarrow> workflow_attempt \<Rightarrow> bool" where
  ac_transition: "attempt_transition target now a = Done r b \<Longrightarrow> attempt_call a b"
| ac_submitting: "attempt_mark_submitting now a = Done r b \<Longrightarrow> attempt_call a b"
| ac_succeed: "attempt_succeed ref data now a = Done r b \<Longrightarrow> attempt_call a b"

lemma attempt_call_status:
  "attempt_call a b \<Longrightarrow> attempt_table.edge\<^sup>*\<^sup>* (at_status a) (at_status b)"
  by (induction rule: attempt_call.induct)
    (auto simp: attempt_transition_def attempt_op_defs andthen_Done attempt_table.edge_def split: if_splits)

interpretation attempt_states: table_driven attempt_transitions attempt_terminal
    "\<lambda>s. if attempt_terminal s then 0 else 1" attempt_call at_status
  by unfold_locales (rule attempt_call_status)

text \<open>
  The status of a finished attempt is permanent, its result is not: \<open>succeed\<close> on an attempt that has
  already succeeded replaces the result without a new version.
\<close>

lemma attempt_result_overwritten:
  "at_status a = A_SUCCEEDED \<Longrightarrow> attempt_succeed ref data now a =
     Done () (a\<lparr>at_result_ref := ref, at_result_data := data, at_completed_at := Some now\<rparr>)"
  by (simp add: attempt_op_defs attempt_transition_def)

end
