(* ===== verification/Operations.thy ===== *)
theory Operations
  imports Identity
begin

text \<open>
  The durable operation of \<open>operations/entities.py\<close> and \<open>operations/enums.py\<close>: the aggregate behind
  every asynchronous task, with its execution lease, its attempt budget, the reconciliation of an
  external outcome that is not known, dead letters, replays and recovery generations. One
  definition per method, in the order of the file; correctness is in \<open>Operation_Facts\<close>.
\<close>

section \<open>Enumerations\<close>

datatype operation_kind =
    ASSET_VALIDATION | PRODUCT_BRIEF_ANALYSIS | ASSET_INDEXING | ASSET_DELETION
  | RECONCILIATION | COLLECTION_REBUILD | IMAGE_GENERATION | IMAGE_EDITING

fun operation_kind_value :: "operation_kind \<Rightarrow> string" where
  "operation_kind_value ASSET_VALIDATION = ''ASSET_VALIDATION''"
| "operation_kind_value PRODUCT_BRIEF_ANALYSIS = ''PRODUCT_BRIEF_ANALYSIS''"
| "operation_kind_value ASSET_INDEXING = ''ASSET_INDEXING''"
| "operation_kind_value ASSET_DELETION = ''ASSET_DELETION''"
| "operation_kind_value RECONCILIATION = ''RECONCILIATION''"
| "operation_kind_value COLLECTION_REBUILD = ''COLLECTION_REBUILD''"
| "operation_kind_value IMAGE_GENERATION = ''IMAGE_GENERATION''"
| "operation_kind_value IMAGE_EDITING = ''IMAGE_EDITING''"

datatype operation_state =
    OP_PENDING | OP_CLAIMED | OP_RUNNING | OP_RECONCILING | OP_WAITING_HUMAN
  | OP_RETRYABLE_FAILED | OP_SUCCEEDED | OP_FAILED | OP_CANCELLED

definition operation_terminal :: "operation_state \<Rightarrow> bool" where
  "operation_terminal s \<longleftrightarrow> s \<in> {OP_SUCCEEDED, OP_FAILED, OP_CANCELLED}"

datatype reconciliation_outcome =
    NOT_REQUIRED | OUTCOME_PENDING | CONFIRMED_SUCCESS | CONFIRMED_FAILURE | OUTCOME_NOT_FOUND

section \<open>Normalised errors\<close>

fun normalize_provider_request_id :: "string option \<Rightarrow> error + string option" where
  "normalize_provider_request_id None = Inr None"
| "normalize_provider_request_id (Some v) =
     (let n = strip v in if n = [] \<or> 256 < length n then Inl ValueError else Inr (Some n))"

record operation_error =
  oe_code :: string
  oe_category :: string
  oe_message :: string
  oe_retryable :: bool
  oe_provider_request_id :: "string option"

definition operation_error_create ::
  "string \<Rightarrow> string \<Rightarrow> string \<Rightarrow> bool \<Rightarrow> string option \<Rightarrow> error + operation_error" where
  "operation_error_create error_code category message retryable request_id =
     (case guards [guard (error_code = [] \<or> 128 < length error_code) ValueError,
                   guard (category = [] \<or> 64 < length category) ValueError,
                   guard (message = [] \<or> 4000 < length message) ValueError] of
        Some e \<Rightarrow> Inl e
      | None \<Rightarrow>
          (case normalize_provider_request_id request_id of
             Inl e \<Rightarrow> Inl e
           | Inr p \<Rightarrow> Inr \<lparr>oe_code = error_code, oe_category = category, oe_message = message,
                            oe_retryable = retryable, oe_provider_request_id = p\<rparr>))"

definition external_outcome_unknown :: operation_error where
  "external_outcome_unknown =
     \<lparr>oe_code = ''EXTERNAL_OUTCOME_UNKNOWN'', oe_category = ''recovery'',
      oe_message = ''worker lease expired after external execution started'',
      oe_retryable = True, oe_provider_request_id = None\<rparr>"

definition lease_expired_error :: operation_error where
  "lease_expired_error =
     \<lparr>oe_code = ''LEASE_EXPIRED'', oe_category = ''recovery'',
      oe_message = ''worker lease expired before external execution started'',
      oe_retryable = True, oe_provider_request_id = None\<rparr>"

definition lease_expired_exhausted_error :: operation_error where
  "lease_expired_exhausted_error =
     \<lparr>oe_code = ''LEASE_EXPIRED'', oe_category = ''recovery'',
      oe_message = ''worker lease expired and the attempt budget is exhausted'',
      oe_retryable = False, oe_provider_request_id = None\<rparr>"

section \<open>The aggregate\<close>

record durable_operation =
  op_id :: string
  op_workspace_id :: string
  op_kind :: operation_kind
  op_target_type :: string
  op_target_id :: string
  op_target_version :: int
  op_input_hash :: string
  op_input_ref :: "string option"
  op_output_ref :: "string option"
  op_provider_request_id :: "string option"
  op_state :: operation_state
  op_lease_owner :: "string option"
  op_lease_token :: "string option"
  op_lease_expires_at :: "datetime option"
  op_attempt_count :: int
  op_max_attempts :: int
  op_next_attempt_at :: "datetime option"
  op_execution_deadline_at :: datetime
  op_reconciliation_attempt_count :: int
  op_max_reconciliation_attempts :: int
  op_next_reconciliation_at :: "datetime option"
  op_reconciliation_started_at :: "datetime option"
  op_reconciliation_deadline_at :: "datetime option"
  op_reconciliation_required :: bool
  op_reconciliation_outcome :: reconciliation_outcome
  op_dead_letter_id :: "string option"
  op_replay_source_dead_letter_id :: "string option"
  op_replay_attempt :: int
  op_recovery_generation :: int
  op_recovery_consumed_generation :: int
  op_error :: "operation_error option"
  op_created_at :: datetime
  op_updated_at :: datetime
  op_last_attempt_at :: "datetime option"
  op_started_at :: "datetime option"
  op_completed_at :: "datetime option"
  op_version :: int

definition operation_create ::
  "string \<Rightarrow> string \<Rightarrow> operation_kind \<Rightarrow> string \<Rightarrow> string \<Rightarrow> int \<Rightarrow> string \<Rightarrow> int \<Rightarrow> int \<Rightarrow> int \<Rightarrow>
   string option \<Rightarrow> datetime \<Rightarrow> error + durable_operation" where
  "operation_create new_id workspace_id kind target_type target_id target_version input_hash
     max_attempts max_reconciliation_attempts execution_max_elapsed input_ref now =
     (case guards
        [require_utc now,
         guard (target_type = [] \<or> 64 < length target_type) ValueError,
         guard (target_id = [] \<or> 128 < length target_id) ValueError,
         guard (target_version < 1) ValueError,
         guard (length input_hash \<noteq> 64 \<or> \<not> list_all is_lower_hex input_hash) ValueError,
         guard (max_attempts < 1) ValueError,
         guard (max_reconciliation_attempts < 1) ValueError,
         guard (execution_max_elapsed \<le> 0) ValueError,
         validate_workspace_id workspace_id] of
        Some e \<Rightarrow> Inl e
      | None \<Rightarrow> Inr
          \<lparr>op_id = new_id, op_workspace_id = workspace_id, op_kind = kind,
           op_target_type = target_type, op_target_id = target_id,
           op_target_version = target_version, op_input_hash = input_hash,
           op_input_ref = input_ref, op_output_ref = None, op_provider_request_id = None,
           op_state = OP_PENDING, op_lease_owner = None, op_lease_token = None,
           op_lease_expires_at = None, op_attempt_count = 0, op_max_attempts = max_attempts,
           op_next_attempt_at = None,
           op_execution_deadline_at = dt_add now execution_max_elapsed,
           op_reconciliation_attempt_count = 0,
           op_max_reconciliation_attempts = max_reconciliation_attempts,
           op_next_reconciliation_at = None, op_reconciliation_started_at = None,
           op_reconciliation_deadline_at = None, op_reconciliation_required = False,
           op_reconciliation_outcome = NOT_REQUIRED, op_dead_letter_id = None,
           op_replay_source_dead_letter_id = None, op_replay_attempt = 0,
           op_recovery_generation = 0, op_recovery_consumed_generation = 0, op_error = None,
           op_created_at = now, op_updated_at = now, op_last_attempt_at = None,
           op_started_at = None, op_completed_at = None, op_version = 1\<rparr>)"

definition op_logical_key ::
  "durable_operation \<Rightarrow> string \<times> operation_kind \<times> string \<times> string \<times> int \<times> string" where
  "op_logical_key s = (op_workspace_id s, op_kind s, op_target_type s, op_target_id s,
     op_target_version s, op_input_hash s)"

section \<open>Private helpers of the methods\<close>

definition op_assert_version :: "int \<Rightarrow> durable_operation \<Rightarrow> error option" where
  "op_assert_version expected s = guard (op_version s \<noteq> expected) ConcurrencyError"

definition op_assert_state :: "operation_state \<Rightarrow> durable_operation \<Rightarrow> error option" where
  "op_assert_state expected s = guard (op_state s \<noteq> expected) InvalidTransitionError"

definition op_assert_lease :: "string \<Rightarrow> datetime \<Rightarrow> durable_operation \<Rightarrow> error option" where
  "op_assert_lease tok now s = guards
     [require_utc now,
      guard (op_lease_token s \<noteq> Some tok) LeaseConflictError,
      (case op_lease_expires_at s of
         None \<Rightarrow> Some LeaseConflictError
       | Some e \<Rightarrow> le_guard e now LeaseConflictError)]"

fun op_assert_execution_authority ::
  "string \<Rightarrow> int option \<Rightarrow> int option \<Rightarrow> datetime \<Rightarrow> durable_operation \<Rightarrow> error option" where
  "op_assert_execution_authority tok None None now s = op_assert_lease tok now s"
| "op_assert_execution_authority tok (Some v) (Some n) now s = guards
     [require_utc now,
      op_assert_version v s,
      op_assert_state OP_RUNNING s,
      guard (op_attempt_count s \<noteq> n) ConcurrencyError,
      guard (op_lease_token s \<noteq> Some tok) LeaseConflictError]"
| "op_assert_execution_authority tok _ _ now s = Some ValueError"

fun op_assert_reconciliation_authority ::
  "string \<Rightarrow> int option \<Rightarrow> int option \<Rightarrow> datetime \<Rightarrow> durable_operation \<Rightarrow> error option" where
  "op_assert_reconciliation_authority tok None None now s = op_assert_lease tok now s"
| "op_assert_reconciliation_authority tok (Some v) (Some n) now s = guards
     [require_utc now,
      op_assert_version v s,
      op_assert_state OP_RECONCILING s,
      guard (op_reconciliation_attempt_count s \<noteq> n) ConcurrencyError,
      guard (op_lease_token s \<noteq> Some tok) LeaseConflictError]"
| "op_assert_reconciliation_authority tok _ _ now s = Some ValueError"

definition op_clear_lease :: "durable_operation \<Rightarrow> durable_operation" where
  "op_clear_lease s = s\<lparr>op_lease_owner := None, op_lease_token := None, op_lease_expires_at := None\<rparr>"

definition op_touch :: "datetime \<Rightarrow> durable_operation \<Rightarrow> durable_operation" where
  "op_touch now s = s\<lparr>op_version := op_version s + 1, op_updated_at := now\<rparr>"

text \<open>The identifier is captured once: the first one that is known stays.\<close>

definition op_capture :: "string option \<Rightarrow> durable_operation \<Rightarrow> durable_operation" where
  "op_capture p s =
     (if op_provider_request_id s = None \<and> p \<noteq> None then s\<lparr>op_provider_request_id := p\<rparr> else s)"

definition op_capture_text :: "string option \<Rightarrow> durable_operation \<Rightarrow> (unit, durable_operation) outcome" where
  "op_capture_text v s =
     (case normalize_provider_request_id v of
        Inl e \<Rightarrow> Raise e s
      | Inr p \<Rightarrow> Done () (op_capture p s))"

section \<open>Execution\<close>

definition op_claim_lease ::
  "string \<Rightarrow> int \<Rightarrow> string \<Rightarrow> datetime \<Rightarrow> durable_operation \<Rightarrow> (string, durable_operation) outcome" where
  "op_claim_lease owner lease_duration new_token now s =
     check (guards
       [guard (owner = []) ValueError,
        guard (lease_duration \<le> 0) ValueError,
        le_guard (op_execution_deadline_at s) now RetryExhaustedError,
        guard (op_max_attempts s \<le> op_attempt_count s) RetryExhaustedError]) s
      (Done new_token (op_touch now
        (s\<lparr>op_state := OP_CLAIMED, op_lease_owner := Some owner, op_lease_token := Some new_token,
           op_lease_expires_at := Some (dt_add now lease_duration),
           op_attempt_count := op_attempt_count s + 1, op_last_attempt_at := Some now,
           op_next_attempt_at := None, op_error := None\<rparr>)))"

definition op_claim ::
  "string \<Rightarrow> int \<Rightarrow> string \<Rightarrow> datetime \<Rightarrow> durable_operation \<Rightarrow> (string, durable_operation) outcome" where
  "op_claim owner lease_duration new_token now s =
     check (guards [require_utc now, op_assert_state OP_PENDING s]) s
      (op_claim_lease owner lease_duration new_token now s)"

definition op_retry ::
  "string \<Rightarrow> int \<Rightarrow> string \<Rightarrow> datetime \<Rightarrow> durable_operation \<Rightarrow> (string, durable_operation) outcome" where
  "op_retry owner lease_duration new_token now s =
     check (guards
       [require_utc now,
        op_assert_state OP_RETRYABLE_FAILED s,
        (case op_next_attempt_at s of
           None \<Rightarrow> Some RetryNotReadyError
         | Some q \<Rightarrow> less_guard now q RetryNotReadyError)]) s
      (op_claim_lease owner lease_duration new_token now s)"

definition op_execution_deadline_elapsed :: "datetime \<Rightarrow> durable_operation \<Rightarrow> error + bool" where
  "op_execution_deadline_elapsed now s =
     (case require_utc now of
        Some e \<Rightarrow> Inl e
      | None \<Rightarrow> if incomparable (op_execution_deadline_at s) now then Inl TypeError
                else Inr (dt_le (op_execution_deadline_at s) now))"

definition op_exhaust_execution_deadline ::
  "operation_error \<Rightarrow> datetime \<Rightarrow> durable_operation \<Rightarrow> (unit, durable_operation) outcome" where
  "op_exhaust_execution_deadline err now s =
     check (guards
       [require_utc now,
        guard (op_state s \<notin> {OP_PENDING, OP_RETRYABLE_FAILED}) InvalidTransitionError,
        (case op_execution_deadline_elapsed now s of
           Inl e \<Rightarrow> Some e
         | Inr elapsed \<Rightarrow> guard (\<not> elapsed) InvalidTransitionError)]) s
      (Done () (op_touch now (op_clear_lease
        (s\<lparr>op_state := OP_FAILED, op_completed_at := Some now, op_next_attempt_at := None,
           op_error := Some (err\<lparr>oe_retryable := False\<rparr>)\<rparr>))))"

definition op_require_reconciliation ::
  "string \<Rightarrow> operation_error \<Rightarrow> string option \<Rightarrow> int option \<Rightarrow> int option \<Rightarrow> datetime option \<Rightarrow>
   datetime \<Rightarrow> durable_operation \<Rightarrow> (unit, durable_operation) outcome" where
  "op_require_reconciliation tok err request_id expected_version expected_attempt deadline now s =
     (let until = or_else deadline (dt_add now (hours 24)) in
      check (guards
        [require_utc until,
         le_guard until now ValueError,
         op_assert_execution_authority tok expected_version expected_attempt now s,
         op_assert_state OP_RUNNING s]) s
       (andthen (op_capture_text request_id
          (s\<lparr>op_state := OP_RECONCILING, op_reconciliation_required := True,
             op_reconciliation_outcome := OUTCOME_PENDING,
             op_reconciliation_started_at := Some (or_else (op_reconciliation_started_at s) now),
             op_reconciliation_deadline_at := Some until,
             op_next_reconciliation_at := Some now\<rparr>)) (\<lambda>_ t.
          Done () (op_touch now (op_clear_lease
            ((op_capture (oe_provider_request_id err) t)
               \<lparr>op_error := Some err, op_next_attempt_at := None\<rparr>))))))"

definition op_start :: "string \<Rightarrow> datetime \<Rightarrow> durable_operation \<Rightarrow> (unit, durable_operation) outcome" where
  "op_start tok now s =
     check (guards [op_assert_lease tok now s, op_assert_state OP_CLAIMED s]) s
      (Done () (op_touch now (s\<lparr>op_state := OP_RUNNING,
         op_started_at := Some (or_else (op_started_at s) now)\<rparr>)))"

definition op_apply_success ::
  "string option \<Rightarrow> string option \<Rightarrow> datetime \<Rightarrow> durable_operation \<Rightarrow> (unit, durable_operation) outcome" where
  "op_apply_success output_ref request_id now s =
     check (guard (op_state s \<notin> {OP_RUNNING, OP_RECONCILING}) InvalidTransitionError) s
      (andthen (op_capture_text request_id
         (s\<lparr>op_state := OP_SUCCEEDED, op_output_ref := output_ref\<rparr>)) (\<lambda>_ t.
         Done () (op_touch now (op_clear_lease
           (t\<lparr>op_completed_at := Some now,
              op_reconciliation_outcome :=
                (if op_reconciliation_required t then CONFIRMED_SUCCESS
                 else op_reconciliation_outcome t)\<rparr>)))))"

definition op_succeed ::
  "string \<Rightarrow> string option \<Rightarrow> string option \<Rightarrow> int option \<Rightarrow> int option \<Rightarrow> datetime \<Rightarrow>
   durable_operation \<Rightarrow> (unit, durable_operation) outcome" where
  "op_succeed tok output_ref request_id expected_version expected_attempt now s =
     check (op_assert_execution_authority tok expected_version expected_attempt now s) s
      (op_apply_success output_ref request_id now s)"

definition op_apply_failure ::
  "operation_error \<Rightarrow> datetime option \<Rightarrow> datetime \<Rightarrow> durable_operation \<Rightarrow>
   (unit, durable_operation) outcome" where
  "op_apply_failure err retry_at now s =
     check (guard (op_state s \<notin> {OP_RUNNING, OP_RECONCILING}) InvalidTransitionError) s
      (let t = (op_capture (oe_provider_request_id err) s)\<lparr>op_error := Some err\<rparr> in
       if oe_retryable err \<and> op_attempt_count s < op_max_attempts s then
         (case retry_at of
            None \<Rightarrow> Raise ValueError t
          | Some q \<Rightarrow>
              check (guards [require_utc q, less_guard q now ValueError]) t
               (Done () (op_touch now (op_clear_lease
                 (t\<lparr>op_state := OP_RETRYABLE_FAILED, op_next_attempt_at := Some q\<rparr>)))))
       else Done () (op_touch now (op_clear_lease
         (t\<lparr>op_state := OP_FAILED, op_completed_at := Some now, op_next_attempt_at := None\<rparr>))))"

definition op_fail ::
  "string \<Rightarrow> operation_error \<Rightarrow> datetime option \<Rightarrow> int option \<Rightarrow> int option \<Rightarrow> datetime \<Rightarrow>
   durable_operation \<Rightarrow> (unit, durable_operation) outcome" where
  "op_fail tok err retry_at expected_version expected_attempt now s =
     check (op_assert_execution_authority tok expected_version expected_attempt now s) s
      (op_apply_failure err retry_at now s)"

section \<open>Recovery and reconciliation\<close>

definition op_recover_expired_lease ::
  "datetime \<Rightarrow> datetime option \<Rightarrow> datetime \<Rightarrow> durable_operation \<Rightarrow> (unit, durable_operation) outcome" where
  "op_recover_expired_lease retry_at reconciliation_deadline now s =
     check (guards
       [require_utc now,
        require_utc retry_at,
        guard (op_state s \<notin> {OP_CLAIMED, OP_RUNNING}) InvalidTransitionError,
        (case op_lease_expires_at s of
           None \<Rightarrow> Some LeaseConflictError
         | Some e \<Rightarrow> less_guard now e LeaseConflictError)]) s
      (if op_state s = OP_RUNNING then
         (let until = or_else reconciliation_deadline (dt_add now (hours 24)) in
          check (guards [require_utc until, le_guard until now ValueError]) s
           (Done () (op_touch now (op_clear_lease
             (s\<lparr>op_state := OP_RECONCILING, op_reconciliation_required := True,
                op_reconciliation_outcome := OUTCOME_PENDING,
                op_reconciliation_started_at := Some (or_else (op_reconciliation_started_at s) now),
                op_reconciliation_deadline_at := Some until,
                op_next_reconciliation_at := Some now,
                op_error := Some external_outcome_unknown, op_next_attempt_at := None\<rparr>)))))
       else if op_attempt_count s < op_max_attempts s then
         Done () (op_touch now (op_clear_lease
           (s\<lparr>op_state := OP_RETRYABLE_FAILED, op_next_attempt_at := Some retry_at,
              op_error := Some lease_expired_error\<rparr>)))
       else
         Done () (op_touch now (op_clear_lease
           (s\<lparr>op_state := OP_FAILED, op_completed_at := Some now,
              op_error := Some lease_expired_exhausted_error\<rparr>))))"

definition op_claim_reconciliation ::
  "string \<Rightarrow> int \<Rightarrow> string \<Rightarrow> datetime \<Rightarrow> durable_operation \<Rightarrow> (string, durable_operation) outcome" where
  "op_claim_reconciliation owner lease_duration new_token now s =
     check (guards
       [require_utc now,
        op_assert_state OP_RECONCILING s,
        guard (owner = []) ValueError,
        guard (lease_duration \<le> 0) ValueError,
        (case op_lease_expires_at s of
           None \<Rightarrow> None
         | Some e \<Rightarrow> less_guard now e LeaseConflictError),
        (case op_reconciliation_deadline_at s of
           None \<Rightarrow> None
         | Some d \<Rightarrow> le_guard d now RetryExhaustedError),
        guard (op_max_reconciliation_attempts s \<le> op_reconciliation_attempt_count s)
          RetryExhaustedError,
        (case op_next_reconciliation_at s of
           None \<Rightarrow> None
         | Some q \<Rightarrow> less_guard now q RetryNotReadyError)]) s
      (Done new_token (op_touch now
        (s\<lparr>op_lease_owner := Some owner, op_lease_token := Some new_token,
           op_lease_expires_at := Some (dt_add now lease_duration),
           op_reconciliation_attempt_count := op_reconciliation_attempt_count s + 1,
           op_next_reconciliation_at := None\<rparr>)))"

text \<open>\<open>deadline_elapsed\<close> of \<open>defer_reconciliation\<close>: the next attempt would be past the deadline.\<close>

definition op_defer_past_deadline :: "datetime option \<Rightarrow> durable_operation \<Rightarrow> error + bool" where
  "op_defer_past_deadline next s =
     (case (op_reconciliation_deadline_at s, next) of
        (Some d, Some q) \<Rightarrow> if incomparable d q then Inl TypeError else Inr (dt_le d q)
      | _ \<Rightarrow> Inr False)"

definition op_defer_reconciliation ::
  "string \<Rightarrow> operation_error \<Rightarrow> string option \<Rightarrow> datetime option \<Rightarrow> int option \<Rightarrow> int option \<Rightarrow>
   datetime \<Rightarrow> durable_operation \<Rightarrow> (unit, durable_operation) outcome" where
  "op_defer_reconciliation tok err request_id next expected_version expected_attempt now s =
     check (guards
       [(case next of
           Some q \<Rightarrow> guards [require_utc q, le_guard q now ValueError]
         | None \<Rightarrow> guard (oe_retryable err) ValueError),
        op_assert_reconciliation_authority tok expected_version expected_attempt now s,
        op_assert_state OP_RECONCILING s]) s
      (andthen (op_capture_text request_id
         (s\<lparr>op_reconciliation_required := True, op_reconciliation_outcome := OUTCOME_PENDING\<rparr>)) (\<lambda>_ t.
       let u = (op_capture (oe_provider_request_id err) t)\<lparr>op_error := Some err\<rparr> in
       case op_defer_past_deadline next u of
         Inl e \<Rightarrow> Raise e u
       | Inr past \<Rightarrow>
           Done () (op_touch now (op_clear_lease
             (if \<not> oe_retryable err \<or> past \<or>
                 op_max_reconciliation_attempts u \<le> op_reconciliation_attempt_count u
              then u\<lparr>op_state := OP_FAILED, op_completed_at := Some now,
                     op_next_reconciliation_at := None,
                     op_error := Some (err\<lparr>oe_retryable := False\<rparr>)\<rparr>
              else u\<lparr>op_next_reconciliation_at := next\<rparr>)))))"

definition op_exhaust_reconciliation ::
  "operation_error \<Rightarrow> datetime \<Rightarrow> durable_operation \<Rightarrow> (unit, durable_operation) outcome" where
  "op_exhaust_reconciliation err now s =
     check (guards
       [require_utc now,
        op_assert_state OP_RECONCILING s,
        (case op_lease_expires_at s of
           None \<Rightarrow> None
         | Some e \<Rightarrow> less_guard now e LeaseConflictError)]) s
      (Done () (op_touch now (op_clear_lease
        (s\<lparr>op_state := OP_FAILED, op_completed_at := Some now, op_next_reconciliation_at := None,
           op_error := Some (err\<lparr>oe_retryable := False\<rparr>)\<rparr>))))"

definition op_reconciliation_exhausted :: "datetime \<Rightarrow> durable_operation \<Rightarrow> error + bool" where
  "op_reconciliation_exhausted now s =
     (case require_utc now of
        Some e \<Rightarrow> Inl e
      | None \<Rightarrow>
          if op_max_reconciliation_attempts s \<le> op_reconciliation_attempt_count s then Inr True
          else case op_reconciliation_deadline_at s of
                 None \<Rightarrow> Inr False
               | Some d \<Rightarrow> if incomparable d now then Inl TypeError else Inr (dt_le d now))"

definition op_resolve_reconciliation ::
  "string \<Rightarrow> reconciliation_outcome \<Rightarrow> operation_error option \<Rightarrow> datetime option \<Rightarrow> string option \<Rightarrow>
   string option \<Rightarrow> int option \<Rightarrow> int option \<Rightarrow> datetime \<Rightarrow> durable_operation \<Rightarrow>
   (unit, durable_operation) outcome" where
  "op_resolve_reconciliation tok verdict err retry_at output_ref request_id expected_version
     expected_attempt now s =
     check (guards
       [op_assert_reconciliation_authority tok expected_version expected_attempt now s,
        op_assert_state OP_RECONCILING s]) s
      (andthen (op_capture_text request_id s) (\<lambda>_ t.
         if verdict = CONFIRMED_SUCCESS then op_apply_success output_ref request_id now t
         else check (guard (verdict \<noteq> CONFIRMED_FAILURE) InvalidTransitionError) t
           (case err of
              None \<Rightarrow> Raise ValueError t
            | Some e \<Rightarrow>
                op_apply_failure e retry_at now (t\<lparr>op_reconciliation_outcome := verdict\<rparr>))))"

section \<open>Human waits and cancellation\<close>

definition op_wait_for_human ::
  "string \<Rightarrow> string option \<Rightarrow> string option \<Rightarrow> int option \<Rightarrow> int option \<Rightarrow> datetime \<Rightarrow>
   durable_operation \<Rightarrow> (unit, durable_operation) outcome" where
  "op_wait_for_human tok output_ref request_id expected_version expected_attempt now s =
     check (guards
       [op_assert_execution_authority tok expected_version expected_attempt now s,
        op_assert_state OP_RUNNING s]) s
      (andthen (op_capture_text request_id
         (s\<lparr>op_state := OP_WAITING_HUMAN, op_output_ref := output_ref\<rparr>)) (\<lambda>_ t.
         Done () (op_touch now (op_clear_lease t))))"

definition op_wait_for_human_after_reconciliation ::
  "string \<Rightarrow> string option \<Rightarrow> string option \<Rightarrow> int option \<Rightarrow> int option \<Rightarrow> datetime \<Rightarrow>
   durable_operation \<Rightarrow> (unit, durable_operation) outcome" where
  "op_wait_for_human_after_reconciliation tok output_ref request_id expected_version
     expected_attempt now s =
     check (guards
       [op_assert_reconciliation_authority tok expected_version expected_attempt now s,
        op_assert_state OP_RECONCILING s]) s
      (andthen (op_capture_text request_id
         (s\<lparr>op_state := OP_WAITING_HUMAN, op_output_ref := output_ref\<rparr>)) (\<lambda>_ t.
         Done () (op_touch now (op_clear_lease
           (t\<lparr>op_reconciliation_required := True, op_reconciliation_outcome := CONFIRMED_SUCCESS,
              op_next_reconciliation_at := None, op_error := None\<rparr>)))))"

definition op_complete_human_wait ::
  "string option \<Rightarrow> datetime \<Rightarrow> durable_operation \<Rightarrow> (unit, durable_operation) outcome" where
  "op_complete_human_wait output_ref now s =
     check (guards [require_utc now, op_assert_state OP_WAITING_HUMAN s]) s
      (Done () (op_touch now (s\<lparr>op_state := OP_SUCCEEDED, op_output_ref := output_ref,
         op_completed_at := Some now\<rparr>)))"

definition op_cancel :: "int option \<Rightarrow> datetime \<Rightarrow> durable_operation \<Rightarrow> (unit, durable_operation) outcome" where
  "op_cancel expected_version now s =
     check (guards
       [require_utc now,
        (case expected_version of None \<Rightarrow> None | Some v \<Rightarrow> op_assert_version v s),
        guard (operation_terminal (op_state s)) InvalidTransitionError]) s
      (Done () (op_touch now (op_clear_lease
        (s\<lparr>op_state := OP_CANCELLED, op_completed_at := Some now, op_next_attempt_at := None\<rparr>))))"

section \<open>Dead letters, replays and recovery generations\<close>

text \<open>The new deadline is checked after the first assignments, as in the code.\<close>

definition op_replay_failure ::
  "string \<Rightarrow> int \<Rightarrow> bool \<Rightarrow> datetime \<Rightarrow> datetime \<Rightarrow> datetime \<Rightarrow> durable_operation \<Rightarrow>
   (unit, durable_operation) outcome" where
  "op_replay_failure source replay_attempt reconcile_only execution_deadline reconciliation_deadline
     now s =
     check (guards
       [require_utc now,
        require_utc execution_deadline,
        require_utc reconciliation_deadline,
        op_assert_state OP_FAILED s,
        guard (source = []) ValueError,
        guard (replay_attempt < 1) ValueError]) s
      (let t = s\<lparr>op_dead_letter_id := None, op_replay_source_dead_letter_id := Some source,
                 op_replay_attempt := replay_attempt, op_completed_at := None\<rparr> in
       if reconcile_only then
         check (le_guard reconciliation_deadline now ValueError) t
          (Done () (op_touch now (op_clear_lease
            (t\<lparr>op_state := OP_RECONCILING, op_reconciliation_required := True,
               op_reconciliation_outcome := OUTCOME_PENDING,
               op_max_reconciliation_attempts := op_reconciliation_attempt_count t + 1,
               op_reconciliation_started_at := Some now,
               op_reconciliation_deadline_at := Some reconciliation_deadline,
               op_next_reconciliation_at := Some now\<rparr>))))
       else
         check (le_guard execution_deadline now ValueError) t
          (Done () (op_touch now (op_clear_lease
            (t\<lparr>op_state := OP_RETRYABLE_FAILED, op_max_attempts := op_attempt_count t + 1,
               op_next_attempt_at := Some now,
               op_execution_deadline_at := execution_deadline\<rparr>)))))"

definition op_mark_dead_lettered ::
  "string \<Rightarrow> datetime \<Rightarrow> durable_operation \<Rightarrow> (unit, durable_operation) outcome" where
  "op_mark_dead_lettered dead_letter_id now s =
     check (guards
       [require_utc now,
        op_assert_state OP_FAILED s,
        guard (op_dead_letter_id s \<noteq> None) InvalidTransitionError,
        guard (dead_letter_id = []) ValueError]) s
      (Done () (op_touch now (s\<lparr>op_dead_letter_id := Some dead_letter_id\<rparr>)))"

definition op_reserve_recovery_generation ::
  "datetime \<Rightarrow> durable_operation \<Rightarrow> (int, durable_operation) outcome" where
  "op_reserve_recovery_generation now s =
     check (guards
       [require_utc now,
        guard (op_recovery_generation s \<noteq> op_recovery_consumed_generation s)
          InvalidTransitionError]) s
      (Done (op_recovery_generation s + 1)
        (op_touch now (s\<lparr>op_recovery_generation := op_recovery_generation s + 1\<rparr>)))"

definition op_consume_recovery_generation ::
  "int \<Rightarrow> datetime \<Rightarrow> durable_operation \<Rightarrow> (bool, durable_operation) outcome" where
  "op_consume_recovery_generation generation now s =
     check (require_utc now) s
      (if generation = 0 then Done False s
       else if generation < 0 then Raise ValueError s
       else if generation \<le> op_recovery_consumed_generation s then Done False s
       else if generation \<noteq> op_recovery_generation s then Raise InvalidTransitionError s
       else Done True (op_touch now (s\<lparr>op_recovery_consumed_generation := generation\<rparr>)))"

definition op_apply_transport_replay ::
  "string \<Rightarrow> int \<Rightarrow> int \<Rightarrow> datetime \<Rightarrow> durable_operation \<Rightarrow> (bool, durable_operation) outcome" where
  "op_apply_transport_replay source replay_attempt generation now s =
     check (require_utc now) s
      (if op_state s \<notin> {OP_RETRYABLE_FAILED, OP_RECONCILING} then Done False s
       else check (guards [guard (source = []) ValueError, guard (replay_attempt < 1) ValueError]) s
        (andthen (op_consume_recovery_generation generation now s) (\<lambda>consumed t.
           if \<not> consumed then Done False t
           else Done True (t\<lparr>op_replay_source_dead_letter_id := Some source,
                             op_replay_attempt := replay_attempt\<rparr>))))"

section \<open>Late provider identities\<close>

definition op_record_late_identity ::
  "string option \<Rightarrow> datetime \<Rightarrow> durable_operation \<Rightarrow> (bool, durable_operation) outcome" where
  "op_record_late_identity request_id now s =
     andthen (op_capture_text request_id s) (\<lambda>_ t.
       if op_provider_request_id t = op_provider_request_id s then Done False t
       else Done True (op_touch now t))"

definition op_record_late_execution_provider_identity ::
  "string option \<Rightarrow> int \<Rightarrow> int \<Rightarrow> datetime \<Rightarrow> durable_operation \<Rightarrow> (bool, durable_operation) outcome" where
  "op_record_late_execution_provider_identity request_id expected_version expected_attempt now s =
     check (guards
       [require_utc now,
        guard (op_version s \<le> expected_version) ConcurrencyError,
        guard (op_attempt_count s \<noteq> expected_attempt) ConcurrencyError,
        guard (op_state s \<notin> {OP_RECONCILING, OP_RETRYABLE_FAILED} \<and>
               \<not> operation_terminal (op_state s)) LeaseConflictError]) s
      (op_record_late_identity request_id now s)"

definition op_record_late_reconciliation_provider_identity ::
  "string option \<Rightarrow> int \<Rightarrow> int \<Rightarrow> datetime \<Rightarrow> durable_operation \<Rightarrow> (bool, durable_operation) outcome" where
  "op_record_late_reconciliation_provider_identity request_id expected_version expected_attempt now s =
     check (guards
       [require_utc now,
        guard (op_version s \<le> expected_version) ConcurrencyError,
        guard (op_reconciliation_attempt_count s < expected_attempt) ConcurrencyError,
        guard (op_state s \<noteq> OP_RECONCILING \<and> \<not> operation_terminal (op_state s))
          LeaseConflictError]) s
      (op_record_late_identity request_id now s)"

section \<open>Bundles\<close>

lemmas op_authority_defs = op_assert_version_def op_assert_state_def op_assert_lease_def

lemmas op_effect_defs = op_clear_lease_def op_touch_def op_capture_def

lemmas op_work_defs = op_claim_lease_def op_claim_def op_retry_def op_exhaust_execution_deadline_def
  op_require_reconciliation_def op_start_def op_apply_success_def op_succeed_def
  op_apply_failure_def op_fail_def op_recover_expired_lease_def op_claim_reconciliation_def
  op_defer_reconciliation_def op_exhaust_reconciliation_def op_resolve_reconciliation_def
  op_wait_for_human_def op_wait_for_human_after_reconciliation_def op_complete_human_wait_def
  op_cancel_def

lemmas op_admin_defs = op_replay_failure_def op_mark_dead_lettered_def
  op_reserve_recovery_generation_def op_consume_recovery_generation_def
  op_apply_transport_replay_def op_record_late_identity_def
  op_record_late_execution_provider_identity_def
  op_record_late_reconciliation_provider_identity_def

end
