(* ===== verification/Messaging.thy ===== *)
theory Messaging
  imports Workflow_States Identity
begin

text \<open>
  The transport-independent messages of \<open>messaging/events.py\<close>: the event envelope, the outbox and
  inbox records, dead letters and their replays. They are data with validated constructors; the
  calls that move them (locking, acknowledging, replaying) belong to the repositories.
\<close>

section \<open>Events\<close>

record event_envelope =
  ev_event_id :: string
  ev_event_type :: string
  ev_schema_version :: int
  ev_aggregate_type :: string
  ev_aggregate_id :: string
  ev_aggregate_version :: int
  ev_occurred_at :: datetime
  ev_trace_id :: string
  ev_payload :: json

definition event_envelope_create ::
  "string \<Rightarrow> string \<Rightarrow> string \<Rightarrow> string \<Rightarrow> int \<Rightarrow> string \<Rightarrow> json \<Rightarrow> int \<Rightarrow> datetime \<Rightarrow> event_envelope" where
  "event_envelope_create new_id event_type aggregate_type aggregate_id aggregate_version trace_id
     payload schema_version now =
     \<lparr>ev_event_id = new_id, ev_event_type = event_type, ev_schema_version = schema_version,
      ev_aggregate_type = aggregate_type, ev_aggregate_id = aggregate_id,
      ev_aggregate_version = aggregate_version, ev_occurred_at = now, ev_trace_id = trace_id,
      ev_payload = payload\<rparr>"

text \<open>\<open>validate_workspace_id\<close> on an optional workspace.\<close>

fun validate_workspace_opt :: "string option \<Rightarrow> error option" where
  "validate_workspace_opt None = None"
| "validate_workspace_opt (Some w) = validate_workspace_id w"

record outbox_event =
  ob_envelope :: event_envelope
  ob_available_at :: datetime
  ob_published_at :: "datetime option"
  ob_publish_attempts :: int
  ob_lock_owner :: "string option"
  ob_lock_token :: "string option"
  ob_locked_until :: "datetime option"
  ob_last_error :: "string option"
  ob_workspace_id :: "string option"
  ob_source_dead_letter_id :: "string option"
  ob_replay_attempt :: int

definition outbox_event_check :: "outbox_event \<Rightarrow> error option" where
  "outbox_event_check e = validate_workspace_opt (ob_workspace_id e)"

record inbox_message =
  ib_consumer :: string
  ib_message_id :: string
  ib_status :: inbox_status
  ib_lease_owner :: "string option"
  ib_lease_token :: "string option"
  ib_lease_expires_at :: "datetime option"
  ib_delivery_attempts :: int
  ib_processed_at :: "datetime option"
  ib_error_class :: "string option"
  ib_error_message :: "string option"
  ib_created_at :: datetime
  ib_updated_at :: datetime

section \<open>Dead letters and replays\<close>

record dead_letter_message =
  dl_id :: string
  dl_consumer :: string
  dl_message_id :: string
  dl_event_type :: string
  dl_payload :: json
  dl_reason :: string
  dl_error_class :: "string option"
  dl_error_message :: "string option"
  dl_attempt_count :: int
  dl_original_created_at :: datetime
  dl_created_at :: datetime
  dl_workspace_id :: "string option"
  dl_source_dead_letter_id :: "string option"
  dl_replay_attempt :: int

definition dead_letter_create ::
  "string \<Rightarrow> string \<Rightarrow> string \<Rightarrow> string \<Rightarrow> json \<Rightarrow> string \<Rightarrow> int \<Rightarrow> datetime \<Rightarrow> string option \<Rightarrow>
   string option \<Rightarrow> string option \<Rightarrow> string option \<Rightarrow> int \<Rightarrow> datetime \<Rightarrow>
   error + dead_letter_message" where
  "dead_letter_create new_id consumer message_id event_type payload reason attempt_count
     original_created_at error_class error_message workspace_id source replay_attempt now =
     (case validate_workspace_opt workspace_id of
        Some e \<Rightarrow> Inl e
      | None \<Rightarrow> Inr
          \<lparr>dl_id = new_id, dl_consumer = consumer, dl_message_id = message_id,
           dl_event_type = event_type, dl_payload = payload, dl_reason = reason,
           dl_error_class = error_class, dl_error_message = error_message,
           dl_attempt_count = attempt_count, dl_original_created_at = original_created_at,
           dl_created_at = now, dl_workspace_id = workspace_id,
           dl_source_dead_letter_id = source, dl_replay_attempt = replay_attempt\<rparr>)"

record dead_letter_replay =
  dr_id :: string
  dr_source_dead_letter_id :: string
  dr_workspace_id :: string
  dr_actor_id :: string
  dr_reason :: string
  dr_replayed_at :: datetime
  dr_replay_attempt :: int
  dr_replay_event_id :: string

definition dead_letter_replay_create ::
  "string \<Rightarrow> string \<Rightarrow> string \<Rightarrow> string \<Rightarrow> string \<Rightarrow> int \<Rightarrow> string \<Rightarrow> datetime \<Rightarrow>
   error + dead_letter_replay" where
  "dead_letter_replay_create new_id source workspace_id actor_id reason replay_attempt replay_event_id now =
     (case guards
        [guard (reason = [] \<or> 512 < length reason) ValueError,
         guard (replay_attempt < 1) ValueError,
         require_utc now,
         validate_workspace_id workspace_id] of
        Some e \<Rightarrow> Inl e
      | None \<Rightarrow> Inr
          \<lparr>dr_id = new_id, dr_source_dead_letter_id = source, dr_workspace_id = workspace_id,
           dr_actor_id = actor_id, dr_reason = reason, dr_replayed_at = now,
           dr_replay_attempt = replay_attempt, dr_replay_event_id = replay_event_id\<rparr>)"

datatype replay_lifecycle_state = RL_RECORDED | RL_PREPARED | RL_CLAIMED | RL_COMPLETED

datatype replay_preparation_kind = TERMINAL_OPERATION | TRANSPORT

datatype replay_work_kind = EXECUTION | RECONCILIATION_WORK | TERMINAL_CONVERGENCE

record operation_replay_lifecycle =
  rl_source_dead_letter_id :: string
  rl_replay_attempt :: int
  rl_replay_event_id :: string
  rl_workspace_id :: string
  rl_state :: replay_lifecycle_state
  rl_operation_id :: "string option"
  rl_preparation_kind :: "replay_preparation_kind option"
  rl_work_kind :: "replay_work_kind option"
  rl_prepared_at :: "datetime option"
  rl_prepared_operation_version :: "int option"
  rl_claim_token :: "string option"
  rl_claimed_at :: "datetime option"
  rl_claimed_operation_version :: "int option"
  rl_completed_at :: "datetime option"
  rl_completed_operation_version :: "int option"

definition operation_replay_lifecycle_check :: "operation_replay_lifecycle \<Rightarrow> error option" where
  "operation_replay_lifecycle_check l = validate_workspace_id (rl_workspace_id l)"

section \<open>Validity\<close>

lemma dead_letter_replay_create_valid:
  "dead_letter_replay_create i src w a r n ev now = Inr x \<Longrightarrow>
     is_valid_workspace_id (dr_workspace_id x) \<and> dr_reason x \<noteq> [] \<and> length (dr_reason x) \<le> 512 \<and>
     1 \<le> dr_replay_attempt x \<and> is_utc (dr_replayed_at x)"
  by (auto simp: dead_letter_replay_create_def validator_defs split: option.splits)

end
