(* ===== verification/Operation_Recovery.thy ===== *)
theory Operation_Recovery
  imports Operations Messaging
begin

text \<open>
  Recovery of durable operations: the scanner of \<open>application/operation_recovery.py\<close> and the turn of a
  worker up to its claim, with the terminal dead letter, of \<open>application/operations.py\<close>, over the rows of one
  operation in \<open>persistence/operations.py\<close>. A unit of work that raises leaves the rows as they were. The body of
  the scanner's loop reads and writes the rows of its own operation only, and a pass is modelled for one
  operation: the order and the limit of the batch are not.
\<close>

section \<open>The rows of one operation\<close>

record operation_rows =
  ou_operation :: durable_operation
  ou_outbox :: "outbox_event list"
  ou_dead_letters :: "dead_letter_message list"
  ou_replays :: "operation_replay_lifecycle list"

definition on_operation ::
  "(durable_operation \<Rightarrow> ('a, durable_operation) outcome) \<Rightarrow> operation_rows \<Rightarrow> ('a, operation_rows) outcome" where
  "on_operation call u =
     (case call (ou_operation u) of
        Done r s \<Rightarrow> Done r (u\<lparr>ou_operation := s\<rparr>)
      | Raise e s \<Rightarrow> Raise e (u\<lparr>ou_operation := s\<rparr>))"

text \<open>Leaving the unit of work by an exception rolls the transaction back.\<close>

fun transaction :: "operation_rows \<Rightarrow> ('a, operation_rows) outcome \<Rightarrow> ('a, operation_rows) outcome" where
  "transaction u (Done r v) = Done r v"
| "transaction u (Raise e v) = Raise e u"

definition has_unpublished :: "string \<Rightarrow> string \<Rightarrow> outbox_event list \<Rightarrow> bool" where
  "has_unpublished aggregate_id event_type events \<longleftrightarrow>
     list_ex (\<lambda>e. ev_aggregate_id (ob_envelope e) = aggregate_id \<and> ev_event_type (ob_envelope e) = event_type \<and>
       ob_published_at e = None) events"

definition complete_claimed_replays :: "string \<Rightarrow> datetime \<Rightarrow> operation_rows \<Rightarrow> operation_rows" where
  "complete_claimed_replays tok completed_at u =
     u\<lparr>ou_replays := map (\<lambda>l. if rl_operation_id l = Some (op_id (ou_operation u)) \<and> rl_state l = RL_CLAIMED \<and>
           rl_claim_token l = Some tok
         then l\<lparr>rl_state := RL_COMPLETED, rl_claim_token := None, rl_completed_at := Some completed_at,
             rl_completed_operation_version := Some (op_version (ou_operation u))\<rparr>
         else l) (ou_replays u)\<rparr>"

section \<open>Events\<close>

datatype recovery_reason =
    READY_RETRY | EXPIRED_CLAIM | UNKNOWN_EXTERNAL_OUTCOME | RECONCILIATION_PENDING | TERMINAL_FAILURE

fun recovery_reason_value :: "recovery_reason \<Rightarrow> string" where
  "recovery_reason_value READY_RETRY = ''READY_RETRY''"
| "recovery_reason_value EXPIRED_CLAIM = ''EXPIRED_CLAIM''"
| "recovery_reason_value UNKNOWN_EXTERNAL_OUTCOME = ''UNKNOWN_EXTERNAL_OUTCOME''"
| "recovery_reason_value RECONCILIATION_PENDING = ''RECONCILIATION_PENDING''"
| "recovery_reason_value TERMINAL_FAILURE = ''TERMINAL_FAILURE''"

definition recovery_requested :: string where
  "recovery_requested = ''operation.recovery.requested''"

text \<open>\<open>OperationRecoveryRequestedPayload\<close> and its \<open>model_dump\<close>.\<close>

definition recovery_payload :: "durable_operation \<Rightarrow> recovery_reason \<Rightarrow> int \<Rightarrow> error + json" where
  "recovery_payload s reason generation =
     (case guards
        [guard (op_id s = [] \<or> 36 < length (op_id s)) ValueError,
         guard (\<not> is_valid_workspace_id (op_workspace_id s)) ValueError,
         guard (generation < 0) ValueError] of
        Some e \<Rightarrow> Inl e
      | None \<Rightarrow> Inr (JObj
          [(''operation_id'', JStr (op_id s)), (''workspace_id'', JStr (op_workspace_id s)),
           (''operation_kind'', JStr (operation_kind_value (op_kind s))),
           (''recovery_reason'', JStr (recovery_reason_value reason)),
           (''recovery_generation'', JInt generation)]))"

text \<open>The event that asks a worker to take the operation over.\<close>

definition recovery_event ::
  "string \<Rightarrow> recovery_reason \<Rightarrow> int \<Rightarrow> datetime \<Rightarrow> durable_operation \<Rightarrow> error + outbox_event" where
  "recovery_event new_id reason generation now s =
     (case recovery_payload s reason generation of
        Inl e \<Rightarrow> Inl e
      | Inr payload \<Rightarrow>
          (let event = \<lparr>ob_envelope = event_envelope_create new_id recovery_requested ''durable_operation'' (op_id s)
                 (op_version s) (''operation-recovery:'' @ op_id s) payload 1 now,
               ob_available_at = now, ob_published_at = None, ob_publish_attempts = 0, ob_lock_owner = None,
               ob_lock_token = None, ob_locked_until = None, ob_last_error = None,
               ob_workspace_id = Some (op_workspace_id s), ob_source_dead_letter_id = None, ob_replay_attempt = 0\<rparr>
           in case outbox_event_check event of Some e \<Rightarrow> Inl e | None \<Rightarrow> Inr event))"

text \<open>The event that documents a terminal failure; it counts as published from the start.\<close>

definition terminal_event :: "string \<Rightarrow> datetime \<Rightarrow> durable_operation \<Rightarrow> error + outbox_event" where
  "terminal_event new_id now s =
     (let reason = (if op_reconciliation_required s \<and> op_reconciliation_outcome s = OUTCOME_PENDING
                    then RECONCILIATION_PENDING else READY_RETRY)
      in case recovery_payload s reason 0 of
           Inl e \<Rightarrow> Inl e
         | Inr payload \<Rightarrow>
             (let event = \<lparr>ob_envelope = event_envelope_create new_id recovery_requested ''durable_operation''
                    (op_id s) (op_version s) (''operation-terminal:'' @ op_id s) payload 1 now,
                  ob_available_at = now, ob_published_at = Some now, ob_publish_attempts = 0, ob_lock_owner = None,
                  ob_lock_token = None, ob_locked_until = None, ob_last_error = None,
                  ob_workspace_id = Some (op_workspace_id s),
                  ob_source_dead_letter_id = op_replay_source_dead_letter_id s,
                  ob_replay_attempt = op_replay_attempt s\<rparr>
              in case outbox_event_check event of Some e \<Rightarrow> Inl e | None \<Rightarrow> Inr event))"

definition operation_failed_error :: operation_error where
  "operation_failed_error =
     \<lparr>oe_code = ''OPERATION_FAILED'', oe_category = ''operation'',
      oe_message = ''operation reached a terminal failed state'', oe_retryable = False, oe_provider_request_id = None\<rparr>"

definition terminal_dead_letter ::
  "string \<Rightarrow> outbox_event \<Rightarrow> datetime \<Rightarrow> durable_operation \<Rightarrow> error + dead_letter_message" where
  "terminal_dead_letter new_id event now s =
     (let err = or_else (op_error s) operation_failed_error; envelope = ob_envelope event
      in dead_letter_create new_id ''durable-operation-worker'' (ev_event_id envelope) (ev_event_type envelope)
           (ev_payload envelope) ''operation_terminal_failure''
           (op_attempt_count s + op_reconciliation_attempt_count s) (ev_occurred_at envelope)
           (Some (oe_code err)) (Some (oe_message err)) (Some (op_workspace_id s))
           (op_replay_source_dead_letter_id s) (op_replay_attempt s) now)"

text \<open>
  \<open>record_terminal_operation_failure\<close>. The new identifiers of a call come from \<open>ids\<close>: the terminal event, the
  dead letter, the recovery event and the lease token, in this order.
\<close>

definition record_terminal_failure ::
  "(nat \<Rightarrow> string) \<Rightarrow> datetime \<Rightarrow> operation_rows \<Rightarrow> (unit, operation_rows) outcome" where
  "record_terminal_failure ids now u =
     (let s = ou_operation u
      in if op_state s \<noteq> OP_FAILED \<or> op_dead_letter_id s \<noteq> None then Done () u
         else branch (terminal_event (ids 0) now s) u (\<lambda>event.
           branch (terminal_dead_letter (ids 1) event now s) u (\<lambda>letter.
             on_operation (op_mark_dead_lettered (dl_id letter) now)
               (u\<lparr>ou_outbox := ou_outbox u @ [event], ou_dead_letters := ou_dead_letters u @ [letter]\<rparr>))))"

section \<open>The scanner\<close>

fun due :: "datetime \<Rightarrow> datetime option \<Rightarrow> bool" where
  "due now None \<longleftrightarrow> False"
| "due now (Some d) \<longleftrightarrow> dt_le d now"

text \<open>The generated column: a recovery event is out that no worker has consumed.\<close>

definition recovery_pending :: "durable_operation \<Rightarrow> bool" where
  "recovery_pending s \<longleftrightarrow> op_recovery_generation s \<noteq> op_recovery_consumed_generation s"

text \<open>The rows \<open>claim_recoverable\<close> selects.\<close>

definition recoverable :: "datetime \<Rightarrow> operation_rows \<Rightarrow> bool" where
  "recoverable now u \<longleftrightarrow>
     (let s = ou_operation u
      in (op_state s \<in> {OP_CLAIMED, OP_RUNNING} \<and> due now (op_lease_expires_at s) \<or>
          \<not> recovery_pending s \<and>
          (op_state s = OP_RETRYABLE_FAILED \<and> due now (op_next_attempt_at s) \<or>
           op_state s = OP_RECONCILING \<and>
             (due now (op_next_reconciliation_at s) \<or> due now (op_reconciliation_deadline_at s) \<or>
              op_next_reconciliation_at s = None \<and> due now (op_lease_expires_at s)) \<and>
             (op_lease_expires_at s = None \<or> due now (op_lease_expires_at s)))) \<and>
         \<not> has_unpublished (op_id s) recovery_requested (ou_outbox u))"

definition expired_claim_token :: "datetime \<Rightarrow> durable_operation \<Rightarrow> error + string option" where
  "expired_claim_token now s =
     (case (op_lease_token s, op_lease_expires_at s) of
        (Some tok, Some e) \<Rightarrow> (case le_test e now of Inl err \<Rightarrow> Inl err | Inr over \<Rightarrow> Inr (if over then Some tok else None))
      | _ \<Rightarrow> Inr None)"

definition reconciliation_exhausted_error :: operation_error where
  "reconciliation_exhausted_error =
     \<lparr>oe_code = ''RECONCILIATION_EXHAUSTED'', oe_category = ''recovery'',
      oe_message = ''external outcome could not be confirmed within the reconciliation budget'',
      oe_retryable = False, oe_provider_request_id = None\<rparr>"

definition prepare_recovery ::
  "datetime \<Rightarrow> int \<Rightarrow> durable_operation \<Rightarrow> (recovery_reason option, durable_operation) outcome" where
  "prepare_recovery now reconciliation_max_elapsed s =
     (if op_state s = OP_CLAIMED then
        andthen (op_recover_expired_lease now (Some (dt_add now reconciliation_max_elapsed)) now s) (\<lambda>_ t.
          Done (if op_state t = OP_FAILED then Some TERMINAL_FAILURE
                else if op_state t = OP_RETRYABLE_FAILED then Some EXPIRED_CLAIM else None) t)
      else if op_state s = OP_RUNNING then
        andthen (op_recover_expired_lease now (Some (dt_add now reconciliation_max_elapsed)) now s) (\<lambda>_ t.
          Done (Some UNKNOWN_EXTERNAL_OUTCOME) t)
      else if op_state s = OP_RETRYABLE_FAILED then Done (Some READY_RETRY) s
      else if op_state s = OP_RECONCILING then
        branch (op_reconciliation_exhausted now s) s (\<lambda>over.
          if over then
            andthen (op_exhaust_reconciliation (or_else (op_error s) reconciliation_exhausted_error) now s) (\<lambda>_ t.
              Done (Some TERMINAL_FAILURE) t)
          else Done (Some RECONCILIATION_PENDING) s)
      else Done None s)"

definition can_emit_recovery :: "recovery_reason \<Rightarrow> durable_operation \<Rightarrow> bool" where
  "can_emit_recovery reason s \<longleftrightarrow>
     (if reason = TERMINAL_FAILURE then op_state s = OP_FAILED
      else op_state s \<in> {OP_RETRYABLE_FAILED, OP_RECONCILING})"

definition emit_recovery ::
  "(nat \<Rightarrow> string) \<Rightarrow> datetime \<Rightarrow> recovery_reason option \<Rightarrow> operation_rows \<Rightarrow> (int, operation_rows) outcome" where
  "emit_recovery ids now reason u =
     (case reason of
        None \<Rightarrow> Done 0 u
      | Some why \<Rightarrow>
          (let s = ou_operation u
           in if can_emit_recovery why s \<and> \<not> recovery_pending s \<and>
                 \<not> has_unpublished (op_id s) recovery_requested (ou_outbox u)
              then andthen (on_operation (op_reserve_recovery_generation now) u) (\<lambda>generation v.
                branch (recovery_event (ids 2) why generation now (ou_operation v)) v (\<lambda>event.
                  Done 1 (v\<lparr>ou_outbox := ou_outbox v @ [event]\<rparr>)))
              else Done 0 u))"

text \<open>The operation is written back when its version has changed.\<close>

definition save_changed :: "durable_operation \<Rightarrow> operation_rows \<Rightarrow> operation_rows" where
  "save_changed original u =
     (if op_version (ou_operation u) \<noteq> op_version original then u else u\<lparr>ou_operation := original\<rparr>)"

definition complete_expired :: "string option \<Rightarrow> datetime \<Rightarrow> operation_rows \<Rightarrow> operation_rows" where
  "complete_expired expired now u =
     (case expired of
        None \<Rightarrow> u
      | Some tok \<Rightarrow> if op_state (ou_operation u) = OP_FAILED then u else complete_claimed_replays tok now u)"

definition recover_operation ::
  "(nat \<Rightarrow> string) \<Rightarrow> int \<Rightarrow> datetime \<Rightarrow> operation_rows \<Rightarrow> (int, operation_rows) outcome" where
  "recover_operation ids reconciliation_max_elapsed now u =
     branch (expired_claim_token now (ou_operation u)) u (\<lambda>expired.
       andthen (on_operation (prepare_recovery now reconciliation_max_elapsed) u) (\<lambda>reason v.
       andthen (record_terminal_failure ids now v) (\<lambda>_ w.
       andthen (emit_recovery ids now reason w) (\<lambda>emitted x.
         Done emitted (complete_expired expired now (save_changed (ou_operation u) x))))))"

text \<open>
  \<open>recover_once\<close> for one row of its batch: nothing when the row is not selected, else the body of the loop in its
  unit of work. The result is the number of events it emits.
\<close>

definition recover_row ::
  "(nat \<Rightarrow> string) \<Rightarrow> int \<Rightarrow> datetime \<Rightarrow> operation_rows \<Rightarrow> (int, operation_rows) outcome" where
  "recover_row ids reconciliation_max_elapsed now u =
     (if recoverable now u then transaction u (recover_operation ids reconciliation_max_elapsed now u) else Done 0 u)"

section \<open>The claims of the operation service\<close>

definition execution_deadline_error :: operation_error where
  "execution_deadline_error =
     \<lparr>oe_code = ''OPERATION_MAXIMUM_ELAPSED'', oe_category = ''recovery'',
      oe_message = ''operation execution did not start within the maximum elapsed budget'',
      oe_retryable = False, oe_provider_request_id = None\<rparr>"

text \<open>\<open>RetryExhaustedError\<close> is raised after the failure of the operation has been committed.\<close>

fun exhausted :: "(unit, operation_rows) outcome \<Rightarrow> (string, operation_rows) outcome" where
  "exhausted (Done r u) = Raise RetryExhaustedError u"
| "exhausted (Raise e u) = Raise e u"

definition claim_before_deadline ::
  "(durable_operation \<Rightarrow> (string, durable_operation) outcome) \<Rightarrow> (nat \<Rightarrow> string) \<Rightarrow> datetime \<Rightarrow> operation_rows \<Rightarrow>
   (string, operation_rows) outcome" where
  "claim_before_deadline acquire ids now u =
     branch (op_execution_deadline_elapsed now (ou_operation u)) u (\<lambda>elapsed.
       if elapsed then
         exhausted (transaction u
           (andthen (on_operation (op_exhaust_execution_deadline execution_deadline_error now) u) (\<lambda>_ v.
             record_terminal_failure ids now v)))
       else transaction u (on_operation acquire u))"

definition service_claim ::
  "(nat \<Rightarrow> string) \<Rightarrow> string \<Rightarrow> int \<Rightarrow> datetime \<Rightarrow> operation_rows \<Rightarrow> (string, operation_rows) outcome" where
  "service_claim ids owner lease_duration now u =
     claim_before_deadline (op_claim owner lease_duration (ids 3) now) ids now u"

definition service_retry ::
  "(nat \<Rightarrow> string) \<Rightarrow> string \<Rightarrow> int \<Rightarrow> datetime \<Rightarrow> operation_rows \<Rightarrow> (string, operation_rows) outcome" where
  "service_retry ids owner lease_duration now u =
     claim_before_deadline (op_retry owner lease_duration (ids 3) now) ids now u"

definition service_claim_reconciliation ::
  "(nat \<Rightarrow> string) \<Rightarrow> string \<Rightarrow> int \<Rightarrow> datetime \<Rightarrow> operation_rows \<Rightarrow> (string, operation_rows) outcome" where
  "service_claim_reconciliation ids owner lease_duration now u =
     branch (expired_claim_token now (ou_operation u)) u (\<lambda>expired.
     branch (op_reconciliation_exhausted now (ou_operation u)) u (\<lambda>over.
       if over then
         exhausted (transaction u
           (andthen (on_operation (op_exhaust_reconciliation reconciliation_exhausted_error now) u) (\<lambda>_ v.
            andthen (record_terminal_failure ids now v) (\<lambda>_ w. Done () (complete_expired expired now w)))))
       else transaction u
         (andthen (on_operation (op_claim_reconciliation owner lease_duration (ids 3) now) u) (\<lambda>tok v.
            Done tok (complete_expired expired now v)))))"

definition service_exhaust_reconciliation ::
  "operation_error \<Rightarrow> (nat \<Rightarrow> string) \<Rightarrow> datetime \<Rightarrow> operation_rows \<Rightarrow> (unit, operation_rows) outcome" where
  "service_exhaust_reconciliation err ids now u =
     transaction u
       (andthen (on_operation (op_exhaust_reconciliation err now) u) (\<lambda>_ v.
        andthen (record_terminal_failure ids now v) (\<lambda>_ w.
          Done () (complete_expired (op_lease_token (ou_operation u)) now w))))"

section \<open>The turn of a worker\<close>

text \<open>
  What the worker does next: execute or reconcile under its new token, tell the executor of a terminal failure, or
  nothing. A worker that vanishes has done nothing more than its claim.
\<close>

datatype worker_next = ExecuteClaimed string | ReconcileClaimed string | RecordTerminalFailure | Finished

definition converge_terminal_failure :: "operation_rows \<Rightarrow> worker_next" where
  "converge_terminal_failure u =
     (if op_state (ou_operation u) = OP_FAILED then RecordTerminalFailure else Finished)"

fun after_exhaustion :: "(worker_next, operation_rows) outcome \<Rightarrow> (worker_next, operation_rows) outcome" where
  "after_exhaustion (Done r u) = Done r u"
| "after_exhaustion (Raise e u) =
     (if e = RetryExhaustedError then Done (converge_terminal_failure u) u else Raise e u)"

definition worker_reconcile ::
  "(nat \<Rightarrow> string) \<Rightarrow> string \<Rightarrow> int \<Rightarrow> datetime \<Rightarrow> operation_rows \<Rightarrow> (worker_next, operation_rows) outcome" where
  "worker_reconcile ids owner lease_duration now u =
     branch (op_reconciliation_exhausted now (ou_operation u)) u (\<lambda>over.
       if over then
         andthen (service_exhaust_reconciliation reconciliation_exhausted_error ids now u) (\<lambda>_ v.
           Done (converge_terminal_failure v) v)
       else after_exhaustion
         (andthen (service_claim_reconciliation ids owner lease_duration now u) (\<lambda>tok v.
           Done (ReconcileClaimed tok) v)))"

definition worker_turn ::
  "(nat \<Rightarrow> string) \<Rightarrow> string \<Rightarrow> int \<Rightarrow> datetime \<Rightarrow> operation_rows \<Rightarrow> (worker_next, operation_rows) outcome" where
  "worker_turn ids owner lease_duration now u =
     (let state = op_state (ou_operation u)
      in after_exhaustion
        (if state = OP_PENDING then
           andthen (service_claim ids owner lease_duration now u) (\<lambda>tok v. Done (ExecuteClaimed tok) v)
         else if state = OP_RETRYABLE_FAILED then
           andthen (service_retry ids owner lease_duration now u) (\<lambda>tok v. Done (ExecuteClaimed tok) v)
         else if state = OP_RECONCILING then worker_reconcile ids owner lease_duration now u
         else if operation_terminal state then Done (converge_terminal_failure u) u
         else Raise InvalidTransitionError u))"

end
