(* ===== verification/Operation_Invariant.thy ===== *)
theory Operation_Invariant
  imports Operations Interfaces
begin

text \<open>
  The lifecycle of a durable operation as a step relation with one rule per method, and the
  invariant of its reachable states: what each state promises about the lease, the completion time,
  the due times and the error, and what always holds of the budgets, the recovery generations and
  the reconciliation record.
\<close>

section \<open>Lifecycle calls\<close>

text \<open>The method a step of the lifecycle calls, with the data the theorems speak of.\<close>

datatype op_label =
    Claim | Retry | ExhaustDeadline | RequireReconciliation | StartWork | Succeed
  | FailWork | RecoverLease | ClaimReconciliation | DeferReconciliation | ExhaustReconciliation
  | Resolve reconciliation_outcome | WaitHuman | WaitHumanReconciled | CompleteHuman | Cancel
  | Replay | DeadLetter | ReserveGeneration | ConsumeGeneration | TransportReplay | LateIdentity

inductive op_step :: "op_label \<Rightarrow> durable_operation \<Rightarrow> durable_operation \<Rightarrow> bool" where
  os_claim: "op_claim owner dur new now s = Done tok t \<Longrightarrow> op_step Claim s t"
| os_retry: "op_retry owner dur new now s = Done tok t \<Longrightarrow> op_step Retry s t"
| os_exhaust: "op_exhaust_execution_deadline err now s = Done r t \<Longrightarrow> op_step ExhaustDeadline s t"
| os_require: "op_require_reconciliation tok err rid ev ea deadline now s = Done r t \<Longrightarrow>
    op_step RequireReconciliation s t"
| os_start: "op_start tok now s = Done r t \<Longrightarrow> op_step StartWork s t"
| os_succeed: "op_succeed tok out rid ev ea now s = Done r t \<Longrightarrow> op_step Succeed s t"
| os_fail: "op_fail tok err retry_at ev ea now s = Done r t \<Longrightarrow> op_step FailWork s t"
| os_recover: "op_recover_expired_lease retry_at deadline now s = Done r t \<Longrightarrow> op_step RecoverLease s t"
| os_claim_recon: "op_claim_reconciliation owner dur new now s = Done tok t \<Longrightarrow>
    op_step ClaimReconciliation s t"
| os_defer: "op_defer_reconciliation tok err rid next ev ea now s = Done r t \<Longrightarrow>
    op_step DeferReconciliation s t"
| os_exhaust_recon: "op_exhaust_reconciliation err now s = Done r t \<Longrightarrow>
    op_step ExhaustReconciliation s t"
| os_resolve: "op_resolve_reconciliation tok verdict err' retry_at' out rid ev ea now s = Done r t \<Longrightarrow>
    op_step (Resolve verdict) s t"
| os_wait: "op_wait_for_human tok out rid ev ea now s = Done r t \<Longrightarrow> op_step WaitHuman s t"
| os_wait_recon: "op_wait_for_human_after_reconciliation tok out rid ev ea now s = Done r t \<Longrightarrow>
    op_step WaitHumanReconciled s t"
| os_complete: "op_complete_human_wait out now s = Done r t \<Longrightarrow> op_step CompleteHuman s t"
| os_cancel: "op_cancel ev now s = Done r t \<Longrightarrow> op_step Cancel s t"
| os_replay: "op_replay_failure source n reconcile_only ed rd now s = Done r t \<Longrightarrow> op_step Replay s t"
| os_dead_letter: "op_mark_dead_lettered dl now s = Done r t \<Longrightarrow> op_step DeadLetter s t"
| os_reserve: "op_reserve_recovery_generation now s = Done g t \<Longrightarrow> op_step ReserveGeneration s t"
| os_consume: "op_consume_recovery_generation g now s = Done b t \<Longrightarrow> op_step ConsumeGeneration s t"
| os_transport: "op_apply_transport_replay source n g now s = Done b t \<Longrightarrow> op_step TransportReplay s t"
| os_late_execution: "op_record_late_execution_provider_identity rid v n now s = Done b t \<Longrightarrow>
    op_step LateIdentity s t"
| os_late_reconciliation: "op_record_late_reconciliation_provider_identity rid v n now s = Done b t \<Longrightarrow>
    op_step LateIdentity s t"

definition op_next :: "durable_operation \<Rightarrow> durable_operation \<Rightarrow> bool" where
  "op_next s t \<longleftrightarrow> (\<exists>l. op_step l s t)"

section \<open>What the helpers do\<close>

lemma op_capture_simps [simp]:
  "op_state (op_capture p s) = op_state s" "op_lease_owner (op_capture p s) = op_lease_owner s"
  "op_lease_token (op_capture p s) = op_lease_token s"
  "op_lease_expires_at (op_capture p s) = op_lease_expires_at s"
  "op_attempt_count (op_capture p s) = op_attempt_count s"
  "op_max_attempts (op_capture p s) = op_max_attempts s"
  "op_next_attempt_at (op_capture p s) = op_next_attempt_at s"
  "op_execution_deadline_at (op_capture p s) = op_execution_deadline_at s"
  "op_reconciliation_attempt_count (op_capture p s) = op_reconciliation_attempt_count s"
  "op_max_reconciliation_attempts (op_capture p s) = op_max_reconciliation_attempts s"
  "op_next_reconciliation_at (op_capture p s) = op_next_reconciliation_at s"
  "op_reconciliation_started_at (op_capture p s) = op_reconciliation_started_at s"
  "op_reconciliation_deadline_at (op_capture p s) = op_reconciliation_deadline_at s"
  "op_reconciliation_required (op_capture p s) = op_reconciliation_required s"
  "op_reconciliation_outcome (op_capture p s) = op_reconciliation_outcome s"
  "op_dead_letter_id (op_capture p s) = op_dead_letter_id s"
  "op_recovery_generation (op_capture p s) = op_recovery_generation s"
  "op_recovery_consumed_generation (op_capture p s) = op_recovery_consumed_generation s"
  "op_error (op_capture p s) = op_error s" "op_started_at (op_capture p s) = op_started_at s"
  "op_completed_at (op_capture p s) = op_completed_at s" "op_version (op_capture p s) = op_version s"
  by (simp_all add: op_capture_def)

lemma op_capture_text_Done: "op_capture_text v s = Done r t \<longleftrightarrow>
    (\<exists>p. normalize_provider_request_id v = Inr p \<and> t = op_capture p s)"
  by (auto simp: op_capture_text_def split: sum.splits)

lemma op_assert_state_None [simp]: "op_assert_state st s = None \<longleftrightarrow> op_state s = st"
  by (simp add: op_assert_state_def)

lemma op_assert_lease_None: "op_assert_lease tok now s = None \<longleftrightarrow>
    is_utc now \<and> op_lease_token s = Some tok \<and>
    (\<exists>e. op_lease_expires_at s = Some e \<and> \<not> incomparable e now \<and> \<not> dt_le e now)"
  by (auto simp: op_assert_lease_def split: option.splits)

lemma op_execution_authorityD:
  "op_assert_execution_authority tok ev ea now s = None \<Longrightarrow> is_utc now \<and> op_lease_token s = Some tok"
  by (cases ev; cases ea) (auto simp: op_assert_lease_None)

lemma op_reconciliation_authorityD:
  "op_assert_reconciliation_authority tok ev ea now s = None \<Longrightarrow> is_utc now \<and> op_lease_token s = Some tok"
  by (cases ev; cases ea) (auto simp: op_assert_lease_None)

lemmas op_authority_dests = op_execution_authorityD op_reconciliation_authorityD

section \<open>The invariant\<close>

lemma utc_opt_or_else [simp]: "utc_opt (Some (or_else x d)) \<longleftrightarrow> is_utc (or_else x d)"
  by simp

definition op_unleased :: "durable_operation \<Rightarrow> bool" where
  "op_unleased s \<longleftrightarrow> op_lease_owner s = None \<and> op_lease_token s = None \<and> op_lease_expires_at s = None"

definition op_leased :: "durable_operation \<Rightarrow> bool" where
  "op_leased s \<longleftrightarrow> op_lease_owner s \<noteq> None \<and> op_lease_token s \<noteq> None \<and>
     op_lease_expires_at s \<noteq> None \<and> utc_opt (op_lease_expires_at s)"

text \<open>What each state promises of the fields around it.\<close>

definition op_state_ok :: "durable_operation \<Rightarrow> bool" where
  "op_state_ok s \<longleftrightarrow>
     (case op_state s of
        OP_PENDING \<Rightarrow> op_unleased s \<and> op_completed_at s = None \<and> op_next_attempt_at s = None \<and>
          op_next_reconciliation_at s = None \<and> op_attempt_count s = 0
      | OP_CLAIMED \<Rightarrow> op_leased s \<and> op_completed_at s = None \<and> op_next_attempt_at s = None \<and>
          op_next_reconciliation_at s = None \<and> 1 \<le> op_attempt_count s
      | OP_RUNNING \<Rightarrow> op_leased s \<and> op_completed_at s = None \<and> op_next_attempt_at s = None \<and>
          op_next_reconciliation_at s = None \<and> 1 \<le> op_attempt_count s \<and> op_started_at s \<noteq> None
      | OP_RECONCILING \<Rightarrow> op_completed_at s = None \<and> op_next_attempt_at s = None \<and>
          op_reconciliation_required s \<and> op_reconciliation_outcome s = OUTCOME_PENDING \<and>
          op_error s \<noteq> None \<and>
          (if op_lease_token s = None then op_unleased s \<and> op_next_reconciliation_at s \<noteq> None
           else op_leased s \<and> op_next_reconciliation_at s = None \<and>
             1 \<le> op_reconciliation_attempt_count s)
      | OP_WAITING_HUMAN \<Rightarrow> op_unleased s \<and> op_completed_at s = None \<and>
          op_next_attempt_at s = None \<and> op_next_reconciliation_at s = None
      | OP_RETRYABLE_FAILED \<Rightarrow> op_unleased s \<and> op_completed_at s = None \<and>
          op_next_attempt_at s \<noteq> None \<and> op_next_reconciliation_at s = None \<and>
          op_error s \<noteq> None \<and> op_attempt_count s < op_max_attempts s
      | OP_SUCCEEDED \<Rightarrow> op_unleased s \<and> op_completed_at s \<noteq> None \<and> op_next_attempt_at s = None \<and>
          op_next_reconciliation_at s = None
      | OP_FAILED \<Rightarrow> op_unleased s \<and> op_completed_at s \<noteq> None \<and> op_next_attempt_at s = None \<and>
          op_next_reconciliation_at s = None \<and> op_error s \<noteq> None
      | OP_CANCELLED \<Rightarrow> op_unleased s \<and> op_completed_at s \<noteq> None \<and> op_next_attempt_at s = None)"

text \<open>What holds in every state: budgets, generations, clocks and the reconciliation record.\<close>

definition op_books_ok :: "durable_operation \<Rightarrow> bool" where
  "op_books_ok s \<longleftrightarrow>
     0 \<le> op_attempt_count s \<and> op_attempt_count s \<le> op_max_attempts s \<and>
     0 \<le> op_reconciliation_attempt_count s \<and>
     op_reconciliation_attempt_count s \<le> op_max_reconciliation_attempts s \<and>
     0 \<le> op_recovery_consumed_generation s \<and>
     op_recovery_consumed_generation s \<le> op_recovery_generation s \<and>
     op_recovery_generation s \<le> op_recovery_consumed_generation s + 1 \<and>
     1 \<le> op_version s \<and> is_utc (op_execution_deadline_at s) \<and>
     utc_opt (op_next_attempt_at s) \<and> utc_opt (op_next_reconciliation_at s) \<and>
     utc_opt (op_reconciliation_deadline_at s) \<and>
     (op_reconciliation_required s \<longleftrightarrow> op_reconciliation_outcome s \<noteq> NOT_REQUIRED) \<and>
     (op_reconciliation_required s \<longrightarrow>
        op_reconciliation_deadline_at s \<noteq> None \<and> op_reconciliation_started_at s \<noteq> None) \<and>
     (op_dead_letter_id s \<noteq> None \<longrightarrow> op_state s = OP_FAILED)"

definition op_ok :: "durable_operation \<Rightarrow> bool" where
  "op_ok s \<longleftrightarrow> op_state_ok s \<and> op_books_ok s"

lemmas op_ok_defs = op_ok_def op_state_ok_def op_books_ok_def op_leased_def op_unleased_def

lemma op_ok_create:
  "operation_create i wsp k tt ti tv h ma mr el ref now = Inr s \<Longrightarrow> op_ok s"
  by (auto simp: operation_create_def op_ok_defs split: option.splits)

lemma op_claim_ok:
  "op_claim owner dur new now s = Done tok t \<Longrightarrow> op_ok s \<Longrightarrow> op_ok t"
  by (clarsimp simp: op_claim_def op_claim_lease_def
      op_touch_def op_clear_lease_def op_ok_defs )

lemma op_retry_ok:
  "op_retry owner dur new now s = Done tok t \<Longrightarrow> op_ok s \<Longrightarrow> op_ok t"
  by (clarsimp simp: op_retry_def op_claim_lease_def
      op_touch_def op_clear_lease_def op_ok_defs split: option.splits)

lemma op_exhaust_ok:
  assumes "op_exhaust_execution_deadline err now s = Done r t" "op_ok s"
  shows "op_ok t"
proof -
  from assms(1) have t: "t = op_touch now (op_clear_lease (s\<lparr>op_state := OP_FAILED,
      op_completed_at := Some now, op_next_attempt_at := None,
      op_error := Some (err\<lparr>oe_retryable := False\<rparr>)\<rparr>))"
    by (simp add: op_exhaust_execution_deadline_def)
  have "op_state s = OP_PENDING \<or> op_state s = OP_RETRYABLE_FAILED"
    using assms(1) by (simp add: op_exhaust_execution_deadline_def)
  with assms(2) show ?thesis unfolding t
    by (elim disjE) (simp_all add: op_touch_def op_clear_lease_def op_ok_defs)
qed

lemma op_require_ok:
  "op_require_reconciliation tok err rid ev ea deadline now s = Done r t \<Longrightarrow> op_ok s \<Longrightarrow> op_ok t"
  by (clarsimp simp: op_require_reconciliation_def Let_def andthen_Done op_capture_text_Done
      op_touch_def op_clear_lease_def op_ok_defs dest!: op_authority_dests)

lemma op_start_ok:
  "op_start tok now s = Done r t \<Longrightarrow> op_ok s \<Longrightarrow> op_ok t"
  by (clarsimp simp: op_start_def op_assert_lease_None
      op_touch_def op_clear_lease_def op_ok_defs )

lemma op_apply_success_Done:
  "op_apply_success out rid now s = Done r t \<Longrightarrow>
     (op_state s = OP_RUNNING \<or> op_state s = OP_RECONCILING) \<and>
     (\<exists>p. t = op_touch now (op_clear_lease ((op_capture p (s\<lparr>op_state := OP_SUCCEEDED, op_output_ref := out\<rparr>))
       \<lparr>op_completed_at := Some now, op_reconciliation_outcome :=
          (if op_reconciliation_required s then CONFIRMED_SUCCESS else op_reconciliation_outcome s)\<rparr>)))"
  by (auto simp: op_apply_success_def andthen_Done op_capture_text_Done simp del: if_split)

lemma op_apply_success_ok:
  assumes "op_apply_success out rid now s = Done r t" "op_ok s" "op_lease_token s \<noteq> None"
  shows "op_ok t"
proof -
  obtain p where t: "t = op_touch now (op_clear_lease ((op_capture p
       (s\<lparr>op_state := OP_SUCCEEDED, op_output_ref := out\<rparr>))
       \<lparr>op_completed_at := Some now, op_reconciliation_outcome :=
          (if op_reconciliation_required s then CONFIRMED_SUCCESS else op_reconciliation_outcome s)\<rparr>))"
    and st: "op_state s = OP_RUNNING \<or> op_state s = OP_RECONCILING"
    using op_apply_success_Done [OF assms(1)] by blast
  from st assms(2,3) show ?thesis unfolding t
    by (elim disjE) (simp_all add: op_touch_def op_clear_lease_def op_ok_defs)
qed

lemma op_succeed_ok: "op_succeed tok out rid ev ea now s = Done r t \<Longrightarrow> op_ok s \<Longrightarrow> op_ok t"
  by (auto simp: op_succeed_def dest!: op_authority_dests intro: op_apply_success_ok)

lemma op_apply_failure_Done:
  assumes "op_apply_failure err retry_at now s = Done r t"
  shows "(op_state s = OP_RUNNING \<or> op_state s = OP_RECONCILING) \<and>
    (\<exists>u. u = (op_capture (oe_provider_request_id err) s)\<lparr>op_error := Some err\<rparr> \<and>
      ((\<exists>q. retry_at = Some q \<and> is_utc q \<and> oe_retryable err \<and> op_attempt_count s < op_max_attempts s \<and>
          t = op_touch now (op_clear_lease
            (u\<lparr>op_state := OP_RETRYABLE_FAILED, op_next_attempt_at := Some q\<rparr>))) \<or>
       (\<not> (oe_retryable err \<and> op_attempt_count s < op_max_attempts s) \<and>
        t = op_touch now (op_clear_lease
          (u\<lparr>op_state := OP_FAILED, op_completed_at := Some now, op_next_attempt_at := None\<rparr>)))))"
  using assms by (auto simp: op_apply_failure_def Let_def split: if_splits option.splits)

lemma op_apply_failure_ok:
  assumes "op_apply_failure err retry_at now s = Done r t" "op_lease_token s \<noteq> None" "op_ok s"
  shows "op_ok t"
proof -
  from op_apply_failure_Done [OF assms(1)] obtain u where
    st: "op_state s = OP_RUNNING \<or> op_state s = OP_RECONCILING" and
    u: "u = (op_capture (oe_provider_request_id err) s)\<lparr>op_error := Some err\<rparr>" and
    t: "(\<exists>q. is_utc q \<and> op_attempt_count s < op_max_attempts s \<and> t = op_touch now (op_clear_lease
            (u\<lparr>op_state := OP_RETRYABLE_FAILED, op_next_attempt_at := Some q\<rparr>))) \<or>
        t = op_touch now (op_clear_lease
          (u\<lparr>op_state := OP_FAILED, op_completed_at := Some now, op_next_attempt_at := None\<rparr>))"
    by blast
  from t st assms(2,3) show ?thesis unfolding u
    by (elim disjE exE conjE) (simp_all add: op_touch_def op_clear_lease_def op_ok_defs)
qed

lemma op_confirmed_failure_ok:
  assumes "op_apply_failure err retry_at now (s\<lparr>op_reconciliation_outcome := CONFIRMED_FAILURE\<rparr>) = Done r t"
    "op_lease_token s \<noteq> None" "op_ok s" "op_state s = OP_RECONCILING"
  shows "op_ok t"
proof -
  let ?s = "s\<lparr>op_reconciliation_outcome := CONFIRMED_FAILURE\<rparr>"
  from op_apply_failure_Done [OF assms(1)] obtain u where
    u: "u = (op_capture (oe_provider_request_id err) ?s)\<lparr>op_error := Some err\<rparr>" and
    t: "(\<exists>q. is_utc q \<and> op_attempt_count ?s < op_max_attempts ?s \<and> t = op_touch now (op_clear_lease
            (u\<lparr>op_state := OP_RETRYABLE_FAILED, op_next_attempt_at := Some q\<rparr>))) \<or>
        t = op_touch now (op_clear_lease
          (u\<lparr>op_state := OP_FAILED, op_completed_at := Some now, op_next_attempt_at := None\<rparr>))"
    by blast
  from t assms(2-4) show ?thesis unfolding u
    by (elim disjE exE conjE) (simp_all add: op_touch_def op_clear_lease_def op_ok_defs)
qed

lemma op_fail_ok: "op_fail tok err retry_at ev ea now s = Done r t \<Longrightarrow> op_ok s \<Longrightarrow> op_ok t"
  by (auto simp: op_fail_def dest!: op_authority_dests intro: op_apply_failure_ok)

lemma op_recover_Done:
  assumes "op_recover_expired_lease retry_at deadline now s = Done r t"
  shows "is_utc now \<and> is_utc retry_at \<and>
    ((op_state s = OP_RUNNING \<and> (\<exists>until. is_utc until \<and> t = op_touch now (op_clear_lease
             (s\<lparr>op_state := OP_RECONCILING, op_reconciliation_required := True,
                op_reconciliation_outcome := OUTCOME_PENDING,
                op_reconciliation_started_at := Some (or_else (op_reconciliation_started_at s) now),
                op_reconciliation_deadline_at := Some until,
                op_next_reconciliation_at := Some now,
                op_error := Some external_outcome_unknown, op_next_attempt_at := None\<rparr>)))) \<or>
     (op_state s = OP_CLAIMED \<and> op_attempt_count s < op_max_attempts s \<and>
       t = op_touch now (op_clear_lease (s\<lparr>op_state := OP_RETRYABLE_FAILED,
              op_next_attempt_at := Some retry_at, op_error := Some lease_expired_error\<rparr>))) \<or>
     (op_state s = OP_CLAIMED \<and> op_max_attempts s \<le> op_attempt_count s \<and>
       t = op_touch now (op_clear_lease (s\<lparr>op_state := OP_FAILED, op_completed_at := Some now,
              op_error := Some lease_expired_exhausted_error\<rparr>))))"
proof (cases "op_state s = OP_RUNNING")
  case True
  with assms show ?thesis by (auto simp: op_recover_expired_lease_def Let_def)
next
  case False
  with assms have st: "op_state s = OP_CLAIMED" "is_utc now" "is_utc retry_at"
    by (simp_all add: op_recover_expired_lease_def)
  from assms st show ?thesis
    by (cases "op_attempt_count s < op_max_attempts s") (simp_all add: op_recover_expired_lease_def)
qed

lemma op_recover_ok:
  assumes "op_recover_expired_lease retry_at deadline now s = Done r t" "op_ok s"
  shows "op_ok t"
  using op_recover_Done [OF assms(1)] assms(2)
  by (elim disjE exE conjE) (simp_all add: op_touch_def op_clear_lease_def op_ok_defs)

lemma op_claim_recon_ok:
  "op_claim_reconciliation owner dur new now s = Done tok t \<Longrightarrow> op_ok s \<Longrightarrow> op_ok t"
  by (clarsimp simp: op_claim_reconciliation_def
      op_touch_def op_clear_lease_def op_ok_defs split: if_splits)

lemma op_defer_Done:
  assumes "op_defer_reconciliation tok err rid nxt ev ea now s = Done r t"
  shows "op_state s = OP_RECONCILING \<and> op_lease_token s = Some tok \<and> utc_opt nxt \<and>
    (\<exists>p u. u = (op_capture (oe_provider_request_id err) (op_capture p
        (s\<lparr>op_reconciliation_required := True, op_reconciliation_outcome := OUTCOME_PENDING\<rparr>)))
        \<lparr>op_error := Some err\<rparr> \<and>
      (t = op_touch now (op_clear_lease (u\<lparr>op_state := OP_FAILED, op_completed_at := Some now,
                     op_next_reconciliation_at := None,
                     op_error := Some (err\<lparr>oe_retryable := False\<rparr>)\<rparr>)) \<or>
       (nxt \<noteq> None \<and> t = op_touch now (op_clear_lease (u\<lparr>op_next_reconciliation_at := nxt\<rparr>)))))"
proof -
  from assms have g: "case nxt of Some q \<Rightarrow> guards [require_utc q, le_guard q now ValueError] = None
      | None \<Rightarrow> \<not> oe_retryable err" "op_state s = OP_RECONCILING"
    "op_assert_reconciliation_authority tok ev ea now s = None"
    by (auto simp: op_defer_reconciliation_def split: option.splits)
  from assms obtain p where
    "(let u = (op_capture (oe_provider_request_id err) (op_capture p
        (s\<lparr>op_reconciliation_required := True, op_reconciliation_outcome := OUTCOME_PENDING\<rparr>)))
        \<lparr>op_error := Some err\<rparr> in
       case op_defer_past_deadline nxt u of
         Inl e \<Rightarrow> Raise e u
       | Inr past \<Rightarrow>
           Done () (op_touch now (op_clear_lease
             (if \<not> oe_retryable err \<or> past \<or>
                 op_max_reconciliation_attempts u \<le> op_reconciliation_attempt_count u
              then u\<lparr>op_state := OP_FAILED, op_completed_at := Some now,
                     op_next_reconciliation_at := None,
                     op_error := Some (err\<lparr>oe_retryable := False\<rparr>)\<rparr>
              else u\<lparr>op_next_reconciliation_at := nxt\<rparr>)))) = Done r t"
    by (auto simp: op_defer_reconciliation_def andthen_Done op_capture_text_Done)
  with g(1) have "\<exists>u. u = (op_capture (oe_provider_request_id err) (op_capture p
        (s\<lparr>op_reconciliation_required := True, op_reconciliation_outcome := OUTCOME_PENDING\<rparr>)))
        \<lparr>op_error := Some err\<rparr> \<and>
      (t = op_touch now (op_clear_lease (u\<lparr>op_state := OP_FAILED, op_completed_at := Some now,
                     op_next_reconciliation_at := None,
                     op_error := Some (err\<lparr>oe_retryable := False\<rparr>)\<rparr>)) \<or>
       (nxt \<noteq> None \<and> t = op_touch now (op_clear_lease (u\<lparr>op_next_reconciliation_at := nxt\<rparr>))))"
    by (cases nxt) (simp_all add: Let_def split: sum.splits if_splits)
  moreover have "utc_opt nxt" using g(1) by (cases nxt) simp_all
  ultimately show ?thesis using g(2) op_reconciliation_authorityD [OF g(3)] by blast
qed

lemma op_defer_ok:
  assumes "op_defer_reconciliation tok err rid nxt ev ea now s = Done r t" "op_ok s"
  shows "op_ok t"
  using op_defer_Done [OF assms(1)] assms(2)
  by (elim disjE exE conjE) (simp_all add: op_touch_def op_clear_lease_def op_ok_defs)

lemma op_exhaust_recon_ok:
  "op_exhaust_reconciliation err now s = Done r t \<Longrightarrow> op_ok s \<Longrightarrow> op_ok t"
  by (clarsimp simp: op_exhaust_reconciliation_def
      op_touch_def op_clear_lease_def op_ok_defs split: if_splits)

lemma op_resolve_Done:
  assumes "op_resolve_reconciliation tok verdict err retry_at out rid ev ea now s = Done r t"
  shows "op_state s = OP_RECONCILING \<and> op_lease_token s = Some tok \<and> is_utc now \<and> (\<exists>p.
    (verdict = CONFIRMED_SUCCESS \<and> op_apply_success out rid now (op_capture p s) = Done r t) \<or>
    (verdict = CONFIRMED_FAILURE \<and> (\<exists>e. err = Some e \<and> op_apply_failure e retry_at now
        ((op_capture p s)\<lparr>op_reconciliation_outcome := CONFIRMED_FAILURE\<rparr>) = Done r t)))"
proof -
  from assms have g: "op_state s = OP_RECONCILING"
    "op_assert_reconciliation_authority tok ev ea now s = None"
    by (auto simp: op_resolve_reconciliation_def)
  from assms obtain p where
    "(if verdict = CONFIRMED_SUCCESS then op_apply_success out rid now (op_capture p s)
         else check (guard (verdict \<noteq> CONFIRMED_FAILURE) InvalidTransitionError) (op_capture p s)
           (case err of
              None \<Rightarrow> Raise ValueError (op_capture p s)
            | Some e \<Rightarrow> op_apply_failure e retry_at now
                ((op_capture p s)\<lparr>op_reconciliation_outcome := verdict\<rparr>))) = Done r t"
    by (auto simp: op_resolve_reconciliation_def andthen_Done op_capture_text_Done)
  then show ?thesis using g(1) op_reconciliation_authorityD [OF g(2)]
    by (auto split: if_splits option.splits)
qed

lemma op_capture_ok: "op_ok s \<Longrightarrow> op_ok (op_capture p s)"
  by (cases "op_state s"; cases "op_lease_token s") (simp_all add: op_ok_defs)

lemma op_resolve_ok:
  assumes "op_resolve_reconciliation tok verdict err retry_at out rid ev ea now s = Done r t" "op_ok s"
  shows "op_ok t"
proof -
  from op_resolve_Done [OF assms(1)] obtain p where
    st: "op_state s = OP_RECONCILING" "op_lease_token s = Some tok" and
    c: "op_apply_success out rid now (op_capture p s) = Done r t \<or>
       (\<exists>e. op_apply_failure e retry_at now
          ((op_capture p s)\<lparr>op_reconciliation_outcome := CONFIRMED_FAILURE\<rparr>) = Done r t)" by blast
  from c op_capture_ok [OF assms(2), of p] st show ?thesis
    using op_apply_success_ok [of out rid now "op_capture p s" r t]
      op_confirmed_failure_ok [of _ retry_at now "op_capture p s" r t] by auto
qed

lemma op_wait_ok:
  "op_wait_for_human tok out rid ev ea now s = Done r t \<Longrightarrow> op_ok s \<Longrightarrow> op_ok t"
  by (clarsimp simp: op_wait_for_human_def andthen_Done op_capture_text_Done
      op_touch_def op_clear_lease_def op_ok_defs dest!: op_authority_dests)

lemma op_wait_recon_ok:
  "op_wait_for_human_after_reconciliation tok out rid ev ea now s = Done r t \<Longrightarrow> op_ok s \<Longrightarrow> op_ok t"
  by (clarsimp simp: op_wait_for_human_after_reconciliation_def andthen_Done op_capture_text_Done
      op_touch_def op_clear_lease_def op_ok_defs dest!: op_authority_dests split: if_splits)

lemma op_complete_ok:
  "op_complete_human_wait out now s = Done r t \<Longrightarrow> op_ok s \<Longrightarrow> op_ok t"
  by (clarsimp simp: op_complete_human_wait_def
      op_touch_def op_clear_lease_def op_ok_defs )

lemma op_replay_ok:
  "op_replay_failure source n reconcile_only ed rd now s = Done r t \<Longrightarrow> op_ok s \<Longrightarrow> op_ok t"
  by (clarsimp simp: op_replay_failure_def Let_def
      op_touch_def op_clear_lease_def op_ok_defs split: if_splits)

lemma op_dead_letter_ok:
  "op_mark_dead_lettered dl now s = Done r t \<Longrightarrow> op_ok s \<Longrightarrow> op_ok t"
  by (clarsimp simp: op_mark_dead_lettered_def
      op_touch_def op_clear_lease_def op_ok_defs )

lemma op_cancel_ok:
  assumes "op_cancel ev now s = Done r t" "op_ok s"
  shows "op_ok t"
proof -
  from assms(1) have t: "t = op_touch now (op_clear_lease (s\<lparr>op_state := OP_CANCELLED,
      op_completed_at := Some now, op_next_attempt_at := None\<rparr>))"
    and st: "\<not> operation_terminal (op_state s)" by (simp_all add: op_cancel_def)
  from st assms(2) show ?thesis unfolding t
    by (cases "op_state s")
      (simp_all add: op_touch_def op_clear_lease_def op_ok_defs operation_terminal_def)
qed

text \<open>The calls that only touch the generations or the provider identity keep every promise.\<close>

lemma op_generations_ok:
  assumes "op_ok s" "0 \<le> c" "c \<le> g" "g \<le> c + 1"
  shows "op_ok (op_touch now (s\<lparr>op_recovery_generation := g, op_recovery_consumed_generation := c\<rparr>))"
  using assms by (cases "op_state s"; cases "op_lease_token s") (simp_all add: op_touch_def op_ok_defs)

lemma op_record_ok: "op_ok s \<Longrightarrow> op_ok (op_touch now s)"
  "op_ok s \<Longrightarrow> op_ok (s\<lparr>op_replay_source_dead_letter_id := a, op_replay_attempt := b\<rparr>)"
  by (cases "op_state s"; cases "op_lease_token s"; simp add: op_touch_def op_ok_defs)+

lemma op_reserve_ok: "op_reserve_recovery_generation now s = Done g t \<Longrightarrow> op_ok s \<Longrightarrow> op_ok t"
  using op_generations_ok [of s "op_recovery_consumed_generation s" "op_recovery_generation s + 1" now]
  by (clarsimp simp: op_reserve_recovery_generation_def op_ok_def op_books_ok_def)

lemma op_consume_ok: "op_consume_recovery_generation g now s = Done b t \<Longrightarrow> op_ok s \<Longrightarrow> op_ok t"
  using op_generations_ok [of s "op_recovery_generation s" "op_recovery_generation s" now]
  by (clarsimp simp: op_consume_recovery_generation_def op_ok_def op_books_ok_def split: if_splits)

lemma op_transport_ok: "op_apply_transport_replay source n g now s = Done b t \<Longrightarrow> op_ok s \<Longrightarrow> op_ok t"
  by (clarsimp simp: op_apply_transport_replay_def andthen_Done split: if_splits)
    (auto dest: op_consume_ok intro: op_record_ok)

lemma op_late_identity_ok: "op_record_late_identity rid now s = Done b t \<Longrightarrow> op_ok s \<Longrightarrow> op_ok t"
  by (auto simp: op_record_late_identity_def andthen_Done op_capture_text_Done split: if_splits
      intro: op_record_ok op_capture_ok)

lemma op_late_execution_ok:
  "op_record_late_execution_provider_identity rid v n now s = Done b t \<Longrightarrow> op_ok s \<Longrightarrow> op_ok t"
  by (auto simp: op_record_late_execution_provider_identity_def dest: op_late_identity_ok)

lemma op_late_reconciliation_ok:
  "op_record_late_reconciliation_provider_identity rid v n now s = Done b t \<Longrightarrow> op_ok s \<Longrightarrow> op_ok t"
  by (auto simp: op_record_late_reconciliation_provider_identity_def dest: op_late_identity_ok)

lemmas op_call_ok = op_claim_ok op_retry_ok op_exhaust_ok op_require_ok op_start_ok op_succeed_ok
  op_fail_ok op_recover_ok op_claim_recon_ok op_defer_ok op_exhaust_recon_ok op_resolve_ok op_wait_ok
  op_wait_recon_ok op_complete_ok op_cancel_ok op_replay_ok op_dead_letter_ok op_reserve_ok
  op_consume_ok op_transport_ok op_late_execution_ok op_late_reconciliation_ok

lemma op_step_ok: "op_step l s t \<Longrightarrow> op_ok s \<Longrightarrow> op_ok t"
  by (induction rule: op_step.induct) (erule (1) op_call_ok)+

lemma op_run_ok: "op_next\<^sup>*\<^sup>* s t \<Longrightarrow> op_ok s \<Longrightarrow> op_ok t"
  by (induction rule: rtranclp_induct) (auto simp: op_next_def dest: op_step_ok)

definition op_reachable :: "durable_operation \<Rightarrow> bool" where
  "op_reachable s \<longleftrightarrow> (\<exists>i wsp k tt ti tv h ma mr el ref now s0.
     operation_create i wsp k tt ti tv h ma mr el ref now = Inr s0 \<and> op_next\<^sup>*\<^sup>* s0 s)"

lemma op_reachable_ok: "op_reachable s \<Longrightarrow> op_ok s"
  unfolding op_reachable_def using op_ok_create op_run_ok by blast

lemma op_reachable_next: "op_reachable s \<Longrightarrow> op_next s t \<Longrightarrow> op_reachable t"
  unfolding op_reachable_def by (meson rtranclp.rtrancl_into_rtrancl)

section \<open>A concrete operation\<close>

definition sample_operation :: durable_operation where
  "sample_operation =
     \<lparr>op_id = ''o'', op_workspace_id = ''ws'', op_kind = IMAGE_GENERATION, op_target_type = ''asset'',
      op_target_id = ''a'', op_target_version = 1, op_input_hash = replicate 64 (CHR ''0''),
      op_input_ref = None, op_output_ref = None, op_provider_request_id = None, op_state = OP_PENDING,
      op_lease_owner = None, op_lease_token = None, op_lease_expires_at = None, op_attempt_count = 0,
      op_max_attempts = 2, op_next_attempt_at = None, op_execution_deadline_at = utc 1000,
      op_reconciliation_attempt_count = 0, op_max_reconciliation_attempts = 2,
      op_next_reconciliation_at = None, op_reconciliation_started_at = None,
      op_reconciliation_deadline_at = None, op_reconciliation_required = False,
      op_reconciliation_outcome = NOT_REQUIRED, op_dead_letter_id = None,
      op_replay_source_dead_letter_id = None, op_replay_attempt = 0, op_recovery_generation = 0,
      op_recovery_consumed_generation = 0, op_error = None, op_created_at = utc 0,
      op_updated_at = utc 0, op_last_attempt_at = None, op_started_at = None,
      op_completed_at = None, op_version = 1\<rparr>"

definition sample_op_claimed :: durable_operation where
  "sample_op_claimed = sample_operation\<lparr>op_state := OP_CLAIMED, op_lease_owner := Some ''w'',
     op_lease_token := Some ''t1'', op_lease_expires_at := Some (utc 11), op_attempt_count := 1,
     op_last_attempt_at := Some (utc 1), op_version := 2, op_updated_at := utc 1\<rparr>"

definition sample_op_running :: durable_operation where
  "sample_op_running = sample_op_claimed\<lparr>op_state := OP_RUNNING, op_started_at := Some (utc 2),
     op_version := 3, op_updated_at := utc 2\<rparr>"

lemmas sample_operations = sample_operation_def sample_op_claimed_def sample_op_running_def

lemma sample_operation_created:
  "operation_create ''o'' ''ws'' IMAGE_GENERATION ''asset'' ''a'' 1 (replicate 64 (CHR ''0'')) 2 2 1000
     None (utc 0) = Inr sample_operation"
  by (simp add: operation_create_def sample_operation_def validator_defs class_defs is_token_char_def
      code_def list_all_iff)

lemma sample_claimed_call: "op_claim ''w'' 10 ''t1'' (utc 1) sample_operation = Done ''t1'' sample_op_claimed"
  by (simp add: op_claim_def op_claim_lease_def sample_operations op_assert_state_def le_guard_def
      comparable_utc dt_le_def op_touch_def)

lemma sample_running_call: "op_start ''t1'' (utc 2) sample_op_claimed = Done () sample_op_running"
  by (simp add: op_start_def op_assert_lease_def sample_operations op_assert_state_def le_guard_def
      comparable_utc dt_le_def op_touch_def)

lemma sample_claimed_next: "op_next sample_operation sample_op_claimed"
  unfolding op_next_def using os_claim [OF sample_claimed_call] by blast

lemma sample_running_next: "op_next sample_op_claimed sample_op_running"
  unfolding op_next_def using os_start [OF sample_running_call] by blast

lemma sample_reachable: "op_reachable sample_operation" "op_reachable sample_op_claimed"
  "op_reachable sample_op_running"
proof -
  show a: "op_reachable sample_operation"
    unfolding op_reachable_def using sample_operation_created by blast
  show b: "op_reachable sample_op_claimed" using op_reachable_next [OF a sample_claimed_next] .
  show "op_reachable sample_op_running" using op_reachable_next [OF b sample_running_next] .
qed

end
