(* ===== verification/Operation_Facts.thy ===== *)
theory Operation_Facts
  imports Operation_Invariant
begin

text \<open>
  What makes the durable operation correct, on top of its invariant: optimistic versions (locale
  \<open>versioned\<close>), the state table (locale \<open>table_driven\<close>), exclusive leases (locale
  \<open>lease_discipline\<close>), the bound on the work between replays, and the rule
  that work whose outcome is unknown is never executed again by recovery.
\<close>

section \<open>The effect of each call\<close>

definition op_same_budget :: "durable_operation \<Rightarrow> durable_operation \<Rightarrow> bool" where
  "op_same_budget s t \<longleftrightarrow> op_attempt_count t = op_attempt_count s \<and>
     op_max_attempts t = op_max_attempts s \<and>
     op_reconciliation_attempt_count t = op_reconciliation_attempt_count s \<and>
     op_max_reconciliation_attempts t = op_max_reconciliation_attempts s"

definition op_spends_attempt :: "durable_operation \<Rightarrow> durable_operation \<Rightarrow> bool" where
  "op_spends_attempt s t \<longleftrightarrow> op_attempt_count s < op_max_attempts s \<and>
     op_attempt_count t = op_attempt_count s + 1 \<and> op_max_attempts t = op_max_attempts s \<and>
     op_reconciliation_attempt_count t = op_reconciliation_attempt_count s \<and>
     op_max_reconciliation_attempts t = op_max_reconciliation_attempts s"

definition op_spends_reconciliation :: "durable_operation \<Rightarrow> durable_operation \<Rightarrow> bool" where
  "op_spends_reconciliation s t \<longleftrightarrow>
     op_reconciliation_attempt_count s < op_max_reconciliation_attempts s \<and>
     op_reconciliation_attempt_count t = op_reconciliation_attempt_count s + 1 \<and>
     op_max_reconciliation_attempts t = op_max_reconciliation_attempts s \<and>
     op_attempt_count t = op_attempt_count s \<and> op_max_attempts t = op_max_attempts s"

definition op_moves :: "operation_state set \<Rightarrow> operation_state set \<Rightarrow> durable_operation \<Rightarrow> durable_operation \<Rightarrow> bool" where
  "op_moves from to s t \<longleftrightarrow> op_state s \<in> from \<and> op_state t \<in> to"

lemmas op_budget_defs = op_same_budget_def op_spends_attempt_def op_spends_reconciliation_def op_moves_def

text \<open>The state, the budgets and the token before and after each call.\<close>

definition op_effect :: "op_label \<Rightarrow> durable_operation \<Rightarrow> durable_operation \<Rightarrow> bool" where
  "op_effect l s t \<longleftrightarrow>
     (case l of
        Claim \<Rightarrow> op_moves {OP_PENDING} {OP_CLAIMED} s t \<and> op_spends_attempt s t
      | Retry \<Rightarrow> op_moves {OP_RETRYABLE_FAILED} {OP_CLAIMED} s t \<and> op_spends_attempt s t
      | ExhaustDeadline \<Rightarrow>
          op_moves {OP_PENDING, OP_RETRYABLE_FAILED} {OP_FAILED} s t \<and> op_same_budget s t
      | RequireReconciliation \<Rightarrow> op_moves {OP_RUNNING} {OP_RECONCILING} s t \<and> op_same_budget s t \<and>
          op_lease_token s \<noteq> None \<and> op_lease_token t = None
      | StartWork \<Rightarrow> op_moves {OP_CLAIMED} {OP_RUNNING} s t \<and> op_same_budget s t
      | Succeed \<Rightarrow> op_moves {OP_RUNNING, OP_RECONCILING} {OP_SUCCEEDED} s t \<and> op_same_budget s t \<and>
          op_lease_token s \<noteq> None
      | FailWork \<Rightarrow> op_moves {OP_RUNNING, OP_RECONCILING} {OP_RETRYABLE_FAILED, OP_FAILED} s t \<and>
          op_same_budget s t \<and> op_lease_token s \<noteq> None
      | RecoverLease \<Rightarrow> (op_moves {OP_CLAIMED} {OP_RETRYABLE_FAILED, OP_FAILED} s t \<or>
          op_moves {OP_RUNNING} {OP_RECONCILING} s t) \<and> op_same_budget s t \<and> op_lease_token t = None
      | ClaimReconciliation \<Rightarrow> op_moves {OP_RECONCILING} {OP_RECONCILING} s t \<and>
          op_spends_reconciliation s t \<and> op_lease_token t \<noteq> None
      | DeferReconciliation \<Rightarrow> op_moves {OP_RECONCILING} {OP_RECONCILING, OP_FAILED} s t \<and>
          op_same_budget s t \<and> op_lease_token s \<noteq> None \<and> op_lease_token t = None
      | ExhaustReconciliation \<Rightarrow> op_moves {OP_RECONCILING} {OP_FAILED} s t \<and> op_same_budget s t
      | Resolve v \<Rightarrow> op_same_budget s t \<and> op_lease_token s \<noteq> None \<and>
          (v = CONFIRMED_SUCCESS \<and> op_moves {OP_RECONCILING} {OP_SUCCEEDED} s t \<or>
           v = CONFIRMED_FAILURE \<and> op_moves {OP_RECONCILING} {OP_RETRYABLE_FAILED, OP_FAILED} s t)
      | WaitHuman \<Rightarrow> op_moves {OP_RUNNING} {OP_WAITING_HUMAN} s t \<and> op_same_budget s t
      | WaitHumanReconciled \<Rightarrow> op_moves {OP_RECONCILING} {OP_WAITING_HUMAN} s t \<and>
          op_same_budget s t \<and> op_lease_token s \<noteq> None
      | CompleteHuman \<Rightarrow> op_moves {OP_WAITING_HUMAN} {OP_SUCCEEDED} s t \<and> op_same_budget s t
      | Cancel \<Rightarrow> \<not> operation_terminal (op_state s) \<and> op_state t = OP_CANCELLED \<and> op_same_budget s t
      | Replay \<Rightarrow> op_moves {OP_FAILED} {OP_RECONCILING, OP_RETRYABLE_FAILED} s t
      | _ \<Rightarrow> op_state t = op_state s \<and> op_lease_token t = op_lease_token s \<and> op_same_budget s t)"

lemmas op_effect_simps = op_effect_def op_budget_defs op_touch_def op_clear_lease_def

lemma op_late_identity_effect:
  "op_record_late_identity rid now s = Done b t \<Longrightarrow>
     op_state t = op_state s \<and> op_lease_token t = op_lease_token s \<and> op_same_budget s t"
  by (auto simp: op_record_late_identity_def andthen_Done op_capture_text_Done op_touch_def
      op_same_budget_def split: if_splits)

lemma op_consume_effect:
  "op_consume_recovery_generation g now s = Done b t \<Longrightarrow>
     op_state t = op_state s \<and> op_lease_token t = op_lease_token s \<and> op_same_budget s t"
  by (clarsimp simp: op_consume_recovery_generation_def op_touch_def op_same_budget_def split: if_splits)

lemma op_step_effect: "op_step l s t \<Longrightarrow> op_effect l s t"
proof (induction rule: op_step.induct)
  case (os_claim owner dur new now s tok t)
  then show ?case by (clarsimp simp: op_claim_def op_claim_lease_def op_effect_simps)
next
  case (os_retry owner dur new now s tok t)
  then show ?case by (clarsimp simp: op_retry_def op_claim_lease_def op_effect_simps)
next
  case (os_exhaust err now s r t)
  then show ?case by (clarsimp simp: op_exhaust_execution_deadline_def op_effect_simps)
next
  case (os_require tok err rid ev ea deadline now s r t)
  then show ?case
    by (clarsimp simp: op_require_reconciliation_def Let_def andthen_Done op_capture_text_Done
        op_effect_simps dest!: op_authority_dests)
next
  case (os_start tok now s r t)
  then show ?case by (clarsimp simp: op_start_def op_effect_simps)
next
  case (os_succeed tok out rid ev ea now s r t)
  then have l: "op_lease_token s = Some tok" and c: "op_apply_success out rid now s = Done r t"
    by (auto simp: op_succeed_def dest: op_authority_dests)
  from op_apply_success_Done [OF c] l show ?case by (elim conjE exE) (clarsimp simp: op_effect_simps)
next
  case (os_fail tok err retry_at ev ea now s r t)
  then have l: "op_lease_token s = Some tok" and c: "op_apply_failure err retry_at now s = Done r t"
    by (auto simp: op_fail_def dest: op_authority_dests)
  from op_apply_failure_Done [OF c] l show ?case
    by (elim conjE exE disjE) (simp_all add: op_effect_simps)
next
  case (os_recover retry_at deadline now s r t)
  from op_recover_Done [OF this] show ?case by (elim conjE exE disjE) (simp_all add: op_effect_simps)
next
  case (os_claim_recon owner dur new now s tok t)
  then show ?case by (clarsimp simp: op_claim_reconciliation_def op_effect_simps)
next
  case (os_defer tok err rid nxt ev ea now s r t)
  from op_defer_Done [OF this] show ?case by (elim conjE exE disjE) (simp_all add: op_effect_simps)
next
  case (os_exhaust_recon err now s r t)
  then show ?case by (clarsimp simp: op_exhaust_reconciliation_def op_effect_simps)
next
  case (os_resolve tok v err retry_at out rid ev ea now s r t)
  from op_resolve_Done [OF this] obtain p where l: "op_state s = OP_RECONCILING" "op_lease_token s = Some tok"
    and c: "v = CONFIRMED_SUCCESS \<and> op_apply_success out rid now (op_capture p s) = Done r t \<or>
      v = CONFIRMED_FAILURE \<and> (\<exists>e. op_apply_failure e retry_at now
        ((op_capture p s)\<lparr>op_reconciliation_outcome := CONFIRMED_FAILURE\<rparr>) = Done r t)" by blast
  from c show ?case
  proof (elim disjE conjE exE)
    assume v: "v = CONFIRMED_SUCCESS" and a: "op_apply_success out rid now (op_capture p s) = Done r t"
    from op_apply_success_Done [OF a] l v show ?thesis
      by (elim conjE exE) (simp add: op_effect_simps)
  next
    fix e
    assume v: "v = CONFIRMED_FAILURE" and a: "op_apply_failure e retry_at now
        ((op_capture p s)\<lparr>op_reconciliation_outcome := CONFIRMED_FAILURE\<rparr>) = Done r t"
    from op_apply_failure_Done [OF a] l v show ?thesis
      by (elim conjE exE disjE) (simp_all add: op_effect_simps)
  qed
next
  case (os_wait tok out rid ev ea now s r t)
  then show ?case
    by (clarsimp simp: op_wait_for_human_def andthen_Done op_capture_text_Done op_effect_simps)
next
  case (os_wait_recon tok out rid ev ea now s r t)
  then show ?case
    by (clarsimp simp: op_wait_for_human_after_reconciliation_def andthen_Done op_capture_text_Done
        op_effect_simps dest!: op_authority_dests)
next
  case (os_complete out now s r t)
  then show ?case by (clarsimp simp: op_complete_human_wait_def op_effect_simps)
next
  case (os_cancel ev now s r t)
  then show ?case by (clarsimp simp: op_cancel_def op_effect_simps)
next
  case (os_replay source n reconcile_only ed rd now s r t)
  then show ?case by (clarsimp simp: op_replay_failure_def Let_def op_effect_simps split: if_splits)
next
  case (os_dead_letter dl now s r t)
  then show ?case by (clarsimp simp: op_mark_dead_lettered_def op_effect_simps)
next
  case (os_reserve now s g t)
  then show ?case by (clarsimp simp: op_reserve_recovery_generation_def op_effect_simps)
next
  case (os_consume g now s b t)
  then show ?case using op_consume_effect by (simp add: op_effect_def)
next
  case (os_transport source n g now s b t)
  then show ?case
    by (auto simp: op_apply_transport_replay_def andthen_Done op_effect_def op_same_budget_def
        split: if_splits dest!: op_consume_effect)
next
  case (os_late_execution rid v n now s b t)
  then show ?case using op_late_identity_effect [of rid now s b t]
    by (simp add: op_record_late_execution_provider_identity_def op_effect_def)
next
  case (os_late_reconciliation rid v n now s b t)
  then show ?case using op_late_identity_effect [of rid now s b t]
    by (simp add: op_record_late_reconciliation_provider_identity_def op_effect_def)
qed

section \<open>Versions\<close>

text \<open>
  What an operation is about never changes, and a provider identity, once known, stays.
\<close>

definition op_identity :: 
  "durable_operation \<Rightarrow> string \<times> (string \<times> operation_kind \<times> string \<times> string \<times> int \<times> string) \<times>
     string option \<times> datetime" where
  "op_identity s = (op_id s, op_logical_key s, op_input_ref s, op_created_at s)"

definition op_same_identity :: "durable_operation \<Rightarrow> durable_operation \<Rightarrow> bool" where
  "op_same_identity s t \<longleftrightarrow> op_identity t = op_identity s \<and>
     (op_provider_request_id s \<noteq> None \<longrightarrow> op_provider_request_id t = op_provider_request_id s)"

lemma op_capture_identity [simp]: "op_id (op_capture p s) = op_id s"
  "op_workspace_id (op_capture p s) = op_workspace_id s" "op_kind (op_capture p s) = op_kind s"
  "op_target_type (op_capture p s) = op_target_type s" "op_target_id (op_capture p s) = op_target_id s"
  "op_target_version (op_capture p s) = op_target_version s"
  "op_input_hash (op_capture p s) = op_input_hash s" "op_input_ref (op_capture p s) = op_input_ref s"
  "op_created_at (op_capture p s) = op_created_at s"
  "op_provider_request_id s \<noteq> None \<Longrightarrow> op_provider_request_id (op_capture p s) = op_provider_request_id s"
  by (auto simp: op_capture_def)

lemmas op_books_simps = op_touch_def op_clear_lease_def op_same_identity_def op_identity_def op_logical_key_def

lemma op_capture_same: "op_provider_request_id (op_capture p s) = op_provider_request_id s \<Longrightarrow> op_capture p s = s"
  unfolding op_capture_def by (cases "op_provider_request_id s"; cases p) simp_all

lemma op_late_identity_version:
  assumes "op_record_late_identity rid now s = Done b t"
  shows "(t = s \<or> op_version t = op_version s + 1) \<and> op_same_identity s t"
proof -
  from assms obtain p where "(if op_provider_request_id (op_capture p s) = op_provider_request_id s
      then Done False (op_capture p s) else Done True (op_touch now (op_capture p s))) = Done b t"
    by (auto simp: op_record_late_identity_def andthen_Done op_capture_text_Done)
  then show ?thesis using op_capture_same [of p s] by (auto simp: op_books_simps split: if_splits)
qed

lemma op_step_books:
  "op_step l s t \<Longrightarrow> (t = s \<or> op_version t = op_version s + 1) \<and> op_same_identity s t"
proof (induction rule: op_step.induct)
  case (os_succeed tok out rid ev ea now s r t)
  then have "op_apply_success out rid now s = Done r t" by (simp add: op_succeed_def)
  from op_apply_success_Done [OF this] show ?case
    by (elim conjE exE) (simp add: op_books_simps)
next
  case (os_fail tok err retry_at ev ea now s r t)
  then have "op_apply_failure err retry_at now s = Done r t" by (simp add: op_fail_def)
  from op_apply_failure_Done [OF this] show ?case
    by (elim conjE exE disjE) (simp_all add: op_books_simps)
next
  case (os_recover retry_at deadline now s r t)
  from op_recover_Done [OF this] show ?case
    by (elim conjE exE disjE) (simp_all add: op_books_simps)
next
  case (os_defer tok err rid nxt ev ea now s r t)
  from op_defer_Done [OF this] show ?case
    by (elim conjE exE disjE) (simp_all add: op_books_simps)
next
  case (os_resolve tok v err retry_at out rid ev ea now s r t)
  from op_resolve_Done [OF this] obtain p where
    "op_apply_success out rid now (op_capture p s) = Done r t \<or> (\<exists>e. op_apply_failure e retry_at now
        ((op_capture p s)\<lparr>op_reconciliation_outcome := CONFIRMED_FAILURE\<rparr>) = Done r t)" by blast
  then show ?case
  proof (elim disjE exE)
    assume "op_apply_success out rid now (op_capture p s) = Done r t"
    from op_apply_success_Done [OF this] show ?thesis
      by (elim conjE exE) (simp add: op_books_simps)
  next
    fix e
    assume "op_apply_failure e retry_at now
        ((op_capture p s)\<lparr>op_reconciliation_outcome := CONFIRMED_FAILURE\<rparr>) = Done r t"
    from op_apply_failure_Done [OF this] show ?thesis
      by (elim conjE exE disjE) (simp_all add: op_books_simps)
  qed
next
  case (os_late_execution rid v n now s b t)
  then show ?case using op_late_identity_version [of rid now s b t]
    by (simp add: op_record_late_execution_provider_identity_def)
next
  case (os_late_reconciliation rid v n now s b t)
  then show ?case using op_late_identity_version [of rid now s b t]
    by (simp add: op_record_late_reconciliation_provider_identity_def)
next
  case (os_transport source n g now s b t)
  then show ?case
    by (auto simp: op_apply_transport_replay_def op_consume_recovery_generation_def andthen_Done
        op_books_simps split: if_splits)
next
  case (os_replay source n reconcile_only ed rd now s r t)
  then show ?case by (clarsimp simp: op_replay_failure_def Let_def op_books_simps split: if_splits)
next
  case (os_consume g now s b t)
  then show ?case by (clarsimp simp: op_consume_recovery_generation_def op_books_simps split: if_splits)
qed (clarsimp simp: op_claim_def op_claim_lease_def op_retry_def op_exhaust_execution_deadline_def
  op_require_reconciliation_def Let_def andthen_Done op_capture_text_Done op_start_def
  op_claim_reconciliation_def op_exhaust_reconciliation_def op_wait_for_human_def
  op_wait_for_human_after_reconciliation_def op_complete_human_wait_def op_cancel_def
  op_mark_dead_lettered_def op_reserve_recovery_generation_def op_books_simps)+

text \<open>identity. Over any run the identifier, the logical key (workspace, kind, target, version, input
  digest) and the input of an operation never change, and the provider identity is written once:
  the first one recorded is the one every later call sees.\<close>

theorem op_identity_permanent:
  assumes "op_next\<^sup>*\<^sup>* s t"
  shows "op_id t = op_id s \<and> op_logical_key t = op_logical_key s \<and> op_input_ref t = op_input_ref s \<and>
    (op_provider_request_id s = Some p \<longrightarrow> op_provider_request_id t = Some p)"
proof -
  have "op_same_identity s t" using assms
  proof (induction rule: rtranclp_induct)
    case (step u v)
    then obtain l where "op_step l u v" by (auto simp: op_next_def)
    from op_step_books [OF this] step.IH show ?case by (auto simp: op_same_identity_def)
  qed (simp add: op_same_identity_def)
  then show ?thesis by (auto simp: op_same_identity_def op_identity_def)
qed

theorem op_identity_permanent_witness:
  "op_logical_key sample_op_running = op_logical_key sample_operation"
proof -
  have "op_next\<^sup>*\<^sup>* sample_operation sample_op_running"
    using sample_claimed_next sample_running_next by (meson converse_rtranclp_into_rtranclp r_into_rtranclp)
  from op_identity_permanent [OF this] show ?thesis by simp
qed

lemma op_step_version: "op_step l s t \<Longrightarrow> t = s \<or> op_version t = op_version s + 1"
  using op_step_books by blast

interpretation op_versions: versioned op_next op_version id
  by unfold_locales (auto simp: op_next_def dest: op_step_version)

text \<open>Every report of a result that carries the version its worker read.\<close>

datatype op_report =
    ReportSuccess "string option" "string option"
  | ReportFailure operation_error "datetime option"
  | ReportHumanWait "string option" "string option"
  | ReportResolution reconciliation_outcome "operation_error option" "datetime option" "string option"
      "string option"
  | ReportReconciledWait "string option" "string option"

fun op_report_result ::
  "op_report \<Rightarrow> string \<Rightarrow> int option \<Rightarrow> int option \<Rightarrow> datetime \<Rightarrow> durable_operation \<Rightarrow>
   (unit, durable_operation) outcome" where
  "op_report_result (ReportSuccess out rid) tok v n now s = op_succeed tok out rid v n now s"
| "op_report_result (ReportFailure err retry_at) tok v n now s = op_fail tok err retry_at v n now s"
| "op_report_result (ReportHumanWait out rid) tok v n now s = op_wait_for_human tok out rid v n now s"
| "op_report_result (ReportResolution verdict err retry_at out rid) tok v n now s =
     op_resolve_reconciliation tok verdict err retry_at out rid v n now s"
| "op_report_result (ReportReconciledWait out rid) tok v n now s =
     op_wait_for_human_after_reconciliation tok out rid v n now s"

lemmas op_report_defs = op_succeed_def op_fail_def op_wait_for_human_def
  op_resolve_reconciliation_def op_wait_for_human_after_reconciliation_def

lemma op_report_stale:
  "is_utc now \<Longrightarrow> op_version s \<noteq> v \<Longrightarrow>
     op_report_result rep tok (Some v) (Some n) now s = Raise ConcurrencyError s"
  by (cases rep) (simp_all add: op_report_defs op_assert_version_def)

text \<open>C5: optimistic concurrency of results. A result reported with the version and attempt its worker
  read is refused with \<open>ConcurrencyError\<close>, and changes nothing, once any call has changed the
  operation in any field: a recovery, a cancellation, a replay or another result that came first.\<close>

theorem op_stale_result_refused:
  assumes "op_next\<^sup>*\<^sup>* s t" "t \<noteq> s" "is_utc now"
  shows "op_report_result rep tok (Some (op_version s)) (Some n) now t = Raise ConcurrencyError t"
  using op_versions.changed_view_newer [OF assms(1)] assms(2,3) by (simp add: op_report_stale)

theorem op_stale_result_refused_witness:
  "op_report_result (ReportSuccess None None) ''t1'' (Some (op_version sample_op_claimed)) (Some 1) (utc 5)
     sample_op_running = Raise ConcurrencyError sample_op_running"
  using op_stale_result_refused [OF r_into_rtranclp [of op_next, OF sample_running_next], of "utc 5"]
  by (simp add: sample_operations)

section \<open>States\<close>

fun op_transitions :: "operation_state \<Rightarrow> operation_state list" where
  "op_transitions OP_PENDING = [OP_CLAIMED, OP_FAILED, OP_CANCELLED]"
| "op_transitions OP_CLAIMED = [OP_RUNNING, OP_RETRYABLE_FAILED, OP_FAILED, OP_CANCELLED]"
| "op_transitions OP_RUNNING = [OP_SUCCEEDED, OP_RETRYABLE_FAILED, OP_FAILED, OP_RECONCILING,
     OP_WAITING_HUMAN, OP_CANCELLED]"
| "op_transitions OP_RECONCILING = [OP_SUCCEEDED, OP_RETRYABLE_FAILED, OP_FAILED,
     OP_WAITING_HUMAN, OP_CANCELLED]"
| "op_transitions OP_WAITING_HUMAN = [OP_SUCCEEDED, OP_CANCELLED]"
| "op_transitions OP_RETRYABLE_FAILED = [OP_CLAIMED, OP_FAILED, OP_CANCELLED]"
| "op_transitions OP_FAILED = [OP_RECONCILING, OP_RETRYABLE_FAILED]"
| "op_transitions OP_SUCCEEDED = []"
| "op_transitions OP_CANCELLED = []"

definition op_final :: "operation_state \<Rightarrow> bool" where
  "op_final a \<longleftrightarrow> a \<in> {OP_SUCCEEDED, OP_CANCELLED}"

definition op_dist :: "operation_state \<Rightarrow> nat" where
  "op_dist a = (if op_final a then 0 else if a = OP_FAILED then 2 else 1)"

interpretation op_table: state_table op_transitions op_final op_dist
proof unfold_locales
  fix a
  show "op_final a \<Longrightarrow> op_transitions a = []" by (auto simp: op_final_def)
  show "\<not> op_final a \<Longrightarrow> \<exists>b\<in>set (op_transitions a). op_dist b < op_dist a"
    by (cases a) (auto simp: op_final_def op_dist_def)
qed

lemma op_step_table: "op_step l s t \<Longrightarrow> op_state t = op_state s \<or> op_state t \<in> set (op_transitions (op_state s))"
  using op_step_effect [of l s t]
  by (cases l; cases "op_state s") (auto simp: op_effect_def op_moves_def operation_terminal_def)

interpretation op_states: table_driven op_transitions op_final op_dist op_next op_state
  by unfold_locales (auto simp: op_next_def op_table.edge_def dest!: op_step_table)

section \<open>Histories\<close>

inductive op_trace :: "durable_operation \<Rightarrow> op_label list \<Rightarrow> durable_operation \<Rightarrow> bool" where
  ot_nil: "op_trace s [] s"
| ot_snoc: "op_trace s ls t \<Longrightarrow> op_step l t u \<Longrightarrow> op_trace s (ls @ [l]) u"

lemma op_trace_run: "op_trace s ls t \<Longrightarrow> op_next\<^sup>*\<^sup>* s t"
proof (induction rule: op_trace.induct)
  case (ot_snoc s ls t l u)
  then show ?case by (meson op_next_def rtranclp.rtrancl_into_rtrancl)
qed simp

text \<open>
  Work calls move the operation along its lifecycle; the other calls replay it, park it as a dead
  letter, hand out recovery generations or record a provider identity.
\<close>

definition op_work :: "op_label \<Rightarrow> bool" where
  "op_work l \<longleftrightarrow> l \<notin> {Replay, DeadLetter, ReserveGeneration, ConsumeGeneration, TransportReplay, LateIdentity}"

definition op_rank :: "durable_operation \<Rightarrow> int" where
  "op_rank s = (case op_state s of OP_PENDING \<Rightarrow> 1 | OP_RETRYABLE_FAILED \<Rightarrow> 1 | OP_WAITING_HUMAN \<Rightarrow> 1
     | OP_CLAIMED \<Rightarrow> 5 | OP_RUNNING \<Rightarrow> 4
     | OP_RECONCILING \<Rightarrow> if op_lease_token s = None then 2 else 3
     | OP_SUCCEEDED \<Rightarrow> 0 | OP_FAILED \<Rightarrow> 0 | OP_CANCELLED \<Rightarrow> 0)"

definition op_fuel :: "durable_operation \<Rightarrow> int" where
  "op_fuel s = 5 * (op_max_attempts s - op_attempt_count s)
     + 2 * (op_max_reconciliation_attempts s - op_reconciliation_attempt_count s) + op_rank s"

lemma op_rank_simps:
  "op_state s = OP_PENDING \<Longrightarrow> op_rank s = 1" "op_state s = OP_RETRYABLE_FAILED \<Longrightarrow> op_rank s = 1"
  "op_state s = OP_WAITING_HUMAN \<Longrightarrow> op_rank s = 1" "op_state s = OP_CLAIMED \<Longrightarrow> op_rank s = 5"
  "op_state s = OP_RUNNING \<Longrightarrow> op_rank s = 4" "op_state s = OP_SUCCEEDED \<Longrightarrow> op_rank s = 0"
  "op_state s = OP_FAILED \<Longrightarrow> op_rank s = 0" "op_state s = OP_CANCELLED \<Longrightarrow> op_rank s = 0"
  "op_state s = OP_RECONCILING \<Longrightarrow> op_rank s = (if op_lease_token s = None then 2 else 3)"
  by (simp_all add: op_rank_def)

lemma op_rank_same: "op_state t = op_state s \<Longrightarrow> op_lease_token t = op_lease_token s \<Longrightarrow> op_rank t = op_rank s"
  by (simp only: op_rank_def)

lemma op_rank_live: "\<not> operation_terminal (op_state s) \<Longrightarrow> 1 \<le> op_rank s"
  by (cases "op_state s") (simp_all add: op_rank_def operation_terminal_def)

lemma op_fuel_step:
  assumes "op_step l s t" "l \<noteq> Replay"
  shows "op_fuel t + (if op_work l then 1 else 0) \<le> op_fuel s"
proof -
  note e = op_step_effect [OF assms(1), unfolded op_effect_def]
  show ?thesis
  proof (cases "l = Cancel \<or> \<not> op_work l")
    case True
    then show ?thesis using e assms(2) op_rank_same [of t s] op_rank_live [of s]
      by (cases l) (auto simp: op_budget_defs op_fuel_def op_rank_simps op_work_def)
  next
    case False
    then have w: "op_work l" "l \<noteq> Cancel" by simp_all
    show ?thesis using e w
      by (cases l; clarsimp simp: op_budget_defs op_fuel_def op_rank_simps op_work_def;
          elim disjE conjE; simp add: op_rank_simps)
  qed
qed

lemma op_fuel_nonneg: "op_ok s \<Longrightarrow> 0 \<le> op_fuel s"
  by (simp add: op_ok_def op_books_ok_def op_fuel_def op_rank_def split: operation_state.splits)

lemma op_trace_fuel:
  "op_trace s ls t \<Longrightarrow> Replay \<notin> set ls \<Longrightarrow> op_fuel t + int (length (filter op_work ls)) \<le> op_fuel s"
proof (induction rule: op_trace.induct)
  case (ot_snoc s ls t l u)
  then show ?case using op_fuel_step [OF ot_snoc.hyps(2)] by (auto split: if_splits)
qed simp

text \<open>C4: bounded work. Whatever workers, scanners and administrators do, an operation goes through at
  most \<open>5 * max_attempts + 2 * max_reconciliation_attempts + 1\<close> lifecycle calls between its creation
  and its first replay.\<close>

theorem op_work_bounded:
  assumes "operation_create i wsp k tt ti tv h ma mr el ref now = Inr s" "op_trace s ls t"
    and "Replay \<notin> set ls"
  shows "int (length (filter op_work ls)) \<le> 5 * ma + 2 * mr + 1"
proof -
  have "op_fuel s = 5 * ma + 2 * mr + 1"
    using assms(1) by (auto simp: operation_create_def op_fuel_def op_rank_def split: option.splits)
  moreover have "0 \<le> op_fuel t"
    using op_fuel_nonneg op_run_ok [OF op_trace_run [OF assms(2)] op_ok_create [OF assms(1)]] by blast
  ultimately show ?thesis using op_trace_fuel [OF assms(2,3)] by linarith
qed

lemma sample_trace: "op_trace sample_operation [Claim, StartWork] sample_op_running"
  using ot_snoc [OF ot_snoc [OF ot_nil os_claim [OF sample_claimed_call]] os_start [OF sample_running_call]]
  by simp

theorem op_work_bounded_witness:
  "int (length (filter op_work [Claim, StartWork])) \<le> 5 * 2 + 2 * 2 + 1 \<and> op_work Claim"
  using op_work_bounded [OF sample_operation_created sample_trace] by (simp add: op_work_def)

section \<open>Unknown outcomes\<close>

text \<open>The states of work that has started and has not been cleared for another execution.\<close>

definition op_started_work :: "operation_state set" where
  "op_started_work = {OP_RUNNING, OP_RECONCILING, OP_WAITING_HUMAN, OP_SUCCEEDED, OP_FAILED, OP_CANCELLED}"

lemma op_step_keeps_started:
  assumes "op_step l s t" "op_state s \<in> op_started_work" "l \<notin> {FailWork, Resolve CONFIRMED_FAILURE, Replay}"
  shows "op_state t \<in> op_started_work"
  using op_step_effect [OF assms(1)] assms(2,3)
  by (cases l) (auto simp: op_effect_def op_moves_def op_started_work_def)

text \<open>C1: no blind re-execution. Once execution has started, the operation can only be claimed again
  after the holder of its lease reported a failure, a reconciliation confirmed the failure, or an
  operator replayed it; expired leases, deadlines and exhausted reconciliations never lead there.\<close>

theorem op_no_blind_reexecution:
  assumes "op_trace s ls t" "op_state s \<in> {OP_RUNNING, OP_RECONCILING}" "op_state t = OP_CLAIMED"
  shows "set ls \<inter> {FailWork, Resolve CONFIRMED_FAILURE, Replay} \<noteq> {}"
proof -
  have "op_trace s ls t \<Longrightarrow> op_state s \<in> op_started_work \<Longrightarrow>
      set ls \<inter> {FailWork, Resolve CONFIRMED_FAILURE, Replay} = {} \<Longrightarrow> op_state t \<in> op_started_work"
  proof (induction rule: op_trace.induct)
    case (ot_snoc s ls t l u)
    then show ?case using op_step_keeps_started [OF ot_snoc.hyps(2)] by auto
  qed simp
  with assms show ?thesis by (auto simp: op_started_work_def)
qed

definition sample_op_failed :: durable_operation where
  "sample_op_failed = object_after (op_fail ''t1'' lease_expired_error (Some (utc 4)) None None (utc 3)
     sample_op_running)"

definition sample_op_reclaimed :: durable_operation where
  "sample_op_reclaimed = object_after (op_retry ''w'' 10 ''t2'' (utc 4) sample_op_failed)"

lemmas sample_failed_defs = sample_op_reclaimed_def sample_op_failed_def sample_operations op_fail_def
  op_apply_failure_def op_retry_def op_claim_lease_def op_assert_lease_def op_assert_state_def
  lease_expired_error_def op_capture_def op_touch_def op_clear_lease_def comparable_utc le_guard_def
  less_guard_def dt_le_def dt_less_def

lemma sample_failed_call: "op_fail ''t1'' lease_expired_error (Some (utc 4)) None None (utc 3)
     sample_op_running = Done () sample_op_failed"
  by (simp add: sample_failed_defs)

lemma sample_reclaimed_call: "op_retry ''w'' 10 ''t2'' (utc 4) sample_op_failed = Done ''t2'' sample_op_reclaimed"
  by (simp add: sample_failed_defs)

theorem op_no_blind_reexecution_witness:
  "\<exists>t. op_trace sample_op_running [FailWork, Retry] t \<and> op_state t = OP_CLAIMED \<and>
     set [FailWork, Retry] \<inter> {FailWork, Resolve CONFIRMED_FAILURE, Replay} \<noteq> {}"
proof -
  have tr: "op_trace sample_op_running [FailWork, Retry] sample_op_reclaimed"
    using ot_snoc [OF ot_snoc [OF ot_nil os_fail [OF sample_failed_call]] os_retry [OF sample_reclaimed_call]]
    by simp
  have st: "op_state sample_op_reclaimed = OP_CLAIMED" by (simp add: sample_failed_defs)
  have run: "op_state sample_op_running \<in> {OP_RUNNING, OP_RECONCILING}" by (simp add: sample_operations)
  show ?thesis using tr st op_no_blind_reexecution [OF tr run st] by blast
qed

section \<open>The invariant and the authority of results\<close>

text \<open>C3: the invariant. In every reachable state the lease fields are all set or all empty and set
  exactly while somebody owns the operation, the completion time is set exactly in the terminal
  states, a failed operation has its error and its retry time, a reconciling one its deadline, the
  counters are within their budgets, and at most one recovery generation is outstanding.\<close>

theorem op_invariant:
  assumes "op_reachable s"
  shows "op_ok s \<and> (op_completed_at s \<noteq> None \<longleftrightarrow> operation_terminal (op_state s)) \<and>
    (op_lease_token s \<noteq> None \<longrightarrow> op_lease_expires_at s \<noteq> None \<and>
       op_state s \<in> {OP_CLAIMED, OP_RUNNING, OP_RECONCILING})"
  using op_reachable_ok [OF assms]
  by (cases "op_state s"; cases "op_lease_token s") (simp_all add: op_ok_defs operation_terminal_def)

theorem op_invariant_witness: "op_ok sample_op_running \<and> op_lease_token sample_op_running = Some ''t1''"
  using op_invariant [OF sample_reachable(3)] by (simp add: sample_operations)

text \<open>authority of a result with a compare-and-swap. A success reported with the expected version
  and attempt is accepted exactly when the operation is still the one the worker claimed (same
  version, running, same attempt, same token) and the provider identity is well formed; that the
  lease has run out in the meantime does not matter.\<close>

theorem op_success_authority:
  "(\<exists>t. op_succeed tok out rid (Some v) (Some n) now s = Done () t) \<longleftrightarrow>
     is_utc now \<and> op_version s = v \<and> op_state s = OP_RUNNING \<and> op_attempt_count s = n \<and>
     op_lease_token s = Some tok \<and> (\<exists>p. normalize_provider_request_id rid = Inr p)"
  by (auto simp: op_succeed_def op_apply_success_def op_assert_version_def andthen_Done
      op_capture_text_Done)

section \<open>Leases\<close>

definition op_live :: "durable_operation \<Rightarrow> datetime \<Rightarrow> bool" where
  "op_live s now \<longleftrightarrow> op_state s \<in> {OP_CLAIMED, OP_RUNNING, OP_RECONCILING} \<and> is_utc now \<and>
     (\<exists>e. op_lease_expires_at s = Some e \<and> \<not> incomparable now e \<and> dt_less now e)"

text \<open>The three ways to own an operation, and the reports an owner can make with its token.\<close>

datatype op_acquisition = FirstClaim | RetryClaim | ReconciliationClaim

fun op_acquire ::
  "op_acquisition \<times> string \<times> int \<Rightarrow> string \<Rightarrow> datetime \<Rightarrow> durable_operation \<Rightarrow>
   (string, durable_operation) outcome" where
  "op_acquire (FirstClaim, owner, dur) new now s = op_claim owner dur new now s"
| "op_acquire (RetryClaim, owner, dur) new now s = op_retry owner dur new now s"
| "op_acquire (ReconciliationClaim, owner, dur) new now s = op_claim_reconciliation owner dur new now s"

fun op_settle ::
  "op_report option \<times> int option \<times> int option \<Rightarrow> string \<Rightarrow> datetime \<Rightarrow> durable_operation \<Rightarrow>
   (unit, durable_operation) outcome" where
  "op_settle (None, v, n) tok now s = op_start tok now s"
| "op_settle (Some rep, v, n) tok now s = op_report_result rep tok v n now s"

lemma op_acquire_excluded: "op_live s now \<Longrightarrow> \<exists>e. op_acquire x new now s = Raise e s"
  by (induction x new now s rule: op_acquire.induct)
    (auto simp: op_live_def op_claim_def op_retry_def op_claim_reconciliation_def op_assert_state_def
      less_guard_def guard_def)

lemma op_acquire_effect:
  "op_acquire x new now s = Done tok t \<Longrightarrow> tok = new \<and> op_lease_token t = Some new \<and>
     op_state t \<in> {OP_CLAIMED, OP_RECONCILING} \<and>
     op_lease_expires_at t = Some (dt_add now (snd (snd x)))"
  by (induction x new now s rule: op_acquire.induct)
    (clarsimp simp: op_claim_def op_retry_def op_claim_lease_def op_claim_reconciliation_def
      op_touch_def)+

lemma op_acquire_next: "op_acquire x new now s = Done tok t \<Longrightarrow> op_next s t"
  by (induction x new now s rule: op_acquire.induct)
    (auto simp: op_next_def intro: os_claim os_retry os_claim_recon)

lemma op_authority_fenced:
  "op_lease_token s \<noteq> Some tok \<Longrightarrow> \<exists>e. op_assert_execution_authority tok v n now s = Some e"
  "op_lease_token s \<noteq> Some tok \<Longrightarrow> \<exists>e. op_assert_reconciliation_authority tok v n now s = Some e"
  using op_execution_authorityD [of tok v n now s] op_reconciliation_authorityD [of tok v n now s]
  by (metis not_None_eq)+

lemma op_settle_fenced:
  assumes "op_lease_token s \<noteq> Some tok"
  shows "\<exists>e. op_settle y tok now s = Raise e s"
proof -
  obtain rep v n where y: "y = (rep, v, n)" by (cases y)
  obtain e f where a: "op_assert_execution_authority tok v n now s = Some e"
    "op_assert_reconciliation_authority tok v n now s = Some f"
    using op_authority_fenced [OF assms] by metis
  obtain g where "op_assert_lease tok now s = Some g"
    using assms op_assert_lease_None [of tok now s] by (cases "op_assert_lease tok now s") auto
  moreover have "\<exists>e. op_report_result r tok v n now s = Raise e s" for r
    using a by (cases r) (simp_all add: op_report_defs)
  ultimately show ?thesis unfolding y by (cases rep) (simp_all add: op_start_def)
qed

interpretation op_lease: lease_discipline op_acquire op_settle op_live op_lease_token op_lease_expires_at
proof (unfold_locales, goal_cases)
  case (1 s now x new)
  then show ?case by (rule op_acquire_excluded)
next
  case (2 x new now s tok t)
  then show ?case by (auto dest: op_acquire_effect)
next
  case (3 x new now s tok t)
  then show ?case using op_acquire_effect [OF 3(1)] by (auto simp: op_live_def comparable_utc)
next
  case (4 s tok y now)
  then show ?case by (rule op_settle_fenced)
qed

text \<open>A call that is not an acquisition keeps the lease as it is or gives it up.\<close>

definition op_keeps_lease :: "durable_operation \<Rightarrow> durable_operation \<Rightarrow> bool" where
  "op_keeps_lease s t \<longleftrightarrow> op_lease_token t = None \<or>
     (op_lease_token t = op_lease_token s \<and> op_lease_expires_at t = op_lease_expires_at s)"

lemmas op_keeps_lease_simps = op_keeps_lease_def op_touch_def op_clear_lease_def

lemma op_capture_lease [simp]: "op_lease_expires_at (op_capture p s) = op_lease_expires_at s"
  by (simp add: op_capture_def)

lemma op_late_identity_lease: "op_record_late_identity rid now s = Done b t \<Longrightarrow> op_keeps_lease s t"
  by (auto simp: op_record_late_identity_def andthen_Done op_capture_text_Done op_keeps_lease_simps
      split: if_splits)

lemma op_step_lease:
  "op_step l s t \<Longrightarrow> l \<notin> {Claim, Retry, ClaimReconciliation} \<Longrightarrow> op_keeps_lease s t"
proof (induction rule: op_step.induct)
  case (os_succeed tok out rid ev ea now s r t)
  then have "op_apply_success out rid now s = Done r t" by (simp add: op_succeed_def)
  from op_apply_success_Done [OF this] show ?case by (elim conjE exE) (simp add: op_keeps_lease_simps)
next
  case (os_fail tok err retry_at ev ea now s r t)
  then have "op_apply_failure err retry_at now s = Done r t" by (simp add: op_fail_def)
  from op_apply_failure_Done [OF this] show ?case
    by (elim conjE exE disjE) (simp_all add: op_keeps_lease_simps)
next
  case (os_recover retry_at deadline now s r t)
  from op_recover_Done [OF os_recover(1)] show ?case
    by (elim conjE exE disjE) (simp_all add: op_keeps_lease_simps)
next
  case (os_defer tok err rid nxt ev ea now s r t)
  from op_defer_Done [OF os_defer(1)] show ?case
    by (elim conjE exE disjE) (simp_all add: op_keeps_lease_simps)
next
  case (os_resolve tok v err retry_at out rid ev ea now s r t)
  from op_resolve_Done [OF os_resolve(1)] obtain s' e where
    "op_apply_success out rid now s' = Done r t \<or> op_apply_failure e retry_at now s' = Done r t" by blast
  then show ?case
    using op_apply_success_Done [of out rid now s' r t] op_apply_failure_Done [of e retry_at now s' r t]
    by (elim disjE) (simp_all add: op_keeps_lease_simps, (elim conjE exE disjE; simp)+)
next
  case (os_late_execution rid v n now s b t)
  then show ?case using op_late_identity_lease [of rid now s b t]
    by (simp add: op_record_late_execution_provider_identity_def)
next
  case (os_late_reconciliation rid v n now s b t)
  then show ?case using op_late_identity_lease [of rid now s b t]
    by (simp add: op_record_late_reconciliation_provider_identity_def)
next
  case (os_transport source n g now s b t)
  then show ?case
    by (auto simp: op_apply_transport_replay_def op_consume_recovery_generation_def andthen_Done
        op_keeps_lease_simps split: if_splits)
next
  case (os_replay source n reconcile_only ed rd now s r t)
  then show ?case by (clarsimp simp: op_replay_failure_def Let_def op_keeps_lease_simps split: if_splits)
next
  case (os_consume g now s b t)
  then show ?case
    by (clarsimp simp: op_consume_recovery_generation_def op_keeps_lease_simps split: if_splits)
qed (clarsimp simp: op_exhaust_execution_deadline_def op_require_reconciliation_def Let_def andthen_Done
  op_capture_text_Done op_start_def op_exhaust_reconciliation_def op_wait_for_human_def
  op_wait_for_human_after_reconciliation_def op_complete_human_wait_def op_cancel_def
  op_mark_dead_lettered_def op_reserve_recovery_generation_def op_keeps_lease_simps)+

lemma op_trace_lease:
  "op_trace s ls t \<Longrightarrow> set ls \<inter> {Claim, Retry, ClaimReconciliation} = {} \<Longrightarrow> op_ok s \<Longrightarrow> op_keeps_lease s t"
proof (induction rule: op_trace.induct)
  case (ot_snoc s ls t l u)
  then have k: "op_keeps_lease s t" "op_keeps_lease t u" using op_step_lease [OF ot_snoc.hyps(2)] by auto
  then show ?case by (auto simp: op_keeps_lease_def)
qed (simp add: op_keeps_lease_def)

lemma op_held_live:
  assumes "op_ok s" "op_lease_token s \<noteq> None" "op_lease_expires_at s = Some e" "is_utc now" "instant now < instant e"
  shows "op_live s now"
proof -
  have "op_state s \<in> {OP_CLAIMED, OP_RUNNING, OP_RECONCILING} \<and> is_utc e"
    using assms(1-3) by (cases "op_state s") (simp_all add: op_ok_defs)
  then show ?thesis using assms(3-5) by (auto simp: op_live_def comparable_utc dt_less_def)
qed

text \<open>C6: exclusive, fenced ownership. A claim of any kind gives the operation a token until its lease runs out.
  Whatever is then called on the operation, as long as nobody claims it anew and the lease is not given up: the
  token and its expiry stay, every claim of any kind made before the expiry is refused without a change, and a
  worker presenting any other token can neither start the operation nor settle it, whatever version it names.\<close>

theorem op_lease_exclusive:
  assumes "op_reachable s" "op_acquire (kind, owner, dur) new now s = Done tok t"
    and "op_trace t ls u" "set ls \<inter> {Claim, Retry, ClaimReconciliation} = {}" "op_lease_token u \<noteq> None"
  shows "op_lease_token u = Some tok \<and> op_lease_expires_at u = Some (dt_add now dur) \<and>
    (\<forall>x new' later. is_utc later \<longrightarrow> instant later < instant now + dur \<longrightarrow>
       (\<exists>e. op_acquire x new' later u = Raise e u)) \<and>
    (\<forall>y old when. old \<noteq> tok \<longrightarrow> (\<exists>e. op_settle y old when u = Raise e u))"
proof -
  note acquired = op_acquire_effect [OF assms(2)]
  have "op_reachable t" using op_acquire_next [OF assms(2)] assms(1) op_reachable_next by blast
  then have ok: "op_ok t" "op_ok u" using op_reachable_ok op_run_ok [OF op_trace_run [OF assms(3)]] by blast+
  have u: "op_lease_token u = Some tok" "op_lease_expires_at u = Some (dt_add now dur)"
    using op_trace_lease [OF assms(3,4) ok(1)] assms(5) acquired by (auto simp: op_keeps_lease_def)
  have "op_live u later" if "is_utc later" "instant later < instant now + dur" for later
    using op_held_live [OF ok(2) assms(5) u(2)] that by simp
  then show ?thesis
    using u op_lease.claim_excluded [of u] op_lease.holder_fences [OF u(1)] by (intro conjI allI impI) blast+
qed

theorem op_lease_exclusive_witness:
  "(\<exists>e. op_acquire (FirstClaim, ''v'', 10) ''t2'' (utc 10) sample_op_running = Raise e sample_op_running)
   \<and> (\<exists>e. op_settle (Some (ReportSuccess None None), None, None) ''t0'' (utc 5) sample_op_running
        = Raise e sample_op_running)"
proof -
  have c: "op_acquire (FirstClaim, ''w'', 10) ''t1'' (utc 1) sample_operation = Done ''t1'' sample_op_claimed"
    using sample_claimed_call by simp
  have tr: "op_trace sample_op_claimed [StartWork] sample_op_running"
    using ot_snoc [OF ot_nil os_start [OF sample_running_call]] by simp
  have "op_lease_token sample_op_running \<noteq> None" by (simp add: sample_operations)
  from op_lease_exclusive [OF sample_reachable(1) c tr _ this]
  have refused: "\<forall>x new' later. is_utc later \<longrightarrow> instant later < 11 \<longrightarrow>
      (\<exists>e. op_acquire x new' later sample_op_running = Raise e sample_op_running)"
    and fenced: "\<forall>y old when. old \<noteq> ''t1'' \<longrightarrow>
      (\<exists>e. op_settle y old when sample_op_running = Raise e sample_op_running)"
    by (simp_all del: split_paired_All)
  show ?thesis
    using refused [rule_format, of "utc 10" "(FirstClaim, ''v'', 10)" "''t2''"]
      fenced [rule_format, of "''t0''" "(Some (ReportSuccess None None), None, None)" "utc 5"] by simp
qed

end
