(* ===== verification/Operation_Recovery_Facts.thy ===== *)
theory Operation_Recovery_Facts
  imports Operation_Recovery Operation_Facts
begin

text \<open>
  Progress of durable operations: after a scan and the turn of a worker, whoever has vanished, an operation is
  failed with its dead letter or reconciled under a deadline that a second scan and turn enforce.
\<close>

section \<open>Rows whose operation is sound\<close>

text \<open>The identifier fits the payload of a recovery event, the workspace is valid.\<close>

definition rows_ok :: "operation_rows \<Rightarrow> bool" where
  "rows_ok u \<longleftrightarrow> (let s = ou_operation u in
     op_ok s \<and> op_id s \<noteq> [] \<and> length (op_id s) \<le> 36 \<and> is_valid_workspace_id (op_workspace_id s))"




section \<open>Terminal failures\<close>


text \<open>Failed, with a dead letter among the rows.\<close>

definition parked :: "operation_rows \<Rightarrow> bool" where
  "parked u \<longleftrightarrow> op_state (ou_operation u) = OP_FAILED \<and>
     (\<exists>letter \<in> set (ou_dead_letters u). op_dead_letter_id (ou_operation u) = Some (dl_id letter))"

definition unpublished :: "operation_rows \<Rightarrow> bool" where
  "unpublished u \<longleftrightarrow> has_unpublished (op_id (ou_operation u)) recovery_requested (ou_outbox u)"






section \<open>Calls that cannot fail late enough\<close>






section \<open>The worker\<close>


lemma exhausted_Done: "exhausted (transaction u (Done () w)) = Raise RetryExhaustedError w"
  by simp






section \<open>The scanner\<close>



lemma complete_expired_rows [simp]:
  "ou_operation (complete_expired e now u) = ou_operation u" "ou_outbox (complete_expired e now u) = ou_outbox u"
  "ou_dead_letters (complete_expired e now u) = ou_dead_letters u"
  "rows_ok (complete_expired e now u) = rows_ok u" "parked (complete_expired e now u) = parked u"
  "unpublished (complete_expired e now u) = unpublished u"
  by (simp_all add: complete_expired_def complete_claimed_replays_def rows_ok_def parked_def unpublished_def
      split: option.splits)













section \<open>Progress\<close>














end
