(* ===== verification/Uploads.thy ===== *)
theory Uploads
  imports Identity
begin

text \<open>
  Direct uploads: the enumerations of \<open>assets/enums.py\<close> and the \<open>UploadSession\<close> aggregate of
  \<open>assets/entities.py\<close>, with its constructor check, one definition per method.
\<close>

section \<open>Enumerations\<close>

datatype upload_session_state = US_OPEN | US_FINALIZING | US_FINALIZED | US_EXPIRED | US_ABORTED

datatype retention_class = RC_TASK | RC_FOUNDATION

datatype asset_kind = AK_IMAGE | AK_LORA | AK_PROMPT_TEMPLATE | AK_MODEL_CONFIGURATION

datatype asset_state =
    AS_QUARANTINED | AS_VALIDATING | AS_PENDING_RIGHTS | AS_PENDING_REVIEW | AS_AVAILABLE
  | AS_BLOCKED | AS_RIGHTS_EXPIRED | AS_DELETING | AS_DELETED | AS_FAILED

datatype asset_deletion_reason = DEL_RETENTION_EXPIRED | DEL_RIGHTS_EXPIRED | DEL_ADMINISTRATOR_DELETE

datatype asset_object_state = AO_QUARANTINED | AO_CONTROLLED | AO_DELETE_PENDING | AO_DELETED

datatype validation_stage = VS_LOCAL_FORMAT | VS_MALWARE | VS_CONTENT_SAFETY | VS_PROVENANCE | VS_PROMOTION

datatype validation_verdict =
    VV_PASS | VV_REVIEW | VV_BLOCK | VV_RETRYABLE_FAILURE | VV_TERMINAL_FAILURE | VV_NOT_APPLICABLE

datatype provenance_status = PV_VERIFIED | PV_UNVERIFIED | PV_CONFLICTING | PV_NOT_PRESENT

datatype storage_location_class = SL_QUARANTINE | SL_TASK | SL_FOUNDATION | SL_PROVIDER_RESULT

datatype storage_backend = SB_MINIO | SB_OSS

section \<open>Upload sessions\<close>

definition validate_transfer_policy_identity :: "string \<Rightarrow> string \<Rightarrow> error option" where
  "validate_transfer_policy_identity version snapshot_sha256 = guards
     [guard (version = [] \<or> 64 < length version \<or> version \<noteq> strip version) ValueError,
      guard (length snapshot_sha256 \<noteq> 64 \<or> \<not> list_all is_lower_hex snapshot_sha256) ValueError]"

record upload_session =
  us_id :: string
  us_workspace_id :: string
  us_actor_id :: string
  us_reserved_asset_id :: string
  us_reserved_asset_version_id :: string
  us_retention_class :: retention_class
  us_asset_kind :: asset_kind
  us_filename :: string
  us_declared_mime :: string
  us_expected_byte_length :: int
  us_expected_sha256 :: string
  us_workflow_id :: "string option"
  us_product_id :: "string option"
  us_sku_id :: "string option"
  us_category :: string
  us_role :: string
  us_upload_policy_version :: string
  us_integrity_policy_version :: string
  us_storage_backend :: storage_backend
  us_storage_location :: storage_location_class
  us_storage_bucket :: string
  us_storage_key :: string
  us_destination_location :: storage_location_class
  us_destination_bucket :: string
  us_destination_key :: string
  us_state :: upload_session_state
  us_finalize_lease_owner :: "string option"
  us_finalize_lease_token :: "string option"
  us_finalize_lease_expires_at :: "datetime option"
  us_finalize_attempts :: int
  us_failure_code :: "string option"
  us_finalized_asset_version_id :: "string option"
  us_validation_operation_id :: "string option"
  us_cleanup_operation_id :: "string option"
  us_cleanup_reconcile_until :: "datetime option"
  us_expires_at :: datetime
  us_version :: int
  us_created_at :: datetime
  us_updated_at :: datetime
  us_validation_transfer_policy_version :: string
  us_validation_transfer_policy_snapshot_sha256 :: string

text \<open>
  \<open>__post_init__\<close>, in four groups: what the session is about, the finalize lease, the result and
  cleanup facts, the failure code.
\<close>

definition us_check_identity :: "upload_session \<Rightarrow> error option" where
  "us_check_identity s = guards
     [validate_workspace_id (us_workspace_id s),
      require_utc (us_expires_at s),
      require_utc (us_created_at s),
      require_utc (us_updated_at s),
      require_utc_opt (us_finalize_lease_expires_at s),
      require_utc_opt (us_cleanup_reconcile_until s),
      guard (us_retention_class s = RC_TASK \<and> us_workflow_id s = None) ValueError,
      guard (us_retention_class s = RC_FOUNDATION \<and> us_workflow_id s \<noteq> None) ValueError,
      guard (us_sku_id s \<noteq> None \<and> us_product_id s = None) ValueError,
      guard (us_expected_byte_length s < 1) ValueError,
      guard (length (us_expected_sha256 s) \<noteq> 64 \<or> \<not> list_all is_lower_hex (us_expected_sha256 s)) ValueError,
      validate_transfer_policy_identity (us_validation_transfer_policy_version s)
        (us_validation_transfer_policy_snapshot_sha256 s),
      guard (us_storage_location s \<noteq> SL_QUARANTINE) ValueError,
      guard ([] \<in> set [us_reserved_asset_id s, us_reserved_asset_version_id s, us_storage_bucket s,
        us_storage_key s, us_destination_bucket s, us_destination_key s]) ValueError,
      guard (us_destination_location s \<noteq>
        (if us_retention_class s = RC_TASK then SL_TASK else SL_FOUNDATION)) ValueError,
      guard (us_storage_key s = us_destination_key s \<and> us_storage_bucket s = us_destination_bucket s)
        ValueError,
      guard (us_version s < 1 \<or> us_finalize_attempts s < 0) ValueError]"

definition us_check_lease :: "upload_session \<Rightarrow> error option" where
  "us_check_lease s =
     (if us_state s = US_FINALIZING
      then guard (us_finalize_lease_owner s = None \<or> us_finalize_lease_token s = None \<or>
             us_finalize_lease_expires_at s = None) ValueError
      else guard (us_finalize_lease_owner s \<noteq> None \<or> us_finalize_lease_token s \<noteq> None \<or>
             us_finalize_lease_expires_at s \<noteq> None) ValueError)"

definition us_terminal :: "upload_session_state \<Rightarrow> bool" where
  "us_terminal a \<longleftrightarrow> a \<in> {US_FINALIZED, US_EXPIRED, US_ABORTED}"

definition us_check_facts :: "upload_session \<Rightarrow> error option" where
  "us_check_facts s = guards
     [(if us_state s = US_FINALIZED
       then guards
         [guard (us_finalized_asset_version_id s = None \<or> us_validation_operation_id s = None) ValueError,
          guard (us_finalized_asset_version_id s \<noteq> Some (us_reserved_asset_version_id s)) ValueError]
       else guard (us_finalized_asset_version_id s \<noteq> None \<or> us_validation_operation_id s \<noteq> None)
         ValueError),
      guard ((us_cleanup_operation_id s = None) \<noteq> (us_cleanup_reconcile_until s = None)) ValueError,
      (case (us_cleanup_operation_id s, us_cleanup_reconcile_until s) of
         (Some _, Some u) \<Rightarrow> guards
           [guard (\<not> us_terminal (us_state s)) ValueError, le_guard u (us_updated_at s) ValueError]
       | _ \<Rightarrow> None)]"

definition us_check_failure :: "upload_session \<Rightarrow> error option" where
  "us_check_failure s =
     (if us_state s = US_ABORTED then guard (us_failure_code s = None \<or> us_failure_code s = Some []) ValueError
      else guard (us_failure_code s \<noteq> None) ValueError)"

definition us_check :: "upload_session \<Rightarrow> error option" where
  "us_check s = guards [us_check_identity s, us_check_lease s, us_check_facts s, us_check_failure s]"

definition legacy_transfer_policy_version :: string where
  "legacy_transfer_policy_version = ''legacy-validation-transfer-deny-v1''"

definition us_create ::
  "string \<Rightarrow> string \<Rightarrow> string \<Rightarrow> string \<Rightarrow> string \<Rightarrow> retention_class \<Rightarrow> asset_kind \<Rightarrow> string \<Rightarrow> string \<Rightarrow> int \<Rightarrow>
   string \<Rightarrow> string option \<Rightarrow> string option \<Rightarrow> string option \<Rightarrow> string \<Rightarrow> string \<Rightarrow> string \<Rightarrow> string \<Rightarrow>
   string \<Rightarrow> string \<Rightarrow> storage_backend \<Rightarrow> string \<Rightarrow> string \<Rightarrow> storage_location_class \<Rightarrow> string \<Rightarrow>
   string \<Rightarrow> datetime \<Rightarrow> datetime \<Rightarrow> error + upload_session" where
  "us_create new_id workspace_id actor_id asset_id asset_version_id retention kind filename mime
     byte_length sha256 workflow_id product_id sku_id category role upload_policy integrity_policy
     transfer_policy transfer_snapshot backend bucket key destination destination_bucket
     destination_key expires_at now =
     (let s = \<lparr>us_id = new_id, us_workspace_id = workspace_id, us_actor_id = actor_id,
           us_reserved_asset_id = asset_id, us_reserved_asset_version_id = asset_version_id,
           us_retention_class = retention, us_asset_kind = kind, us_filename = filename,
           us_declared_mime = mime, us_expected_byte_length = byte_length,
           us_expected_sha256 = sha256, us_workflow_id = workflow_id, us_product_id = product_id,
           us_sku_id = sku_id, us_category = category, us_role = role,
           us_upload_policy_version = upload_policy, us_integrity_policy_version = integrity_policy,
           us_storage_backend = backend, us_storage_location = SL_QUARANTINE,
           us_storage_bucket = bucket, us_storage_key = key, us_destination_location = destination,
           us_destination_bucket = destination_bucket, us_destination_key = destination_key,
           us_state = US_OPEN, us_finalize_lease_owner = None, us_finalize_lease_token = None,
           us_finalize_lease_expires_at = None, us_finalize_attempts = 0, us_failure_code = None,
           us_finalized_asset_version_id = None, us_validation_operation_id = None,
           us_cleanup_operation_id = None, us_cleanup_reconcile_until = None,
           us_expires_at = expires_at, us_version = 1, us_created_at = now, us_updated_at = now,
           us_validation_transfer_policy_version = transfer_policy,
           us_validation_transfer_policy_snapshot_sha256 = transfer_snapshot\<rparr>
      in case guards
           [require_utc now, require_utc expires_at, le_guard expires_at now ValueError,
            guard (byte_length < 1) ValueError,
            guard (length sha256 \<noteq> 64 \<or> \<not> list_all is_lower_hex sha256) ValueError,
            us_check s] of
           Some e \<Rightarrow> Inl e
         | None \<Rightarrow> Inr s)"

subsection \<open>Helpers\<close>

definition us_clear_lease :: "upload_session \<Rightarrow> upload_session" where
  "us_clear_lease s = s\<lparr>us_finalize_lease_owner := None, us_finalize_lease_token := None,
     us_finalize_lease_expires_at := None\<rparr>"

text \<open>\<open>_touch\<close> checks the clock after the caller has already assigned its fields.\<close>

definition us_touch :: "datetime \<Rightarrow> upload_session \<Rightarrow> (unit, upload_session) outcome" where
  "us_touch now s = check (require_utc now) s
     (Done () (s\<lparr>us_version := us_version s + 1, us_updated_at := now\<rparr>))"

definition us_settle :: "datetime \<Rightarrow> upload_session \<Rightarrow> (unit, upload_session) outcome" where
  "us_settle now s = us_touch now (us_clear_lease s)"

definition us_assert_version :: "int \<Rightarrow> upload_session \<Rightarrow> error option" where
  "us_assert_version expected s = guard (us_version s \<noteq> expected) ConcurrencyError"

definition us_assert_lease :: "string \<Rightarrow> upload_session \<Rightarrow> error option" where
  "us_assert_lease tok s =
     guard (us_state s \<noteq> US_FINALIZING \<or> us_finalize_lease_token s \<noteq> Some tok) LeaseConflictError"

definition us_assert_live_lease :: "string \<Rightarrow> datetime \<Rightarrow> upload_session \<Rightarrow> error option" where
  "us_assert_live_lease tok now s = guards
     [require_utc now,
      us_assert_lease tok s,
      (case us_finalize_lease_expires_at s of
         None \<Rightarrow> Some LeaseConflictError
       | Some e \<Rightarrow> le_guard e now LeaseConflictError)]"

subsection \<open>Expiry\<close>

definition us_expire :: "datetime \<Rightarrow> upload_session \<Rightarrow> (bool, upload_session) outcome" where
  "us_expire now s = andthen (us_settle now (s\<lparr>us_state := US_EXPIRED\<rparr>)) (\<lambda>_ t. Done True t)"

definition us_expire_if_due :: "datetime \<Rightarrow> upload_session \<Rightarrow> (bool, upload_session) outcome" where
  "us_expire_if_due now s =
     check (require_utc now) s
      (if us_state s \<noteq> US_OPEN then Done False s
       else branch (less_test now (us_expires_at s)) s (\<lambda>early.
         if early then Done False s else us_expire now s))"

definition us_expire_for_retention :: "datetime \<Rightarrow> upload_session \<Rightarrow> (bool, upload_session) outcome" where
  "us_expire_for_retention now s =
     check (require_utc now) s
      (if us_state s \<notin> {US_OPEN, US_FINALIZING} then Done False s else us_expire now s)"

definition us_expire_abandoned :: "datetime \<Rightarrow> upload_session \<Rightarrow> (bool, upload_session) outcome" where
  "us_expire_abandoned now s =
     check (require_utc now) s
      (branch (less_test now (us_expires_at s)) s (\<lambda>early.
         if early then Done False s
         else if us_state s = US_OPEN then us_expire now s
         else case us_finalize_lease_expires_at s of
                None \<Rightarrow> Done False s
              | Some e \<Rightarrow>
                  if us_state s \<noteq> US_FINALIZING then Done False s
                  else branch (le_test e now) s (\<lambda>over.
                    if over then us_expire now s else Done False s)))"

definition us_schedule_cleanup ::
  "string \<Rightarrow> datetime \<Rightarrow> datetime \<Rightarrow> upload_session \<Rightarrow> (unit, upload_session) outcome" where
  "us_schedule_cleanup operation_id reconcile_until now s =
     check (guards
       [require_utc now,
        require_utc reconcile_until,
        guard (\<not> us_terminal (us_state s)) ValueError,
        guard (operation_id = [] \<or> 36 < length operation_id) ValueError]) s
      (if us_cleanup_operation_id s = Some operation_id then
         check (guard (case us_cleanup_reconcile_until s of
                         None \<Rightarrow> True | Some u \<Rightarrow> \<not> dt_eq u reconcile_until) ValueError) s (Done () s)
       else check (guards
         [guard (us_cleanup_operation_id s \<noteq> None) ValueError,
          le_guard reconcile_until now ValueError]) s
        (us_touch now (s\<lparr>us_cleanup_operation_id := Some operation_id,
           us_cleanup_reconcile_until := Some reconcile_until\<rparr>)))"

subsection \<open>Finalizing\<close>

definition us_claim_finalize ::
  "int \<Rightarrow> string \<Rightarrow> int \<Rightarrow> string \<Rightarrow> datetime \<Rightarrow> upload_session \<Rightarrow> (string, upload_session) outcome" where
  "us_claim_finalize expected_version owner lease_duration new_token now s =
     andthen (us_expire_if_due now s) (\<lambda>expired t.
       if expired then Raise UploadExpiredError t
       else check (guards
         [guard (us_state t = US_EXPIRED) UploadExpiredError,
          guard (us_state t = US_ABORTED) UploadAbortedError,
          us_assert_version expected_version t,
          guard (us_state t = US_FINALIZED) LeaseConflictError,
          (case us_finalize_lease_expires_at t of
             Some e \<Rightarrow> if us_state t = US_FINALIZING then less_guard now e UploadBusyError else None
           | None \<Rightarrow> None),
          guard (owner = []) ValueError,
          guard (lease_duration \<le> 0) ValueError]) t
        (andthen (us_touch now (t\<lparr>us_state := US_FINALIZING, us_finalize_lease_owner := Some owner,
           us_finalize_lease_token := Some new_token,
           us_finalize_lease_expires_at := Some (dt_add now lease_duration),
           us_finalize_attempts := us_finalize_attempts t + 1, us_failure_code := None\<rparr>))
           (\<lambda>_ u. Done new_token u)))"

definition us_release_finalize :: "string \<Rightarrow> datetime \<Rightarrow> upload_session \<Rightarrow> (unit, upload_session) outcome" where
  "us_release_finalize tok now s =
     check (us_assert_lease tok s) s
      (branch (le_test (us_expires_at s) now) s (\<lambda>over.
         us_settle now (s\<lparr>us_state := (if over then US_EXPIRED else US_OPEN)\<rparr>)))"

definition us_reject_finalize ::
  "string \<Rightarrow> string \<Rightarrow> datetime \<Rightarrow> upload_session \<Rightarrow> (unit, upload_session) outcome" where
  "us_reject_finalize tok failure_code now s =
     check (us_assert_live_lease tok now s) s
      (us_settle now (s\<lparr>us_state := US_ABORTED, us_failure_code := Some failure_code\<rparr>))"

definition us_finalize ::
  "string \<Rightarrow> string \<Rightarrow> string \<Rightarrow> datetime \<Rightarrow> upload_session \<Rightarrow> (unit, upload_session) outcome" where
  "us_finalize tok asset_version_id validation_operation_id now s =
     check (guards
       [us_assert_live_lease tok now s,
        guard (asset_version_id \<noteq> us_reserved_asset_version_id s) ValueError]) s
      (us_settle now (s\<lparr>us_state := US_FINALIZED,
         us_finalized_asset_version_id := Some asset_version_id,
         us_validation_operation_id := Some validation_operation_id\<rparr>))"

definition us_abort :: "int \<Rightarrow> datetime \<Rightarrow> upload_session \<Rightarrow> (unit, upload_session) outcome" where
  "us_abort expected_version now s =
     check (guards
       [us_assert_version expected_version s,
        guard (us_state s = US_FINALIZED) LeaseConflictError,
        guard (us_state s = US_FINALIZING) UploadBusyError]) s
      (if us_state s \<in> {US_ABORTED, US_EXPIRED} then Done () s
       else us_settle now (s\<lparr>us_state := US_ABORTED, us_failure_code := Some ''CLIENT_ABORTED''\<rparr>))"

end
