(* ===== verification/Upload_Facts.thy ===== *)
theory Upload_Facts
  imports Uploads Interfaces
begin

text \<open>
  Correctness of upload sessions: every state the methods produce passes the constructor check again
  (so a stored session can always be loaded), the lifecycle follows its table, and at most one
  worker can finalize.
\<close>

section \<open>Calls\<close>

inductive us_call :: "upload_session \<Rightarrow> upload_session \<Rightarrow> bool" where
  uc_due: "us_expire_if_due now s = Done r t \<Longrightarrow> us_call s t"
| uc_retention: "us_expire_for_retention now s = Done r t \<Longrightarrow> us_call s t"
| uc_abandoned: "us_expire_abandoned now s = Done r t \<Longrightarrow> us_call s t"
| uc_cleanup: "us_schedule_cleanup i until now s = Done r' t \<Longrightarrow> us_call s t"
| uc_claim: "us_claim_finalize v owner dur new now s = Done tok t \<Longrightarrow> us_call s t"
| uc_release: "us_release_finalize tok now s = Done r' t \<Longrightarrow> us_call s t"
| uc_reject: "us_reject_finalize tok rc now s = Done r' t \<Longrightarrow> rc \<noteq> [] \<Longrightarrow> us_call s t"
| uc_finalize: "us_finalize tok av vo now s = Done r' t \<Longrightarrow> us_call s t"
| uc_abort: "us_abort v now s = Done r' t \<Longrightarrow> us_call s t"

text \<open>Settling: the status changes, the lease goes, the version moves.\<close>

definition us_settled :: "datetime \<Rightarrow> upload_session \<Rightarrow> upload_session" where
  "us_settled now s = (us_clear_lease s)\<lparr>us_version := us_version s + 1, us_updated_at := now\<rparr>"

lemma us_settle_Done [simp]: "us_settle now s = Done r t \<longleftrightarrow> is_utc now \<and> r = () \<and> t = us_settled now s"
  by (auto simp: us_settle_def us_touch_def us_settled_def us_clear_lease_def)

lemma us_touch_Done [simp]: "us_touch now s = Done r t \<longleftrightarrow>
    is_utc now \<and> r = () \<and> t = s\<lparr>us_version := us_version s + 1, us_updated_at := now\<rparr>"
  by (auto simp: us_touch_def)

lemma us_expire_Done [simp]: "us_expire now s = Done r t \<longleftrightarrow>
    is_utc now \<and> r = True \<and> t = us_settled now (s\<lparr>us_state := US_EXPIRED\<rparr>)"
  by (auto simp: us_expire_def andthen_Done)

text \<open>The effect of each call that returns.\<close>

lemma us_expire_effects:
  "us_expire_if_due now s = Done r t \<Longrightarrow> is_utc now \<and> (r = False \<and> t = s \<or>
     r = True \<and> us_state s = US_OPEN \<and> t = us_settled now (s\<lparr>us_state := US_EXPIRED\<rparr>))"
  "us_expire_for_retention now s = Done r t \<Longrightarrow> is_utc now \<and> (t = s \<or>
     us_state s \<in> {US_OPEN, US_FINALIZING} \<and> t = us_settled now (s\<lparr>us_state := US_EXPIRED\<rparr>))"
  "us_expire_abandoned now s = Done r t \<Longrightarrow> is_utc now \<and> (t = s \<or>
     us_state s \<in> {US_OPEN, US_FINALIZING} \<and> t = us_settled now (s\<lparr>us_state := US_EXPIRED\<rparr>))"
  by (auto simp: us_expire_if_due_def us_expire_for_retention_def us_expire_abandoned_def branch_Done
      split: if_splits option.splits)

lemma us_claim_effect:
  assumes "us_claim_finalize v owner dur new now s = Done tok t"
  shows "is_utc now \<and> tok = new \<and> us_state s \<in> {US_OPEN, US_FINALIZING} \<and> owner \<noteq> [] \<and> 0 < dur \<and>
    us_version s = v \<and>
    t = s\<lparr>us_state := US_FINALIZING, us_finalize_lease_owner := Some owner,
           us_finalize_lease_token := Some new,
           us_finalize_lease_expires_at := Some (dt_add now dur),
           us_finalize_attempts := us_finalize_attempts s + 1, us_failure_code := None,
           us_version := us_version s + 1, us_updated_at := now\<rparr>"
proof -
  from assms obtain b u where e: "us_expire_if_due now s = Done b u"
    and c: "\<not> b" by (auto simp: us_claim_finalize_def andthen_Done split: if_splits)
  have u: "u = s" and now: "is_utc now" using us_expire_effects(1) [OF e] c by auto
  have "us_state s \<in> {US_OPEN, US_FINALIZING}"
    using assms e c u by (cases "us_state s") (auto simp: us_claim_finalize_def)
  with assms e c u now show ?thesis
    by (clarsimp simp: us_claim_finalize_def andthen_Done us_assert_version_def)
qed

lemma us_settle_effects:
  "us_release_finalize tok now s = Done r t \<Longrightarrow> is_utc now \<and> us_state s = US_FINALIZING \<and>
     us_finalize_lease_token s = Some tok \<and> (\<exists>st \<in> {US_EXPIRED, US_OPEN}. t = us_settled now (s\<lparr>us_state := st\<rparr>))"
  "us_reject_finalize tok rc now s = Done r t \<Longrightarrow> is_utc now \<and> us_state s = US_FINALIZING \<and>
     us_finalize_lease_token s = Some tok \<and>
     t = us_settled now (s\<lparr>us_state := US_ABORTED, us_failure_code := Some rc\<rparr>)"
  "us_finalize tok av vo now s = Done r t \<Longrightarrow> is_utc now \<and> us_state s = US_FINALIZING \<and>
     us_finalize_lease_token s = Some tok \<and> av = us_reserved_asset_version_id s \<and>
     t = us_settled now (s\<lparr>us_state := US_FINALIZED, us_finalized_asset_version_id := Some av,
         us_validation_operation_id := Some vo\<rparr>)"
  by (auto simp: us_release_finalize_def us_reject_finalize_def us_finalize_def us_assert_lease_def
      us_assert_live_lease_def branch_Done)

lemma us_abort_effect:
  "us_abort v now s = Done r t \<Longrightarrow> us_version s = v \<and>
     (t = s \<or> is_utc now \<and> us_state s = US_OPEN \<and>
        t = us_settled now (s\<lparr>us_state := US_ABORTED, us_failure_code := Some ''CLIENT_ABORTED''\<rparr>))"
  by (cases "us_state s") (auto simp: us_abort_def us_assert_version_def)

lemma us_cleanup_effect:
  assumes "us_schedule_cleanup i until now s = Done r t"
  shows "t = s \<or> is_utc now \<and> is_utc until \<and> us_terminal (us_state s) \<and> dt_less now until \<and>
       us_cleanup_operation_id s = None \<and>
       t = s\<lparr>us_cleanup_operation_id := Some i, us_cleanup_reconcile_until := Some until,
              us_version := us_version s + 1, us_updated_at := now\<rparr>"
proof (cases "us_cleanup_operation_id s = Some i")
  case True
  with assms show ?thesis by (simp add: us_schedule_cleanup_def)
next
  case False
  with assms show ?thesis
    by (intro disjI2) (clarsimp simp: us_schedule_cleanup_def dt_le_def dt_less_def)
qed

section \<open>The constructor check as an invariant\<close>

definition us_ok :: "upload_session \<Rightarrow> bool" where
  "us_ok s \<longleftrightarrow> us_check s = None"

lemmas us_ok_defs = us_ok_def us_check_def us_check_identity_def us_check_lease_def
  us_check_facts_def us_check_failure_def us_terminal_def us_settled_def us_clear_lease_def

text \<open>A session in a state without a lease, a result or a failure loses its lease and keeps the rest.\<close>

lemma us_open_facts:
  assumes "us_ok s" "us_state s \<in> {US_OPEN, US_FINALIZING}"
  shows "us_check_identity s = None" "us_finalized_asset_version_id s = None"
    "us_validation_operation_id s = None" "us_cleanup_operation_id s = None"
    "us_cleanup_reconcile_until s = None" "us_failure_code s = None"
proof -
  have a: "us_check_identity s = None" "us_check_facts s = None" "us_check_failure s = None"
    using assms(1) by (simp_all add: us_ok_def us_check_def)
  show "us_check_identity s = None" by (rule a(1))
  show "us_failure_code s = None" using a(3) assms(2) by (auto simp: us_check_failure_def)
  have b: "us_finalized_asset_version_id s = None \<and> us_validation_operation_id s = None"
    using a(2) assms(2) by (auto simp: us_check_facts_def)
  then show "us_finalized_asset_version_id s = None" "us_validation_operation_id s = None" by auto
  have "us_cleanup_operation_id s = None \<and> us_cleanup_reconcile_until s = None"
    using a(2) assms(2)
    by (cases "us_cleanup_operation_id s"; cases "us_cleanup_reconcile_until s")
      (auto simp: us_check_facts_def us_terminal_def)
  then show "us_cleanup_operation_id s = None" "us_cleanup_reconcile_until s = None" by auto
qed

lemma us_settled_ok:
  assumes "us_ok s" "us_state s \<in> {US_OPEN, US_FINALIZING}" "is_utc now"
    and "us_check_identity u = us_check_identity s" "us_state u \<noteq> US_FINALIZING"
    and "us_cleanup_operation_id u = us_cleanup_operation_id s"
    and "us_cleanup_reconcile_until u = us_cleanup_reconcile_until s"
    and "us_check_facts u = None" "us_check_failure u = None"
  shows "us_ok (us_settled now u)"
proof -
  have "us_check_identity u = None" using us_open_facts(1) [OF assms(1,2)] assms(4) by simp
  then have "us_check_identity (us_settled now u) = None"
    using assms(3) by (simp add: us_check_identity_def us_settled_def us_clear_lease_def)
  moreover have "us_check_facts (us_settled now u) = None"
    using assms(6-8) us_open_facts(4,5) [OF assms(1,2)]
    by (simp add: us_check_facts_def us_settled_def us_clear_lease_def split: if_splits)
  ultimately show ?thesis using assms(5,9)
    by (simp add: us_ok_def us_check_def us_check_lease_def us_check_failure_def us_settled_def
        us_clear_lease_def split: if_splits)
qed

lemma us_check_identity_simps [simp]:
  "us_check_identity (s\<lparr>us_state := st\<rparr>) = us_check_identity s"
  "us_check_identity (s\<lparr>us_failure_code := f\<rparr>) = us_check_identity s"
  "us_check_identity (s\<lparr>us_finalized_asset_version_id := a\<rparr>) = us_check_identity s"
  "us_check_identity (s\<lparr>us_validation_operation_id := b\<rparr>) = us_check_identity s"
  by (simp_all add: us_check_identity_def)

lemma us_left_ok:
  assumes "us_ok s" "us_state s \<in> {US_OPEN, US_FINALIZING}" "is_utc now"
  shows "us_ok (us_settled now (s\<lparr>us_state := US_EXPIRED\<rparr>))"
    "us_ok (us_settled now (s\<lparr>us_state := US_OPEN\<rparr>))"
    "rc \<noteq> [] \<Longrightarrow> us_ok (us_settled now (s\<lparr>us_state := US_ABORTED, us_failure_code := Some rc\<rparr>))"
    "us_ok (us_settled now (s\<lparr>us_state := US_FINALIZED,
       us_finalized_asset_version_id := Some (us_reserved_asset_version_id s),
       us_validation_operation_id := Some vo\<rparr>))"
  using us_open_facts [OF assms(1,2)]
  by (intro us_settled_ok [OF assms]; simp add: us_check_facts_def us_check_failure_def)+

lemma us_claimed_ok:
  assumes "us_claim_finalize v owner dur new now s = Done tok t" "us_ok s"
  shows "us_ok t"
proof -
  note e = us_claim_effect [OF assms(1)]
  then have st: "us_state s \<in> {US_OPEN, US_FINALIZING}" and now: "is_utc now" by blast+
  note f = us_open_facts [OF assms(2) st]
  from e have t: "t = s\<lparr>us_state := US_FINALIZING, us_finalize_lease_owner := Some owner,
           us_finalize_lease_token := Some new, us_finalize_lease_expires_at := Some (dt_add now dur),
           us_finalize_attempts := us_finalize_attempts s + 1, us_failure_code := None,
           us_version := us_version s + 1, us_updated_at := now\<rparr>" by blast
  have "us_check_identity t = None" using f(1) now by (simp add: t us_check_identity_def)
  then show ?thesis using f
    by (simp add: t us_ok_def us_check_def us_check_lease_def us_check_facts_def us_check_failure_def)
qed

lemma us_cleanup_ok:
  assumes "us_schedule_cleanup i until now s = Done r t" "us_ok s"
  shows "us_ok t"
  using us_cleanup_effect [OF assms(1)]
proof (elim disjE conjE)
  assume t: "t = s\<lparr>us_cleanup_operation_id := Some i, us_cleanup_reconcile_until := Some until,
              us_version := us_version s + 1, us_updated_at := now\<rparr>"
    and a: "is_utc now" "is_utc until" "us_terminal (us_state s)" "dt_less now until"
  have "us_check_identity t = None"
    using assms(2) a by (simp add: t us_ok_def us_check_def us_check_identity_def)
  moreover have "us_check_facts t = None"
    using assms(2) a
    by (simp add: t us_ok_def us_check_def us_check_facts_def comparable_utc dt_le_def dt_less_def split: if_splits)
  ultimately show ?thesis
    using assms(2)
    by (simp add: t us_ok_def us_check_def us_check_lease_def us_check_failure_def split: if_splits)
qed (use assms(2) in simp)

lemma us_call_ok: "us_call s t \<Longrightarrow> us_ok s \<Longrightarrow> us_ok t"
proof (induction rule: us_call.induct)
  case (uc_due now s r t)
  then show ?case using us_expire_effects(1) [OF uc_due.hyps] us_left_ok(1) [of s now] by auto
next
  case (uc_retention now s r t)
  then show ?case using us_expire_effects(2) [OF uc_retention.hyps] us_left_ok(1) [of s now] by auto
next
  case (uc_abandoned now s r t)
  then show ?case using us_expire_effects(3) [OF uc_abandoned.hyps] us_left_ok(1) [of s now] by auto
next
  case (uc_cleanup i until now s r' t)
  then show ?case by (rule us_cleanup_ok)
next
  case (uc_claim v owner dur new now s tok t)
  then show ?case by (rule us_claimed_ok)
next
  case (uc_release tok now s r' t)
  then show ?case using us_settle_effects(1) [OF uc_release.hyps] us_left_ok(1,2) [of s now] by auto
next
  case (uc_reject tok rc now s r' t)
  then show ?case using us_settle_effects(2) [OF uc_reject.hyps(1)] us_left_ok(3) [of s now rc] by auto
next
  case (uc_finalize tok av vo now s r' t)
  then show ?case using us_settle_effects(3) [OF uc_finalize.hyps] us_left_ok(4) [of s now vo] by auto
next
  case (uc_abort v now s r' t)
  then show ?case using us_abort_effect [OF uc_abort.hyps] us_left_ok(3) [of s now "''CLIENT_ABORTED''"] by auto
qed

lemma us_run_ok: "us_call\<^sup>*\<^sup>* s t \<Longrightarrow> us_ok s \<Longrightarrow> us_ok t"
  by (induction rule: rtranclp_induct) (auto dest: us_call_ok)

section \<open>The lifecycle\<close>

fun us_transitions :: "upload_session_state \<Rightarrow> upload_session_state list" where
  "us_transitions US_OPEN = [US_FINALIZING, US_EXPIRED, US_ABORTED]"
| "us_transitions US_FINALIZING = [US_OPEN, US_FINALIZED, US_EXPIRED, US_ABORTED]"
| "us_transitions US_FINALIZED = []"
| "us_transitions US_EXPIRED = []"
| "us_transitions US_ABORTED = []"

interpretation us_table: state_table us_transitions us_terminal "\<lambda>a. if us_terminal a then 0 else 1"
proof unfold_locales
  fix a
  show "us_terminal a \<Longrightarrow> us_transitions a = []" by (auto simp: us_terminal_def)
  show "\<not> us_terminal a \<Longrightarrow> \<exists>b\<in>set (us_transitions a).
      (if us_terminal b then 0 else 1) < (if us_terminal a then 0 else 1 :: nat)"
    by (cases a) (auto simp: us_terminal_def)
qed

lemma us_settled_state [simp]: "us_state (us_settled now s) = us_state s"
  "us_finalized_asset_version_id (us_settled now s) = us_finalized_asset_version_id s"
  "us_validation_operation_id (us_settled now s) = us_validation_operation_id s"
  "us_failure_code (us_settled now s) = us_failure_code s"
  "us_finalize_lease_token (us_settled now s) = None"
  by (simp_all add: us_settled_def us_clear_lease_def)

lemma us_call_state:
  "us_call s t \<Longrightarrow> us_state t = us_state s \<or> us_state t \<in> set (us_transitions (us_state s))"
proof (induction rule: us_call.induct)
  case (uc_due now s r t)
  then show ?case using us_expire_effects(1) [OF uc_due.hyps] by auto
next
  case (uc_retention now s r t)
  then show ?case using us_expire_effects(2) [OF uc_retention.hyps] by auto
next
  case (uc_abandoned now s r t)
  then show ?case using us_expire_effects(3) [OF uc_abandoned.hyps] by auto
next
  case (uc_cleanup i until now s r' t)
  then show ?case using us_cleanup_effect [OF uc_cleanup.hyps] by auto
next
  case (uc_claim v owner dur new now s tok t)
  then show ?case using us_claim_effect [OF uc_claim.hyps] by auto
next
  case (uc_release tok now s r' t)
  then show ?case using us_settle_effects(1) [OF uc_release.hyps] by auto
next
  case (uc_reject tok rc now s r' t)
  then show ?case using us_settle_effects(2) [OF uc_reject.hyps(1)] by auto
next
  case (uc_finalize tok av vo now s r' t)
  then show ?case using us_settle_effects(3) [OF uc_finalize.hyps] by auto
next
  case (uc_abort v now s r' t)
  then show ?case using us_abort_effect [OF uc_abort.hyps] by auto
qed

interpretation us_states: table_driven us_transitions us_terminal "\<lambda>a. if us_terminal a then 0 else 1"
    us_call us_state
  by unfold_locales (auto simp: us_table.edge_def dest!: us_call_state)

text \<open>A concrete upload: a workflow asset of one byte.\<close>

definition sample_upload :: upload_session where
  "sample_upload =
     (case us_create ''u'' ''ws'' ''actor'' ''a'' ''v'' RC_TASK AK_IMAGE ''f.png'' ''image/png'' 1
        (replicate 64 (CHR ''0'')) (Some ''wf'') None None ''c'' ''r'' ''p1'' ''i1''
        legacy_transfer_policy_version (replicate 64 (CHR ''0'')) SB_MINIO ''b'' ''k'' SL_TASK ''b'' ''k2''
        (utc 100) (utc 0) of Inr s \<Rightarrow> s)"

lemma sample_strip: "strip legacy_transfer_policy_version = legacy_transfer_policy_version"
  by (simp add: strip_def legacy_transfer_policy_version_def is_space_def class_defs code_def)

lemma sample_upload_created:
  "us_create ''u'' ''ws'' ''actor'' ''a'' ''v'' RC_TASK AK_IMAGE ''f.png'' ''image/png'' 1
     (replicate 64 (CHR ''0'')) (Some ''wf'') None None ''c'' ''r'' ''p1'' ''i1''
     legacy_transfer_policy_version (replicate 64 (CHR ''0'')) SB_MINIO ''b'' ''k'' SL_TASK ''b'' ''k2''
     (utc 100) (utc 0) = Inr sample_upload"
  by (simp add: sample_upload_def us_create_def us_check_def us_check_identity_def us_check_lease_def
      us_check_facts_def us_check_failure_def validate_transfer_policy_identity_def sample_strip
      validator_defs class_defs is_token_char_def code_def list_all_iff le_guard_def comparable_utc
      dt_le_def) (simp add: legacy_transfer_policy_version_def)

lemma us_create_ok: "us_create i w ac a v rt k f m bl sh wid p sk c ro up ip tp ts be bu ke de db dk ex now = Inr s \<Longrightarrow>
    us_ok s \<and> us_state s = US_OPEN \<and> us_version s = 1 \<and> us_expires_at s = ex \<and>
    us_finalize_lease_expires_at s = None"
  by (auto simp: us_create_def us_ok_def Let_def split: option.splits)

text \<open>upload sessions stay well formed and end. Every session the methods produce passes the check
  of its own constructor (complete lease exactly while finalizing, result facts exactly when
  finalized and naming the reserved version, a failure code exactly when aborted, a paired cleanup
  window only after the end), and a finalized, expired or aborted session stays in that state.\<close>

theorem us_invariant:
  assumes "us_create i w ac a v rt k f m bl sh wid p sk c ro up ip tp ts be bu ke de db dk ex now = Inr s0"
    and "us_call\<^sup>*\<^sup>* s0 s"
  shows "us_check s = None \<and>
    (us_terminal (us_state s) \<longrightarrow> us_call\<^sup>*\<^sup>* s t \<longrightarrow> us_state t = us_state s)"
  using us_run_ok [OF assms(2)] us_create_ok [OF assms(1)] us_states.final_status_permanent [of s t]
  by (auto simp: us_ok_def)

theorem us_invariant_witness:
  "us_check (object_after (us_abort 1 (utc 5) sample_upload)) = None"
proof -
  let ?t = "object_after (us_abort 1 (utc 5) sample_upload)"
  have "us_state sample_upload = US_OPEN" "us_version sample_upload = 1"
    using us_create_ok [OF sample_upload_created] by blast+
  then have "us_abort 1 (utc 5) sample_upload = Done () ?t"
    by (simp add: us_abort_def us_assert_version_def us_settle_def us_touch_def)
  then have "us_call\<^sup>*\<^sup>* sample_upload ?t" by (blast intro: uc_abort)
  from us_invariant [OF sample_upload_created this] show ?thesis by blast
qed

section \<open>The finalize lease\<close>

definition us_live :: "upload_session \<Rightarrow> datetime \<Rightarrow> bool" where
  "us_live s now \<longleftrightarrow> us_state s = US_FINALIZING \<and> is_utc now \<and>
     (\<exists>e. us_finalize_lease_expires_at s = Some e \<and> \<not> incomparable now e \<and> dt_less now e)"

datatype us_report = Release | Reject string | Finalize string string

fun us_report_result :: "us_report \<Rightarrow> string \<Rightarrow> datetime \<Rightarrow> upload_session \<Rightarrow> (unit, upload_session) outcome" where
  "us_report_result Release tok now s = us_release_finalize tok now s"
| "us_report_result (Reject rc) tok now s = us_reject_finalize tok rc now s"
| "us_report_result (Finalize av vo) tok now s = us_finalize tok av vo now s"

lemma us_claim_excluded: "us_live s now \<Longrightarrow> \<exists>e. us_claim_finalize v owner dur new now s = Raise e s"
  by (auto simp: us_live_def us_claim_finalize_def us_expire_if_due_def us_assert_version_def
      less_guard_def guard_def)

lemma us_report_fenced:
  "us_finalize_lease_token s \<noteq> Some tok \<Longrightarrow> \<exists>e. us_report_result rep tok now s = Raise e s"
  by (cases rep; cases "is_utc now")
    (auto simp: us_release_finalize_def us_reject_finalize_def us_finalize_def us_assert_lease_def
      us_assert_live_lease_def require_utc_def is_utc_def)

interpretation us_lease: lease_discipline "\<lambda>(v, owner, dur). us_claim_finalize v owner dur"
    us_report_result us_live us_finalize_lease_token us_finalize_lease_expires_at
proof (unfold_locales, goal_cases)
  case (1 s now x new)
  then show ?case by (cases x) (auto dest: us_claim_excluded)
next
  case (2 x new now s tok t)
  then show ?case by (cases x) (auto dest: us_claim_effect)
next
  case (3 x new now s tok t)
  obtain v owner dur where x: "x = (v, owner, dur)" by (cases x)
  from 3(1) have "us_claim_finalize v owner dur new now s = Done tok t" by (simp add: x)
  from us_claim_effect [OF this] show ?case
    by (elim conjE) (auto simp: us_live_def comparable_utc)
next
  case (4 s tok y now)
  then show ?case by (rule us_report_fenced)
qed

text \<open>A finalized session keeps its result through every call.\<close>

lemma us_call_finalized:
  "us_call s t \<Longrightarrow> us_state s = US_FINALIZED \<Longrightarrow> us_state t = US_FINALIZED \<and>
     us_finalized_asset_version_id t = us_finalized_asset_version_id s \<and>
     us_validation_operation_id t = us_validation_operation_id s"
proof (induction rule: us_call.induct)
  case (uc_due now s r t)
  then show ?case using us_expire_effects(1) [OF uc_due.hyps] by auto
next
  case (uc_retention now s r t)
  then show ?case using us_expire_effects(2) [OF uc_retention.hyps] by auto
next
  case (uc_abandoned now s r t)
  then show ?case using us_expire_effects(3) [OF uc_abandoned.hyps] by auto
next
  case (uc_cleanup i until now s r' t)
  then show ?case using us_cleanup_effect [OF uc_cleanup.hyps] by auto
next
  case (uc_claim v owner dur new now s tok t)
  then show ?case using us_claim_effect [OF uc_claim.hyps] by auto
next
  case (uc_release tok now s r' t)
  then show ?case using us_settle_effects(1) [OF uc_release.hyps] by auto
next
  case (uc_reject tok rc now s r' t)
  then show ?case using us_settle_effects(2) [OF uc_reject.hyps(1)] by auto
next
  case (uc_finalize tok av vo now s r' t)
  then show ?case using us_settle_effects(3) [OF uc_finalize.hyps] by auto
next
  case (uc_abort v now s r' t)
  then show ?case using us_abort_effect [OF uc_abort.hyps] by auto
qed

lemma us_run_finalized:
  assumes "us_call\<^sup>*\<^sup>* u x" "us_state u = US_FINALIZED"
  shows "us_state x = US_FINALIZED \<and> us_finalized_asset_version_id x = us_finalized_asset_version_id u \<and>
    us_validation_operation_id x = us_validation_operation_id u"
  using assms by (induction rule: rtranclp_induct) (auto dest: us_call_finalized)

lemma us_finalized_closed:
  assumes "us_state x = US_FINALIZED"
  shows "\<exists>e. us_claim_finalize v owner dur new now x = Raise e x" "\<exists>e. us_report_result rep tok now x = Raise e x"
proof -
  show "\<exists>e. us_claim_finalize v owner dur new now x = Raise e x"
    using assms by (cases "is_utc now") (auto simp: us_claim_finalize_def us_expire_if_due_def us_assert_version_def
        require_utc_def is_utc_def guard_def)
  show "\<exists>e. us_report_result rep tok now x = Raise e x"
    using assms by (cases rep; cases "is_utc now") (auto simp: us_release_finalize_def us_reject_finalize_def
        us_finalize_def us_assert_lease_def us_assert_live_lease_def require_utc_def is_utc_def)
qed

lemma us_lease_live:
  assumes "us_ok s" "us_finalize_lease_expires_at s = Some e" "is_utc later" "instant later < instant e"
  shows "us_live s later"
proof -
  have "us_state s = US_FINALIZING" using assms(1,2) by (auto simp: us_ok_def us_check_def us_check_lease_def split: if_splits)
  moreover have "is_utc e" using assms(1,2) by (simp add: us_ok_def us_check_def us_check_identity_def)
  ultimately show ?thesis using assms(2-4) by (simp add: us_live_def comparable_utc dt_less_def)
qed

text \<open>C10: one finalizer. In every state of a session: while a finalize lease runs, nobody can take it, and
  whoever presents another token can neither finalize nor reject nor release the session. And a session is
  finalized once: it registers exactly the reserved asset version, which no later call changes, and from then
  on every claim and every report of a worker is refused without a change.\<close>

theorem us_single_finalizer:
  assumes "us_create i w ac a v rt k f m bl sh wid p sk c ro up ip tp ts be bu ke de db dk ex now = Inr s0"
    and "us_call\<^sup>*\<^sup>* s0 s"
  shows "(us_finalize_lease_expires_at s = Some e \<longrightarrow> is_utc later \<longrightarrow> instant later < instant e \<longrightarrow>
      (\<exists>err. us_claim_finalize v' owner dur new later s = Raise err s) \<and>
      (us_finalize_lease_token s \<noteq> Some tok \<longrightarrow> (\<exists>err. us_report_result rep tok later s = Raise err s))) \<and>
    (us_finalize tok av vo done_at s = Done () u \<longrightarrow> us_call\<^sup>*\<^sup>* u x \<longrightarrow>
      us_state x = US_FINALIZED \<and> us_finalized_asset_version_id x = Some (us_reserved_asset_version_id s) \<and>
      us_validation_operation_id x = Some vo \<and>
      (\<exists>err. us_claim_finalize v' owner dur new later x = Raise err x) \<and>
      (\<exists>err. us_report_result rep tok' later x = Raise err x))"
proof -
  have ok: "us_ok s" using us_run_ok [OF assms(2)] us_create_ok [OF assms(1)] by (simp add: us_ok_def)
  have "us_state u = US_FINALIZED \<and> us_finalized_asset_version_id u = Some (us_reserved_asset_version_id s) \<and>
      us_validation_operation_id u = Some vo" if "us_finalize tok av vo done_at s = Done () u"
    using us_settle_effects(3) [OF that] by (elim conjE) simp
  then show ?thesis
    using us_lease.claim_excluded [OF us_lease_live [OF ok], where x = "(v', owner, dur)"] us_lease.settle_fenced
      us_run_finalized [of u x] us_finalized_closed [of x]
    by simp
qed

text \<open>The sample is claimed, finalized, and closed to a second worker.\<close>

theorem us_single_finalizer_witness:
  "\<exists>t u. us_claim_finalize 1 ''w'' 10 ''t1'' (utc 5) sample_upload = Done ''t1'' t \<and>
     (\<exists>e. us_claim_finalize 2 ''v'' 10 ''t2'' (utc 6) t = Raise e t) \<and>
     us_finalize ''t1'' (us_reserved_asset_version_id sample_upload) ''o'' (utc 7) t = Done () u \<and>
     (\<exists>e. us_claim_finalize 3 ''v'' 10 ''t2'' (utc 20) u = Raise e u)"
proof -
  have st: "us_state sample_upload = US_OPEN \<and> us_version sample_upload = 1 \<and>
      us_expires_at sample_upload = utc 100 \<and> us_finalize_lease_expires_at sample_upload = None"
    using us_create_ok [OF sample_upload_created] by blast
  then obtain t where t: "us_claim_finalize 1 ''w'' 10 ''t1'' (utc 5) sample_upload = Done ''t1'' t"
    by (simp add: us_claim_finalize_def us_expire_if_due_def less_test_def comparable_utc dt_less_def
        us_assert_version_def us_touch_def)
  note e = us_claim_effect [OF t]
  have lease: "us_finalize_lease_expires_at t = Some (utc 15)" using e by (elim conjE) simp
  obtain u where u: "us_finalize ''t1'' (us_reserved_asset_version_id sample_upload) ''o'' (utc 7) t = Done () u"
    using e by (elim conjE) (simp add: us_finalize_def us_assert_live_lease_def us_assert_lease_def comparable_utc dt_le_def)
  have run: "us_call\<^sup>*\<^sup>* sample_upload t" using uc_claim [OF t] by blast
  show ?thesis
    using t u lease us_single_finalizer [OF sample_upload_created run, of "utc 15" "utc 6"]
      us_single_finalizer [OF sample_upload_created run, where u = u and x = u] by fastforce
qed

end
