(* ===== verification/Assets.thy ===== *)
theory Assets
  imports Uploads
begin

text \<open>
  The aggregates of \<open>assets/entities.py\<close> after the upload: the \<open>Asset\<close> with its validation, rights,
  block and deletion lifecycle, the deletion tombstone, the immutable \<open>AssetVersion\<close> and the stored
  \<open>AssetObject\<close>. Constructor checks and one definition per method, in the order of the file.
\<close>

section \<open>Assets\<close>

record asset =
  as_id :: string
  as_workspace_id :: string
  as_retention_class :: retention_class
  as_kind :: asset_kind
  as_workflow_id :: "string option"
  as_product_id :: "string option"
  as_sku_id :: "string option"
  as_status :: asset_state
  as_block_reason :: "string option"
  as_current_version_id :: string
  as_retention_deadline :: "datetime option"
  as_version :: int
  as_created_at :: datetime
  as_updated_at :: datetime
  as_current_rights_record_id :: "string option"
  as_deletion_generation :: int
  as_deletion_operation_id :: "string option"
  as_deletion_reason :: "asset_deletion_reason option"
  as_deletion_requested_at :: "datetime option"
  as_deletion_completed_at :: "datetime option"

definition rights_block_reasons :: "string list" where
  "rights_block_reasons = [''RIGHTS_REVOKED'', ''RIGHTS_PERMISSION_EMPTY'', ''RIGHTS_NOT_ACTIVE'']"

text \<open>\<open>self.block_reason in _RIGHTS_BLOCK_REASONS\<close>\<close>

definition as_rights_block :: "asset \<Rightarrow> bool" where
  "as_rights_block a \<longleftrightarrow> as_block_reason a \<in> Some ` set rights_block_reasons"

definition as_check_deletion :: "asset \<Rightarrow> error option" where
  "as_check_deletion a = guards
     [guard (as_deletion_generation a < 0) ValueError,
      guard (as_deletion_generation a = 0 \<and>
        (as_deletion_operation_id a \<noteq> None \<or> as_deletion_reason a \<noteq> None \<or>
         as_deletion_requested_at a \<noteq> None)) ValueError,
      guard (0 < as_deletion_generation a \<and>
        (as_deletion_operation_id a = None \<or> as_deletion_reason a = None \<or>
         as_deletion_requested_at a = None)) ValueError,
      guard (as_deletion_completed_at a \<noteq> None \<and> as_status a \<noteq> AS_DELETED) ValueError]"

definition as_check :: "asset \<Rightarrow> error option" where
  "as_check a = guards
     [validate_workspace_id (as_workspace_id a),
      require_utc (as_created_at a),
      require_utc (as_updated_at a),
      require_utc_opt (as_retention_deadline a),
      require_utc_opt (as_deletion_requested_at a),
      require_utc_opt (as_deletion_completed_at a),
      as_check_deletion a,
      guard (as_retention_class a = RC_TASK \<and> as_workflow_id a = None) ValueError,
      guard (as_retention_class a = RC_FOUNDATION \<and> as_workflow_id a \<noteq> None) ValueError,
      guard (as_retention_class a = RC_TASK \<and> as_retention_deadline a = None) ValueError,
      guard (as_retention_class a = RC_FOUNDATION \<and> as_retention_deadline a \<noteq> None) ValueError,
      guard (as_sku_id a \<noteq> None \<and> as_product_id a = None) ValueError,
      guard (as_current_version_id a = []) ValueError,
      (if as_status a = AS_BLOCKED
       then guard (as_block_reason a = None \<or> as_block_reason a = Some []) ValueError
       else guard (as_block_reason a \<noteq> None) ValueError)]"

definition as_create_quarantined ::
  "string \<Rightarrow> string \<Rightarrow> retention_class \<Rightarrow> asset_kind \<Rightarrow> string option \<Rightarrow> string option \<Rightarrow> string option \<Rightarrow>
   string \<Rightarrow> datetime option \<Rightarrow> datetime \<Rightarrow> error + asset" where
  "as_create_quarantined asset_id workspace_id retention kind workflow_id product_id sku_id
     current_version_id retention_deadline now =
     (let a = \<lparr>as_id = asset_id, as_workspace_id = workspace_id, as_retention_class = retention,
           as_kind = kind, as_workflow_id = workflow_id, as_product_id = product_id,
           as_sku_id = sku_id, as_status = AS_QUARANTINED, as_block_reason = None,
           as_current_version_id = current_version_id, as_retention_deadline = retention_deadline,
           as_version = 1, as_created_at = now, as_updated_at = now,
           as_current_rights_record_id = None, as_deletion_generation = 0,
           as_deletion_operation_id = None, as_deletion_reason = None,
           as_deletion_requested_at = None, as_deletion_completed_at = None\<rparr>
      in case as_check a of Some e \<Rightarrow> Inl e | None \<Rightarrow> Inr a)"

definition as_touch :: "datetime \<Rightarrow> asset \<Rightarrow> asset" where
  "as_touch now a = a\<lparr>as_version := as_version a + 1, as_updated_at := now\<rparr>"

subsection \<open>Validation\<close>

text \<open>
  The shape of the validation methods: nothing to do in the target state, otherwise the state must
  be one of the sources.
\<close>

definition as_enter :: "asset_state \<Rightarrow> asset_state list \<Rightarrow> datetime \<Rightarrow> asset \<Rightarrow> (unit, asset) outcome" where
  "as_enter target sources now a =
     check (require_utc now) a
      (if as_status a = target then Done () a
       else check (guard (as_status a \<notin> set sources) InvalidTransitionError) a
        (Done () (as_touch now (a\<lparr>as_status := target\<rparr>))))"

definition as_begin_validation :: "datetime \<Rightarrow> asset \<Rightarrow> (unit, asset) outcome" where
  "as_begin_validation = as_enter AS_VALIDATING [AS_QUARANTINED]"

definition as_mark_pending_review :: "datetime \<Rightarrow> asset \<Rightarrow> (unit, asset) outcome" where
  "as_mark_pending_review = as_enter AS_PENDING_REVIEW [AS_VALIDATING]"

definition as_mark_pending_rights :: "datetime \<Rightarrow> asset \<Rightarrow> (unit, asset) outcome" where
  "as_mark_pending_rights = as_enter AS_PENDING_RIGHTS [AS_VALIDATING]"

definition as_fail_validation :: "datetime \<Rightarrow> asset \<Rightarrow> (unit, asset) outcome" where
  "as_fail_validation = as_enter AS_FAILED [AS_QUARANTINED, AS_VALIDATING]"

definition as_resume_failed_validation :: "datetime \<Rightarrow> asset \<Rightarrow> (unit, asset) outcome" where
  "as_resume_failed_validation now a =
     check (guards [require_utc now, guard (as_status a \<noteq> AS_FAILED) InvalidTransitionError]) a
      (Done () (as_touch now (a\<lparr>as_status := AS_VALIDATING\<rparr>)))"

subsection \<open>Blocks and rights\<close>

definition administratively_blocked :: string where
  "administratively_blocked = ''ADMINISTRATIVELY_BLOCKED''"

definition as_block :: "string \<Rightarrow> datetime \<Rightarrow> asset \<Rightarrow> (unit, asset) outcome" where
  "as_block reason now a =
     check (guards [require_utc now, guard (reason = [] \<or> 64 < length reason) ValueError]) a
      (if as_status a = AS_BLOCKED then
         (if as_block_reason a = Some reason then Done () a
          else if reason = administratively_blocked \<and> as_rights_block a
          then Done () (as_touch now (a\<lparr>as_block_reason := Some reason\<rparr>))
          else Raise InvalidTransitionError a)
       else check (guard (as_status a \<notin> {AS_VALIDATING, AS_PENDING_REVIEW, AS_PENDING_RIGHTS,
                      AS_AVAILABLE, AS_RIGHTS_EXPIRED}) InvalidTransitionError) a
        (Done () (as_touch now (a\<lparr>as_status := AS_BLOCKED, as_block_reason := Some reason\<rparr>))))"

definition as_select_available_rights :: "string \<Rightarrow> datetime \<Rightarrow> asset \<Rightarrow> (unit, asset) outcome" where
  "as_select_available_rights rights_record_id now a =
     check (guards
       [require_utc now,
        guard (rights_record_id = []) ValueError,
        guard (as_status a \<notin> {AS_PENDING_RIGHTS, AS_AVAILABLE, AS_RIGHTS_EXPIRED, AS_BLOCKED})
          InvalidTransitionError,
        guard (as_status a = AS_BLOCKED \<and> \<not> as_rights_block a) InvalidTransitionError]) a
      (Done () (as_touch now (a\<lparr>as_current_rights_record_id := Some rights_record_id,
         as_status := AS_AVAILABLE, as_block_reason := None\<rparr>)))"

definition as_select_revoked_rights :: "string \<Rightarrow> datetime \<Rightarrow> asset \<Rightarrow> (unit, asset) outcome" where
  "as_select_revoked_rights rights_record_id now a =
     check (guards
       [require_utc now,
        guard (rights_record_id = []) ValueError,
        guard (as_status a \<in> {AS_DELETING, AS_DELETED}) InvalidTransitionError]) a
      (let b = a\<lparr>as_current_rights_record_id := Some rights_record_id\<rparr> in
       if as_status b = AS_BLOCKED \<and> \<not> as_rights_block b then Done () (as_touch now b)
       else Done () (as_touch now (b\<lparr>as_status := AS_BLOCKED,
         as_block_reason := Some ''RIGHTS_REVOKED''\<rparr>)))"

definition as_select_pending_rights :: "string \<Rightarrow> datetime \<Rightarrow> asset \<Rightarrow> (unit, asset) outcome" where
  "as_select_pending_rights rights_record_id now a =
     check (guards
       [require_utc now,
        guard (rights_record_id = []) ValueError,
        guard (as_status a \<noteq> AS_PENDING_RIGHTS) InvalidTransitionError]) a
      (Done () (as_touch now (a\<lparr>as_current_rights_record_id := Some rights_record_id\<rparr>)))"

definition as_select_unusable_rights ::
  "string \<Rightarrow> string \<Rightarrow> bool \<Rightarrow> datetime \<Rightarrow> asset \<Rightarrow> (unit, asset) outcome" where
  "as_select_unusable_rights rights_record_id reason expired now a =
     check (guards
       [require_utc now,
        guard (rights_record_id = [] \<or> reason = []) ValueError,
        guard (as_status a \<in> {AS_QUARANTINED, AS_VALIDATING, AS_PENDING_REVIEW, AS_DELETING,
                 AS_DELETED, AS_FAILED}) InvalidTransitionError]) a
      (let b = a\<lparr>as_current_rights_record_id := Some rights_record_id\<rparr> in
       if as_status b = AS_BLOCKED \<and> \<not> as_rights_block b then Done () (as_touch now b)
       else Done () (as_touch now (b\<lparr>as_status := (if expired then AS_RIGHTS_EXPIRED else AS_BLOCKED),
         as_block_reason := (if expired then None else Some reason)\<rparr>)))"

definition as_expire_rights :: "datetime \<Rightarrow> asset \<Rightarrow> (unit, asset) outcome" where
  "as_expire_rights now a =
     check (require_utc now) a
      (if as_status a = AS_RIGHTS_EXPIRED then Done () a
       else check (guard (as_status a \<noteq> AS_AVAILABLE) InvalidTransitionError) a
        (Done () (as_touch now (a\<lparr>as_status := AS_RIGHTS_EXPIRED, as_block_reason := None\<rparr>))))"

subsection \<open>Deletion\<close>

text \<open>Whether the reason of a deletion applies to the asset at this time.\<close>

definition as_deletion_allowed :: "asset_deletion_reason \<Rightarrow> datetime \<Rightarrow> asset \<Rightarrow> error option" where
  "as_deletion_allowed reason now a =
     (case reason of
        DEL_RETENTION_EXPIRED \<Rightarrow>
          (if as_retention_class a \<noteq> RC_TASK then Some InvalidTransitionError
           else case as_retention_deadline a of
                  None \<Rightarrow> Some InvalidTransitionError
                | Some d \<Rightarrow> less_guard now d InvalidTransitionError)
      | DEL_RIGHTS_EXPIRED \<Rightarrow>
          guard (as_retention_class a \<noteq> RC_FOUNDATION \<or> as_status a \<noteq> AS_RIGHTS_EXPIRED)
            InvalidTransitionError
      | DEL_ADMINISTRATOR_DELETE \<Rightarrow>
          guard (as_retention_class a \<noteq> RC_FOUNDATION) InvalidTransitionError)"

definition as_request_deletion ::
  "asset_deletion_reason \<Rightarrow> string \<Rightarrow> string \<Rightarrow> datetime \<Rightarrow> asset \<Rightarrow> (int, asset) outcome" where
  "as_request_deletion reason operation_id target_version_id now a =
     check (guards
       [require_utc now,
        guard (operation_id = [] \<or> target_version_id = []) ValueError,
        guard (target_version_id \<noteq> as_current_version_id a) InvalidTransitionError]) a
      (if as_deletion_operation_id a \<noteq> None then
         (if as_deletion_operation_id a = Some operation_id \<and> as_deletion_reason a = Some reason \<and>
             0 < as_deletion_generation a
          then Done (as_deletion_generation a) a
          else Raise InvalidTransitionError a)
       else check (guards
         [guard (as_status a = AS_DELETED) InvalidTransitionError,
          as_deletion_allowed reason now a]) a
        (Done (as_deletion_generation a + 1) (as_touch now
          (a\<lparr>as_deletion_generation := as_deletion_generation a + 1,
             as_deletion_operation_id := Some operation_id, as_deletion_reason := Some reason,
             as_deletion_requested_at := Some now, as_deletion_completed_at := None,
             as_status := (if reason \<noteq> DEL_RIGHTS_EXPIRED then AS_DELETING else as_status a),
             as_block_reason := None\<rparr>))))"

definition as_complete_deletion ::
  "int \<Rightarrow> string \<Rightarrow> datetime \<Rightarrow> asset \<Rightarrow> (unit, asset) outcome" where
  "as_complete_deletion generation target_version_id now a =
     check (guards
       [require_utc now,
        guard (generation \<noteq> as_deletion_generation a \<or> target_version_id \<noteq> as_current_version_id a)
          InvalidTransitionError]) a
      (if as_status a = AS_DELETED then Done () a
       else check (guard (as_status a \<notin> {AS_DELETING, AS_RIGHTS_EXPIRED}) InvalidTransitionError) a
        (Done () (as_touch now (a\<lparr>as_status := AS_DELETED, as_deletion_completed_at := Some now,
           as_block_reason := None\<rparr>))))"

definition as_retention_over :: "datetime \<Rightarrow> asset \<Rightarrow> error option" where
  "as_retention_over now a = guards
     [require_utc now,
      (case as_retention_deadline a of
         None \<Rightarrow> Some InvalidTransitionError
       | Some d \<Rightarrow> less_guard now d InvalidTransitionError)]"

definition as_begin_retention_cleanup :: "datetime \<Rightarrow> asset \<Rightarrow> (unit, asset) outcome" where
  "as_begin_retention_cleanup now a =
     check (as_retention_over now a) a
      (if as_status a \<in> {AS_DELETING, AS_DELETED} then Done () a
       else check (guard (as_status a \<notin> {AS_QUARANTINED, AS_VALIDATING, AS_PENDING_REVIEW,
                AS_PENDING_RIGHTS, AS_AVAILABLE, AS_BLOCKED, AS_RIGHTS_EXPIRED, AS_FAILED})
                InvalidTransitionError) a
        (Done () (as_touch now (a\<lparr>as_status := AS_DELETING, as_block_reason := None\<rparr>))))"

definition as_expire_retention :: "datetime \<Rightarrow> asset \<Rightarrow> (unit, asset) outcome" where
  "as_expire_retention now a =
     check (as_retention_over now a) a
      (if as_status a = AS_DELETED then Done () a
       else check (guard (as_status a \<notin> {AS_QUARANTINED, AS_VALIDATING, AS_PENDING_REVIEW,
                AS_PENDING_RIGHTS, AS_AVAILABLE, AS_BLOCKED, AS_RIGHTS_EXPIRED, AS_FAILED,
                AS_DELETING}) InvalidTransitionError) a
        (Done () (as_touch now (a\<lparr>as_status := AS_DELETED, as_block_reason := None\<rparr>))))"

section \<open>Tombstones\<close>

record asset_deletion_tombstone =
  td_id :: string
  td_workspace_id :: string
  td_asset_id :: string
  td_target_asset_version_id :: string
  td_deletion_generation :: int
  td_operation_id :: string
  td_reason :: asset_deletion_reason
  td_requested_by :: string
  td_requested_at :: datetime

definition td_check :: "asset_deletion_tombstone \<Rightarrow> error option" where
  "td_check d = guards
     [validate_workspace_id (td_workspace_id d),
      require_utc (td_requested_at d),
      guard (td_deletion_generation d < 1) ValueError,
      guard ([] \<in> set [td_id d, td_asset_id d, td_target_asset_version_id d, td_operation_id d,
        td_requested_by d]) ValueError]"

section \<open>Asset versions\<close>

record asset_version =
  av_id :: string
  av_workspace_id :: string
  av_asset_id :: string
  av_version_number :: int
  av_upload_session_id :: "string option"
  av_filename :: string
  av_sha256 :: string
  av_byte_size :: int
  av_declared_mime :: string
  av_detected_mime :: "string option"
  av_image_format :: "string option"
  av_width :: "int option"
  av_height :: "int option"
  av_frame_count :: "int option"
  av_category :: string
  av_role :: string
  av_integrity_policy_version :: string
  av_validation_policy_version :: string
  av_created_at :: datetime
  av_validation_transfer_policy_version :: string
  av_validation_transfer_policy_snapshot_sha256 :: string
  av_generation_provider_call_id :: "string option"

text \<open>\<open>bool(x)\<close> of an optional text.\<close>

definition truthy :: "string option \<Rightarrow> bool" where
  "truthy x \<longleftrightarrow> x \<noteq> None \<and> x \<noteq> Some []"

definition av_check_image :: "asset_version \<Rightarrow> error option" where
  "av_check_image v = guards
     [(case (av_image_format v, av_width v, av_height v, av_frame_count v) of
         (None, None, None, None) \<Rightarrow> guard (av_detected_mime v \<noteq> None) ValueError
       | (Some f, Some w, Some h, Some n) \<Rightarrow> guard (f = [] \<or> w < 1 \<or> h < 1 \<or> n < 1) ValueError
       | _ \<Rightarrow> Some ValueError),
      guard (av_image_format v \<noteq> None \<and> av_detected_mime v = None) ValueError]"

definition av_check :: "asset_version \<Rightarrow> error option" where
  "av_check v = guards
     [validate_workspace_id (av_workspace_id v),
      require_utc (av_created_at v),
      guard (av_version_number v < 1) ValueError,
      guard (av_byte_size v < 1) ValueError,
      guard (truthy (av_upload_session_id v) = truthy (av_generation_provider_call_id v)) ValueError,
      av_check_image v,
      guard (av_integrity_policy_version v = [] \<or> 64 < length (av_integrity_policy_version v) \<or>
        av_validation_policy_version v = [] \<or> 64 < length (av_validation_policy_version v)) ValueError,
      validate_transfer_policy_identity (av_validation_transfer_policy_version v)
        (av_validation_transfer_policy_snapshot_sha256 v),
      guard (length (av_sha256 v) \<noteq> 64 \<or> \<not> list_all is_lower_hex (av_sha256 v)) ValueError]"

definition av_create ::
  "string \<Rightarrow> string \<Rightarrow> string \<Rightarrow> string \<Rightarrow> string \<Rightarrow> string \<Rightarrow> int \<Rightarrow> string \<Rightarrow> string option \<Rightarrow>
   string option \<Rightarrow> int option \<Rightarrow> int option \<Rightarrow> int option \<Rightarrow> string \<Rightarrow> string \<Rightarrow> string \<Rightarrow> string \<Rightarrow>
   string \<Rightarrow> string \<Rightarrow> datetime \<Rightarrow> error + asset_version" where
  "av_create version_id workspace_id asset_id session_id filename sha256 byte_size declared_mime
     detected_mime image_format width height frame_count category role integrity_policy
     validation_policy transfer_policy transfer_snapshot now =
     (let v = \<lparr>av_id = version_id, av_workspace_id = workspace_id, av_asset_id = asset_id,
           av_version_number = 1, av_upload_session_id = Some session_id, av_filename = filename,
           av_sha256 = sha256, av_byte_size = byte_size, av_declared_mime = declared_mime,
           av_detected_mime = detected_mime, av_image_format = image_format, av_width = width,
           av_height = height, av_frame_count = frame_count, av_category = category,
           av_role = role, av_integrity_policy_version = integrity_policy,
           av_validation_policy_version = validation_policy, av_created_at = now,
           av_validation_transfer_policy_version = transfer_policy,
           av_validation_transfer_policy_snapshot_sha256 = transfer_snapshot,
           av_generation_provider_call_id = None\<rparr>
      in case av_check v of Some e \<Rightarrow> Inl e | None \<Rightarrow> Inr v)"

section \<open>Asset objects\<close>

record asset_object =
  ao_id :: string
  ao_workspace_id :: string
  ao_asset_version_id :: string
  ao_role :: string
  ao_backend :: storage_backend
  ao_location :: storage_location_class
  ao_bucket :: string
  ao_key :: string
  ao_provider_version_id :: "string option"
  ao_etag :: string
  ao_byte_size :: int
  ao_sha256 :: string
  ao_state :: asset_object_state
  ao_version :: int
  ao_created_at :: datetime
  ao_updated_at :: datetime

definition ao_check :: "asset_object \<Rightarrow> error option" where
  "ao_check b = guards
     [validate_workspace_id (ao_workspace_id b),
      require_utc (ao_created_at b),
      require_utc (ao_updated_at b),
      guard (ao_byte_size b < 1) ValueError,
      guard (length (ao_sha256 b) \<noteq> 64 \<or> \<not> list_all is_lower_hex (ao_sha256 b)) ValueError,
      guard (ao_etag b = []) ValueError,
      (case ao_provider_version_id b of
         None \<Rightarrow> Some ValueError
       | Some p \<Rightarrow> guard (strip p = [] \<or> lower (strip p) = ''null'') ValueError),
      guard (ao_state b = AO_QUARANTINED \<and> ao_location b \<noteq> SL_QUARANTINE) ValueError,
      guard (ao_state b = AO_CONTROLLED \<and> ao_location b \<notin> {SL_TASK, SL_FOUNDATION}) ValueError]"

definition ao_construct :: "asset_object \<Rightarrow> error + asset_object" where
  "ao_construct b = (case ao_check b of Some e \<Rightarrow> Inl e | None \<Rightarrow> Inr b)"

definition ao_create_quarantined ::
  "string \<Rightarrow> string \<Rightarrow> string \<Rightarrow> storage_backend \<Rightarrow> storage_location_class \<Rightarrow> string \<Rightarrow> string \<Rightarrow>
   string option \<Rightarrow> string \<Rightarrow> int \<Rightarrow> string \<Rightarrow> datetime \<Rightarrow> error + asset_object" where
  "ao_create_quarantined new_id workspace_id version_id backend location bucket key
     provider_version_id etag byte_size sha256 now =
     ao_construct \<lparr>ao_id = new_id, ao_workspace_id = workspace_id, ao_asset_version_id = version_id,
       ao_role = ''ORIGINAL'', ao_backend = backend, ao_location = location, ao_bucket = bucket,
       ao_key = key, ao_provider_version_id = provider_version_id, ao_etag = etag,
       ao_byte_size = byte_size, ao_sha256 = sha256, ao_state = AO_QUARANTINED, ao_version = 1,
       ao_created_at = now, ao_updated_at = now\<rparr>"

definition ao_create_controlled ::
  "string \<Rightarrow> string \<Rightarrow> string \<Rightarrow> storage_backend \<Rightarrow> storage_location_class \<Rightarrow> string \<Rightarrow> string \<Rightarrow>
   string option \<Rightarrow> string \<Rightarrow> int \<Rightarrow> string \<Rightarrow> datetime \<Rightarrow> error + asset_object" where
  "ao_create_controlled new_id workspace_id version_id backend location bucket key
     provider_version_id etag byte_size sha256 now =
     (if location \<notin> {SL_TASK, SL_FOUNDATION} then Inl ValueError
      else ao_construct \<lparr>ao_id = new_id, ao_workspace_id = workspace_id,
       ao_asset_version_id = version_id, ao_role = ''CONTROLLED_ORIGINAL'', ao_backend = backend,
       ao_location = location, ao_bucket = bucket, ao_key = key,
       ao_provider_version_id = provider_version_id, ao_etag = etag, ao_byte_size = byte_size,
       ao_sha256 = sha256, ao_state = AO_CONTROLLED, ao_version = 1, ao_created_at = now,
       ao_updated_at = now\<rparr>)"

definition ao_touch :: "datetime \<Rightarrow> asset_object \<Rightarrow> asset_object" where
  "ao_touch now b = b\<lparr>ao_version := ao_version b + 1, ao_updated_at := now\<rparr>"

definition ao_mark_delete_pending :: "datetime \<Rightarrow> asset_object \<Rightarrow> (unit, asset_object) outcome" where
  "ao_mark_delete_pending now b =
     check (require_utc now) b
      (if ao_state b \<in> {AO_DELETE_PENDING, AO_DELETED} then Done () b
       else check (guard (ao_state b \<notin> {AO_QUARANTINED, AO_CONTROLLED}) InvalidTransitionError) b
        (Done () (ao_touch now (b\<lparr>ao_state := AO_DELETE_PENDING\<rparr>))))"

definition ao_mark_deleted :: "datetime \<Rightarrow> asset_object \<Rightarrow> (unit, asset_object) outcome" where
  "ao_mark_deleted now b =
     check (require_utc now) b
      (if ao_state b = AO_DELETED then Done () b
       else check (guard (ao_state b \<noteq> AO_DELETE_PENDING) InvalidTransitionError) b
        (Done () (ao_touch now (b\<lparr>ao_state := AO_DELETED\<rparr>))))"

end
