(* ===== verification/Rights.thy ===== *)
theory Rights
  imports Assets
begin

text \<open>
  Rights records and the current-usability decision of \<open>assets/rights.py\<close>. A record is checked when
  it is built; \<open>evaluate_current_usability\<close> decides one use of one asset version, from the asset and
  the record alone.
\<close>

datatype rights_record_decision = GRANT | REVOKE

datatype rights_decision_code =
    AUTHORIZED | NO_CURRENT_RIGHTS | RIGHTS_REVOKED | RIGHTS_NOT_YET_VALID | RIGHTS_EXPIRED
  | RIGHTS_ASSET_VERSION_MISMATCH | ASSET_VERSION_NOT_CURRENT | ASSET_NOT_AVAILABLE
  | ASSET_RETENTION_EXPIRED | ASSET_BLOCKED | ADMINISTRATIVELY_BLOCKED | USE_NOT_ALLOWED
  | PROVIDER_NOT_ALLOWED | DERIVATIVE_NOT_ALLOWED

definition validate_reference :: "nat \<Rightarrow> string \<Rightarrow> error option" where
  "validate_reference maximum v = guards
     [guard (v = [] \<or> v \<noteq> strip v \<or> maximum < length v) ValueError,
      guard (list_ex (\<lambda>c. code c < 32 \<or> code c = 127) v) ValueError]"

fun validate_reference_opt :: "nat \<Rightarrow> string option \<Rightarrow> error option" where
  "validate_reference_opt maximum None = None"
| "validate_reference_opt maximum (Some v) = validate_reference maximum v"

text \<open>A \<open>frozenset\<close> of permissions is a list without repetitions.\<close>

definition validate_permissions :: "string list \<Rightarrow> error option" where
  "validate_permissions vs = guards
     [guard (128 < length (remdups vs)) ValueError,
      guard (list_ex (\<lambda>v. \<not> is_token v) vs) ValueError]"

record rights_record =
  rr_id :: string
  rr_workspace_id :: string
  rr_asset_id :: string
  rr_asset_version_id :: "string option"
  rr_version_number :: int
  rr_decision :: rights_record_decision
  rr_owner_reference :: string
  rr_source :: string
  rr_license_reference :: string
  rr_allowed_uses :: "string list"
  rr_allowed_providers :: "string list"
  rr_derivative_allowed :: bool
  rr_public_demo_allowed :: bool
  rr_evidence_reference :: string
  rr_terms_sha256 :: string
  rr_valid_from :: datetime
  rr_valid_until :: "datetime option"
  rr_perpetual :: bool
  rr_supersedes_record_id :: "string option"
  rr_created_by :: string
  rr_created_at :: datetime

definition rr_check :: "rights_record \<Rightarrow> error option" where
  "rr_check r = guards
     [validate_workspace_id (rr_workspace_id r),
      require_utc (rr_valid_from r),
      require_utc (rr_created_at r),
      require_utc_opt (rr_valid_until r),
      guard (rr_version_number r < 1) ValueError,
      validate_reference 36 (rr_id r),
      validate_reference 36 (rr_asset_id r),
      validate_reference 256 (rr_owner_reference r),
      validate_reference 256 (rr_source r),
      validate_reference 256 (rr_license_reference r),
      validate_reference 512 (rr_evidence_reference r),
      validate_reference 128 (rr_created_by r),
      validate_reference_opt 36 (rr_asset_version_id r),
      validate_reference_opt 36 (rr_supersedes_record_id r),
      validate_sha256 (rr_terms_sha256 r),
      validate_permissions (rr_allowed_uses r),
      validate_permissions (rr_allowed_providers r),
      (if rr_perpetual r then guard (rr_valid_until r \<noteq> None) ValueError
       else case rr_valid_until r of
              None \<Rightarrow> Some ValueError
            | Some u \<Rightarrow> le_guard u (rr_valid_from r) ValueError)]"

record usability_decision =
  ud_authorized :: bool
  ud_reason_code :: rights_decision_code
  ud_workspace_id :: string
  ud_asset_id :: string
  ud_asset_version_id :: string
  ud_rights_record_id :: "string option"
  ud_rights_record_version :: "int option"
  ud_purpose :: string
  ud_provider :: string
  ud_requires_derivative :: bool
  ud_decided_at :: datetime

definition decide_usability ::
  "asset \<Rightarrow> rights_record option \<Rightarrow> string \<Rightarrow> string \<Rightarrow> string \<Rightarrow> bool \<Rightarrow> datetime \<Rightarrow>
   rights_decision_code \<Rightarrow> usability_decision" where
  "decide_usability a record asset_version_id purpose provider derivative now reason =
     \<lparr>ud_authorized = (reason = AUTHORIZED), ud_reason_code = reason,
      ud_workspace_id = as_workspace_id a, ud_asset_id = as_id a,
      ud_asset_version_id = asset_version_id, ud_rights_record_id = map_option rr_id record,
      ud_rights_record_version = map_option rr_version_number record, ud_purpose = purpose,
      ud_provider = provider, ud_requires_derivative = derivative, ud_decided_at = now\<rparr>"

text \<open>
  The tests after the record is known to be the current one, in the order of the code. The instants
  of a record and the retention deadline of an asset are in UTC (\<open>rr_check\<close>, \<open>as_check\<close>, and no
  method reassigns them), as is the decision time, so no comparison here can raise.
\<close>

definition usability_of_record ::
  "asset \<Rightarrow> rights_record \<Rightarrow> string \<Rightarrow> string \<Rightarrow> string \<Rightarrow> bool \<Rightarrow> datetime \<Rightarrow> rights_decision_code" where
  "usability_of_record a r asset_version_id purpose provider derivative now =
     (if rr_asset_version_id r \<noteq> None \<and> rr_asset_version_id r \<noteq> Some asset_version_id then RIGHTS_ASSET_VERSION_MISMATCH
      else if rr_decision r = REVOKE then RIGHTS_REVOKED
      else if dt_less now (rr_valid_from r) then RIGHTS_NOT_YET_VALID
      else if (case rr_valid_until r of None \<Rightarrow> False | Some u \<Rightarrow> dt_le u now) then RIGHTS_EXPIRED
      else if as_status a = AS_RIGHTS_EXPIRED then RIGHTS_EXPIRED
      else if purpose \<notin> set (rr_allowed_uses r) then USE_NOT_ALLOWED
      else if provider \<notin> set (rr_allowed_providers r) then PROVIDER_NOT_ALLOWED
      else if derivative \<and> \<not> rr_derivative_allowed r then DERIVATIVE_NOT_ALLOWED
      else if as_status a = AS_BLOCKED then ASSET_BLOCKED
      else if as_status a \<noteq> AS_AVAILABLE then ASSET_NOT_AVAILABLE
      else AUTHORIZED)"

definition usability_code ::
  "asset \<Rightarrow> rights_record option \<Rightarrow> string \<Rightarrow> string \<Rightarrow> string \<Rightarrow> bool \<Rightarrow> datetime \<Rightarrow>
   rights_decision_code" where
  "usability_code a record asset_version_id purpose provider derivative now =
     (if asset_version_id \<noteq> as_current_version_id a then ASSET_VERSION_NOT_CURRENT
      else if as_status a = AS_BLOCKED \<and> as_block_reason a = Some administratively_blocked
      then ADMINISTRATIVELY_BLOCKED
      else case record of
             None \<Rightarrow> NO_CURRENT_RIGHTS
           | Some r \<Rightarrow>
               if as_current_rights_record_id a \<noteq> Some (rr_id r) then NO_CURRENT_RIGHTS
               else if rr_workspace_id r \<noteq> as_workspace_id a \<or> rr_asset_id r \<noteq> as_id a
               then NO_CURRENT_RIGHTS
               else if (case as_retention_deadline a of None \<Rightarrow> False | Some d \<Rightarrow> dt_le d now)
               then ASSET_RETENTION_EXPIRED
               else usability_of_record a r asset_version_id purpose provider derivative now)"

definition evaluate_current_usability ::
  "asset \<Rightarrow> rights_record option \<Rightarrow> string \<Rightarrow> string \<Rightarrow> string \<Rightarrow> bool \<Rightarrow> datetime \<Rightarrow>
   error + usability_decision" where
  "evaluate_current_usability a record asset_version_id purpose provider derivative now =
     (case guards
        [require_utc now,
         validate_reference 36 asset_version_id,
         guard (\<not> is_token purpose) ValueError,
         guard (\<not> is_token provider) ValueError] of
        Some e \<Rightarrow> Inl e
      | None \<Rightarrow> Inr (decide_usability a record asset_version_id purpose provider derivative now
          (usability_code a record asset_version_id purpose provider derivative now)))"

text \<open>
  \<open>AssetRightsApplicationService._select_record\<close>: how a new record becomes the current one of its
  asset.
\<close>

definition select_record :: "rights_record \<Rightarrow> datetime \<Rightarrow> asset \<Rightarrow> (unit, asset) outcome" where
  "select_record r now a =
     (if (case rr_valid_until r of None \<Rightarrow> False | Some u \<Rightarrow> dt_le u now)
      then as_select_unusable_rights (rr_id r) ''RIGHTS_EXPIRED'' True now a
      else if dt_less now (rr_valid_from r) \<or> rr_allowed_uses r = [] \<or> rr_allowed_providers r = []
      then (if as_status a = AS_PENDING_RIGHTS then as_select_pending_rights (rr_id r) now a
            else as_select_unusable_rights (rr_id r)
                   (if dt_less now (rr_valid_from r) then ''RIGHTS_NOT_ACTIVE''
                    else ''RIGHTS_PERMISSION_EMPTY'') False now a)
      else as_select_available_rights (rr_id r) now a)"

end
