(* ===== verification/Asset_Facts.thy ===== *)
theory Asset_Facts
  imports Rights Interfaces
begin

text \<open>
  Correctness of assets and of their use: every state the methods produce passes the constructor
  check again, a withdrawn asset (blocked by an administrator, being deleted or deleted) is never
  usable again, deletion is idempotent and fenced by its identity, and the usability decision
  authorises exactly the uses it should.
\<close>

section \<open>Calls\<close>

inductive as_call :: "asset \<Rightarrow> asset \<Rightarrow> bool" where
  ak_begin: "as_begin_validation now a = Done r b \<Longrightarrow> as_call a b"
| ak_review: "as_mark_pending_review now a = Done r b \<Longrightarrow> as_call a b"
| ak_rights: "as_mark_pending_rights now a = Done r b \<Longrightarrow> as_call a b"
| ak_fail: "as_fail_validation now a = Done r b \<Longrightarrow> as_call a b"
| ak_resume: "as_resume_failed_validation now a = Done r b \<Longrightarrow> as_call a b"
| ak_block: "as_block reason now a = Done r b \<Longrightarrow> as_call a b"
| ak_available: "as_select_available_rights rid now a = Done r b \<Longrightarrow> as_call a b"
| ak_revoked: "as_select_revoked_rights rid now a = Done r b \<Longrightarrow> as_call a b"
| ak_pending: "as_select_pending_rights rid now a = Done r b \<Longrightarrow> as_call a b"
| ak_unusable: "as_select_unusable_rights rid reason expired now a = Done r b \<Longrightarrow> as_call a b"
| ak_expire: "as_expire_rights now a = Done r b \<Longrightarrow> as_call a b"
| ak_request: "as_request_deletion why op_id' ver now a = Done g b \<Longrightarrow> as_call a b"
| ak_complete: "as_complete_deletion g ver now a = Done r b \<Longrightarrow> as_call a b"
| ak_cleanup: "as_begin_retention_cleanup now a = Done r b \<Longrightarrow> as_call a b"
| ak_retention: "as_expire_retention now a = Done r b \<Longrightarrow> as_call a b"

lemmas as_move_defs = as_enter_def as_begin_validation_def as_mark_pending_review_def
  as_mark_pending_rights_def as_fail_validation_def as_resume_failed_validation_def

lemmas as_rights_defs = as_select_available_rights_def as_select_revoked_rights_def
  as_select_pending_rights_def as_select_unusable_rights_def as_expire_rights_def Let_def

lemmas as_delete_defs = as_request_deletion_def as_complete_deletion_def as_retention_over_def
  as_begin_retention_cleanup_def as_expire_retention_def

section \<open>The constructor check as an invariant\<close>

definition as_ok :: "asset \<Rightarrow> bool" where
  "as_ok a \<longleftrightarrow> as_check a = None"

lemmas as_ok_defs = as_ok_def as_check_def as_check_deletion_def as_touch_def

lemma as_touch_ok:
  assumes "as_ok a" "is_utc now"
    and "st = AS_BLOCKED \<and> br \<noteq> None \<and> br \<noteq> Some [] \<or> st \<noteq> AS_BLOCKED \<and> br = None"
    and "as_deletion_completed_at a = None \<or> st = AS_DELETED"
  shows "as_ok (as_touch now (a\<lparr>as_status := st, as_block_reason := br\<rparr>))"
  using assms by (cases "st = AS_BLOCKED") (simp_all add: as_ok_defs)

lemma as_ok_block: "as_ok a \<Longrightarrow> as_status a = AS_BLOCKED \<longleftrightarrow> as_block_reason a \<noteq> None"
  "as_ok a \<Longrightarrow> as_block_reason a \<noteq> Some []"
  "as_ok a \<Longrightarrow> as_status a \<noteq> AS_DELETED \<Longrightarrow> as_deletion_completed_at a = None"
  by (auto simp: as_ok_defs split: if_splits)

lemma as_ok_rights [simp]: "as_ok (a\<lparr>as_current_rights_record_id := x\<rparr>) = as_ok a"
  by (simp add: as_ok_defs)

lemma as_enter_ok:
  assumes "as_enter target sources now a = Done r b" "as_ok a"
    and "target \<noteq> AS_BLOCKED" "AS_BLOCKED \<notin> set sources" "AS_DELETED \<notin> set sources"
  shows "as_ok b"
proof (cases "as_status a = target")
  case True
  with assms(1,2) show ?thesis by (simp add: as_enter_def)
next
  case False
  with assms(1) have b: "b = as_touch now (a\<lparr>as_status := target\<rparr>)" "is_utc now" "as_status a \<in> set sources"
    by (auto simp: as_enter_def)
  with assms(4,5) have n: "as_status a \<noteq> AS_BLOCKED" "as_status a \<noteq> AS_DELETED" by auto
  with as_ok_block [OF assms(2)] have k: "as_block_reason a = None" "as_deletion_completed_at a = None"
    by auto
  have "as_ok (as_touch now (a\<lparr>as_status := target, as_block_reason := None\<rparr>))"
    using assms(2,3) b(2) k by (intro as_touch_ok) auto
  also have "a\<lparr>as_status := target, as_block_reason := None\<rparr> = a\<lparr>as_status := target\<rparr>"
    using k(1) by simp
  finally show ?thesis unfolding b(1) .
qed

lemma as_validation_ok:
  "as_begin_validation now a = Done r b \<Longrightarrow> as_ok a \<Longrightarrow> as_ok b"
  "as_mark_pending_review now a = Done r b \<Longrightarrow> as_ok a \<Longrightarrow> as_ok b"
  "as_mark_pending_rights now a = Done r b \<Longrightarrow> as_ok a \<Longrightarrow> as_ok b"
  "as_fail_validation now a = Done r b \<Longrightarrow> as_ok a \<Longrightarrow> as_ok b"
  unfolding as_begin_validation_def as_mark_pending_review_def as_mark_pending_rights_def
    as_fail_validation_def
  by (erule (1) as_enter_ok; simp)+

lemma as_resume_ok: "as_resume_failed_validation now a = Done r b \<Longrightarrow> as_ok a \<Longrightarrow> as_ok b"
  using as_ok_block [of a]
  by (clarsimp simp: as_resume_failed_validation_def) (simp add: as_ok_defs)

lemma as_block_ok:
  assumes "as_block reason now a = Done r b" "as_ok a"
  shows "as_ok b"
proof (cases "as_status a = AS_BLOCKED")
  case True
  then have "b = a \<or> b = as_touch now (a\<lparr>as_block_reason := Some reason\<rparr>) \<and> is_utc now \<and> reason \<noteq> []"
    using assms(1) by (auto simp: as_block_def split: if_splits)
  then show ?thesis using assms(2) True by (elim disjE) (simp_all add: as_ok_defs)
next
  case False
  then have "b = as_touch now (a\<lparr>as_status := AS_BLOCKED, as_block_reason := Some reason\<rparr>)"
    "is_utc now" "reason \<noteq> []" "as_status a \<noteq> AS_DELETED"
    using assms(1) by (auto simp: as_block_def)
  then show ?thesis using as_ok_block(3) [OF assms(2)] assms(2) by (simp add: as_touch_ok)
qed

lemma as_select_ok:
  "as_select_available_rights rid now a = Done r b \<Longrightarrow> as_ok a \<Longrightarrow> as_ok b"
  "as_select_pending_rights rid now a = Done r b \<Longrightarrow> as_ok a \<Longrightarrow> as_ok b"
  "as_expire_rights now a = Done r b \<Longrightarrow> as_ok a \<Longrightarrow> as_ok b"
proof -
  assume c: "as_select_available_rights rid now a = Done r b" "as_ok a"
  then have b: "b = as_touch now ((a\<lparr>as_current_rights_record_id := Some rid\<rparr>)
      \<lparr>as_status := AS_AVAILABLE, as_block_reason := None\<rparr>)" "is_utc now" "as_status a \<noteq> AS_DELETED"
    by (auto simp: as_select_available_rights_def)
  then show "as_ok b" using c(2) as_ok_block(3) [OF c(2)]
    by (simp only: b(1), intro as_touch_ok) simp_all
next
  assume c: "as_select_pending_rights rid now a = Done r b" "as_ok a"
  then show "as_ok b" by (clarsimp simp: as_select_pending_rights_def) (simp add: as_ok_defs)
next
  assume c: "as_expire_rights now a = Done r b" "as_ok a"
  show "as_ok b"
  proof (cases "as_status a = AS_RIGHTS_EXPIRED")
    case False
    with c have "b = as_touch now (a\<lparr>as_status := AS_RIGHTS_EXPIRED, as_block_reason := None\<rparr>)"
      "is_utc now" "as_status a \<noteq> AS_DELETED" by (auto simp: as_expire_rights_def)
    then show ?thesis using c(2) as_ok_block(3) [OF c(2)] by (simp add: as_touch_ok)
  qed (use c in \<open>simp add: as_expire_rights_def\<close>)
qed

lemma as_unusable_ok:
  "as_select_revoked_rights rid now a = Done r b \<Longrightarrow> as_ok a \<Longrightarrow> as_ok b"
  "as_select_unusable_rights rid reason expired now a = Done r b \<Longrightarrow> as_ok a \<Longrightarrow> as_ok b"
proof -
  let ?a = "a\<lparr>as_current_rights_record_id := Some rid\<rparr>"
  have keep: "as_ok a \<Longrightarrow> is_utc now \<Longrightarrow> as_ok (as_touch now ?a)"
    by (simp add: as_ok_defs split: if_splits)
  {
    assume c: "as_select_revoked_rights rid now a = Done r b" "as_ok a"
    then have "is_utc now" "as_status a \<noteq> AS_DELETED" "b = as_touch now ?a \<or>
        b = as_touch now (?a\<lparr>as_status := AS_BLOCKED, as_block_reason := Some ''RIGHTS_REVOKED''\<rparr>)"
      by (auto simp: as_select_revoked_rights_def Let_def split: if_splits)
    then show "as_ok b" using c(2) as_ok_block(3) [OF c(2)] keep as_touch_ok [of ?a now] by auto
  next
    assume c: "as_select_unusable_rights rid reason expired now a = Done r b" "as_ok a"
    then have "is_utc now" "as_status a \<noteq> AS_DELETED" "reason \<noteq> []" "b = as_touch now ?a \<or>
        b = as_touch now (?a\<lparr>as_status := (if expired then AS_RIGHTS_EXPIRED else AS_BLOCKED),
          as_block_reason := (if expired then None else Some reason)\<rparr>)"
      by (auto simp: as_select_unusable_rights_def Let_def split: if_splits)
    then show "as_ok b" using c(2) as_ok_block(3) [OF c(2)] keep as_touch_ok [of ?a now]
      by (cases expired) auto
  }
qed

lemma as_request_new:
  assumes "as_request_deletion why i v now a = Done g b" "as_deletion_operation_id a = None"
  shows "is_utc now \<and> as_status a \<noteq> AS_DELETED \<and> i \<noteq> [] \<and> g = as_deletion_generation a + 1 \<and>
    v = as_current_version_id a \<and> as_deletion_allowed why now a = None \<and>
    b = as_touch now (a\<lparr>as_deletion_generation := g, as_deletion_operation_id := Some i,
         as_deletion_reason := Some why, as_deletion_requested_at := Some now,
         as_deletion_completed_at := None,
         as_status := (if why \<noteq> DEL_RIGHTS_EXPIRED then AS_DELETING else as_status a),
         as_block_reason := None\<rparr>)"
  using assms by (clarsimp simp: as_request_deletion_def)

lemma as_request_same:
  assumes "as_request_deletion why i v now a = Done g b" "as_deletion_operation_id a \<noteq> None"
  shows "b = a \<and> g = as_deletion_generation a \<and> as_deletion_operation_id a = Some i \<and> as_deletion_reason a = Some why"
  using assms by (auto simp: as_request_deletion_def split: if_splits)

lemma as_request_ok:
  assumes "as_request_deletion why i v now a = Done g b" "as_ok a"
  shows "as_ok b"
proof (cases "as_deletion_operation_id a = None")
  case True
  note e = as_request_new [OF assms(1) True]
  have st: "as_status a \<noteq> AS_BLOCKED" if "why = DEL_RIGHTS_EXPIRED"
    using e that by (simp add: as_deletion_allowed_def)
  from e have b: "b = as_touch now (a\<lparr>as_deletion_generation := as_deletion_generation a + 1,
         as_deletion_operation_id := Some i,
         as_deletion_reason := Some why, as_deletion_requested_at := Some now,
         as_deletion_completed_at := None,
         as_status := (if why \<noteq> DEL_RIGHTS_EXPIRED then AS_DELETING else as_status a),
         as_block_reason := None\<rparr>)" and now: "is_utc now" by auto
  show ?thesis unfolding b using assms(2) now st
    by (cases "why = DEL_RIGHTS_EXPIRED") (simp_all add: as_ok_defs)
next
  case False
  then show ?thesis using as_request_same [OF assms(1)] assms(2) by simp
qed

lemma as_finish_ok:
  "as_complete_deletion g v now a = Done r b \<Longrightarrow> as_ok a \<Longrightarrow> as_ok b"
  "as_begin_retention_cleanup now a = Done r b \<Longrightarrow> as_ok a \<Longrightarrow> as_ok b"
  "as_expire_retention now a = Done r b \<Longrightarrow> as_ok a \<Longrightarrow> as_ok b"
proof -
  assume c: "as_complete_deletion g v now a = Done r b" "as_ok a"
  then have "b = a \<or> is_utc now \<and> b = as_touch now (a\<lparr>as_status := AS_DELETED,
      as_deletion_completed_at := Some now, as_block_reason := None\<rparr>)"
    by (auto simp: as_complete_deletion_def split: if_splits)
  then show "as_ok b" using c(2) by (elim disjE) (simp_all add: as_ok_defs)
next
  assume c: "as_begin_retention_cleanup now a = Done r b" "as_ok a"
  then have "b = a \<or> is_utc now \<and> as_status a \<noteq> AS_DELETED \<and>
      b = as_touch now (a\<lparr>as_status := AS_DELETING, as_block_reason := None\<rparr>)"
    by (auto simp: as_begin_retention_cleanup_def as_retention_over_def split: if_splits)
  then show "as_ok b" using c(2) as_ok_block(3) [OF c(2)] by (auto simp: as_touch_ok)
next
  assume c: "as_expire_retention now a = Done r b" "as_ok a"
  then have "b = a \<or> is_utc now \<and> b = as_touch now (a\<lparr>as_status := AS_DELETED, as_block_reason := None\<rparr>)"
    by (auto simp: as_expire_retention_def as_retention_over_def split: if_splits)
  then show "as_ok b" using c(2) by (auto simp: as_touch_ok)
qed

lemmas as_calls_ok = as_validation_ok as_resume_ok as_block_ok as_select_ok as_unusable_ok
  as_request_ok as_finish_ok

lemma as_call_ok: "as_call a b \<Longrightarrow> as_ok a \<Longrightarrow> as_ok b"
  by (induction rule: as_call.induct) (erule (1) as_calls_ok)+

lemma as_run_ok: "as_call\<^sup>*\<^sup>* a b \<Longrightarrow> as_ok a \<Longrightarrow> as_ok b"
  by (induction rule: rtranclp_induct) (auto dest: as_call_ok)

section \<open>Withdrawn assets\<close>

definition as_withdrawn :: "asset \<Rightarrow> bool" where
  "as_withdrawn a \<longleftrightarrow> as_status a \<in> {AS_DELETING, AS_DELETED} \<or>
     as_status a = AS_BLOCKED \<and> as_block_reason a = Some administratively_blocked"

lemma admin_not_rights: "as_block_reason a = Some administratively_blocked \<Longrightarrow> \<not> as_rights_block a"
  by (simp add: as_rights_block_def rights_block_reasons_def administratively_blocked_def)

lemma as_enter_withdrawn:
  "as_enter target sources now a = Done r b \<Longrightarrow> as_withdrawn a \<Longrightarrow>
     set sources \<inter> {AS_BLOCKED, AS_DELETING, AS_DELETED} = {} \<Longrightarrow> b = a"
  by (auto simp: as_enter_def as_withdrawn_def split: if_splits)

lemma as_call_withdrawn: "as_call a b \<Longrightarrow> as_withdrawn a \<Longrightarrow> as_withdrawn b"
proof (induction rule: as_call.induct)
  case (ak_begin now a r b)
  then show ?case using as_enter_withdrawn [of AS_VALIDATING "[AS_QUARANTINED]" now a r b]
    by (simp add: as_begin_validation_def)
next
  case (ak_review now a r b)
  then show ?case using as_enter_withdrawn [of AS_PENDING_REVIEW "[AS_VALIDATING]" now a r b]
    by (simp add: as_mark_pending_review_def)
next
  case (ak_rights now a r b)
  then show ?case using as_enter_withdrawn [of AS_PENDING_RIGHTS "[AS_VALIDATING]" now a r b]
    by (simp add: as_mark_pending_rights_def)
next
  case (ak_fail now a r b)
  then show ?case using as_enter_withdrawn [of AS_FAILED "[AS_QUARANTINED, AS_VALIDATING]" now a r b]
    by (simp add: as_fail_validation_def)
next
  case (ak_resume now a r b)
  then show ?case by (auto simp: as_resume_failed_validation_def as_withdrawn_def)
next
  case (ak_block reason now a r b)
  then show ?case using admin_not_rights [of a]
    by (auto simp: as_block_def as_withdrawn_def split: if_splits)
next
  case (ak_available rid now a r b)
  then show ?case using admin_not_rights [of a]
    by (auto simp: as_select_available_rights_def as_withdrawn_def)
next
  case (ak_revoked rid now a r b)
  then show ?case using admin_not_rights [of "a\<lparr>as_current_rights_record_id := Some rid\<rparr>"]
    by (auto simp: as_select_revoked_rights_def as_withdrawn_def as_touch_def Let_def split: if_splits)
next
  case (ak_pending rid now a r b)
  then show ?case by (auto simp: as_select_pending_rights_def as_withdrawn_def)
next
  case (ak_unusable rid reason expired now a r b)
  then show ?case using admin_not_rights [of "a\<lparr>as_current_rights_record_id := Some rid\<rparr>"]
    by (auto simp: as_select_unusable_rights_def as_withdrawn_def as_touch_def Let_def split: if_splits)
next
  case (ak_expire now a r b)
  then show ?case by (auto simp: as_expire_rights_def as_withdrawn_def split: if_splits)
next
  case (ak_request why i ver now a g b)
  show ?case
  proof (cases "as_deletion_operation_id a = None")
    case True
    from as_request_new [OF ak_request.hyps True] ak_request.prems show ?thesis
      by (elim conjE) (auto simp: as_withdrawn_def as_touch_def as_deletion_allowed_def)
  next
    case False
    from as_request_same [OF ak_request.hyps False] ak_request.prems show ?thesis by simp
  qed
next
  case (ak_complete g ver now a r b)
  then show ?case by (auto simp: as_complete_deletion_def as_withdrawn_def as_touch_def split: if_splits)
next
  case (ak_cleanup now a r b)
  then show ?case by (auto simp: as_begin_retention_cleanup_def as_withdrawn_def as_touch_def split: if_splits)
next
  case (ak_retention now a r b)
  then show ?case by (auto simp: as_expire_retention_def as_withdrawn_def as_touch_def split: if_splits)
qed

section \<open>A concrete asset\<close>

definition sample_asset :: "asset_state \<Rightarrow> int \<Rightarrow> asset" where
  "sample_asset st v = \<lparr>as_id = ''a'', as_workspace_id = ''ws'', as_retention_class = RC_FOUNDATION,
     as_kind = AK_IMAGE, as_workflow_id = None, as_product_id = None, as_sku_id = None,
     as_status = st, as_block_reason = None, as_current_version_id = ''v'',
     as_retention_deadline = None, as_version = v, as_created_at = utc 0, as_updated_at = utc 0,
     as_current_rights_record_id = None, as_deletion_generation = 0,
     as_deletion_operation_id = None, as_deletion_reason = None, as_deletion_requested_at = None,
     as_deletion_completed_at = None\<rparr>"

lemma sample_asset_created:
  "as_create_quarantined ''a'' ''ws'' RC_FOUNDATION AK_IMAGE None None None ''v'' None (utc 0) =
     Inr (sample_asset AS_QUARANTINED 1)"
  by (simp add: as_create_quarantined_def as_check_def as_check_deletion_def sample_asset_def
      validator_defs class_defs is_token_char_def code_def)

definition sample_record :: rights_record where
  "sample_record = \<lparr>rr_id = ''r'', rr_workspace_id = ''ws'', rr_asset_id = ''a'',
     rr_asset_version_id = None, rr_version_number = 1, rr_decision = GRANT,
     rr_owner_reference = ''o'', rr_source = ''s'', rr_license_reference = ''l'',
     rr_allowed_uses = [''ads''], rr_allowed_providers = [''p''], rr_derivative_allowed = True,
     rr_public_demo_allowed = False, rr_evidence_reference = ''e'', rr_terms_sha256 = replicate 64 (CHR ''0''),
     rr_valid_from = utc 0, rr_valid_until = None, rr_perpetual = True,
     rr_supersedes_record_id = None, rr_created_by = ''u'', rr_created_at = utc 0\<rparr>"

section \<open>Properties\<close>

lemma as_create_ok: "as_create_quarantined i w rt k wi p s v d now = Inr a \<Longrightarrow> as_ok a"
  by (auto simp: as_create_quarantined_def as_ok_def Let_def split: option.splits)

text \<open>C14: assets stay well formed. Whatever sequence of methods runs on a new asset, the result passes
  the check of its own constructor: a block reason exactly while blocked, a complete deletion
  identity exactly after a deletion was requested, a completion time only when deleted.\<close>

theorem as_invariant:
  assumes "as_create_quarantined i w rt k wi p s v d now = Inr a" "as_call\<^sup>*\<^sup>* a b"
  shows "as_check b = None"
  using as_run_ok [OF assms(2) as_create_ok [OF assms(1)]] by (simp add: as_ok_def)

theorem as_invariant_witness:
  "as_check (object_after (as_begin_validation (utc 1) (sample_asset AS_QUARANTINED 1))) = None"
proof -
  have "as_begin_validation (utc 1) (sample_asset AS_QUARANTINED 1) =
      Done () (object_after (as_begin_validation (utc 1) (sample_asset AS_QUARANTINED 1)))"
    by (simp add: as_begin_validation_def as_enter_def sample_asset_def)
  then have "as_call\<^sup>*\<^sup>* (sample_asset AS_QUARANTINED 1)
      (object_after (as_begin_validation (utc 1) (sample_asset AS_QUARANTINED 1)))"
    by (blast intro: ak_begin)
  from as_invariant [OF sample_asset_created this] show ?thesis .
qed

lemma not_revoked: "x \<noteq> REVOKE \<longleftrightarrow> x = GRANT"
  by (cases x) simp_all

lemma usability_of_record_iff:
  "usability_of_record a r v purpose provider derivative now = AUTHORIZED \<longleftrightarrow>
     (rr_asset_version_id r = None \<or> rr_asset_version_id r = Some v) \<and> rr_decision r = GRANT \<and>
     instant (rr_valid_from r) \<le> instant now \<and>
     (\<forall>u. rr_valid_until r = Some u \<longrightarrow> instant now < instant u) \<and>
     as_status a = AS_AVAILABLE \<and> purpose \<in> set (rr_allowed_uses r) \<and>
     provider \<in> set (rr_allowed_providers r) \<and> (derivative \<longrightarrow> rr_derivative_allowed r)"
  by (cases "rr_valid_until r") (auto simp: usability_of_record_def dt_defs not_revoked)

lemma authorized_available:
  assumes "evaluate_current_usability a cur v purpose provider derivative now = Inr d" "ud_authorized d"
  shows "as_status a = AS_AVAILABLE"
proof -
  have "usability_code a cur v purpose provider derivative now = AUTHORIZED"
    using assms by (auto simp: evaluate_current_usability_def decide_usability_def split: option.splits)
  then show ?thesis by (auto simp: usability_code_def usability_of_record_iff split: option.splits if_splits)
qed

text \<open>C15: the usability decision. A use is authorised exactly when the version is the current one, the
  asset is available and within its retention, and its current rights record belongs to it, covers
  this version, is a grant in force at the decision time, allows the purpose and the provider and,
  where one is made, the derivative; otherwise the decision names the first reason that fails.\<close>

theorem usability_authorized_iff:
  assumes "evaluate_current_usability a cur v purpose provider derivative now = Inr d"
  shows "ud_authorized d \<longleftrightarrow>
     v = as_current_version_id a \<and> as_status a = AS_AVAILABLE \<and>
     (\<forall>deadline. as_retention_deadline a = Some deadline \<longrightarrow> instant now < instant deadline) \<and>
     (\<exists>r. cur = Some r \<and> as_current_rights_record_id a = Some (rr_id r) \<and>
        rr_workspace_id r = as_workspace_id a \<and> rr_asset_id r = as_id a \<and>
        (rr_asset_version_id r = None \<or> rr_asset_version_id r = Some v) \<and> rr_decision r = GRANT \<and>
        instant (rr_valid_from r) \<le> instant now \<and>
        (\<forall>u. rr_valid_until r = Some u \<longrightarrow> instant now < instant u) \<and>
        purpose \<in> set (rr_allowed_uses r) \<and> provider \<in> set (rr_allowed_providers r) \<and>
        (derivative \<longrightarrow> rr_derivative_allowed r))"
proof -
  have "ud_authorized d \<longleftrightarrow> usability_code a cur v purpose provider derivative now = AUTHORIZED"
    using assms by (auto simp: evaluate_current_usability_def decide_usability_def split: option.splits)
  also have "\<dots> \<longleftrightarrow> v = as_current_version_id a \<and>
     \<not> (as_status a = AS_BLOCKED \<and> as_block_reason a = Some administratively_blocked) \<and>
     (\<exists>r. cur = Some r \<and> as_current_rights_record_id a = Some (rr_id r) \<and>
        rr_workspace_id r = as_workspace_id a \<and> rr_asset_id r = as_id a \<and>
        (\<forall>deadline. as_retention_deadline a = Some deadline \<longrightarrow> instant now < instant deadline) \<and>
        usability_of_record a r v purpose provider derivative now = AUTHORIZED)"
    by (cases cur) (auto simp: usability_code_def dt_le_def split: option.splits)
  finally show ?thesis by (auto simp: usability_of_record_iff)
qed

lemma sample_token: "is_token ''ads''" "is_token ''p''" "validate_reference 36 ''v'' = None"
  by (simp_all add: class_defs is_token_char_def code_def validate_reference_def strip_def is_space_def)

definition sample_available :: asset where
  "sample_available = (sample_asset AS_AVAILABLE 4)\<lparr>as_current_rights_record_id := Some ''r''\<rparr>"

theorem usability_authorized_iff_witness:
  "\<exists>d. evaluate_current_usability sample_available (Some sample_record) ''v'' ''ads'' ''p'' True (utc 5) = Inr d
     \<and> ud_authorized d"
proof -
  obtain d where d: "evaluate_current_usability sample_available (Some sample_record) ''v'' ''ads'' ''p''
      True (utc 5) = Inr d"
    using sample_token by (simp add: evaluate_current_usability_def)
  then show ?thesis using usability_authorized_iff [OF d]
    by (simp add: sample_available_def sample_asset_def sample_record_def)
qed

text \<open>
  The calls that withdraw an asset. A deletion for expired rights is not among them: it leaves the status
  \<open>RIGHTS_EXPIRED\<close>, and new rights can overtake it until it completes.
\<close>

inductive as_withdraw :: "asset \<Rightarrow> asset \<Rightarrow> bool" where
  wd_block: "as_block administratively_blocked now a = Done r b \<Longrightarrow> as_withdraw a b"
| wd_request: "as_request_deletion why i v now a = Done g b \<Longrightarrow> why \<noteq> DEL_RIGHTS_EXPIRED \<Longrightarrow> as_withdraw a b"
| wd_complete: "as_complete_deletion g v now a = Done r b \<Longrightarrow> as_withdraw a b"
| wd_cleanup: "as_begin_retention_cleanup now a = Done r b \<Longrightarrow> as_withdraw a b"
| wd_retention: "as_expire_retention now a = Done r b \<Longrightarrow> as_withdraw a b"

text \<open>A deletion for another reason has withdrawn the asset, in every state of it.\<close>

definition as_deletion_kept :: "asset \<Rightarrow> bool" where
  "as_deletion_kept a \<longleftrightarrow> (\<forall>why. as_deletion_reason a = Some why \<longrightarrow> as_deletion_operation_id a \<noteq> None \<longrightarrow>
     why \<noteq> DEL_RIGHTS_EXPIRED \<longrightarrow> as_withdrawn a)"

text \<open>The identity of a deletion is written once.\<close>

definition as_deletion_identity :: "asset \<Rightarrow> string option \<times> asset_deletion_reason option \<times> int \<times> string" where
  "as_deletion_identity a =
     (as_deletion_operation_id a, as_deletion_reason a, as_deletion_generation a, as_current_version_id a)"

lemma as_enter_identity: "as_enter target sources now a = Done r b \<Longrightarrow> as_deletion_identity b = as_deletion_identity a"
  by (auto simp: as_enter_def as_deletion_identity_def as_touch_def split: if_splits)

lemma as_call_identity:
  assumes "as_call a b"
  shows "as_deletion_identity b = as_deletion_identity a \<or>
    (as_deletion_operation_id a = None \<and> (\<exists>why i v now g. as_request_deletion why i v now a = Done g b))"
  using assms
proof (cases rule: as_call.cases)
  case (ak_request why i v now g)
  then show ?thesis using as_request_same [OF ak_request]
    by (cases "as_deletion_operation_id a = None") (blast, simp add: as_deletion_identity_def)
qed (auto simp: as_begin_validation_def as_mark_pending_review_def as_mark_pending_rights_def as_fail_validation_def
    as_resume_failed_validation_def as_block_def as_rights_defs as_complete_deletion_def as_begin_retention_cleanup_def
    as_expire_retention_def as_touch_def as_deletion_identity_def [abs_def] dest: as_enter_identity split: if_splits)

lemma as_request_withdraws:
  assumes "as_request_deletion why i v now a = Done g b" "why \<noteq> DEL_RIGHTS_EXPIRED" "as_deletion_kept a"
  shows "as_withdrawn b"
proof (cases "as_deletion_operation_id a = None")
  case True
  from as_request_new [OF assms(1) True] assms(2) show ?thesis
    by (elim conjE) (simp add: as_withdrawn_def as_touch_def)
next
  case False
  from as_request_same [OF assms(1) False] assms(2,3) show ?thesis by (simp add: as_deletion_kept_def)
qed

lemma as_call_deletion_kept: "as_call a b \<Longrightarrow> as_deletion_kept a \<Longrightarrow> as_deletion_kept b"
proof -
  assume c: "as_call a b" and k: "as_deletion_kept a"
  from as_call_identity [OF c] show ?thesis
  proof (elim disjE conjE exE)
    assume "as_deletion_identity b = as_deletion_identity a"
    then show ?thesis using k as_call_withdrawn [OF c]
      by (simp add: as_deletion_kept_def as_deletion_identity_def)
  next
    fix why i v now g
    assume r: "as_request_deletion why i v now a = Done g b" and n: "as_deletion_operation_id a = None"
    have "as_deletion_reason b = Some why" using as_request_new [OF r n] by (elim conjE) (simp add: as_touch_def)
    then show ?thesis using as_request_withdraws [OF r _ k] by (simp add: as_deletion_kept_def)
  qed
qed

lemma as_run_deletion_kept: "as_call\<^sup>*\<^sup>* a b \<Longrightarrow> as_deletion_kept a \<Longrightarrow> as_deletion_kept b"
  by (induction rule: rtranclp_induct) (auto dest: as_call_deletion_kept)

lemma as_created_kept:
  "as_create_quarantined i ws rc k wid p sk v d now = Inr a \<Longrightarrow> as_deletion_kept a \<and> as_deletion_operation_id a = None"
  by (auto simp: as_create_quarantined_def as_deletion_kept_def Let_def split: option.splits)

lemma as_withdraw_withdrawn: "as_withdraw a b \<Longrightarrow> as_deletion_kept a \<Longrightarrow> as_withdrawn b"
proof (induction rule: as_withdraw.induct)
  case (wd_request why i v now a g b)
  then show ?case by (rule as_request_withdraws)
qed (auto simp: as_block_def as_complete_deletion_def as_begin_retention_cleanup_def as_expire_retention_def
    as_withdrawn_def as_touch_def administratively_blocked_def split: if_splits)

text \<open>C16: withdrawal is final. From an administrative block, a deletion (for any reason but expired rights, whose
  deletion counts from its completion) or the end of the retention on, no later sequence of calls, new rights
  included, makes any use of the asset authorised again.\<close>

theorem as_withdrawal_final:
  assumes "as_create_quarantined i ws rc k wid p sk ver deadline created = Inr a0" "as_call\<^sup>*\<^sup>* a0 a"
    and "as_withdraw a b" "as_call\<^sup>*\<^sup>* b c"
    and "evaluate_current_usability c cur v purpose provider derivative now = Inr d"
  shows "as_status c \<noteq> AS_AVAILABLE \<and> \<not> ud_authorized d"
proof -
  have "as_withdrawn b"
    using as_withdraw_withdrawn [OF assms(3)] as_run_deletion_kept [OF assms(2)] as_created_kept [OF assms(1)] by blast
  with assms(4) have "as_withdrawn c" by (induction rule: rtranclp_induct) (auto dest: as_call_withdrawn)
  then have "as_status c \<noteq> AS_AVAILABLE" by (auto simp: as_withdrawn_def)
  then show ?thesis using authorized_available [OF assms(5)] by blast
qed

text \<open>The sample is deleted by an administrator while it is available.\<close>

lemma sample_available_reachable: "as_call\<^sup>*\<^sup>* (sample_asset AS_QUARANTINED 1) sample_available"
proof -
  have "as_call (sample_asset AS_QUARANTINED 1) (sample_asset AS_VALIDATING 2)"
    by (rule ak_begin [of "utc 0" _ "()"]) (simp add: as_begin_validation_def as_enter_def as_touch_def sample_asset_def)
  moreover have "as_call (sample_asset AS_VALIDATING 2) (sample_asset AS_PENDING_RIGHTS 3)"
    by (rule ak_rights [of "utc 0" _ "()"]) (simp add: as_mark_pending_rights_def as_enter_def as_touch_def sample_asset_def)
  moreover have "as_call (sample_asset AS_PENDING_RIGHTS 3) sample_available"
    by (rule ak_available [of "''r''" "utc 0" _ "()"])
      (simp add: as_select_available_rights_def as_touch_def sample_asset_def sample_available_def)
  ultimately show ?thesis by (meson converse_rtranclp_into_rtranclp r_into_rtranclp)
qed

theorem as_withdrawal_final_witness:
  "\<exists>b d. as_request_deletion DEL_ADMINISTRATOR_DELETE ''op'' ''v'' (utc 2) sample_available = Done 1 b \<and>
     evaluate_current_usability b (Some sample_record) ''v'' ''ads'' ''p'' True (utc 5) = Inr d \<and>
     \<not> ud_authorized d"
proof -
  obtain b where b: "as_request_deletion DEL_ADMINISTRATOR_DELETE ''op'' ''v'' (utc 2) sample_available = Done 1 b"
    by (simp add: as_request_deletion_def as_deletion_allowed_def sample_available_def sample_asset_def)
  obtain d where d: "evaluate_current_usability b (Some sample_record) ''v'' ''ads'' ''p'' True (utc 5) = Inr d"
    using sample_token by (simp add: evaluate_current_usability_def)
  show ?thesis
    using b d as_withdrawal_final [OF sample_asset_created sample_available_reachable wd_request [OF b] rtranclp.rtrancl_refl d]
    by blast
qed

text \<open>the deletion fence. A deletion request that succeeded can be repeated with the same operation
  and reason and answers the same generation without a change; any other operation or reason is
  refused, and so is a completion for another generation or another version.\<close>

theorem as_deletion_fence:
  assumes "as_request_deletion why i v now a = Done g b" "0 \<le> as_deletion_generation a"
    and "as_deletion_generation a = 0 \<longrightarrow> as_deletion_operation_id a = None"
  shows "(is_utc later \<longrightarrow> as_request_deletion why i v later b = Done g b)
    \<and> ((why', i') \<noteq> (why, i) \<longrightarrow> (\<exists>e. as_request_deletion why' i' v' later b = Raise e b))
    \<and> ((g', v') \<noteq> (g, v) \<longrightarrow> (\<exists>e. as_complete_deletion g' v' later b = Raise e b))"
proof -
  have f: "0 < g \<and> as_deletion_generation b = g \<and> as_deletion_operation_id b = Some i \<and>
      as_deletion_reason b = Some why \<and> as_current_version_id b = v \<and> i \<noteq> [] \<and> v \<noteq> []"
  proof (cases "as_deletion_operation_id a = None")
    case True
    from as_request_new [OF assms(1) True] assms(1,2) show ?thesis
      by (elim conjE) (simp add: as_touch_def as_request_deletion_def)
  next
    case False
    from as_request_same [OF assms(1) False] assms show ?thesis
      by (auto simp: as_request_deletion_def split: if_splits)
  qed
  show ?thesis
  proof (cases "is_utc later")
    case True
    with f show ?thesis
      by (auto simp: as_request_deletion_def as_complete_deletion_def guard_def)
  next
    case False
    then show ?thesis
      by (simp add: require_utc_fails as_request_deletion_def as_complete_deletion_def)
  qed
qed

theorem as_deletion_fence_witness:
  "\<exists>b. as_request_deletion DEL_ADMINISTRATOR_DELETE ''op'' ''v'' (utc 3) sample_available = Done 1 b \<and>
     as_request_deletion DEL_ADMINISTRATOR_DELETE ''op'' ''v'' (utc 4) b = Done 1 b \<and>
     (\<exists>e. as_complete_deletion 2 ''v'' (utc 5) b = Raise e b)"
proof -
  have z: "as_deletion_generation sample_available = 0" "as_deletion_operation_id sample_available = None"
    by (simp_all add: sample_available_def sample_asset_def)
  obtain b where b: "as_request_deletion DEL_ADMINISTRATOR_DELETE ''op'' ''v'' (utc 3) sample_available = Done 1 b"
    by (simp add: as_request_deletion_def as_deletion_allowed_def sample_available_def sample_asset_def)
  show ?thesis
    using b z as_deletion_fence [OF b, where later = "utc 4"]
      as_deletion_fence [OF b, where later = "utc 5" and g' = 2 and v' = "''v''"] by simp
qed




end
