(* ===== verification/Rounding.thy ===== *)
theory Rounding
  imports Complex_Main
begin

text \<open>
  Correct rounding of an exact rational result, shared by the model of Python's \<open>decimal.Decimal\<close>
  (theory \<open>Decimals\<close>) and of its binary \<open>float\<close> (theory \<open>Floats\<close>): rounding half to even onto the
  multiples of \<open>1 / q\<close>, and the exponent of the leading digit in base \<open>b\<close>.
\<close>

section \<open>Rounding half to even\<close>

definition round_half_even :: "rat \<Rightarrow> int" where
  "round_half_even x =
     (let f = \<lfloor>x\<rfloor>; d = x - of_int f
      in if d < 1 / 2 then f else if 1 / 2 < d then f + 1 else if even f then f else f + 1)"

lemma round_half_even_int [simp]: "round_half_even (of_int n) = n"
  by (simp add: round_half_even_def)

lemma round_half_even_mono:
  assumes "x \<le> y"
  shows "round_half_even x \<le> round_half_even y"
proof -
  have f: "\<lfloor>x\<rfloor> \<le> \<lfloor>y\<rfloor>" using assms by (rule floor_mono)
  show ?thesis
  proof (cases "\<lfloor>x\<rfloor> = \<lfloor>y\<rfloor>")
    case True
    with assms show ?thesis by (auto simp: round_half_even_def Let_def)
  next
    case False
    have "round_half_even x \<le> \<lfloor>x\<rfloor> + 1" by (simp add: round_half_even_def Let_def)
    also have "\<dots> \<le> \<lfloor>y\<rfloor>" using f False by simp
    also have "\<dots> \<le> round_half_even y" by (simp add: round_half_even_def Let_def)
    finally show ?thesis .
  qed
qed

lemma round_half_even_le: "x \<le> of_int n \<Longrightarrow> round_half_even x \<le> n"
  using round_half_even_mono [of x "of_int n"] by simp

lemma round_half_even_ge: "of_int n \<le> x \<Longrightarrow> n \<le> round_half_even x"
  using round_half_even_mono [of "of_int n" x] by simp

lemma round_half_even_nonneg: "0 \<le> x \<Longrightarrow> 0 \<le> round_half_even x"
  using round_half_even_ge [of 0 x] by simp

lemma round_half_even_small:
  assumes "0 \<le> z" "z < 1 / 2"
  shows "round_half_even z = 0"
proof -
  have "\<lfloor>z\<rfloor> = 0" using assms by (simp add: floor_eq_iff)
  with assms show ?thesis by (simp add: round_half_even_def Let_def)
qed

section \<open>Rounding onto a grid\<close>

definition round_to_grid :: "rat \<Rightarrow> rat \<Rightarrow> rat" where
  "round_to_grid q x = of_int (round_half_even (x * q)) / q"

lemma grid_fixed: "0 < q \<Longrightarrow> x * q = of_int k \<Longrightarrow> round_to_grid q x = x"
  by (simp add: round_to_grid_def field_simps)

lemma grid_mono: "0 < q \<Longrightarrow> x \<le> y \<Longrightarrow> round_to_grid q x \<le> round_to_grid q y"
  by (simp add: round_to_grid_def divide_right_mono round_half_even_mono)

lemma grid_le: "0 < q \<Longrightarrow> x \<le> y \<Longrightarrow> y * q = of_int k \<Longrightarrow> round_to_grid q x \<le> y"
  using grid_mono [of q x y] grid_fixed [of q y k] by simp

lemma grid_ge: "0 < q \<Longrightarrow> y \<le> x \<Longrightarrow> y * q = of_int k \<Longrightarrow> y \<le> round_to_grid q x"
  using grid_mono [of q y x] grid_fixed [of q y k] by simp

lemma grid_nonneg: "0 < q \<Longrightarrow> 0 \<le> x \<Longrightarrow> 0 \<le> round_to_grid q x"
  by (simp add: round_to_grid_def round_half_even_nonneg)

text \<open>Between two grids that share a point the rounding is monotone as well.\<close>

lemma grids_mono:
  assumes "0 < q" "0 < r" "x \<le> b" "b \<le> y" "b * q = of_int k" "b * r = of_int l"
  shows "round_to_grid q x \<le> round_to_grid r y"
  using grid_le [OF assms(1,3,5)] grid_ge [OF assms(2,4,6)] by simp

section \<open>The exponent of the leading digit\<close>

fun digits_in :: "nat \<Rightarrow> nat \<Rightarrow> nat" where
  "digits_in b n = (if n = 0 \<or> b \<le> 1 then 0 else Suc (digits_in b (n div b)))"

declare digits_in.simps [simp del]

text \<open>\<open>exponent_in b x\<close> is the \<open>e\<close> with \<open>b ^ e <= |x| < b ^ (e + 1)\<close> (lemma \<open>exponent_in_bounds\<close>).\<close>

definition exponent_in :: "nat \<Rightarrow> rat \<Rightarrow> int" where
  "exponent_in b x =
     (let a = \<bar>x\<bar> in
      if 1 \<le> a then int (digits_in b (nat \<lfloor>a\<rfloor>)) - 1
      else let m = digits_in b (nat \<lfloor>1 / a\<rfloor>) in
        if of_nat b ^ (m - 1) * a = 1 then 1 - int m else - int m)"

lemma digits_in_bounds:
  "1 < b \<Longrightarrow> 0 < n \<Longrightarrow> 0 < digits_in b n \<and> b ^ (digits_in b n - 1) \<le> n \<and> n < b ^ digits_in b n"
proof (induction b n rule: digits_in.induct)
  case (1 b n)
  show ?case
  proof (cases "n div b = 0")
    case True
    then have "n < b" using "1.prems" by (simp add: div_eq_0_iff)
    with True "1.prems" show ?thesis by (simp add: digits_in.simps [of b n] digits_in.simps [of b 0])
  next
    case False
    let ?m = "digits_in b (n div b)"
    have d: "digits_in b n = Suc ?m" using "1.prems" by (simp add: digits_in.simps [of b n])
    have ih: "0 < ?m" "b ^ (?m - 1) \<le> n div b" "n div b < b ^ ?m"
      using "1.IH" "1.prems" False by simp_all
    have "b * b ^ (?m - 1) \<le> b * (n div b)" using ih(2) by simp
    also have "\<dots> \<le> n" by simp
    finally have lo: "b ^ ?m \<le> n" using ih(1) by (simp add: power_eq_if)
    have "n < b * b ^ ?m"
      using ih(3) "1.prems" by (simp add: less_mult_imp_div_less div_less_iff_less_mult mult.commute)
    with lo show ?thesis by (simp add: d)
  qed
qed

lemma digits_in_rat:
  assumes "1 < b" "1 \<le> (a :: rat)"
  shows "0 < digits_in b (nat \<lfloor>a\<rfloor>)" "of_nat b ^ (digits_in b (nat \<lfloor>a\<rfloor>) - 1) \<le> a"
    "a < of_nat b ^ digits_in b (nat \<lfloor>a\<rfloor>)"
proof -
  have f: "0 < nat \<lfloor>a\<rfloor>" "of_nat (nat \<lfloor>a\<rfloor>) \<le> a" "a < of_nat (nat \<lfloor>a\<rfloor>) + 1"
    using assms(2) floor_correct [of a] by (auto simp: le_floor_iff)
  note d = digits_in_bounds [OF assms(1) f(1)]
  show "0 < digits_in b (nat \<lfloor>a\<rfloor>)" using d by simp
  have "(of_nat (b ^ (digits_in b (nat \<lfloor>a\<rfloor>) - 1)) :: rat) \<le> of_nat (nat \<lfloor>a\<rfloor>)"
    using d by (simp only: of_nat_le_iff)
  then show "of_nat b ^ (digits_in b (nat \<lfloor>a\<rfloor>) - 1) \<le> a"
    using f(2) by (simp only: of_nat_power)
  have "nat \<lfloor>a\<rfloor> + 1 \<le> b ^ digits_in b (nat \<lfloor>a\<rfloor>)" using d by simp
  then have "(of_nat (nat \<lfloor>a\<rfloor> + 1) :: rat) \<le> of_nat (b ^ digits_in b (nat \<lfloor>a\<rfloor>))"
    by (simp only: of_nat_le_iff)
  with f show "a < of_nat b ^ digits_in b (nat \<lfloor>a\<rfloor>)" by simp
qed

lemma exponent_in_bounds:
  assumes b: "1 < b" and x: "0 < x"
  shows "of_nat b powi exponent_in b x \<le> x \<and> x < of_nat b powi (exponent_in b x + 1)"
proof (cases "1 \<le> x")
  case True
  note d = digits_in_rat [OF b True]
  then obtain k where k: "digits_in b (nat \<lfloor>x\<rfloor>) = Suc k" by (cases "digits_in b (nat \<lfloor>x\<rfloor>)") auto
  then have "exponent_in b x = int k" using True by (simp add: exponent_in_def)
  with d show ?thesis by (simp add: k power_int_def nat_add_distrib)
next
  case False
  define m where "m = digits_in b (nat \<lfloor>1 / x\<rfloor>)"
  have "1 \<le> 1 / x" using x False by simp
  note d = digits_in_rat [OF b this, folded m_def]
  have B: "(0::rat) < of_nat b ^ n" for n using b by simp
  have lo: "1 / of_nat b ^ m < x"
    using d(3) x B [of m] by (simp add: field_simps)
  have hi: "of_nat b ^ (m - 1) * x \<le> 1"
    using d(2) x by (simp add: field_simps)
  show ?thesis
  proof (cases "of_nat b ^ (m - 1) * x = 1")
    case e: True
    then have ex: "exponent_in b x = - int (m - 1)"
      using False d(1) x by (simp add: exponent_in_def Let_def m_def [symmetric] of_nat_diff)
    have "of_nat b ^ (m - 1) \<noteq> (0 :: rat)" using B [of "m - 1"] by (simp only: less_irrefl not_False_eq_True)
    then have x1: "x = 1 / of_nat b ^ (m - 1)"
      using e by (metis mult.commute nonzero_eq_divide_eq)
    have p: "of_nat b powi (- int (m - 1)) = x"
      by (simp only: power_int_minus power_int_of_nat x1 inverse_eq_divide)
    have "(of_nat b :: rat) \<noteq> 0" using b by simp
    then have "of_nat b powi (- int (m - 1) + 1) = x * of_nat b"
      using power_int_add [of "of_nat b :: rat" "- int (m - 1)" 1] p by simp
    moreover have "x * 1 < x * of_nat b" using x b by (intro mult_strict_left_mono) simp_all
    ultimately show ?thesis unfolding ex p by simp
  next
    case e: False
    then have ex: "exponent_in b x = - int m"
      using False x by (simp add: exponent_in_def Let_def m_def [symmetric])
    have "x < 1 / of_nat b ^ (m - 1)" using e hi B [of "m - 1"] by (simp add: field_simps)
    moreover have "of_nat b powi (- int m + 1) = (1 / of_nat b ^ (m - 1) :: rat)"
    proof -
      have "- int m + 1 = - int (m - 1)" using d(1) by simp
      then show ?thesis by (simp only: power_int_minus power_int_of_nat) (simp add: field_simps)
    qed
    ultimately show ?thesis using lo unfolding ex by (simp add: power_int_minus field_simps)
  qed
qed

end
