(* ===== verification/Decimals.thy ===== *)
theory Decimals
  imports Rounding
begin

text \<open>
  Python's \<open>decimal.Decimal\<close> as the routing code uses it: finite numbers, as rationals, with the
  default context (28 significant digits, \<open>ROUND_HALF_EVEN\<close>). Every arithmetic operation rounds its
  exact result; \<open>quantize\<close> rounds to a fixed number of places. Exponent limits and signed zeros are
  out of the range of the code's values and are not modelled.
\<close>

definition dec_round :: "rat \<Rightarrow> rat" where
  "dec_round x = (if x = 0 then 0 else round_to_grid (10 powi (27 - exponent_in 10 x)) x)"

definition dec_add :: "rat \<Rightarrow> rat \<Rightarrow> rat" where
  "dec_add a b = dec_round (a + b)"

definition dec_sub :: "rat \<Rightarrow> rat \<Rightarrow> rat" where
  "dec_sub a b = dec_round (a - b)"

definition dec_mult :: "rat \<Rightarrow> rat \<Rightarrow> rat" where
  "dec_mult a b = dec_round (a * b)"

definition dec_div :: "rat \<Rightarrow> rat \<Rightarrow> rat" where
  "dec_div a b = dec_round (a / b)"

text \<open>\<open>quantize(Decimal("0.000001"))\<close>\<close>

definition quantize6 :: "rat \<Rightarrow> rat" where
  "quantize6 x = round_to_grid 1000000 x"

text \<open>A number with at most six decimal places.\<close>

definition six_places :: "rat \<Rightarrow> bool" where
  "six_places x \<longleftrightarrow> quantize6 x = x"

section \<open>Rounding stays within exactly representable bounds\<close>

lemma dec_round_nonneg: "0 \<le> x \<Longrightarrow> 0 \<le> dec_round x"
  by (simp add: dec_round_def grid_nonneg)

lemma six_placesD: "six_places y \<Longrightarrow> \<exists>k. y = of_int k / 1000000"
  unfolding six_places_def quantize6_def round_to_grid_def by metis

lemma six_placesI: "six_places (of_int k / 1000000)"
  by (simp add: six_places_def quantize6_def round_to_grid_def)

text \<open>At 27 places below the leading digit a number with six places is a whole number of units.\<close>

lemma scaled_six_places:
  assumes "6 \<le> p"
  shows "(of_int k / 1000000 * 10 powi p :: rat) = of_int (k * 10 ^ nat (p - 6))"
proof -
  have "(10::rat) powi p = 10 powi (int (nat (p - 6)) + int 6)" using assms by simp
  also have "\<dots> = 10 ^ nat (p - 6) * 10 ^ 6"
    by (simp only: power_int_of_nat power_add flip: of_nat_add)
  finally show ?thesis by simp
qed

lemma dec_exponent_le:
  assumes "0 < x" "x < 10 ^ 21"
  shows "exponent_in 10 x \<le> 20"
proof (rule ccontr)
  assume "\<not> exponent_in 10 x \<le> 20"
  then have "(10::rat) powi 21 \<le> 10 powi exponent_in 10 x" by (intro power_int_increasing) simp_all
  also have "\<dots> \<le> x" using exponent_in_bounds [of 10 x] assms(1) by simp
  finally show False using assms(2) by simp
qed

lemma dec_round_grid:
  assumes "0 < x" "x < 10 ^ 21" "six_places y"
  shows "\<exists>k. y * 10 powi (27 - exponent_in 10 x) = of_int k"
proof -
  obtain k where y: "y = of_int k / 1000000" using six_placesD [OF assms(3)] by blast
  have "6 \<le> 27 - exponent_in 10 x" using dec_exponent_le [OF assms(1,2)] by simp
  from scaled_six_places [OF this] show ?thesis unfolding y by blast
qed

lemma dec_round_le:
  assumes "0 \<le> x" "x \<le> y" "y \<le> 1" "six_places y"
  shows "dec_round x \<le> y"
proof (cases "x = 0")
  case False
  then obtain k where "y * 10 powi (27 - exponent_in 10 x) = of_int k"
    using dec_round_grid [of x y] assms by auto
  with False assms(2) show ?thesis by (simp add: dec_round_def grid_le)
qed (use assms in \<open>simp add: dec_round_def\<close>)

text \<open>Amounts with six places and at most 21 digits before the point are exact: no rounding.\<close>

lemma dec_round_exact:
  assumes "0 \<le> x" "x < 10 ^ 21" "six_places x"
  shows "dec_round x = x"
proof (cases "x = 0")
  case False
  then obtain k where "x * 10 powi (27 - exponent_in 10 x) = of_int k"
    using dec_round_grid [of x x] assms by auto
  with False show ?thesis by (simp add: dec_round_def grid_fixed)
qed (simp add: dec_round_def)

lemma quantize6_bounds: "0 \<le> x \<Longrightarrow> x \<le> 1 \<Longrightarrow> 0 \<le> quantize6 x \<and> quantize6 x \<le> 1 \<and> six_places (quantize6 x)"
  using grid_nonneg [of 1000000 x] grid_le [of 1000000 x 1 1000000]
  by (simp add: quantize6_def) (simp add: round_to_grid_def six_placesI)

lemma six_places_add: "six_places a \<Longrightarrow> six_places b \<Longrightarrow> six_places (a + b)"
proof -
  assume "six_places a" "six_places b"
  then obtain k l where "a = of_int k / 1000000" "b = of_int l / 1000000"
    using six_placesD by metis
  then have "a + b = of_int (k + l) / 1000000" by (simp add: add_divide_distrib)
  then show ?thesis by (simp only: six_placesI)
qed

lemma six_places_one: "six_places 1"
  using six_placesI [of 1000000] by simp

text \<open>One weighted term, and a sum of weighted terms, of a score.\<close>

lemma dec_mult_bounds:
  "0 \<le> w \<Longrightarrow> w \<le> 1 \<Longrightarrow> six_places w \<Longrightarrow> 0 \<le> s \<Longrightarrow> s \<le> 1 \<Longrightarrow> 0 \<le> dec_mult w s \<and> dec_mult w s \<le> w"
  unfolding dec_mult_def by (intro conjI dec_round_nonneg dec_round_le) (auto simp: mult_left_le)

lemma dec_add_bounds:
  "0 \<le> a \<Longrightarrow> a \<le> v \<Longrightarrow> 0 \<le> b \<Longrightarrow> b \<le> w \<Longrightarrow> v + w \<le> 1 \<Longrightarrow> six_places v \<Longrightarrow> six_places w \<Longrightarrow>
     0 \<le> dec_add a b \<and> dec_add a b \<le> v + w"
  unfolding dec_add_def by (intro conjI dec_round_nonneg dec_round_le) (auto intro: six_places_add)

lemma dec_add_exact:
  "0 \<le> a \<Longrightarrow> 0 \<le> b \<Longrightarrow> a + b < 10 ^ 21 \<Longrightarrow> six_places a \<Longrightarrow> six_places b \<Longrightarrow> dec_add a b = a + b"
  unfolding dec_add_def by (intro dec_round_exact) (auto intro: six_places_add)

text \<open>A sum of fractions does not round either.\<close>

lemma foldl_dec_add_exact:
  assumes "0 \<le> a" "six_places a" "a + of_nat (length ws) < 10 ^ 21"
    and "\<forall>w \<in> set ws. 0 \<le> w \<and> w \<le> 1 \<and> six_places w"
  shows "foldl dec_add a ws = a + sum_list ws"
  using assms
proof (induction ws arbitrary: a)
  case (Cons w ws)
  have e: "dec_add a w = a + w" using Cons.prems by (intro dec_add_exact) auto
  have "foldl dec_add (a + w) ws = (a + w) + sum_list ws"
    using Cons.prems by (intro Cons.IH) (auto intro: six_places_add)
  then show ?case by (simp add: e)
qed simp

lemma six_places_zero [simp]: "six_places 0"
  using six_placesI [of 0] by simp

text \<open>Adding up terms, each at most its weight, stays below the sum of the weights.\<close>

lemma foldl_dec_add_bounds:
  assumes "list_all2 (\<lambda>a w. 0 \<le> a \<and> a \<le> w \<and> six_places w) as ws"
    and "0 \<le> b" "b \<le> v" "six_places v" "v + sum_list ws \<le> 1"
  shows "0 \<le> foldl dec_add b as \<and> foldl dec_add b as \<le> v + sum_list ws"
  using assms
proof (induction as ws arbitrary: b v rule: list_all2_induct)
  case (Cons a as w ws)
  have "0 \<le> sum_list ws"
    using Cons.hyps(2) by (induction as ws rule: list_all2_induct) auto
  then have s: "0 \<le> dec_add b a \<and> dec_add b a \<le> v + w"
    using Cons by (intro dec_add_bounds) auto
  have "0 \<le> foldl dec_add (dec_add b a) as \<and> foldl dec_add (dec_add b a) as \<le> (v + w) + sum_list ws"
    using Cons s by (intro Cons.IH) (auto intro: six_places_add simp: add.assoc)
  then show ?case by (simp add: add.assoc)
qed simp

end
