(* ===== verification/Provider_Routing.thy ===== *)
theory Provider_Routing
  imports Identity Decimals
    "HOL-Library.List_Lexorder" "HOL-Library.Char_ord" "HOL-Library.Product_Lexorder"
begin

text \<open>
  Model routing: the validated values of \<open>provider_routing.py\<close> (endpoint capability versions, route
  requests, policies, observations, decisions) and the selection of \<open>_model_route_selection.py\<close>.
  A \<open>frozenset\<close> is a list whose order and repetitions do not matter; amounts and scores are
  \<open>Decimal\<close> values (theory \<open>Decimals\<close>). The hash of a request, a SHA-256 over its canonical JSON, is
  an argument of the selection.
\<close>

section \<open>Enumerations\<close>

datatype image_role = MAIN | HERO | SCENE | DETAIL | SELLING_POINT

datatype provider_capability = PC_PLAN | PC_VISION | PC_IMAGE_GENERATION | PC_IMAGE_EDITING

datatype provider_execution_mode = EM_SYNC | EM_ASYNC

datatype provider_data_retention_mode = DRM_NONE | DRM_BOUNDED | DRM_UNKNOWN

datatype provider_training_use_policy = TU_PROHIBITED | TU_PERMITTED | TU_UNKNOWN

datatype provider_protocol =
    OPENAI_IMAGES_JSON | OPENAI_IMAGES_MULTIPART | WAN_ASYNC_JSON | QWEN_CHAT_JSON

datatype provider_pricing_unit = PU_IMAGE | PU_INPUT_TOKEN | PU_OUTPUT_TOKEN

datatype circuit_state = CS_CLOSED | CS_OPEN | CS_HALF_OPEN

datatype rejection_code =
    NO_CURRENT_CAPABILITY | ENDPOINT_DISABLED | CAPABILITY_MISMATCH | EXECUTION_MODE_MISMATCH
  | QUERY_UNSUPPORTED | PROVIDER_NOT_ALLOWED | REGION_NOT_ALLOWED | CURRENCY_MISMATCH
  | BUDGET_EXCEEDED | OBSERVATION_MISSING | OBSERVATION_STALE | CIRCUIT_OPEN | QUOTA_EXHAUSTED
  | CATEGORY_NOT_ALLOWED | IMAGE_ROLE_NOT_ALLOWED | FORMAT_UNSUPPORTED | SIZE_UNSUPPORTED
  | CANDIDATE_COUNT_EXCEEDED | SAFETY_POLICY_MISMATCH | DATA_REGION_NOT_ALLOWED
  | RETENTION_POLICY_UNKNOWN | RETENTION_EXCEEDED | TRAINING_POLICY_UNKNOWN
  | TRAINING_USE_NOT_ALLOWED | PROTOCOL_MISMATCH | REFERENCE_IMAGES_UNSUPPORTED
  | MASK_UNSUPPORTED | SEED_UNSUPPORTED | LORA_UNSUPPORTED | REQUEST_TOO_LARGE
  | RESULT_LIMIT_UNSUPPORTED

fun rejection_value :: "rejection_code \<Rightarrow> string" where
  "rejection_value NO_CURRENT_CAPABILITY = ''NO_CURRENT_CAPABILITY''"
| "rejection_value ENDPOINT_DISABLED = ''ENDPOINT_DISABLED''"
| "rejection_value CAPABILITY_MISMATCH = ''CAPABILITY_MISMATCH''"
| "rejection_value EXECUTION_MODE_MISMATCH = ''EXECUTION_MODE_MISMATCH''"
| "rejection_value QUERY_UNSUPPORTED = ''QUERY_UNSUPPORTED''"
| "rejection_value PROVIDER_NOT_ALLOWED = ''PROVIDER_NOT_ALLOWED''"
| "rejection_value REGION_NOT_ALLOWED = ''REGION_NOT_ALLOWED''"
| "rejection_value CURRENCY_MISMATCH = ''CURRENCY_MISMATCH''"
| "rejection_value BUDGET_EXCEEDED = ''BUDGET_EXCEEDED''"
| "rejection_value OBSERVATION_MISSING = ''OBSERVATION_MISSING''"
| "rejection_value OBSERVATION_STALE = ''OBSERVATION_STALE''"
| "rejection_value CIRCUIT_OPEN = ''CIRCUIT_OPEN''"
| "rejection_value QUOTA_EXHAUSTED = ''QUOTA_EXHAUSTED''"
| "rejection_value CATEGORY_NOT_ALLOWED = ''CATEGORY_NOT_ALLOWED''"
| "rejection_value IMAGE_ROLE_NOT_ALLOWED = ''IMAGE_ROLE_NOT_ALLOWED''"
| "rejection_value FORMAT_UNSUPPORTED = ''FORMAT_UNSUPPORTED''"
| "rejection_value SIZE_UNSUPPORTED = ''SIZE_UNSUPPORTED''"
| "rejection_value CANDIDATE_COUNT_EXCEEDED = ''CANDIDATE_COUNT_EXCEEDED''"
| "rejection_value SAFETY_POLICY_MISMATCH = ''SAFETY_POLICY_MISMATCH''"
| "rejection_value DATA_REGION_NOT_ALLOWED = ''DATA_REGION_NOT_ALLOWED''"
| "rejection_value RETENTION_POLICY_UNKNOWN = ''RETENTION_POLICY_UNKNOWN''"
| "rejection_value RETENTION_EXCEEDED = ''RETENTION_EXCEEDED''"
| "rejection_value TRAINING_POLICY_UNKNOWN = ''TRAINING_POLICY_UNKNOWN''"
| "rejection_value TRAINING_USE_NOT_ALLOWED = ''TRAINING_USE_NOT_ALLOWED''"
| "rejection_value PROTOCOL_MISMATCH = ''PROTOCOL_MISMATCH''"
| "rejection_value REFERENCE_IMAGES_UNSUPPORTED = ''REFERENCE_IMAGES_UNSUPPORTED''"
| "rejection_value MASK_UNSUPPORTED = ''MASK_UNSUPPORTED''"
| "rejection_value SEED_UNSUPPORTED = ''SEED_UNSUPPORTED''"
| "rejection_value LORA_UNSUPPORTED = ''LORA_UNSUPPORTED''"
| "rejection_value REQUEST_TOO_LARGE = ''REQUEST_TOO_LARGE''"
| "rejection_value RESULT_LIMIT_UNSUPPORTED = ''RESULT_LIMIT_UNSUPPORTED''"

lemma rejection_value_inj: "rejection_value a = rejection_value b \<Longrightarrow> a = b"
  by (cases a; cases b; simp)

text \<open>The members of a \<open>StrEnum\<close> are strings and compare by their values.\<close>

instantiation rejection_code :: linorder
begin

definition less_eq_rejection_code :: "rejection_code \<Rightarrow> rejection_code \<Rightarrow> bool" where
  "a \<le> b \<longleftrightarrow> rejection_value a \<le> rejection_value b"

definition less_rejection_code :: "rejection_code \<Rightarrow> rejection_code \<Rightarrow> bool" where
  "a < b \<longleftrightarrow> rejection_value a < rejection_value b"

instance
  by standard (auto simp: less_eq_rejection_code_def less_rejection_code_def intro: rejection_value_inj)

end

datatype failover_cause =
    SAFE_PRE_DISPATCH_FAILURE | CONFIRMED_RETRYABLE_FAILURE | CONTENT_REJECTION | POLICY_DENIAL
  | INVALID_INPUT | UNKNOWN_OUTCOME

section \<open>Validators\<close>

definition is_lower_alnum :: "char \<Rightarrow> bool" where
  "is_lower_alnum c \<longleftrightarrow> is_digit c \<or> between 97 122 c"

fun split_on :: "char \<Rightarrow> string \<Rightarrow> string list" where
  "split_on sep [] = [[]]"
| "split_on sep (c # cs) =
     (if c = sep then [] # split_on sep cs
      else case split_on sep cs of
             [] \<Rightarrow> [[c]]
           | w # ws \<Rightarrow> (c # w) # ws)"

text \<open>\<open>^[a-z0-9](?:[a-z0-9-]{0,61}[a-z0-9])?$\<close>\<close>

definition is_host_label :: "string \<Rightarrow> bool" where
  "is_host_label l \<longleftrightarrow> l \<noteq> [] \<and> length l \<le> 63 \<and> is_lower_alnum (hd l) \<and> is_lower_alnum (last l) \<and>
     list_all (\<lambda>c. is_lower_alnum c \<or> c = CHR ''-'') l"

definition validate_host :: "string \<Rightarrow> error option" where
  "validate_host v = guard (v \<noteq> lower v \<or> 253 < length v \<or> CHR ''.'' \<notin> set v \<or>
     \<not> list_all is_host_label (split_on (CHR ''.'') v)) ValueError"

text \<open>\<open>^[a-z0-9][a-z0-9.+-]{0,63}/[a-z0-9][a-z0-9.+-]{0,63}$\<close>\<close>

definition is_mime_part :: "string \<Rightarrow> bool" where
  "is_mime_part p \<longleftrightarrow> p \<noteq> [] \<and> length p \<le> 64 \<and> is_lower_alnum (hd p) \<and>
     list_all (\<lambda>c. is_lower_alnum c \<or> c \<in> set ''.+-'') p"

definition is_mime :: "string \<Rightarrow> bool" where
  "is_mime v \<longleftrightarrow>
     (case split_on (CHR ''/'') v of [a, b] \<Rightarrow> is_mime_part a \<and> is_mime_part b | _ \<Rightarrow> False)"

definition is_secret_reference :: "string \<Rightarrow> bool" where
  "is_secret_reference v \<longleftrightarrow> take 11 v = ''secret-ref:'' \<and> is_token (drop 11 v) \<and> length v \<le> 128"

definition is_currency :: "string \<Rightarrow> bool" where
  "is_currency v \<longleftrightarrow> length v = 3 \<and> list_all (between 65 90) v"

definition max_money :: rat where
  "max_money = 99999999999999999999 / 1000000"

definition is_money :: "rat \<Rightarrow> bool" where
  "is_money v \<longleftrightarrow> 0 \<le> v \<and> v \<le> max_money \<and> six_places v"

definition validate_money :: "rat \<Rightarrow> error option" where
  "validate_money v = guard (\<not> is_money v) ValueError"

definition validate_weight :: "rat \<Rightarrow> error option" where
  "validate_weight v = guards [validate_money v, guard (1 < v) ValueError]"

definition validate_permission_set :: "string list \<Rightarrow> error option" where
  "validate_permission_set vs = guards
     [guard (vs = [] \<or> 128 < length (remdups vs)) ValueError,
      guard (\<not> list_all is_token vs) ValueError]"

definition validate_range :: "int \<Rightarrow> int \<Rightarrow> int \<Rightarrow> error option" where
  "validate_range lo hi v = guard (\<not> (lo \<le> v \<and> v \<le> hi)) ValueError"

section \<open>Endpoint capability versions\<close>

record endpoint_capability =
  ec_id :: string
  ec_provider_id :: string
  ec_endpoint_id :: string
  ec_version_number :: int
  ec_endpoint_host :: string
  ec_endpoint_region :: string
  ec_model_family :: string
  ec_model_id :: string
  ec_model_revision :: string
  ec_adapter_version :: string
  ec_configuration_sha256 :: string
  ec_capabilities :: "provider_capability list"
  ec_protocol :: provider_protocol
  ec_execution_mode :: provider_execution_mode
  ec_supports_query :: bool
  ec_supports_cancel :: bool
  ec_supports_provider_idempotency :: bool
  ec_allowed_categories :: "string list"
  ec_allowed_image_roles :: "image_role list"
  ec_output_formats :: "string list"
  ec_minimum_width :: int
  ec_maximum_width :: int
  ec_minimum_height :: int
  ec_maximum_height :: int
  ec_maximum_candidates :: int
  ec_safety_policy_version :: string
  ec_data_region :: string
  ec_data_retention_mode :: provider_data_retention_mode
  ec_maximum_retention_days :: int
  ec_training_use_policy :: provider_training_use_policy
  ec_secret_reference :: string
  ec_maximum_reference_images :: int
  ec_supports_mask :: bool
  ec_supports_seed :: bool
  ec_supports_lora :: bool
  ec_maximum_request_bytes :: int
  ec_maximum_result_bytes :: int
  ec_pricing_unit :: provider_pricing_unit
  ec_enabled :: bool
  ec_unit_price :: rat
  ec_currency :: string
  ec_created_at :: datetime

definition ec_check_identity :: "endpoint_capability \<Rightarrow> error option" where
  "ec_check_identity c = guards
     [validate_uuid (ec_id c),
      validate_token (ec_provider_id c),
      validate_token (ec_endpoint_id c),
      validate_token (ec_endpoint_region c),
      validate_token (ec_model_family c),
      validate_token (ec_model_id c),
      validate_token (ec_model_revision c),
      validate_token (ec_adapter_version c),
      validate_range 1 1000000 (ec_version_number c),
      validate_host (ec_endpoint_host c),
      validate_sha256 (ec_configuration_sha256 c),
      guard (ec_capabilities c = []) ValueError,
      guard (ec_execution_mode c = EM_SYNC \<and> (ec_supports_query c \<or> ec_supports_cancel c)) ValueError]"

definition ec_check_limits :: "endpoint_capability \<Rightarrow> error option" where
  "ec_check_limits c = guards
     [validate_permission_set (ec_allowed_categories c),
      guard (ec_allowed_image_roles c = []) ValueError,
      guard (ec_output_formats c = [] \<or> 16 < length (remdups (ec_output_formats c)) \<or>
        \<not> list_all is_mime (ec_output_formats c)) ValueError,
      validate_range 1 16384 (ec_minimum_width c),
      validate_range 1 16384 (ec_maximum_width c),
      validate_range 1 16384 (ec_minimum_height c),
      validate_range 1 16384 (ec_maximum_height c),
      guard (ec_maximum_width c < ec_minimum_width c \<or> ec_maximum_height c < ec_minimum_height c)
        ValueError,
      validate_range 1 16 (ec_maximum_candidates c)]"

definition ec_check_policy :: "endpoint_capability \<Rightarrow> error option" where
  "ec_check_policy c = guards
     [validate_token (ec_safety_policy_version c),
      validate_token (ec_data_region c),
      validate_range 0 3650 (ec_maximum_retention_days c),
      guard (ec_data_retention_mode c = DRM_NONE \<and> ec_maximum_retention_days c \<noteq> 0) ValueError,
      guard (ec_data_retention_mode c = DRM_BOUNDED \<and> ec_maximum_retention_days c = 0) ValueError,
      guard (\<not> is_secret_reference (ec_secret_reference c)) ValueError,
      validate_range 0 16 (ec_maximum_reference_images c),
      guard (ec_supports_mask c \<and> (PC_IMAGE_EDITING \<notin> set (ec_capabilities c) \<or>
        ec_maximum_reference_images c < 1)) ValueError,
      validate_range 1 1073741824 (ec_maximum_request_bytes c),
      validate_range 1 1073741824 (ec_maximum_result_bytes c),
      validate_money (ec_unit_price c),
      guard (\<not> is_currency (ec_currency c)) ValueError,
      require_utc (ec_created_at c)]"

definition ec_check :: "endpoint_capability \<Rightarrow> error option" where
  "ec_check c = guards [ec_check_identity c, ec_check_limits c, ec_check_policy c]"

section \<open>Route requests\<close>

record route_request =
  rq_workspace_id :: string
  rq_workflow_id :: string
  rq_creative_plan_version_id :: string
  rq_plan_approval_id :: string
  rq_required_capability :: provider_capability
  rq_allowed_providers :: "string list"
  rq_allowed_endpoint_regions :: "string list"
  rq_maximum_cost :: rat
  rq_currency :: string
  rq_route_policy_version :: string
  rq_deadline_at :: datetime
  rq_required_execution_mode :: provider_execution_mode
  rq_requires_query :: bool
  rq_required_quota_units :: int
  rq_product_category :: string
  rq_image_role :: image_role
  rq_required_output_format :: string
  rq_width :: int
  rq_height :: int
  rq_candidate_count :: int
  rq_required_safety_policy_version :: string
  rq_allowed_data_regions :: "string list"
  rq_maximum_retention_days :: int
  rq_allow_training_use :: bool
  rq_required_protocol :: provider_protocol
  rq_reference_image_count :: int
  rq_authorized_asset_version_ids :: "string list"
  rq_requires_mask :: bool
  rq_requires_seed :: bool
  rq_requires_lora :: bool
  rq_estimated_request_bytes :: int
  rq_required_result_byte_limit :: int

definition rq_check_scope :: "route_request \<Rightarrow> error option" where
  "rq_check_scope q = guards
     [validate_workspace_id (rq_workspace_id q),
      validate_uuid (rq_workflow_id q),
      validate_uuid (rq_creative_plan_version_id q),
      validate_uuid (rq_plan_approval_id q),
      validate_permission_set (rq_allowed_providers q),
      validate_permission_set (rq_allowed_endpoint_regions q),
      validate_money (rq_maximum_cost q),
      guard (\<not> is_currency (rq_currency q)) ValueError,
      validate_token (rq_route_policy_version q),
      require_utc (rq_deadline_at q),
      guard (rq_required_execution_mode q = EM_SYNC \<and> rq_requires_query q) ValueError,
      validate_range 1 1000000 (rq_required_quota_units q)]"

definition rq_check_content :: "route_request \<Rightarrow> error option" where
  "rq_check_content q = guards
     [validate_token (rq_product_category q),
      guard (\<not> is_mime (rq_required_output_format q)) ValueError,
      validate_range 1 16384 (rq_width q),
      validate_range 1 16384 (rq_height q),
      validate_range 1 16 (rq_candidate_count q),
      validate_token (rq_required_safety_policy_version q),
      validate_permission_set (rq_allowed_data_regions q),
      validate_range 0 3650 (rq_maximum_retention_days q),
      validate_range 0 16 (rq_reference_image_count q),
      guard (int (length (rq_authorized_asset_version_ids q)) \<noteq> rq_reference_image_count q \<or>
        \<not> distinct (rq_authorized_asset_version_ids q)) ValueError,
      guards (map validate_uuid (rq_authorized_asset_version_ids q)),
      guard (rq_requires_mask q \<and> (rq_required_capability q \<noteq> PC_IMAGE_EDITING \<or>
        rq_reference_image_count q < 1)) ValueError,
      validate_range 1 1073741824 (rq_estimated_request_bytes q),
      validate_range 1 1073741824 (rq_required_result_byte_limit q)]"

definition rq_check :: "route_request \<Rightarrow> error option" where
  "rq_check q = guards [rq_check_scope q, rq_check_content q]"

section \<open>Policies and observations\<close>

record route_policy =
  rp_version :: string
  rp_quality_weight :: rat
  rp_availability_weight :: rat
  rp_latency_weight :: rat
  rp_quota_weight :: rat
  rp_price_weight :: rat
  rp_maximum_observation_age_seconds :: int

definition rp_weights :: "route_policy \<Rightarrow> rat list" where
  "rp_weights p = [rp_quality_weight p, rp_availability_weight p, rp_latency_weight p,
     rp_quota_weight p, rp_price_weight p]"

definition rp_check :: "route_policy \<Rightarrow> error option" where
  "rp_check p = guards
     [validate_token (rp_version p),
      guards (map validate_weight (rp_weights p)),
      guard (foldl dec_add 0 (rp_weights p) \<noteq> 1) ValueError,
      validate_range 1 86400 (rp_maximum_observation_age_seconds p)]"

record route_observation =
  ro_endpoint_id :: string
  ro_quality_score :: rat
  ro_availability_score :: rat
  ro_latency_score :: rat
  ro_quota_score :: rat
  ro_circuit_state :: circuit_state
  ro_remaining_quota_units :: int
  ro_observed_at :: datetime

definition ro_check :: "route_observation \<Rightarrow> error option" where
  "ro_check ob = guards
     [validate_uuid (ro_endpoint_id ob),
      validate_weight (ro_quality_score ob),
      validate_weight (ro_availability_score ob),
      validate_weight (ro_latency_score ob),
      validate_weight (ro_quota_score ob),
      validate_range 0 1000000000 (ro_remaining_quota_units ob),
      require_utc (ro_observed_at ob)]"

section \<open>Candidate scores and decisions\<close>

record candidate_score =
  cs_endpoint_id :: string
  cs_score :: rat

definition cs_check :: "candidate_score \<Rightarrow> error option" where
  "cs_check k = guards
     [validate_uuid (cs_endpoint_id k),
      validate_weight (cs_score k),
      guard (\<not> six_places (cs_score k)) ValueError]"

record route_decision =
  rd_endpoint_id :: string
  rd_fallback_ids :: "string list"
  rd_route_policy_version :: string
  rd_request_sha256 :: string
  rd_candidate_scores :: "candidate_score list"
  rd_rejection_counts :: "(rejection_code \<times> int) list"
  rd_decided_at :: datetime

definition max_endpoints :: nat where
  "max_endpoints = 128"

definition rd_route :: "route_decision \<Rightarrow> string list" where
  "rd_route d = rd_endpoint_id d # rd_fallback_ids d"

definition rd_check :: "route_decision \<Rightarrow> error option" where
  "rd_check d = guards
     [validate_uuid (rd_endpoint_id d),
      guard (max_endpoints \<le> length (rd_fallback_ids d)) ValueError,
      guards (map validate_uuid (rd_fallback_ids d)),
      guard (\<not> distinct (rd_fallback_ids d)) ValueError,
      guard (rd_endpoint_id d \<in> set (rd_fallback_ids d)) ValueError,
      validate_token (rd_route_policy_version d),
      validate_sha256 (rd_request_sha256 d),
      guard (rd_candidate_scores d = []) ValueError,
      guard (map cs_endpoint_id (rd_candidate_scores d) \<noteq> rd_route d) ValueError,
      guard (sort_key fst (rd_rejection_counts d) \<noteq> rd_rejection_counts d) ValueError,
      guard (list_ex (\<lambda>(code, n). n < 1) (rd_rejection_counts d)) ValueError,
      guard (\<not> distinct (map fst (rd_rejection_counts d))) ValueError,
      require_utc (rd_decided_at d)]"

text \<open>
  \<open>next_fallback\<close>: the attempted endpoints must be a non-empty prefix of the route; the next one
  is given only for the two causes that are safe to retry elsewhere.
\<close>

definition safe_to_fail_over :: "failover_cause \<Rightarrow> bool" where
  "safe_to_fail_over cause \<longleftrightarrow> cause \<in> {SAFE_PRE_DISPATCH_FAILURE, CONFIRMED_RETRYABLE_FAILURE}"

definition next_fallback :: "failover_cause \<Rightarrow> string list \<Rightarrow> route_decision \<Rightarrow> error + string option" where
  "next_fallback cause attempted d =
     (if attempted = [] \<or> attempted \<noteq> take (length attempted) (rd_route d) then Inl ValueError
      else if \<not> safe_to_fail_over cause then Inr None
      else Inr (find (\<lambda>e. e \<notin> set attempted) (rd_route d)))"

section \<open>Selection\<close>

definition estimated_cost :: "endpoint_capability \<Rightarrow> route_request \<Rightarrow> rat" where
  "estimated_cost c q = dec_mult (ec_unit_price c)
     (of_int (if ec_pricing_unit c = PU_IMAGE then rq_candidate_count q else rq_required_quota_units q))"

text \<open>
  \<open>now - observed_at\<close> of two aware instants is the difference of the instants; \<open>now\<close> and
  \<open>observed_at\<close> are checked to be UTC before this point.
\<close>

definition observation_stale :: "route_policy \<Rightarrow> datetime \<Rightarrow> route_observation \<Rightarrow> bool" where
  "observation_stale p now ob \<longleftrightarrow>
     \<not> (0 \<le> instant now - instant (ro_observed_at ob) \<and>
        instant now - instant (ro_observed_at ob) \<le> rp_maximum_observation_age_seconds p * 1000000)"

definition on_observation :: "route_observation option \<Rightarrow> (route_observation \<Rightarrow> bool) \<Rightarrow> bool" where
  "on_observation ob bad \<longleftrightarrow> (case ob of None \<Rightarrow> False | Some x \<Rightarrow> bad x)"

definition route_checks ::
  "route_request \<Rightarrow> route_policy \<Rightarrow> route_observation option \<Rightarrow> datetime \<Rightarrow> endpoint_capability \<Rightarrow>
     (bool \<times> rejection_code) list" where
  "route_checks q p ob now c =
     [(\<not> ec_enabled c, ENDPOINT_DISABLED),
      (rq_required_capability q \<notin> set (ec_capabilities c), CAPABILITY_MISMATCH),
      (ec_execution_mode c \<noteq> rq_required_execution_mode q, EXECUTION_MODE_MISMATCH),
      (rq_requires_query q \<and> \<not> ec_supports_query c, QUERY_UNSUPPORTED),
      (ec_provider_id c \<notin> set (rq_allowed_providers q), PROVIDER_NOT_ALLOWED),
      (ec_endpoint_region c \<notin> set (rq_allowed_endpoint_regions q), REGION_NOT_ALLOWED),
      (ec_currency c \<noteq> rq_currency q, CURRENCY_MISMATCH),
      (estimated_cost c q > rq_maximum_cost q, BUDGET_EXCEEDED),
      (ob = None, OBSERVATION_MISSING),
      (on_observation ob (observation_stale p now), OBSERVATION_STALE),
      (on_observation ob (\<lambda>x. ro_circuit_state x \<noteq> CS_CLOSED), CIRCUIT_OPEN),
      (on_observation ob (\<lambda>x. ro_remaining_quota_units x < rq_required_quota_units q), QUOTA_EXHAUSTED),
      (rq_product_category q \<notin> set (ec_allowed_categories c), CATEGORY_NOT_ALLOWED),
      (rq_image_role q \<notin> set (ec_allowed_image_roles c), IMAGE_ROLE_NOT_ALLOWED),
      (rq_required_output_format q \<notin> set (ec_output_formats c), FORMAT_UNSUPPORTED),
      (\<not> (ec_minimum_width c \<le> rq_width q \<and> rq_width q \<le> ec_maximum_width c \<and>
          ec_minimum_height c \<le> rq_height q \<and> rq_height q \<le> ec_maximum_height c), SIZE_UNSUPPORTED),
      (rq_candidate_count q > ec_maximum_candidates c, CANDIDATE_COUNT_EXCEEDED),
      (rq_required_safety_policy_version q \<noteq> ec_safety_policy_version c, SAFETY_POLICY_MISMATCH),
      (ec_data_region c \<notin> set (rq_allowed_data_regions q), DATA_REGION_NOT_ALLOWED),
      (ec_data_retention_mode c = DRM_UNKNOWN, RETENTION_POLICY_UNKNOWN),
      (ec_maximum_retention_days c > rq_maximum_retention_days q, RETENTION_EXCEEDED),
      (ec_training_use_policy c = TU_UNKNOWN, TRAINING_POLICY_UNKNOWN),
      (\<not> rq_allow_training_use q \<and> ec_training_use_policy c = TU_PERMITTED, TRAINING_USE_NOT_ALLOWED),
      (ec_protocol c \<noteq> rq_required_protocol q, PROTOCOL_MISMATCH),
      (rq_reference_image_count q > ec_maximum_reference_images c, REFERENCE_IMAGES_UNSUPPORTED),
      (rq_requires_mask q \<and> \<not> ec_supports_mask c, MASK_UNSUPPORTED),
      (rq_requires_seed q \<and> \<not> ec_supports_seed c, SEED_UNSUPPORTED),
      (rq_requires_lora q \<and> \<not> ec_supports_lora c, LORA_UNSUPPORTED),
      (rq_estimated_request_bytes q > ec_maximum_request_bytes c, REQUEST_TOO_LARGE),
      (rq_required_result_byte_limit q > ec_maximum_result_bytes c, RESULT_LIMIT_UNSUPPORTED)]"

definition rejection_for ::
  "route_request \<Rightarrow> route_policy \<Rightarrow> route_observation option \<Rightarrow> datetime \<Rightarrow> endpoint_capability \<Rightarrow>
     rejection_code option" where
  "rejection_for q p ob now c = map_option snd (find fst (route_checks q p ob now c))"

definition price_score :: "endpoint_capability \<Rightarrow> route_request \<Rightarrow> rat" where
  "price_score c q =
     (if rq_maximum_cost q = 0 then 1 else dec_sub 1 (dec_div (estimated_cost c q) (rq_maximum_cost q)))"

definition route_score ::
  "route_request \<Rightarrow> route_policy \<Rightarrow> route_observation \<Rightarrow> endpoint_capability \<Rightarrow> rat" where
  "route_score q p ob c =
     dec_add (dec_add (dec_add (dec_add
       (dec_mult (rp_quality_weight p) (ro_quality_score ob))
       (dec_mult (rp_availability_weight p) (ro_availability_score ob)))
       (dec_mult (rp_latency_weight p) (ro_latency_score ob)))
       (dec_mult (rp_quota_weight p) (ro_quota_score ob)))
       (dec_mult (rp_price_weight p) (price_score c q))"

text \<open>\<open>counts[rejection] = counts.get(rejection, 0) + 1\<close> on a dict in insertion order.\<close>

fun count_rejection :: "rejection_code \<Rightarrow> (rejection_code \<times> int) list \<Rightarrow> (rejection_code \<times> int) list" where
  "count_rejection r [] = [(r, 1)]"
| "count_rejection r ((k, n) # rest) = (if k = r then (k, n + 1) # rest else (k, n) # count_rejection r rest)"

fun rejection_counts_from ::
  "(rejection_code \<times> int) list \<Rightarrow> rejection_code option list \<Rightarrow> (rejection_code \<times> int) list" where
  "rejection_counts_from counts [] = counts"
| "rejection_counts_from counts (None # rs) = rejection_counts_from counts rs"
| "rejection_counts_from counts (Some r # rs) = rejection_counts_from (count_rejection r counts) rs"

text \<open>The dict of the observations: of two with the same key the later would win.\<close>

definition observation_of :: "route_observation list \<Rightarrow> string \<Rightarrow> route_observation option" where
  "observation_of obs e = map_of (rev (map (\<lambda>ob. (ro_endpoint_id ob, ob)) obs)) e"

text \<open>
  The quantized score of an eligible capability; its observation is in the dict (an eligible
  capability has one, lemma \<open>eligible_observed\<close> of \<open>Routing_Facts\<close>).
\<close>

definition endpoint_score ::
  "route_request \<Rightarrow> route_policy \<Rightarrow> route_observation list \<Rightarrow> endpoint_capability \<Rightarrow> rat" where
  "endpoint_score q p obs c = quantize6 (route_score q p (the (observation_of obs (ec_id c))) c)"

definition endpoint_rejection ::
  "route_request \<Rightarrow> route_policy \<Rightarrow> route_observation list \<Rightarrow> datetime \<Rightarrow> endpoint_capability \<Rightarrow>
     rejection_code option" where
  "endpoint_rejection q p obs now c = rejection_for q p (observation_of obs (ec_id c)) now c"

definition eligible_endpoints ::
  "route_request \<Rightarrow> endpoint_capability list \<Rightarrow> route_policy \<Rightarrow> route_observation list \<Rightarrow> datetime \<Rightarrow>
     endpoint_capability list" where
  "eligible_endpoints q caps p obs now = filter (\<lambda>c. endpoint_rejection q p obs now c = None) caps"

definition route_rejection_counts ::
  "route_request \<Rightarrow> endpoint_capability list \<Rightarrow> route_policy \<Rightarrow> route_observation list \<Rightarrow> datetime \<Rightarrow>
     (rejection_code \<times> int) list" where
  "route_rejection_counts q caps p obs now =
     sort_key fst (rejection_counts_from [] (map (endpoint_rejection q p obs now) caps))"

definition route_key ::
  "route_request \<Rightarrow> route_policy \<Rightarrow> route_observation list \<Rightarrow> endpoint_capability \<Rightarrow> rat \<times> string" where
  "route_key q p obs c = (- endpoint_score q p obs c, ec_id c)"

definition ordered_endpoints ::
  "route_request \<Rightarrow> endpoint_capability list \<Rightarrow> route_policy \<Rightarrow> route_observation list \<Rightarrow> datetime \<Rightarrow>
     endpoint_capability list" where
  "ordered_endpoints q caps p obs now = sort_key (route_key q p obs) (eligible_endpoints q caps p obs now)"

text \<open>What the selection raises: an ordinary exception, or \<open>NoEligibleModelRouteError\<close> with its counts.\<close>

datatype route_failure = Failure error | NoEligibleModelRoute "(rejection_code \<times> int) list"

definition route_guards ::
  "route_request \<Rightarrow> endpoint_capability list \<Rightarrow> route_policy \<Rightarrow> route_observation list \<Rightarrow> error option" where
  "route_guards q caps p obs = guards
     [guard (rp_version p \<noteq> rq_route_policy_version q) ValueError,
      guard (max_endpoints < length caps) ValueError,
      guard (\<not> distinct (map ec_id caps)) ValueError,
      guard (max_endpoints < length obs) ValueError,
      guard (\<not> distinct (map ro_endpoint_id obs)) ValueError,
      guard (\<not> set (map ro_endpoint_id obs) \<subseteq> set (map ec_id caps)) ValueError]"

text \<open>
  The construction of the decision from the ordered endpoints, with the checks of
  \<open>ModelRouteCandidateScore\<close> and \<open>ModelRouteDecision\<close>.
\<close>

definition build_decision ::
  "string \<Rightarrow> string \<Rightarrow> (string \<times> rat) list \<Rightarrow> (rejection_code \<times> int) list \<Rightarrow> datetime \<Rightarrow>
     route_failure + route_decision" where
  "build_decision version sha ordered counts now =
     (let scores = map (\<lambda>(i, s). \<lparr>cs_endpoint_id = i, cs_score = s\<rparr>) ordered;
          d = \<lparr>rd_endpoint_id = fst (hd ordered), rd_fallback_ids = map fst (tl ordered),
               rd_route_policy_version = version, rd_request_sha256 = sha,
               rd_candidate_scores = scores, rd_rejection_counts = counts, rd_decided_at = now\<rparr>
      in case guards (map cs_check scores @ [rd_check d]) of
           Some e \<Rightarrow> Inl (Failure e)
         | None \<Rightarrow> Inr d)"

definition select_model_route ::
  "(route_request \<Rightarrow> string) \<Rightarrow> route_request \<Rightarrow> endpoint_capability list \<Rightarrow> route_policy \<Rightarrow>
     route_observation list \<Rightarrow> datetime \<Rightarrow> route_failure + route_decision" where
  "select_model_route request_sha256 q caps p obs now =
     (case route_guards q caps p obs of
        Some e \<Rightarrow> Inl (Failure e)
      | None \<Rightarrow>
          if caps = [] then Inl (NoEligibleModelRoute [(NO_CURRENT_CAPABILITY, 1)])
          else case both (require_utc now) (le_guard (rq_deadline_at q) now ValueError) of
                 Some e \<Rightarrow> Inl (Failure e)
               | None \<Rightarrow>
                   let counts = route_rejection_counts q caps p obs now in
                   if eligible_endpoints q caps p obs now = [] then Inl (NoEligibleModelRoute counts)
                   else build_decision (rp_version p) (request_sha256 q)
                          (map (\<lambda>c. (ec_id c, endpoint_score q p obs c)) (ordered_endpoints q caps p obs now))
                          counts now)"

end
