(* ===== verification/Routing_Facts.thy ===== *)
theory Routing_Facts
  imports Provider_Routing "HOL-Library.Multiset"
begin

text \<open>
  What the selection promises: the route consists of exactly the admissible endpoints, best score
  first and ties by identifier; it does not depend on the order the candidates arrive in; valid
  inputs never make it fail on its own checks; the rejections are counted exactly; and failover
  walks the route once, forward only.
\<close>

section \<open>The hard filters as a specification\<close>

definition permitted :: "route_request \<Rightarrow> endpoint_capability \<Rightarrow> bool" where
  "permitted q c \<longleftrightarrow> ec_enabled c \<and>
     ec_provider_id c \<in> set (rq_allowed_providers q) \<and>
     ec_endpoint_region c \<in> set (rq_allowed_endpoint_regions q) \<and>
     ec_data_region c \<in> set (rq_allowed_data_regions q) \<and>
     ec_safety_policy_version c = rq_required_safety_policy_version q \<and>
     ec_data_retention_mode c \<noteq> DRM_UNKNOWN \<and>
     ec_maximum_retention_days c \<le> rq_maximum_retention_days q \<and>
     (ec_training_use_policy c = TU_PROHIBITED \<or>
        rq_allow_training_use q \<and> ec_training_use_policy c = TU_PERMITTED) \<and>
     rq_product_category q \<in> set (ec_allowed_categories c) \<and>
     rq_image_role q \<in> set (ec_allowed_image_roles c)"

definition affordable :: "route_request \<Rightarrow> endpoint_capability \<Rightarrow> bool" where
  "affordable q c \<longleftrightarrow> ec_currency c = rq_currency q \<and> estimated_cost c q \<le> rq_maximum_cost q"

definition capable :: "route_request \<Rightarrow> endpoint_capability \<Rightarrow> bool" where
  "capable q c \<longleftrightarrow> rq_required_capability q \<in> set (ec_capabilities c) \<and>
     ec_execution_mode c = rq_required_execution_mode q \<and>
     ec_protocol c = rq_required_protocol q \<and>
     rq_required_output_format q \<in> set (ec_output_formats c) \<and>
     rq_width q \<in> {ec_minimum_width c..ec_maximum_width c} \<and>
     rq_height q \<in> {ec_minimum_height c..ec_maximum_height c} \<and>
     rq_candidate_count q \<le> ec_maximum_candidates c \<and>
     rq_reference_image_count q \<le> ec_maximum_reference_images c \<and>
     (rq_requires_query q \<longrightarrow> ec_supports_query c) \<and>
     (rq_requires_mask q \<longrightarrow> ec_supports_mask c) \<and>
     (rq_requires_seed q \<longrightarrow> ec_supports_seed c) \<and>
     (rq_requires_lora q \<longrightarrow> ec_supports_lora c) \<and>
     rq_estimated_request_bytes q \<le> ec_maximum_request_bytes c \<and>
     rq_required_result_byte_limit q \<le> ec_maximum_result_bytes c"

definition healthy :: "route_request \<Rightarrow> route_policy \<Rightarrow> datetime \<Rightarrow> route_observation \<Rightarrow> bool" where
  "healthy q p now x \<longleftrightarrow> \<not> observation_stale p now x \<and> ro_circuit_state x = CS_CLOSED \<and>
     rq_required_quota_units q \<le> ro_remaining_quota_units x"

definition admissible ::
  "route_request \<Rightarrow> route_policy \<Rightarrow> route_observation list \<Rightarrow> datetime \<Rightarrow> endpoint_capability \<Rightarrow> bool" where
  "admissible q p obs now c \<longleftrightarrow> permitted q c \<and> affordable q c \<and> capable q c \<and>
     (\<exists>x \<in> set obs. ro_endpoint_id x = ec_id c \<and> healthy q p now x)"

lemma training_cases:
  "tp = TU_PROHIBITED \<or> allow \<and> tp = TU_PERMITTED \<longleftrightarrow>
     \<not> tp = TU_UNKNOWN \<and> \<not> (\<not> allow \<and> tp = TU_PERMITTED)"
  by (cases tp) auto

lemma rejection_for_None:
  "rejection_for q p ob now c = None \<longleftrightarrow>
     permitted q c \<and> affordable q c \<and> capable q c \<and> (\<exists>x. ob = Some x \<and> healthy q p now x)"
proof -
  have "rejection_for q p ob now c = None \<longleftrightarrow> (\<forall>(bad, k) \<in> set (route_checks q p ob now c). \<not> bad)"
    by (auto simp: rejection_for_def find_None_iff)
  also have "\<dots> \<longleftrightarrow> permitted q c \<and> affordable q c \<and> capable q c \<and> (\<exists>x. ob = Some x \<and> healthy q p now x)"
    unfolding permitted_def training_cases
    by (cases ob) (auto simp: route_checks_def on_observation_def affordable_def capable_def
        healthy_def not_less not_le)
  finally show ?thesis .
qed

lemma observation_of_iff:
  assumes "distinct (map ro_endpoint_id obs)"
  shows "observation_of obs e = Some x \<longleftrightarrow> x \<in> set obs \<and> ro_endpoint_id x = e"
proof -
  have "distinct (map fst (rev (map (\<lambda>ob. (ro_endpoint_id ob, ob)) obs)))"
    using assms by (simp add: comp_def flip: rev_map)
  then show ?thesis by (auto simp: observation_of_def map_of_eq_Some_iff)
qed

lemma endpoint_rejection_None:
  assumes "distinct (map ro_endpoint_id obs)"
  shows "endpoint_rejection q p obs now c = None \<longleftrightarrow> admissible q p obs now c"
  using assms by (auto simp: endpoint_rejection_def rejection_for_None admissible_def observation_of_iff)

lemma eligible_observed:
  "c \<in> set (eligible_endpoints q caps p obs now) \<Longrightarrow> \<exists>x. observation_of obs (ec_id c) = Some x"
  by (auto simp: eligible_endpoints_def endpoint_rejection_def rejection_for_None)

section \<open>Scores stay in the unit interval\<close>

lemma validate_weight_None:
  "validate_weight v = None \<longleftrightarrow> 0 \<le> v \<and> v \<le> 1 \<and> six_places v"
proof -
  have "v \<le> 1 \<Longrightarrow> v \<le> max_money" by (simp add: max_money_def)
  then show ?thesis by (auto simp: validate_weight_def guards_None validate_money_def is_money_def)
qed

lemma estimated_cost_nonneg:
  assumes "ec_check c = None" "rq_check q = None"
  shows "0 \<le> estimated_cost c q"
proof -
  have "ec_check_policy c = None" using assms(1) by (simp add: ec_check_def guards_None)
  then have "0 \<le> ec_unit_price c" by (simp add: ec_check_policy_def guards_None validate_money_def is_money_def)
  moreover have s: "rq_check_scope q = None" "rq_check_content q = None"
    using assms(2) by (simp_all add: rq_check_def guards_None)
  have "1 \<le> rq_required_quota_units q" "1 \<le> rq_candidate_count q"
    using s by (simp_all add: rq_check_scope_def rq_check_content_def guards_None validate_range_def)
  ultimately show ?thesis
    by (auto simp: estimated_cost_def dec_mult_def intro!: dec_round_nonneg mult_nonneg_nonneg)
qed

lemma dec_div_unit:
  assumes "0 \<le> a" "a \<le> b"
  shows "0 \<le> dec_div a b \<and> dec_div a b \<le> 1"
  unfolding dec_div_def using assms
  by (intro conjI dec_round_nonneg dec_round_le) (auto simp: six_places_one divide_le_eq_1)

lemma price_score_unit:
  assumes "0 \<le> estimated_cost c q" "estimated_cost c q \<le> rq_maximum_cost q"
  shows "0 \<le> price_score c q \<and> price_score c q \<le> 1"
  using dec_div_unit [OF assms]
  by (auto simp: price_score_def dec_sub_def six_places_one intro: dec_round_nonneg dec_round_le)

lemma policy_weights:
  assumes "rp_check p = None"
  shows "\<forall>w \<in> set (rp_weights p). 0 \<le> w \<and> w \<le> 1 \<and> six_places w"
    and "rp_quality_weight p + rp_availability_weight p + rp_latency_weight p + rp_quota_weight p
           + rp_price_weight p = 1"
proof -
  show w: "\<forall>w \<in> set (rp_weights p). 0 \<le> w \<and> w \<le> 1 \<and> six_places w"
    using assms by (auto simp: rp_check_def guards_None validate_weight_None)
  have "foldl dec_add 0 (rp_weights p) = 0 + sum_list (rp_weights p)"
    using w by (intro foldl_dec_add_exact) (auto simp: rp_weights_def)
  then show "rp_quality_weight p + rp_availability_weight p + rp_latency_weight p + rp_quota_weight p
           + rp_price_weight p = 1"
    using assms by (simp add: rp_check_def guards_None rp_weights_def)
qed

lemma observation_scores:
  assumes "ro_check x = None"
  shows "\<forall>s \<in> {ro_quality_score x, ro_availability_score x, ro_latency_score x, ro_quota_score x}.
     0 \<le> s \<and> s \<le> 1"
  using assms by (auto simp: ro_check_def guards_None validate_weight_None)

definition route_terms :: "route_request \<Rightarrow> route_observation \<Rightarrow> endpoint_capability \<Rightarrow> rat list" where
  "route_terms q x c = [ro_quality_score x, ro_availability_score x, ro_latency_score x,
     ro_quota_score x, price_score c q]"

lemma route_score_fold:
  "route_score q p x c =
     foldl dec_add (dec_mult (rp_quality_weight p) (ro_quality_score x))
       (map2 dec_mult (tl (rp_weights p)) (tl (route_terms q x c)))"
  by (simp add: route_score_def rp_weights_def route_terms_def)

lemma route_score_unit:
  assumes p: "rp_check p = None" and x: "ro_check x = None"
    and cost: "0 \<le> estimated_cost c q" "estimated_cost c q \<le> rq_maximum_cost q"
  shows "0 \<le> route_score q p x c \<and> route_score q p x c \<le> 1"
proof -
  have w: "\<forall>w \<in> set (rp_weights p). 0 \<le> w \<and> w \<le> 1 \<and> six_places w"
    by (rule policy_weights(1) [OF p])
  have s: "\<forall>r \<in> set (route_terms q x c). 0 \<le> r \<and> r \<le> 1"
    using observation_scores [OF x] price_score_unit [OF cost] by (simp add: route_terms_def)
  have t: "list_all2 (\<lambda>a w. 0 \<le> a \<and> a \<le> w \<and> six_places w)
      (map2 dec_mult (tl (rp_weights p)) (tl (route_terms q x c))) (tl (rp_weights p))"
    using w s by (simp add: rp_weights_def route_terms_def dec_mult_bounds)
  have "0 \<le> route_score q p x c \<and> route_score q p x c \<le> rp_quality_weight p + sum_list (tl (rp_weights p))"
    unfolding route_score_fold
    using w s policy_weights(2) [OF p]
    by (intro foldl_dec_add_bounds [OF t]) (simp_all add: rp_weights_def route_terms_def dec_mult_bounds)
  then show ?thesis using policy_weights(2) [OF p] by (simp add: rp_weights_def add.assoc)
qed

section \<open>Counting the rejections\<close>

definition counted :: "(rejection_code \<times> int) list \<Rightarrow> rejection_code \<Rightarrow> int" where
  "counted cs k = (case map_of cs k of None \<Rightarrow> 0 | Some n \<Rightarrow> n)"

definition counts_ok :: "(rejection_code \<times> int) list \<Rightarrow> bool" where
  "counts_ok cs \<longleftrightarrow> distinct (map fst cs) \<and> (\<forall>(k, n) \<in> set cs. 1 \<le> n)"

lemma count_rejection_keys: "set (map fst (count_rejection r cs)) = insert r (set (map fst cs))"
  by (induction r cs rule: count_rejection.induct) auto

lemma count_rejection_ok: "counts_ok cs \<Longrightarrow> counts_ok (count_rejection r cs)"
proof (induction r cs rule: count_rejection.induct)
  case (2 r k n rest)
  then show ?case using count_rejection_keys [of r rest] by (auto simp: counts_ok_def)
qed (simp add: counts_ok_def)

lemma counted_count_rejection:
  "counted (count_rejection r cs) k = counted cs k + (if k = r then 1 else 0)"
  by (induction r cs rule: count_rejection.induct) (auto simp: counted_def)

lemma count_rejection_sum:
  "sum_list (map snd (count_rejection r cs)) = sum_list (map snd cs) + 1"
  by (induction r cs rule: count_rejection.induct) auto

lemma rejection_counts_from_ok: "counts_ok cs \<Longrightarrow> counts_ok (rejection_counts_from cs rs)"
  by (induction cs rs rule: rejection_counts_from.induct) (simp_all add: count_rejection_ok)

lemma counted_rejection_counts_from:
  "counted (rejection_counts_from cs rs) k = counted cs k + int (count_list rs (Some k))"
  by (induction cs rs rule: rejection_counts_from.induct) (simp_all add: counted_count_rejection)

lemma rejection_counts_from_sum:
  "sum_list (map snd (rejection_counts_from cs rs)) =
     sum_list (map snd cs) + int (length (filter (\<lambda>r. r \<noteq> None) rs))"
  by (induction cs rs rule: rejection_counts_from.induct) (simp_all add: count_rejection_sum)

lemma counted_iff:
  assumes "counts_ok cs"
  shows "(k, n) \<in> set cs \<longleftrightarrow> 1 \<le> n \<and> counted cs k = n"
proof
  assume "(k, n) \<in> set cs"
  then show "1 \<le> n \<and> counted cs k = n" using assms by (auto simp: counts_ok_def counted_def)
next
  assume "1 \<le> n \<and> counted cs k = n"
  then have "map_of cs k = Some n" by (auto simp: counted_def split: option.splits)
  then show "(k, n) \<in> set cs" by (rule map_of_SomeD)
qed

lemma counts_ok_sort: "counts_ok (sort_key fst cs) \<longleftrightarrow> counts_ok cs"
proof -
  have "mset (map fst (sort_key fst cs)) = mset (map fst cs)" by simp
  then have "distinct (map fst (sort_key fst cs)) \<longleftrightarrow> distinct (map fst cs)"
    by (rule mset_eq_imp_distinct_iff)
  then show ?thesis by (simp add: counts_ok_def)
qed

lemma count_list_rejected:
  "count_list (map f xs) y = length (filter (\<lambda>x. f x = y) xs)"
  by (induction xs) auto

lemma route_rejection_counts_ok: "counts_ok (route_rejection_counts q caps p obs now)"
  unfolding route_rejection_counts_def counts_ok_sort
  by (rule rejection_counts_from_ok) (simp add: counts_ok_def)

lemma route_rejection_counts_iff:
  "(k, n) \<in> set (route_rejection_counts q caps p obs now) \<longleftrightarrow>
     1 \<le> n \<and> n = int (length (filter (\<lambda>c. endpoint_rejection q p obs now c = Some k) caps))"
proof -
  have ok: "counts_ok (rejection_counts_from [] (map (endpoint_rejection q p obs now) caps))"
    by (rule rejection_counts_from_ok) (simp add: counts_ok_def)
  show ?thesis
    unfolding route_rejection_counts_def set_sort counted_iff [OF ok]
      counted_rejection_counts_from count_list_rejected
    by (auto simp: counted_def)
qed

lemma route_rejection_counts_sum:
  "sum_list (map snd (route_rejection_counts q caps p obs now)) +
     int (length (eligible_endpoints q caps p obs now)) = int (length caps)"
proof -
  let ?r = "endpoint_rejection q p obs now"
  have "sum_list (map snd (route_rejection_counts q caps p obs now)) =
      sum_list (map snd (rejection_counts_from [] (map ?r caps)))"
    unfolding route_rejection_counts_def
    by (metis mset_map mset_sort sum_mset_sum_list)
  also have "\<dots> = int (length (filter (\<lambda>c. ?r c \<noteq> None) caps))"
    by (simp add: rejection_counts_from_sum filter_map comp_def)
  finally show ?thesis
    using sum_length_filter_compl [of "\<lambda>c. ?r c \<noteq> None" caps]
    by (simp add: eligible_endpoints_def)
qed

lemma route_rejection_counts_sorted: "sorted (map fst (route_rejection_counts q caps p obs now))"
  by (simp add: route_rejection_counts_def)

section \<open>The shape of a decision\<close>

lemma select_Inr:
  assumes "select_model_route sha q caps p obs now = Inr d"
  shows "route_guards q caps p obs = None" "is_utc now" "\<not> dt_le (rq_deadline_at q) now"
    "eligible_endpoints q caps p obs now \<noteq> []"
    "build_decision (rp_version p) (sha q)
       (map (\<lambda>c. (ec_id c, endpoint_score q p obs c)) (ordered_endpoints q caps p obs now))
       (route_rejection_counts q caps p obs now) now = Inr d"
  using assms
  by (auto simp: select_model_route_def Let_def split: option.splits if_splits)

lemma build_decision_Inr:
  assumes "build_decision v sha ranked counts now = Inr d" "ranked \<noteq> []"
  shows "rd_route d = map fst ranked"
    "map (\<lambda>k. (cs_endpoint_id k, cs_score k)) (rd_candidate_scores d) = ranked"
    "rd_rejection_counts d = counts" "rd_check d = None" "rd_request_sha256 d = sha"
    "rd_route_policy_version d = v" "rd_decided_at d = now"
    "\<forall>k \<in> set (rd_candidate_scores d). cs_check k = None"
proof -
  have "d = \<lparr>rd_endpoint_id = fst (hd ranked), rd_fallback_ids = map fst (tl ranked),
               rd_route_policy_version = v, rd_request_sha256 = sha,
               rd_candidate_scores = map (\<lambda>(i, s). \<lparr>cs_endpoint_id = i, cs_score = s\<rparr>) ranked,
               rd_rejection_counts = counts, rd_decided_at = now\<rparr>"
    and c: "guards (map cs_check (rd_candidate_scores d) @ [rd_check d]) = None"
    using assms(1) by (auto simp: build_decision_def Let_def split: option.splits)
  then show "rd_route d = map fst ranked"
    "map (\<lambda>k. (cs_endpoint_id k, cs_score k)) (rd_candidate_scores d) = ranked"
    "rd_rejection_counts d = counts" "rd_request_sha256 d = sha"
    "rd_route_policy_version d = v" "rd_decided_at d = now"
    using assms(2) by (cases ranked; simp add: rd_route_def comp_def split_def)+
  show "rd_check d = None" "\<forall>k \<in> set (rd_candidate_scores d). cs_check k = None"
    using c by (auto simp: guards_None)
qed

lemma set_ordered [simp]: "set (ordered_endpoints q caps p obs now) = set (eligible_endpoints q caps p obs now)"
  by (simp add: ordered_endpoints_def)

lemma ordered_Nil [simp]: "ordered_endpoints q caps p obs now = [] \<longleftrightarrow> eligible_endpoints q caps p obs now = []"
  using set_ordered by (metis set_empty)

lemma length_ordered [simp]:
  "length (ordered_endpoints q caps p obs now) = length (eligible_endpoints q caps p obs now)"
  by (simp add: ordered_endpoints_def)

lemma route_guards_None:
  "route_guards q caps p obs = None \<longleftrightarrow>
     rp_version p = rq_route_policy_version q \<and> length caps \<le> 128 \<and> distinct (map ec_id caps) \<and>
     length obs \<le> 128 \<and> distinct (map ro_endpoint_id obs) \<and>
     set (map ro_endpoint_id obs) \<subseteq> set (map ec_id caps)"
  by (auto simp: route_guards_def guards_None max_endpoints_def not_less)

lemma set_eligible:
  "route_guards q caps p obs = None \<Longrightarrow>
     set (eligible_endpoints q caps p obs now) = {c \<in> set caps. admissible q p obs now c}"
  by (auto simp: eligible_endpoints_def route_guards_None endpoint_rejection_None)

lemma distinct_ordered_ids:
  assumes "distinct (map ec_id caps)"
  shows "distinct (map ec_id (ordered_endpoints q caps p obs now))"
proof -
  have "distinct (map ec_id (eligible_endpoints q caps p obs now))"
    using assms by (simp add: eligible_endpoints_def distinct_map_filter)
  moreover have "mset (map ec_id (ordered_endpoints q caps p obs now)) =
      mset (map ec_id (eligible_endpoints q caps p obs now))"
    by (simp add: ordered_endpoints_def)
  ultimately show ?thesis using mset_eq_imp_distinct_iff by blast
qed

text \<open>Sorting by a key that contains the identifier is strict.\<close>

lemma ordered_strict:
  assumes "distinct (map ec_id caps)"
  shows "sorted_wrt (\<lambda>a b. route_key q p obs a < route_key q p obs b) (ordered_endpoints q caps p obs now)"
proof -
  let ?xs = "ordered_endpoints q caps p obs now"
  have "sorted (map (route_key q p obs) ?xs)" by (simp add: ordered_endpoints_def)
  moreover have "distinct (map (route_key q p obs) ?xs)"
    using distinct_ordered_ids [OF assms, of q p obs now]
    by (auto simp: distinct_map inj_on_def route_key_def)
  ultimately have "sorted_wrt (<) (map (route_key q p obs) ?xs)"
    using strict_sorted_iff by blast
  then show ?thesis by (simp add: sorted_wrt_map)
qed

lemma inj_route_key: "distinct (map ec_id caps) \<Longrightarrow> inj_on (route_key q p obs) (set caps)"
  by (rule inj_onI) (auto simp: route_key_def distinct_map dest: inj_onD)

section \<open>The constructor accepts what the selection builds\<close>

lemma build_decision_accepts:
  assumes "ranked \<noteq> []" "length ranked \<le> 128" "distinct (map fst ranked)"
    and ids: "\<forall>(i, s) \<in> set ranked. validate_uuid i = None \<and> 0 \<le> s \<and> s \<le> 1 \<and> six_places s"
    and "validate_token v = None" "is_sha256 sha" "counts_ok counts" "sorted (map fst counts)" "is_utc now"
  shows "\<exists>d. build_decision v sha ranked counts now = Inr d \<and> rd_check d = None \<and>
     (\<forall>k \<in> set (rd_candidate_scores d). 0 \<le> cs_score k \<and> cs_score k \<le> 1)"
proof -
  obtain i s rest where r: "ranked = (i, s) # rest" using assms(1) by (cases ranked) auto
  let ?ks = "map (\<lambda>(i, s). \<lparr>cs_endpoint_id = i, cs_score = s\<rparr>) ranked"
  let ?d = "\<lparr>rd_endpoint_id = fst (hd ranked), rd_fallback_ids = map fst (tl ranked),
               rd_route_policy_version = v, rd_request_sha256 = sha,
               rd_candidate_scores = ?ks, rd_rejection_counts = counts, rd_decided_at = now\<rparr>"
  have k: "\<forall>k \<in> set ?ks. cs_check k = None"
    using ids by (auto simp: cs_check_def guards_None validate_weight_None)
  have "validate_sha256 sha = None" using assms(6) by (simp add: validate_sha256_def)
  moreover have "sort_key fst counts = counts" using assms(8) by (simp add: sorted_sort_id sort_key_id_if_sorted)
  moreover have "\<not> list_ex (\<lambda>(k, n). n < 1) counts" "distinct (map fst counts)"
    using assms(7) by (auto simp: counts_ok_def list_ex_iff)
  moreover have "map cs_endpoint_id ?ks = map fst ranked" by (simp add: comp_def split_def)
  ultimately have d: "rd_check ?d = None"
    using assms(2,3,5,9) ids
    by (simp add: r rd_check_def rd_route_def guards_None max_endpoints_def image_iff) force
  have "build_decision v sha ranked counts now = Inr ?d"
  proof -
    have "guards (map cs_check ?ks @ [rd_check ?d]) = None" using k d by (auto simp: guards_None)
    then show ?thesis by (simp only: build_decision_def Let_def option.case)
  qed
  moreover have "\<forall>k \<in> set ?ks. 0 \<le> cs_score k \<and> cs_score k \<le> 1" using ids by auto
  ultimately show ?thesis using d by auto
qed

lemma endpoint_score_unit:
  assumes q: "rq_check q = None" and p: "rp_check p = None" and x: "\<forall>x \<in> set obs. ro_check x = None"
    and g: "route_guards q caps p obs = None" and c: "c \<in> set (eligible_endpoints q caps p obs now)"
    "ec_check c = None"
  shows "0 \<le> endpoint_score q p obs c \<and> endpoint_score q p obs c \<le> 1 \<and> six_places (endpoint_score q p obs c)"
proof -
  obtain y where y: "observation_of obs (ec_id c) = Some y" using eligible_observed [OF c(1)] by blast
  then have "ro_check y = None" using x g by (auto simp: observation_of_iff route_guards_None)
  moreover have "estimated_cost c q \<le> rq_maximum_cost q"
    using c(1) set_eligible [OF g] by (auto simp: admissible_def affordable_def)
  ultimately show ?thesis
    using route_score_unit [OF p] estimated_cost_nonneg [OF c(2) q] quantize6_bounds y
    by (simp add: endpoint_score_def)
qed

definition route_inputs_valid ::
  "route_request \<Rightarrow> endpoint_capability list \<Rightarrow> route_policy \<Rightarrow> route_observation list \<Rightarrow> datetime \<Rightarrow> bool" where
  "route_inputs_valid q caps p obs now \<longleftrightarrow> rq_check q = None \<and> rp_check p = None \<and>
     list_all (\<lambda>c. ec_check c = None) caps \<and> list_all (\<lambda>x. ro_check x = None) obs \<and>
     route_guards q caps p obs = None \<and> caps \<noteq> [] \<and> is_utc now \<and> dt_less now (rq_deadline_at q)"

lemma selection_outcome:
  assumes "route_inputs_valid q caps p obs now" and sha: "is_sha256 (sha q)"
  shows "if \<exists>c \<in> set caps. admissible q p obs now c
    then \<exists>d. select_model_route sha q caps p obs now = Inr d \<and> rd_check d = None \<and>
           (\<forall>k \<in> set (rd_candidate_scores d). 0 \<le> cs_score k \<and> cs_score k \<le> 1)
    else select_model_route sha q caps p obs now =
           Inl (NoEligibleModelRoute (route_rejection_counts q caps p obs now))"
proof -
  have v: "rq_check q = None" "rp_check p = None" "\<forall>c \<in> set caps. ec_check c = None"
    "\<forall>x \<in> set obs. ro_check x = None" "route_guards q caps p obs = None" "caps \<noteq> []"
    "is_utc now" "dt_less now (rq_deadline_at q)"
    using assms(1) by (simp_all add: route_inputs_valid_def list_all_iff)
  note g = v(5)
  have dl: "is_utc (rq_deadline_at q)"
    using v(1) by (simp add: rq_check_def rq_check_scope_def guards_None)
  have due: "require_utc now = None" "le_guard (rq_deadline_at q) now ValueError = None"
    using v(7,8) dl comparable_utc [OF dl v(7)] by (simp_all add: dt_defs)
  note ex = set_eligible [OF g, of now]
  show ?thesis
  proof (cases "eligible_endpoints q caps p obs now = []")
    case True
    then have "\<not> (\<exists>c \<in> set caps. admissible q p obs now c)" using ex by auto
    with True show ?thesis using g v(6) by (simp add: select_model_route_def Let_def due)
  next
    case False
    let ?xs = "ordered_endpoints q caps p obs now"
    let ?r = "map (\<lambda>c. (ec_id c, endpoint_score q p obs c)) ?xs"
    have "length ?xs = length (eligible_endpoints q caps p obs now)" by simp
    also have "\<dots> \<le> length caps" by (simp add: eligible_endpoints_def)
    also have "\<dots> \<le> 128" using g by (simp add: route_guards_None)
    finally have len: "length ?r \<le> 128" by simp
    have el: "c \<in> set caps" if "c \<in> set ?xs" for c using that by (simp add: eligible_endpoints_def)
    have ids: "validate_uuid (ec_id c) = None" if "c \<in> set ?xs" for c
      using v(3) el [OF that] by (simp add: ec_check_def ec_check_identity_def guards_None)
    have sc: "0 \<le> endpoint_score q p obs c \<and> endpoint_score q p obs c \<le> 1 \<and> six_places (endpoint_score q p obs c)"
      if "c \<in> set ?xs" for c
      using that v(3) el [OF that] by (intro endpoint_score_unit [OF v(1,2,4) g]) auto
    have "\<exists>d. build_decision (rp_version p) (sha q) ?r (route_rejection_counts q caps p obs now) now = Inr d \<and>
       rd_check d = None \<and> (\<forall>k \<in> set (rd_candidate_scores d). 0 \<le> cs_score k \<and> cs_score k \<le> 1)"
    proof (rule build_decision_accepts)
      show "?r \<noteq> []" using False by simp
      show "length ?r \<le> 128" by (rule len)
      show "distinct (map fst ?r)"
        using distinct_ordered_ids [of caps q p obs now] g by (simp add: comp_def route_guards_None)
      show "\<forall>(i, s) \<in> set ?r. validate_uuid i = None \<and> 0 \<le> s \<and> s \<le> 1 \<and> six_places s"
        using ids sc by auto
      show "validate_token (rp_version p) = None" using v(2) by (simp add: rp_check_def guards_None)
    qed (use v sha route_rejection_counts_ok route_rejection_counts_sorted in auto)
    moreover have "set (eligible_endpoints q caps p obs now) \<noteq> {}" using False by simp
    then have "\<exists>c \<in> set caps. admissible q p obs now c" unfolding ex by blast
    ultimately show ?thesis using False g v(6) by (simp add: select_model_route_def Let_def due)
  qed
qed

lemma selection_order:
  assumes c: "mset caps = mset caps'" and o: "mset obs = mset obs'"
  shows "select_model_route sha q caps p obs now = select_model_route sha q caps' p obs' now"
proof -
  have sets: "set caps = set caps'" "set obs = set obs'" using c o mset_eq_setD by blast+
  have "mset (map ec_id caps) = mset (map ec_id caps')" "mset (map ro_endpoint_id obs) = mset (map ro_endpoint_id obs')"
    using c o by simp_all
  then have d: "distinct (map ec_id caps) = distinct (map ec_id caps')"
    "distinct (map ro_endpoint_id obs) = distinct (map ro_endpoint_id obs')"
    using mset_eq_imp_distinct_iff by blast+
  have g: "route_guards q caps p obs = route_guards q caps' p obs'"
    using sets d mset_eq_length [OF c] mset_eq_length [OF o] by (simp add: route_guards_def)
  show ?thesis
  proof (cases "route_guards q caps p obs")
    case (Some e)
    then show ?thesis using g by (simp add: select_model_route_def)
  next
    case None
    then have dist: "distinct (map ro_endpoint_id obs)" "distinct (map ro_endpoint_id obs')"
      "distinct (map ec_id caps)" using d by (simp_all add: route_guards_None)
    have ob: "observation_of obs = observation_of obs'"
    proof
      fix e
      have "observation_of obs e = Some x \<longleftrightarrow> observation_of obs' e = Some x" for x
        using dist sets by (simp add: observation_of_iff)
      then show "observation_of obs e = observation_of obs' e"
        by (metis not_Some_eq)
    qed
    have rej: "endpoint_rejection q p obs = endpoint_rejection q p obs'"
      "endpoint_score q p obs = endpoint_score q p obs'" "route_key q p obs = route_key q p obs'"
      by (simp_all add: fun_eq_iff endpoint_rejection_def endpoint_score_def route_key_def ob)
    have el: "mset (eligible_endpoints q caps p obs now) = mset (eligible_endpoints q caps' p obs' now)"
      using c by (simp add: eligible_endpoints_def rej)
    have ord: "ordered_endpoints q caps p obs now = ordered_endpoints q caps' p obs' now"
      unfolding ordered_endpoints_def rej
    proof (rule sort_key_inj_key_eq)
      show "inj_on (route_key q p obs') (set (eligible_endpoints q caps p obs now))"
        by (rule inj_on_subset [OF inj_route_key [OF dist(3)]]) (auto simp: eligible_endpoints_def)
    qed (simp_all add: el)
    have cnt: "route_rejection_counts q caps p obs now = route_rejection_counts q caps' p obs' now"
      (is "?a = ?b")
    proof (rule map_sorted_distinct_set_unique [where f = fst])
      have "mset (filter P caps) = mset (filter P caps')" for P using c by simp
      then have "length (filter P caps) = length (filter P caps')" for P by (rule mset_eq_length)
      then have "(k, n) \<in> set ?a \<longleftrightarrow> (k, n) \<in> set ?b" for k n
        by (simp add: route_rejection_counts_iff rej)
      then show ab: "set ?a = set ?b" by auto
      have "distinct (map fst ?a)" using route_rejection_counts_ok by (simp add: counts_ok_def)
      then show "inj_on fst (set ?a \<union> set ?b)" by (simp add: distinct_map ab)
    qed (use route_rejection_counts_ok route_rejection_counts_sorted in \<open>auto simp: counts_ok_def\<close>)
    have e: "caps = [] \<longleftrightarrow> caps' = []"
      "eligible_endpoints q caps p obs now = [] \<longleftrightarrow> eligible_endpoints q caps' p obs' now = []"
      using c el by (metis mset_zero_iff)+
    show ?thesis unfolding select_model_route_def g ord cnt rej e by (rule refl)
  qed
qed

section \<open>Properties\<close>

text \<open>C12: The route of a decision, the selected endpoint and its fallbacks, is exactly the set of the
  supplied capability versions that pass every hard filter (enabled, allowed provider, region and
  data region, retention and training policy, budget, capability, format, size, a fresh observation
  with a closed circuit and enough quota), each once: none that fails a filter is ever routed to,
  and none that passes is dropped.\<close>

theorem route_is_admissible:
  assumes "select_model_route sha q caps p obs now = Inr d"
  shows "set (rd_route d) = ec_id ` {c \<in> set caps. admissible q p obs now c} \<and> distinct (rd_route d)"
proof -
  note s = select_Inr [OF assms]
  have "rd_route d = map ec_id (ordered_endpoints q caps p obs now)"
    using build_decision_Inr(1) [OF s(5)] s(4) by (simp add: comp_def)
  moreover have "distinct (map ec_id caps)" using s(1) by (simp add: route_guards_None)
  ultimately show ?thesis
    using distinct_ordered_ids [of caps] set_eligible [OF s(1)] by simp
qed

text \<open>The candidates of a decision are ranked: of two of them the earlier has the higher score,
  or the same score and the smaller identifier; and every score is the one computed for an endpoint
  of the request.\<close>

theorem route_is_ranked:
  assumes "select_model_route sha q caps p obs now = Inr d"
  shows "sorted_wrt (\<lambda>a b. cs_score b < cs_score a \<or> (cs_score a = cs_score b \<and> cs_endpoint_id a < cs_endpoint_id b))
      (rd_candidate_scores d) \<and>
    (\<forall>k \<in> set (rd_candidate_scores d). \<exists>c \<in> set caps.
       cs_endpoint_id k = ec_id c \<and> cs_score k = endpoint_score q p obs c)"
proof -
  note s = select_Inr [OF assms]
  let ?xs = "ordered_endpoints q caps p obs now"
  have m: "map (\<lambda>k. (cs_endpoint_id k, cs_score k)) (rd_candidate_scores d) =
      map (\<lambda>c. (ec_id c, endpoint_score q p obs c)) ?xs"
    using build_decision_Inr(2) [OF s(5)] s(4) by simp
  let ?before = "\<lambda>(i, x) (j, y). y < x \<or> (x = y \<and> (i::string) < j)"
  have "sorted_wrt (\<lambda>a b. route_key q p obs a < route_key q p obs b) ?xs"
    using s(1) by (intro ordered_strict) (simp add: route_guards_None)
  then have "sorted_wrt ?before (map (\<lambda>c. (ec_id c, endpoint_score q p obs c)) ?xs)"
    unfolding sorted_wrt_map
    by (rule sorted_wrt_mono_rel [rotated]) (auto simp: route_key_def less_prod_def)
  then have "sorted_wrt ?before (map (\<lambda>k. (cs_endpoint_id k, cs_score k)) (rd_candidate_scores d))"
    by (simp only: m)
  then have 1: "sorted_wrt (\<lambda>a b. cs_score b < cs_score a \<or>
      (cs_score a = cs_score b \<and> cs_endpoint_id a < cs_endpoint_id b)) (rd_candidate_scores d)"
    by (simp add: sorted_wrt_map)
  have "set (map (\<lambda>k. (cs_endpoint_id k, cs_score k)) (rd_candidate_scores d)) =
      set (map (\<lambda>c. (ec_id c, endpoint_score q p obs c)) ?xs)"
    by (simp only: m)
  then have 2: "\<exists>c \<in> set caps. cs_endpoint_id k = ec_id c \<and> cs_score k = endpoint_score q p obs c"
    if "k \<in> set (rd_candidate_scores d)" for k
    using that by (force simp: eligible_endpoints_def set_eq_iff)
  from 1 2 show ?thesis by blast
qed

text \<open>The rejection counts are exact: they list, in the order of the codes and without repetition,
  each code that rejected an endpoint with the number of endpoints it rejected; together with the
  admissible endpoints they account for every supplied capability version.\<close>

theorem route_rejections_exact:
  assumes "select_model_route sha q caps p obs now = Inr d \<or>
     (caps \<noteq> [] \<and> select_model_route sha q caps p obs now = Inl (NoEligibleModelRoute cs))"
  shows "\<exists>counts. (case select_model_route sha q caps p obs now of
        Inr d \<Rightarrow> rd_rejection_counts d = counts \<and> int (length (rd_route d)) + sum_list (map snd counts) = int (length caps)
      | Inl f \<Rightarrow> f = NoEligibleModelRoute counts \<and> sum_list (map snd counts) = int (length caps)) \<and>
    sorted (map fst counts) \<and> distinct (map fst counts) \<and>
    (\<forall>k n. (k, n) \<in> set counts \<longleftrightarrow>
       1 \<le> n \<and> n = int (length (filter (\<lambda>c. endpoint_rejection q p obs now c = Some k) caps)))"
proof -
  let ?cs = "route_rejection_counts q caps p obs now"
  note sum = route_rejection_counts_sum [of q caps p obs now]
  have "sorted (map fst ?cs)" "distinct (map fst ?cs)"
    using route_rejection_counts_ok route_rejection_counts_sorted by (auto simp: counts_ok_def)
  moreover have "case select_model_route sha q caps p obs now of
        Inr d \<Rightarrow> rd_rejection_counts d = ?cs \<and> int (length (rd_route d)) + sum_list (map snd ?cs) = int (length caps)
      | Inl f \<Rightarrow> f = NoEligibleModelRoute ?cs \<and> sum_list (map snd ?cs) = int (length caps)"
  proof (cases "select_model_route sha q caps p obs now")
    case (Inl f)
    with assms have "f = NoEligibleModelRoute ?cs" "eligible_endpoints q caps p obs now = []"
      by (auto simp: select_model_route_def build_decision_def Let_def split: option.splits if_splits)
    with Inl sum show ?thesis by simp
  next
    case (Inr d)
    note s = select_Inr [OF Inr]
    have "rd_rejection_counts d = ?cs" using build_decision_Inr(3) [OF s(5)] s(4) by simp
    moreover have "length (rd_route d) = length (eligible_endpoints q caps p obs now)"
      using build_decision_Inr(1) [OF s(5)] s(4) by simp
    ultimately show ?thesis using Inr sum by simp
  qed
  ultimately show ?thesis using route_rejection_counts_iff by blast
qed

text \<open>C13: On validated inputs the selection never fails on its own checks: it either returns a
  decision that its constructor accepts, with every score between 0 and 1, or, when no supplied
  endpoint is admissible, raises \<open>NoEligibleModelRouteError\<close> with the rejection counts.\<close>

theorem route_selection_total:
  assumes "route_inputs_valid q caps p obs now" "is_sha256 (sha q)"
  shows "if \<exists>c \<in> set caps. admissible q p obs now c
    then \<exists>d. select_model_route sha q caps p obs now = Inr d \<and> rd_check d = None \<and>
           (\<forall>k \<in> set (rd_candidate_scores d). 0 \<le> cs_score k \<and> cs_score k \<le> 1)
    else select_model_route sha q caps p obs now =
           Inl (NoEligibleModelRoute (route_rejection_counts q caps p obs now))"
  by (rule selection_outcome [of q caps p obs now sha]) (fact assms)+

text \<open>The selection does not depend on the order in which the capability versions and the
  observations are supplied: it returns the same decision, and raises the same error, for any
  permutation of both.\<close>

theorem route_selection_deterministic:
  assumes "mset caps = mset caps'" "mset obs = mset obs'"
  shows "select_model_route sha q caps p obs now = select_model_route sha q caps' p obs' now"
  using assms by (rule selection_order)

lemma find_after_prefix:
  assumes "distinct r"
  shows "find (\<lambda>e. e \<notin> set (take n r)) r = (if n < length r then Some (r ! n) else None)"
proof (cases "n < length r")
  case True
  have "r ! n \<notin> set (take n r)"
    using assms True by (metis distinct_take id_take_nth_drop distinct_append not_distinct_conv_prefix in_set_conv_nth
        length_take min.absorb2 nat_less_le nth_eq_iff_index_eq nth_take order_less_trans)
  moreover have "\<forall>j < n. r ! j \<in> set (take n r)"
    using True by (metis in_set_conv_nth length_take min.absorb2 nth_take order.strict_implies_order)
  ultimately have "find (\<lambda>e. e \<notin> set (take n r)) r = Some (r ! n)"
    using True by (subst find_Some_iff) blast
  with True show ?thesis by simp
qed (simp add: find_None_iff)

text \<open>Failover walks the route of a decision forward and once: after the first \<open>n\<close> endpoints were
  attempted, a safe cause yields exactly the next one, or none at the end of the route; an unknown
  outcome, a content rejection, a policy denial or an invalid input yields none; and any attempt
  history that is not a non-empty prefix of the route is refused.\<close>

theorem failover_walks_route:
  assumes "rd_check d = None"
  shows "next_fallback cause attempted d =
     (if \<exists>n \<in> {1..length (rd_route d)}. attempted = take n (rd_route d)
      then Inr (if safe_to_fail_over cause \<and> length attempted < length (rd_route d)
                then Some (rd_route d ! length attempted) else None)
      else Inl ValueError)"
proof -
  let ?r = "rd_route d"
  have dist: "distinct ?r" using assms by (simp add: rd_check_def guards_None rd_route_def)
  have pre: "(\<exists>n \<in> {1..length ?r}. attempted = take n ?r) \<longleftrightarrow>
      attempted \<noteq> [] \<and> attempted = take (length attempted) ?r"
  proof
    assume "attempted \<noteq> [] \<and> attempted = take (length attempted) ?r"
    then have "attempted = take (length attempted) ?r" "length attempted \<in> {1..length ?r}"
      by (metis length_take min.bounded_iff order_refl atLeastAtMost_iff One_nat_def Suc_leI length_greater_0_conv)+
    then show "\<exists>n \<in> {1..length ?r}. attempted = take n ?r" by blast
  qed (auto simp: rd_route_def)
  show ?thesis
    unfolding pre next_fallback_def using find_after_prefix [OF dist, of "length attempted"] by auto
qed

section \<open>A concrete selection\<close>

definition sample_sha :: string where
  "sample_sha = replicate 64 CHR ''a''"

definition sample_endpoint :: "nat \<Rightarrow> bool \<Rightarrow> endpoint_capability" where
  "sample_endpoint i on = \<lparr>ec_id = uuid_str i, ec_provider_id = ''p'', ec_endpoint_id = ''e'',
     ec_version_number = 1, ec_endpoint_host = ''a.b'', ec_endpoint_region = ''eu'', ec_model_family = ''m'',
     ec_model_id = ''m'', ec_model_revision = ''r'', ec_adapter_version = ''v'',
     ec_configuration_sha256 = sample_sha, ec_capabilities = [PC_IMAGE_GENERATION],
     ec_protocol = OPENAI_IMAGES_JSON, ec_execution_mode = EM_SYNC, ec_supports_query = False,
     ec_supports_cancel = False, ec_supports_provider_idempotency = False, ec_allowed_categories = [''c''],
     ec_allowed_image_roles = [HERO], ec_output_formats = [''i/p''], ec_minimum_width = 1,
     ec_maximum_width = 1024, ec_minimum_height = 1, ec_maximum_height = 1024, ec_maximum_candidates = 4,
     ec_safety_policy_version = ''s'', ec_data_region = ''eu'', ec_data_retention_mode = DRM_NONE,
     ec_maximum_retention_days = 0, ec_training_use_policy = TU_PROHIBITED,
     ec_secret_reference = ''secret-ref:k'', ec_maximum_reference_images = 0, ec_supports_mask = False,
     ec_supports_seed = False, ec_supports_lora = False, ec_maximum_request_bytes = 1000,
     ec_maximum_result_bytes = 1000, ec_pricing_unit = PU_IMAGE, ec_enabled = on, ec_unit_price = 1,
     ec_currency = ''EUR'', ec_created_at = utc 0\<rparr>"

definition sample_request :: route_request where
  "sample_request = \<lparr>rq_workspace_id = ''w'', rq_workflow_id = uuid_str 1,
     rq_creative_plan_version_id = uuid_str 2, rq_plan_approval_id = uuid_str 3,
     rq_required_capability = PC_IMAGE_GENERATION, rq_allowed_providers = [''p''],
     rq_allowed_endpoint_regions = [''eu''], rq_maximum_cost = 10, rq_currency = ''EUR'',
     rq_route_policy_version = ''v'', rq_deadline_at = utc 100, rq_required_execution_mode = EM_SYNC,
     rq_requires_query = False, rq_required_quota_units = 1, rq_product_category = ''c'', rq_image_role = HERO,
     rq_required_output_format = ''i/p'', rq_width = 512, rq_height = 512, rq_candidate_count = 2,
     rq_required_safety_policy_version = ''s'', rq_allowed_data_regions = [''eu''],
     rq_maximum_retention_days = 0, rq_allow_training_use = False, rq_required_protocol = OPENAI_IMAGES_JSON,
     rq_reference_image_count = 0, rq_authorized_asset_version_ids = [], rq_requires_mask = False,
     rq_requires_seed = False, rq_requires_lora = False, rq_estimated_request_bytes = 1,
     rq_required_result_byte_limit = 1\<rparr>"

definition sample_policy :: route_policy where
  "sample_policy = \<lparr>rp_version = ''v'', rp_quality_weight = 1 / 2, rp_availability_weight = 1 / 2,
     rp_latency_weight = 0, rp_quota_weight = 0, rp_price_weight = 0,
     rp_maximum_observation_age_seconds = 60\<rparr>"

definition sample_observation :: route_observation where
  "sample_observation = \<lparr>ro_endpoint_id = uuid_str 1, ro_quality_score = 1, ro_availability_score = 1,
     ro_latency_score = 1, ro_quota_score = 1, ro_circuit_state = CS_CLOSED,
     ro_remaining_quota_units = 5, ro_observed_at = utc 5\<rparr>"

definition sample_endpoints :: "endpoint_capability list" where
  "sample_endpoints = [sample_endpoint 1 True, sample_endpoint 2 False]"

lemma six_places_half: "six_places (1 / 2)"
  using six_placesI [of 500000] by simp

lemma sample_sha [simp]: "is_sha256 sample_sha" "validate_sha256 sample_sha = None"
  by (simp_all add: is_sha256_def validate_sha256_def sample_sha_def list_all_iff class_defs code_def)

lemma sample_cost: "estimated_cost (sample_endpoint i on) sample_request = 2"
proof -
  have "six_places 2" using six_placesI [of 2000000] by simp
  then show ?thesis
    by (simp add: estimated_cost_def sample_endpoint_def sample_request_def dec_mult_def dec_round_exact)
qed

lemmas string_checks = validator_defs class_defs is_token_char_def code_def is_space_def list_all_iff
  is_host_label_def is_lower_alnum_def lower_def lower_char_def

lemma sample_endpoint_valid: "ec_check (sample_endpoint i on) = None"
  by (simp add: ec_check_def ec_check_identity_def ec_check_limits_def ec_check_policy_def guards_None
      sample_endpoint_def validate_host_def validate_range_def validate_permission_set_def is_mime_def
      is_mime_part_def is_secret_reference_def is_currency_def validate_money_def is_money_def max_money_def
      six_places_one string_checks)

lemma sample_request_valid: "rq_check sample_request = None"
proof -
  have "six_places 10" using six_placesI [of 10000000] by simp
  then show ?thesis
    by (simp add: rq_check_def rq_check_scope_def rq_check_content_def guards_None sample_request_def
        validate_range_def validate_permission_set_def is_mime_def is_mime_part_def is_currency_def
        validate_money_def is_money_def max_money_def is_valid_workspace_id_def string_checks)
qed

lemma sample_policy_valid: "rp_check sample_policy = None"
proof -
  have "foldl dec_add 0 (rp_weights sample_policy) = 0 + sum_list (rp_weights sample_policy)"
    by (rule foldl_dec_add_exact) (simp_all add: rp_weights_def sample_policy_def six_places_half)
  then have "foldl dec_add 0 (rp_weights sample_policy) = 1" by (simp add: rp_weights_def sample_policy_def)
  then show ?thesis
    by (simp add: rp_check_def guards_None validate_weight_None validate_range_def)
       (simp add: rp_weights_def sample_policy_def six_places_half string_checks)
qed

lemma sample_observation_valid: "ro_check sample_observation = None"
  by (simp add: ro_check_def guards_None validate_weight_None validate_range_def sample_observation_def
      six_places_one)

lemma uuid_str_1_2: "uuid_str (Suc 0) \<noteq> uuid_str 2"
  using uuid_str_less [of "Suc 0" 2] by auto

lemma sample_guards: "route_guards sample_request sample_endpoints sample_policy [sample_observation] = None"
  by (simp add: route_guards_None sample_request_def sample_endpoints_def sample_policy_def
      sample_endpoint_def sample_observation_def uuid_str_1_2)

lemma sample_inputs:
  "route_inputs_valid sample_request sample_endpoints sample_policy [sample_observation] (utc 10)"
proof -
  have "list_all (\<lambda>c. ec_check c = None) sample_endpoints" "sample_endpoints \<noteq> []"
    by (simp_all add: sample_endpoints_def sample_endpoint_valid)
  moreover have "dt_less (utc 10) (rq_deadline_at sample_request)" by (simp add: sample_request_def dt_defs)
  ultimately show ?thesis
    by (simp add: route_inputs_valid_def sample_request_valid sample_policy_valid sample_observation_valid
        sample_guards)
qed

lemma sample_admissible:
  "admissible sample_request sample_policy [sample_observation] (utc 10) c \<longleftrightarrow> c = sample_endpoint 1 True"
  if "c \<in> set sample_endpoints"
proof -
  have "affordable sample_request (sample_endpoint i on)" for i on
    by (simp add: affordable_def sample_cost) (simp add: sample_request_def sample_endpoint_def)
  moreover have "permitted sample_request (sample_endpoint i on) \<longleftrightarrow> on" for i on
    by (simp add: permitted_def sample_request_def sample_endpoint_def)
  moreover have "capable sample_request (sample_endpoint i on)" for i on
    by (simp add: capable_def sample_request_def sample_endpoint_def)
  moreover have "healthy sample_request sample_policy (utc 10) sample_observation"
    by (simp add: healthy_def sample_request_def sample_policy_def sample_observation_def
        observation_stale_def)
  moreover have "ro_endpoint_id sample_observation = ec_id (sample_endpoint 1 True)"
    by (simp add: sample_observation_def sample_endpoint_def)
  moreover have "sample_endpoint 1 True \<noteq> sample_endpoint 2 False" by (simp add: sample_endpoint_def)
  ultimately show ?thesis using that by (auto simp: admissible_def sample_endpoints_def)
qed

lemma sample_selects:
  "\<exists>d. select_model_route (\<lambda>q. sample_sha) sample_request sample_endpoints sample_policy
     [sample_observation] (utc 10) = Inr d \<and> rd_check d = None"
  using selection_outcome [OF sample_inputs, of "\<lambda>q. sample_sha"] sample_admissible
  by (auto simp: sample_endpoints_def split: if_splits)

section \<open>Witnesses\<close>

theorem route_is_admissible_witness:
  "\<exists>d. select_model_route (\<lambda>q. sample_sha) sample_request sample_endpoints sample_policy
     [sample_observation] (utc 10) = Inr d \<and> rd_route d = [uuid_str 1]"
proof -
  obtain d where d: "select_model_route (\<lambda>q. sample_sha) sample_request sample_endpoints sample_policy
     [sample_observation] (utc 10) = Inr d" using sample_selects by blast
  have "{c \<in> set sample_endpoints. admissible sample_request sample_policy [sample_observation] (utc 10) c}
      = {sample_endpoint 1 True}"
    using sample_admissible by (auto simp: sample_endpoints_def)
  with route_is_admissible [OF d] have "set (rd_route d) = {uuid_str 1}" "distinct (rd_route d)"
    by (simp_all add: sample_endpoint_def)
  then have "rd_route d = [uuid_str 1]"
    unfolding rd_route_def by (cases "rd_fallback_ids d") auto
  with d show ?thesis by blast
qed

theorem route_is_ranked_witness:
  "\<exists>d. select_model_route (\<lambda>q. sample_sha) sample_request sample_endpoints sample_policy
     [sample_observation] (utc 10) = Inr d \<and>
     (\<forall>k \<in> set (rd_candidate_scores d). \<exists>c \<in> set sample_endpoints. cs_endpoint_id k = ec_id c)"
proof -
  obtain d where d: "select_model_route (\<lambda>q. sample_sha) sample_request sample_endpoints sample_policy
     [sample_observation] (utc 10) = Inr d" using sample_selects by blast
  with route_is_ranked [OF d] show ?thesis by blast
qed

theorem route_rejections_exact_witness:
  "\<exists>d. select_model_route (\<lambda>q. sample_sha) sample_request sample_endpoints sample_policy
     [sample_observation] (utc 10) = Inr d \<and> distinct (map fst (rd_rejection_counts d))"
proof -
  obtain d where d: "select_model_route (\<lambda>q. sample_sha) sample_request sample_endpoints sample_policy
     [sample_observation] (utc 10) = Inr d" using sample_selects by blast
  with route_rejections_exact [OF disjI1 [OF d]] show ?thesis by auto
qed

theorem route_selection_total_witness:
  "\<exists>d. select_model_route (\<lambda>q. sample_sha) sample_request sample_endpoints sample_policy
     [sample_observation] (utc 10) = Inr d \<and> (\<forall>k \<in> set (rd_candidate_scores d). cs_score k \<le> 1)"
  using route_selection_total [OF sample_inputs, of "\<lambda>q. sample_sha"] sample_admissible
  by (auto simp: sample_endpoints_def split: if_splits)

theorem route_selection_deterministic_witness:
  "select_model_route (\<lambda>q. sample_sha) sample_request sample_endpoints sample_policy [sample_observation] (utc 10) =
   select_model_route (\<lambda>q. sample_sha) sample_request (rev sample_endpoints) sample_policy [sample_observation] (utc 10)"
  by (rule route_selection_deterministic) simp_all

theorem failover_walks_route_witness:
  "\<exists>d. rd_check d = None \<and> next_fallback UNKNOWN_OUTCOME (rd_route d) d = Inr None"
proof -
  obtain d where d: "rd_check d = None" using sample_selects by blast
  have "\<exists>n \<in> {1..length (rd_route d)}. rd_route d = take n (rd_route d)"
    by (rule bexI [of _ "length (rd_route d)"]) (simp_all add: rd_route_def)
  with failover_walks_route [OF d, of UNKNOWN_OUTCOME "rd_route d"] d show ?thesis
    by (auto simp: safe_to_fail_over_def)
qed

end
