(* ===== verification/Floats.thy ===== *)
theory Floats
  imports Rounding
begin

text \<open>
  Python's \<open>float\<close>: the finite IEEE binary64 numbers, as rationals. An operation rounds its exact
  result to 53 significant bits, half to even, and to a multiple of \<open>2 ^ -1074\<close> in the subnormal
  range. Infinities, NaNs and overflow (magnitudes of \<open>2 ^ 1024\<close> and more) are not modelled: the code
  tests \<open>math.isfinite\<close> and bounds its values far below.
\<close>

definition float_precision :: "rat \<Rightarrow> int" where
  "float_precision x = min 1074 (52 - exponent_in 2 x)"

definition float_round :: "rat \<Rightarrow> rat" where
  "float_round x =
     (if x = 0 then 0
      else if 0 < x then round_to_grid (2 powi float_precision x) x
      else - round_to_grid (2 powi float_precision (- x)) (- x))"

definition is_float :: "rat \<Rightarrow> bool" where
  "is_float x \<longleftrightarrow> float_round x = x"

definition float_add :: "rat \<Rightarrow> rat \<Rightarrow> rat" where
  "float_add a b = float_round (a + b)"

definition float_div :: "rat \<Rightarrow> rat \<Rightarrow> rat" where
  "float_div a b = float_round (a / b)"

section \<open>Rounding is monotone\<close>

lemma float_round_0 [simp]: "float_round 0 = 0"
  by (simp add: float_round_def)

lemma two_powi_int: "0 \<le> n \<Longrightarrow> \<exists>k. (2 powi n :: rat) = of_int k"
  by (rule exI [of _ "2 ^ nat n"]) (simp add: power_int_def)

lemma exponent_2:
  assumes "0 < x"
  shows "2 powi exponent_in 2 x \<le> x" "x < 2 powi (exponent_in 2 x + 1)"
  using exponent_in_bounds [of 2 x] assms by simp_all

lemma two_powi_less: "(2 powi m :: rat) < 2 powi n \<Longrightarrow> m < n"
  by (rule ccontr) (use power_int_increasing [of n m "2::rat"] in auto)

lemma exponent_2_mono:
  assumes "0 < x" "x \<le> y"
  shows "exponent_in 2 x \<le> exponent_in 2 y"
proof -
  have "(2 powi exponent_in 2 x :: rat) < 2 powi (exponent_in 2 y + 1)"
    using exponent_2(1) [of x] exponent_2(2) [of y] assms by simp
  then show ?thesis using two_powi_less by fastforce
qed

lemma two_powi_times: "(2 powi m :: rat) * 2 powi n = 2 powi (m + n)"
  by (simp add: power_int_add)

lemma float_round_mono_pos:
  assumes "0 < x" "x \<le> y"
  shows "float_round x \<le> float_round y"
proof (cases "float_precision x = float_precision y")
  case True
  with assms show ?thesis by (simp add: float_round_def grid_mono)
next
  case False
  let ?b = "2 powi exponent_in 2 y :: rat"
  have e: "exponent_in 2 x \<le> exponent_in 2 y" by (rule exponent_2_mono [OF assms])
  with False have lt: "exponent_in 2 x + 1 \<le> exponent_in 2 y" and p: "float_precision y = 52 - exponent_in 2 y"
    "float_precision y \<le> float_precision x"
    by (auto simp: float_precision_def min_def split: if_splits)
  have "x \<le> 2 powi (exponent_in 2 x + 1)" using exponent_2(2) [OF assms(1)] by simp
  also have "\<dots> \<le> ?b" using lt by (intro power_int_increasing) simp_all
  finally have xb: "x \<le> ?b" .
  have yb: "?b \<le> y" using exponent_2(1) [of y] assms by simp
  obtain k where k: "?b * 2 powi float_precision x = of_int k"
    using two_powi_int [of "exponent_in 2 y + float_precision x"] p by (auto simp: two_powi_times)
  obtain l where l: "?b * 2 powi float_precision y = of_int l"
    using two_powi_int [of "exponent_in 2 y + float_precision y"] p by (auto simp: two_powi_times)
  show ?thesis
    using grids_mono [OF _ _ xb yb k l] assms by (simp add: float_round_def)
qed

lemma float_round_nonneg: "0 \<le> x \<Longrightarrow> 0 \<le> float_round x"
  by (simp add: float_round_def grid_nonneg)

lemma float_round_minus: "float_round (- x) = - float_round x"
  by (simp add: float_round_def)

lemma float_round_mono: "x \<le> y \<Longrightarrow> float_round x \<le> float_round y"
proof -
  assume le: "x \<le> y"
  consider "0 < x" | "x \<le> 0" "0 \<le> y" | "y < 0" by linarith
  then show ?thesis
  proof cases
    case 1
    then show ?thesis using le by (rule float_round_mono_pos)
  next
    case 2
    then show ?thesis
      using float_round_nonneg [of y] float_round_nonneg [of "- x"] by (simp add: float_round_minus)
  next
    case 3
    then show ?thesis
      using float_round_mono_pos [of "- y" "- x"] le by (simp add: float_round_minus)
  qed
qed

section \<open>Rounding is idempotent\<close>

lemma float_round_idem_pos:
  assumes x: "0 < x"
  shows "float_round (float_round x) = float_round x"
proof -
  let ?e = "exponent_in 2 x" and ?p = "float_precision x" and ?y = "float_round x"
  obtain k where y: "?y = of_int k / 2 powi ?p" using x by (simp add: float_round_def round_to_grid_def)
  show ?thesis
  proof (cases "?y = 0")
    case False
    with float_round_nonneg [of x] x have y0: "0 < ?y" by simp
    obtain l where "?y * 2 powi float_precision ?y = of_int l"
    proof (cases "?p \<le> float_precision ?y")
      case True
      obtain j where "(2 powi (float_precision ?y - ?p) :: rat) = of_int j"
        using two_powi_int [of "float_precision ?y - ?p"] True by auto
      then have "?y * 2 powi float_precision ?y = of_int (k * j)"
        unfolding y by (simp add: power_int_diff field_simps)
      then show ?thesis by (rule that)
    next
      case f: False
      have "(2 powi (- 1075) :: rat) \<le> x"
      proof (rule ccontr)
        assume "\<not> 2 powi (- 1075) \<le> x"
        then have small: "x < 2 powi (- 1075)" by simp
        then have "?e < - 1075" using exponent_2(1) [OF x] two_powi_less by fastforce
        then have p: "?p = 1074" by (simp add: float_precision_def)
        have "x * 2 powi 1074 < 2 powi (- 1075) * 2 powi 1074" using small by (intro mult_strict_right_mono) simp_all
        then have "x * 2 powi 1074 < 1 / 2" by (simp only: two_powi_times) (simp add: power_int_minus)
        then have "round_half_even (x * 2 powi 1074) = 0"
          using x by (intro round_half_even_small) simp_all
        then have "?y = 0" using x p by (simp add: float_round_def round_to_grid_def)
        with y0 show False by simp
      qed
      then have "- 1075 \<le> ?e" using exponent_2(2) [OF x] two_powi_less [of "- 1075" "?e + 1"] by simp
      then have "0 \<le> (?e + 1) + ?p" by (simp add: float_precision_def)
      then obtain j where "(2 powi (?e + 1) :: rat) * 2 powi ?p = of_int j"
        using two_powi_int [of "(?e + 1) + ?p"] by (auto simp: two_powi_times)
      then have hi: "?y \<le> 2 powi (?e + 1)"
        using x exponent_2(2) [OF x] by (simp add: float_round_def grid_le)
      have e': "?e + 1 \<le> exponent_in 2 ?y" "float_precision ?y = 52 - exponent_in 2 ?y"
        using f by (auto simp: float_precision_def min_def split: if_splits)
      have "(2 powi (?e + 1) :: rat) \<le> 2 powi exponent_in 2 ?y"
        using e'(1) by (intro power_int_increasing) simp_all
      with hi exponent_2(1) [OF y0] have "?y = 2 powi exponent_in 2 ?y" by simp
      then have "?y * 2 powi float_precision ?y = 2 powi 52"
        using e'(2) two_powi_times [of "exponent_in 2 ?y" "float_precision ?y"] by simp
      then show ?thesis using that [of "2 ^ 52"] by simp
    qed
    then show ?thesis using y0 by (simp add: float_round_def [of ?y] grid_fixed)
  qed simp
qed

lemma is_float_round [simp]: "is_float (float_round x)"
proof -
  consider "0 < x" | "x = 0" | "0 < - x" by linarith
  then show ?thesis
  proof cases
    case 3
    then show ?thesis using float_round_idem_pos [of "- x"] by (simp add: is_float_def float_round_minus)
  qed (simp_all add: is_float_def float_round_idem_pos)
qed

lemma is_float_0 [simp]: "is_float 0"
  by (simp add: is_float_def)

lemma is_float_add [simp]: "is_float (float_add a b)"
  by (simp add: float_add_def)

lemma float_add_mono: "a \<le> c \<Longrightarrow> b \<le> d \<Longrightarrow> float_add a b \<le> float_add c d"
  by (simp add: float_add_def float_round_mono)

lemma float_add_increasing: "is_float a \<Longrightarrow> 0 \<le> b \<Longrightarrow> a \<le> float_add a b"
  using float_round_mono [of a "a + b"] by (simp add: float_add_def is_float_def)

lemma float_add_0 [simp]: "is_float a \<Longrightarrow> float_add a 0 = a"
  by (simp add: float_add_def is_float_def)

lemma float_add_nonneg: "0 \<le> a \<Longrightarrow> 0 \<le> b \<Longrightarrow> 0 \<le> float_add a b"
  by (simp add: float_add_def float_round_nonneg)

lemma float_div_nonneg: "0 \<le> a \<Longrightarrow> 0 < b \<Longrightarrow> 0 \<le> float_div a b"
  by (simp add: float_div_def float_round_nonneg)

lemma float_div_antimono: "0 \<le> a \<Longrightarrow> 0 < b \<Longrightarrow> b \<le> c \<Longrightarrow> float_div a c \<le> float_div a b"
  by (simp add: float_div_def float_round_mono frac_le)

end
