(* ===== verification/Retrieval.thy ===== *)
theory Retrieval
  imports Identity Floats "HOL-Library.AList"
    "HOL-Library.List_Lexorder" "HOL-Library.Char_ord" "HOL-Library.Product_Lexorder"
begin

text \<open>
  The ranking primitives of \<open>retrieval.py\<close>: reciprocal rank fusion of the candidate channels, the
  bounded rerank, the deduplication and the final bound. A \<open>dict\<close> is an association list in
  insertion order (\<open>AList.update\<close> keeps the place of a key, as Python does), scores are \<open>float\<close>
  values (theory \<open>Floats\<close>).
\<close>

section \<open>Channels and policies\<close>

datatype retrieval_channel = IMAGE_DENSE | PRODUCT_FUSED_DENSE | LEXICAL | BRAND_PROFILE | EXPLICIT

definition all_channels :: "retrieval_channel list" where
  "all_channels = [IMAGE_DENSE, PRODUCT_FUSED_DENSE, LEXICAL, BRAND_PROFILE, EXPLICIT]"

record retrieval_policy =
  rtp_version :: string
  rtp_rrf_k :: int
  rtp_channel_weights :: "(retrieval_channel \<times> rat) list"
  rtp_maximum_business_adjustment :: rat

definition rtp_check :: "retrieval_policy \<Rightarrow> error option" where
  "rtp_check p = guards
     [guard (\<not> is_token (rtp_version p)) ValueError,
      guard (\<not> (1 \<le> rtp_rrf_k p \<and> rtp_rrf_k p \<le> 10000)) ValueError,
      guard (set (map fst (rtp_channel_weights p)) \<noteq> set all_channels) ValueError,
      guard (list_ex (\<lambda>(ch, w). \<not> (0 < w \<and> w \<le> 100)) (rtp_channel_weights p)) ValueError,
      guard (\<not> (0 \<le> rtp_maximum_business_adjustment p \<and> rtp_maximum_business_adjustment p \<le> 1)) ValueError]"

section \<open>Candidates\<close>

record ranked_candidate =
  rk_asset_version_id :: string
  rk_channel_ranks :: "(retrieval_channel \<times> int) list"
  rk_rrf_score :: rat
  rk_business_adjustment :: rat
  rk_final_score :: rat

record retrieval_candidate =
  rc_asset_id :: string
  rc_asset_version_id :: string
  rc_content_sha256 :: string
  rc_required :: bool

definition rc_check :: "retrieval_candidate \<Rightarrow> error option" where
  "rc_check c = guards
     [parses_uuid (rc_asset_id c), parses_uuid (rc_asset_version_id c),
      guard (\<not> is_sha256 (rc_content_sha256 c)) ValueError]"

section \<open>Reciprocal rank fusion\<close>

record fusion_state =
  fs_channel_ranks :: "(string \<times> (retrieval_channel \<times> int) list) list"
  fs_scores :: "(string \<times> rat) list"

definition get_or :: "('k \<times> 'v) list \<Rightarrow> 'k \<Rightarrow> 'v \<Rightarrow> 'v" where
  "get_or d k v = (case map_of d k of None \<Rightarrow> v | Some x \<Rightarrow> x)"

definition fuse_hit :: "int \<Rightarrow> rat \<Rightarrow> retrieval_channel \<Rightarrow> int \<Rightarrow> string \<Rightarrow> fusion_state \<Rightarrow> fusion_state" where
  "fuse_hit k w channel rank i st =
     \<lparr>fs_channel_ranks = AList.update i
        (AList.update channel rank (get_or (fs_channel_ranks st) i [])) (fs_channel_ranks st),
      fs_scores = AList.update i
        (float_add (get_or (fs_scores st) i 0) (float_div w (of_int (k + rank)))) (fs_scores st)\<rparr>"

fun fuse_hits ::
  "int \<Rightarrow> rat \<Rightarrow> retrieval_channel \<Rightarrow> int \<Rightarrow> string list \<Rightarrow> fusion_state \<Rightarrow> error + fusion_state" where
  "fuse_hits k w channel rank [] st = Inr st"
| "fuse_hits k w channel rank (i # ids) st =
     (case parses_uuid i of
        Some e \<Rightarrow> Inl e
      | None \<Rightarrow> fuse_hits k w channel (rank + 1) ids (fuse_hit k w channel rank i st))"

fun fuse_rankings ::
  "retrieval_policy \<Rightarrow> (retrieval_channel \<times> string list) list \<Rightarrow> fusion_state \<Rightarrow> error + fusion_state" where
  "fuse_rankings p [] st = Inr st"
| "fuse_rankings p ((channel, ids) # rest) st =
     (case map_of (rtp_channel_weights p) channel of
        None \<Rightarrow> Inl ValueError
      | Some w \<Rightarrow>
          if \<not> distinct ids then Inl ValueError
          else case fuse_hits (rtp_rrf_k p) w channel 1 ids st of
                 Inl e \<Rightarrow> Inl e
               | Inr st' \<Rightarrow> fuse_rankings p rest st')"

definition fused_candidate :: "(string \<times> rat) list \<Rightarrow> fusion_state \<Rightarrow> string \<times> rat \<Rightarrow> ranked_candidate" where
  "fused_candidate adjustments st = (\<lambda>(i, rrf).
     \<lparr>rk_asset_version_id = i, rk_channel_ranks = get_or (fs_channel_ranks st) i [],
      rk_rrf_score = rrf, rk_business_adjustment = get_or adjustments i 0,
      rk_final_score = float_add rrf (get_or adjustments i 0)\<rparr>)"

definition candidate_key :: "ranked_candidate \<Rightarrow> rat \<times> string" where
  "candidate_key c = (- rk_final_score c, rk_asset_version_id c)"

definition empty_fusion :: fusion_state where
  "empty_fusion = \<lparr>fs_channel_ranks = [], fs_scores = []\<rparr>"

definition reciprocal_rank_fuse ::
  "(retrieval_channel \<times> string list) list \<Rightarrow> retrieval_policy \<Rightarrow> (string \<times> rat) list \<Rightarrow>
     error + ranked_candidate list" where
  "reciprocal_rank_fuse rankings p adjustments =
     (case fuse_rankings p rankings empty_fusion of
        Inl e \<Rightarrow> Inl e
      | Inr st \<Rightarrow>
          if \<not> set (map fst adjustments) \<subseteq> set (map fst (fs_scores st)) then Inl ValueError
          else if list_ex (\<lambda>(i, rrf). rtp_maximum_business_adjustment p < \<bar>get_or adjustments i 0\<bar>) (fs_scores st)
          then Inl ValueError
          else Inr (sort_key candidate_key (map (fused_candidate adjustments st) (fs_scores st))))"

section \<open>Rerank, deduplication and bound\<close>

definition apply_bounded_rerank :: "string list \<Rightarrow> string list \<Rightarrow> error + string list" where
  "apply_bounded_rerank supplied reranked =
     (if \<not> distinct supplied \<or> \<not> distinct reranked \<or> set supplied \<noteq> set reranked then Inl ValueError
      else case guards (map parses_uuid supplied) of Some e \<Rightarrow> Inl e | None \<Rightarrow> Inr reranked)"

text \<open>The loop of \<open>deduplicate_retrieval_candidates\<close> with its three sets.\<close>

fun dedupe_loop ::
  "string set \<Rightarrow> string set \<Rightarrow> string set \<Rightarrow> string set \<Rightarrow> string set \<Rightarrow>
     retrieval_candidate list \<Rightarrow> retrieval_candidate list" where
  "dedupe_loop req_assets req_hashes versions assets hashes [] = []"
| "dedupe_loop req_assets req_hashes versions assets hashes (c # cs) =
     (if rc_asset_version_id c \<in> versions then dedupe_loop req_assets req_hashes versions assets hashes cs
      else if rc_required c then c # dedupe_loop req_assets req_hashes (insert (rc_asset_version_id c) versions) assets hashes cs
      else if rc_asset_id c \<in> req_assets \<or> rc_content_sha256 c \<in> req_hashes
      then dedupe_loop req_assets req_hashes (insert (rc_asset_version_id c) versions) assets hashes cs
      else if rc_asset_id c \<in> assets \<or> rc_content_sha256 c \<in> hashes
      then dedupe_loop req_assets req_hashes (insert (rc_asset_version_id c) versions) assets hashes cs
      else c # dedupe_loop req_assets req_hashes (insert (rc_asset_version_id c) versions) (insert (rc_asset_id c) assets)
             (insert (rc_content_sha256 c) hashes) cs)"

definition deduplicate_retrieval_candidates :: "retrieval_candidate list \<Rightarrow> retrieval_candidate list" where
  "deduplicate_retrieval_candidates cs = dedupe_loop
     (set (map rc_asset_id (filter rc_required cs))) (set (map rc_content_sha256 (filter rc_required cs)))
     {} {} {} cs"

fun bound_loop :: "int \<Rightarrow> retrieval_candidate list \<Rightarrow> retrieval_candidate list" where
  "bound_loop optional [] = []"
| "bound_loop optional (c # cs) =
     (if rc_required c then c # bound_loop optional cs
      else if optional \<noteq> 0 then c # bound_loop (optional - 1) cs
      else bound_loop optional cs)"

definition bound_retrieval_candidates ::
  "int \<Rightarrow> retrieval_candidate list \<Rightarrow> error + retrieval_candidate list" where
  "bound_retrieval_candidates limit cs =
     (let required = int (length (filter rc_required cs)) in
      case guards
        [guard (limit < 1) ValueError,
         guard (\<not> distinct (map rc_asset_version_id cs)) ValueError,
         guard (limit < required) ValueError] of
        Some e \<Rightarrow> Inl e
      | None \<Rightarrow> Inr (bound_loop (limit - required) cs))"

end
