(* ===== verification/Texts.thy ===== *)
theory Texts
  imports Identity
begin

text \<open>
  Text the program prints: decimal numbers and joined fields, with the lemmas that make printed
  identities injective.
\<close>

section \<open>Printing\<close>

text \<open>\<open>str(n)\<close> of a number that is not negative.\<close>

fun str_of_nat :: "nat \<Rightarrow> string" where
  "str_of_nat n = (if n < 10 then [char_of (48 + n)] else str_of_nat (n div 10) @ [char_of (48 + n mod 10)])"

declare str_of_nat.simps [simp del]

definition str_of_int :: "int \<Rightarrow> string" where
  "str_of_int n = (if n < 0 then CHR ''-'' # str_of_nat (nat (- n)) else str_of_nat (nat n))"

text \<open>\<open>sep.join(parts)\<close>\<close>

fun join :: "string \<Rightarrow> string list \<Rightarrow> string" where
  "join sep [] = []"
| "join sep [x] = x"
| "join sep (x # y # ys) = x @ sep @ join sep (y # ys)"

section \<open>Injectivity\<close>

fun dec_value :: "nat \<Rightarrow> string \<Rightarrow> nat" where
  "dec_value a [] = a"
| "dec_value a (c # cs) = dec_value (10 * a + (code c - 48)) cs"

lemma dec_value_append: "dec_value a (s @ t) = dec_value (dec_value a s) t"
  by (induction a s rule: dec_value.induct) simp_all

lemma dec_value_str: "dec_value 0 (str_of_nat n) = n"
proof (induction n rule: str_of_nat.induct)
  case (1 n)
  show ?case
  proof (cases "n < 10")
    case True
    then show ?thesis by (simp add: str_of_nat.simps [of n])
  next
    case False
    then have "dec_value 0 (str_of_nat n) = 10 * (n div 10) + n mod 10"
      using 1 by (simp add: str_of_nat.simps [of n] dec_value_append)
    then show ?thesis by simp
  qed
qed

lemma str_of_nat_inj: "str_of_nat m = str_of_nat n \<Longrightarrow> m = n"
  by (metis dec_value_str)

lemma str_of_nat_digits: "c \<in> set (str_of_nat n) \<Longrightarrow> is_digit c"
proof (induction n rule: str_of_nat.induct)
  case (1 n)
  have d: "is_digit (char_of (48 + k))" if "k < 10" for k :: nat
    using that by (simp add: is_digit_def between_def)
  show ?case
  proof (cases "n < 10")
    case True
    then show ?thesis using "1.prems" d by (auto simp: str_of_nat.simps [of n])
  next
    case False
    then show ?thesis using 1 d [of "n mod 10"] by (auto simp: str_of_nat.simps [of n])
  qed
qed

lemma str_of_int_inj: "0 \<le> m \<Longrightarrow> 0 \<le> n \<Longrightarrow> str_of_int m = str_of_int n \<Longrightarrow> m = n"
  by (auto simp: str_of_int_def dest: str_of_nat_inj)

lemma str_of_int_digits: "0 \<le> n \<Longrightarrow> c \<in> set (str_of_int n) \<Longrightarrow> is_digit c"
  by (auto simp: str_of_int_def intro: str_of_nat_digits)

lemma append_sep_inj:
  "c \<notin> set x \<Longrightarrow> c \<notin> set y \<Longrightarrow> x @ c # u = y @ c # v \<longleftrightarrow> x = y \<and> u = v"
proof (induction x arbitrary: y)
  case Nil
  then show ?case by (cases y) auto
next
  case (Cons a x)
  then show ?case by (cases y) auto
qed

lemma join_inj:
  "length xs = length ys \<Longrightarrow> \<forall>x \<in> set xs \<union> set ys. c \<notin> set x \<Longrightarrow> join [c] xs = join [c] ys \<Longrightarrow> xs = ys"
proof (induction xs ys rule: list_induct2)
  case (Cons x xs y ys)
  show ?case
  proof (cases xs)
    case Nil
    with Cons show ?thesis by simp
  next
    case (Cons x' xs')
    then obtain y' ys' where ys: "ys = y' # ys'" using \<open>length xs = length ys\<close> by (cases ys) auto
    have "x @ c # join [c] xs = y @ c # join [c] ys"
      using Cons.prems(2) \<open>xs = x' # xs'\<close> ys by simp
    moreover have "c \<notin> set x" "c \<notin> set y" using Cons.prems(1) by simp_all
    ultimately have "x = y" "join [c] xs = join [c] ys" by (simp_all add: append_sep_inj)
    then show ?thesis using Cons.IH Cons.prems(1) by auto
  qed
qed simp

end
