(* ===== verification/Indexing.thy ===== *)
theory Indexing
  imports Texts Interfaces
begin

text \<open>
  The index registry of \<open>indexing/entities.py\<close>: the identity of a vector collection, the input hash
  and the vector-store key of an embedding, and the embedding record with its write generations. SHA-256
  and the name-based UUID (\<open>uuid5\<close> in the module's namespace) are arguments of the definitions that
  use them.
\<close>

section \<open>Enumerations\<close>

datatype vector_kind = VK_IMAGE | VK_PRODUCT_FUSED

fun vector_kind_value :: "vector_kind \<Rightarrow> string" where
  "vector_kind_value VK_IMAGE = ''IMAGE''"
| "vector_kind_value VK_PRODUCT_FUSED = ''PRODUCT_FUSED''"

datatype embedding_state =
    ES_PENDING | ES_PROCESSING | ES_INDEXED | ES_RETRYABLE_FAILED | ES_PERMANENT_FAILED
  | ES_STALE | ES_DELETE_PENDING | ES_DELETED

section \<open>Identity tokens\<close>

definition is_identity_char :: "char \<Rightarrow> bool" where
  "is_identity_char c \<longleftrightarrow> is_alnum c \<or> c \<in> set ''._-''"

definition is_identity_token :: "string \<Rightarrow> bool" where
  "is_identity_token v \<longleftrightarrow> v \<noteq> [] \<and> length v \<le> 128 \<and> is_alnum (hd v) \<and> list_all is_identity_char v"

definition require_identity_token :: "string \<Rightarrow> error option" where
  "require_identity_token v =
     guard (\<not> is_identity_token v \<or> lower v \<in> {''latest'', ''main'', ''stable''}) ValueError"

section \<open>Collections\<close>

record collection_spec =
  col_model_family :: string
  col_pinned_revision :: string
  col_dimension :: int
  col_vector_kind :: vector_kind
  col_schema_version :: int
  col_index_spec_version :: string

definition col_check :: "collection_spec \<Rightarrow> error option" where
  "col_check c = guards
     [require_identity_token (col_model_family c),
      require_identity_token (col_pinned_revision c),
      require_identity_token (col_index_spec_version c),
      guard (\<not> (1 \<le> col_dimension c \<and> col_dimension c \<le> 32768)) ValueError,
      guard (col_schema_version c < 1) ValueError]"

definition col_create ::
  "string \<Rightarrow> string \<Rightarrow> int \<Rightarrow> vector_kind \<Rightarrow> int \<Rightarrow> string \<Rightarrow> error + collection_spec" where
  "col_create family revision dimension kind schema index_version =
     (let c = \<lparr>col_model_family = family, col_pinned_revision = revision, col_dimension = dimension,
               col_vector_kind = kind, col_schema_version = schema, col_index_spec_version = index_version\<rparr>
      in case col_check c of Some e \<Rightarrow> Inl e | None \<Rightarrow> Inr c)"

definition col_logical_key :: "collection_spec \<Rightarrow> string" where
  "col_logical_key c = join '':''
     [col_model_family c, col_pinned_revision c, str_of_int (col_dimension c),
      vector_kind_value (col_vector_kind c), str_of_int (col_schema_version c), col_index_spec_version c]"

definition col_spec_hash :: "(string \<Rightarrow> string) \<Rightarrow> collection_spec \<Rightarrow> string" where
  "col_spec_hash sha256 c = sha256 (col_logical_key c)"

definition col_physical_name :: "(string \<Rightarrow> string) \<Rightarrow> collection_spec \<Rightarrow> string" where
  "col_physical_name sha256 c =
     ''cv_'' @ lower (vector_kind_value (col_vector_kind c)) @ ''_'' @ take 16 (col_spec_hash sha256 c)"

definition collection_instance_name ::
  "(string \<Rightarrow> string) \<Rightarrow> collection_spec \<Rightarrow> string \<Rightarrow> error + string" where
  "collection_instance_name sha256 c rebuild_id =
     (case validate_uuid rebuild_id of
        Some e \<Rightarrow> Inl e
      | None \<Rightarrow>
          let name = col_physical_name sha256 c @ ''_'' @
                take 12 (filter (\<lambda>ch. ch \<noteq> CHR ''-'') rebuild_id)
          in if 255 < length name then Inl ValueError else Inr name)"

section \<open>Embedding inputs and keys\<close>

definition embedding_input_text :: "vector_kind \<Rightarrow> string \<Rightarrow> string \<Rightarrow> string \<Rightarrow> string \<Rightarrow> string" where
  "embedding_input_text kind content provider preprocessing configuration =
     join [char_of (0 :: nat)] [vector_kind_value kind, content, provider, preprocessing, configuration]"

definition compute_embedding_input_hash ::
  "(string \<Rightarrow> string) \<Rightarrow> vector_kind \<Rightarrow> string \<Rightarrow> string \<Rightarrow> string \<Rightarrow> string \<Rightarrow> error + string" where
  "compute_embedding_input_hash sha256 kind content provider preprocessing configuration =
     (case guards
        [validate_sha256 content, require_identity_token provider,
         require_identity_token preprocessing, require_identity_token configuration] of
        Some e \<Rightarrow> Inl e
      | None \<Rightarrow> Inr (sha256 (embedding_input_text kind content provider preprocessing configuration)))"

definition generation_milvus_primary_key :: "string \<Rightarrow> int \<Rightarrow> error + string" where
  "generation_milvus_primary_key record_id generation =
     (case guards [parses_uuid record_id, guard (generation < 1) ValueError] of
        Some e \<Rightarrow> Inl e
      | None \<Rightarrow>
          let key = record_id @ '':g'' @ str_of_int generation
          in if 64 < length key then Inl ValueError else Inr key)"

section \<open>Embedding records\<close>

record embedding_record =
  er_id :: string
  er_workspace_id :: string
  er_asset_id :: string
  er_asset_version_id :: string
  er_asset_version_number :: int
  er_rights_record_id :: string
  er_rights_record_version :: int
  er_collection_id :: string
  er_embedding_spec_hash :: string
  er_input_hash :: string
  er_vector_kind :: vector_kind
  er_product_brief_version_id :: "string option"
  er_controlled_text_sha256 :: "string option"
  er_milvus_primary_key :: string
  er_state :: embedding_state
  er_write_generation :: int
  er_provider_request_id :: "string option"
  er_actual_model :: "string option"
  er_indexed_at :: "datetime option"
  er_stale_at :: "datetime option"
  er_stale_reason :: "string option"
  er_version :: int
  er_created_at :: datetime
  er_updated_at :: datetime

definition er_check_brief :: "embedding_record \<Rightarrow> error option" where
  "er_check_brief r =
     (if er_vector_kind r = VK_PRODUCT_FUSED then
        (case (er_product_brief_version_id r, er_controlled_text_sha256 r) of
           (Some b, Some t) \<Rightarrow> guards [parses_uuid b, validate_sha256 t]
         | _ \<Rightarrow> Some ValueError)
      else guard (er_product_brief_version_id r \<noteq> None \<or> er_controlled_text_sha256 r \<noteq> None) ValueError)"

definition er_check :: "embedding_record \<Rightarrow> error option" where
  "er_check r = guards
     [validate_workspace_id (er_workspace_id r),
      parses_uuid (er_id r), parses_uuid (er_asset_id r), parses_uuid (er_asset_version_id r),
      parses_uuid (er_rights_record_id r), parses_uuid (er_collection_id r),
      validate_sha256 (er_embedding_spec_hash r), validate_sha256 (er_input_hash r),
      er_check_brief r,
      guard (er_asset_version_number r < 1 \<or> er_rights_record_version r < 1) ValueError,
      guard (er_milvus_primary_key r \<noteq> er_id r) ValueError,
      guard (er_write_generation r < 0 \<or> er_version r < 1) ValueError]"

definition er_deterministic_id ::
  "(string \<Rightarrow> string) \<Rightarrow> vector_kind \<Rightarrow> string \<Rightarrow> string \<Rightarrow> string \<Rightarrow> string" where
  "er_deterministic_id uuid5 kind asset_version_id spec_hash input_hash = uuid5
     (if kind = VK_PRODUCT_FUSED then join '':'' [asset_version_id, spec_hash, input_hash]
      else join '':'' [asset_version_id, spec_hash])"

definition er_create ::
  "(string \<Rightarrow> string) \<Rightarrow> string \<Rightarrow> string \<Rightarrow> string \<Rightarrow> int \<Rightarrow> string \<Rightarrow> int \<Rightarrow> string \<Rightarrow> string \<Rightarrow> string \<Rightarrow>
   vector_kind \<Rightarrow> string option \<Rightarrow> string option \<Rightarrow> datetime \<Rightarrow> error + embedding_record" where
  "er_create uuid5 workspace asset version version_number rights rights_version collection spec_hash
     input_hash kind brief text_sha now =
     (let i = er_deterministic_id uuid5 kind version spec_hash input_hash;
          r = \<lparr>er_id = i, er_workspace_id = workspace, er_asset_id = asset, er_asset_version_id = version,
               er_asset_version_number = version_number, er_rights_record_id = rights,
               er_rights_record_version = rights_version, er_collection_id = collection,
               er_embedding_spec_hash = spec_hash, er_input_hash = input_hash, er_vector_kind = kind,
               er_product_brief_version_id = brief, er_controlled_text_sha256 = text_sha,
               er_milvus_primary_key = i, er_state = ES_PENDING, er_write_generation = 0,
               er_provider_request_id = None, er_actual_model = None, er_indexed_at = None,
               er_stale_at = None, er_stale_reason = None, er_version = 1, er_created_at = now,
               er_updated_at = now\<rparr>
      in case er_check r of Some e \<Rightarrow> Inl e | None \<Rightarrow> Inr r)"

definition er_touch :: "datetime \<Rightarrow> embedding_record \<Rightarrow> embedding_record" where
  "er_touch now r = r\<lparr>er_updated_at := now, er_version := er_version r + 1\<rparr>"

definition er_assert_generation :: "int \<Rightarrow> embedding_record \<Rightarrow> error option" where
  "er_assert_generation g r = guard (g \<noteq> er_write_generation r) ValueError"

definition er_begin_processing :: "datetime \<Rightarrow> embedding_record \<Rightarrow> (int, embedding_record) outcome" where
  "er_begin_processing now r =
     check (guard (er_state r \<notin> {ES_PENDING, ES_RETRYABLE_FAILED, ES_STALE, ES_DELETE_PENDING}) ValueError) r
      (Done (er_write_generation r + 1) (er_touch now
        (r\<lparr>er_write_generation := er_write_generation r + 1, er_state := ES_PROCESSING,
           er_stale_at := None, er_stale_reason := None\<rparr>)))"

definition er_mark_failed :: "int \<Rightarrow> bool \<Rightarrow> datetime \<Rightarrow> embedding_record \<Rightarrow> (unit, embedding_record) outcome" where
  "er_mark_failed g retryable now r =
     check (guards [guard (er_state r \<noteq> ES_PROCESSING) ValueError, er_assert_generation g r]) r
      (Done () (er_touch now
        (r\<lparr>er_state := (if retryable then ES_RETRYABLE_FAILED else ES_PERMANENT_FAILED)\<rparr>)))"

definition er_milvus_key_for :: "int \<Rightarrow> embedding_record \<Rightarrow> error + string" where
  "er_milvus_key_for g r = generation_milvus_primary_key (er_id r) g"

definition er_mark_indexed ::
  "int \<Rightarrow> string \<Rightarrow> string \<Rightarrow> datetime \<Rightarrow> embedding_record \<Rightarrow> (unit, embedding_record) outcome" where
  "er_mark_indexed g request_id model now r =
     check (guards
       [guard (er_state r \<noteq> ES_PROCESSING) ValueError,
        er_assert_generation g r,
        guard (request_id = [] \<or> model = []) ValueError]) r
      (Done () (er_touch now
        (r\<lparr>er_state := ES_INDEXED, er_provider_request_id := Some request_id,
           er_actual_model := Some model, er_indexed_at := Some now, er_stale_at := None,
           er_stale_reason := None\<rparr>)))"

definition er_mark_stale :: "int \<Rightarrow> string \<Rightarrow> datetime \<Rightarrow> embedding_record \<Rightarrow> (unit, embedding_record) outcome" where
  "er_mark_stale g reason now r =
     check (guards [er_assert_generation g r, guard (reason = []) ValueError]) r
      (Done () (er_touch now
        (r\<lparr>er_state := ES_STALE, er_stale_at := Some now, er_stale_reason := Some reason\<rparr>)))"

definition er_begin_delete :: "int \<Rightarrow> datetime \<Rightarrow> embedding_record \<Rightarrow> (unit, embedding_record) outcome" where
  "er_begin_delete g now r =
     check (guards [er_assert_generation g r, guard (er_state r \<noteq> ES_STALE) ValueError]) r
      (Done () (er_touch now (r\<lparr>er_state := ES_DELETE_PENDING\<rparr>)))"

definition er_complete_delete :: "int \<Rightarrow> datetime \<Rightarrow> embedding_record \<Rightarrow> (bool, embedding_record) outcome" where
  "er_complete_delete g now r =
     (if g \<noteq> er_write_generation r \<or> er_state r \<noteq> ES_DELETE_PENDING then Done False r
      else Done True (er_touch now (r\<lparr>er_state := ES_DELETED\<rparr>)))"

end
