(* ===== verification/Retrieval_Service.thy ===== *)
theory Retrieval_Service
  imports Retrieval Indexing Uploads
begin

text \<open>
  The rights-first retrieval service of \<open>application/retrieval.py\<close>, with the parts of its contract
  (\<open>contracts/retrieval.py\<close>) that check the consistency of an answer. The collaborators are arguments:
  the authority that decides which asset versions may be used (before and after ranking), the sources
  of candidates, the reranker, and, for the dense sources, the catalog, the embedding provider and the
  vector search. Every collaborator is called once per request and is a function from its arguments to
  its answer or failure. Observers have no influence on the answer and are not modelled; a request is
  taken to finish within the hour its latency field allows, and degradation messages to be valid texts.
\<close>

section \<open>Queries\<close>

record retrieval_query =
  qy_workspace_id :: string
  qy_requester_id :: string
  qy_product_id :: "string option"
  qy_product_brief_id :: "string option"
  qy_category :: "string option"
  qy_brand :: "string option"
  qy_purpose :: string
  qy_provider :: string
  qy_requires_derivative :: bool
  qy_roles :: "string list"
  qy_vector_kinds :: "vector_kind list"
  qy_query_text :: "string option"
  qy_query_image_asset_version_id :: "string option"
  qy_explicit_references :: "string list"
  qy_brand_profile_id :: "string option"
  qy_brand_profile_version :: "int option"
  qy_result_limit :: int
  qy_candidate_limit :: int
  qy_retrieval_policy_version :: string

definition is_requester_identity :: "string \<Rightarrow> bool" where
  "is_requester_identity v \<longleftrightarrow> v \<noteq> [] \<and> length v \<le> 128 \<and> is_alnum (hd v) \<and>
     list_all (\<lambda>c. is_alnum c \<or> c \<in> set ''._:@/-'') v"

fun parses_uuid_opt :: "string option \<Rightarrow> error option" where
  "parses_uuid_opt None = None"
| "parses_uuid_opt (Some v) = parses_uuid v"

text \<open>
  The checks of a query after its normalisation: the validators have replaced identifiers by their
  canonical forms and texts by their NFKC forms, which are never empty.
\<close>

definition qy_check :: "retrieval_query \<Rightarrow> error option" where
  "qy_check q = guards
     [validate_workspace_id (qy_workspace_id q),
      guard (\<not> is_requester_identity (qy_requester_id q)) ValueError,
      parses_uuid_opt (qy_product_id q), parses_uuid_opt (qy_product_brief_id q),
      parses_uuid_opt (qy_query_image_asset_version_id q), parses_uuid_opt (qy_brand_profile_id q),
      guards (map parses_uuid (qy_explicit_references q)),
      guard (50 < length (qy_explicit_references q) \<or> \<not> distinct (qy_explicit_references q)) ValueError,
      validate_token (qy_purpose q), validate_token (qy_provider q), validate_token (qy_retrieval_policy_version q),
      guard (32 < length (qy_roles q) \<or> \<not> distinct (qy_roles q) \<or> \<not> list_all is_token (qy_roles q)) ValueError,
      guard (qy_vector_kinds q = [] \<or> \<not> distinct (qy_vector_kinds q)) ValueError,
      guard (case qy_brand_profile_version q of None \<Rightarrow> False | Some n \<Rightarrow> n < 1) ValueError,
      guard (\<not> (1 \<le> qy_result_limit q \<and> qy_result_limit q \<le> 50)) ValueError,
      guard (\<not> (1 \<le> qy_candidate_limit q \<and> qy_candidate_limit q \<le> 1000)) ValueError,
      guard (qy_product_id q = None \<and> qy_product_brief_id q = None) ValueError,
      guard ((qy_brand_profile_id q = None) \<noteq> (qy_brand_profile_version q = None)) ValueError,
      guard (qy_query_text q = Some [] \<or> qy_category q = Some [] \<or> qy_brand q = Some []) ValueError,
      guard (qy_query_text q = None \<and> qy_query_image_asset_version_id q = None \<and>
        qy_explicit_references q = [] \<and> qy_brand_profile_id q = None) ValueError,
      guard (VK_IMAGE \<in> set (qy_vector_kinds q) \<and> qy_query_image_asset_version_id q = None) ValueError,
      guard (qy_candidate_limit q < qy_result_limit q) ValueError]"

section \<open>Eligibility and recall\<close>

record eligible_asset =
  ea_asset_id :: string
  ea_asset_version_id :: string
  ea_content_sha256 :: string
  ea_product_id :: string
  ea_category :: string
  ea_brand :: string
  ea_role :: string
  ea_rights_record_id :: string
  ea_rights_record_version :: int
  ea_retention_class :: retention_class

definition ea_check :: "eligible_asset \<Rightarrow> error option" where
  "ea_check a = guards
     [parses_uuid (ea_asset_id a), parses_uuid (ea_asset_version_id a), parses_uuid (ea_product_id a),
      parses_uuid (ea_rights_record_id a),
      guard (\<not> is_sha256 (ea_content_sha256 a)) ValueError,
      guard (ea_rights_record_version a < 1) ValueError]"

record eligibility =
  el_decided_at :: datetime
  el_items :: "eligible_asset list"

definition el_check :: "eligibility \<Rightarrow> error option" where
  "el_check d = guards
     [guard (offset (el_decided_at d) = None) ValueError,
      guard (\<not> distinct (map ea_asset_version_id (el_items d))) ValueError]"

record recall_hit =
  rh_asset_version_id :: string
  rh_raw_score :: "rat option"

record recall_batch =
  rb_channel :: retrieval_channel
  rb_hits :: "recall_hit list"

definition rb_check :: "recall_batch \<Rightarrow> error option" where
  "rb_check b = guard (\<not> distinct (map rh_asset_version_id (rb_hits b))) ValueError"

text \<open>
  What a source answers: a batch, the explicit \<open>RetrievalSourceUnavailable\<close> with its channel and
  code, or any other exception.
\<close>

datatype recall_outcome =
    Recalled recall_batch
  | SourceUnavailable retrieval_channel string
  | RecallRaised error

text \<open>Building a batch from hits runs the checks of \<open>RetrievalRecallHit\<close> and \<open>RetrievalRecallBatch\<close>.\<close>

definition make_batch :: "retrieval_channel \<Rightarrow> recall_hit list \<Rightarrow> recall_outcome" where
  "make_batch ch hits =
     (let b = \<lparr>rb_channel = ch, rb_hits = hits\<rparr>
      in case guards (map (\<lambda>h. parses_uuid (rh_asset_version_id h)) hits @ [rb_check b]) of
           Some e \<Rightarrow> RecallRaised e
         | None \<Rightarrow> Recalled b)"

section \<open>Sources\<close>

definition explicit_recall :: "retrieval_query \<Rightarrow> string list \<Rightarrow> int \<Rightarrow> recall_outcome" where
  "explicit_recall q eligible limit = make_batch EXPLICIT
     (take (nat limit) (map (\<lambda>i. \<lparr>rh_asset_version_id = i, rh_raw_score = None\<rparr>)
       (filter (\<lambda>i. i \<in> set eligible) (qy_explicit_references q))))"

record dense_candidate =
  dc_embedding_record_id :: string
  dc_asset_version_id :: string

definition dc_check :: "dense_candidate \<Rightarrow> error option" where
  "dc_check c = guards [parses_uuid (dc_embedding_record_id c), parses_uuid (dc_asset_version_id c)]"

record dense_target =
  dt_collection_name :: string
  dt_vector_kind :: vector_kind
  dt_dimension :: int
  dt_provider :: string
  dt_model_id :: string
  dt_pinned_revision :: string
  dt_model_configuration_version :: string
  dt_preprocessing_version :: string
  dt_candidates :: "dense_candidate list"

definition is_collection_name :: "string \<Rightarrow> bool" where
  "is_collection_name v \<longleftrightarrow> v \<noteq> [] \<and> length v \<le> 255 \<and> between 97 122 (hd v) \<and>
     list_all (\<lambda>c. between 97 122 c \<or> is_digit c \<or> c = CHR ''_'') v"

definition dt_check :: "dense_target \<Rightarrow> error option" where
  "dt_check t = guards
     [guard (\<not> is_collection_name (dt_collection_name t)) ValueError,
      guard (\<not> (1 \<le> dt_dimension t \<and> dt_dimension t \<le> 32768)) ValueError,
      guard (list_ex (\<lambda>v. v = [] \<or> v \<noteq> strip v)
        [dt_provider t, dt_model_id t, dt_pinned_revision t, dt_model_configuration_version t,
         dt_preprocessing_version t]) ValueError,
      guard (\<not> distinct (map dc_embedding_record_id (dt_candidates t))) ValueError,
      guard (\<not> distinct (map dc_asset_version_id (dt_candidates t))) ValueError]"

text \<open>The failures of the catalog, the embedding provider and the vector search.\<close>

datatype catalog_failure =
    IndexUnavailable string
  | CatalogRaised error

datatype dense_failure =
    QueryImageUnavailable string
  | DataTransferDenied string
  | ProviderUnavailable
  | DenseRaised error

text \<open>The handlers of \<open>DenseRetrievalSource.recall\<close> around the embedding and the search.\<close>

fun dense_failed :: "retrieval_channel \<Rightarrow> dense_failure \<Rightarrow> recall_outcome" where
  "dense_failed ch (QueryImageUnavailable reason) = SourceUnavailable ch reason"
| "dense_failed ch (DataTransferDenied reason) = SourceUnavailable ch reason"
| "dense_failed ch ProviderUnavailable = SourceUnavailable ch ''DENSE_RECALL_UNAVAILABLE''"
| "dense_failed ch (DenseRaised e) = RecallRaised (if e = ValueError then RuntimeError else e)"

definition dense_channel :: "vector_kind \<Rightarrow> retrieval_channel" where
  "dense_channel kind = (if kind = VK_IMAGE then IMAGE_DENSE else PRODUCT_FUSED_DENSE)"

text \<open>
  The fence: a hit must name an embedding of the target together with its asset version. The identifiers
  of the candidates were checked when they were built (\<open>dc_check\<close>), so the checks of the hits cannot
  raise before a later hit escapes the fence.
\<close>

definition hit_fenced :: "dense_target \<Rightarrow> string \<times> string \<times> rat \<Rightarrow> bool" where
  "hit_fenced t = (\<lambda>(e, v, score).
     map_of (map (\<lambda>c. (dc_embedding_record_id c, dc_asset_version_id c)) (dt_candidates t)) e = Some v)"

definition dense_recall ::
  "(retrieval_query \<Rightarrow> vector_kind \<Rightarrow> string list \<Rightarrow> catalog_failure + dense_target option) \<Rightarrow>
   (retrieval_query \<Rightarrow> dense_target \<Rightarrow> dense_failure + rat list) \<Rightarrow>
   (dense_target \<Rightarrow> string list \<Rightarrow> rat list \<Rightarrow> int \<Rightarrow> dense_failure + (string \<times> string \<times> rat) list) \<Rightarrow>
   vector_kind \<Rightarrow> retrieval_query \<Rightarrow> string list \<Rightarrow> int \<Rightarrow> recall_outcome" where
  "dense_recall load_target embed_query search kind q eligible limit =
     (let ch = dense_channel kind in
      if kind \<notin> set (qy_vector_kinds q) then make_batch ch []
      else case load_target q kind eligible of
        Inl (IndexUnavailable reason) \<Rightarrow> SourceUnavailable ch reason
      | Inl (CatalogRaised e) \<Rightarrow> RecallRaised e
      | Inr None \<Rightarrow> make_batch ch []
      | Inr (Some t) \<Rightarrow>
          if dt_candidates t = [] then make_batch ch []
          else if dt_vector_kind t \<noteq> kind then RecallRaised ValueError
          else case embed_query q t of
            Inl f \<Rightarrow> dense_failed ch f
          | Inr v \<Rightarrow>
              if int (length v) \<noteq> dt_dimension t then dense_failed ch (DenseRaised ValueError)
              else case search t (map dc_embedding_record_id (dt_candidates t)) v
                     (min (min limit 100) (int (length (dt_candidates t)))) of
                Inl f \<Rightarrow> dense_failed ch f
              | Inr hits \<Rightarrow>
                  if \<not> list_all (hit_fenced t) hits then RecallRaised RuntimeError
                  else make_batch ch
                    (map (\<lambda>(e, v, score). \<lparr>rh_asset_version_id = v, rh_raw_score = Some score\<rparr>) hits))"

record retrieval_source =
  rs_channel :: retrieval_channel
  rs_recall :: "retrieval_query \<Rightarrow> string list \<Rightarrow> int \<Rightarrow> recall_outcome"

definition explicit_source :: retrieval_source where
  "explicit_source = \<lparr>rs_channel = EXPLICIT, rs_recall = explicit_recall\<rparr>"

section \<open>The service\<close>

datatype authority_outcome = Decided eligibility | AuthorityRaised error

datatype rerank_outcome = Reranked "string list" | RerankerUnavailable | RerankRaised error

record retrieval_service =
  sv_policy :: retrieval_policy
  sv_sources :: "retrieval_source list"
  sv_eligible :: "retrieval_query \<Rightarrow> authority_outcome"
  sv_revalidate :: "retrieval_query \<Rightarrow> string list \<Rightarrow> authority_outcome"
  sv_reranker :: "(retrieval_query \<Rightarrow> string list \<Rightarrow> rerank_outcome) option"

definition sv_check :: "retrieval_service \<Rightarrow> error option" where
  "sv_check sv = guard (\<not> distinct (map rs_channel (sv_sources sv))) ValueError"

fun channel_value :: "retrieval_channel \<Rightarrow> string" where
  "channel_value IMAGE_DENSE = ''IMAGE_DENSE''"
| "channel_value PRODUCT_FUSED_DENSE = ''PRODUCT_FUSED_DENSE''"
| "channel_value LEXICAL = ''LEXICAL''"
| "channel_value BRAND_PROFILE = ''BRAND_PROFILE''"
| "channel_value EXPLICIT = ''EXPLICIT''"

record degradation =
  dg_component :: string
  dg_code :: string

definition dg_check :: "degradation \<Rightarrow> error option" where
  "dg_check d = guards [guard (\<not> is_token (dg_component d)) ValueError, guard (\<not> is_token (dg_code d)) ValueError]"

subsection \<open>Recall\<close>

record recall_state =
  rl_rankings :: "(retrieval_channel \<times> string list) list"
  rl_raw_scores :: "((retrieval_channel \<times> string) \<times> rat) list"
  rl_degradations :: "degradation list"

fun add_raw_scores ::
  "retrieval_channel \<Rightarrow> recall_hit list \<Rightarrow> ((retrieval_channel \<times> string) \<times> rat) list \<Rightarrow>
     ((retrieval_channel \<times> string) \<times> rat) list" where
  "add_raw_scores ch [] d = d"
| "add_raw_scores ch (h # hs) d = add_raw_scores ch hs
     (case rh_raw_score h of None \<Rightarrow> d | Some x \<Rightarrow> AList.update (ch, rh_asset_version_id h) x d)"

definition recall_one ::
  "retrieval_query \<Rightarrow> string list \<Rightarrow> retrieval_source \<Rightarrow> recall_state \<Rightarrow> error + recall_state" where
  "recall_one q eligible src st =
     (case rs_recall src q eligible (min (qy_candidate_limit q) (int (length eligible))) of
        SourceUnavailable ch reason \<Rightarrow>
          if ch \<noteq> rs_channel src then Inl RuntimeError
          else (let d = \<lparr>dg_component = channel_value ch, dg_code = reason\<rparr> in
            case dg_check d of
              Some e \<Rightarrow> Inl e
            | None \<Rightarrow> Inr (st\<lparr>rl_degradations := rl_degradations st @ [d]\<rparr>))
      | RecallRaised e \<Rightarrow> Inl (if e = ValueError then RuntimeError else e)
      | Recalled b \<Rightarrow>
          if rb_channel b \<noteq> rs_channel src then Inl RuntimeError
          else if \<not> set (map rh_asset_version_id (rb_hits b)) \<subseteq> set eligible then Inl RuntimeError
          else Inr (st\<lparr>rl_rankings := AList.update (rb_channel b) (map rh_asset_version_id (rb_hits b)) (rl_rankings st),
                       rl_raw_scores := add_raw_scores (rb_channel b) (rb_hits b) (rl_raw_scores st)\<rparr>))"

fun recall_all ::
  "retrieval_query \<Rightarrow> string list \<Rightarrow> retrieval_source list \<Rightarrow> recall_state \<Rightarrow> error + recall_state" where
  "recall_all q eligible [] st = Inr st"
| "recall_all q eligible (src # srcs) st =
     (case recall_one q eligible src st of
        Inl e \<Rightarrow> Inl e
      | Inr st' \<Rightarrow> recall_all q eligible srcs st')"

definition empty_recall :: recall_state where
  "empty_recall = \<lparr>rl_rankings = [], rl_raw_scores = [], rl_degradations = []\<rparr>"

subsection \<open>Ranking\<close>

text \<open>A fused candidate with the asset and the content hash of its eligible asset version.\<close>

definition to_candidate :: "eligible_asset list \<Rightarrow> ranked_candidate \<Rightarrow> error + retrieval_candidate" where
  "to_candidate items f =
     (case map_of (map (\<lambda>a. (ea_asset_version_id a, a)) items) (rk_asset_version_id f) of
        None \<Rightarrow> Inl KeyError
      | Some a \<Rightarrow>
          let c = \<lparr>rc_asset_id = ea_asset_id a, rc_asset_version_id = rk_asset_version_id f,
                   rc_content_sha256 = ea_content_sha256 a,
                   rc_required = (BRAND_PROFILE \<in> set (map fst (rk_channel_ranks f)))\<rparr>
          in case rc_check c of Some e \<Rightarrow> Inl e | None \<Rightarrow> Inr c)"

definition rank_candidates ::
  "retrieval_policy \<Rightarrow> retrieval_query \<Rightarrow> eligible_asset list \<Rightarrow> recall_state \<Rightarrow>
     error + (ranked_candidate list \<times> retrieval_candidate list)" where
  "rank_candidates p q items st =
     (case reciprocal_rank_fuse (rl_rankings st) p [] of
        Inl e \<Rightarrow> Inl e
      | Inr fused \<Rightarrow>
          (case collect (to_candidate items) fused of
             Inl e \<Rightarrow> Inl e
           | Inr cs \<Rightarrow>
               (case bound_retrieval_candidates (qy_candidate_limit q) (deduplicate_retrieval_candidates cs) of
                  Inl e \<Rightarrow> Inl e
                | Inr ds \<Rightarrow> Inr (fused, ds))))"

text \<open>
  The rerank step: the candidate order, the positions the reranker gave, and the degradations. A
  reranker that is unavailable, raises \<open>ValueError\<close> or returns anything but a permutation leaves the
  fusion order and adds a degradation.
\<close>

definition reranker_degradation :: degradation where
  "reranker_degradation = \<lparr>dg_component = ''RERANKER'', dg_code = ''RERANKER_UNAVAILABLE''\<rparr>"

definition rerank_step ::
  "retrieval_service \<Rightarrow> retrieval_query \<Rightarrow> string list \<Rightarrow> degradation list \<Rightarrow>
     error + (string list \<times> (string \<times> int) list \<times> degradation list)" where
  "rerank_step sv q ids degradations =
     (case sv_reranker sv of
        None \<Rightarrow> Inr (ids, [], degradations)
      | Some rerank \<Rightarrow>
          if ids = [] then Inr (ids, [], degradations)
          else let degraded = Inr (ids, [], degradations @ [reranker_degradation]) in
            (case rerank q ids of
               RerankerUnavailable \<Rightarrow> degraded
             | RerankRaised e \<Rightarrow> if e = ValueError then degraded else Inl e
             | Reranked xs \<Rightarrow>
                 (case apply_bounded_rerank ids xs of
                    Inl e \<Rightarrow> degraded
                  | Inr ys \<Rightarrow> Inr (ys, zip ys [1..int (length ys)], degradations))))"

subsection \<open>Citations and the response\<close>

record citation =
  ct_asset_id :: string
  ct_asset_version_id :: string
  ct_rights_record_id :: string
  ct_rights_record_version :: int
  ct_retrieval_policy_version :: string
  ct_brand_profile_version :: "int option"
  ct_channels :: "retrieval_channel list"
  ct_channel_ranks :: "(retrieval_channel \<times> int) list"
  ct_channel_raw_scores :: "(retrieval_channel \<times> rat) list"
  ct_rrf_score :: rat
  ct_business_adjustment :: rat
  ct_final_score :: rat
  ct_rerank_position :: "int option"
  ct_rank :: int
  ct_reason :: string
  ct_decided_at :: datetime

text \<open>The validators replace an identifier by its canonical form.\<close>

definition canonical :: "string \<Rightarrow> string" where
  "canonical v = (case canonicalize_uuid v of Inl e \<Rightarrow> v | Inr c \<Rightarrow> c)"

definition citation_channels :: "ranked_candidate \<Rightarrow> retrieval_channel list" where
  "citation_channels f = map fst (sort_key (\<lambda>(ch, r). (r, channel_value ch)) (rk_channel_ranks f))"

definition citation_reason :: "retrieval_channel list \<Rightarrow> string" where
  "citation_reason channels =
     (if BRAND_PROFILE \<in> set channels then ''required published brand member''
      else if EXPLICIT \<in> set channels then ''explicit authorized reference''
      else ''authorized hybrid retrieval candidate'')"

definition make_citation ::
  "retrieval_query \<Rightarrow> retrieval_policy \<Rightarrow> ((retrieval_channel \<times> string) \<times> rat) list \<Rightarrow> (string \<times> int) list \<Rightarrow>
   datetime \<Rightarrow> int \<Rightarrow> eligible_asset \<Rightarrow> ranked_candidate \<Rightarrow> citation" where
  "make_citation q p raws positions decided rank a f =
     (let channels = citation_channels f in
      \<lparr>ct_asset_id = canonical (ea_asset_id a), ct_asset_version_id = canonical (ea_asset_version_id a),
       ct_rights_record_id = canonical (ea_rights_record_id a),
       ct_rights_record_version = ea_rights_record_version a,
       ct_retrieval_policy_version = rtp_version p,
       ct_brand_profile_version = (if BRAND_PROFILE \<in> set channels then qy_brand_profile_version q else None),
       ct_channels = channels, ct_channel_ranks = rk_channel_ranks f,
       ct_channel_raw_scores = List.map_filter
         (\<lambda>ch. map_option (Pair ch) (map_of raws (ch, ea_asset_version_id a))) channels,
       ct_rrf_score = rk_rrf_score f, ct_business_adjustment = rk_business_adjustment f,
       ct_final_score = rk_final_score f, ct_rerank_position = map_of positions (rk_asset_version_id f),
       ct_rank = rank, ct_reason = citation_reason channels, ct_decided_at = utc (instant decided)\<rparr>)"

definition ct_check_score :: "citation \<Rightarrow> error option" where
  "ct_check_score c = guards
     [guard (ct_rrf_score c < 0) ValueError,
      guard (\<not> (- 1 \<le> ct_business_adjustment c \<and> ct_business_adjustment c \<le> 1)) ValueError,
      guard (case ct_rerank_position c of None \<Rightarrow> False | Some n \<Rightarrow> n < 1) ValueError,
      guard (ct_channel_ranks c = [] \<or> list_ex (\<lambda>(ch, r). r < 1) (ct_channel_ranks c)) ValueError,
      guard (\<not> set (map fst (ct_channel_raw_scores c)) \<subseteq> set (map fst (ct_channel_ranks c))) ValueError,
      guard (\<bar>float_add (ct_final_score c) (- float_add (ct_rrf_score c) (ct_business_adjustment c))\<bar>
        > 1 / 1000000000) ValueError]"

definition ct_check :: "citation \<Rightarrow> error option" where
  "ct_check c = guards
     [ct_check_score c,
      parses_uuid (ct_asset_id c), parses_uuid (ct_asset_version_id c), parses_uuid (ct_rights_record_id c),
      guard (ct_rights_record_version c < 1) ValueError,
      guard (\<not> is_token (ct_retrieval_policy_version c)) ValueError,
      guard (case ct_brand_profile_version c of None \<Rightarrow> False | Some n \<Rightarrow> n < 1) ValueError,
      guard (ct_channels c = [] \<or> 5 < length (ct_channels c) \<or> \<not> distinct (ct_channels c)) ValueError,
      guard (ct_rank c < 1) ValueError,
      guard (offset (ct_decided_at c) = None) ValueError,
      guard (set (ct_channels c) \<noteq> set (map fst (ct_channel_ranks c))) ValueError,
      guard ((BRAND_PROFILE \<in> set (ct_channels c)) \<noteq> (ct_brand_profile_version c \<noteq> None)) ValueError]"

record retrieval_response =
  resp_retrieval_policy_version :: string
  resp_complete_hybrid :: bool
  resp_degradations :: "degradation list"
  resp_eligible_count :: int
  resp_fused_count :: int
  resp_final_count :: int
  resp_citations :: "citation list"

definition resp_check :: "retrieval_response \<Rightarrow> error option" where
  "resp_check r = guards
     [guard (16 < length (resp_degradations r)) ValueError,
      guard (2147483647 < resp_eligible_count r) ValueError,
      guard (1000 < resp_fused_count r \<or> 1000 < resp_final_count r \<or> 50 < length (resp_citations r)) ValueError,
      guard (\<not> is_token (resp_retrieval_policy_version r)) ValueError,
      guard (\<not> (int (length (resp_citations r)) \<le> resp_final_count r \<and> resp_final_count r \<le> resp_fused_count r \<and>
        resp_fused_count r \<le> resp_eligible_count r)) ValueError,
      guard (map ct_rank (resp_citations r) \<noteq> [1..int (length (resp_citations r))]) ValueError,
      guard (\<not> distinct (map ct_asset_version_id (resp_citations r))) ValueError,
      guard (list_ex (\<lambda>c. ct_retrieval_policy_version c \<noteq> resp_retrieval_policy_version r) (resp_citations r)) ValueError,
      guard (resp_complete_hybrid r \<and> resp_degradations r \<noteq> []) ValueError]"

definition empty_response :: "retrieval_policy \<Rightarrow> retrieval_response" where
  "empty_response p = \<lparr>resp_retrieval_policy_version = rtp_version p, resp_complete_hybrid = True,
     resp_degradations = [], resp_eligible_count = 0, resp_fused_count = 0, resp_final_count = 0, resp_citations = []\<rparr>"

text \<open>
  The last step: only candidates the authority confirmed a second time are cited, up to the result limit.
  A citation or a response that fails its validation is a \<open>RuntimeError\<close>.
\<close>

definition cite_one ::
  "retrieval_query \<Rightarrow> retrieval_policy \<Rightarrow> ((retrieval_channel \<times> string) \<times> rat) list \<Rightarrow> (string \<times> int) list \<Rightarrow>
   ranked_candidate list \<Rightarrow> eligibility \<Rightarrow> int \<times> string \<Rightarrow> error + citation" where
  "cite_one q p raws positions fused final = (\<lambda>(rank, i).
     (case map_of (map (\<lambda>a. (ea_asset_version_id a, a)) (el_items final)) i of
        None \<Rightarrow> Inl KeyError
      | Some a \<Rightarrow>
          (case map_of (map (\<lambda>f. (rk_asset_version_id f, f)) fused) i of
             None \<Rightarrow> Inl KeyError
           | Some f \<Rightarrow>
               (case ct_check (make_citation q p raws positions (el_decided_at final) rank a f) of
                  Some e \<Rightarrow> Inl RuntimeError
                | None \<Rightarrow> Inr (make_citation q p raws positions (el_decided_at final) rank a f)))))"

definition cite_all ::
  "retrieval_query \<Rightarrow> retrieval_policy \<Rightarrow> ((retrieval_channel \<times> string) \<times> rat) list \<Rightarrow> (string \<times> int) list \<Rightarrow>
   ranked_candidate list \<Rightarrow> eligibility \<Rightarrow> string list \<Rightarrow> error + citation list" where
  "cite_all q p raws positions fused final selected =
     collect (cite_one q p raws positions fused final) (zip [1..int (length selected)] selected)"

text \<open>The candidates both the ranking and the second decision of the authority contain.\<close>

definition selected_ids :: "retrieval_query \<Rightarrow> eligibility \<Rightarrow> string list \<Rightarrow> string list" where
  "selected_ids q final ids =
     take (nat (qy_result_limit q)) (filter (\<lambda>i. i \<in> set (map ea_asset_version_id (el_items final))) ids)"

definition answer ::
  "retrieval_query \<Rightarrow> retrieval_policy \<Rightarrow> nat \<Rightarrow> recall_state \<Rightarrow> ranked_candidate list \<Rightarrow>
   string list \<times> (string \<times> int) list \<times> degradation list \<Rightarrow> authority_outcome \<Rightarrow> error + retrieval_response" where
  "answer q p eligible_count st fused = (\<lambda>(ids, positions, degradations) outcome.
     (case outcome of
        AuthorityRaised e \<Rightarrow> Inl (if e = ValueError then RuntimeError else e)
      | Decided final \<Rightarrow>
          if \<not> set (map ea_asset_version_id (el_items final)) \<subseteq> set ids then Inl RuntimeError
          else case cite_all q p (rl_raw_scores st) positions fused final (selected_ids q final ids) of
            Inl e \<Rightarrow> Inl e
          | Inr citations \<Rightarrow>
              let r = \<lparr>resp_retrieval_policy_version = rtp_version p, resp_complete_hybrid = (degradations = []),
                       resp_degradations = degradations, resp_eligible_count = int eligible_count,
                       resp_fused_count = int (length ids),
                       resp_final_count = int (length (el_items final)), resp_citations = citations\<rparr>
              in case resp_check r of Some e \<Rightarrow> Inl RuntimeError | None \<Rightarrow> Inr r))"

definition expected_dense :: "retrieval_query \<Rightarrow> retrieval_channel list" where
  "expected_dense q = map dense_channel (qy_vector_kinds q)"

definition retrieval_execute :: "retrieval_service \<Rightarrow> retrieval_query \<Rightarrow> error + retrieval_response" where
  "retrieval_execute sv q =
     (if qy_retrieval_policy_version q \<noteq> rtp_version (sv_policy sv) then Inl ValueError
      else case sv_eligible sv q of
        AuthorityRaised e \<Rightarrow> Inl e
      | Decided initial \<Rightarrow>
          let items = el_items initial; eligible = map ea_asset_version_id items in
          if items = [] then
            (case resp_check (empty_response (sv_policy sv)) of
               Some e \<Rightarrow> Inl e
             | None \<Rightarrow> Inr (empty_response (sv_policy sv)))
          else case recall_all q eligible (sv_sources sv) empty_recall of
            Inl e \<Rightarrow> Inl e
          | Inr st \<Rightarrow>
              if \<not> set (expected_dense q) \<subseteq> set (map rs_channel (sv_sources sv)) then Inl RuntimeError
              else case rank_candidates (sv_policy sv) q items st of
                Inl e \<Rightarrow> Inl e
              | Inr (fused, bounded) \<Rightarrow>
                  (case rerank_step sv q (map rc_asset_version_id bounded) (rl_degradations st) of
                     Inl e \<Rightarrow> Inl e
                   | Inr ranked \<Rightarrow>
                       answer q (sv_policy sv) (length items) st fused ranked
                         (sv_revalidate sv q (fst ranked))))"

end
