(* ===== verification/Retrieval_Facts.thy ===== *)
theory Retrieval_Facts
  imports Retrieval "HOL-Library.Sublist"
begin

text \<open>
  The ranking primitives against their specifications: fusion computes the weighted sum of
  reciprocal ranks of a reference definition and respects dominance in every channel; deduplication
  keeps an order-preserving selection that is free of duplicates and loses nothing else; the bound
  keeps every required member; a rerank can only permute.
\<close>

section \<open>Reciprocal rank fusion against its formula\<close>

fun rank_from :: "int \<Rightarrow> string \<Rightarrow> string list \<Rightarrow> int option" where
  "rank_from n i [] = None"
| "rank_from n i (x # xs) = (if x = i then Some n else rank_from (n + 1) i xs)"

lemma rank_from_None: "rank_from n i xs = None \<longleftrightarrow> i \<notin> set xs"
  by (induction n i xs rule: rank_from.induct) auto

lemma rank_from_ge: "rank_from n i xs = Some r \<Longrightarrow> n \<le> r"
  by (induction n i xs rule: rank_from.induct) (auto split: if_splits)

definition rrf_ranks ::
  "(retrieval_channel \<times> string list) list \<Rightarrow> string \<Rightarrow> (retrieval_channel \<times> int) list" where
  "rrf_ranks rankings i = concat (map (\<lambda>(ch, ids).
     case rank_from 1 i ids of None \<Rightarrow> [] | Some r \<Rightarrow> [(ch, r)]) rankings)"

definition rrf_score ::
  "retrieval_policy \<Rightarrow> (retrieval_channel \<times> string list) list \<Rightarrow> string \<Rightarrow> rat" where
  "rrf_score p rankings i = foldl float_add 0 (map (\<lambda>(ch, r).
     float_div (get_or (rtp_channel_weights p) ch 0) (of_int (rtp_rrf_k p + r))) (rrf_ranks rankings i))"

lemma rrf_ranks_Nil [simp]: "rrf_ranks [] i = []"
  by (simp add: rrf_ranks_def)

lemma rrf_ranks_snoc:
  "rrf_ranks (rs @ [(ch, ids)]) i =
     rrf_ranks rs i @ (case rank_from 1 i ids of None \<Rightarrow> [] | Some r \<Rightarrow> [(ch, r)])"
  by (simp add: rrf_ranks_def)

lemma rrf_score_Nil [simp]: "rrf_score p [] i = 0"
  by (simp add: rrf_score_def)

lemma rrf_score_snoc:
  "rrf_score p (rs @ [(ch, ids)]) i =
     (case rank_from 1 i ids of None \<Rightarrow> rrf_score p rs i
      | Some r \<Rightarrow> float_add (rrf_score p rs i)
          (float_div (get_or (rtp_channel_weights p) ch 0) (of_int (rtp_rrf_k p + r))))"
  by (simp add: rrf_score_def rrf_ranks_snoc split: option.split)

lemma rrf_score_unranked: "rrf_ranks rs i = [] \<Longrightarrow> rrf_score p rs i = 0"
  by (simp add: rrf_score_def)

lemma rrf_ranks_channels: "set (map fst (rrf_ranks rs i)) \<subseteq> set (map fst rs)"
  by (force simp: rrf_ranks_def split: option.splits)

lemma rank_from_Some: "rank_from n i xs = Some r \<Longrightarrow> i \<in> set xs"
  using rank_from_None [of n i xs] by auto

lemma rrf_ranks_empty: "rrf_ranks rs i = [] \<longleftrightarrow> (\<forall>x \<in> set rs. i \<notin> set (snd x))"
proof (induction rs)
  case (Cons x rs)
  have "rrf_ranks (x # rs) i = (case rank_from 1 i (snd x) of None \<Rightarrow> [] | Some r \<Rightarrow> [(fst x, r)]) @ rrf_ranks rs i"
    by (simp add: rrf_ranks_def split_def)
  with Cons show ?case
    by (auto simp: rank_from_None split: option.splits dest: rank_from_Some)
qed simp

lemma update_fresh: "k \<notin> set (map fst d) \<Longrightarrow> AList.update k v d = d @ [(k, v)]"
  by (induction d) auto

lemma get_or_update: "get_or (AList.update k v d) j x = (if j = k then v else get_or d j x)"
  by (simp add: get_or_def update_conv')

lemma fuse_hits_result:
  assumes "fuse_hits k w ch r ids st = Inr st'" "distinct ids"
  shows "map_of (fs_scores st') j = (case rank_from r j ids of None \<Rightarrow> map_of (fs_scores st) j
      | Some n \<Rightarrow> Some (float_add (get_or (fs_scores st) j 0) (float_div w (of_int (k + n)))))"
    and "get_or (fs_channel_ranks st') j [] = (case rank_from r j ids of None \<Rightarrow> get_or (fs_channel_ranks st) j []
      | Some n \<Rightarrow> AList.update ch n (get_or (fs_channel_ranks st) j []))"
    and "distinct (map fst (fs_scores st)) \<Longrightarrow> distinct (map fst (fs_scores st'))"
proof -
  have "map_of (fs_scores st') j = (case rank_from r j ids of None \<Rightarrow> map_of (fs_scores st) j
      | Some n \<Rightarrow> Some (float_add (get_or (fs_scores st) j 0) (float_div w (of_int (k + n))))) \<and>
    get_or (fs_channel_ranks st') j [] = (case rank_from r j ids of None \<Rightarrow> get_or (fs_channel_ranks st) j []
      | Some n \<Rightarrow> AList.update ch n (get_or (fs_channel_ranks st) j [])) \<and>
    (distinct (map fst (fs_scores st)) \<longrightarrow> distinct (map fst (fs_scores st')))"
    using assms
  proof (induction ids arbitrary: r st)
    case (Cons i ids)
    let ?s = "fuse_hit k w ch r i st"
    have s: "fuse_hits k w ch (r + 1) ids ?s = Inr st'"
      using Cons.prems by (simp split: option.splits)
    note ih = Cons.IH [OF s]
    have keys: "distinct (map fst (fs_scores st)) \<longrightarrow> distinct (map fst (fs_scores ?s))"
      by (simp add: fuse_hit_def distinct_update)
    show ?case
    proof (cases "j = i")
      case True
      then have "rank_from (r + 1) j ids = None" using Cons.prems by (simp add: rank_from_None)
      with ih Cons.prems keys True show ?thesis by (simp add: fuse_hit_def update_conv' get_or_update)
    next
      case False
      with ih Cons.prems keys show ?thesis
        by (simp add: fuse_hit_def update_conv' get_or_update split: option.split)
    qed
  qed simp
  then show "map_of (fs_scores st') j = (case rank_from r j ids of None \<Rightarrow> map_of (fs_scores st) j
      | Some n \<Rightarrow> Some (float_add (get_or (fs_scores st) j 0) (float_div w (of_int (k + n)))))"
    "get_or (fs_channel_ranks st') j [] = (case rank_from r j ids of None \<Rightarrow> get_or (fs_channel_ranks st) j []
      | Some n \<Rightarrow> AList.update ch n (get_or (fs_channel_ranks st) j []))"
    "distinct (map fst (fs_scores st)) \<Longrightarrow> distinct (map fst (fs_scores st'))"
    by blast+
qed

definition fused_so_far ::
  "retrieval_policy \<Rightarrow> (retrieval_channel \<times> string list) list \<Rightarrow> fusion_state \<Rightarrow> bool" where
  "fused_so_far p rs st \<longleftrightarrow> distinct (map fst (fs_scores st)) \<and>
     (\<forall>j. map_of (fs_scores st) j = (if rrf_ranks rs j = [] then None else Some (rrf_score p rs j)) \<and>
          get_or (fs_channel_ranks st) j [] = rrf_ranks rs j)"

lemma fused_so_far_start: "fused_so_far p [] empty_fusion"
  by (simp add: fused_so_far_def empty_fusion_def get_or_def)

lemma fused_so_far_step:
  assumes st: "fused_so_far p rs st" and w: "map_of (rtp_channel_weights p) ch = Some w"
    and h: "fuse_hits (rtp_rrf_k p) w ch 1 ids st = Inr st'" "distinct ids" and fresh: "ch \<notin> set (map fst rs)"
  shows "fused_so_far p (rs @ [(ch, ids)]) st'"
  unfolding fused_so_far_def
proof (intro conjI allI)
  show "distinct (map fst (fs_scores st'))"
    using fuse_hits_result(3) [OF h] st by (simp add: fused_so_far_def)
  fix j
  have old: "get_or (fs_scores st) j 0 = rrf_score p rs j" "get_or (fs_channel_ranks st) j [] = rrf_ranks rs j"
    "map_of (fs_scores st) j = (if rrf_ranks rs j = [] then None else Some (rrf_score p rs j))"
    using st by (simp_all add: fused_so_far_def get_or_def rrf_score_unranked)
  have wt: "get_or (rtp_channel_weights p) ch 0 = w" using w by (simp add: get_or_def)
  show "map_of (fs_scores st') j = (if rrf_ranks (rs @ [(ch, ids)]) j = [] then None
      else Some (rrf_score p (rs @ [(ch, ids)]) j))"
    unfolding fuse_hits_result(1) [OF h] rrf_score_snoc rrf_ranks_snoc wt
    by (simp add: old split: option.split)
  have "ch \<notin> set (map fst (rrf_ranks rs j))" using rrf_ranks_channels fresh by fastforce
  then show "get_or (fs_channel_ranks st') j [] = rrf_ranks (rs @ [(ch, ids)]) j"
    unfolding fuse_hits_result(2) [OF h] rrf_ranks_snoc
    by (simp add: old update_fresh split: option.split)
qed

lemma fuse_rankings_so_far:
  assumes "fuse_rankings p rest st = Inr st'" "fused_so_far p rs st" "distinct (map fst (rs @ rest))"
  shows "fused_so_far p (rs @ rest) st'"
  using assms
proof (induction rest arbitrary: rs st)
  case (Cons x rest)
  obtain ch ids where x: "x = (ch, ids)" by fastforce
  obtain w st1 where s: "map_of (rtp_channel_weights p) ch = Some w" "distinct ids"
    "fuse_hits (rtp_rrf_k p) w ch 1 ids st = Inr st1" "fuse_rankings p rest st1 = Inr st'"
    using Cons.prems(1) by (auto simp: x split: option.splits if_splits sum.splits)
  have "fused_so_far p (rs @ [(ch, ids)]) st1"
    using Cons.prems s by (intro fused_so_far_step) (auto simp: x)
  from Cons.IH [OF s(4) this] Cons.prems(3) show ?case by (simp add: x)
qed simp

text \<open>When fusion goes through.\<close>

definition rankings_ok :: "retrieval_policy \<Rightarrow> (retrieval_channel \<times> string list) list \<Rightarrow> bool" where
  "rankings_ok p rankings \<longleftrightarrow> (\<forall>(ch, ids) \<in> set rankings.
     map_of (rtp_channel_weights p) ch \<noteq> None \<and> distinct ids \<and> (\<forall>i \<in> set ids. parses_uuid i = None))"

lemma fuse_hits_ok: "(\<exists>st'. fuse_hits k w ch r ids st = Inr st') \<longleftrightarrow> (\<forall>i \<in> set ids. parses_uuid i = None)"
  by (induction ids arbitrary: r st) (auto split: option.split)

lemma fuse_rankings_ok: "(\<exists>st'. fuse_rankings p rankings st = Inr st') \<longleftrightarrow> rankings_ok p rankings"
proof (induction rankings arbitrary: st)
  case (Cons x rankings)
  obtain ch ids where x: "x = (ch, ids)" by fastforce
  show ?case
  proof (cases "map_of (rtp_channel_weights p) ch")
    case (Some w)
    note h = fuse_hits_ok [of "rtp_rrf_k p" w ch 1 ids st]
    show ?thesis
    proof (cases "fuse_hits (rtp_rrf_k p) w ch 1 ids st")
      case (Inl e)
      then have "\<not> (\<forall>i \<in> set ids. parses_uuid i = None)" using h by auto
      then show ?thesis using Inl Some by (auto simp: x rankings_ok_def)
    next
      case (Inr st1)
      then have "\<forall>i \<in> set ids. parses_uuid i = None" using h by auto
      then show ?thesis using Inr Some Cons.IH [of st1] by (auto simp: x rankings_ok_def)
    qed
  qed (simp add: x rankings_ok_def)
qed (simp add: rankings_ok_def)

definition adjustments_ok ::
  "retrieval_policy \<Rightarrow> (retrieval_channel \<times> string list) list \<Rightarrow> (string \<times> rat) list \<Rightarrow> bool" where
  "adjustments_ok p rankings adjustments \<longleftrightarrow>
     set (map fst adjustments) \<subseteq> \<Union> (set ` set (map snd rankings)) \<and>
     (\<forall>i \<in> \<Union> (set ` set (map snd rankings)).
        \<bar>get_or adjustments i 0\<bar> \<le> rtp_maximum_business_adjustment p)"

lemma fused_keys:
  assumes "fused_so_far p rankings st"
  shows "set (map fst (fs_scores st)) = \<Union> (set ` set (map snd rankings))"
proof -
  have "i \<in> set (map fst (fs_scores st)) \<longleftrightarrow> rrf_ranks rankings i \<noteq> []" for i
    using assms by (metis fused_so_far_def map_of_eq_None_iff option.distinct(1) set_map)
  then show ?thesis by (auto simp: rrf_ranks_empty)
qed

lemma reciprocal_rank_fuse_Inr:
  assumes "distinct (map fst rankings)"
  shows "(\<exists>cs. reciprocal_rank_fuse rankings p adjustments = Inr cs) \<longleftrightarrow>
     rankings_ok p rankings \<and> adjustments_ok p rankings adjustments"
proof (cases "fuse_rankings p rankings empty_fusion")
  case (Inl e)
  then have "\<not> rankings_ok p rankings" using fuse_rankings_ok [of p rankings empty_fusion] by auto
  with Inl show ?thesis by (simp add: reciprocal_rank_fuse_def)
next
  case (Inr st)
  then have "rankings_ok p rankings" using fuse_rankings_ok [of p rankings empty_fusion] by auto
  moreover have "fused_so_far p rankings st"
    using fuse_rankings_so_far [OF Inr fused_so_far_start] assms by simp
  note k = fused_keys [OF this]
  have "list_ex (\<lambda>(i, rrf). rtp_maximum_business_adjustment p < \<bar>get_or adjustments i 0\<bar>) (fs_scores st) \<longleftrightarrow>
      (\<exists>i \<in> set (map fst (fs_scores st)). rtp_maximum_business_adjustment p < \<bar>get_or adjustments i 0\<bar>)"
    by (force simp: list_ex_iff)
  then have "list_ex (\<lambda>(i, rrf). rtp_maximum_business_adjustment p < \<bar>get_or adjustments i 0\<bar>) (fs_scores st) \<longleftrightarrow>
      \<not> (\<forall>i \<in> \<Union> (set ` set (map snd rankings)). \<bar>get_or adjustments i 0\<bar> \<le> rtp_maximum_business_adjustment p)"
    unfolding k by (simp add: not_le)
  ultimately show ?thesis
    using Inr unfolding reciprocal_rank_fuse_def adjustments_ok_def by (simp add: k [simplified])
qed

definition reference_candidate ::
  "retrieval_policy \<Rightarrow> (retrieval_channel \<times> string list) list \<Rightarrow> (string \<times> rat) list \<Rightarrow> string \<Rightarrow>
     ranked_candidate" where
  "reference_candidate p rankings adjustments i =
     \<lparr>rk_asset_version_id = i, rk_channel_ranks = rrf_ranks rankings i, rk_rrf_score = rrf_score p rankings i,
      rk_business_adjustment = get_or adjustments i 0,
      rk_final_score = float_add (rrf_score p rankings i) (get_or adjustments i 0)\<rparr>"

lemma fuse_reference:
  assumes f: "reciprocal_rank_fuse rankings p adjustments = Inr cs" and d: "distinct (map fst rankings)"
  shows "set cs = reference_candidate p rankings adjustments ` (\<Union> (set ` set (map snd rankings)))"
    and "distinct (map rk_asset_version_id cs)"
    and "sorted_wrt (\<lambda>a b. candidate_key a < candidate_key b) cs"
proof -
  obtain st where st: "fuse_rankings p rankings empty_fusion = Inr st"
    and cs: "cs = sort_key candidate_key (map (fused_candidate adjustments st) (fs_scores st))"
    using f by (auto simp: reciprocal_rank_fuse_def split: sum.splits if_splits)
  have so: "fused_so_far p rankings st" using fuse_rankings_so_far [OF st fused_so_far_start] d by simp
  have el: "fused_candidate adjustments st x = reference_candidate p rankings adjustments (fst x)"
    if "x \<in> set (fs_scores st)" for x
  proof -
    have "map_of (fs_scores st) (fst x) = Some (snd x)"
      using so that by (intro map_of_is_SomeI) (simp_all add: fused_so_far_def)
    then show ?thesis using so
      by (cases x) (auto simp: fused_so_far_def fused_candidate_def reference_candidate_def split: if_splits)
  qed
  have "set cs = fused_candidate adjustments st ` set (fs_scores st)" by (simp add: cs)
  also have "\<dots> = reference_candidate p rankings adjustments ` set (map fst (fs_scores st))"
    using el by (force simp: image_image)
  finally show "set cs = reference_candidate p rankings adjustments ` (\<Union> (set ` set (map snd rankings)))"
    unfolding fused_keys [OF so] .
  let ?ys = "map (fused_candidate adjustments st) (fs_scores st)"
  have "map rk_asset_version_id ?ys = map fst (fs_scores st)"
    by (simp add: fused_candidate_def split_def comp_def)
  moreover have "distinct (map fst (fs_scores st))" using so by (simp add: fused_so_far_def)
  ultimately have "distinct (map rk_asset_version_id ?ys)" by (simp only:)
  then have "distinct ?ys" "inj_on rk_asset_version_id (set ?ys)" by (simp_all only: distinct_map)
  then have "distinct cs" "inj_on rk_asset_version_id (set cs)" by (simp_all add: cs)
  then show ids: "distinct (map rk_asset_version_id cs)" by (simp add: distinct_map)
  have "sorted (map candidate_key cs)" by (simp add: cs)
  moreover have "distinct (map candidate_key cs)"
    using ids by (auto simp: distinct_map inj_on_def candidate_key_def)
  ultimately have "sorted_wrt (<) (map candidate_key cs)" using strict_sorted_iff by blast
  then show "sorted_wrt (\<lambda>a b. candidate_key a < candidate_key b) cs" by (simp add: sorted_wrt_map)
qed

section \<open>Dominance\<close>

text \<open>\<open>a\<close> ranks at least as well as \<open>b\<close> in every channel that ranks \<open>b\<close>.\<close>

definition dominates :: "(retrieval_channel \<times> string list) list \<Rightarrow> string \<Rightarrow> string \<Rightarrow> bool" where
  "dominates rankings a b \<longleftrightarrow> (\<forall>x \<in> set rankings. \<forall>r. rank_from 1 b (snd x) = Some r \<longrightarrow>
     (\<exists>r' \<le> r. rank_from 1 a (snd x) = Some r'))"

lemma weight_nonneg:
  assumes "rtp_check p = None"
  shows "0 \<le> get_or (rtp_channel_weights p) ch 0"
proof (cases "map_of (rtp_channel_weights p) ch")
  case (Some w)
  then have "(ch, w) \<in> set (rtp_channel_weights p)" by (rule map_of_SomeD)
  with assms have "0 < w" by (auto simp: rtp_check_def guards_None list_ex_iff)
  with Some show ?thesis by (simp add: get_or_def)
qed (simp add: get_or_def)

lemma is_float_rrf_score: "is_float (rrf_score p rankings i)"
proof (induction rankings rule: rev_induct)
  case (snoc x rs)
  then show ?case by (cases x) (simp add: rrf_score_snoc split: option.split)
qed simp

lemma rrf_score_nonneg:
  assumes "rtp_check p = None"
  shows "0 \<le> rrf_score p rankings i"
proof (induction rankings rule: rev_induct)
  case (snoc x rs)
  have "0 < rtp_rrf_k p" using assms by (simp add: rtp_check_def guards_None)
  with snoc show ?case
    by (cases x) (auto simp: rrf_score_snoc split: option.split
        intro!: float_add_nonneg float_div_nonneg weight_nonneg [OF assms] dest: rank_from_ge)
qed simp

lemma rrf_score_dominates:
  assumes p: "rtp_check p = None" and "dominates rankings a b"
  shows "rrf_score p rankings b \<le> rrf_score p rankings a"
  using assms(2)
proof (induction rankings rule: rev_induct)
  case (snoc x rs)
  obtain ch ids where x: "x = (ch, ids)" by fastforce
  have k: "0 < rtp_rrf_k p" using p by (simp add: rtp_check_def guards_None)
  have ih: "rrf_score p rs b \<le> rrf_score p rs a"
    using snoc.prems by (intro snoc.IH) (simp add: dominates_def)
  note wt = weight_nonneg [OF p, of ch]
  show ?case
  proof (cases "rank_from 1 b ids")
    case None
    have "rrf_score p rs a \<le> rrf_score p (rs @ [x]) a"
      using k wt is_float_rrf_score
      by (auto simp: x rrf_score_snoc split: option.split dest: rank_from_ge
          intro!: float_add_increasing float_div_nonneg)
    with ih None show ?thesis by (simp add: x rrf_score_snoc [of p rs ch ids b])
  next
    case (Some r)
    then obtain r' where r': "r' \<le> r" "rank_from 1 a ids = Some r'"
      using snoc.prems by (auto simp: dominates_def x)
    have "1 \<le> r'" using rank_from_ge [OF r'(2)] .
    then have "float_div (get_or (rtp_channel_weights p) ch 0) (of_int (rtp_rrf_k p + r)) \<le>
        float_div (get_or (rtp_channel_weights p) ch 0) (of_int (rtp_rrf_k p + r'))"
      using r'(1) k wt by (intro float_div_antimono) simp_all
    with ih Some r'(2) show ?thesis by (simp add: x rrf_score_snoc float_add_mono)
  qed
qed simp

section \<open>Deduplication\<close>

lemma dedupe_subseq: "subseq (dedupe_loop ra rh vs as hs cs) cs"
  by (induction ra rh vs as hs cs rule: dedupe_loop.induct) auto

lemma dedupe_fresh: "c \<in> set (dedupe_loop ra rh vs as hs cs) \<Longrightarrow> rc_asset_version_id c \<notin> vs"
  by (induction ra rh vs as hs cs rule: dedupe_loop.induct) (auto split: if_splits)

lemma dedupe_fresh_image:
  "v \<in> vs \<Longrightarrow> v \<notin> rc_asset_version_id ` set (dedupe_loop ra rh vs as hs cs)"
  using dedupe_fresh by blast

lemma dedupe_versions: "distinct (map rc_asset_version_id (dedupe_loop ra rh vs as hs cs))"
  by (induction ra rh vs as hs cs rule: dedupe_loop.induct) (simp_all add: dedupe_fresh_image)

text \<open>Every required member is kept, or shares its version with an earlier candidate.\<close>

lemma dedupe_required:
  assumes "c \<in> set cs" "rc_required c" "distinct (map rc_asset_version_id cs)" "rc_asset_version_id c \<notin> vs"
  shows "c \<in> set (dedupe_loop ra rh vs as hs cs)"
  using assms
proof (induction ra rh vs as hs cs rule: dedupe_loop.induct)
  case (2 ra rh vs as hs d cs)
  show ?case
  proof (cases "c = d")
    case False
    then have "c \<in> set cs" using "2.prems" by simp
    moreover from this have "rc_asset_version_id c \<in> rc_asset_version_id ` set cs" by (rule imageI)
    then have "rc_asset_version_id c \<noteq> rc_asset_version_id d" using "2.prems"(3) by force
    ultimately show ?thesis using 2 by auto
  qed (use 2 in simp)
qed simp

lemma dedupe_optional:
  "c \<in> set (dedupe_loop ra rh vs as hs cs) \<Longrightarrow> \<not> rc_required c \<Longrightarrow>
     rc_asset_id c \<notin> ra \<and> rc_asset_id c \<notin> as \<and> rc_content_sha256 c \<notin> rh \<and> rc_content_sha256 c \<notin> hs"
  by (induction ra rh vs as hs cs rule: dedupe_loop.induct) (auto split: if_splits)

lemma dedupe_optional_unique:
  "distinct (map rc_asset_id (filter (\<lambda>c. \<not> rc_required c) (dedupe_loop ra rh vs as hs cs))) \<and>
   distinct (map rc_content_sha256 (filter (\<lambda>c. \<not> rc_required c) (dedupe_loop ra rh vs as hs cs)))"
proof (induction ra rh vs as hs cs rule: dedupe_loop.induct)
  case (2 ra rh vs as hs d cs)
  let ?r = "dedupe_loop ra rh (insert (rc_asset_version_id d) vs) (insert (rc_asset_id d) as)
        (insert (rc_content_sha256 d) hs) cs"
  have "rc_asset_id c \<noteq> rc_asset_id d" "rc_content_sha256 c \<noteq> rc_content_sha256 d"
    if "c \<in> set ?r" "\<not> rc_required c" for c
    using dedupe_optional [OF that] by auto
  then have "rc_asset_id d \<notin> rc_asset_id ` {c \<in> set ?r. \<not> rc_required c}"
    "rc_content_sha256 d \<notin> rc_content_sha256 ` {c \<in> set ?r. \<not> rc_required c}"
    by (auto simp: image_iff) metis+
  with 2 show ?case by simp
qed simp

text \<open>Nothing is dropped without a reason: a dropped candidate repeats a version, an asset or a hash.\<close>

lemma dedupe_reason:
  assumes "c \<in> set cs" "c \<notin> set (dedupe_loop ra rh vs as hs cs)"
  shows "rc_asset_version_id c \<in> vs \<or> rc_asset_id c \<in> ra \<or> rc_content_sha256 c \<in> rh \<or>
     rc_asset_id c \<in> as \<or> rc_content_sha256 c \<in> hs \<or>
     (\<exists>d \<in> set cs. d \<noteq> c \<and> rc_asset_version_id d = rc_asset_version_id c) \<or>
     (\<exists>d \<in> set (dedupe_loop ra rh vs as hs cs).
        rc_asset_id d = rc_asset_id c \<or> rc_content_sha256 d = rc_content_sha256 c)"
  using assms
proof (induction ra rh vs as hs cs rule: dedupe_loop.induct)
  case (2 ra rh vs as hs d cs)
  show ?case
  proof (cases "c = d")
    case True
    then show ?thesis using "2.prems" by (auto split: if_splits)
  next
    case False
    then show ?thesis using 2 by (auto split: if_splits)
  qed
qed simp

section \<open>The bound\<close>

lemma bound_loop_required: "filter rc_required (bound_loop n cs) = filter rc_required cs"
  by (induction n cs rule: bound_loop.induct) auto

lemma bound_loop_optional:
  "0 \<le> n \<Longrightarrow> filter (\<lambda>c. \<not> rc_required c) (bound_loop n cs) = take (nat n) (filter (\<lambda>c. \<not> rc_required c) cs)"
proof (induction n cs rule: bound_loop.induct)
  case (2 n c cs)
  show ?case
  proof (cases "rc_required c \<or> n = 0")
    case False
    then have "nat n = Suc (nat (n - 1))" using "2.prems" by linarith
    then show ?thesis using 2 False by simp
  qed (use 2 in auto)
qed simp

lemma bound_loop_subseq: "subseq (bound_loop n cs) cs"
  by (induction n cs rule: bound_loop.induct) auto

lemma bound_Inr:
  "bound_retrieval_candidates limit cs = Inr ds \<longleftrightarrow>
     1 \<le> limit \<and> distinct (map rc_asset_version_id cs) \<and> int (length (filter rc_required cs)) \<le> limit \<and>
     ds = bound_loop (limit - int (length (filter rc_required cs))) cs"
  by (auto simp: bound_retrieval_candidates_def Let_def guards_None not_less split: option.splits)

lemma length_split: "length (filter P xs) + length (filter (\<lambda>x. \<not> P x) xs) = length xs"
  by (rule sum_length_filter_compl)

lemma bound_length:
  assumes "bound_retrieval_candidates limit cs = Inr ds"
  shows "int (length ds) = min limit (int (length cs))"
proof -
  let ?n = "limit - int (length (filter rc_required cs))"
  have b: "1 \<le> limit" "0 \<le> ?n" "ds = bound_loop ?n cs" using assms by (simp_all add: bound_Inr)
  have "length ds = length (filter rc_required cs) + length (filter (\<lambda>c. \<not> rc_required c) ds)"
    unfolding b(3) by (subst (2) bound_loop_required [of ?n cs, symmetric]) (rule length_split [symmetric])
  also have "length (filter (\<lambda>c. \<not> rc_required c) ds) =
      min (length (filter (\<lambda>c. \<not> rc_required c) cs)) (nat ?n)"
    unfolding b(3) bound_loop_optional [OF b(2)] by (rule length_take)
  finally show ?thesis using b(1,2) length_split [of rc_required cs] by linarith
qed

section \<open>Properties\<close>

text \<open>C20: Fusion computes what its formula says, from the definition that does not iterate over a
  mutable state: the candidates are exactly the identifiers some channel ranks, each once; the ranks
  of a candidate are its one-based positions; its score is the sum, in channel order and rounded as
  binary floating point, of weight / (k + rank); and the result is ordered by descending final score,
  ties by identifier. Fusion succeeds exactly on rankings of weighted channels without repetitions
  and on adjustments of ranked candidates within the policy's bound.\<close>

theorem fusion_matches_reference:
  assumes "distinct (map fst rankings)"
  shows "case reciprocal_rank_fuse rankings p adjustments of
      Inl e \<Rightarrow> \<not> (rankings_ok p rankings \<and> adjustments_ok p rankings adjustments)
    | Inr cs \<Rightarrow> rankings_ok p rankings \<and> adjustments_ok p rankings adjustments \<and>
        set cs = reference_candidate p rankings adjustments ` (\<Union> (set ` set (map snd rankings))) \<and>
        distinct (map rk_asset_version_id cs) \<and>
        sorted_wrt (\<lambda>a b. rk_final_score b < rk_final_score a \<or>
          (rk_final_score a = rk_final_score b \<and> rk_asset_version_id a < rk_asset_version_id b)) cs"
proof (cases "reciprocal_rank_fuse rankings p adjustments")
  case (Inl e)
  then show ?thesis using reciprocal_rank_fuse_Inr [OF assms, of p adjustments] by auto
next
  case (Inr cs)
  have "sorted_wrt (\<lambda>a b. rk_final_score b < rk_final_score a \<or>
      (rk_final_score a = rk_final_score b \<and> rk_asset_version_id a < rk_asset_version_id b)) cs"
    by (rule sorted_wrt_mono_rel [OF _ fuse_reference(3) [OF Inr assms]])
       (auto simp: candidate_key_def less_prod_def)
  with Inr show ?thesis
    using reciprocal_rank_fuse_Inr [OF assms, of p adjustments] fuse_reference(1,2) [OF Inr assms] by auto
qed

text \<open>Fusion respects dominance in spite of floating-point rounding: a candidate that every channel
  ranks at least as well as another one, and whose adjustment is not smaller, does not get a smaller
  final score.\<close>

theorem fusion_respects_dominance:
  assumes "rtp_check p = None" "distinct (map fst rankings)"
    and "reciprocal_rank_fuse rankings p adjustments = Inr cs" "x \<in> set cs" "y \<in> set cs"
    and "dominates rankings (rk_asset_version_id x) (rk_asset_version_id y)"
    and "rk_business_adjustment y \<le> rk_business_adjustment x"
  shows "rk_final_score y \<le> rk_final_score x"
proof -
  have "rk_final_score c = float_add (rrf_score p rankings (rk_asset_version_id c)) (rk_business_adjustment c)"
    if "c \<in> set cs" for c
    using that fuse_reference(1) [OF assms(3,2)] by (auto simp: reference_candidate_def)
  with assms(4-7) rrf_score_dominates [OF assms(1,6)] show ?thesis by (simp add: float_add_mono)
qed

text \<open>Deduplication of candidates with distinct versions keeps them in order, keeps every required
  brand member, keeps no optional candidate that shares the asset or the content hash of a required
  member or of another kept optional one, and drops a candidate only for such a collision.\<close>

theorem deduplication_contract:
  assumes "distinct (map rc_asset_version_id cs)"
  defines "ds \<equiv> deduplicate_retrieval_candidates cs"
  shows "subseq ds cs \<and> (\<forall>c \<in> set cs. rc_required c \<longrightarrow> c \<in> set ds) \<and>
    distinct (map rc_asset_id (filter (\<lambda>c. \<not> rc_required c) ds)) \<and>
    distinct (map rc_content_sha256 (filter (\<lambda>c. \<not> rc_required c) ds)) \<and>
    (\<forall>c \<in> set ds. \<forall>r \<in> set ds. \<not> rc_required c \<longrightarrow> rc_required r \<longrightarrow>
       rc_asset_id c \<noteq> rc_asset_id r \<and> rc_content_sha256 c \<noteq> rc_content_sha256 r) \<and>
    (\<forall>c \<in> set cs - set ds. \<exists>d \<in> set ds. rc_asset_id d = rc_asset_id c \<or> rc_content_sha256 d = rc_content_sha256 c)"
proof -
  let ?ra = "set (map rc_asset_id (filter rc_required cs))" and ?rh = "set (map rc_content_sha256 (filter rc_required cs))"
  have ds: "ds = dedupe_loop ?ra ?rh {} {} {} cs" by (simp add: ds_def deduplicate_retrieval_candidates_def)
  have sub: "subseq ds cs" unfolding ds by (rule dedupe_subseq)
  have req: "c \<in> set ds" if "c \<in> set cs" "rc_required c" for c
    unfolding ds using that assms(1) by (intro dedupe_required) simp_all
  have opt: "rc_asset_id c \<notin> ?ra \<and> rc_content_sha256 c \<notin> ?rh" if "c \<in> set ds" "\<not> rc_required c" for c
    using dedupe_optional that unfolding ds by blast
  have kept: "rc_asset_id r \<in> ?ra \<and> rc_content_sha256 r \<in> ?rh" if "r \<in> set ds" "rc_required r" for r
    using that list_emb_set [OF sub] by auto
  have why: "\<exists>d \<in> set ds. rc_asset_id d = rc_asset_id c \<or> rc_content_sha256 d = rc_content_sha256 c"
    if c: "c \<in> set cs" "c \<notin> set ds" for c
  proof -
    have "\<not> (\<exists>d \<in> set cs. d \<noteq> c \<and> rc_asset_version_id d = rc_asset_version_id c)"
      using assms(1) c(1) by (auto simp: distinct_map dest: inj_onD)
    with dedupe_reason [OF c(1) c(2) [unfolded ds]] show ?thesis
      using req unfolding ds [symmetric] by fastforce
  qed
  show ?thesis
    using sub req opt kept why dedupe_optional_unique [of ?ra ?rh "{}" "{}" "{}" cs] unfolding ds [symmetric]
    by (metis DiffE)
qed

text \<open>The bound never exceeds the limit and never drops a required brand member: it keeps all of
  them and the best-ranked optional candidates, in order, filling the limit when there are enough.\<close>

theorem bound_keeps_required:
  assumes "bound_retrieval_candidates limit cs = Inr ds"
  shows "subseq ds cs \<and> filter rc_required ds = filter rc_required cs \<and>
    filter (\<lambda>c. \<not> rc_required c) ds =
      take (nat limit - length (filter rc_required cs)) (filter (\<lambda>c. \<not> rc_required c) cs) \<and>
    int (length ds) = min limit (int (length cs))"
proof -
  let ?n = "limit - int (length (filter rc_required cs))"
  have b: "1 \<le> limit" "0 \<le> ?n" "ds = bound_loop ?n cs" using assms by (simp_all add: bound_Inr)
  have opt: "filter (\<lambda>c. \<not> rc_required c) ds =
      take (nat limit - length (filter rc_required cs)) (filter (\<lambda>c. \<not> rc_required c) cs)"
    using b(2) unfolding b(3) by (simp add: bound_loop_optional nat_diff_distrib)
  have req: "filter rc_required ds = filter rc_required cs" unfolding b(3) by (rule bound_loop_required)
  with opt req bound_length [OF assms] show ?thesis unfolding b(3) by (simp add: bound_loop_subseq)
qed

text \<open>
  Without distinct versions the promise of the code's comment, to retain every required member, does
  not hold: an optional candidate that precedes the required one of the same version is dropped for
  its asset, and the required one for its version.
\<close>

lemma deduplication_loses_required:
  assumes "\<not> rc_required c"
  shows "deduplicate_retrieval_candidates [c, c\<lparr>rc_required := True\<rparr>] = []"
  using assms by (simp add: deduplicate_retrieval_candidates_def)

section \<open>Witnesses\<close>

definition sample_retrieval_policy :: retrieval_policy where
  "sample_retrieval_policy = \<lparr>rtp_version = ''v1'', rtp_rrf_k = 60,
     rtp_channel_weights = map (\<lambda>ch. (ch, 1)) all_channels, rtp_maximum_business_adjustment = 0\<rparr>"

definition sample_rankings :: "(retrieval_channel \<times> string list) list" where
  "sample_rankings = [(LEXICAL, [uuid_str 1, uuid_str 2]), (EXPLICIT, [uuid_str 1])]"

definition sample_candidate :: "nat \<Rightarrow> bool \<Rightarrow> retrieval_candidate" where
  "sample_candidate i req = \<lparr>rc_asset_id = uuid_str i, rc_asset_version_id = uuid_str i,
     rc_content_sha256 = replicate 64 (if i = 1 then CHR ''a'' else CHR ''b''), rc_required = req\<rparr>"

lemma uuid_1_2 [simp]: "uuid_str (Suc 0) \<noteq> uuid_str 2" "uuid_str 2 \<noteq> uuid_str (Suc 0)"
  using uuid_str_less [of "Suc 0" 2] by auto

lemma sample_retrieval_policy_valid: "rtp_check sample_retrieval_policy = None"
  by (simp add: rtp_check_def guards_None sample_retrieval_policy_def all_channels_def is_token_char_def
      class_defs code_def)

lemma sample_rankings_ok:
  "rankings_ok sample_retrieval_policy sample_rankings" "adjustments_ok sample_retrieval_policy sample_rankings []"
  by (simp_all add: rankings_ok_def adjustments_ok_def sample_rankings_def sample_retrieval_policy_def
      all_channels_def get_or_def)

lemma sample_fused: "\<exists>cs. reciprocal_rank_fuse sample_rankings sample_retrieval_policy [] = Inr cs"
proof -
  have "distinct (map fst sample_rankings)" by (simp add: sample_rankings_def)
  then show ?thesis by (simp add: reciprocal_rank_fuse_Inr sample_rankings_ok)
qed

theorem fusion_matches_reference_witness:
  "\<exists>cs. reciprocal_rank_fuse sample_rankings sample_retrieval_policy [] = Inr cs \<and>
     set (map rk_asset_version_id cs) = {uuid_str 1, uuid_str 2}"
proof -
  obtain cs where cs: "reciprocal_rank_fuse sample_rankings sample_retrieval_policy [] = Inr cs"
    using sample_fused by blast
  have d: "distinct (map fst sample_rankings)" by (simp add: sample_rankings_def)
  show ?thesis
    using fusion_matches_reference [OF d, of sample_retrieval_policy "[]"] cs
    by (auto simp: sample_rankings_def reference_candidate_def)
qed

theorem fusion_respects_dominance_witness:
  "\<exists>cs x y. reciprocal_rank_fuse sample_rankings sample_retrieval_policy [] = Inr cs \<and> x \<in> set cs \<and> y \<in> set cs \<and>
     rk_asset_version_id x = uuid_str 1 \<and> rk_asset_version_id y = uuid_str 2 \<and> rk_final_score y \<le> rk_final_score x"
proof -
  obtain cs where cs: "reciprocal_rank_fuse sample_rankings sample_retrieval_policy [] = Inr cs"
    using sample_fused by blast
  have d: "distinct (map fst sample_rankings)" by (simp add: sample_rankings_def)
  let ?c = "reference_candidate sample_retrieval_policy sample_rankings []"
  have m: "?c (uuid_str 1) \<in> set cs" "?c (uuid_str 2) \<in> set cs"
    using fuse_reference(1) [OF cs d] by (simp_all add: sample_rankings_def)
  have "dominates sample_rankings (rk_asset_version_id (?c (uuid_str 1))) (rk_asset_version_id (?c (uuid_str 2)))"
    by (simp add: dominates_def sample_rankings_def reference_candidate_def)
  from fusion_respects_dominance [OF sample_retrieval_policy_valid d cs m this]
  have "rk_final_score (?c (uuid_str 2)) \<le> rk_final_score (?c (uuid_str 1))"
    by (simp add: reference_candidate_def get_or_def)
  with cs m show ?thesis
    by (intro exI [of _ cs] exI [of _ "?c (uuid_str 1)"] exI [of _ "?c (uuid_str 2)"])
      (simp add: reference_candidate_def)
qed

theorem deduplication_contract_witness:
  "sample_candidate 2 True \<in>
     set (deduplicate_retrieval_candidates [sample_candidate 1 False, sample_candidate 2 True])"
proof -
  have "distinct (map rc_asset_version_id [sample_candidate 1 False, sample_candidate 2 True])"
    by (simp add: sample_candidate_def)
  from deduplication_contract [OF this] show ?thesis by (simp add: sample_candidate_def)
qed

theorem bound_keeps_required_witness:
  "\<exists>ds. bound_retrieval_candidates 1 [sample_candidate 1 False, sample_candidate 2 True] = Inr ds \<and> length ds = 1"
proof -
  obtain ds where ds: "bound_retrieval_candidates 1 [sample_candidate 1 False, sample_candidate 2 True] = Inr ds"
    by (simp add: bound_Inr sample_candidate_def)
  from bound_keeps_required [OF ds] ds show ?thesis by auto
qed

end
