(* ===== verification/Indexing_Facts.thy ===== *)
theory Indexing_Facts
  imports Indexing
begin

text \<open>
  The index registry keeps identities apart and generations in order: different collection
  specifications have different logical keys, different write generations different vector-store keys;
  and every write generation of an embedding record is settled at most once.
\<close>

section \<open>Text identities\<close>

lemma identity_token_free:
  assumes "require_identity_token v = None" "\<not> is_identity_char c"
  shows "c \<notin> set v"
  using assms by (auto simp: require_identity_token_def is_identity_token_def list_all_iff)

lemma colon_free: "\<not> is_identity_char CHR '':''"
  by (simp add: is_identity_char_def class_defs code_def)

lemma digit_not_colon: "is_digit c \<Longrightarrow> c \<noteq> CHR '':''"
  by (auto simp: class_defs code_def)

lemma str_of_int_colon_free: "0 \<le> n \<Longrightarrow> CHR '':'' \<notin> set (str_of_int n)"
  using str_of_int_digits digit_not_colon by blast

lemma vector_kind_value_inj: "vector_kind_value a = vector_kind_value b \<longleftrightarrow> a = b"
  by (cases a; cases b) simp_all

lemma vector_kind_value_free: "CHR '':'' \<notin> set (vector_kind_value k)"
  by (cases k) simp_all

text \<open>The logical key determines the collection specification.\<close>

lemma logical_key_inj:
  assumes "col_check a = None" "col_check b = None" "col_logical_key a = col_logical_key b"
  shows "a = b"
proof -
  have parts: "CHR '':'' \<notin> set x"
    if "col_check c = None" "x \<in> set [col_model_family c, col_pinned_revision c, str_of_int (col_dimension c),
      vector_kind_value (col_vector_kind c), str_of_int (col_schema_version c), col_index_spec_version c]" for c x
    using that identity_token_free [OF _ colon_free]
    by (auto simp: col_check_def guards_None vector_kind_value_free str_of_int_colon_free)
  have "[col_model_family a, col_pinned_revision a, str_of_int (col_dimension a),
      vector_kind_value (col_vector_kind a), str_of_int (col_schema_version a), col_index_spec_version a] =
    [col_model_family b, col_pinned_revision b, str_of_int (col_dimension b),
      vector_kind_value (col_vector_kind b), str_of_int (col_schema_version b), col_index_spec_version b]"
    using assms parts by (intro join_inj [of _ _ "CHR '':''"]) (simp_all only: col_logical_key_def, auto)
  then show ?thesis
    using assms(1,2) str_of_int_inj
    by (auto simp: vector_kind_value_inj col_check_def guards_None intro!: collection_spec.equality)
qed

section \<open>Histories of an embedding record\<close>

inductive er_call :: "embedding_record \<Rightarrow> embedding_record \<Rightarrow> bool" where
  ek_begin: "er_begin_processing now s = Done g t \<Longrightarrow> er_call s t"
| ek_failed: "er_mark_failed g retryable now s = Done u t \<Longrightarrow> er_call s t"
| ek_indexed: "er_mark_indexed g request_id model now s = Done u t \<Longrightarrow> er_call s t"
| ek_stale: "er_mark_stale g reason now s = Done u t \<Longrightarrow> er_call s t"
| ek_begin_delete: "er_begin_delete g now s = Done u t \<Longrightarrow> er_call s t"
| ek_complete_delete: "er_complete_delete g now s = Done d t \<Longrightarrow> er_call s t"

lemmas er_op_defs = er_begin_processing_def er_mark_failed_def er_mark_indexed_def er_mark_stale_def
  er_begin_delete_def er_complete_delete_def er_touch_def er_assert_generation_def guards_None

lemma er_call_effect:
  "er_call s t \<Longrightarrow> t = s \<or> (er_version t = er_version s + 1 \<and> er_id t = er_id s \<and>
     (er_write_generation t = er_write_generation s + 1 \<or>
      er_write_generation t = er_write_generation s \<and> er_state t \<noteq> ES_PROCESSING))"
  by (erule er_call.cases; clarsimp simp: er_op_defs split: if_splits)

definition er_identity where
  "er_identity r = (er_workspace_id r, er_id r, er_asset_id r, er_asset_version_id r, er_rights_record_id r,
     er_collection_id r, er_embedding_spec_hash r, er_input_hash r, er_vector_kind r,
     er_product_brief_version_id r, er_controlled_text_sha256 r, er_asset_version_number r,
     er_rights_record_version r, er_milvus_primary_key r)"

lemma er_call_identity: "er_call s t \<Longrightarrow> er_identity t = er_identity s"
  by (erule er_call.cases; clarsimp simp: er_op_defs er_identity_def split: if_splits)

lemma er_call_check:
  assumes "er_call s t" "er_check s = None"
  shows "er_check t = None"
proof -
  have i: "er_identity t = er_identity s" by (rule er_call_identity [OF assms(1)])
  have "er_check_brief t = er_check_brief s" using i by (simp add: er_check_brief_def er_identity_def)
  with assms(2) i er_call_effect [OF assms(1)] show ?thesis
    by (auto simp: er_check_def guards_None er_identity_def)
qed

interpretation er: versioned er_call er_version id
  by unfold_locales (auto dest!: er_call_effect)

lemma er_run_generation:
  "er_call\<^sup>*\<^sup>* s t \<Longrightarrow> er_write_generation s < er_write_generation t \<or>
     er_write_generation t = er_write_generation s \<and> (er_state s \<noteq> ES_PROCESSING \<longrightarrow> er_state t \<noteq> ES_PROCESSING)"
proof (induction rule: rtranclp_induct)
  case (step u t)
  then show ?case using er_call_effect [OF step.hyps(2)] by auto
qed simp

lemma er_settled:
  assumes "er_state s \<noteq> ES_PROCESSING" "er_call\<^sup>*\<^sup>* s t"
  shows "er_state t \<noteq> ES_PROCESSING \<or> er_write_generation s < er_write_generation t"
  using er_run_generation [OF assms(2)] assms(1) by blast

section \<open>Properties\<close>

text \<open>C21: Every write generation of an embedding record is settled at most once. After a generation was
  published or reported as failed, and whatever calls follow, neither outcome can be recorded for it
  again: the call raises and leaves the record unchanged, and the deletion of that generation cannot
  bring it back.\<close>

theorem embedding_settled_once:
  assumes "er_mark_indexed g request_id model now s = Done () t \<or> er_mark_failed g retryable now s = Done () t"
    and "er_call\<^sup>*\<^sup>* t u"
  shows "er_mark_indexed g request_id' model' later u = Raise ValueError u \<and>
    er_mark_failed g retryable' later u = Raise ValueError u"
proof -
  have "er_write_generation t = g" "er_state t \<noteq> ES_PROCESSING"
    using assms(1) by (auto simp: er_op_defs split: if_splits)
  with er_settled [OF _ assms(2)] have "er_state u \<noteq> ES_PROCESSING \<or> er_write_generation u \<noteq> g" by auto
  then show ?thesis
    by (cases "er_state u = ES_PROCESSING")
      (simp_all add: er_mark_indexed_def er_mark_failed_def er_assert_generation_def guard_def)
qed

text \<open>The logical key of a collection identifies it: two specifications accepted by the constructor
  have the same logical key exactly when they are equal, so no two model revisions, dimensions, vector
  kinds or schema versions share a collection by accident of the text.\<close>

theorem collection_key_identifies:
  assumes "col_check a = None" "col_check b = None"
  shows "col_logical_key a = col_logical_key b \<longleftrightarrow> a = b"
  using logical_key_inj [OF assms] by blast

section \<open>Witnesses\<close>

definition sample_record :: embedding_record where
  "sample_record = \<lparr>er_id = uuid_str 1, er_workspace_id = ''w'', er_asset_id = uuid_str 2,
     er_asset_version_id = uuid_str 3, er_asset_version_number = 1, er_rights_record_id = uuid_str 4,
     er_rights_record_version = 1, er_collection_id = uuid_str 5, er_embedding_spec_hash = replicate 64 CHR ''a'',
     er_input_hash = replicate 64 CHR ''b'', er_vector_kind = VK_IMAGE, er_product_brief_version_id = None,
     er_controlled_text_sha256 = None, er_milvus_primary_key = uuid_str 1, er_state = ES_PROCESSING,
     er_write_generation = 1, er_provider_request_id = None, er_actual_model = None, er_indexed_at = None,
     er_stale_at = None, er_stale_reason = None, er_version = 2, er_created_at = utc 0, er_updated_at = utc 1\<rparr>"

theorem embedding_settled_once_witness:
  "\<exists>t u. er_mark_indexed 1 ''r'' ''m'' (utc 2) sample_record = Done () t \<and>
     er_mark_stale 1 ''rights'' (utc 3) t = Done () u \<and>
     er_mark_indexed 1 ''r2'' ''m'' (utc 4) u = Raise ValueError u"
proof -
  obtain t where t: "er_mark_indexed 1 ''r'' ''m'' (utc 2) sample_record = Done () t"
    by (simp add: er_op_defs sample_record_def)
  then have "er_write_generation t = 1" by (auto simp: er_op_defs sample_record_def)
  then obtain u where u: "er_mark_stale 1 ''rights'' (utc 3) t = Done () u" by (simp add: er_op_defs)
  have "er_call\<^sup>*\<^sup>* t u" using ek_stale [OF u] by blast
  from embedding_settled_once [OF disjI1 [OF t] this] t u show ?thesis by blast
qed

definition sample_spec :: "int \<Rightarrow> collection_spec" where
  "sample_spec n = \<lparr>col_model_family = ''clip'', col_pinned_revision = ''r1'', col_dimension = n,
     col_vector_kind = VK_IMAGE, col_schema_version = 1, col_index_spec_version = ''v1''\<rparr>"

theorem collection_key_identifies_witness:
  "col_logical_key (sample_spec 512) \<noteq> col_logical_key (sample_spec 768)"
proof -
  have "col_check (sample_spec n) = None" if "1 \<le> n" "n \<le> 1000" for n
    using that
    by (simp add: col_check_def guards_None sample_spec_def require_identity_token_def is_identity_token_def
        is_identity_char_def class_defs code_def lower_def lower_char_def)
  then have "col_check (sample_spec 512) = None" "col_check (sample_spec 768) = None" by simp_all
  from collection_key_identifies [OF this] show ?thesis by (simp add: sample_spec_def)
qed

end
