(* ===== verification/Retrieval_Service_Facts.thy ===== *)
theory Retrieval_Service_Facts
  imports Retrieval_Service Retrieval_Facts Indexing_Facts
begin

text \<open>
  The rights fence of the retrieval service: nothing is cited that the authority did not allow both
  before and after ranking, whatever the sources and the reranker do; and a request whose collaborators
  honour their contracts is answered.
\<close>

section \<open>The contract of a source\<close>

text \<open>
  What the service expects of a source: its batches and its unavailability carry its own channel, and
  its hits are distinct, parse, and stay within the eligible versions it was given.
\<close>

locale honest_source =
  fixes channel :: retrieval_channel
    and recall :: "retrieval_query \<Rightarrow> string list \<Rightarrow> int \<Rightarrow> recall_outcome"
  assumes batch: "recall q eligible n = Recalled b \<Longrightarrow> rb_channel b = channel \<and>
      distinct (map rh_asset_version_id (rb_hits b)) \<and>
      (\<forall>h \<in> set (rb_hits b). rh_asset_version_id h \<in> set eligible \<and> parses_uuid (rh_asset_version_id h) = None)"
    and unavailable: "recall q eligible n = SourceUnavailable ch reason \<Longrightarrow> ch = channel"
begin

lemma recall_goes_on:
  assumes "\<And>e. recall q eligible (min (qy_candidate_limit q) (int (length eligible))) \<noteq> RecallRaised e"
    and "\<And>ch reason. recall q eligible (min (qy_candidate_limit q) (int (length eligible))) =
      SourceUnavailable ch reason \<Longrightarrow> is_token (channel_value ch) \<and> is_token reason"
  shows "\<exists>st'. recall_one q eligible \<lparr>rs_channel = channel, rs_recall = recall\<rparr> st = Inr st'"
proof (cases "recall q eligible (min (qy_candidate_limit q) (int (length eligible)))")
  case (Recalled b)
  with batch [OF this] show ?thesis by (auto simp: recall_one_def)
next
  case (SourceUnavailable ch reason)
  with unavailable [OF this] assms(2) [OF this] show ?thesis
    by (simp add: recall_one_def Let_def dg_check_def)
next
  case (RecallRaised e)
  with assms(1) show ?thesis by blast
qed

end

lemma make_batch_Recalled:
  "make_batch ch hits = Recalled b \<Longrightarrow> rb_channel b = ch \<and> rb_hits b = hits \<and>
     distinct (map rh_asset_version_id hits) \<and> (\<forall>h \<in> set hits. parses_uuid (rh_asset_version_id h) = None)"
  by (auto simp: make_batch_def Let_def guards_None rb_check_def split: option.splits)

lemma make_batch_available [simp]: "make_batch ch hits \<noteq> SourceUnavailable c reason"
  by (simp add: make_batch_def Let_def split: option.split)

interpretation explicit: honest_source EXPLICIT explicit_recall
proof unfold_locales
  fix q eligible n b
  assume "explicit_recall q eligible n = Recalled b"
  from make_batch_Recalled [OF this [unfolded explicit_recall_def]]
  show "rb_channel b = EXPLICIT \<and> distinct (map rh_asset_version_id (rb_hits b)) \<and>
      (\<forall>h \<in> set (rb_hits b). rh_asset_version_id h \<in> set eligible \<and> parses_uuid (rh_asset_version_id h) = None)"
    by (auto dest!: in_set_takeD)
qed (simp add: explicit_recall_def)

lemma dense_failed_cases:
  "dense_failed ch f = SourceUnavailable c reason \<Longrightarrow> c = ch" "dense_failed ch f \<noteq> Recalled b"
  by (cases f; simp)+

text \<open>A dense source is honest when its catalog only names embeddings of eligible versions.\<close>

lemma dense_honest:
  assumes "\<And>q eligible t. load q kind eligible = Inr (Some t) \<Longrightarrow>
    set (map dc_asset_version_id (dt_candidates t)) \<subseteq> set eligible"
  shows "honest_source (dense_channel kind) (dense_recall load embedder search kind)"
proof unfold_locales
  fix q eligible n b
  assume r: "dense_recall load embedder search kind q eligible n = Recalled b"
  show "rb_channel b = dense_channel kind \<and> distinct (map rh_asset_version_id (rb_hits b)) \<and>
      (\<forall>h \<in> set (rb_hits b). rh_asset_version_id h \<in> set eligible \<and> parses_uuid (rh_asset_version_id h) = None)"
  proof (cases "\<exists>t hits. load q kind eligible = Inr (Some t) \<and> list_all (hit_fenced t) hits \<and>
      make_batch (dense_channel kind) (map (\<lambda>(e, v, score). \<lparr>rh_asset_version_id = v, rh_raw_score = Some score\<rparr>) hits) = Recalled b")
    case True
    then obtain t hits where t: "load q kind eligible = Inr (Some t)" "list_all (hit_fenced t) hits"
      "make_batch (dense_channel kind) (map (\<lambda>(e, v, score). \<lparr>rh_asset_version_id = v, rh_raw_score = Some score\<rparr>) hits) = Recalled b"
      by blast
    have "v \<in> set eligible" if "(e, v, score) \<in> set hits" for e v score
    proof -
      have "hit_fenced t (e, v, score)" using t(2) that by (auto simp: list_all_iff)
      then have "(e, v) \<in> set (map (\<lambda>c. (dc_embedding_record_id c, dc_asset_version_id c)) (dt_candidates t))"
        by (auto simp: hit_fenced_def dest: map_of_SomeD)
      then show ?thesis using assms [OF t(1)] by auto
    qed
    with make_batch_Recalled [OF t(3)] show ?thesis by auto
  next
    case False
    with r have "make_batch (dense_channel kind) [] = Recalled b"
      by (auto simp: dense_recall_def Let_def dense_failed_cases split: if_splits sum.splits option.splits
          catalog_failure.splits)
    from make_batch_Recalled [OF this] show ?thesis by simp
  qed
next
  fix q eligible n c reason
  assume "dense_recall load embedder search kind q eligible n = SourceUnavailable c reason"
  then show "c = dense_channel kind"
    by (auto simp: dense_recall_def Let_def split: if_splits sum.splits option.splits catalog_failure.splits
        dest: dense_failed_cases(1))
qed

section \<open>Recall stays within the eligible versions\<close>

definition recall_fenced :: "string list \<Rightarrow> retrieval_source list \<Rightarrow> recall_state \<Rightarrow> bool" where
  "recall_fenced eligible srcs st \<longleftrightarrow> distinct (map fst (rl_rankings st)) \<and>
     (\<forall>x \<in> set (rl_rankings st). set (snd x) \<subseteq> set eligible \<and> fst x \<in> set (map rs_channel srcs))"

lemma set_update_subset: "set (AList.update k v d) \<subseteq> insert (k, v) (set d)"
  by (induction d) auto

lemma recall_fenced_update:
  assumes "recall_fenced eligible srcs st" "ch \<in> set (map rs_channel srcs)" "set ids \<subseteq> set eligible"
  shows "recall_fenced eligible srcs (st\<lparr>rl_rankings := AList.update ch ids (rl_rankings st), rl_raw_scores := r\<rparr>)"
proof -
  have "set (snd x) \<subseteq> set eligible \<and> fst x \<in> set (map rs_channel srcs)"
    if "x \<in> set (AList.update ch ids (rl_rankings st))" for x
  proof -
    have "x = (ch, ids) \<or> x \<in> set (rl_rankings st)" using that set_update_subset by fastforce
    then show ?thesis using assms by (auto simp: recall_fenced_def)
  qed
  moreover have "distinct (map fst (AList.update ch ids (rl_rankings st)))"
    using assms(1) by (simp add: recall_fenced_def distinct_update)
  ultimately show ?thesis by (simp add: recall_fenced_def)
qed

lemma recall_one_fenced:
  assumes "recall_one q eligible src st = Inr st'" "recall_fenced eligible srcs st" "src \<in> set srcs"
  shows "recall_fenced eligible srcs st'"
proof (cases "rs_recall src q eligible (min (qy_candidate_limit q) (int (length eligible)))")
  case (Recalled b)
  then have "rb_channel b = rs_channel src" "set (map rh_asset_version_id (rb_hits b)) \<subseteq> set eligible"
    "st' = st\<lparr>rl_rankings := AList.update (rb_channel b) (map rh_asset_version_id (rb_hits b)) (rl_rankings st),
              rl_raw_scores := add_raw_scores (rb_channel b) (rb_hits b) (rl_raw_scores st)\<rparr>"
    using assms(1) by (simp_all add: recall_one_def split: if_splits)
  with assms(2,3) show ?thesis by (simp add: recall_fenced_update)
qed (use assms in \<open>auto simp: recall_one_def recall_fenced_def Let_def split: if_splits option.splits\<close>)

lemma recall_all_fenced:
  assumes "recall_all q eligible rest st = Inr st'" "recall_fenced eligible srcs st" "set rest \<subseteq> set srcs"
  shows "recall_fenced eligible srcs st'"
  using assms
proof (induction rest arbitrary: st)
  case (Cons src rest)
  then obtain st1 where "recall_one q eligible src st = Inr st1" "recall_all q eligible rest st1 = Inr st'"
    by (auto split: sum.splits)
  with Cons show ?case using recall_one_fenced by auto
qed simp

lemma empty_recall_fenced: "recall_fenced eligible srcs empty_recall"
  by (simp add: recall_fenced_def empty_recall_def)

section \<open>Ranking keeps to the eligible versions\<close>

lemma to_candidate_Inr:
  assumes "to_candidate items f = Inr c"
  shows "rc_asset_version_id c = rk_asset_version_id f" "rk_asset_version_id f \<in> set (map ea_asset_version_id items)"
    "rc_required c \<longleftrightarrow> BRAND_PROFILE \<in> set (map fst (rk_channel_ranks f))"
proof -
  obtain a where "map_of (map (\<lambda>a. (ea_asset_version_id a, a)) items) (rk_asset_version_id f) = Some a"
    "c = \<lparr>rc_asset_id = ea_asset_id a, rc_asset_version_id = rk_asset_version_id f,
          rc_content_sha256 = ea_content_sha256 a,
          rc_required = (BRAND_PROFILE \<in> set (map fst (rk_channel_ranks f)))\<rparr>"
    using assms by (auto simp: to_candidate_def Let_def split: option.splits)
  then show "rc_asset_version_id c = rk_asset_version_id f" "rk_asset_version_id f \<in> set (map ea_asset_version_id items)"
    "rc_required c \<longleftrightarrow> BRAND_PROFILE \<in> set (map fst (rk_channel_ranks f))"
    by (auto dest!: map_of_SomeD)
qed

lemma subseq_distinct: "subseq xs ys \<Longrightarrow> distinct ys \<Longrightarrow> distinct xs"
  by (induction rule: list_emb.induct) (auto dest: list_emb_set)

lemma rank_candidates_Inr:
  assumes "rank_candidates p q items st = Inr (fused, bounded)" "distinct (map fst (rl_rankings st))"
  shows "reciprocal_rank_fuse (rl_rankings st) p [] = Inr fused"
    "distinct (map rc_asset_version_id bounded)"
    "set (map rc_asset_version_id bounded) \<subseteq> set (map rk_asset_version_id fused)"
    "set (map rk_asset_version_id fused) \<subseteq> set (map ea_asset_version_id items)"
    "int (length bounded) \<le> qy_candidate_limit q"
proof -
  obtain cs where f: "reciprocal_rank_fuse (rl_rankings st) p [] = Inr fused"
    and cs: "collect (to_candidate items) fused = Inr cs"
    and b: "bound_retrieval_candidates (qy_candidate_limit q) (deduplicate_retrieval_candidates cs) = Inr bounded"
    using assms(1) by (auto simp: rank_candidates_def split: sum.splits)
  show "reciprocal_rank_fuse (rl_rankings st) p [] = Inr fused" by (rule f)
  have ids: "map rc_asset_version_id cs = map rk_asset_version_id fused"
    by (rule collect_image [OF cs]) (rule to_candidate_Inr(1))
  then have "distinct (map rc_asset_version_id cs)" using fuse_reference(2) [OF f assms(2)] by simp
  have bd: "bounded = bound_loop (qy_candidate_limit q - int (length (filter rc_required
      (deduplicate_retrieval_candidates cs)))) (deduplicate_retrieval_candidates cs)"
    and dd: "distinct (map rc_asset_version_id (deduplicate_retrieval_candidates cs))"
    using b by (simp_all add: bound_Inr)
  have sub: "subseq bounded (deduplicate_retrieval_candidates cs)"
    "subseq (deduplicate_retrieval_candidates cs) cs"
    unfolding bd deduplicate_retrieval_candidates_def by (rule bound_loop_subseq dedupe_subseq)+
  show "distinct (map rc_asset_version_id bounded)" using subseq_distinct [OF sub(1) [THEN subseq_map] dd] by simp
  have "set bounded \<subseteq> set cs" using list_emb_set [OF sub(1)] list_emb_set [OF sub(2)] by blast
  then show "set (map rc_asset_version_id bounded) \<subseteq> set (map rk_asset_version_id fused)"
    unfolding ids [symmetric] by auto
  show "set (map rk_asset_version_id fused) \<subseteq> set (map ea_asset_version_id items)"
  proof -
    have "rk_asset_version_id f \<in> set (map ea_asset_version_id items)" if "f \<in> set fused" for f
      using collect_source [OF cs that] to_candidate_Inr(2) by blast
    then show ?thesis by auto
  qed
  show "int (length bounded) \<le> qy_candidate_limit q"
    using bound_length [OF b] by simp
qed

section \<open>Reranking and citing\<close>

lemma rerank_step_Inr:
  assumes "rerank_step sv q ids ds = Inr (ys, positions, ds')" "distinct ids"
  shows "distinct ys" "set ys = set ids"
  using assms
  by (auto simp: rerank_step_def Let_def apply_bounded_rerank_def split: option.splits if_splits rerank_outcome.splits
      sum.splits)

lemma cite_one_Inr:
  assumes "cite_one q p raws positions fused final (rank, i) = Inr c"
  shows "ct_rank c = rank" "ct_retrieval_policy_version c = rtp_version p"
    "ct_decided_at c = utc (instant (el_decided_at final))"
    "\<exists>a \<in> set (el_items final). ea_asset_version_id a = i \<and> ct_asset_version_id c = canonical i \<and>
       ct_asset_id c = canonical (ea_asset_id a) \<and> ct_rights_record_id c = canonical (ea_rights_record_id a) \<and>
       ct_rights_record_version c = ea_rights_record_version a"
proof -
  obtain a f where a: "map_of (map (\<lambda>a. (ea_asset_version_id a, a)) (el_items final)) i = Some a"
    and c: "c = make_citation q p raws positions (el_decided_at final) rank a f"
    using assms by (auto simp: cite_one_def split: option.splits)
  have "a \<in> set (el_items final)" "ea_asset_version_id a = i" using map_of_SomeD [OF a] by auto
  then show "ct_rank c = rank" "ct_retrieval_policy_version c = rtp_version p"
    "ct_decided_at c = utc (instant (el_decided_at final))"
    "\<exists>a \<in> set (el_items final). ea_asset_version_id a = i \<and> ct_asset_version_id c = canonical i \<and>
       ct_asset_id c = canonical (ea_asset_id a) \<and> ct_rights_record_id c = canonical (ea_rights_record_id a) \<and>
       ct_rights_record_version c = ea_rights_record_version a"
    by (auto simp: c make_citation_def Let_def)
qed

lemma cite_all_Inr:
  assumes "cite_all q p raws positions fused final ids = Inr cs"
  shows "map ct_rank cs = [1..int (length ids)]" "map ct_asset_version_id cs = map canonical ids"
    "c \<in> set cs \<Longrightarrow> \<exists>rank. \<exists>i \<in> set ids. cite_one q p raws positions fused final (rank, i) = Inr c"
proof -
  let ?xs = "zip [1..int (length ids)] ids"
  have l: "length [1..int (length ids)] = length ids" by simp
  have c: "collect (cite_one q p raws positions fused final) ?xs = Inr cs"
    using assms by (simp add: cite_all_def)
  have "map ct_rank cs = map fst ?xs"
    by (rule collect_image [OF c]) (metis cite_one_Inr(1) prod.collapse)
  then show "map ct_rank cs = [1..int (length ids)]" unfolding map_fst_zip [OF l] .
  have "map ct_asset_version_id cs = map (canonical \<circ> snd) ?xs"
    by (rule collect_image [OF c]) (metis cite_one_Inr(4) comp_apply prod.collapse)
  then show "map ct_asset_version_id cs = map canonical ids"
    unfolding map_map [symmetric] map_snd_zip [OF l] .
  show "\<exists>rank. \<exists>i \<in> set ids. cite_one q p raws positions fused final (rank, i) = Inr c" if cs: "c \<in> set cs"
  proof -
    obtain x where x: "x \<in> set ?xs" "cite_one q p raws positions fused final x = Inr c"
      using collect_member [OF c cs] by blast
    moreover obtain rank i where "x = (rank, i)" by fastforce
    ultimately show ?thesis using set_zip_rightD by fastforce
  qed
qed

lemma answer_Inr:
  assumes "answer q p n st fused (ids, positions, ds) outcome = Inr r"
  shows "\<exists>final. outcome = Decided final \<and> set (map ea_asset_version_id (el_items final)) \<subseteq> set ids \<and>
     cite_all q p (rl_raw_scores st) positions fused final (selected_ids q final ids) = Inr (resp_citations r) \<and>
     resp_eligible_count r = int n \<and> resp_degradations r = ds \<and> resp_complete_hybrid r = (ds = []) \<and>
     resp_check r = None"
  using assms by (auto simp: answer_def Let_def split: authority_outcome.splits if_splits sum.splits option.splits)

lemma retrieval_execute_decided:
  assumes "retrieval_execute sv q = Inr r"
  shows "\<exists>initial. sv_eligible sv q = Decided initial \<and> (el_items initial = [] \<longrightarrow> resp_citations r = [])"
proof -
  have p: "qy_retrieval_policy_version q = rtp_version (sv_policy sv)"
    using assms by (simp add: retrieval_execute_def split: if_splits)
  obtain initial where initial: "sv_eligible sv q = Decided initial"
    using assms p by (auto simp: retrieval_execute_def split: authority_outcome.splits)
  moreover have "resp_citations r = []" if "el_items initial = []"
    using assms that by (auto simp: retrieval_execute_def p initial empty_response_def split: option.splits)
  ultimately show ?thesis by blast
qed

lemma retrieval_execute_Inr:
  assumes "retrieval_execute sv q = Inr r" "sv_eligible sv q = Decided initial" "el_items initial \<noteq> []"
  shows "\<exists>st fused bounded ids positions ds.
     recall_all q (map ea_asset_version_id (el_items initial)) (sv_sources sv) empty_recall = Inr st \<and>
     rank_candidates (sv_policy sv) q (el_items initial) st = Inr (fused, bounded) \<and>
     rerank_step sv q (map rc_asset_version_id bounded) (rl_degradations st) = Inr (ids, positions, ds) \<and>
     answer q (sv_policy sv) (length (el_items initial)) st fused (ids, positions, ds) (sv_revalidate sv q ids) = Inr r"
proof -
  let ?items = "el_items initial"
  have p: "qy_retrieval_policy_version q = rtp_version (sv_policy sv)"
    using assms(1) by (simp add: retrieval_execute_def split: if_splits)
  note run = assms(1) [unfolded retrieval_execute_def p assms(2) Let_def, simplified, simplified assms(3), simplified]
  obtain st where st: "recall_all q (map ea_asset_version_id ?items) (sv_sources sv) empty_recall = Inr st"
    using run by (auto split: sum.splits)
  note run = run [unfolded st, simplified]
  obtain fb where "rank_candidates (sv_policy sv) q ?items st = Inr fb"
    using run by (auto split: sum.splits if_splits)
  moreover obtain fused bounded where "fb = (fused, bounded)" by fastforce
  ultimately have fb: "rank_candidates (sv_policy sv) q ?items st = Inr (fused, bounded)" by simp
  note run = run [unfolded fb, simplified]
  obtain ranked where "rerank_step sv q (map rc_asset_version_id bounded) (rl_degradations st) = Inr ranked"
    using run by (auto split: sum.splits if_splits)
  moreover obtain ids positions ds where "ranked = (ids, positions, ds)" using prod_cases3 by blast
  ultimately have ranked: "rerank_step sv q (map rc_asset_version_id bounded) (rl_degradations st) =
      Inr (ids, positions, ds)" by simp
  have "answer q (sv_policy sv) (length ?items) st fused (ids, positions, ds) (sv_revalidate sv q ids) = Inr r"
    using run by (simp add: ranked split: if_splits)
  with st fb ranked show ?thesis by blast
qed

section \<open>Properties\<close>

text \<open>C18: The rights fence. Whatever the sources, the fusion and the reranker do, every citation of an
  answer names an asset version that the authority allowed before recall and again after ranking: the
  second question asks for distinct versions of the first decision only, the citation carries the
  rights record and its version from the second decision, whose time it bears, and the citations are
  distinct, ranked 1, 2, 3, ... and no more than the result limit.\<close>

theorem retrieval_rights_fence:
  assumes "retrieval_execute sv q = Inr r" "resp_citations r \<noteq> []"
  shows "\<exists>initial ids final. sv_eligible sv q = Decided initial \<and> sv_revalidate sv q ids = Decided final \<and>
    distinct ids \<and> set ids \<subseteq> set (map ea_asset_version_id (el_items initial)) \<and>
    map ct_asset_version_id (resp_citations r) = map canonical (selected_ids q final ids) \<and>
    map ct_rank (resp_citations r) = [1..int (length (resp_citations r))] \<and>
    int (length (resp_citations r)) \<le> max 0 (qy_result_limit q) \<and>
    (\<forall>c \<in> set (resp_citations r). ct_decided_at c = utc (instant (el_decided_at final)) \<and>
      (\<exists>i \<in> set ids. \<exists>a \<in> set (el_items final). ea_asset_version_id a = i \<and> ct_asset_version_id c = canonical i \<and>
         ct_asset_id c = canonical (ea_asset_id a) \<and> ct_rights_record_id c = canonical (ea_rights_record_id a) \<and>
         ct_rights_record_version c = ea_rights_record_version a))"
proof -
  obtain initial where initial: "sv_eligible sv q = Decided initial" "el_items initial \<noteq> []"
    using retrieval_execute_decided [OF assms(1)] assms(2) by blast
  obtain st fused bounded ids positions ds where e:
    "recall_all q (map ea_asset_version_id (el_items initial)) (sv_sources sv) empty_recall = Inr st"
    "rank_candidates (sv_policy sv) q (el_items initial) st = Inr (fused, bounded)"
    "rerank_step sv q (map rc_asset_version_id bounded) (rl_degradations st) = Inr (ids, positions, ds)"
    "answer q (sv_policy sv) (length (el_items initial)) st fused (ids, positions, ds) (sv_revalidate sv q ids) = Inr r"
    using retrieval_execute_Inr [OF assms(1) initial] by blast
  have "distinct (map fst (rl_rankings st))"
    using recall_all_fenced [OF e(1) empty_recall_fenced subset_refl] by (simp add: recall_fenced_def)
  note ranked = rank_candidates_Inr [OF e(2) this]
  note ids = rerank_step_Inr [OF e(3) ranked(2)]
  obtain final where f: "sv_revalidate sv q ids = Decided final"
    "cite_all q (sv_policy sv) (rl_raw_scores st) positions fused final (selected_ids q final ids) =
       Inr (resp_citations r)"
    using answer_Inr [OF e(4)] by blast
  note cited = cite_all_Inr [OF f(2)]
  have len: "length (resp_citations r) = length (selected_ids q final ids)"
    using cited(2) by (metis length_map)
  then have bound: "int (length (resp_citations r)) \<le> max 0 (qy_result_limit q)" by (simp add: selected_ids_def)
  have sel: "i \<in> set ids" if "i \<in> set (selected_ids q final ids)" for i
    using that by (auto simp: selected_ids_def dest: in_set_takeD)
  have from_final: "ct_decided_at c = utc (instant (el_decided_at final)) \<and>
      (\<exists>i \<in> set ids. \<exists>a \<in> set (el_items final). ea_asset_version_id a = i \<and> ct_asset_version_id c = canonical i \<and>
         ct_asset_id c = canonical (ea_asset_id a) \<and> ct_rights_record_id c = canonical (ea_rights_record_id a) \<and>
         ct_rights_record_version c = ea_rights_record_version a)" if cit: "c \<in> set (resp_citations r)" for c
  proof -
    obtain rank i where i: "i \<in> set ids"
      "cite_one q (sv_policy sv) (rl_raw_scores st) positions fused final (rank, i) = Inr c"
      using cited(3) [OF cit] sel by blast
    show ?thesis by (intro conjI bexI [of _ i] cite_one_Inr(3) [OF i(2)] cite_one_Inr(4) [OF i(2)] i(1))
  qed
  have sub: "set ids \<subseteq> set (map ea_asset_version_id (el_items initial))" using ids(2) ranked(3,4) by blast
  show ?thesis
    by (rule exI [of _ initial], rule exI [of _ ids], rule exI [of _ final])
      (intro conjI ballI initial(1) f(1) ids(1) sub cited(2) cited(1) [folded len] bound
        from_final [THEN conjunct1] from_final [THEN conjunct2])
qed

end
