(* ===== verification/Retrieval_Answers.thy ===== *)
theory Retrieval_Answers
  imports Retrieval_Service_Facts
begin

text \<open>
  A request whose collaborators honour their contracts is answered: none of the internal checks of the
  service, of the fusion, of a citation or of the response can fail.
\<close>

section \<open>The contracts\<close>

definition brand_version_given :: "retrieval_query \<Rightarrow> bool" where
  "brand_version_given q \<longleftrightarrow> (case qy_brand_profile_version q of None \<Rightarrow> False | Some n \<Rightarrow> 1 \<le> n)"

text \<open>What one source must answer when it is asked for the candidates of a request.\<close>

definition source_dependable :: "retrieval_query \<Rightarrow> string list \<Rightarrow> retrieval_source \<Rightarrow> bool" where
  "source_dependable q eligible src \<longleftrightarrow>
     (case rs_recall src q eligible (min (qy_candidate_limit q) (int (length eligible))) of
        RecallRaised e \<Rightarrow> False
      | SourceUnavailable ch reason \<Rightarrow> ch = rs_channel src \<and> is_token reason
      | Recalled b \<Rightarrow> rb_channel b = rs_channel src \<and> distinct (map rh_asset_version_id (rb_hits b)) \<and>
          (\<forall>h \<in> set (rb_hits b). rh_asset_version_id h \<in> set eligible \<and> parses_uuid (rh_asset_version_id h) = None) \<and>
          (rs_channel src = BRAND_PROFILE \<longrightarrow> int (length (rb_hits b)) \<le> qy_candidate_limit q \<and>
             (rb_hits b \<noteq> [] \<longrightarrow> brand_version_given q)))"

text \<open>
  What the authority must answer: decisions that pass their checks, over canonical identifiers, and on
  the second question a decision about the versions it is asked for.
\<close>

definition decision_good :: "eligibility \<Rightarrow> bool" where
  "decision_good d \<longleftrightarrow> el_check d = None \<and> (\<forall>a \<in> set (el_items d). ea_check a = None \<and>
     canonical (ea_asset_version_id a) = ea_asset_version_id a)"

definition authority_dependable :: "retrieval_service \<Rightarrow> retrieval_query \<Rightarrow> eligibility \<Rightarrow> bool" where
  "authority_dependable sv q initial \<longleftrightarrow>
     sv_eligible sv q = Decided initial \<and> decision_good initial \<and> int (length (el_items initial)) \<le> 2147483647 \<and>
     (\<forall>ids. distinct ids \<longrightarrow> set ids \<subseteq> set (map ea_asset_version_id (el_items initial)) \<longrightarrow>
        (\<exists>final. sv_revalidate sv q ids = Decided final \<and> decision_good final \<and>
           set (map ea_asset_version_id (el_items final)) \<subseteq> set ids))"

definition reranker_dependable :: "retrieval_service \<Rightarrow> retrieval_query \<Rightarrow> bool" where
  "reranker_dependable sv q \<longleftrightarrow> (case sv_reranker sv of None \<Rightarrow> True
     | Some rerank \<Rightarrow> (\<forall>ids e. rerank q ids = RerankRaised e \<longrightarrow> e = ValueError))"

section \<open>Recall\<close>

definition ranking_good :: "retrieval_policy \<Rightarrow> retrieval_query \<Rightarrow> retrieval_channel \<times> string list \<Rightarrow> bool" where
  "ranking_good p q x \<longleftrightarrow> map_of (rtp_channel_weights p) (fst x) \<noteq> None \<and> distinct (snd x) \<and>
     (\<forall>i \<in> set (snd x). parses_uuid i = None) \<and>
     (fst x = BRAND_PROFILE \<longrightarrow> int (length (snd x)) \<le> qy_candidate_limit q \<and> (snd x \<noteq> [] \<longrightarrow> brand_version_given q))"

definition recall_good ::
  "retrieval_policy \<Rightarrow> retrieval_query \<Rightarrow> string list \<Rightarrow> retrieval_source list \<Rightarrow> recall_state \<Rightarrow> bool" where
  "recall_good p q eligible srcs st \<longleftrightarrow> recall_fenced eligible srcs st \<and>
     (\<forall>x \<in> set (rl_rankings st). ranking_good p q x)"

lemma weight_of_channel: "rtp_check p = None \<Longrightarrow> map_of (rtp_channel_weights p) ch \<noteq> None"
proof -
  assume "rtp_check p = None"
  then have "set (map fst (rtp_channel_weights p)) = set all_channels" by (simp add: rtp_check_def guards_None)
  moreover have "ch \<in> set all_channels" by (cases ch) (simp_all add: all_channels_def)
  ultimately show ?thesis by (simp only: map_of_eq_None_iff set_map not_not)
qed

lemma channel_value_token [simp]: "is_token (channel_value ch)"
  by (cases ch) (simp_all add: is_token_char_def class_defs code_def)

lemma recall_one_answers:
  assumes p: "rtp_check p = None" and d: "source_dependable q eligible src"
    and good: "recall_good p q eligible srcs st" and src: "src \<in> set srcs"
  shows "\<exists>st'. recall_one q eligible src st = Inr st' \<and> recall_good p q eligible srcs st' \<and>
    length (rl_degradations st') \<le> Suc (length (rl_degradations st))"
proof (cases "rs_recall src q eligible (min (qy_candidate_limit q) (int (length eligible)))")
  case (Recalled b)
  let ?ids = "map rh_asset_version_id (rb_hits b)"
  let ?st = "st\<lparr>rl_rankings := AList.update (rb_channel b) ?ids (rl_rankings st),
              rl_raw_scores := add_raw_scores (rb_channel b) (rb_hits b) (rl_raw_scores st)\<rparr>"
  have one: "recall_one q eligible src st = Inr ?st"
    using d Recalled by (auto simp: recall_one_def source_dependable_def)
  have "ranking_good p q (rb_channel b, ?ids)"
    using d Recalled weight_of_channel [OF p] by (simp add: source_dependable_def ranking_good_def)
  then have "\<forall>x \<in> set (rl_rankings ?st). ranking_good p q x"
    using good set_update_subset [of "rb_channel b" ?ids "rl_rankings st"] by (auto simp: recall_good_def)
  moreover have "recall_fenced eligible srcs ?st"
    by (rule recall_one_fenced [OF one _ src]) (use good in \<open>simp add: recall_good_def\<close>)
  ultimately show ?thesis using one by (simp add: recall_good_def)
next
  case (SourceUnavailable ch reason)
  let ?st = "st\<lparr>rl_degradations := rl_degradations st @ [\<lparr>dg_component = channel_value ch, dg_code = reason\<rparr>]\<rparr>"
  have one: "recall_one q eligible src st = Inr ?st"
    using d SourceUnavailable by (auto simp: recall_one_def source_dependable_def dg_check_def guards_None)
  moreover have "recall_fenced eligible srcs ?st"
    by (rule recall_one_fenced [OF one _ src]) (use good in \<open>simp add: recall_good_def\<close>)
  ultimately show ?thesis using good by (simp add: recall_good_def)
next
  case (RecallRaised e)
  then show ?thesis using d by (simp add: source_dependable_def)
qed

lemma recall_all_answers:
  assumes p: "rtp_check p = None"
  shows "(\<forall>src \<in> set rest. source_dependable q eligible src) \<Longrightarrow> recall_good p q eligible srcs st \<Longrightarrow>
    set rest \<subseteq> set srcs \<Longrightarrow> \<exists>st'. recall_all q eligible rest st = Inr st' \<and> recall_good p q eligible srcs st' \<and>
    length (rl_degradations st') \<le> length rest + length (rl_degradations st)"
proof (induction rest arbitrary: st)
  case (Cons src rest)
  obtain st1 where st1: "recall_one q eligible src st = Inr st1" "recall_good p q eligible srcs st1"
    "length (rl_degradations st1) \<le> Suc (length (rl_degradations st))"
    using recall_one_answers [OF p _ Cons.prems(2), of src] Cons.prems by auto
  obtain st' where "recall_all q eligible rest st1 = Inr st'" "recall_good p q eligible srcs st'"
    "length (rl_degradations st') \<le> length rest + length (rl_degradations st1)"
    using Cons.IH [OF _ st1(2)] Cons.prems by auto
  with st1 show ?case by (intro exI [of _ st']) simp
qed simp

lemma recall_starts_good: "recall_good p q eligible srcs empty_recall"
  using empty_recall_fenced [of eligible srcs] by (simp add: recall_good_def empty_recall_def)

text \<open>Each source adds at most one degradation and there are five channels.\<close>

lemma at_most_five:
  assumes "distinct (map f xs :: retrieval_channel list)"
  shows "length xs \<le> 5"
proof -
  have "ch \<in> set all_channels" for ch by (cases ch) (simp_all add: all_channels_def)
  then have "set (map f xs) \<subseteq> set all_channels" by blast
  then have "card (set (map f xs)) \<le> card (set all_channels)" by (rule card_mono [OF finite_set])
  then show ?thesis using distinct_card [OF assms] by (simp add: all_channels_def)
qed

section \<open>Ranking\<close>

lemma fusion_answers:
  assumes p: "rtp_check p = None" and d: "distinct (map fst rankings)"
    and good: "\<forall>x \<in> set rankings. ranking_good p q x"
  shows "\<exists>fused. reciprocal_rank_fuse rankings p [] = Inr fused"
proof -
  have "rankings_ok p rankings" using good by (force simp: rankings_ok_def ranking_good_def)
  moreover have "adjustments_ok p rankings []"
    using p by (simp add: adjustments_ok_def get_or_def rtp_check_def guards_None)
  ultimately show ?thesis using reciprocal_rank_fuse_Inr [OF d] by blast
qed

lemma ea_check_None: "ea_check a = None \<longleftrightarrow> parses_uuid (ea_asset_id a) = None \<and>
    parses_uuid (ea_asset_version_id a) = None \<and> parses_uuid (ea_product_id a) = None \<and>
    parses_uuid (ea_rights_record_id a) = None \<and> is_sha256 (ea_content_sha256 a) \<and> 1 \<le> ea_rights_record_version a"
  by (simp add: ea_check_def not_less)

lemma eligible_of:
  assumes "i \<in> set (map ea_asset_version_id items)"
  obtains a where "map_of (map (\<lambda>a. (ea_asset_version_id a, a)) items) i = Some a" "a \<in> set items"
    "ea_asset_version_id a = i"
proof (cases "map_of (map (\<lambda>a. (ea_asset_version_id a, a)) items) i")
  case None
  with assms show ?thesis by (simp add: map_of_eq_None_iff image_image)
next
  case (Some a)
  with that show ?thesis using map_of_SomeD [OF Some] by auto
qed

lemma to_candidate_answers:
  assumes "rk_asset_version_id f \<in> set (map ea_asset_version_id items)" "\<forall>a \<in> set items. ea_check a = None"
  shows "\<exists>c. to_candidate items f = Inr c"
proof -
  obtain a where a: "map_of (map (\<lambda>a. (ea_asset_version_id a, a)) items) (rk_asset_version_id f) = Some a"
    "a \<in> set items" "ea_asset_version_id a = rk_asset_version_id f"
    by (rule eligible_of [OF assms(1)])
  with assms(2) have "ea_check a = None" by blast
  with a show ?thesis by (auto simp: to_candidate_def Let_def rc_check_def guards_None ea_check_None)
qed

lemma rrf_ranks_member:
  "(ch, r) \<in> set (rrf_ranks rankings i) \<Longrightarrow> \<exists>ids. (ch, ids) \<in> set rankings \<and> rank_from 1 i ids = Some r"
  by (force simp: rrf_ranks_def split: option.splits)

lemma rrf_ranks_distinct: "distinct (map fst rankings) \<Longrightarrow> distinct (map fst (rrf_ranks rankings i))"
proof (induction rankings rule: rev_induct)
  case (snoc x rs)
  obtain ch ids where x: "x = (ch, ids)" by fastforce
  have "ch \<notin> set (map fst (rrf_ranks rs i))" using snoc.prems rrf_ranks_channels [of rs i] by (auto simp: x)
  with snoc show ?case by (auto simp: x rrf_ranks_snoc split: option.split)
qed simp

text \<open>The brand ranking bounds the number of required candidates.\<close>

lemma required_bounded:
  assumes d: "distinct (map fst rankings)" and good: "\<forall>x \<in> set rankings. ranking_good p q x"
    and limit: "1 \<le> qy_candidate_limit q" and cs: "distinct (map rc_asset_version_id cs)"
    and req: "\<forall>c \<in> set cs. rc_required c \<longrightarrow> (\<exists>ids. (BRAND_PROFILE, ids) \<in> set rankings \<and> rc_asset_version_id c \<in> set ids)"
  shows "int (length (filter rc_required cs)) \<le> qy_candidate_limit q"
proof (cases "\<exists>ids. (BRAND_PROFILE, ids) \<in> set rankings")
  case True
  then obtain ids where ids: "(BRAND_PROFILE, ids) \<in> set rankings" by blast
  have "ids' = ids" if "(BRAND_PROFILE, ids') \<in> set rankings" for ids'
    using d ids that by (simp add: eq_key_imp_eq_value)
  with req have "set (map rc_asset_version_id (filter rc_required cs)) \<subseteq> set ids" by auto
  then have "card (set (map rc_asset_version_id (filter rc_required cs))) \<le> length ids"
    using card_mono [OF finite_set] card_length le_trans by blast
  moreover have "distinct (map rc_asset_version_id (filter rc_required cs))" using cs by (simp add: distinct_map_filter)
  ultimately have "length (filter rc_required cs) \<le> length ids" using distinct_card length_map by metis
  moreover have "int (length ids) \<le> qy_candidate_limit q" using good ids by (force simp: ranking_good_def)
  ultimately show ?thesis by linarith
next
  case False
  then have "filter rc_required cs = []" using req by (auto simp: filter_empty_conv)
  with limit show ?thesis by simp
qed

lemma rank_candidates_answers:
  assumes p: "rtp_check p = None" and limit: "1 \<le> qy_candidate_limit q"
    and d: "distinct (map fst (rl_rankings st))" and good: "\<forall>x \<in> set (rl_rankings st). ranking_good p q x"
    and within: "\<forall>x \<in> set (rl_rankings st). set (snd x) \<subseteq> set (map ea_asset_version_id items)"
    and items: "\<forall>a \<in> set items. ea_check a = None"
  shows "\<exists>fused bounded. rank_candidates p q items st = Inr (fused, bounded)"
proof -
  obtain fused where fused: "reciprocal_rank_fuse (rl_rankings st) p [] = Inr fused"
    using fusion_answers [OF p d good] by blast
  note ref = fuse_reference [OF fused d]
  have ids: "rk_asset_version_id f \<in> set (map ea_asset_version_id items)" if "f \<in> set fused" for f
    using that within unfolding ref(1) by (fastforce simp: reference_candidate_def)
  obtain cs where cs: "collect (to_candidate items) fused = Inr cs"
    using collect_answers [of fused "to_candidate items"] to_candidate_answers ids items by blast
  let ?ds = "deduplicate_retrieval_candidates cs"
  have dd: "distinct (map rc_asset_version_id ?ds)"
    unfolding deduplicate_retrieval_candidates_def by (rule dedupe_versions)
  have "\<exists>ids. (BRAND_PROFILE, ids) \<in> set (rl_rankings st) \<and> rc_asset_version_id c \<in> set ids"
    if c: "c \<in> set ?ds" "rc_required c" for c
  proof -
    have "c \<in> set cs" using c(1) list_emb_set [OF dedupe_subseq]
      unfolding deduplicate_retrieval_candidates_def by blast
    then obtain f where f: "f \<in> set fused" "to_candidate items f = Inr c" using collect_member [OF cs] by blast
    have "rk_channel_ranks f = rrf_ranks (rl_rankings st) (rk_asset_version_id f)"
      using f(1) unfolding ref(1) by (auto simp: reference_candidate_def)
    then obtain r where "(BRAND_PROFILE, r) \<in> set (rrf_ranks (rl_rankings st) (rk_asset_version_id f))"
      using to_candidate_Inr(3) [OF f(2)] c(2) by auto
    from rrf_ranks_member [OF this] show ?thesis
      using to_candidate_Inr(1) [OF f(2)] by (auto dest: rank_from_Some)
  qed
  then have "int (length (filter rc_required ?ds)) \<le> qy_candidate_limit q"
    using required_bounded [OF d good limit dd] by blast
  then have "\<exists>bounded. bound_retrieval_candidates (qy_candidate_limit q) ?ds = Inr bounded"
    using limit dd by (simp add: bound_Inr)
  with fused cs show ?thesis by (auto simp: rank_candidates_def)
qed

lemma rerank_step_answers:
  assumes "reranker_dependable sv q"
  shows "\<exists>ys positions ds'. rerank_step sv q ids ds = Inr (ys, positions, ds') \<and>
    length ds' \<le> Suc (length ds) \<and> (\<forall>x \<in> set positions. 1 \<le> snd x)"
proof (cases "sv_reranker sv")
  case (Some rerank)
  then have re: "e = ValueError" if "rerank q ids = RerankRaised e" for e
    using assms that by (simp add: reranker_dependable_def)
  show ?thesis
  proof (cases "rerank q ids")
    case (Reranked xs)
    show ?thesis
    proof (cases "ids = [] \<or> (\<exists>e. apply_bounded_rerank ids xs = Inl e)")
      case True
      with Some Reranked show ?thesis by (auto simp: rerank_step_def Let_def)
    next
      case False
      then obtain ys where "apply_bounded_rerank ids xs = Inr ys" by (metis sum.exhaust)
      with Some Reranked False show ?thesis by (auto simp: rerank_step_def Let_def dest: set_zip_rightD)
    qed
  qed (use Some re in \<open>auto simp: rerank_step_def Let_def\<close>)
qed (simp add: rerank_step_def)

section \<open>Citing\<close>

lemma parses_canonical: "parses_uuid v = None \<Longrightarrow> parses_uuid (canonical v) = None"
  using uuid_text_lower [of v] by (auto simp: parses_uuid_def canonical_def canonicalize_uuid_eq split: if_splits)

lemma float_add_minus [simp]: "float_add x (- x) = 0"
  by (simp add: float_add_def)

lemma citation_channels_set: "set (citation_channels f) = fst ` set (rk_channel_ranks f)"
  by (simp add: citation_channels_def)

lemma citation_channels_distinct:
  "distinct (map fst (rk_channel_ranks f)) \<Longrightarrow> distinct (citation_channels f)"
proof -
  assume d: "distinct (map fst (rk_channel_ranks f))"
  let ?s = "sort_key (\<lambda>(ch, r). (r, channel_value ch)) (rk_channel_ranks f)"
  have "inj_on fst (set ?s)" "distinct ?s" using d by (auto simp: distinct_map)
  then show ?thesis unfolding citation_channels_def by (simp only: distinct_map simp_thms)
qed

lemma ct_check_answers:
  assumes p: "rtp_check p = None" and d: "distinct (map fst rankings)"
    and good: "\<forall>x \<in> set rankings. ranking_good p q x"
    and f: "f = reference_candidate p rankings [] i" and i: "i \<in> \<Union> (set ` set (map snd rankings))"
    and a: "ea_check a = None" and positions: "\<forall>x \<in> set positions. 1 \<le> snd x" and rank: "1 \<le> rank"
  shows "ct_check (make_citation q p raws positions decided rank a f) = None"
proof -
  let ?c = "make_citation q p raws positions decided rank a f"
  have ranks: "rk_channel_ranks f = rrf_ranks rankings i" "rk_business_adjustment f = 0"
    "rk_rrf_score f = rrf_score p rankings i" "rk_final_score f = float_add (rk_rrf_score f) 0"
    by (simp_all add: f reference_candidate_def get_or_def)
  have chs: "set (citation_channels f) = set (map fst (rk_channel_ranks f))"
    by (simp add: citation_channels_set)
  have "rrf_ranks rankings i \<noteq> []" using i by (auto simp: rrf_ranks_empty)
  then have ne: "rk_channel_ranks f \<noteq> []" "citation_channels f \<noteq> []"
    using chs by (auto simp: ranks(1))
  have "1 \<le> r" if "(ch, r) \<in> set (rk_channel_ranks f)" for ch r
    using that rrf_ranks_member rank_from_ge unfolding ranks(1) by blast
  then have r1: "\<not> list_ex (\<lambda>(ch, r). r < 1) (rk_channel_ranks f)" by (force simp: list_ex_iff not_less)
  have pos: "1 \<le> n" if "map_of positions (rk_asset_version_id f) = Some n" for n
    using positions map_of_SomeD [OF that] by force
  have raw: "set (map fst (ct_channel_raw_scores ?c)) \<subseteq> set (citation_channels f)"
    by (auto simp: make_citation_def Let_def List.map_filter_def)
  have score: "ct_check_score ?c = None"
    unfolding ct_check_score_def guards_None
    using raw chs ne r1 pos rrf_score_nonneg [OF p, of rankings i]
    by (auto simp: make_citation_def Let_def ranks(2,4) ranks(3) [symmetric] not_less split: option.split)
  have dis: "distinct (citation_channels f)"
    by (rule citation_channels_distinct) (simp add: ranks(1) rrf_ranks_distinct [OF d])
  have five: "length (citation_channels f) \<le> 5" using at_most_five [of id "citation_channels f"] dis by simp
  have brand: "brand_version_given q" if "BRAND_PROFILE \<in> set (citation_channels f)"
  proof -
    have "BRAND_PROFILE \<in> set (map fst (rrf_ranks rankings i))" using that chs by (simp add: ranks(1))
    then obtain r where "(BRAND_PROFILE, r) \<in> set (rrf_ranks rankings i)" by auto
    from rrf_ranks_member [OF this] obtain ids where "(BRAND_PROFILE, ids) \<in> set rankings" "i \<in> set ids"
      by (auto dest: rank_from_Some)
    then show ?thesis using good by (force simp: ranking_good_def)
  qed
  have tok: "is_token (rtp_version p)" using p by (simp add: rtp_check_def guards_None)
  show ?thesis
    unfolding ct_check_def guards_None
    using score ne dis five brand tok rank chs a
    by (auto simp: make_citation_def Let_def ea_check_None parses_canonical brand_version_given_def not_less
        split: option.splits)
qed

lemma cite_one_answers:
  assumes p: "rtp_check p = None" and fused: "reciprocal_rank_fuse rankings p [] = Inr fused"
    and d: "distinct (map fst rankings)" and good: "\<forall>x \<in> set rankings. ranking_good p q x"
    and final: "\<forall>a \<in> set (el_items final). ea_check a = None" and positions: "\<forall>x \<in> set positions. 1 \<le> snd x"
    and rank: "1 \<le> rank" and i: "i \<in> set (map ea_asset_version_id (el_items final))"
      "i \<in> set (map rk_asset_version_id fused)"
  shows "\<exists>c. cite_one q p raws positions fused final (rank, i) = Inr c"
proof -
  note ref = fuse_reference [OF fused d]
  obtain a where a: "map_of (map (\<lambda>a. (ea_asset_version_id a, a)) (el_items final)) i = Some a" "a \<in> set (el_items final)"
    by (rule eligible_of [OF i(1)])
  obtain f where f: "map_of (map (\<lambda>f. (rk_asset_version_id f, f)) fused) i = Some f"
    using i(2) by (cases "map_of (map (\<lambda>f. (rk_asset_version_id f, f)) fused) i") (simp_all add: map_of_eq_None_iff image_image)
  have "f \<in> set fused" "rk_asset_version_id f = i" using map_of_SomeD [OF f] by auto
  then have "f = reference_candidate p rankings [] i" "i \<in> \<Union> (set ` set (map snd rankings))"
    unfolding ref(1) by (force simp: reference_candidate_def)+
  then have "ct_check (make_citation q p raws positions (el_decided_at final) rank a f) = None"
    using final a(2) by (intro ct_check_answers [OF p d good _ _ _ positions rank]) blast+
  with a(1) f show ?thesis by (simp add: cite_one_def)
qed

lemma distinct_canonical:
  assumes "distinct ids" "\<forall>i \<in> set ids. canonical i = i"
  shows "distinct (map canonical ids)"
  using assms by (simp add: distinct_map inj_on_def)

lemma answer_answers:
  assumes p: "rtp_check p = None" and q: "qy_check q = None"
    and fused: "reciprocal_rank_fuse (rl_rankings st) p [] = Inr fused"
    and d: "distinct (map fst (rl_rankings st))" and good: "\<forall>x \<in> set (rl_rankings st). ranking_good p q x"
    and final: "decision_good final" "set (map ea_asset_version_id (el_items final)) \<subseteq> set ids"
    and ids: "distinct ids" "set ids \<subseteq> set (map rk_asset_version_id fused)" "length ids \<le> n"
      "int (length ids) \<le> qy_candidate_limit q" "int n \<le> 2147483647"
    and positions: "\<forall>x \<in> set positions. 1 \<le> snd x" and ds: "length ds \<le> 16"
  shows "\<exists>r. answer q p n st fused (ids, positions, ds) (Decided final) = Inr r"
proof -
  let ?sel = "selected_ids q final ids" and ?final = "map ea_asset_version_id (el_items final)"
  have sel: "distinct ?sel" "\<And>i. i \<in> set ?sel \<Longrightarrow> i \<in> set ids \<and> i \<in> set ?final"
    using ids(1) by (auto simp: selected_ids_def dest: in_set_takeD)
  have "\<forall>x \<in> set (zip [1..int (length ?sel)] ?sel). \<exists>c. cite_one q p (rl_raw_scores st) positions fused final x = Inr c"
  proof (clarify)
    fix rank i
    assume "(rank, i) \<in> set (zip [1..int (length ?sel)] ?sel)"
    then have "1 \<le> rank" "i \<in> set ?sel" by (auto dest: set_zip_leftD set_zip_rightD)
    with sel(2) ids(2) show "\<exists>c. cite_one q p (rl_raw_scores st) positions fused final (rank, i) = Inr c"
      using final(1) by (intro cite_one_answers [OF p fused d good _ positions]) (auto simp: decision_good_def)
  qed
  then obtain cs where cs: "cite_all q p (rl_raw_scores st) positions fused final ?sel = Inr cs"
    using collect_answers unfolding cite_all_def by blast
  note cited = cite_all_Inr [OF cs]
  have len: "length cs = length ?sel" using cited(2) by (metis length_map)
  have canon: "\<forall>i \<in> set ?sel. canonical i = i" using sel(2) final(1) by (auto simp: decision_good_def)
  have dist: "distinct (map ct_asset_version_id cs)"
    unfolding cited(2) by (rule distinct_canonical [OF sel(1) canon])
  have nodup: "distinct ?final" using final(1) by (simp add: decision_good_def el_check_def guards_None)
  have "length ?sel \<le> length ?final"
    using card_mono [of "set ?final" "set ?sel"] sel distinct_card [OF sel(1)] distinct_card [OF nodup] by auto
  moreover have "length ?final \<le> length ids"
    using card_mono [OF finite_set final(2)] distinct_card [OF nodup] distinct_card [OF ids(1)] by simp
  moreover have "int (length ?sel) \<le> 50" "qy_candidate_limit q \<le> 1000"
    using q by (auto simp: selected_ids_def qy_check_def guards_None)
  moreover have "ct_retrieval_policy_version c = rtp_version p" if "c \<in> set cs" for c
    using cited(3) [OF that] cite_one_Inr(2) by blast
  moreover have "is_token (rtp_version p)" using p by (simp add: rtp_check_def guards_None)
  ultimately show ?thesis
    using final(2) cs cited(1) dist ids ds len
    by (auto simp: answer_def Let_def resp_check_def guards_None list_ex_iff not_less)
qed

lemma eligible_answered:
  assumes "rtp_check (sv_policy sv) = None" "sv_check sv = None" "qy_check q = None"
    and "qy_retrieval_policy_version q = rtp_version (sv_policy sv)"
    and "set (expected_dense q) \<subseteq> set (map rs_channel (sv_sources sv))"
    and "authority_dependable sv q initial"
    and "\<forall>src \<in> set (sv_sources sv). source_dependable q (map ea_asset_version_id (el_items initial)) src"
    and "reranker_dependable sv q"
    and "el_items initial \<noteq> []"
  shows "\<exists>r. retrieval_execute sv q = Inr r \<and> resp_eligible_count r = int (length (el_items initial))"
proof -
  let ?p = "sv_policy sv" and ?items = "el_items initial" and ?srcs = "sv_sources sv"
  let ?eligible = "map ea_asset_version_id ?items"
  note p = assms(1)
  have auth: "sv_eligible sv q = Decided initial" "decision_good initial" "int (length ?items) \<le> 2147483647"
    using assms(6) by (simp_all add: authority_dependable_def)
  have limits: "1 \<le> qy_candidate_limit q" using assms(3) by (simp add: qy_check_def guards_None)
  obtain st where st: "recall_all q ?eligible ?srcs empty_recall = Inr st" "recall_good ?p q ?eligible ?srcs st"
    "length (rl_degradations st) \<le> length ?srcs"
    using recall_all_answers [OF p assms(7) recall_starts_good subset_refl] by (auto simp: empty_recall_def)
  have "length ?srcs \<le> 5" using assms(2) by (intro at_most_five [of rs_channel]) (simp add: sv_check_def)
  then have few: "length (rl_degradations st) \<le> 5" using st(3) by simp
  have d: "distinct (map fst (rl_rankings st))" and good: "\<forall>x \<in> set (rl_rankings st). ranking_good ?p q x"
    and within: "\<forall>x \<in> set (rl_rankings st). set (snd x) \<subseteq> set ?eligible"
    using st(2) by (simp_all add: recall_good_def recall_fenced_def)
  obtain fused bounded where rank: "rank_candidates ?p q ?items st = Inr (fused, bounded)"
    using rank_candidates_answers [OF p limits d good within] auth(2) by (auto simp: decision_good_def)
  note ranked = rank_candidates_Inr [OF rank d]
  obtain ids positions ds where re: "rerank_step sv q (map rc_asset_version_id bounded) (rl_degradations st) =
      Inr (ids, positions, ds)" "length ds \<le> Suc (length (rl_degradations st))" "\<forall>x \<in> set positions. 1 \<le> snd x"
    using rerank_step_answers [OF assms(8)] by blast
  note ids = rerank_step_Inr [OF re(1) ranked(2)]
  have "set ids \<subseteq> set ?eligible" using ids(2) ranked(3,4) by blast
  then obtain final where final: "sv_revalidate sv q ids = Decided final" "decision_good final"
    "set (map ea_asset_version_id (el_items final)) \<subseteq> set ids"
    using assms(6) ids(1) unfolding authority_dependable_def by blast
  have "length ids = length bounded"
    using distinct_card [OF ids(1)] distinct_card [OF ranked(2)] ids(2) by simp
  moreover have "length ids \<le> length ?items"
    using card_mono [OF finite_set \<open>set ids \<subseteq> set ?eligible\<close>] distinct_card [OF ids(1)]
      card_length [of ?eligible] by simp
  moreover have "length ds \<le> 16" using re(2) few by simp
  ultimately obtain r where r: "answer q ?p (length ?items) st fused (ids, positions, ds) (Decided final) = Inr r"
    using answer_answers [OF p assms(3) ranked(1) d good final(2,3) ids(1) _ _ _ auth(3) re(3), of ds] ids(2) ranked(3,5)
    by auto
  then have "resp_eligible_count r = int (length ?items)" using answer_Inr by blast
  moreover have "retrieval_execute sv q = Inr r"
    using assms(4,5,9) auth(1) st(1) rank re(1) final(1) r by (simp add: retrieval_execute_def Let_def)
  ultimately show ?thesis by blast
qed

section \<open>The property\<close>

text \<open>C19: A request is answered. Under a valid policy and a valid query for it, with a source for every
  requested vector kind, an authority whose decisions pass their own checks, sources that answer with
  distinct eligible versions or with an explicit unavailability, and a reranker that fails at most with
  its own error or a \<open>ValueError\<close>, no internal check of the service can fail: there is a response, and
  it is degraded rather than refused when a source or the reranker is unavailable.\<close>

theorem retrieval_answers:
  assumes "rtp_check (sv_policy sv) = None" "sv_check sv = None" "qy_check q = None"
    and "qy_retrieval_policy_version q = rtp_version (sv_policy sv)"
    and "set (expected_dense q) \<subseteq> set (map rs_channel (sv_sources sv))"
    and "authority_dependable sv q initial"
    and "\<forall>src \<in> set (sv_sources sv). source_dependable q (map ea_asset_version_id (el_items initial)) src"
    and "reranker_dependable sv q"
  shows "\<exists>r. retrieval_execute sv q = Inr r \<and> resp_eligible_count r = int (length (el_items initial))"
proof (cases "el_items initial = []")
  case True
  have "resp_check (empty_response (sv_policy sv)) = None"
    using assms(1) by (simp add: resp_check_def empty_response_def rtp_check_def guards_None)
  with True assms(4,6) show ?thesis
    by (simp add: retrieval_execute_def empty_response_def authority_dependable_def)
qed (rule eligible_answered [OF assms])

section \<open>Witnesses\<close>

definition sample_eligible :: eligible_asset where
  "sample_eligible = \<lparr>ea_asset_id = uuid_str 1, ea_asset_version_id = uuid_str 2,
     ea_content_sha256 = replicate 64 (CHR ''a''), ea_product_id = uuid_str 3, ea_category = ''shoes'',
     ea_brand = ''acme'', ea_role = ''HERO'', ea_rights_record_id = uuid_str 4, ea_rights_record_version = 1,
     ea_retention_class = RC_TASK\<rparr>"

definition sample_query :: retrieval_query where
  "sample_query = \<lparr>qy_workspace_id = ''workspace'', qy_requester_id = ''planner'', qy_product_id = Some (uuid_str 3),
     qy_product_brief_id = None, qy_category = None, qy_brand = None, qy_purpose = ''GENERATION'',
     qy_provider = ''local'', qy_requires_derivative = True, qy_roles = [], qy_vector_kinds = [VK_PRODUCT_FUSED],
     qy_query_text = None, qy_query_image_asset_version_id = None, qy_explicit_references = [uuid_str 2],
     qy_brand_profile_id = None, qy_brand_profile_version = None, qy_result_limit = 10,
     qy_candidate_limit = 100, qy_retrieval_policy_version = ''v1''\<rparr>"

definition sample_decision :: eligibility where
  "sample_decision = \<lparr>el_decided_at = utc 0, el_items = [sample_eligible]\<rparr>"

text \<open>A dense source without an active collection for the query.\<close>

definition sample_dense_source :: retrieval_source where
  "sample_dense_source = \<lparr>rs_channel = PRODUCT_FUSED_DENSE, rs_recall = dense_recall (\<lambda>q kind eligible. Inr None)
     (\<lambda>q t. Inl ProviderUnavailable) (\<lambda>t ids v n. Inr []) VK_PRODUCT_FUSED\<rparr>"

definition sample_service :: retrieval_service where
  "sample_service = \<lparr>sv_policy = sample_retrieval_policy, sv_sources = [sample_dense_source, explicit_source],
     sv_eligible = (\<lambda>q. Decided sample_decision),
     sv_revalidate = (\<lambda>q ids. Decided (sample_decision\<lparr>el_items :=
       filter (\<lambda>a. ea_asset_version_id a \<in> set ids) (el_items sample_decision)\<rparr>)),
     sv_reranker = None\<rparr>"

lemma canonical_uuid_str [simp]: "canonical (uuid_str n) = uuid_str n"
  using uuid_str_text [of n] by (simp add: canonical_def canonicalize_uuid_eq)

lemma sample_eligible_good:
  "ea_check sample_eligible = None" "canonical (ea_asset_version_id sample_eligible) = ea_asset_version_id sample_eligible"
  by (simp_all add: ea_check_def sample_eligible_def class_defs code_def list_all_iff is_sha256_def)

lemma sample_decision_good: "set items \<subseteq> {sample_eligible} \<Longrightarrow> distinct items \<Longrightarrow>
    decision_good \<lparr>el_decided_at = utc 0, el_items = items\<rparr>"
  using sample_eligible_good by (auto simp: decision_good_def el_check_def distinct_map inj_on_def)

lemma sample_service_contracts:
  "rtp_check (sv_policy sample_service) = None" "sv_check sample_service = None" "qy_check sample_query = None"
  "qy_retrieval_policy_version sample_query = rtp_version (sv_policy sample_service)"
  "set (expected_dense sample_query) \<subseteq> set (map rs_channel (sv_sources sample_service))"
  "authority_dependable sample_service sample_query sample_decision"
  "\<forall>src \<in> set (sv_sources sample_service).
     source_dependable sample_query (map ea_asset_version_id (el_items sample_decision)) src"
  "reranker_dependable sample_service sample_query"
proof -
  show "rtp_check (sv_policy sample_service) = None"
    by (simp add: sample_service_def sample_retrieval_policy_valid)
  show "authority_dependable sample_service sample_query sample_decision"
    by (auto simp: authority_dependable_def sample_service_def sample_decision_def intro: sample_decision_good)
  show "\<forall>src \<in> set (sv_sources sample_service).
     source_dependable sample_query (map ea_asset_version_id (el_items sample_decision)) src"
    by (simp add: sample_service_def source_dependable_def sample_dense_source_def dense_recall_def
        dense_channel_def explicit_source_def explicit_recall_def make_batch_def
        sample_query_def sample_decision_def sample_eligible_def rb_check_def)
qed (simp_all add: sample_service_def sv_check_def explicit_source_def sample_dense_source_def dense_channel_def qy_check_def
    sample_query_def validator_defs is_requester_identity_def class_defs code_def is_token_char_def sample_retrieval_policy_def expected_dense_def reranker_dependable_def)

theorem retrieval_answers_witness:
  "\<exists>r. retrieval_execute sample_service sample_query = Inr r \<and> resp_eligible_count r = 1"
  using retrieval_answers [OF sample_service_contracts] by (simp add: sample_decision_def)

theorem retrieval_rights_fence_witness:
  "\<exists>r. retrieval_execute sample_service sample_query = Inr r \<and>
     map ct_asset_version_id (resp_citations r) = [uuid_str 2] \<and> map ct_rank (resp_citations r) = [1]"
proof -
  let ?raw = "\<lparr>rl_rankings = [(PRODUCT_FUSED_DENSE, []), (EXPLICIT, [uuid_str 2])], rl_raw_scores = [], rl_degradations = []\<rparr>"
  have st: "recall_all sample_query [uuid_str 2] [sample_dense_source, explicit_source] empty_recall = Inr ?raw"
    by (simp add: recall_one_def sample_dense_source_def dense_recall_def dense_channel_def explicit_source_def explicit_recall_def make_batch_def rb_check_def
        sample_query_def empty_recall_def)
  obtain r where r: "retrieval_execute sample_service sample_query = Inr r"
    using eligible_answered [OF sample_service_contracts] by (auto simp: sample_decision_def)
  have init: "sv_eligible sample_service sample_query = Decided sample_decision" "el_items sample_decision \<noteq> []"
    by (simp_all add: sample_service_def sample_decision_def)
  from retrieval_execute_Inr [OF r this] obtain st fused bounded ids positions ds where e:
    "recall_all sample_query (map ea_asset_version_id (el_items sample_decision)) (sv_sources sample_service) empty_recall = Inr st"
    "rank_candidates (sv_policy sample_service) sample_query (el_items sample_decision) st = Inr (fused, bounded)"
    "rerank_step sample_service sample_query (map rc_asset_version_id bounded) (rl_degradations st) = Inr (ids, positions, ds)"
    "answer sample_query (sv_policy sample_service) (length (el_items sample_decision)) st fused (ids, positions, ds)
       (sv_revalidate sample_service sample_query ids) = Inr r"
    by blast
  have "st = ?raw" using e(1) st by (simp add: sample_service_def sample_decision_def sample_eligible_def)
  then have "map rc_asset_version_id bounded = [uuid_str 2]"
    using e(2) by (auto simp: rank_candidates_def reciprocal_rank_fuse_def sample_service_def sample_retrieval_policy_def
        all_channels_def empty_fusion_def fuse_hit_def fused_candidate_def to_candidate_def sample_decision_def
        sample_eligible_def deduplicate_retrieval_candidates_def bound_retrieval_candidates_def sample_query_def
        Let_def get_or_def split: option.splits)
  then have "ids = [uuid_str 2]" using e(3) by (simp add: rerank_step_def sample_service_def)
  with answer_Inr [OF e(4)] cite_all_Inr(2) have "map ct_asset_version_id (resp_citations r) = [uuid_str 2]"
    by (fastforce simp: sample_service_def sample_decision_def sample_eligible_def selected_ids_def sample_query_def)
  then obtain c where one: "resp_citations r = [c]" "resp_citations r \<noteq> []" by auto
  from retrieval_rights_fence [OF r one(2)] have "map ct_rank (resp_citations r) = [1..int (length (resp_citations r))]"
    by blast
  with one(1) r \<open>map ct_asset_version_id (resp_citations r) = [uuid_str 2]\<close> show ?thesis by auto
qed

end
