(* ===== verification/Json_Text.thy ===== *)
theory Json_Text
  imports Texts "HOL-Library.AList"
begin

text \<open>
  The canonical JSON text of a value, \<open>json.dumps(v, ensure_ascii=..., sort_keys=True,
  separators=(",", ":"), allow_nan=False)\<close>, whose SHA-256 digests identify the immutable values of
  the program, and the decoder \<open>json.loads\<close>. Numbers are integers: the values the model serialises
  hold scores and amounts as text. A decoded text with a fraction or an exponent is outside the model
  and treated as an error.
\<close>

section \<open>Encoding\<close>

definition quote :: char where "quote = CHR 0x22"

definition backslash :: char where "backslash = CHR 0x5C"

text \<open>The short escapes of JSON: the character behind the backslash and the one it stands for.\<close>

definition short_escapes :: "(char \<times> char) list" where
  "short_escapes = [(quote, quote), (backslash, backslash), (CHR ''b'', CHR 0x08), (CHR ''f'', CHR 0x0C),
     (CHR ''n'', CHR 0x0A), (CHR ''r'', CHR 0x0D), (CHR ''t'', CHR 0x09)]"

definition escape_char :: "bool \<Rightarrow> char \<Rightarrow> string" where
  "escape_char ascii c =
     (case map_of (map prod.swap short_escapes) c of
        Some e \<Rightarrow> [backslash, e]
      | None \<Rightarrow>
          if code c < 32 \<or> (ascii \<and> 126 < code c)
          then backslash # CHR ''u'' # format_hex 4 (code c) else [c])"

definition json_string :: "bool \<Rightarrow> string \<Rightarrow> string" where
  "json_string ascii s = quote # concat (map (escape_char ascii) s) @ [quote]"

text \<open>Members are sorted by key; the keys of a \<open>dict\<close> are distinct.\<close>

fun json_dumps :: "bool \<Rightarrow> json \<Rightarrow> string" where
  "json_dumps ascii JNull = ''null''"
| "json_dumps ascii (JBool b) = (if b then ''true'' else ''false'')"
| "json_dumps ascii (JInt n) = str_of_int n"
| "json_dumps ascii (JStr s) = json_string ascii s"
| "json_dumps ascii (JArr xs) = ''['' @ join '','' (map (json_dumps ascii) xs) @ '']''"
| "json_dumps ascii (JObj kvs) = ''{'' @
     join '','' (map (\<lambda>(k, t). json_string ascii k @ '':'' @ t)
       (sort_key fst (map (\<lambda>(k, v). (k, json_dumps ascii v)) kvs))) @ ''}''"

text \<open>An optional text and a list of texts, as JSON.\<close>

fun json_opt :: "string option \<Rightarrow> json" where
  "json_opt None = JNull"
| "json_opt (Some s) = JStr s"

definition json_strings :: "string list \<Rightarrow> json" where
  "json_strings xs = JArr (map JStr xs)"

text \<open>The value with the members of every object in the order of their keys.\<close>

fun json_norm :: "json \<Rightarrow> json" where
  "json_norm (JArr xs) = JArr (map json_norm xs)"
| "json_norm (JObj kvs) = JObj (sort_key fst (map (\<lambda>(k, v). (k, json_norm v)) kvs))"
| "json_norm v = v"

text \<open>The values Python can hold: no object has a key twice.\<close>

fun json_ok :: "json \<Rightarrow> bool" where
  "json_ok (JArr xs) \<longleftrightarrow> list_all json_ok xs"
| "json_ok (JObj kvs) \<longleftrightarrow> distinct (map fst kvs) \<and> list_all (\<lambda>(k, v). json_ok v) kvs"
| "json_ok v \<longleftrightarrow> True"

section \<open>Decoding\<close>

definition skip_blank :: "string \<Rightarrow> string" where
  "skip_blank s = dropWhile (\<lambda>c. c \<in> {CHR '' '', CHR 0x09, CHR 0x0A, CHR 0x0D}) s"

text \<open>The rest of a string literal behind its opening quote.\<close>

function json_chars :: "string \<Rightarrow> (string \<times> string) option" where
  "json_chars [] = None"
| "json_chars (c # cs) =
     (if c = quote then Some ([], cs)
      else if c = backslash then
        (if cs = [] then None
         else if hd cs = CHR ''u'' then
           (if length cs < 5 \<or> \<not> list_all is_hex (take 4 (tl cs)) \<or> 255 < parse_hex (take 4 (tl cs)) then None
            else map_option (apfst (Cons (char_of (parse_hex (take 4 (tl cs)))))) (json_chars (drop 5 cs)))
         else (case map_of ((CHR ''/'', CHR ''/'') # short_escapes) (hd cs) of
                 None \<Rightarrow> None
               | Some d \<Rightarrow> map_option (apfst (Cons d)) (json_chars (tl cs))))
      else if code c < 32 then None
      else map_option (apfst (Cons c)) (json_chars cs))"
  by pat_completeness auto

termination
  by (relation "measure length") auto

definition json_number :: "string \<Rightarrow> (json \<times> string) option" where
  "json_number s =
     (let negative = (s \<noteq> [] \<and> hd s = CHR ''-'');
          t = (if negative then tl s else s);
          ds = takeWhile is_digit t;
          r = dropWhile is_digit t
      in if ds = [] \<or> (hd ds = CHR ''0'' \<and> ds \<noteq> ''0'') \<or> (r \<noteq> [] \<and> hd r \<in> set ''.eE'') then None
         else Some (JInt ((if negative then - 1 else 1) * int (dec_value 0 ds)), r))"

text \<open>A \<open>dict\<close> from pairs: a later pair replaces the value of an earlier one.\<close>

definition dict_of :: "(string \<times> 'a) list \<Rightarrow> (string \<times> 'a) list" where
  "dict_of kvs = foldl (\<lambda>d (k, v). AList.update k v d) [] kvs"

text \<open>
  The recursive descent, with fuel for the depth and the length of the text. \<open>unique\<close> is the hook
  \<open>_unique_json_object\<close> of tool authorization: an object with a repeated key is an error.
\<close>

fun json_value :: "bool \<Rightarrow> nat \<Rightarrow> string \<Rightarrow> (json \<times> string) option"
  and json_items :: "bool \<Rightarrow> nat \<Rightarrow> string \<Rightarrow> (json list \<times> string) option"
  and json_members :: "bool \<Rightarrow> nat \<Rightarrow> string \<Rightarrow> ((string \<times> json) list \<times> string) option" where
  "json_value unique 0 s = None"
| "json_value unique (Suc n) s =
     (case skip_blank s of
        [] \<Rightarrow> None
      | c # r \<Rightarrow>
          if c = quote then map_option (apfst JStr) (json_chars r)
          else if c = CHR ''['' then
            (if skip_blank r \<noteq> [] \<and> hd (skip_blank r) = CHR '']'' then Some (JArr [], tl (skip_blank r))
             else map_option (apfst JArr) (json_items unique n r))
          else if c = CHR ''{'' then
            (if skip_blank r \<noteq> [] \<and> hd (skip_blank r) = CHR ''}'' then Some (JObj [], tl (skip_blank r))
             else case json_members unique n r of
               None \<Rightarrow> None
             | Some (kvs, r') \<Rightarrow>
                 if unique \<and> \<not> distinct (map fst kvs) then None else Some (JObj (dict_of kvs), r'))
          else if take 4 (c # r) = ''null'' then Some (JNull, drop 4 (c # r))
          else if take 4 (c # r) = ''true'' then Some (JBool True, drop 4 (c # r))
          else if take 5 (c # r) = ''false'' then Some (JBool False, drop 5 (c # r))
          else json_number (c # r))"
| "json_items unique 0 s = None"
| "json_items unique (Suc n) s =
     (case json_value unique n s of
        None \<Rightarrow> None
      | Some (v, r) \<Rightarrow>
          (case skip_blank r of
             [] \<Rightarrow> None
           | c # r' \<Rightarrow>
               if c = CHR '','' then map_option (apfst (Cons v)) (json_items unique n r')
               else if c = CHR '']'' then Some ([v], r') else None))"
| "json_members unique 0 s = None"
| "json_members unique (Suc n) s =
     (case skip_blank s of
        [] \<Rightarrow> None
      | q # r \<Rightarrow>
          if q \<noteq> quote then None
          else (case json_chars r of
                  None \<Rightarrow> None
                | Some (k, r1) \<Rightarrow>
                    (case skip_blank r1 of
                       [] \<Rightarrow> None
                     | c # r2 \<Rightarrow>
                         if c \<noteq> CHR '':'' then None
                         else (case json_value unique n r2 of
                                 None \<Rightarrow> None
                               | Some (v, r3) \<Rightarrow>
                                   (case skip_blank r3 of
                                      [] \<Rightarrow> None
                                    | d # r4 \<Rightarrow>
                                        if d = CHR '','' then map_option (apfst (Cons (k, v))) (json_members unique n r4)
                                        else if d = CHR ''}'' then Some ([(k, v)], r4) else None)))))"

definition json_decode :: "bool \<Rightarrow> string \<Rightarrow> error + json" where
  "json_decode unique s =
     (case json_value unique (2 * length s + 2) s of
        None \<Rightarrow> Inl ValueError
      | Some (v, r) \<Rightarrow> if skip_blank r = [] then Inr v else Inl ValueError)"

text \<open>\<open>json.loads(s)\<close>, and \<open>json.loads(s, object_pairs_hook=_unique_json_object)\<close>.\<close>

definition json_loads :: "string \<Rightarrow> error + json" where
  "json_loads s = json_decode False s"

definition json_loads_unique :: "string \<Rightarrow> error + json" where
  "json_loads_unique s = json_decode True s"

end
