(* ===== verification/Timestamps.thy ===== *)
theory Timestamps
  imports Texts
begin

text \<open>
  The text of an instant in canonical payloads: \<open>isoformat(timespec="microseconds")\<close> of a UTC
  \<open>datetime\<close> with the offset written as \<open>Z\<close>. The calendar is the one of Python's \<open>datetime\<close>
  module (proleptic Gregorian, years 1 to 9999), with its conversion of day numbers.
\<close>

section \<open>The calendar\<close>

definition days_before_month :: "int list" where
  "days_before_month = [- 1, 0, 31, 59, 90, 120, 151, 181, 212, 243, 273, 304, 334]"

definition days_in_month :: "int list" where
  "days_in_month = [- 1, 31, 28, 31, 30, 31, 30, 31, 31, 30, 31, 30, 31]"

text \<open>Days before a month of a year, and the month and day of a day of a year (from 0).\<close>

definition before_month :: "bool \<Rightarrow> int \<Rightarrow> int" where
  "before_month leap m = days_before_month ! nat m + (if 2 < m \<and> leap then 1 else 0)"

definition month_day :: "bool \<Rightarrow> int \<Rightarrow> int \<times> int" where
  "month_day leap n =
     (let m = (n + 50) div 32 in
      if n < before_month leap m
      then (m - 1, n - (before_month leap m - (days_in_month ! nat (m - 1) + (if m - 1 = 2 \<and> leap then 1 else 0))) + 1)
      else (m, n - before_month leap m + 1))"

text \<open>\<open>_ord2ymd\<close>: day 1 is the first of January of year 1.\<close>

definition ord_to_ymd :: "int \<Rightarrow> int \<times> int \<times> int" where
  "ord_to_ymd ordinal =
     (let n = ordinal - 1;
          n400 = n div 146097; a = n mod 146097;
          n100 = a div 36524; b = a mod 36524;
          n4 = b div 1461; c = b mod 1461;
          n1 = c div 365; d = c mod 365;
          year = n400 * 400 + 1 + n100 * 100 + n4 * 4 + n1
      in if n1 = 4 \<or> n100 = 4 then (year - 1, 12, 31)
         else (year, month_day (n1 = 3 \<and> (n4 \<noteq> 24 \<or> n100 = 3)) d))"

definition is_leap :: "int \<Rightarrow> bool" where
  "is_leap y \<longleftrightarrow> y mod 4 = 0 \<and> (y mod 100 \<noteq> 0 \<or> y mod 400 = 0)"

definition ymd_to_ord :: "int \<times> int \<times> int \<Rightarrow> int" where
  "ymd_to_ord = (\<lambda>(y, m, d). (y - 1) * 365 + (y - 1) div 4 - (y - 1) div 100 + (y - 1) div 400
     + before_month (is_leap y) m + d)"

lemma month_day_spec:
  assumes "0 \<le> n" "n < (if leap then 366 else 365)"
  shows "before_month leap (fst (month_day leap n)) + snd (month_day leap n) = n + 1 \<and>
    1 \<le> fst (month_day leap n) \<and> fst (month_day leap n) \<le> 12 \<and>
    1 \<le> snd (month_day leap n) \<and> snd (month_day leap n) \<le> 31"
proof -
  define m where "m = (n + 50) div 32"
  have m: "32 * m \<le> n + 50" "n + 50 < 32 * m + 32" unfolding m_def by simp_all
  moreover have "n < 366" using assms(2) by (simp split: if_splits)
  ultimately have "1 \<le> m" "m \<le> 12" using assms(1) by linarith+
  then have "m = 1 \<or> m = 2 \<or> m = 3 \<or> m = 4 \<or> m = 5 \<or> m = 6 \<or> m = 7 \<or> m = 8 \<or> m = 9 \<or> m = 10 \<or> m = 11 \<or> m = 12"
    by presburger
  with m assms show ?thesis unfolding month_day_def m_def [symmetric] Let_def
    by (elim disjE) (simp_all add: before_month_def days_before_month_def days_in_month_def split: if_splits)
qed

lemma ymd_to_ord_year:
  assumes "0 \<le> b" "b \<le> 3" "0 \<le> c" "c \<le> 24" "0 \<le> e" "e \<le> 3"
  shows "ymd_to_ord (400 * k + 100 * b + 4 * c + e + 1, m, d) =
    146097 * k + 36524 * b + 1461 * c + 365 * e + before_month (e = 3 \<and> (c \<noteq> 24 \<or> b = 3)) m + d"
proof -
  let ?y = "400 * k + 100 * b + 4 * c + e"
  have z: "?y = e + (100 * k + 25 * b + c) * 4" "?y = (4 * c + e) + (4 * k + b) * 100"
    "?y = (100 * b + 4 * c + e) + k * 400" by simp_all
  have "?y div 4 = 100 * k + 25 * b + c" unfolding z(1) by (subst div_mult_self1) (use assms in simp_all)
  moreover have "?y div 100 = 4 * k + b" unfolding z(2) by (subst div_mult_self1) (use assms in simp_all)
  moreover have "?y div 400 = k" unfolding z(3) by (subst div_mult_self1) (use assms in simp_all)
  moreover have "is_leap (?y + 1) \<longleftrightarrow> e = 3 \<and> (c \<noteq> 24 \<or> b = 3)"
  proof -
    have y: "?y + 1 = (e + 1) + (100 * k + 25 * b + c) * 4" "?y + 1 = (4 * c + e + 1) + (4 * k + b) * 100"
      "?y + 1 = (100 * b + 4 * c + e + 1) + k * 400" by simp_all
    have one: "z mod w = 0 \<longleftrightarrow> z = w" if "1 \<le> z" "z \<le> w" for z w :: int
      using that by (cases "z = w") simp_all
    have "(?y + 1) mod 4 = 0 \<longleftrightarrow> e + 1 = 4"
      unfolding y(1) mod_mult_self1 by (rule one) (use assms in linarith)+
    moreover have "(?y + 1) mod 100 = 0 \<longleftrightarrow> 4 * c + e + 1 = 100"
      unfolding y(2) mod_mult_self1 by (rule one) (use assms in linarith)+
    moreover have "(?y + 1) mod 400 = 0 \<longleftrightarrow> 100 * b + 4 * c + e + 1 = 400"
      unfolding y(3) mod_mult_self1 by (rule one) (use assms in linarith)+
    moreover have "4 * c + e + 1 = 100 \<longleftrightarrow> e = 3 \<and> c = 24" "100 * b + 4 * c + e + 1 = 400 \<longleftrightarrow> e = 3 \<and> c = 24 \<and> b = 3"
      using assms by (intro iffI conjI; (elim conjE)?; linarith)+
    ultimately show ?thesis by (auto simp: is_leap_def)
  qed
  ultimately show ?thesis by (simp add: ymd_to_ord_def)
qed

lemma ord_ymd_inverse: "ymd_to_ord (ord_to_ymd n) = n"
proof -
  define k a b r4 c r1 e d where "k = (n - 1) div 146097" and "a = (n - 1) mod 146097"
    and "b = a div 36524" and "r4 = a mod 36524" and "c = r4 div 1461" and "r1 = r4 mod 1461"
    and "e = r1 div 365" and "d = r1 mod 365"
  note defs = this
  have eq: "n = 146097 * k + a + 1" "a = 36524 * b + r4" "r4 = 1461 * c + r1" "r1 = 365 * e + d"
    by (simp_all add: defs)
  have bounds: "0 \<le> a" "a < 146097" "0 \<le> r4" "r4 < 36524" "0 \<le> r1" "r1 < 1461" "0 \<le> d" "d < 365"
    by (simp_all add: defs)
  have q: "0 \<le> b" "b \<le> 4" "0 \<le> c" "c \<le> 24" "0 \<le> e" "e \<le> 4"
    using eq bounds by linarith+
  have r: "ord_to_ymd n = (if e = 4 \<or> b = 4 then (400 * k + 100 * b + 4 * c + e, 12, 31)
      else (400 * k + 100 * b + 4 * c + e + 1, month_day (e = 3 \<and> (c \<noteq> 24 \<or> b = 3)) d))"
    unfolding ord_to_ymd_def Let_def defs [symmetric] by (simp add: algebra_simps)
  have dec: "before_month True 12 = 335" by (simp add: before_month_def days_before_month_def)
  consider "b = 4" | "b \<noteq> 4" "e = 4" | "b \<noteq> 4" "e \<noteq> 4" by blast
  then show ?thesis
  proof cases
    case 1
    then have "r4 = 0" "c = 0" "e = 0" "d = 0" using eq bounds q by linarith+
    with 1 have "ord_to_ymd n = (400 * k + 400, 12, 31)" by (simp add: r)
    then have "ymd_to_ord (ord_to_ymd n) = 146097 * k + 146097"
      using ymd_to_ord_year [of 3 24 3 k 12 31] by (simp add: dec add.commute)
    with 1 eq \<open>r4 = 0\<close> show ?thesis by simp
  next
    case 2
    then have "d = 0" "c \<noteq> 24" "b \<le> 3" using eq bounds q by linarith+
    with 2 have "ord_to_ymd n = (400 * k + 100 * b + 4 * c + 3 + 1, 12, 31)" by (simp add: r)
    then have "ymd_to_ord (ord_to_ymd n) = 146097 * k + 36524 * b + 1461 * c + 365 * 3 + 335 + 31"
      using ymd_to_ord_year [of b c 3 k 12 31] q \<open>b \<le> 3\<close> \<open>c \<noteq> 24\<close> by (simp add: dec)
    with 2 eq \<open>d = 0\<close> show ?thesis by simp
  next
    case 3
    let ?leap = "e = 3 \<and> (c \<noteq> 24 \<or> b = 3)"
    have "before_month ?leap (fst (month_day ?leap d)) + snd (month_day ?leap d) = d + 1"
      using bounds(7,8) month_day_spec [of d ?leap] by simp
    moreover have "ord_to_ymd n = (400 * k + 100 * b + 4 * c + e + 1, fst (month_day ?leap d), snd (month_day ?leap d))"
      using 3 by (simp add: r)
    ultimately have "ymd_to_ord (ord_to_ymd n) = 146097 * k + 36524 * b + 1461 * c + 365 * e + d + 1"
      using 3 q ymd_to_ord_year [of b c e k "fst (month_day ?leap d)" "snd (month_day ?leap d)"] by simp
    with eq show ?thesis by simp
  qed
qed

lemma ord_to_ymd_inj: "ord_to_ymd m = ord_to_ymd n \<Longrightarrow> m = n"
  by (metis ord_ymd_inverse)

section \<open>The text\<close>

text \<open>\<open>%0<width>d\<close> of a number that has at most that many digits.\<close>

fun format_dec :: "nat \<Rightarrow> int \<Rightarrow> string" where
  "format_dec 0 n = []"
| "format_dec (Suc width) n = format_dec width (n div 10) @ [char_of (48 + nat (n mod 10))]"

lemma length_format_dec [simp]: "length (format_dec w n) = w"
  by (induction w arbitrary: n) simp_all

lemma char_of_digit_inj: "m < 10 \<Longrightarrow> n < 10 \<Longrightarrow> char_of (48 + m) = (char_of (48 + n) :: char) \<longleftrightarrow> m = n" for m n :: nat
proof
  assume "m < 10" "n < 10" "char_of (48 + m) = (char_of (48 + n) :: char)"
  then have "code (char_of (48 + m)) = code (char_of (48 + n))" by simp
  with \<open>m < 10\<close> \<open>n < 10\<close> show "m = n" by (simp add: code_def)
qed simp

lemma format_dec_inj:
  "0 \<le> m \<Longrightarrow> m < 10 ^ w \<Longrightarrow> 0 \<le> n \<Longrightarrow> n < 10 ^ w \<Longrightarrow> format_dec w m = format_dec w n \<Longrightarrow> m = n"
proof (induction w arbitrary: m n)
  case (Suc w)
  have r: "0 \<le> m div 10" "m div 10 < 10 ^ w" "0 \<le> n div 10" "n div 10 < 10 ^ w" using Suc.prems(1-4) by simp_all
  have "format_dec w (m div 10) = format_dec w (n div 10)" "nat (m mod 10) = nat (n mod 10)"
    using Suc.prems(5) by (simp_all add: char_of_digit_inj nat_less_iff)
  then have "m div 10 = n div 10" "m mod 10 = n mod 10" using Suc.IH [OF r] by (simp_all add: nat_eq_iff2)
  then show ?case by (metis div_mult_mod_eq)
qed simp

definition iso_date :: "int \<times> int \<times> int \<Rightarrow> string" where
  "iso_date = (\<lambda>(y, m, d). format_dec 4 y @ ''-'' @ format_dec 2 m @ ''-'' @ format_dec 2 d)"

definition iso_time :: "int \<Rightarrow> string" where
  "iso_time us = format_dec 2 (us div 3600000000) @ '':'' @ format_dec 2 (us div 60000000 mod 60) @ '':'' @
     format_dec 2 (us div 1000000 mod 60) @ ''.'' @ format_dec 6 (us mod 1000000)"

text \<open>The day of the epoch is day 719163; a day has 86400000000 microseconds.\<close>

definition day_number :: "datetime \<Rightarrow> int" where
  "day_number d = instant d div 86400000000 + 719163"

definition canonical_datetime :: "datetime \<Rightarrow> string" where
  "canonical_datetime d = iso_date (ord_to_ymd (day_number d)) @ ''T'' @ iso_time (instant d mod 86400000000) @ ''Z''"

text \<open>The instants a \<open>datetime\<close> can hold: years 1 to 9999.\<close>

definition representable :: "datetime \<Rightarrow> bool" where
  "representable d \<longleftrightarrow> 1 \<le> day_number d \<and> day_number d \<le> 3652059"

lemma dec_digits:
  "char_of (48 :: nat) = CHR ''0''" "char_of (49 :: nat) = CHR ''1''" "char_of (50 :: nat) = CHR ''2''"
  "char_of (51 :: nat) = CHR ''3''" "char_of (52 :: nat) = CHR ''4''" "char_of (53 :: nat) = CHR ''5''"
  "char_of (54 :: nat) = CHR ''6''" "char_of (55 :: nat) = CHR ''7''" "char_of (56 :: nat) = CHR ''8''"
  "char_of (57 :: nat) = CHR ''9''"
  by (rule of_char_eq_iff [where 'a = nat, THEN iffD1], simp)+

lemma format_dec_numeral:
  "format_dec (numeral w) n = format_dec (pred_numeral w) (n div 10) @ [char_of (48 + nat (n mod 10))]"
  by (metis format_dec.simps(2) numeral_eq_Suc)

lemma canonical_datetime_epoch: "canonical_datetime (utc 0) = ''1970-01-01T00:00:00.000000Z''"
  by (simp add: canonical_datetime_def day_number_def iso_date_def iso_time_def ord_to_ymd_def Let_def month_day_def
      before_month_def days_before_month_def format_dec_numeral dec_digits)

text \<open>The text of a representable instant determines it.\<close>

lemma ymd_bounds:
  assumes n: "1 \<le> n" "n \<le> 3652059" and r: "ord_to_ymd n = (y, m, d)"
  shows "0 \<le> y" "y < 10000" "0 \<le> m" "m < 100" "0 \<le> d" "d < 100"
proof -
  define k a b r4 c r1 e j where "k = (n - 1) div 146097" and "a = (n - 1) mod 146097"
    and "b = a div 36524" and "r4 = a mod 36524" and "c = r4 div 1461" and "r1 = r4 mod 1461"
    and "e = r1 div 365" and "j = r1 mod 365"
  note defs = this
  have eq: "n = 146097 * k + a + 1" "a = 36524 * b + r4" "r4 = 1461 * c + r1" "r1 = 365 * e + j"
    by (simp_all add: defs)
  have bounds: "0 \<le> a" "a < 146097" "0 \<le> r4" "r4 < 36524" "0 \<le> r1" "r1 < 1461" "0 \<le> j" "j < 365"
    by (simp_all add: defs)
  have q: "0 \<le> b" "b \<le> 4" "0 \<le> c" "c \<le> 24" "0 \<le> e" "e \<le> 4" "0 \<le> k" "k \<le> 24"
    using eq bounds n by linarith+
  have "ord_to_ymd n = (if e = 4 \<or> b = 4 then (400 * k + 100 * b + 4 * c + e, 12, 31)
      else (400 * k + 100 * b + 4 * c + e + 1, month_day (e = 3 \<and> (c \<noteq> 24 \<or> b = 3)) j))"
    unfolding ord_to_ymd_def Let_def defs [symmetric] by (simp add: algebra_simps)
  then have cs: "(y = 400 * k + 100 * b + 4 * c + e \<and> m = 12 \<and> d = 31) \<or>
      (b \<noteq> 4 \<and> y = 400 * k + 100 * b + 4 * c + e + 1 \<and> (m, d) = month_day (e = 3 \<and> (c \<noteq> 24 \<or> b = 3)) j)"
    using r by (auto split: if_splits)
  then show "0 \<le> y" using q by linarith
  have "400 * k + 100 * b + 4 * c + e < 10000" "b \<noteq> 4 \<Longrightarrow> 400 * k + 100 * b + 4 * c + e + 1 < 10000"
    using eq bounds n q by linarith+
  with cs show "y < 10000" by blast
  have "1 \<le> m \<and> m \<le> 12 \<and> 1 \<le> d \<and> d \<le> 31"
    using cs
  proof
    assume "b \<noteq> 4 \<and> y = 400 * k + 100 * b + 4 * c + e + 1 \<and> (m, d) = month_day (e = 3 \<and> (c \<noteq> 24 \<or> b = 3)) j"
    then have "m = fst (month_day (e = 3 \<and> (c \<noteq> 24 \<or> b = 3)) j)" "d = snd (month_day (e = 3 \<and> (c \<noteq> 24 \<or> b = 3)) j)"
      by (metis fst_conv, metis snd_conv)
    then show ?thesis using month_day_spec [of j "e = 3 \<and> (c \<noteq> 24 \<or> b = 3)"] bounds(7,8) by simp
  qed simp
  then show "0 \<le> m" "m < 100" "0 \<le> d" "d < 100" by simp_all
qed

lemma append_same_length: "length a = length b \<Longrightarrow> a @ x = b @ y \<longleftrightarrow> a = b \<and> x = y"
  by (rule append_eq_append_conv) simp

lemma iso_date_inj:
  assumes "1 \<le> m" "m \<le> 3652059" "1 \<le> n" "n \<le> 3652059" "iso_date (ord_to_ymd m) = iso_date (ord_to_ymd n)"
  shows "m = n"
proof -
  obtain y mo d where m: "ord_to_ymd m = (y, mo, d)" by (cases "ord_to_ymd m")
  obtain y' mo' d' where n: "ord_to_ymd n = (y', mo', d')" by (cases "ord_to_ymd n")
  have "format_dec 4 y = format_dec 4 y'" "format_dec 2 mo = format_dec 2 mo'" "format_dec 2 d = format_dec 2 d'"
    using assms(5) unfolding m n by (simp_all add: iso_date_def append_same_length)
  then have "y = y'" "mo = mo'" "d = d'"
    using ymd_bounds [OF assms(1,2) m] ymd_bounds [OF assms(3,4) n] format_dec_inj [of y 4 y']
      format_dec_inj [of mo 2 mo'] format_dec_inj [of d 2 d'] by simp_all
  then show ?thesis using m n ord_to_ymd_inj by simp
qed

lemma clock_split:
  "x = x div 3600000000 * 3600000000 + x div 60000000 mod 60 * 60000000 + x div 1000000 mod 60 * 1000000
     + x mod 1000000" for x :: int
proof -
  define sec where "sec = x div 1000000"
  have h: "x div 60000000 = sec div 60" "x div 3600000000 = sec div 60 div 60"
    using zdiv_zmult2_eq [of 60 x 1000000] zdiv_zmult2_eq [of 3600 x 1000000] zdiv_zmult2_eq [of 60 sec 60]
    by (simp_all add: sec_def)
  have "sec = sec div 60 * 60 + sec mod 60" by (rule div_mult_mod_eq [symmetric])
  moreover have "sec div 60 = sec div 60 div 60 * 60 + sec div 60 mod 60" by (rule div_mult_mod_eq [symmetric])
  moreover have "x = sec * 1000000 + x mod 1000000" unfolding sec_def by (rule div_mult_mod_eq [symmetric])
  ultimately show ?thesis unfolding h sec_def [symmetric] by linarith
qed

lemma iso_time_inj:
  assumes "0 \<le> s" "s < 86400000000" "0 \<le> t" "t < 86400000000" "iso_time s = iso_time t"
  shows "s = t"
proof -
  have f: "format_dec 2 (s div 3600000000) = format_dec 2 (t div 3600000000)"
    "format_dec 2 (s div 60000000 mod 60) = format_dec 2 (t div 60000000 mod 60)"
    "format_dec 2 (s div 1000000 mod 60) = format_dec 2 (t div 1000000 mod 60)"
    "format_dec 6 (s mod 1000000) = format_dec 6 (t mod 1000000)"
    using assms(5) by (simp_all add: iso_time_def append_same_length)
  have "s div 3600000000 = t div 3600000000" by (rule format_dec_inj [OF _ _ _ _ f(1)]) (use assms in simp_all)
  moreover have "s div 60000000 mod 60 = t div 60000000 mod 60" by (rule format_dec_inj [OF _ _ _ _ f(2)]) simp_all
  moreover have "s div 1000000 mod 60 = t div 1000000 mod 60" by (rule format_dec_inj [OF _ _ _ _ f(3)]) simp_all
  moreover have "s mod 1000000 = t mod 1000000" by (rule format_dec_inj [OF _ _ _ _ f(4)]) simp_all
  ultimately show ?thesis using clock_split [of s] clock_split [of t] by simp
qed

lemma canonical_datetime_inj:
  assumes "representable a" "representable b" "canonical_datetime a = canonical_datetime b"
  shows "instant a = instant b"
proof -
  have l: "length (iso_date x) = 10" for x by (simp add: iso_date_def split_def)
  have "iso_date (ord_to_ymd (day_number a)) = iso_date (ord_to_ymd (day_number b)) \<and>
      ''T'' @ iso_time (instant a mod 86400000000) @ ''Z'' = ''T'' @ iso_time (instant b mod 86400000000) @ ''Z''"
    using assms(3) l unfolding canonical_datetime_def by (metis append_eq_append_conv)
  then have "iso_date (ord_to_ymd (day_number a)) = iso_date (ord_to_ymd (day_number b))"
    "iso_time (instant a mod 86400000000) = iso_time (instant b mod 86400000000)" by simp_all
  note same = this
  have "day_number a = day_number b"
    by (rule iso_date_inj [OF _ _ _ _ same(1)]) (use assms in \<open>simp_all add: representable_def\<close>)
  then have "instant a div 86400000000 = instant b div 86400000000" by (simp add: day_number_def)
  moreover have "instant a mod 86400000000 = instant b mod 86400000000"
    by (rule iso_time_inj [OF _ _ _ _ same(2)]) simp_all
  ultimately show ?thesis using div_mult_mod_eq by metis
qed

end
