(* ===== verification/Generation.thy ===== *)
theory Generation
  imports Operations Json_Text Timestamps
begin

text \<open>
  Generation batches and their candidate slots (\<open>generation_candidates.py\<close>): the immutable batch
  and its digest, the requests for one candidate and their authority, and the derivation of one slot per
  candidate. SHA-256 and the name-based UUID (\<open>uuid5\<close>, from the text of the namespace and the name to
  the text of the result) are arguments.
\<close>

section \<open>Batches\<close>

definition generation_kinds :: "operation_kind set" where
  "generation_kinds = {IMAGE_GENERATION, IMAGE_EDITING}"

record generation_batch =
  gb_id :: string
  gb_workspace_id :: string
  gb_workflow_id :: string
  gb_workflow_version :: int
  gb_creative_plan_version_id :: string
  gb_plan_approval_id :: string
  gb_direction_key :: string
  gb_tool_intent_key :: string
  gb_tool_intent_sha256 :: string
  gb_prompt_sha256 :: string
  gb_context_sha256 :: string
  gb_route_decision_sha256 :: string
  gb_route_request_sha256 :: string
  gb_operation_kind :: operation_kind
  gb_authorized_asset_version_ids :: "string list"
  gb_candidate_count :: int
  gb_route_policy_version :: string
  gb_tool_policy_version :: string
  gb_rights_policy_version :: string
  gb_safety_policy_version :: string
  gb_workflow_deadline :: datetime
  gb_source_rights_deadline :: "datetime option"
  gb_edit_source_asset_version_id :: "string option"
  gb_edit_mask_asset_version_id :: "string option"
  gb_approved_repair_scope :: "string list"
  gb_retention_deadline :: datetime
  gb_created_by :: string
  gb_created_at :: datetime

definition max_retention :: int where "max_retention = hours 72"

definition positive_up_to :: "int \<Rightarrow> int \<Rightarrow> error option" where
  "positive_up_to maximum n = guard (\<not> (1 \<le> n \<and> n \<le> maximum)) ValueError"

text \<open>\<open>created_at < deadline <= created_at + _MAX_RETENTION\<close> on two UTC instants.\<close>

definition retention_window :: "datetime \<Rightarrow> datetime \<Rightarrow> error option" where
  "retention_window created deadline =
     guard (\<not> (dt_less created deadline \<and> dt_le deadline (dt_add created max_retention))) ValueError"

definition scope_check :: "string list \<Rightarrow> error option" where
  "scope_check scopes = guards
     (guard (\<not> (1 \<le> length scopes \<and> length scopes \<le> 16) \<or> \<not> distinct scopes) ValueError #
      map validate_token scopes)"

definition gb_edit_check :: "generation_batch \<Rightarrow> error option" where
  "gb_edit_check b =
     (let source_id = gb_edit_source_asset_version_id b; mask_id = gb_edit_mask_asset_version_id b in
      if gb_operation_kind b = IMAGE_GENERATION
      then guard (source_id \<noteq> None \<or> mask_id \<noteq> None \<or> gb_approved_repair_scope b \<noteq> []) ValueError
      else guards
        [guard (source_id = None \<or> mask_id = None) ValueError,
         guard (source_id = mask_id) ValueError,
         guard (source_id \<notin> Some ` set (gb_authorized_asset_version_ids b) \<or>
           mask_id \<notin> Some ` set (gb_authorized_asset_version_ids b)) ValueError,
         scope_check (gb_approved_repair_scope b)])"

definition gb_check :: "generation_batch \<Rightarrow> error option" where
  "gb_check b = guards
     ([validate_uuid (gb_id b), validate_workspace_id (gb_workspace_id b), validate_uuid (gb_workflow_id b),
       positive_up_to 2147483647 (gb_workflow_version b),
       validate_uuid (gb_creative_plan_version_id b), validate_uuid (gb_plan_approval_id b)] @
      map validate_token
        [gb_direction_key b, gb_tool_intent_key b, gb_route_policy_version b, gb_tool_policy_version b,
         gb_rights_policy_version b, gb_safety_policy_version b, gb_created_by b] @
      map validate_sha256
        [gb_tool_intent_sha256 b, gb_prompt_sha256 b, gb_context_sha256 b, gb_route_decision_sha256 b,
         gb_route_request_sha256 b] @
      [guard (gb_operation_kind b \<notin> generation_kinds) ValueError,
       guard (16 < length (gb_authorized_asset_version_ids b) \<or> \<not> distinct (gb_authorized_asset_version_ids b))
         ValueError] @
      map validate_uuid (gb_authorized_asset_version_ids b) @
      [positive_up_to 16 (gb_candidate_count b),
       require_utc (gb_created_at b), require_utc (gb_workflow_deadline b),
       require_utc_opt (gb_source_rights_deadline b), require_utc (gb_retention_deadline b),
       retention_window (gb_created_at b) (gb_retention_deadline b),
       guard (dt_less (gb_workflow_deadline b) (gb_retention_deadline b)) ValueError,
       guard (case gb_source_rights_deadline b of None \<Rightarrow> False | Some d \<Rightarrow> dt_less d (gb_retention_deadline b))
         ValueError,
       gb_edit_check b])"

subsection \<open>The digest\<close>

definition gb_payload :: "generation_batch \<Rightarrow> json" where
  "gb_payload b = JObj
     [(''schema_version'', JStr ''generation-batch.v1''),
      (''id'', JStr (gb_id b)),
      (''workspace_id'', JStr (gb_workspace_id b)),
      (''workflow_id'', JStr (gb_workflow_id b)),
      (''workflow_version'', JInt (gb_workflow_version b)),
      (''creative_plan_version_id'', JStr (gb_creative_plan_version_id b)),
      (''plan_approval_id'', JStr (gb_plan_approval_id b)),
      (''direction_key'', JStr (gb_direction_key b)),
      (''tool_intent_key'', JStr (gb_tool_intent_key b)),
      (''tool_intent_sha256'', JStr (gb_tool_intent_sha256 b)),
      (''prompt_sha256'', JStr (gb_prompt_sha256 b)),
      (''context_sha256'', JStr (gb_context_sha256 b)),
      (''route_decision_sha256'', JStr (gb_route_decision_sha256 b)),
      (''route_request_sha256'', JStr (gb_route_request_sha256 b)),
      (''operation_kind'', JStr (operation_kind_value (gb_operation_kind b))),
      (''authorized_asset_version_ids'', json_strings (gb_authorized_asset_version_ids b)),
      (''candidate_count'', JInt (gb_candidate_count b)),
      (''route_policy_version'', JStr (gb_route_policy_version b)),
      (''tool_policy_version'', JStr (gb_tool_policy_version b)),
      (''rights_policy_version'', JStr (gb_rights_policy_version b)),
      (''safety_policy_version'', JStr (gb_safety_policy_version b)),
      (''workflow_deadline'', JStr (canonical_datetime (gb_workflow_deadline b))),
      (''source_rights_deadline'', json_opt (map_option canonical_datetime (gb_source_rights_deadline b))),
      (''edit_source_asset_version_id'', json_opt (gb_edit_source_asset_version_id b)),
      (''edit_mask_asset_version_id'', json_opt (gb_edit_mask_asset_version_id b)),
      (''approved_repair_scope'', json_strings (gb_approved_repair_scope b)),
      (''retention_deadline'', JStr (canonical_datetime (gb_retention_deadline b))),
      (''created_by'', JStr (gb_created_by b)),
      (''created_at'', JStr (canonical_datetime (gb_created_at b)))]"

definition canonical_sha256 :: "(string \<Rightarrow> string) \<Rightarrow> json \<Rightarrow> string" where
  "canonical_sha256 sha256 v = sha256 (json_dumps True v)"

definition gb_sha256 :: "(string \<Rightarrow> string) \<Rightarrow> generation_batch \<Rightarrow> string" where
  "gb_sha256 sha256 b = canonical_sha256 sha256 (gb_payload b)"

section \<open>Slots\<close>

record candidate_slot =
  sl_id :: string
  sl_workspace_id :: string
  sl_generation_batch_id :: string
  sl_candidate_index :: int
  sl_durable_operation_id :: string
  sl_operation_kind :: operation_kind
  sl_logical_identity_sha256 :: string
  sl_operation_idempotency_key :: string

definition sl_check :: "candidate_slot \<Rightarrow> error option" where
  "sl_check s = guards
     [validate_uuid (sl_id s), validate_workspace_id (sl_workspace_id s), validate_uuid (sl_generation_batch_id s),
      guard (\<not> (0 \<le> sl_candidate_index s \<and> sl_candidate_index s < 16)) ValueError,
      validate_uuid (sl_durable_operation_id s),
      guard (sl_operation_kind s \<notin> generation_kinds) ValueError,
      validate_sha256 (sl_logical_identity_sha256 s), validate_token (sl_operation_idempotency_key s)]"

definition slot_identity_payload :: "(string \<Rightarrow> string) \<Rightarrow> generation_batch \<Rightarrow> int \<Rightarrow> json" where
  "slot_identity_payload sha256 b index = JObj
     [(''schema_version'', JStr ''candidate-slot-identity.v1''),
      (''generation_batch_sha256'', JStr (gb_sha256 sha256 b)),
      (''candidate_index'', JInt index)]"

definition slot_identity :: "(string \<Rightarrow> string) \<Rightarrow> generation_batch \<Rightarrow> int \<Rightarrow> string" where
  "slot_identity sha256 b index = canonical_sha256 sha256 (slot_identity_payload sha256 b index)"

definition make_slot ::
  "(string \<Rightarrow> string) \<Rightarrow> (string \<Rightarrow> string \<Rightarrow> string) \<Rightarrow> generation_batch \<Rightarrow> int \<times> string \<Rightarrow> error + candidate_slot" where
  "make_slot sha256 uuid5 b = (\<lambda>(index, operation_id).
     (let identity = slot_identity sha256 b index;
          s = \<lparr>sl_id = uuid5 (gb_id b) (''candidate-slot:'' @ identity), sl_workspace_id = gb_workspace_id b,
               sl_generation_batch_id = gb_id b, sl_candidate_index = index,
               sl_durable_operation_id = operation_id, sl_operation_kind = gb_operation_kind b,
               sl_logical_identity_sha256 = identity,
               sl_operation_idempotency_key = ''generation-slot:'' @ identity\<rparr>
      in case sl_check s of Some e \<Rightarrow> Inl e | None \<Rightarrow> Inr s))"

definition create_candidate_slots ::
  "(string \<Rightarrow> string) \<Rightarrow> (string \<Rightarrow> string \<Rightarrow> string) \<Rightarrow> generation_batch \<Rightarrow> string list \<Rightarrow>
     error + candidate_slot list" where
  "create_candidate_slots sha256 uuid5 b operation_ids =
     (case guards
        (guard (int (length operation_ids) \<noteq> gb_candidate_count b \<or> \<not> distinct operation_ids) ValueError #
         map validate_uuid operation_ids) of
        Some e \<Rightarrow> Inl e
      | None \<Rightarrow> collect (make_slot sha256 uuid5 b) (zip [0..int (length operation_ids) - 1] operation_ids))"

section \<open>Requests for one candidate\<close>

datatype candidate_request =
    GenerationRequest (rq_slot_id: string) (rq_prompt: string) (rq_context: string) (rq_references: "string list")
  | EditingRequest (rq_slot_id: string) (rq_prompt: string) (rq_context: string)
      (rq_source: string) (rq_mask: string) (rq_scope: "string list")

fun request_check :: "candidate_request \<Rightarrow> error option" where
  "request_check (GenerationRequest slot prompt context references) = guards
     ([validate_uuid slot, validate_sha256 prompt, validate_sha256 context,
       guard (16 < length references \<or> \<not> distinct references) ValueError] @ map validate_uuid references)"
| "request_check (EditingRequest slot prompt context source_id mask_id scope) = guards
     [validate_uuid slot, validate_sha256 prompt, validate_sha256 context, validate_uuid source_id, validate_uuid mask_id,
      guard (source_id = mask_id) ValueError, scope_check scope]"

fun request_kind :: "candidate_request \<Rightarrow> operation_kind" where
  "request_kind (GenerationRequest slot prompt context references) = IMAGE_GENERATION"
| "request_kind (EditingRequest slot prompt context source_id mask_id scope) = IMAGE_EDITING"

fun request_payload :: "candidate_request \<Rightarrow> json" where
  "request_payload (GenerationRequest slot prompt context references) = JObj
     [(''schema_version'', JStr ''image-generation-request.v1''), (''candidate_slot_id'', JStr slot),
      (''prompt_sha256'', JStr prompt), (''context_sha256'', JStr context),
      (''reference_asset_version_ids'', json_strings references)]"
| "request_payload (EditingRequest slot prompt context source_id mask_id scope) = JObj
     [(''schema_version'', JStr ''image-editing-request.v1''), (''candidate_slot_id'', JStr slot),
      (''prompt_sha256'', JStr prompt), (''context_sha256'', JStr context),
      (''source_asset_version_id'', JStr source_id), (''mask_asset_version_id'', JStr mask_id),
      (''approved_repair_scope'', json_strings scope)]"

definition request_sha256 :: "(string \<Rightarrow> string) \<Rightarrow> candidate_request \<Rightarrow> string" where
  "request_sha256 sha256 r = canonical_sha256 sha256 (request_payload r)"

definition validate_candidate_request_authority ::
  "generation_batch \<Rightarrow> candidate_slot \<Rightarrow> candidate_request \<Rightarrow> error option" where
  "validate_candidate_request_authority b s r = guards
     [guard (sl_generation_batch_id s \<noteq> gb_id b \<or> sl_workspace_id s \<noteq> gb_workspace_id b) ValueError,
      guard (rq_slot_id r \<noteq> sl_id s) ValueError,
      guard (request_kind r \<noteq> sl_operation_kind s) ValueError,
      guard (rq_prompt r \<noteq> gb_prompt_sha256 b \<or> rq_context r \<noteq> gb_context_sha256 b) ValueError,
      (case r of
         GenerationRequest slot prompt context references \<Rightarrow>
           guard (references \<noteq> gb_authorized_asset_version_ids b) ValueError
       | EditingRequest slot prompt context source_id mask_id scope \<Rightarrow> guards
           [guard (Some source_id \<noteq> gb_edit_source_asset_version_id b \<or> Some mask_id \<noteq> gb_edit_mask_asset_version_id b)
              ValueError,
            guard (scope \<noteq> gb_approved_repair_scope b) ValueError])]"

section \<open>Available candidates\<close>

record candidate_image =
  ci_id :: string
  ci_workspace_id :: string
  ci_workflow_id :: string
  ci_generation_batch_id :: string
  ci_candidate_slot_id :: string
  ci_task_asset_version_id :: string
  ci_content_sha256 :: string
  ci_width :: int
  ci_height :: int
  ci_image_format :: string
  ci_source_asset_version_ids :: "string list"
  ci_creative_plan_version_id :: string
  ci_prompt_sha256 :: string
  ci_context_sha256 :: string
  ci_retrieval_snapshot_sha256 :: string
  ci_endpoint_capability_version_id :: string
  ci_provider_call_id :: string
  ci_provider_request_id_sha256 :: string
  ci_moderation_decision_sha256 :: string
  ci_usage_record_id :: string
  ci_created_at :: datetime
  ci_retention_deadline :: datetime

definition ci_check :: "candidate_image \<Rightarrow> error option" where
  "ci_check c = guards
     (map validate_uuid
        [ci_id c, ci_workflow_id c, ci_generation_batch_id c, ci_candidate_slot_id c, ci_task_asset_version_id c,
         ci_creative_plan_version_id c, ci_endpoint_capability_version_id c, ci_provider_call_id c,
         ci_usage_record_id c] @
      [validate_workspace_id (ci_workspace_id c)] @
      map validate_sha256
        [ci_content_sha256 c, ci_prompt_sha256 c, ci_context_sha256 c, ci_retrieval_snapshot_sha256 c,
         ci_provider_request_id_sha256 c, ci_moderation_decision_sha256 c] @
      [positive_up_to 32768 (ci_width c), positive_up_to 32768 (ci_height c), validate_token (ci_image_format c),
       guard (16 < length (ci_source_asset_version_ids c) \<or> \<not> distinct (ci_source_asset_version_ids c)) ValueError] @
      map validate_uuid (ci_source_asset_version_ids c) @
      [guard (ci_task_asset_version_id c \<in> set (ci_source_asset_version_ids c)) ValueError,
       require_utc (ci_created_at c), require_utc (ci_retention_deadline c),
       retention_window (ci_created_at c) (ci_retention_deadline c)])"

end
