(* ===== verification/Json_Facts.thy ===== *)
theory Json_Facts
  imports Json_Text
begin

text \<open>
  Canonical JSON is a faithful text of a value: decoding gives the value back, with its object members
  in key order, so two values have the same canonical text exactly when they are equal up to that order.
\<close>

section \<open>Strings\<close>

lemma quote_backslash [simp]: "quote \<noteq> backslash" "backslash \<noteq> quote"
  by (simp_all add: quote_def backslash_def)

lemma escape_char_short:
  "map_of (map prod.swap short_escapes) c = Some e \<Longrightarrow>
     e \<noteq> CHR ''u'' \<and> map_of ((CHR ''/'', CHR ''/'') # short_escapes) e = Some c"
  by (auto simp: short_escapes_def quote_def backslash_def split: if_splits)

lemma escape_char_long:
  "map_of (map prod.swap short_escapes) c = None \<Longrightarrow> c \<noteq> quote \<and> c \<noteq> backslash"
  by (auto simp: short_escapes_def split: if_splits)

lemma format_hex_4:
  assumes "n < 256"
  shows "length (format_hex 4 n) = 4" "list_all is_hex (format_hex 4 n)" "parse_hex (format_hex 4 n) = n"
proof -
  show "list_all is_hex (format_hex 4 n)"
    using format_hex_lower_hex [of 4 n] by (auto simp: list_all_iff class_defs)
  show "parse_hex (format_hex 4 n) = n" using assms by (intro parse_format_hex) simp
qed simp

lemma json_chars_escape: "json_chars (escape_char ascii c @ s) = map_option (apfst (Cons c)) (json_chars s)"
proof (cases "map_of (map prod.swap short_escapes) c")
  case (Some e)
  from escape_char_short [OF this] Some show ?thesis by (simp add: escape_char_def)
next
  case None
  note l = escape_char_long [OF None]
  have c: "code c < 256" by (simp add: code_def)
  show ?thesis
  proof (cases "code c < 32 \<or> (ascii \<and> 126 < code c)")
    case True
    then have e: "escape_char ascii c = backslash # CHR ''u'' # format_hex 4 (code c)"
      using None by (simp add: escape_char_def)
    have "char_of (code c) = c" by (simp add: code_def)
    then show ?thesis using format_hex_4 [OF c] c unfolding e by simp
  next
    case False
    then have "escape_char ascii c = [c]" using None by (auto simp: escape_char_def)
    with l False show ?thesis by simp
  qed
qed

lemma json_chars_string: "json_chars (concat (map (escape_char ascii) s) @ quote # r) = Some (s, r)"
  by (induction s) (simp_all add: json_chars_escape)

section \<open>Numbers\<close>

text \<open>What may follow a value: the end of the text or a delimiter.\<close>

definition ends :: "string \<Rightarrow> bool" where
  "ends r \<longleftrightarrow> r = [] \<or> hd r \<in> {CHR '','', CHR '']'', CHR ''}''}"

lemma ends_delimiter [simp]: "ends (CHR '','' # r)" "ends (CHR '']'' # r)" "ends (CHR ''}'' # r)" "ends []"
  by (simp_all add: ends_def)

lemma char_of_48: "char_of (48 :: nat) = CHR ''0''"
  using char_of_char [of "CHR ''0''", where 'a = nat] by simp

lemma str_of_nat_Cons: "str_of_nat n \<noteq> []" "hd (str_of_nat n) = CHR ''0'' \<longleftrightarrow> n = 0"
proof -
  have "str_of_nat n \<noteq> [] \<and> (hd (str_of_nat n) = CHR ''0'' \<longleftrightarrow> n = 0)"
  proof (induction n rule: str_of_nat.induct)
    case (1 n)
    show ?case
    proof (cases "n < 10")
      case True
      have "char_of (48 + n) = CHR ''0'' \<longleftrightarrow> n = 0"
      proof
        assume "char_of (48 + n) = CHR ''0''"
        then have "code (char_of (48 + n)) = code CHR ''0''" by simp
        then show "n = 0" using True by (simp add: code_def)
      qed (simp add: char_of_48)
      with True show ?thesis by (simp add: str_of_nat.simps [of n])
    next
      case False
      with 1 show ?thesis by (simp add: str_of_nat.simps [of n] hd_append)
    qed
  qed
  then show "str_of_nat n \<noteq> []" "hd (str_of_nat n) = CHR ''0'' \<longleftrightarrow> n = 0" by blast+
qed

lemma str_of_nat_0 [simp]: "str_of_nat 0 = ''0''"
  by (simp add: str_of_nat.simps char_of_48)

lemma ends_not_number: "ends r \<Longrightarrow> r \<noteq> [] \<Longrightarrow> \<not> is_digit (hd r) \<and> hd r \<notin> set ''.eE''"
  by (auto simp: ends_def class_defs code_def)

lemma span_digits:
  assumes "\<forall>c \<in> set ds. is_digit c" "ends r"
  shows "takeWhile is_digit (ds @ r) = ds" "dropWhile is_digit (ds @ r) = r"
proof -
  have "takeWhile is_digit r = []" "dropWhile is_digit r = r"
    using ends_not_number [OF assms(2)] by (cases r; simp)+
  then show "takeWhile is_digit (ds @ r) = ds" "dropWhile is_digit (ds @ r) = r"
    using assms(1) by (simp_all add: takeWhile_append2 dropWhile_append2)
qed

lemma minus_not_digit: "\<not> is_digit CHR ''-''"
  by (simp add: class_defs code_def)

lemma json_number_digits:
  assumes "ends r"
  shows "json_number (str_of_nat n @ r) = Some (JInt (int n), r)"
    "n \<noteq> 0 \<Longrightarrow> json_number (CHR ''-'' # str_of_nat n @ r) = Some (JInt (- int n), r)"
proof -
  have d: "\<forall>c \<in> set (str_of_nat n). is_digit c" using str_of_nat_digits by blast
  have h: "hd (str_of_nat n @ r) \<noteq> CHR ''-''" using str_of_nat_Cons(1) d minus_not_digit
    by (metis hd_append2 hd_in_set)
  have z: "\<not> (hd (str_of_nat n) = CHR ''0'' \<and> str_of_nat n \<noteq> ''0'')" using str_of_nat_Cons(2) [of n] by auto
  have e: "\<not> (r \<noteq> [] \<and> hd r \<in> set ''.eE'')" using ends_not_number [OF assms] by blast
  show "json_number (str_of_nat n @ r) = Some (JInt (int n), r)"
    using h z e str_of_nat_Cons(1) [of n] span_digits [OF d assms]
    by (simp add: json_number_def Let_def dec_value_str del: dropWhile_eq_Nil_conv)
  show "json_number (CHR ''-'' # str_of_nat n @ r) = Some (JInt (- int n), r)" if "n \<noteq> 0"
    using z e str_of_nat_Cons(1) [of n] span_digits [OF d assms]
    by (simp add: json_number_def Let_def dec_value_str del: dropWhile_eq_Nil_conv)
qed

lemma json_number_int: "ends r \<Longrightarrow> json_number (str_of_int n @ r) = Some (JInt n, r)"
  using json_number_digits [of r "nat n"] json_number_digits(2) [of r "nat (- n)"]
  by (auto simp: str_of_int_def)

section \<open>Values\<close>

lemma skip_blank_Cons:
  "c \<notin> {CHR '' '', CHR 0x09, CHR 0x0A, CHR 0x0D} \<Longrightarrow> skip_blank (c # s) = c # s"
  by (simp add: skip_blank_def)

lemma skip_blank_ends: "ends r \<Longrightarrow> skip_blank r = r"
  by (cases r) (auto simp: ends_def skip_blank_def)

text \<open>A canonical text begins with none of the blank, closing and separating characters.\<close>

definition opens :: "string \<Rightarrow> bool" where
  "opens s \<longleftrightarrow> s \<noteq> [] \<and> hd s \<notin> {CHR '' '', CHR 0x09, CHR 0x0A, CHR 0x0D, CHR '']'', CHR ''}''}"

lemma opens_skip: "opens s \<Longrightarrow> skip_blank (s @ r) = s @ r"
  by (cases s) (auto simp: opens_def skip_blank_def)

lemma str_of_int_head: "str_of_int n \<noteq> [] \<and> (is_digit (hd (str_of_int n)) \<or> hd (str_of_int n) = CHR ''-'')"
  using str_of_nat_Cons(1) str_of_nat_digits hd_in_set by (auto simp: str_of_int_def)

lemma not_blank_head:
  "is_digit c \<or> c = CHR ''-'' \<Longrightarrow> c \<notin> {quote, CHR '' '', CHR 0x09, CHR 0x0A, CHR 0x0D, CHR ''['', CHR '']'',
     CHR ''{'', CHR ''}'', CHR ''n'', CHR ''t'', CHR ''f''}"
  by (auto simp: quote_def class_defs code_def)

lemma opens_dumps: "opens (json_dumps ascii v)"
proof (cases v)
  case (JInt n)
  then show ?thesis using str_of_int_head [of n] not_blank_head [of "hd (str_of_int n)"] by (auto simp: opens_def)
qed (simp_all add: opens_def json_string_def quote_def)

lemma value_scalars:
  "json_value unique (Suc n) (''null'' @ r) = Some (JNull, r)"
  "json_value unique (Suc n) (''true'' @ r) = Some (JBool True, r)"
  "json_value unique (Suc n) (''false'' @ r) = Some (JBool False, r)"
  "json_value unique (Suc n) (json_string ascii s @ r) = Some (JStr s, r)"
  by (simp_all add: skip_blank_Cons quote_def json_string_def json_chars_string [unfolded quote_def])

lemma value_int:
  assumes "ends r"
  shows "json_value unique (Suc n) (str_of_int i @ r) = Some (JInt i, r)"
proof -
  obtain c cs where c: "str_of_int i = c # cs" using str_of_int_head [of i] by (cases "str_of_int i") auto
  then have h: "c \<notin> {quote, CHR '' '', CHR 0x09, CHR 0x0A, CHR 0x0D, CHR ''['', CHR '']'',
     CHR ''{'', CHR ''}'', CHR ''n'', CHR ''t'', CHR ''f''}"
    using str_of_int_head [of i] by (intro not_blank_head) simp
  then have "json_value unique (Suc n) (c # cs @ r) = json_number (c # cs @ r)"
    by (simp add: skip_blank_Cons)
  then show ?thesis using json_number_int [OF assms, of i] by (simp add: c)
qed

text \<open>\<open>d\<close> prints what the decoder reads back as \<open>h\<close>.\<close>

definition reads :: "bool \<Rightarrow> ('a \<Rightarrow> string) \<Rightarrow> ('a \<Rightarrow> json) \<Rightarrow> 'a \<Rightarrow> bool" where
  "reads unique d h x \<longleftrightarrow> opens (d x) \<and>
     (\<forall>n r. ends r \<longrightarrow> 2 * length (d x) \<le> n \<longrightarrow> json_value unique n (d x @ r) = Some (h x, r))"

lemma items_text:
  "list_all (reads unique d h) xs \<Longrightarrow> xs \<noteq> [] \<Longrightarrow> 2 * length (join '','' (map d xs)) + 1 \<le> n \<Longrightarrow>
     json_items unique n (join '','' (map d xs) @ CHR '']'' # r) = Some (map h xs, r)"
proof (induction xs arbitrary: n)
  case (Cons x xs)
  obtain m where m: "n = Suc m" using Cons.prems(3) by (cases n) auto
  have x: "json_value unique m (d x @ c # t) = Some (h x, c # t)"
    if "ends (c # t)" "2 * length (d x) \<le> m" for c t
    using Cons.prems(1) that by (simp add: reads_def)
  show ?case
  proof (cases xs)
    case Nil
    with x [of "CHR '']''" r] Cons.prems m show ?thesis by (simp add: skip_blank_Cons)
  next
    case (Cons y ys)
    let ?rest = "join '','' (map d xs)"
    have t: "join '','' (map d (x # xs)) = d x @ CHR '','' # ?rest" by (simp add: Cons)
    have le: "2 * length (d x) \<le> m" "2 * length ?rest + 1 \<le> m" using Cons.prems(3) unfolding t m by simp_all
    have "json_items unique m (?rest @ CHR '']'' # r) = Some (map h xs, r)"
      using Cons.prems(1) le(2) by (intro Cons.IH) (simp_all add: Cons)
    with x [OF _ le(1), of "CHR '',''" "?rest @ CHR '']'' # r"] show ?thesis
      unfolding t m by (simp add: skip_blank_Cons)
  qed
qed simp

definition member_text :: "bool \<Rightarrow> ('a \<Rightarrow> string) \<Rightarrow> string \<times> 'a \<Rightarrow> string" where
  "member_text ascii d = (\<lambda>(k, v). json_string ascii k @ CHR '':'' # d v)"

lemma members_text:
  "list_all (\<lambda>(k, v). reads unique d h v) xs \<Longrightarrow> xs \<noteq> [] \<Longrightarrow>
     2 * length (join '','' (map (member_text ascii d) xs)) + 1 \<le> n \<Longrightarrow>
     json_members unique n (join '','' (map (member_text ascii d) xs) @ CHR ''}'' # r) =
       Some (map (\<lambda>(k, v). (k, h v)) xs, r)"
proof (induction xs arbitrary: n)
  case (Cons x xs)
  obtain k v where kv: "x = (k, v)" by fastforce
  obtain m where m: "n = Suc m" using Cons.prems(3) by (cases n) auto
  have v: "json_value unique m (d v @ c # t) = Some (h v, c # t)"
    if "ends (c # t)" "2 * length (d v) \<le> m" for c t
    using Cons.prems(1) that by (simp add: reads_def kv)
  have key: "json_chars (concat (map (escape_char ascii) k) @ quote # t) = Some (k, t)" for t
    by (rule json_chars_string)
  have q: "skip_blank (quote # t) = quote # t" for t by (simp add: skip_blank_Cons quote_def)
  show ?case
  proof (cases xs)
    case Nil
    with v [of "CHR ''}''" r] Cons.prems m key q show ?thesis
      by (simp add: skip_blank_Cons kv member_text_def json_string_def)
  next
    case (Cons y ys)
    let ?rest = "join '','' (map (member_text ascii d) xs)"
    have t: "join '','' (map (member_text ascii d) (x # xs)) = member_text ascii d x @ CHR '','' # ?rest"
      by (simp add: Cons)
    have le: "2 * length (d v) \<le> m" "2 * length ?rest + 1 \<le> m"
      using Cons.prems(3) unfolding t m by (simp_all add: kv member_text_def)
    have "json_members unique m (?rest @ CHR ''}'' # r) = Some (map (\<lambda>(k, v). (k, h v)) xs, r)"
      using Cons.prems(1) le(2) by (intro Cons.IH) (simp_all add: Cons)
    with v [OF _ le(1), of "CHR '',''" "?rest @ CHR ''}'' # r"] key q show ?thesis
      unfolding t m by (simp add: skip_blank_Cons kv member_text_def json_string_def)
  qed
qed simp

text \<open>Sorting by key commutes with a map of the values.\<close>

lemma insort_values: "insort_key fst (k, f v) (map (\<lambda>(k, v). (k, f v)) xs) = map (\<lambda>(k, v). (k, f v)) (insort_key fst (k, v) xs)"
  by (induction xs) auto

lemma sort_values: "sort_key fst (map (\<lambda>(k, v). (k, f v)) xs) = map (\<lambda>(k, v). (k, f v)) (sort_key fst xs)"
  by (induction xs) (auto simp: insort_values)

lemma dict_of_distinct_from:
  "distinct (map fst (d @ kvs)) \<Longrightarrow> foldl (\<lambda>d (k, v). AList.update k v d) d kvs = d @ kvs"
proof (induction kvs arbitrary: d)
  case (Cons x kvs)
  obtain k v where x: "x = (k, v)" by fastforce
  have "k \<notin> set (map fst d)" using Cons.prems by (auto simp: x)
  then have "AList.update k v d = d @ [(k, v)]" by (induction d) auto
  then show ?case using Cons.IH [of "d @ [(k, v)]"] Cons.prems by (simp add: x)
qed simp

lemma dict_of_distinct: "distinct (map fst kvs) \<Longrightarrow> dict_of kvs = kvs"
  using dict_of_distinct_from [of "[]" kvs] by (simp add: dict_of_def)

lemma distinct_sorted_keys: "distinct (map fst kvs) \<Longrightarrow> distinct (map fst (sort_key fst kvs))"
  by (simp add: distinct_map)

lemma json_dumps_object:
  "json_dumps ascii (JObj kvs) =
     ''{'' @ join '','' (map (member_text ascii (json_dumps ascii)) (sort_key fst kvs)) @ ''}''"
  unfolding json_dumps.simps sort_values map_map by (simp add: comp_def split_def member_text_def)

lemma json_norm_object: "json_norm (JObj kvs) = JObj (map (\<lambda>(k, v). (k, json_norm v)) (sort_key fst kvs))"
  by (simp add: sort_values)

lemma reads_scalar:
  assumes "opens (d x)" "\<And>n r. ends r \<Longrightarrow> json_value unique (Suc n) (d x @ r) = Some (h x, r)"
  shows "reads unique d h x"
proof -
  have "json_value unique n (d x @ r) = Some (h x, r)" if "ends r" "2 * length (d x) \<le> n" for n r
    using assms(2) [OF that(1)] assms(1) that(2) by (cases n) (auto simp: opens_def)
  with assms(1) show ?thesis by (simp add: reads_def)
qed

lemma json_reads: "json_ok v \<Longrightarrow> reads unique (json_dumps ascii) json_norm v"
proof (induction v)
  case JNull
  show ?case by (rule reads_scalar, rule opens_dumps) (simp only: json_dumps.simps json_norm.simps value_scalars)
next
  case (JBool b)
  show ?case
    by (rule reads_scalar, rule opens_dumps, cases b)
      (simp_all only: json_dumps.simps json_norm.simps value_scalars if_True if_False)
next
  case (JInt i)
  show ?case by (rule reads_scalar, rule opens_dumps) (simp only: json_dumps.simps json_norm.simps value_int)
next
  case (JStr t)
  show ?case by (rule reads_scalar, rule opens_dumps) (simp only: json_dumps.simps json_norm.simps value_scalars)
next
  case (JArr xs)
  let ?t = "join '','' (map (json_dumps ascii) xs)"
  have xs: "list_all (reads unique (json_dumps ascii) json_norm) xs"
    using JArr by (simp add: list_all_iff)
  have "json_value unique n (json_dumps ascii (JArr xs) @ r) = Some (json_norm (JArr xs), r)"
    if le: "2 * length (json_dumps ascii (JArr xs)) \<le> n" for n r
  proof -
    obtain m where m: "n = Suc m" "2 * length ?t + 1 \<le> m" using le by (cases n) auto
    show ?thesis
    proof (cases "xs = []")
      case False
      then obtain y ys where y: "xs = y # ys" by (cases xs) auto
      have o: "opens (?t @ CHR '']'' # r)"
        using opens_dumps [of ascii y] by (cases ys) (auto simp: y opens_def hd_append)
      then have "skip_blank (?t @ CHR '']'' # r) = ?t @ CHR '']'' # r" using opens_skip [OF o, of "[]"] by simp
      with o items_text [OF xs False m(2), of r] show ?thesis
        by (simp add: m(1) skip_blank_Cons quote_def opens_def)
    qed (simp add: m(1) skip_blank_Cons quote_def)
  qed
  then show ?case using opens_dumps [of ascii "JArr xs"] unfolding reads_def by blast
next
  case (JObj kvs)
  let ?xs = "sort_key fst kvs"
  let ?t = "join '','' (map (member_text ascii (json_dumps ascii)) ?xs)"
  have xs: "list_all (\<lambda>(k, v). reads unique (json_dumps ascii) json_norm v) ?xs"
    using JObj by (fastforce simp: list_all_iff)
  have d: "distinct (map fst (map (\<lambda>(k, v). (k, json_norm v)) ?xs))"
    using JObj.prems distinct_sorted_keys [of kvs] by (simp add: comp_def split_def)
  have "json_value unique n (json_dumps ascii (JObj kvs) @ r) = Some (json_norm (JObj kvs), r)"
    if le: "2 * length (json_dumps ascii (JObj kvs)) \<le> n" for n r
  proof -
    obtain m where m: "n = Suc m" "2 * length ?t + 1 \<le> m" using le unfolding json_dumps_object by (cases n) auto
    show ?thesis
    proof (cases "kvs = []")
      case False
      then obtain y ys where y: "?xs = y # ys" by (cases ?xs) (auto dest: arg_cong [where f = set])
      have o: "opens (?t @ CHR ''}'' # r)"
        by (cases ys) (simp_all add: y opens_def member_text_def json_string_def quote_def split_def)
      then have "skip_blank (?t @ CHR ''}'' # r) = ?t @ CHR ''}'' # r" using opens_skip [OF o, of "[]"] by simp
      moreover have "?xs \<noteq> []" by (simp add: y)
      ultimately show ?thesis using o members_text [OF xs _ m(2), of r]
        unfolding json_dumps_object json_norm_object
        by (simp add: m(1) skip_blank_Cons quote_def opens_def dict_of_distinct [OF d] d [unfolded map_map])
    qed (simp add: m(1) skip_blank_Cons quote_def)
  qed
  then show ?case using opens_dumps [of ascii "JObj kvs"] unfolding reads_def by blast
qed

lemma json_decode_dumps: "json_ok v \<Longrightarrow> json_decode unique (json_dumps ascii v) = Inr (json_norm v)"
proof -
  let ?t = "json_dumps ascii v"
  assume "json_ok v"
  then have "json_value unique (2 * length ?t + 2) (?t @ []) = Some (json_norm v, [])"
    using json_reads [of v unique ascii] unfolding reads_def by (metis ends_delimiter(4) le_add1)
  then show ?thesis by (simp add: json_decode_def skip_blank_def del: json_value.simps)
qed

lemma json_loads_dumps: "json_ok v \<Longrightarrow> json_loads (json_dumps ascii v) = Inr (json_norm v)"
  by (simp add: json_loads_def json_decode_dumps)

lemma json_loads_unique_dumps: "json_ok v \<Longrightarrow> json_loads_unique (json_dumps ascii v) = Inr (json_norm v)"
  by (simp add: json_loads_unique_def json_decode_dumps)

lemma json_dumps_inj:
  "json_ok a \<Longrightarrow> json_ok b \<Longrightarrow> json_dumps ascii a = json_dumps ascii b \<Longrightarrow> json_norm a = json_norm b"
  using json_loads_dumps by (metis sum.inject(2))

text \<open>Objects with the same keys in the same order are told apart by their values.\<close>

lemma sorted_values_eq:
  assumes "distinct (map fst xs)" "map fst xs = map fst ys" "sort_key fst xs = sort_key fst ys"
  shows "xs = ys"
proof (rule nth_equalityI)
  show len: "length xs = length ys" using assms(2) by (metis length_map)
  have sets: "set xs = set ys" by (metis assms(3) set_sort)
  fix i
  assume i: "i < length xs"
  have "xs ! i \<in> set ys" using nth_mem [OF i] unfolding sets .
  then obtain j where j: "j < length ys" "ys ! j = xs ! i" by (auto simp: in_set_conv_nth)
  have "map fst xs ! j = fst (ys ! j)" using assms(2) j(1) len by simp
  then have "map fst xs ! j = map fst xs ! i" using i j(2) by simp
  then have "j = i" using nth_eq_iff_index_eq [OF assms(1)] i j(1) len by (metis length_map)
  with j(2) show "xs ! i = ys ! i" by simp
qed

lemma json_object_inj:
  assumes "json_norm (JObj xs) = json_norm (JObj ys)" "distinct (map fst xs)" "map fst xs = map fst ys"
  shows "list_all2 (\<lambda>x y. fst x = fst y \<and> json_norm (snd x) = json_norm (snd y)) xs ys"
proof -
  let ?f = "map (\<lambda>(k, v). (k, json_norm v))"
  have keys: "map fst (?f zs) = map fst zs" for zs :: "(string \<times> json) list"
    by (induction zs) auto
  have s: "sort_key fst (?f xs) = sort_key fst (?f ys)" using assms(1) unfolding json_norm.simps json.inject .
  have "?f xs = ?f ys"
    by (rule sorted_values_eq [OF _ _ s]) (simp_all only: keys assms(2) assms(2) [unfolded assms(3)] assms(3))
  have "length xs = length ys" using assms(3) by (metis length_map)
  then show ?thesis using \<open>?f xs = ?f ys\<close> by (induction xs ys rule: list_induct2) auto
qed

lemma json_norm_scalar [simp]:
  "json_norm (JStr s) = JStr s" "json_norm (JInt n) = JInt n"
  by simp_all

lemma json_dumps_norm: "json_dumps ascii (json_norm v) = json_dumps ascii v"
proof (induction v rule: json_norm.induct)
  case (2 kvs)
  have "map (member_text ascii (json_dumps ascii)) (sort_key fst (map (\<lambda>(k, v). (k, json_norm v)) (sort_key fst kvs))) =
      map (member_text ascii (json_dumps ascii)) (sort_key fst kvs)"
    unfolding sort_values using 2 by (auto simp: member_text_def sort_key_id_if_sorted)
  then show ?case unfolding json_norm_object json_dumps_object by simp
qed (simp_all add: comp_def cong: map_cong)

lemma json_ok_strings [simp]: "json_ok (json_strings xs)"
  by (simp add: json_strings_def list_all_iff)

lemma json_ok_opt [simp]: "json_ok (json_opt x)"
  by (cases x) simp_all

lemma json_norm_strings [simp]: "json_norm (json_strings xs) = json_strings xs"
  by (simp add: json_strings_def)

lemma json_norm_opt [simp]: "json_norm (json_opt x) = json_opt x"
  by (cases x) simp_all

lemma json_strings_inj [simp]: "json_strings xs = json_strings ys \<longleftrightarrow> xs = ys"
  by (auto simp: json_strings_def inj_map_eq_map inj_def)

lemma json_opt_inj [simp]: "json_opt x = json_opt y \<longleftrightarrow> x = y"
  by (cases x; cases y) simp_all

end
