(* ===== verification/Generation_Facts.thy ===== *)
theory Generation_Facts
  imports Generation Json_Facts
begin

text \<open>
  The digest of a batch stands for the whole batch, the logical identity of a slot for its batch and
  index, and a request that passes the authority check is the one request the batch approved.
\<close>

section \<open>Digests\<close>

lemma operation_kind_value_inj [simp]: "operation_kind_value a = operation_kind_value b \<longleftrightarrow> a = b"
  by (cases a; cases b) simp_all

lemma json_ok_payload: "json_ok (gb_payload b)"
  by (simp add: gb_payload_def)

definition batch_times_ok :: "generation_batch \<Rightarrow> bool" where
  "batch_times_ok b \<longleftrightarrow> representable (gb_workflow_deadline b) \<and> representable (gb_retention_deadline b) \<and>
     representable (gb_created_at b) \<and> (case gb_source_rights_deadline b of None \<Rightarrow> True | Some d \<Rightarrow> representable d)"

lemma utc_text_inj:
  "is_utc a \<Longrightarrow> is_utc b \<Longrightarrow> representable a \<Longrightarrow> representable b \<Longrightarrow>
     canonical_datetime a = canonical_datetime b \<longleftrightarrow> a = b"
  using canonical_datetime_inj [of a b] by (auto simp: is_utc_def intro: datetime.equality)

lemma gb_check_utc:
  assumes "gb_check b = None"
  shows "is_utc (gb_created_at b)" "is_utc (gb_workflow_deadline b)" "is_utc (gb_retention_deadline b)"
    "utc_opt (gb_source_rights_deadline b)"
  using assms by (simp_all add: gb_check_def guards_None)

lemma gb_payload_inj:
  assumes "json_norm (gb_payload a) = json_norm (gb_payload b)" "gb_check a = None" "gb_check b = None"
    "batch_times_ok a" "batch_times_ok b"
  shows "a = b"
proof -
  note p = json_object_inj [OF assms(1) [unfolded gb_payload_def], simplified]
  note t = gb_check_utc [OF assms(2)] gb_check_utc [OF assms(3)] assms(4,5) [unfolded batch_times_ok_def]
  have "gb_source_rights_deadline a = gb_source_rights_deadline b"
    using p t utc_text_inj
    by (cases "gb_source_rights_deadline a"; cases "gb_source_rights_deadline b") auto
  with p t show ?thesis
    by (intro generation_batch.equality) (simp_all add: utc_text_inj)
qed

lemma json_ok_identity: "json_ok (slot_identity_payload sha256 b i)"
  by (simp add: slot_identity_payload_def)

lemma slot_identity_payload_inj:
  "json_norm (slot_identity_payload sha256 a i) = json_norm (slot_identity_payload sha256 b j) \<Longrightarrow>
     gb_sha256 sha256 a = gb_sha256 sha256 b \<and> i = j"
  unfolding slot_identity_payload_def by (drule json_object_inj) simp_all

section \<open>Slots\<close>

lemma make_slot_Inr:
  "make_slot sha256 uuid5 b (i, operation_id) = Inr s \<longleftrightarrow> sl_check s = None \<and>
     s = \<lparr>sl_id = uuid5 (gb_id b) (''candidate-slot:'' @ slot_identity sha256 b i),
          sl_workspace_id = gb_workspace_id b, sl_generation_batch_id = gb_id b, sl_candidate_index = i,
          sl_durable_operation_id = operation_id, sl_operation_kind = gb_operation_kind b,
          sl_logical_identity_sha256 = slot_identity sha256 b i,
          sl_operation_idempotency_key = ''generation-slot:'' @ slot_identity sha256 b i\<rparr>"
  by (auto simp: make_slot_def Let_def split: option.splits)

definition operations_match :: "generation_batch \<Rightarrow> string list \<Rightarrow> bool" where
  "operations_match b ops \<longleftrightarrow> int (length ops) = gb_candidate_count b \<and> distinct ops \<and>
     (\<forall>i \<in> set ops. validate_uuid i = None)"

lemma create_slots_Inr:
  "create_candidate_slots sha256 uuid5 b ops = Inr xs \<longleftrightarrow> operations_match b ops \<and>
     collect (make_slot sha256 uuid5 b) (zip [0..int (length ops) - 1] ops) = Inr xs"
proof -
  have "guards (guard (int (length ops) \<noteq> gb_candidate_count b \<or> \<not> distinct ops) ValueError # map validate_uuid ops) =
      None \<longleftrightarrow> operations_match b ops"
    unfolding guards_None operations_match_def by (simp del: not_None_eq)
  then show ?thesis
    unfolding create_candidate_slots_def by (cases "operations_match b ops") (auto split: option.splits simp del: guards.simps)
qed

lemma create_slots_Inl:
  assumes "create_candidate_slots sha256 uuid5 b ops = Inl e" "\<not> operations_match b ops"
  shows "e = ValueError"
proof -
  have "guards (guard (int (length ops) \<noteq> gb_candidate_count b \<or> \<not> distinct ops) ValueError # map validate_uuid ops) \<noteq>
      None"
    using assms(2) unfolding guards_None operations_match_def by (simp del: not_None_eq)
  then have "guards (guard (int (length ops) \<noteq> gb_candidate_count b \<or> \<not> distinct ops) ValueError # map validate_uuid ops) =
      Some e"
    using assms(1) unfolding create_candidate_slots_def by (auto split: option.splits simp del: guards.simps)
  then show ?thesis
    by (rule guards_only) (auto simp: validate_uuid_def canonicalize_uuid_eq guard_def split: if_splits)
qed

lemma sha_token:
  assumes "is_sha256 h"
  shows "is_token (''generation-slot:'' @ h)"
proof -
  have "is_token_char c" if "is_lower_hex c" for c
    using that by (auto simp: is_token_char_def class_defs)
  then have "list_all is_token_char h"
    using assms by (auto simp: is_sha256_def elim: list.pred_mono_strong)
  moreover have "length h = 64" using assms by (simp add: is_sha256_def)
  ultimately show ?thesis
    by (simp add: is_token_char_def class_defs code_def)
qed

lemma slot_member:
  assumes "create_candidate_slots sha256 uuid5 b ops = Inr xs" "x \<in> set xs"
  shows "sl_check x = None" "sl_logical_identity_sha256 x = slot_identity sha256 b (sl_candidate_index x)"
    "sl_generation_batch_id x = gb_id b" "sl_workspace_id x = gb_workspace_id b"
    "sl_operation_kind x = gb_operation_kind b"
proof -
  have c: "collect (make_slot sha256 uuid5 b) (zip [0..int (length ops) - 1] ops) = Inr xs"
    using assms(1) unfolding create_slots_Inr by simp
  obtain y where "make_slot sha256 uuid5 b y = Inr x"
    using collect_member [OF c assms(2)] by blast
  then have "make_slot sha256 uuid5 b (fst y, snd y) = Inr x" by simp
  then show "sl_check x = None" "sl_logical_identity_sha256 x = slot_identity sha256 b (sl_candidate_index x)"
    "sl_generation_batch_id x = gb_id b" "sl_workspace_id x = gb_workspace_id b"
    "sl_operation_kind x = gb_operation_kind b"
    unfolding make_slot_Inr by (elim conjE; simp only: candidate_slot.simps)+
qed

lemma make_slot_answers:
  assumes "gb_check b = None" "\<And>s. is_sha256 (sha256 s)" "\<And>n s. validate_uuid (uuid5 n s) = None"
    and "0 \<le> i" "i < 16" "validate_uuid op = None"
  shows "\<exists>s. make_slot sha256 uuid5 b (i, op) = Inr s"
proof -
  have h: "is_sha256 (slot_identity sha256 b i)"
    by (simp add: slot_identity_def canonical_sha256_def assms(2))
  have "validate_uuid (gb_id b) = None" "validate_workspace_id (gb_workspace_id b) = None"
    "gb_operation_kind b \<in> generation_kinds"
    using assms(1) by (simp_all add: gb_check_def guards_None)
  then have "make_slot sha256 uuid5 b (i, op) \<noteq> Inl e" for e
    using sha_token [OF h] h assms(3-6)
    by (simp add: make_slot_def Let_def sl_check_def validate_sha256_def validate_token_def del: append.simps is_token.simps)
  then show ?thesis by (meson sumE)
qed

text \<open>The texts whose digests a batch and its slots carry.\<close>

definition hashed_texts :: "(string \<Rightarrow> string) \<Rightarrow> generation_batch \<Rightarrow> string set" where
  "hashed_texts sha256 b = insert (json_dumps True (gb_payload b))
     ((\<lambda>i. json_dumps True (slot_identity_payload sha256 b i)) ` {0..<gb_candidate_count b})"

lemma slot_index:
  assumes "create_candidate_slots sha256 uuid5 b ops = Inr xs" "x \<in> set xs"
  shows "sl_candidate_index x \<in> {0..<gb_candidate_count b}"
proof -
  have c: "operations_match b ops" "collect (make_slot sha256 uuid5 b) (zip [0..int (length ops) - 1] ops) = Inr xs"
    using assms(1) unfolding create_slots_Inr by simp_all
  have "map sl_candidate_index xs = map fst (zip [0..int (length ops) - 1] ops)"
    by (rule collect_image [OF c(2)]) (auto simp: make_slot_Inr)
  then have "map sl_candidate_index xs = [0..int (length ops) - 1]" by simp
  then have "set (map sl_candidate_index xs) = {0..int (length ops) - 1}" by simp
  moreover have "sl_candidate_index x \<in> set (map sl_candidate_index xs)" using assms(2) by simp
  ultimately show ?thesis using c(1) by (simp add: operations_match_def)
qed

lemma slot_text:
  assumes "create_candidate_slots sha256 uuid5 b ops = Inr xs" "x \<in> set xs"
  shows "json_dumps True (slot_identity_payload sha256 b (sl_candidate_index x)) \<in> hashed_texts sha256 b"
  using slot_index [OF assms] unfolding hashed_texts_def by blast

section \<open>Properties\<close>

text \<open>A valid batch gets one slot per candidate or none at all: the slots exist exactly when the
  operation identifiers are distinct, canonical and as many as the candidates; then slot \<open>i\<close> has index
  \<open>i\<close> and the \<open>i\<close>-th operation, and every slot passes its own check and belongs to the batch.\<close>

theorem slots_cover_batch:
  assumes "gb_check b = None" "\<And>s. is_sha256 (sha256 s)" "\<And>n s. validate_uuid (uuid5 n s) = None"
  shows "case create_candidate_slots sha256 uuid5 b ops of
      Inl e \<Rightarrow> e = ValueError \<and> \<not> operations_match b ops
    | Inr xs \<Rightarrow> operations_match b ops \<and> map sl_candidate_index xs = [0..gb_candidate_count b - 1] \<and>
        map sl_durable_operation_id xs = ops \<and>
        (\<forall>x \<in> set xs. sl_check x = None \<and> sl_generation_batch_id x = gb_id b \<and>
           sl_operation_kind x = gb_operation_kind b \<and>
           sl_logical_identity_sha256 x = slot_identity sha256 b (sl_candidate_index x))"
proof (cases "operations_match b ops")
  case False
  then obtain e where e: "create_candidate_slots sha256 uuid5 b ops = Inl e"
    using create_slots_Inr [of sha256 uuid5 b ops]
    by (cases "create_candidate_slots sha256 uuid5 b ops") blast+
  then have "e = ValueError" using create_slots_Inl False by blast
  with e False show ?thesis by simp
next
  case True
  let ?xs = "zip [0..int (length ops) - 1] ops"
  have l: "length [0..int (length ops) - 1] = length ops" by simp
  have count: "int (length ops) = gb_candidate_count b" "gb_candidate_count b \<le> 16"
    using True assms(1) by (simp_all add: operations_match_def gb_check_def guards_None positive_up_to_def)
  have "\<exists>s. make_slot sha256 uuid5 b x = Inr s" if x: "x \<in> set ?xs" for x
  proof -
    obtain i op where io: "x = (i, op)" by (cases x)
    have "i \<in> set [0..int (length ops) - 1]" "op \<in> set ops"
      using x set_zip_leftD set_zip_rightD unfolding io by fast+
    then have "0 \<le> i" "i < 16" "validate_uuid op = None"
      using True count by (simp_all add: operations_match_def)
    then show ?thesis unfolding io by (intro make_slot_answers assms)
  qed
  then obtain xs where xs: "collect (make_slot sha256 uuid5 b) ?xs = Inr xs"
    using collect_answers [of ?xs "make_slot sha256 uuid5 b"] by fastforce
  with True have c: "create_candidate_slots sha256 uuid5 b ops = Inr xs" by (simp add: create_slots_Inr)
  have "map sl_candidate_index xs = map fst ?xs"
    by (rule collect_image [OF xs]) (auto simp: make_slot_Inr)
  then have "map sl_candidate_index xs = [0..gb_candidate_count b - 1]" unfolding map_fst_zip [OF l] unfolding count(1) .
  moreover have "map sl_durable_operation_id xs = map snd ?xs"
    by (rule collect_image [OF xs]) (auto simp: make_slot_Inr)
  then have "map sl_durable_operation_id xs = ops" unfolding map_snd_zip [OF l] .
  ultimately show ?thesis using True slot_member [OF c] by (simp add: c)
qed

text \<open>C22: The logical identity of a slot stands for its batch, with every field of it, and its index: two
  slots, of the same or of different batches, have the same identity exactly when both agree, unless
  SHA-256 collides on the canonical texts that were hashed. So retried creation derives the same
  operations, and different candidates never share one.\<close>

theorem slot_identity_exact:
  assumes "gb_check a = None" "gb_check b = None" "batch_times_ok a" "batch_times_ok b"
    and "create_candidate_slots sha256 uuid5 a ops = Inr xs" "create_candidate_slots sha256 uuid5 b ops' = Inr ys"
    and "x \<in> set xs" "y \<in> set ys"
    and "inj_on sha256 (hashed_texts sha256 a \<union> hashed_texts sha256 b)"
  shows "sl_logical_identity_sha256 x = sl_logical_identity_sha256 y \<longleftrightarrow>
    a = b \<and> sl_candidate_index x = sl_candidate_index y"
proof
  assume eq: "sl_logical_identity_sha256 x = sl_logical_identity_sha256 y"
  let ?i = "sl_candidate_index x" and ?j = "sl_candidate_index y"
  have "json_dumps True (slot_identity_payload sha256 a ?i) = json_dumps True (slot_identity_payload sha256 b ?j)"
    using eq slot_text [OF assms(5,7)] slot_text [OF assms(6,8)]
    unfolding slot_member(2) [OF assms(5,7)] slot_member(2) [OF assms(6,8)] slot_identity_def canonical_sha256_def
    by (elim inj_onD [OF assms(9)]) blast+
  then have ij: "gb_sha256 sha256 a = gb_sha256 sha256 b" "?i = ?j"
    using slot_identity_payload_inj json_dumps_inj [OF json_ok_identity json_ok_identity] by blast+
  then have "json_dumps True (gb_payload a) = json_dumps True (gb_payload b)"
    unfolding gb_sha256_def canonical_sha256_def
    by (elim inj_onD [OF assms(9)]) (simp_all add: hashed_texts_def)
  then have "a = b"
    using json_dumps_inj [OF json_ok_payload json_ok_payload] gb_payload_inj assms(1-4) by blast
  with ij(2) show "a = b \<and> ?i = ?j" by simp
next
  assume "a = b \<and> sl_candidate_index x = sl_candidate_index y"
  then show "sl_logical_identity_sha256 x = sl_logical_identity_sha256 y"
    using slot_member(2) [OF assms(5,7)] slot_member(2) [OF assms(6,8)] by simp
qed

text \<open>The one request a batch approves for a slot.\<close>

definition approved_request :: "generation_batch \<Rightarrow> candidate_slot \<Rightarrow> candidate_request" where
  "approved_request b s =
     (if gb_operation_kind b = IMAGE_GENERATION
      then GenerationRequest (sl_id s) (gb_prompt_sha256 b) (gb_context_sha256 b) (gb_authorized_asset_version_ids b)
      else EditingRequest (sl_id s) (gb_prompt_sha256 b) (gb_context_sha256 b)
        (the (gb_edit_source_asset_version_id b)) (the (gb_edit_mask_asset_version_id b))
        (gb_approved_repair_scope b))"

text \<open>C23: The authority check of a candidate request is exact: for a slot created for a valid batch it
  accepts one request, the one the batch approved, with its prompt, context, references or edit source,
  mask and scope; every other request is refused.\<close>

theorem candidate_request_exact:
  assumes "gb_check b = None" "create_candidate_slots sha256 uuid5 b ops = Inr xs" "s \<in> set xs"
  shows "validate_candidate_request_authority b s r = (if r = approved_request b s then None else Some ValueError)"
proof -
  have k: "gb_operation_kind b \<in> generation_kinds" and e: "gb_edit_check b = None"
    using assms(1) by (simp_all add: gb_check_def guards_None)
  note m = slot_member(3-5) [OF assms(2,3)]
  have none: "validate_candidate_request_authority b s r = None \<longleftrightarrow> r = approved_request b s"
    using k e m
    by (cases r)
      (auto simp: validate_candidate_request_authority_def guards_None approved_request_def generation_kinds_def
        gb_edit_check_def Let_def split: if_splits)
  have "e = ValueError" if v: "validate_candidate_request_authority b s r = Some e" for e
    using v by (cases r) (auto simp: validate_candidate_request_authority_def both_Some)
  then show ?thesis using none by (cases "validate_candidate_request_authority b s r") auto
qed

section \<open>A concrete batch\<close>

text \<open>A stand-in for SHA-256 that tells the texts of the sample apart by the twentieth character.\<close>

definition sample_hash :: "string \<Rightarrow> string" where
  "sample_hash s = replicate 64 (if is_digit (s ! 19) then s ! 19 else CHR ''a'')"

definition sample_batch :: generation_batch where
  "sample_batch = \<lparr>gb_id = uuid_str 1, gb_workspace_id = ''ws'', gb_workflow_id = uuid_str 2, gb_workflow_version = 3,
     gb_creative_plan_version_id = uuid_str 4, gb_plan_approval_id = uuid_str 5, gb_direction_key = ''d1'',
     gb_tool_intent_key = ''t1'', gb_tool_intent_sha256 = replicate 64 CHR ''b'',
     gb_prompt_sha256 = replicate 64 CHR ''c'', gb_context_sha256 = replicate 64 CHR ''d'',
     gb_route_decision_sha256 = replicate 64 CHR ''e'', gb_route_request_sha256 = replicate 64 CHR ''f'',
     gb_operation_kind = IMAGE_GENERATION, gb_authorized_asset_version_ids = [uuid_str 6], gb_candidate_count = 2,
     gb_route_policy_version = ''r1'', gb_tool_policy_version = ''p1'', gb_rights_policy_version = ''q1'',
     gb_safety_policy_version = ''s1'', gb_workflow_deadline = utc 2000, gb_source_rights_deadline = None,
     gb_edit_source_asset_version_id = None, gb_edit_mask_asset_version_id = None, gb_approved_repair_scope = [],
     gb_retention_deadline = utc 1000, gb_created_by = ''u1'', gb_created_at = utc 0\<rparr>"

definition sample_ops :: "string list" where "sample_ops = [uuid_str 7, uuid_str 8]"

lemma sample_hash_sha: "is_sha256 (sample_hash s)"
  by (auto simp: sample_hash_def is_sha256_def class_defs code_def list_all_iff)

lemma sample_batch_check: "gb_check sample_batch = None"
  by (simp add: gb_check_def sample_batch_def guards_None validator_defs class_defs code_def is_token_char_def
      positive_up_to_def retention_window_def max_retention_def hours_def dt_defs gb_edit_check_def generation_kinds_def
      is_sha256_def list_all_iff)

lemma sample_operations: "operations_match sample_batch sample_ops"
  using uuid_str_less [of 7 8] by (auto simp: operations_match_def sample_batch_def sample_ops_def)

theorem slots_cover_batch_witness:
  "case create_candidate_slots sample_hash (\<lambda>n s. uuid_str 9) sample_batch sample_ops of
      Inl e \<Rightarrow> False | Inr xs \<Rightarrow> map sl_candidate_index xs = [0..1]"
  using slots_cover_batch [of sample_batch sample_hash "\<lambda>n s. uuid_str 9" sample_ops]
    sample_batch_check sample_hash_sha sample_operations
  by (auto simp: sample_batch_def split: sum.splits)

lemma identity_sorted:
  "sort_key fst [(''schema_version'', x), (''generation_batch_sha256'', y), (''candidate_index'', z)] =
     [(''candidate_index'', z), (''generation_batch_sha256'', y), (''schema_version'', x)]"
  by (simp add: less_eq_char_def)

lemma plain_string: "list_all (\<lambda>c. escape_char ascii c = [c]) s \<Longrightarrow> json_string ascii s = quote # s @ [quote]"
  by (induction s) (simp_all add: json_string_def)

lemma str_of_int_small: "str_of_int 0 = ''0''" "str_of_int 1 = ''1''"
  by (simp_all add: str_of_int_def str_of_nat.simps flip: of_char_eq_iff [where 'a = nat])

lemma identity_text:
  "json_dumps True (slot_identity_payload h b 0) ! 19 = CHR ''0''"
  "json_dumps True (slot_identity_payload h b 1) ! 19 = CHR ''1''"
  unfolding slot_identity_payload_def json_dumps_object identity_sorted
  by (simp_all add: member_text_def plain_string escape_char_def short_escapes_def quote_def backslash_def code_def
      str_of_int_small)

lemma sort_least:
  fixes f :: "'a \<Rightarrow> 'b :: linorder"
  assumes "x \<in> set xs" "\<forall>y \<in> set xs. y = x \<or> f x < f y"
  obtains r where "sort_key f xs = x # r"
proof (cases "sort_key f xs")
  case Nil
  then show ?thesis using assms(1) by (metis empty_iff empty_set set_sort)
next
  case (Cons h r)
  have s: "sorted (map f (h # r))" "set (h # r) = set xs"
    unfolding Cons [symmetric] by simp_all
  then have "h = x \<or> x \<in> set r" "h \<in> set xs" using assms(1) by auto
  then have "h = x" using s(1) assms(2) by fastforce
  with Cons that show ?thesis by simp
qed

lemma payload_text: "\<not> is_digit (json_dumps True (gb_payload b) ! 19)"
proof -
  let ?x = "(''approved_repair_scope'', json_strings (gb_approved_repair_scope b))"
  obtain kvs where p: "gb_payload b = JObj kvs" and m: "?x \<in> set kvs"
    and l: "\<forall>y \<in> set kvs. y = ?x \<or> fst ?x < fst y"
    by (simp add: gb_payload_def less_char_def)
  obtain r where r: "sort_key fst kvs = ?x # r"
    by (rule sort_least [OF m, of fst]) (use l in simp_all)
  have "\<exists>z. join '','' (x # xs) = x @ z" for x :: string and xs by (cases xs) simp_all
  then obtain z where z: "join '','' (map (member_text True (json_dumps True)) (?x # r)) = member_text True (json_dumps True) ?x @ z"
    unfolding list.map by blast
  have "json_dumps True (gb_payload b) = ''{'' @ (member_text True (json_dumps True) ?x @ z) @ ''}''"
    unfolding p json_dumps_object r z ..
  then show ?thesis
    by (simp add: member_text_def plain_string escape_char_def short_escapes_def quote_def backslash_def code_def class_defs)
qed

lemma sample_hash_inj:
  "inj_on sample_hash (hashed_texts sample_hash sample_batch \<union> hashed_texts sample_hash sample_batch)"
proof -
  have d: "is_digit CHR ''0''" "is_digit CHR ''1''" by (simp_all add: class_defs code_def)
  have two: "{0..<gb_candidate_count sample_batch} = {0, 1}" by (auto simp: sample_batch_def)
  let ?p = "json_dumps True (gb_payload sample_batch)"
    and ?t = "\<lambda>i. json_dumps True (slot_identity_payload sample_hash sample_batch i)"
  have h: "sample_hash ?p = replicate 64 CHR ''a''" "sample_hash (?t 0) = replicate 64 CHR ''0''"
    "sample_hash (?t 1) = replicate 64 CHR ''1''"
    unfolding sample_hash_def identity_text using payload_text d by simp_all
  have "replicate 64 c = replicate 64 e \<longleftrightarrow> c = e" for c e :: char by (simp add: replicate_eq_replicate)
  with h show ?thesis unfolding inj_on_def hashed_texts_def two by auto
qed

definition sample_slots :: "candidate_slot list" where
  "sample_slots = (case create_candidate_slots sample_hash (\<lambda>n s. uuid_str 9) sample_batch sample_ops of
     Inl e \<Rightarrow> [] | Inr xs \<Rightarrow> xs)"

lemma sample_slots:
  "create_candidate_slots sample_hash (\<lambda>n s. uuid_str 9) sample_batch sample_ops = Inr sample_slots"
  "map sl_candidate_index sample_slots = [0, 1]"
proof -
  have m: "\<exists>s. make_slot sample_hash (\<lambda>n s. uuid_str 9) sample_batch (i, op) = Inr s"
    if "0 \<le> i" "i < 16" "validate_uuid op = None" for i op
    by (rule make_slot_answers) (simp_all add: sample_batch_check sample_hash_sha that)
  have z: "zip [0..int (length sample_ops) - 1] sample_ops = [(0, uuid_str 7), (1, uuid_str 8)]"
    by (simp add: sample_ops_def upto.simps)
  have "\<exists>xs. collect (make_slot sample_hash (\<lambda>n s. uuid_str 9) sample_batch) [(0, uuid_str 7), (1, uuid_str 8)] = Inr xs"
    by (rule collect_answers) (use m [of 0 "uuid_str 7"] m [of 1 "uuid_str 8"] in auto)
  then show c: "create_candidate_slots sample_hash (\<lambda>n s. uuid_str 9) sample_batch sample_ops = Inr sample_slots"
    using sample_operations unfolding sample_slots_def create_slots_Inr z [symmetric] by (metis create_slots_Inr sum.case(2))
  have "collect (make_slot sample_hash (\<lambda>n s. uuid_str 9) sample_batch) [(0, uuid_str 7), (1, uuid_str 8)] = Inr sample_slots"
    using c unfolding create_slots_Inr z by simp
  then have "map sl_candidate_index sample_slots = map fst [(0 :: int, uuid_str 7), (1, uuid_str 8)]"
    by (rule collect_image) (auto simp: make_slot_Inr)
  then show "map sl_candidate_index sample_slots = [0, 1]" by simp
qed

lemma sample_slots_2: "length sample_slots = 2"
  using arg_cong [OF sample_slots(2), of length] by simp

lemma sample_times: "batch_times_ok sample_batch"
  by (simp add: batch_times_ok_def sample_batch_def representable_def day_number_def)

theorem slot_identity_exact_witness:
  "sl_logical_identity_sha256 (sample_slots ! 0) \<noteq> sl_logical_identity_sha256 (sample_slots ! 1)"
proof -
  have m: "sample_slots ! 0 \<in> set sample_slots" "sample_slots ! 1 \<in> set sample_slots"
    by (simp_all add: sample_slots_2)
  have "sl_candidate_index (sample_slots ! 0) = 0" "sl_candidate_index (sample_slots ! 1) = 1"
    using nth_map [of 0 sample_slots sl_candidate_index] nth_map [of 1 sample_slots sl_candidate_index]
    by (simp_all add: sample_slots(2) sample_slots_2)
  then show ?thesis
    using slot_identity_exact [OF sample_batch_check sample_batch_check sample_times sample_times
        sample_slots(1) sample_slots(1) m sample_hash_inj] by simp
qed

theorem candidate_request_exact_witness:
  "validate_candidate_request_authority sample_batch (sample_slots ! 0)
     (GenerationRequest (sl_id (sample_slots ! 0)) (replicate 64 CHR ''c'') (replicate 64 CHR ''d'') []) = Some ValueError"
  using candidate_request_exact [OF sample_batch_check sample_slots(1), of "sample_slots ! 0"]
  by (simp add: sample_slots_2 approved_request_def sample_batch_def)

end
