(* ===== verification/Control_Plane.thy ===== *)
theory Control_Plane
  imports Provider_Routing Json_Text Timestamps
begin

text \<open>
  The provider control plane (\<open>provider_control_plane.py\<close>): provider identities, the heads that point
  into the immutable versions of endpoint capabilities and route policies, discovery candidates with
  their canonical evidence, and endpoint observations. SHA-256 is an argument.
\<close>

section \<open>Provider identities\<close>

record provider_identity =
  pi_id :: string
  pi_display_name :: string
  pi_enabled :: bool
  pi_version :: int
  pi_created_by :: string
  pi_created_at :: datetime
  pi_updated_by :: string
  pi_updated_at :: datetime

definition pi_check :: "provider_identity \<Rightarrow> error option" where
  "pi_check p = guards
     [validate_token (pi_id p),
      guard (strip (pi_display_name p) = [] \<or> 160 < length (pi_display_name p)) ValueError,
      guard (pi_version p < 1) ValueError,
      validate_token (pi_created_by p), validate_token (pi_updated_by p),
      require_utc (pi_created_at p), require_utc (pi_updated_at p),
      less_guard (pi_updated_at p) (pi_created_at p) ValueError]"

definition pi_create :: "string \<Rightarrow> string \<Rightarrow> string \<Rightarrow> datetime \<Rightarrow> error + provider_identity" where
  "pi_create provider_id display_name actor_id now =
     (let p = \<lparr>pi_id = provider_id, pi_display_name = strip display_name, pi_enabled = True, pi_version = 1,
               pi_created_by = actor_id, pi_created_at = now, pi_updated_by = actor_id, pi_updated_at = now\<rparr>
      in case pi_check p of Some e \<Rightarrow> Inl e | None \<Rightarrow> Inr p)"

definition pi_set_enabled ::
  "bool \<Rightarrow> int \<Rightarrow> string \<Rightarrow> datetime \<Rightarrow> provider_identity \<Rightarrow> (unit, provider_identity) outcome" where
  "pi_set_enabled enabled expected_version actor_id now p =
     check (guards
       [guard (expected_version \<noteq> pi_version p) ConcurrencyError,
        validate_token actor_id, require_utc now, less_guard now (pi_updated_at p) ValueError,
        guard (enabled = pi_enabled p) ValueError]) p
     (Done () (p\<lparr>pi_enabled := enabled, pi_version := pi_version p + 1, pi_updated_by := actor_id,
                 pi_updated_at := now\<rparr>))"

section \<open>Capability heads\<close>

record capability_head =
  ch_provider_id :: string
  ch_endpoint_id :: string
  ch_current_version_id :: "string option"
  ch_current_version_number :: int
  ch_latest_version_number :: int
  ch_version :: int
  ch_updated_by :: "string option"
  ch_updated_at :: datetime

definition ch_check :: "capability_head \<Rightarrow> error option" where
  "ch_check h = guards
     [validate_token (ch_provider_id h), validate_token (ch_endpoint_id h), require_utc (ch_updated_at h),
      guard (min (min (ch_current_version_number h) (ch_latest_version_number h)) (ch_version h) < 0) ValueError,
      guard (ch_latest_version_number h < ch_current_version_number h) ValueError,
      guard (if ch_current_version_id h = None then ch_current_version_number h \<noteq> 0
        else ch_current_version_number h = 0) ValueError,
      validate_token_opt (ch_updated_by h)]"

definition ch_create :: "string \<Rightarrow> string \<Rightarrow> datetime \<Rightarrow> error + capability_head" where
  "ch_create provider_id endpoint_id now =
     (let h = \<lparr>ch_provider_id = provider_id, ch_endpoint_id = endpoint_id, ch_current_version_id = None,
               ch_current_version_number = 0, ch_latest_version_number = 0, ch_version = 0, ch_updated_by = None,
               ch_updated_at = now\<rparr>
      in case ch_check h of Some e \<Rightarrow> Inl e | None \<Rightarrow> Inr h)"

definition ch_assert_expected_version :: "int \<Rightarrow> capability_head \<Rightarrow> error option" where
  "ch_assert_expected_version expected_version h = guard (expected_version \<noteq> ch_version h) ConcurrencyError"

definition ch_validate_command :: "string \<Rightarrow> datetime \<Rightarrow> capability_head \<Rightarrow> error option" where
  "ch_validate_command actor_id now h = guards
     [validate_token actor_id, require_utc now, less_guard now (ch_updated_at h) ValueError]"

definition ch_assert_same_endpoint :: "endpoint_capability \<Rightarrow> capability_head \<Rightarrow> error option" where
  "ch_assert_same_endpoint c h = guard (ec_provider_id c \<noteq> ch_provider_id h \<or> ec_endpoint_id c \<noteq> ch_endpoint_id h)
     ValueError"

definition ch_touch :: "string \<Rightarrow> datetime \<Rightarrow> capability_head \<Rightarrow> capability_head" where
  "ch_touch actor_id now h = h\<lparr>ch_version := ch_version h + 1, ch_updated_by := Some actor_id, ch_updated_at := now\<rparr>"

definition ch_publish ::
  "endpoint_capability \<Rightarrow> int \<Rightarrow> string \<Rightarrow> datetime \<Rightarrow> capability_head \<Rightarrow> (unit, capability_head) outcome" where
  "ch_publish capability expected_version actor_id now h =
     check (guards
       [ch_assert_expected_version expected_version h, ch_validate_command actor_id now h,
        ch_assert_same_endpoint capability h,
        guard (ec_version_number capability \<noteq> ch_latest_version_number h + 1) ValueError,
        less_guard now (ec_created_at capability) ValueError]) h
     (Done () (ch_touch actor_id now
       (h\<lparr>ch_current_version_id := Some (ec_id capability),
          ch_current_version_number := ec_version_number capability,
          ch_latest_version_number := ec_version_number capability\<rparr>)))"

definition ch_rollback ::
  "endpoint_capability \<Rightarrow> int \<Rightarrow> string \<Rightarrow> datetime \<Rightarrow> capability_head \<Rightarrow> (unit, capability_head) outcome" where
  "ch_rollback target expected_version actor_id now h =
     check (guards
       [ch_assert_expected_version expected_version h, ch_validate_command actor_id now h,
        ch_assert_same_endpoint target h,
        guard (ch_current_version_id h = None) ValueError,
        guard (\<not> (1 \<le> ec_version_number target \<and> ec_version_number target \<le> ch_latest_version_number h) \<or>
          Some (ec_id target) = ch_current_version_id h) ValueError]) h
     (Done () (ch_touch actor_id now
       (h\<lparr>ch_current_version_id := Some (ec_id target),
          ch_current_version_number := ec_version_number target\<rparr>)))"

section \<open>Route policy versions\<close>

record policy_version =
  pv_id :: string
  pv_workspace_id :: string
  pv_policy_key :: string
  pv_version_number :: int
  pv_policy :: route_policy
  pv_created_by :: string
  pv_created_at :: datetime

definition pv_check :: "policy_version \<Rightarrow> error option" where
  "pv_check p = guards
     [validate_workspace_id (pv_workspace_id p), validate_token (pv_policy_key p),
      guard (pv_version_number p < 1) ValueError, validate_token (pv_created_by p), require_utc (pv_created_at p)]"

definition pv_create ::
  "string \<Rightarrow> string \<Rightarrow> string \<Rightarrow> int \<Rightarrow> route_policy \<Rightarrow> string \<Rightarrow> datetime \<Rightarrow> error + policy_version" where
  "pv_create raw_id workspace_id policy_key version_number policy actor_id now =
     (case canonicalize_uuid raw_id of
        Inl e \<Rightarrow> Inl e
      | Inr canonical \<Rightarrow>
          let p = \<lparr>pv_id = canonical, pv_workspace_id = workspace_id, pv_policy_key = policy_key,
                   pv_version_number = version_number, pv_policy = policy, pv_created_by = actor_id, pv_created_at = now\<rparr>
          in case pv_check p of Some e \<Rightarrow> Inl e | None \<Rightarrow> Inr p)"

text \<open>\<open>isoformat().replace("+00:00", "Z")\<close> of a UTC instant: the fraction appears only when it is not zero.\<close>

definition iso_datetime :: "datetime \<Rightarrow> string" where
  "iso_datetime d =
     (let us = instant d mod 86400000000; t = iso_time us
      in iso_date (ord_to_ymd (day_number d)) @ ''T'' @ (if us mod 1000000 = 0 then take 8 t else t) @ ''Z'')"

text \<open>\<open>format(value.quantize(_SCORE_QUANTUM), "f")\<close>\<close>

definition canonical_score :: "rat \<Rightarrow> string" where
  "canonical_score x =
     (let k = \<lfloor>quantize6 x * 1000000\<rfloor>
      in (if k < 0 then ''-'' else []) @ str_of_int (\<bar>k\<bar> div 1000000) @ ''.'' @ format_dec 6 (\<bar>k\<bar> mod 1000000))"

definition pv_payload :: "policy_version \<Rightarrow> json" where
  "pv_payload p = JObj
     [(''schema_version'', JStr ''model-route-policy.v1''),
      (''id'', JStr (pv_id p)),
      (''workspace_id'', JStr (pv_workspace_id p)),
      (''policy_key'', JStr (pv_policy_key p)),
      (''version_number'', JInt (pv_version_number p)),
      (''policy_version'', JStr (rp_version (pv_policy p))),
      (''quality_weight'', JStr (canonical_score (rp_quality_weight (pv_policy p)))),
      (''availability_weight'', JStr (canonical_score (rp_availability_weight (pv_policy p)))),
      (''latency_weight'', JStr (canonical_score (rp_latency_weight (pv_policy p)))),
      (''quota_weight'', JStr (canonical_score (rp_quota_weight (pv_policy p)))),
      (''price_weight'', JStr (canonical_score (rp_price_weight (pv_policy p)))),
      (''maximum_observation_age_seconds'', JInt (rp_maximum_observation_age_seconds (pv_policy p))),
      (''created_by'', JStr (pv_created_by p)),
      (''created_at'', JStr (iso_datetime (pv_created_at p)))]"

definition pv_sha256 :: "(string \<Rightarrow> string) \<Rightarrow> policy_version \<Rightarrow> string" where
  "pv_sha256 sha256 p = sha256 (json_dumps True (pv_payload p))"

section \<open>Route policy heads\<close>

record policy_head =
  ph_workspace_id :: string
  ph_policy_key :: string
  ph_current_version_id :: "string option"
  ph_current_version_number :: int
  ph_latest_version_number :: int
  ph_version :: int
  ph_updated_by :: "string option"
  ph_updated_at :: datetime

text \<open>
  The constructor's checks. It also rewrites the current version's identifier in canonical form; the heads of the
  model are built by \<open>ph_create\<close>, without one, and take over the canonical identifier of a version afterwards.
\<close>

definition ph_check :: "policy_head \<Rightarrow> error option" where
  "ph_check h = guards
     [validate_workspace_id (ph_workspace_id h), validate_token (ph_policy_key h), require_utc (ph_updated_at h),
      guard (min (min (ph_current_version_number h) (ph_latest_version_number h)) (ph_version h) < 0) ValueError,
      guard (ph_latest_version_number h < ph_current_version_number h) ValueError,
      (case ph_current_version_id h of
         None \<Rightarrow> guard (ph_current_version_number h \<noteq> 0) ValueError
       | Some v \<Rightarrow> both (parses_uuid v) (guard (ph_current_version_number h = 0) ValueError)),
      validate_token_opt (ph_updated_by h)]"

definition ph_create :: "string \<Rightarrow> string \<Rightarrow> datetime \<Rightarrow> error + policy_head" where
  "ph_create workspace_id policy_key now =
     (let h = \<lparr>ph_workspace_id = workspace_id, ph_policy_key = policy_key, ph_current_version_id = None,
               ph_current_version_number = 0, ph_latest_version_number = 0, ph_version = 0, ph_updated_by = None,
               ph_updated_at = now\<rparr>
      in case ph_check h of Some e \<Rightarrow> Inl e | None \<Rightarrow> Inr h)"

definition ph_assert_expected_version :: "int \<Rightarrow> policy_head \<Rightarrow> error option" where
  "ph_assert_expected_version expected_version h = guard (expected_version \<noteq> ph_version h) ConcurrencyError"

definition ph_validate_command :: "string \<Rightarrow> datetime \<Rightarrow> policy_head \<Rightarrow> error option" where
  "ph_validate_command actor_id now h = guards
     [validate_token actor_id, require_utc now, less_guard now (ph_updated_at h) ValueError]"

definition ph_assert_same_policy :: "policy_version \<Rightarrow> policy_head \<Rightarrow> error option" where
  "ph_assert_same_policy p h = guard (pv_workspace_id p \<noteq> ph_workspace_id h \<or> pv_policy_key p \<noteq> ph_policy_key h)
     ValueError"

definition ph_touch :: "string \<Rightarrow> datetime \<Rightarrow> policy_head \<Rightarrow> policy_head" where
  "ph_touch actor_id now h = h\<lparr>ph_version := ph_version h + 1, ph_updated_by := Some actor_id, ph_updated_at := now\<rparr>"

definition ph_publish ::
  "policy_version \<Rightarrow> int \<Rightarrow> string \<Rightarrow> datetime \<Rightarrow> policy_head \<Rightarrow> (unit, policy_head) outcome" where
  "ph_publish policy expected_version actor_id now h =
     check (guards
       [ph_assert_expected_version expected_version h, ph_validate_command actor_id now h,
        ph_assert_same_policy policy h,
        guard (pv_version_number policy \<noteq> ph_latest_version_number h + 1) ValueError,
        less_guard now (pv_created_at policy) ValueError]) h
     (Done () (ph_touch actor_id now
       (h\<lparr>ph_current_version_id := Some (pv_id policy),
          ph_current_version_number := pv_version_number policy,
          ph_latest_version_number := pv_version_number policy\<rparr>)))"

definition ph_rollback ::
  "policy_version \<Rightarrow> int \<Rightarrow> string \<Rightarrow> datetime \<Rightarrow> policy_head \<Rightarrow> (unit, policy_head) outcome" where
  "ph_rollback target expected_version actor_id now h =
     check (guards
       [ph_assert_expected_version expected_version h, ph_validate_command actor_id now h,
        ph_assert_same_policy target h,
        guard (ph_current_version_id h = None) ValueError,
        guard (\<not> (1 \<le> pv_version_number target \<and> pv_version_number target \<le> ph_latest_version_number h) \<or>
          Some (pv_id target) = ph_current_version_id h) ValueError]) h
     (Done () (ph_touch actor_id now
       (h\<lparr>ph_current_version_id := Some (pv_id target),
          ph_current_version_number := pv_version_number target\<rparr>)))"

section \<open>Discovery candidates\<close>

definition forbidden_discovery_keys :: "string set" where
  "forbidden_discovery_keys =
     {''api_key'', ''apikey'', ''authorization'', ''credential'', ''password'', ''secret'', ''token''}"

text \<open>\<open>key.lower().replace("-", "_")\<close>\<close>

definition normalized_key :: "string \<Rightarrow> string" where
  "normalized_key k = map (\<lambda>c. if c = CHR ''-'' then CHR ''_'' else c) (lower k)"

definition credential_key :: "string \<Rightarrow> bool" where
  "credential_key k \<longleftrightarrow> normalized_key k \<in> forbidden_discovery_keys \<or> ends_with ''_secret'' (normalized_key k)"

definition credential_value :: "string \<Rightarrow> bool" where
  "credential_value s \<longleftrightarrow> starts_with ''sk-'' (lower s) \<or> starts_with ''bearer '' (lower s)"

fun reject_credential_like_fields :: "json \<Rightarrow> error option" where
  "reject_credential_like_fields (JObj kvs) =
     guards (map (\<lambda>(k, v). both (guard (credential_key k) ValueError) (reject_credential_like_fields v)) kvs)"
| "reject_credential_like_fields (JArr xs) = guards (map reject_credential_like_fields xs)"
| "reject_credential_like_fields (JStr s) = guard (credential_value s) ValueError"
| "reject_credential_like_fields v = None"

fun is_object :: "json \<Rightarrow> bool" where
  "is_object (JObj kvs) \<longleftrightarrow> True"
| "is_object v \<longleftrightarrow> False"

definition canonical_discovery_json :: "json \<Rightarrow> error + string" where
  "canonical_discovery_json evidence =
     (case guards [guard (\<not> is_object evidence \<or> evidence = JObj []) ValueError,
                   reject_credential_like_fields evidence] of
        Some e \<Rightarrow> Inl e
      | None \<Rightarrow>
          let canonical = json_dumps True evidence
          in if 16384 < length canonical then Inl ValueError else Inr canonical)"

datatype discovery_state = PENDING_REVIEW | APPROVED | REJECTED

record discovery_candidate =
  disc_id :: string
  disc_workspace_id :: string
  disc_provider_id :: string
  disc_endpoint_id :: string
  disc_discovered_model_id :: string
  disc_discovery_json :: string
  disc_discovery_sha256 :: string
  disc_state :: discovery_state
  disc_discovered_by :: string
  disc_discovered_at :: datetime
  disc_reviewed_by :: "string option"
  disc_reviewed_at :: "datetime option"

definition disc_evidence_check :: "(string \<Rightarrow> string) \<Rightarrow> discovery_candidate \<Rightarrow> error option" where
  "disc_evidence_check sha256 c =
     (case json_loads (disc_discovery_json c) of
        Inl e \<Rightarrow> Some ValueError
      | Inr parsed \<Rightarrow>
          if \<not> is_object parsed then Some ValueError
          else case canonical_discovery_json parsed of
            Inl e \<Rightarrow> Some e
          | Inr canonical \<Rightarrow> guards
              [guard (canonical \<noteq> disc_discovery_json c) ValueError,
               guard (sha256 canonical \<noteq> disc_discovery_sha256 c) ValueError])"

definition disc_review_check :: "discovery_candidate \<Rightarrow> error option" where
  "disc_review_check c = guards
     [guard ((disc_reviewed_by c = None) \<noteq> (disc_reviewed_at c = None)) ValueError,
      (if disc_state c = PENDING_REVIEW then guard (disc_reviewed_by c \<noteq> None) ValueError
       else guard (disc_reviewed_by c = None \<or> disc_reviewed_at c = None) ValueError),
      validate_token_opt (disc_reviewed_by c),
      (case disc_reviewed_at c of
         None \<Rightarrow> None
       | Some at_time \<Rightarrow> both (require_utc at_time) (less_guard at_time (disc_discovered_at c) ValueError))]"

definition disc_check :: "(string \<Rightarrow> string) \<Rightarrow> discovery_candidate \<Rightarrow> error option" where
  "disc_check sha256 c = guards
     [validate_workspace_id (disc_workspace_id c), validate_token (disc_provider_id c), validate_token (disc_endpoint_id c),
      validate_token (disc_discovered_model_id c), disc_evidence_check sha256 c,
      validate_token (disc_discovered_by c), require_utc (disc_discovered_at c), disc_review_check c]"

definition disc_create ::
  "(string \<Rightarrow> string) \<Rightarrow> string \<Rightarrow> string \<Rightarrow> string \<Rightarrow> string \<Rightarrow> string \<Rightarrow> json \<Rightarrow> string \<Rightarrow> datetime \<Rightarrow>
     error + discovery_candidate" where
  "disc_create sha256 raw_id workspace_id provider_id endpoint_id discovered_model_id evidence discovered_by now =
     (case canonical_discovery_json evidence of
        Inl e \<Rightarrow> Inl e
      | Inr canonical \<Rightarrow>
          (case canonicalize_uuid raw_id of
             Inl e \<Rightarrow> Inl e
           | Inr canonical_id \<Rightarrow>
               let c = \<lparr>disc_id = canonical_id, disc_workspace_id = workspace_id, disc_provider_id = provider_id,
                        disc_endpoint_id = endpoint_id, disc_discovered_model_id = discovered_model_id,
                        disc_discovery_json = canonical, disc_discovery_sha256 = sha256 canonical,
                        disc_state = PENDING_REVIEW, disc_discovered_by = discovered_by, disc_discovered_at = now,
                        disc_reviewed_by = None, disc_reviewed_at = None\<rparr>
               in case disc_check sha256 c of Some e \<Rightarrow> Inl e | None \<Rightarrow> Inr c))"

section \<open>Endpoint observations\<close>

record endpoint_observation =
  eo_id :: string
  eo_workspace_id :: string
  eo_observation :: route_observation
  eo_observation_source :: string
  eo_idempotency_key_sha256 :: string
  eo_created_by :: string
  eo_created_at :: datetime

definition eo_check :: "endpoint_observation \<Rightarrow> error option" where
  "eo_check ob = guards
     [validate_workspace_id (eo_workspace_id ob), validate_token (eo_observation_source ob),
      guard (32 < length (eo_observation_source ob)) ValueError, validate_sha256 (eo_idempotency_key_sha256 ob),
      validate_token (eo_created_by ob), require_utc (eo_created_at ob),
      less_guard (eo_created_at ob) (ro_observed_at (eo_observation ob)) ValueError]"

definition eo_create ::
  "string \<Rightarrow> string \<Rightarrow> route_observation \<Rightarrow> string \<Rightarrow> string \<Rightarrow> string \<Rightarrow> datetime \<Rightarrow> error + endpoint_observation" where
  "eo_create raw_id workspace_id observation source_name idempotency_key_sha256 actor_id now =
     (case canonicalize_uuid raw_id of
        Inl e \<Rightarrow> Inl e
      | Inr canonical \<Rightarrow>
          let ob = \<lparr>eo_id = canonical, eo_workspace_id = workspace_id, eo_observation = observation,
                   eo_observation_source = source_name, eo_idempotency_key_sha256 = idempotency_key_sha256,
                   eo_created_by = actor_id, eo_created_at = now\<rparr>
          in case eo_check ob of Some e \<Rightarrow> Inl e | None \<Rightarrow> Inr ob)"

end
