(* ===== verification/Version_Pointers.thy ===== *)
theory Version_Pointers
  imports Identity
begin

text \<open>
  A mutable head that points into a growing log of immutable versions. The abstract state is the whole
  log, in the order of publication, with the place the head points to; the program keeps only the
  current version, two counters and an optimistic version, and takes the versions themselves from a
  store. The locale \<open>version_pointer\<close> states what one head promises per command; inside it a run of
  commands is shown to simulate the log.
\<close>

section \<open>The log\<close>

record version_log =
  published :: "string list"
  pointing :: nat
  revision :: int
  as_of :: datetime

datatype 'v head_command =
    Publish (target: 'v) (expected: int) (actor: string) (moment: datetime)
  | Rollback (target: 'v) (expected: int) (actor: string) (moment: datetime)

definition log_accepts :: "'v head_command \<Rightarrow> version_log \<Rightarrow> bool" where
  "log_accepts c L \<longleftrightarrow> expected c = revision L \<and> is_token (actor c) \<and> is_utc (moment c) \<and> dt_le (as_of L) (moment c)"

definition log_touch :: "'v head_command \<Rightarrow> version_log \<Rightarrow> version_log" where
  "log_touch c L = L\<lparr>revision := revision L + 1, as_of := moment c\<rparr>"

text \<open>A publication appends the next version and points to it; a rollback points to another published one.\<close>

definition log_step ::
  "('v \<Rightarrow> bool) \<Rightarrow> ('v \<Rightarrow> string) \<Rightarrow> ('v \<Rightarrow> int) \<Rightarrow> ('v \<Rightarrow> datetime) \<Rightarrow> 'v head_command \<Rightarrow> version_log \<Rightarrow>
     version_log option" where
  "log_step owned ident number created c L =
     (if \<not> (log_accepts c L \<and> owned (target c)) then None
      else case c of
        Publish v e a t \<Rightarrow>
          (if number v = int (length (published L)) + 1 \<and> dt_le (created v) t
           then Some (log_touch c (L\<lparr>published := published L @ [ident v], pointing := length (published L) + 1\<rparr>))
           else None)
      | Rollback v e a t \<Rightarrow>
          (if pointing L \<noteq> 0 \<and> 1 \<le> number v \<and> number v \<le> int (length (published L)) \<and> number v \<noteq> int (pointing L)
           then Some (log_touch c (L\<lparr>pointing := nat (number v)\<rparr>))
           else None))"

definition log_run ::
  "('v \<Rightarrow> bool) \<Rightarrow> ('v \<Rightarrow> string) \<Rightarrow> ('v \<Rightarrow> int) \<Rightarrow> ('v \<Rightarrow> datetime) \<Rightarrow> 'v head_command list \<Rightarrow> version_log \<Rightarrow>
     version_log" where
  "log_run owned ident number created cs L =
     foldl (\<lambda>L c. case log_step owned ident number created c L of None \<Rightarrow> L | Some L' \<Rightarrow> L') L cs"

text \<open>The versions a store holds: within one head, the number and the identifier determine each other.\<close>

definition one_number_per_id :: "('v \<Rightarrow> bool) \<Rightarrow> ('v \<Rightarrow> string) \<Rightarrow> ('v \<Rightarrow> int) \<Rightarrow> 'v set \<Rightarrow> bool" where
  "one_number_per_id owned ident number V \<longleftrightarrow>
     (\<forall>v \<in> V. \<forall>w \<in> V. owned v \<longrightarrow> owned w \<longrightarrow> (ident v = ident w \<longleftrightarrow> number v = number w))"

definition log_from_store :: "('v \<Rightarrow> bool) \<Rightarrow> ('v \<Rightarrow> string) \<Rightarrow> ('v \<Rightarrow> int) \<Rightarrow> 'v set \<Rightarrow> version_log \<Rightarrow> bool" where
  "log_from_store owned ident number V L \<longleftrightarrow>
     (\<forall>i < length (published L). \<exists>v \<in> V. owned v \<and> number v = int i + 1 \<and> ident v = published L ! i)"

section \<open>Heads\<close>

text \<open>What a head shows of itself, and how it represents a log.\<close>

record head_view =
  hv_current :: "string option"
  hv_number :: int
  hv_latest :: int
  hv_version :: int
  hv_updated :: datetime

definition points_into :: "head_view \<Rightarrow> version_log \<Rightarrow> bool" where
  "points_into h L \<longleftrightarrow> hv_latest h = int (length (published L)) \<and> pointing L \<le> length (published L) \<and>
     hv_number h = int (pointing L) \<and>
     hv_current h = (if pointing L = 0 then None else Some (published L ! (pointing L - 1))) \<and>
     hv_version h = revision L \<and> hv_updated h = as_of L"

fun head_step ::
  "('v \<Rightarrow> int \<Rightarrow> string \<Rightarrow> datetime \<Rightarrow> 'h \<Rightarrow> (unit, 'h) outcome) \<Rightarrow>
   ('v \<Rightarrow> int \<Rightarrow> string \<Rightarrow> datetime \<Rightarrow> 'h \<Rightarrow> (unit, 'h) outcome) \<Rightarrow> 'v head_command \<Rightarrow> 'h \<Rightarrow> (unit, 'h) outcome" where
  "head_step publish rollback (Publish v e a t) h = publish v e a t h"
| "head_step publish rollback (Rollback v e a t) h = rollback v e a t h"

text \<open>A refused command leaves the head to the next one.\<close>

definition head_run ::
  "('v \<Rightarrow> int \<Rightarrow> string \<Rightarrow> datetime \<Rightarrow> 'h \<Rightarrow> (unit, 'h) outcome) \<Rightarrow>
   ('v \<Rightarrow> int \<Rightarrow> string \<Rightarrow> datetime \<Rightarrow> 'h \<Rightarrow> (unit, 'h) outcome) \<Rightarrow> 'v head_command list \<Rightarrow> 'h \<Rightarrow> 'h" where
  "head_run publish rollback cs h = foldl (\<lambda>h c. object_after (head_step publish rollback c h)) h cs"

definition head_accepts :: "('h \<Rightarrow> head_view) \<Rightarrow> int \<Rightarrow> string \<Rightarrow> datetime \<Rightarrow> 'h \<Rightarrow> bool" where
  "head_accepts view e a t h \<longleftrightarrow> e = hv_version (view h) \<and> is_token a \<and> is_utc t \<and> dt_le (hv_updated (view h)) t"

locale version_pointer =
  fixes publish rollback :: "'v \<Rightarrow> int \<Rightarrow> string \<Rightarrow> datetime \<Rightarrow> 'h \<Rightarrow> (unit, 'h) outcome"
    and owns :: "'h \<Rightarrow> 'v \<Rightarrow> bool"
    and ident :: "'v \<Rightarrow> string" and number :: "'v \<Rightarrow> int" and created :: "'v \<Rightarrow> datetime"
    and view :: "'h \<Rightarrow> head_view"
  assumes publish_exact: "is_utc (hv_updated (view h)) \<Longrightarrow> is_utc (created v) \<Longrightarrow>
      if head_accepts view e a t h \<and> owns h v \<and> number v = hv_latest (view h) + 1 \<and> dt_le (created v) t
      then \<exists>h'. publish v e a t h = Done () h' \<and> owns h' = owns h \<and>
        view h' = \<lparr>hv_current = Some (ident v), hv_number = number v, hv_latest = number v,
          hv_version = hv_version (view h) + 1, hv_updated = t\<rparr>
      else \<exists>err. publish v e a t h = Raise err h"
    and rollback_exact: "is_utc (hv_updated (view h)) \<Longrightarrow>
      if head_accepts view e a t h \<and> owns h v \<and> hv_current (view h) \<noteq> None \<and> 1 \<le> number v \<and>
        number v \<le> hv_latest (view h) \<and> hv_current (view h) \<noteq> Some (ident v)
      then \<exists>h'. rollback v e a t h = Done () h' \<and> owns h' = owns h \<and>
        view h' = \<lparr>hv_current = Some (ident v), hv_number = number v, hv_latest = hv_latest (view h),
          hv_version = hv_version (view h) + 1, hv_updated = t\<rparr>
      else \<exists>err. rollback v e a t h = Raise err h"
begin

definition simulates :: "'v set \<Rightarrow> 'h \<Rightarrow> version_log \<Rightarrow> bool" where
  "simulates V h L \<longleftrightarrow> points_into (view h) L \<and> log_from_store (owns h) ident number V L \<and> is_utc (as_of L)"

lemma publish_simulates:
  assumes s: "simulates V h L" and v: "v \<in> V" "is_utc (created v)"
  shows "case log_step (owns h) ident number created (Publish v e a t) L of
      None \<Rightarrow> \<exists>err. publish v e a t h = Raise err h
    | Some L' \<Rightarrow> \<exists>h'. publish v e a t h = Done () h' \<and> owns h' = owns h \<and> simulates V h' L'"
proof -
  have p: "points_into (view h) L" and st: "log_from_store (owns h) ident number V L" and u: "is_utc (as_of L)"
    using s by (simp_all add: simulates_def)
  have eq: "hv_latest (view h) = int (length (published L))" "hv_version (view h) = revision L"
    "hv_updated (view h) = as_of L" using p by (simp_all add: points_into_def)
  note ex = publish_exact [of h v e a t, unfolded eq(3), OF u v(2)]
  show ?thesis
  proof (cases "head_accepts view e a t h \<and> owns h v \<and> number v = hv_latest (view h) + 1 \<and> dt_le (created v) t")
    case True
    then obtain h' where h': "publish v e a t h = Done () h'" "owns h' = owns h"
      "view h' = \<lparr>hv_current = Some (ident v), hv_number = number v, hv_latest = number v,
        hv_version = hv_version (view h) + 1, hv_updated = t\<rparr>" using ex by auto
    have "simulates V h' (log_touch (Publish v e a t) (L\<lparr>published := published L @ [ident v],
        pointing := length (published L) + 1\<rparr>))"
      using True st v(1) eq unfolding simulates_def points_into_def log_from_store_def h'
      by (auto simp: log_touch_def head_accepts_def nth_append less_Suc_eq)
    then show ?thesis using True eq h' by (simp add: log_step_def log_accepts_def head_accepts_def)
  next
    case False
    then show ?thesis using ex eq by (auto simp: log_step_def log_accepts_def head_accepts_def)
  qed
qed

lemma rollback_simulates:
  assumes s: "simulates V h L" and v: "v \<in> V" and one: "one_number_per_id (owns h) ident number V"
  shows "case log_step (owns h) ident number created (Rollback v e a t) L of
      None \<Rightarrow> \<exists>err. rollback v e a t h = Raise err h
    | Some L' \<Rightarrow> \<exists>h'. rollback v e a t h = Done () h' \<and> owns h' = owns h \<and> simulates V h' L'"
proof -
  have p: "points_into (view h) L" and st: "log_from_store (owns h) ident number V L" and u: "is_utc (as_of L)"
    using s by (simp_all add: simulates_def)
  have eq: "hv_latest (view h) = int (length (published L))" "hv_version (view h) = revision L"
    "hv_updated (view h) = as_of L" "pointing L \<le> length (published L)"
    "hv_current (view h) = (if pointing L = 0 then None else Some (published L ! (pointing L - 1)))"
    using p by (simp_all add: points_into_def)
  note ex = rollback_exact [of h e a t v, unfolded eq(3), OF u]
  have at: "published L ! i = ident v \<longleftrightarrow> number v = int i + 1" if i: "i < length (published L)" and o: "owns h v" for i
  proof -
    obtain w where "w \<in> V" "owns h w" "number w = int i + 1" "ident w = published L ! i"
      using st i unfolding log_from_store_def by blast
    then show ?thesis using one v o unfolding one_number_per_id_def by metis
  qed
  have cur: "hv_current (view h) \<noteq> None \<and> hv_current (view h) \<noteq> Some (ident v) \<longleftrightarrow>
      pointing L \<noteq> 0 \<and> number v \<noteq> int (pointing L)" if "owns h v"
    using at [of "pointing L - 1"] eq(4) that unfolding eq(5) by auto
  show ?thesis
  proof (cases "head_accepts view e a t h \<and> owns h v \<and> hv_current (view h) \<noteq> None \<and> 1 \<le> number v \<and>
      number v \<le> hv_latest (view h) \<and> hv_current (view h) \<noteq> Some (ident v)")
    case True
    then obtain h' where h': "rollback v e a t h = Done () h'" "owns h' = owns h"
      "view h' = \<lparr>hv_current = Some (ident v), hv_number = number v, hv_latest = hv_latest (view h),
        hv_version = hv_version (view h) + 1, hv_updated = t\<rparr>" using ex by auto
    have "published L ! (nat (number v) - 1) = ident v"
      using True eq(1) by (subst at) auto
    then have "simulates V h' (log_touch (Rollback v e a t) (L\<lparr>pointing := nat (number v)\<rparr>))"
      using True st eq unfolding simulates_def points_into_def log_from_store_def h'
      by (simp add: log_touch_def head_accepts_def nat_le_iff)
    then show ?thesis using True cur eq h' by (simp add: log_step_def log_accepts_def head_accepts_def)
  next
    case False
    then show ?thesis using ex eq cur by (auto simp: log_step_def log_accepts_def head_accepts_def)
  qed
qed

lemma run_simulates:
  assumes "simulates V h L" "one_number_per_id (owns h) ident number V" "\<forall>v \<in> V. is_utc (created v)"
    and "\<forall>c \<in> set cs. target c \<in> V"
  shows "simulates V (head_run publish rollback cs h) (log_run (owns h) ident number created cs L)"
  using assms(1,2,4)
proof (induction cs arbitrary: h L)
  case (Cons c cs)
  let ?h = "object_after (head_step publish rollback c h)"
  let ?L = "case log_step (owns h) ident number created c L of None \<Rightarrow> L | Some L' \<Rightarrow> L'"
  have "owns ?h = owns h \<and> simulates V ?h ?L"
  proof (cases c)
    case (Publish v e a t)
    then show ?thesis
      using publish_simulates [OF Cons.prems(1), of v e a t] Cons.prems(1,3) assms(3)
      by (auto split: option.splits)
  next
    case (Rollback v e a t)
    then show ?thesis
      using rollback_simulates [OF Cons.prems(1) _ Cons.prems(2), of v e a t] Cons.prems(1,3)
      by (auto split: option.splits)
  qed
  then show ?case using Cons.IH [of ?h ?L] Cons.prems(2,3) by (simp add: head_run_def log_run_def)
qed (simp add: head_run_def log_run_def)

end

text \<open>What a pointer into a log gives: the current version is a published one.\<close>

lemma current_is_published: "points_into h L \<Longrightarrow> hv_current h = Some i \<Longrightarrow> i \<in> set (published L)"
  by (auto simp: points_into_def split: if_splits)

end
