(* ===== verification/Control_Plane_Facts.thy ===== *)
theory Control_Plane_Facts
  imports Control_Plane Version_Pointers Json_Facts Routing_Facts
begin

text \<open>
  The heads of the control plane implement the log of their versions, and a discovery candidate stores
  exactly the evidence it was given, free of credentials at every depth.
\<close>

section \<open>Heads implement the log\<close>

definition ch_owns :: "capability_head \<Rightarrow> endpoint_capability \<Rightarrow> bool" where
  "ch_owns h c \<longleftrightarrow> ec_provider_id c = ch_provider_id h \<and> ec_endpoint_id c = ch_endpoint_id h"

definition ch_view :: "capability_head \<Rightarrow> head_view" where
  "ch_view h = \<lparr>hv_current = ch_current_version_id h, hv_number = ch_current_version_number h,
     hv_latest = ch_latest_version_number h, hv_version = ch_version h, hv_updated = ch_updated_at h\<rparr>"

definition ph_owns :: "policy_head \<Rightarrow> policy_version \<Rightarrow> bool" where
  "ph_owns h p \<longleftrightarrow> pv_workspace_id p = ph_workspace_id h \<and> pv_policy_key p = ph_policy_key h"

definition ph_view :: "policy_head \<Rightarrow> head_view" where
  "ph_view h = \<lparr>hv_current = ph_current_version_id h, hv_number = ph_current_version_number h,
     hv_latest = ph_latest_version_number h, hv_version = ph_version h, hv_updated = ph_updated_at h\<rparr>"

lemma check_refused: "g \<noteq> None \<Longrightarrow> \<exists>e. check g s k = Raise e s"
  by (cases g) auto

lemma less_guard_utc: "is_utc a \<Longrightarrow> is_utc b \<Longrightarrow> less_guard a b e = guard (dt_less a b) e"
  by (simp add: less_guard_def comparable_utc)

lemma not_dt_less [simp]: "\<not> dt_less a b \<longleftrightarrow> dt_le b a"
  by (simp add: dt_defs not_less)

lemmas ch_command_defs = ch_assert_expected_version_def ch_validate_command_def ch_assert_same_endpoint_def

lemmas ph_command_defs = ph_assert_expected_version_def ph_validate_command_def ph_assert_same_policy_def

interpretation capability: version_pointer ch_publish ch_rollback ch_owns ec_id ec_version_number ec_created_at ch_view
proof unfold_locales
  fix h :: capability_head and v :: endpoint_capability and e a t
  assume u: "is_utc (hv_updated (ch_view h))" "is_utc (ec_created_at v)"
  let ?ok = "head_accepts ch_view e a t h \<and> ch_owns h v \<and> ec_version_number v = hv_latest (ch_view h) + 1 \<and>
    dt_le (ec_created_at v) t"
  have "guards [ch_assert_expected_version e h, ch_validate_command a t h, ch_assert_same_endpoint v h,
      guard (ec_version_number v \<noteq> ch_latest_version_number h + 1) ValueError,
      less_guard t (ec_created_at v) ValueError] = None \<longleftrightarrow> ?ok"
    using u by (auto simp: guards_None ch_command_defs head_accepts_def ch_owns_def ch_view_def validate_token_def comparable_utc)
  then show "if ?ok
      then \<exists>h'. ch_publish v e a t h = Done () h' \<and> ch_owns h' = ch_owns h \<and>
        ch_view h' = \<lparr>hv_current = Some (ec_id v), hv_number = ec_version_number v, hv_latest = ec_version_number v,
          hv_version = hv_version (ch_view h) + 1, hv_updated = t\<rparr>
      else \<exists>err. ch_publish v e a t h = Raise err h"
    unfolding ch_publish_def
    by (auto simp: ch_touch_def ch_view_def ch_owns_def fun_eq_iff simp del: guards.simps intro!: check_refused)
next
  fix h :: capability_head and v :: endpoint_capability and e a t
  assume u: "is_utc (hv_updated (ch_view h))"
  let ?ok = "head_accepts ch_view e a t h \<and> ch_owns h v \<and> hv_current (ch_view h) \<noteq> None \<and> 1 \<le> ec_version_number v \<and>
    ec_version_number v \<le> hv_latest (ch_view h) \<and> hv_current (ch_view h) \<noteq> Some (ec_id v)"
  have "guards [ch_assert_expected_version e h, ch_validate_command a t h, ch_assert_same_endpoint v h,
      guard (ch_current_version_id h = None) ValueError,
      guard (\<not> (1 \<le> ec_version_number v \<and> ec_version_number v \<le> ch_latest_version_number h) \<or>
        Some (ec_id v) = ch_current_version_id h) ValueError] = None \<longleftrightarrow> ?ok"
    using u by (auto simp: guards_None ch_command_defs head_accepts_def ch_owns_def ch_view_def validate_token_def comparable_utc)
  then show "if ?ok
      then \<exists>h'. ch_rollback v e a t h = Done () h' \<and> ch_owns h' = ch_owns h \<and>
        ch_view h' = \<lparr>hv_current = Some (ec_id v), hv_number = ec_version_number v, hv_latest = hv_latest (ch_view h),
          hv_version = hv_version (ch_view h) + 1, hv_updated = t\<rparr>
      else \<exists>err. ch_rollback v e a t h = Raise err h"
    unfolding ch_rollback_def
    by (auto simp: ch_touch_def ch_view_def ch_owns_def fun_eq_iff simp del: guards.simps intro!: check_refused)
qed

interpretation policy: version_pointer ph_publish ph_rollback ph_owns pv_id pv_version_number pv_created_at ph_view
proof unfold_locales
  fix h :: policy_head and v :: policy_version and e a t
  assume u: "is_utc (hv_updated (ph_view h))" "is_utc (pv_created_at v)"
  let ?ok = "head_accepts ph_view e a t h \<and> ph_owns h v \<and> pv_version_number v = hv_latest (ph_view h) + 1 \<and>
    dt_le (pv_created_at v) t"
  have "guards [ph_assert_expected_version e h, ph_validate_command a t h, ph_assert_same_policy v h,
      guard (pv_version_number v \<noteq> ph_latest_version_number h + 1) ValueError,
      less_guard t (pv_created_at v) ValueError] = None \<longleftrightarrow> ?ok"
    using u by (auto simp: guards_None ph_command_defs head_accepts_def ph_owns_def ph_view_def validate_token_def comparable_utc)
  then show "if ?ok
      then \<exists>h'. ph_publish v e a t h = Done () h' \<and> ph_owns h' = ph_owns h \<and>
        ph_view h' = \<lparr>hv_current = Some (pv_id v), hv_number = pv_version_number v, hv_latest = pv_version_number v,
          hv_version = hv_version (ph_view h) + 1, hv_updated = t\<rparr>
      else \<exists>err. ph_publish v e a t h = Raise err h"
    unfolding ph_publish_def
    by (auto simp: ph_touch_def ph_view_def ph_owns_def fun_eq_iff simp del: guards.simps intro!: check_refused)
next
  fix h :: policy_head and v :: policy_version and e a t
  assume u: "is_utc (hv_updated (ph_view h))"
  let ?ok = "head_accepts ph_view e a t h \<and> ph_owns h v \<and> hv_current (ph_view h) \<noteq> None \<and> 1 \<le> pv_version_number v \<and>
    pv_version_number v \<le> hv_latest (ph_view h) \<and> hv_current (ph_view h) \<noteq> Some (pv_id v)"
  have "guards [ph_assert_expected_version e h, ph_validate_command a t h, ph_assert_same_policy v h,
      guard (ph_current_version_id h = None) ValueError,
      guard (\<not> (1 \<le> pv_version_number v \<and> pv_version_number v \<le> ph_latest_version_number h) \<or>
        Some (pv_id v) = ph_current_version_id h) ValueError] = None \<longleftrightarrow> ?ok"
    using u by (auto simp: guards_None ph_command_defs head_accepts_def ph_owns_def ph_view_def validate_token_def comparable_utc)
  then show "if ?ok
      then \<exists>h'. ph_rollback v e a t h = Done () h' \<and> ph_owns h' = ph_owns h \<and>
        ph_view h' = \<lparr>hv_current = Some (pv_id v), hv_number = pv_version_number v, hv_latest = hv_latest (ph_view h),
          hv_version = hv_version (ph_view h) + 1, hv_updated = t\<rparr>
      else \<exists>err. ph_rollback v e a t h = Raise err h"
    unfolding ph_rollback_def
    by (auto simp: ph_touch_def ph_view_def ph_owns_def fun_eq_iff simp del: guards.simps intro!: check_refused)
qed


text \<open>A fresh head is the empty log.\<close>

definition empty_log :: "datetime \<Rightarrow> version_log" where
  "empty_log now = \<lparr>published = [], pointing = 0, revision = 0, as_of = now\<rparr>"

lemma capability_head_starts: "ch_create p e now = Inr h \<Longrightarrow> capability.simulates V h (empty_log now)"
  by (auto simp: ch_create_def Let_def ch_check_def guards_None capability.simulates_def points_into_def ch_view_def
      log_from_store_def empty_log_def split: option.splits)

lemma policy_head_starts: "ph_create w k now = Inr h \<Longrightarrow> policy.simulates V h (empty_log now)"
  by (auto simp: ph_create_def Let_def ph_check_def guards_None policy.simulates_def points_into_def ph_view_def
      log_from_store_def empty_log_def split: option.splits)

lemma ch_create_owns: "ch_create p e now = Inr h \<Longrightarrow> ch_owns h = (\<lambda>c. ec_provider_id c = p \<and> ec_endpoint_id c = e)"
  by (auto simp: ch_create_def Let_def ch_owns_def split: option.splits)

lemma ph_create_owns: "ph_create w k now = Inr h \<Longrightarrow> ph_owns h = (\<lambda>p. pv_workspace_id p = w \<and> pv_policy_key p = k)"
  by (auto simp: ph_create_def Let_def ph_owns_def split: option.splits)

text \<open>C24: The head of an endpoint implements the log of its capability versions: after any sequence of
  publish and rollback commands, refused ones included, on versions taken from a store, the head shows
  exactly the state of the log, which performs a command when it is fenced by the current revision, not
  older than the last one, and publishes the next number or returns to another published number.\<close>

theorem capability_head_implements_log:
  assumes "ch_create p e now = Inr h" "\<forall>c \<in> V. ec_check c = None"
    and "one_number_per_id (\<lambda>c. ec_provider_id c = p \<and> ec_endpoint_id c = e) ec_id ec_version_number V"
    and "\<forall>c \<in> set cs. target c \<in> V"
  shows "points_into (ch_view (head_run ch_publish ch_rollback cs h))
    (log_run (\<lambda>c. ec_provider_id c = p \<and> ec_endpoint_id c = e) ec_id ec_version_number ec_created_at cs (empty_log now))"
proof -
  have "\<forall>c \<in> V. is_utc (ec_created_at c)"
    using assms(2) by (simp add: ec_check_def ec_check_policy_def guards_None)
  then show ?thesis
    using capability.run_simulates [OF capability_head_starts [OF assms(1)], of V cs] assms(3,4)
    by (simp add: ch_create_owns [OF assms(1)] capability.simulates_def)
qed

text \<open>The head of a route policy implements the log of its policy versions in the same way.\<close>

theorem policy_head_implements_log:
  assumes "ph_create w k now = Inr h" "\<forall>p \<in> V. pv_check p = None"
    and "one_number_per_id (\<lambda>p. pv_workspace_id p = w \<and> pv_policy_key p = k) pv_id pv_version_number V"
    and "\<forall>c \<in> set cs. target c \<in> V"
  shows "points_into (ph_view (head_run ph_publish ph_rollback cs h))
    (log_run (\<lambda>p. pv_workspace_id p = w \<and> pv_policy_key p = k) pv_id pv_version_number pv_created_at cs (empty_log now))"
proof -
  have "\<forall>p \<in> V. is_utc (pv_created_at p)"
    using assms(2) by (simp add: pv_check_def guards_None)
  then show ?thesis
    using policy.run_simulates [OF policy_head_starts [OF assms(1)], of V cs] assms(3,4)
    by (simp add: ph_create_owns [OF assms(1)] policy.simulates_def)
qed

section \<open>Discovery evidence\<close>

text \<open>The values inside a value, and what it means that no credential is among them.\<close>

inductive inside :: "json \<Rightarrow> json \<Rightarrow> bool" where
  itself: "inside v v"
| item: "v \<in> set xs \<Longrightarrow> inside w v \<Longrightarrow> inside w (JArr xs)"
| member: "(k, v) \<in> set kvs \<Longrightarrow> inside w v \<Longrightarrow> inside w (JObj kvs)"

inductive_simps inside_simps: "inside w JNull" "inside w (JBool b)" "inside w (JInt n)" "inside w (JStr s)"
  "inside w (JArr xs)" "inside w (JObj kvs)"

definition credential_free :: "json \<Rightarrow> bool" where
  "credential_free v \<longleftrightarrow> (\<forall>s. inside (JStr s) v \<longrightarrow> \<not> credential_value s) \<and>
     (\<forall>kvs. inside (JObj kvs) v \<longrightarrow> (\<forall>k \<in> fst ` set kvs. \<not> credential_key k))"

lemma credential_free_items: "credential_free (JArr xs) \<longleftrightarrow> (\<forall>v \<in> set xs. credential_free v)"
proof -
  have i: "inside w (JArr xs) \<longleftrightarrow> w = JArr xs \<or> (\<exists>v \<in> set xs. inside w v)" for w
    by (auto simp: inside_simps)
  show ?thesis unfolding credential_free_def i by blast
qed

lemma credential_free_members:
  "credential_free (JObj kvs) \<longleftrightarrow> (\<forall>(k, v) \<in> set kvs. \<not> credential_key k \<and> credential_free v)"
proof -
  have i: "inside w (JObj kvs) \<longleftrightarrow> w = JObj kvs \<or> (\<exists>(k, v) \<in> set kvs. inside w v)" for w
    by (auto simp: inside_simps)
  show ?thesis unfolding credential_free_def i by fastforce
qed

lemma credential_free_simps [simp]:
  "credential_free JNull" "credential_free (JBool b)" "credential_free (JInt n)"
  "credential_free (JStr s) \<longleftrightarrow> \<not> credential_value s"
  by (simp_all add: credential_free_def inside_simps)

lemma reject_None: "reject_credential_like_fields v = None \<longleftrightarrow> credential_free v"
  by (induction v rule: reject_credential_like_fields.induct) (auto simp: guards_None credential_free_items credential_free_members)

lemma credential_free_norm: "credential_free (json_norm v) \<longleftrightarrow> credential_free v"
  by (induction v rule: json_norm.induct) (auto simp: credential_free_items credential_free_members)

lemma norm_object [simp]: "is_object (json_norm v) \<longleftrightarrow> is_object v" "json_norm v = JObj [] \<longleftrightarrow> v = JObj []"
proof -
  show "is_object (json_norm v) \<longleftrightarrow> is_object v" by (cases v) simp_all
  have "sort_key fst xs = [] \<longleftrightarrow> xs = []" for xs :: "(string \<times> json) list"
    by (metis length_0_conv length_sort)
  then show "json_norm v = JObj [] \<longleftrightarrow> v = JObj []" by (cases v) simp_all
qed

definition discovery_admissible ::
  "string \<Rightarrow> string \<Rightarrow> string \<Rightarrow> string \<Rightarrow> string \<Rightarrow> json \<Rightarrow> string \<Rightarrow> datetime \<Rightarrow> bool" where
  "discovery_admissible raw_id workspace_id provider_id endpoint_id model_id evidence actor_id now \<longleftrightarrow>
     is_uuid_text raw_id \<and> is_token workspace_id \<and> is_token provider_id \<and> is_token endpoint_id \<and> is_token model_id \<and>
     is_token actor_id \<and> is_utc now \<and> is_object evidence \<and> evidence \<noteq> JObj [] \<and> credential_free evidence \<and>
     length (json_dumps True evidence) \<le> 16384"

lemma canonical_discovery_Inr:
  "canonical_discovery_json v = Inr t \<longleftrightarrow>
     is_object v \<and> v \<noteq> JObj [] \<and> credential_free v \<and> length (json_dumps True v) \<le> 16384 \<and> t = json_dumps True v"
  by (auto simp: canonical_discovery_json_def Let_def both_Some simp flip: reject_None split: option.splits)

lemma canonical_discovery_norm: "canonical_discovery_json (json_norm v) = Inr t \<longleftrightarrow> canonical_discovery_json v = Inr t"
  by (simp add: canonical_discovery_Inr credential_free_norm json_dumps_norm)

lemma reject_error: "reject_credential_like_fields v = Some e \<Longrightarrow> e = ValueError"
proof (induction v arbitrary: e rule: reject_credential_like_fields.induct)
  case (1 kvs)
  have b: "Some f = both a b \<longleftrightarrow> a = Some f \<or> a = None \<and> b = Some f" for a b and f :: error
    by (metis both_Some)
  from 1 show ?case by (auto simp: b dest!: guards_Some)
next
  case (2 xs)
  then show ?case by (auto dest!: guards_Some)
qed (simp_all split: if_splits)

lemma canonical_discovery_Inl: "canonical_discovery_json v = Inl e \<Longrightarrow> e = ValueError"
  by (auto simp: canonical_discovery_json_def Let_def both_Some dest: reject_error split: option.splits if_splits)

text \<open>C25: Discovery evidence is stored faithfully and without credentials: a candidate is created exactly
  when the metadata is valid and the evidence is a non-empty object of at most 16384 characters with no
  credential-like key or text at any depth; the stored text decodes to the evidence that was given, under
  a digest of exactly that text, and waits for review. In every other case the call raises ValueError.\<close>

theorem discovery_evidence_exact:
  assumes "json_ok evidence"
  shows "if discovery_admissible raw_id workspace_id provider_id endpoint_id model_id evidence actor_id now
    then \<exists>c. disc_create sha256 raw_id workspace_id provider_id endpoint_id model_id evidence actor_id now = Inr c \<and>
      json_loads (disc_discovery_json c) = Inr (json_norm evidence) \<and>
      disc_discovery_sha256 c = sha256 (disc_discovery_json c) \<and> disc_state c = PENDING_REVIEW
    else disc_create sha256 raw_id workspace_id provider_id endpoint_id model_id evidence actor_id now = Inl ValueError"
proof (cases "canonical_discovery_json evidence")
  case (Inl e)
  moreover have "\<not> discovery_admissible raw_id workspace_id provider_id endpoint_id model_id evidence actor_id now"
    using Inl canonical_discovery_Inr [of evidence "json_dumps True evidence"] by (auto simp: discovery_admissible_def)
  ultimately show ?thesis using canonical_discovery_Inl by (simp add: disc_create_def)
next
  case (Inr t)
  define c where "c = \<lparr>disc_id = lower raw_id, disc_workspace_id = workspace_id, disc_provider_id = provider_id,
    disc_endpoint_id = endpoint_id, disc_discovered_model_id = model_id, disc_discovery_json = t,
    disc_discovery_sha256 = sha256 t, disc_state = PENDING_REVIEW, disc_discovered_by = actor_id, disc_discovered_at = now,
    disc_reviewed_by = None, disc_reviewed_at = None\<rparr>"
  have t: "t = json_dumps True evidence" using Inr by (simp add: canonical_discovery_Inr)
  then have loads: "json_loads t = Inr (json_norm evidence)" using json_loads_dumps [OF assms] by simp
  have ev: "is_object evidence" using Inr by (simp add: canonical_discovery_Inr)
  have "disc_evidence_check sha256 c = None"
    using loads ev Inr canonical_discovery_norm [of evidence t] by (simp add: disc_evidence_check_def c_def)
  then have chk: "disc_check sha256 c = None \<longleftrightarrow> is_token workspace_id \<and> is_token provider_id \<and> is_token endpoint_id \<and>
      is_token model_id \<and> is_token actor_id \<and> is_utc now"
    by (auto simp: disc_check_def guards_None disc_review_check_def c_def validator_defs)
  have err: "disc_check sha256 c = Some e \<Longrightarrow> e = ValueError" for e
    using \<open>disc_evidence_check sha256 c = None\<close>
    by (auto simp: disc_check_def disc_review_check_def both_Some c_def validator_defs)
  have "disc_create sha256 raw_id workspace_id provider_id endpoint_id model_id evidence actor_id now =
      (if is_uuid_text raw_id then case disc_check sha256 c of Some e \<Rightarrow> Inl e | None \<Rightarrow> Inr c else Inl ValueError)"
    by (simp add: disc_create_def Inr canonicalize_uuid_eq Let_def flip: c_def)
  moreover have "discovery_admissible raw_id workspace_id provider_id endpoint_id model_id evidence actor_id now \<longleftrightarrow>
      is_uuid_text raw_id \<and> disc_check sha256 c = None"
    using Inr unfolding chk discovery_admissible_def canonical_discovery_Inr by auto
  ultimately show ?thesis using err loads by (auto simp: c_def split: option.splits)
qed

section \<open>Concrete commands and evidence\<close>

definition sample_version :: "nat \<Rightarrow> endpoint_capability" where
  "sample_version i = (sample_endpoint i True)\<lparr>ec_version_number := int i\<rparr>"

definition sample_head :: capability_head where
  "sample_head = \<lparr>ch_provider_id = ''p'', ch_endpoint_id = ''e'', ch_current_version_id = None,
     ch_current_version_number = 0, ch_latest_version_number = 0, ch_version = 0, ch_updated_by = None,
     ch_updated_at = utc 0\<rparr>"

definition sample_policy_version :: policy_version where
  "sample_policy_version = \<lparr>pv_id = uuid_str 1, pv_workspace_id = ''w'', pv_policy_key = ''k'', pv_version_number = 1,
     pv_policy = sample_policy, pv_created_by = ''u'', pv_created_at = utc 0\<rparr>"

definition sample_policy_head :: policy_head where
  "sample_policy_head = \<lparr>ph_workspace_id = ''w'', ph_policy_key = ''k'', ph_current_version_id = None,
     ph_current_version_number = 0, ph_latest_version_number = 0, ph_version = 0, ph_updated_by = None,
     ph_updated_at = utc 0\<rparr>"

lemma sample_versions:
  "ec_check (sample_version 1) = None" "ec_check (sample_version 2) = None"
  "one_number_per_id (\<lambda>c. ec_provider_id c = ''p'' \<and> ec_endpoint_id c = ''e'') ec_id ec_version_number
     {sample_version 1, sample_version 2}"
proof -
  have v: "ec_check (sample_version i) = ec_check (sample_endpoint i True)" if "1 \<le> i" "i \<le> 2" for i
    using that by (simp add: ec_check_def ec_check_identity_def ec_check_limits_def ec_check_policy_def
        sample_version_def sample_endpoint_def validate_range_def)
  show "ec_check (sample_version 1) = None" "ec_check (sample_version 2) = None"
    unfolding v [OF order_refl one_le_numeral] v [OF one_le_numeral order_refl] by (rule sample_endpoint_valid)+
  show "one_number_per_id (\<lambda>c. ec_provider_id c = ''p'' \<and> ec_endpoint_id c = ''e'') ec_id ec_version_number
     {sample_version 1, sample_version 2}"
    using uuid_str_less [of 1 2] by (auto simp: one_number_per_id_def sample_version_def sample_endpoint_def)
qed

theorem capability_head_implements_log_witness:
  "points_into (ch_view (head_run ch_publish ch_rollback
     [Publish (sample_version 1) 0 ''u'' (utc 1), Publish (sample_version 2) 1 ''u'' (utc 2),
      Publish (sample_version 2) 1 ''u'' (utc 2), Rollback (sample_version 1) 2 ''u'' (utc 3)] sample_head))
   \<lparr>published = [uuid_str 1, uuid_str 2], pointing = 1, revision = 3, as_of = utc 3\<rparr>"
proof -
  have h: "ch_create ''p'' ''e'' (utc 0) = Inr sample_head"
    by (simp add: ch_create_def ch_check_def sample_head_def string_checks)
  have valid: "\<forall>c \<in> {sample_version 1, sample_version 2}. ec_check c = None"
    using sample_versions(1,2) by blast
  show ?thesis
    using capability_head_implements_log [OF h valid sample_versions(3),
        of "[Publish (sample_version 1) 0 ''u'' (utc 1), Publish (sample_version 2) 1 ''u'' (utc 2),
          Publish (sample_version 2) 1 ''u'' (utc 2), Rollback (sample_version 1) 2 ''u'' (utc 3)]"]
    by (simp add: log_run_def log_step_def log_accepts_def log_touch_def empty_log_def
        sample_version_def sample_endpoint_def dt_defs string_checks)
qed

theorem policy_head_implements_log_witness:
  "points_into (ph_view (head_run ph_publish ph_rollback
     [Publish sample_policy_version 0 ''u'' (utc 1), Rollback sample_policy_version 1 ''u'' (utc 2)] sample_policy_head))
   \<lparr>published = [uuid_str 1], pointing = 1, revision = 1, as_of = utc 1\<rparr>"
proof -
  have h: "ph_create ''w'' ''k'' (utc 0) = Inr sample_policy_head"
    by (simp add: ph_create_def ph_check_def sample_policy_head_def string_checks)
  have valid: "\<forall>p \<in> {sample_policy_version}. pv_check p = None"
    by (simp add: pv_check_def sample_policy_version_def guards_None string_checks)
  have one: "one_number_per_id (\<lambda>p. pv_workspace_id p = ''w'' \<and> pv_policy_key p = ''k'') pv_id pv_version_number
      {sample_policy_version}" by (simp add: one_number_per_id_def)
  show ?thesis
    using policy_head_implements_log [OF h valid one,
        of "[Publish sample_policy_version 0 ''u'' (utc 1), Rollback sample_policy_version 1 ''u'' (utc 2)]"]
    by (simp add: log_run_def log_step_def log_accepts_def log_touch_def empty_log_def sample_policy_version_def
        dt_defs string_checks)
qed

theorem discovery_evidence_exact_witness:
  "disc_create (\<lambda>s. replicate 64 CHR ''a'') (uuid_str 1) ''w'' ''p'' ''e'' ''m'' (JObj [(''limits'', JArr [JObj [(''api-key'', JStr ''x'')]])]) ''u''
     (utc 0) = Inl ValueError"
proof -
  have "\<not> credential_free (JObj [(''limits'', JArr [JObj [(''api-key'', JStr ''x'')]])])"
    by (simp add: credential_free_items credential_free_members credential_key_def normalized_key_def
        forbidden_discovery_keys_def string_checks)
  then show ?thesis
    using discovery_evidence_exact [of "JObj [(''limits'', JArr [JObj [(''api-key'', JStr ''x'')]])]" "uuid_str 1" "''w''" "''p''"
        "''e''" "''m''" "''u''" "utc 0"
        "\<lambda>s. replicate 64 CHR ''a''"]
    by (simp add: discovery_admissible_def)
qed

end
