(* ===== verification/Brand_Profiles.thy ===== *)
theory Brand_Profiles
  imports Identity Json_Text
begin

text \<open>
  Brand profiles (\<open>brand_profiles/entities.py\<close>): the draft with its rules, colours, texts and selected
  assets, the immutable published versions with their content digest, and the profile aggregate. SHA-256
  is an argument; a published version takes the identifier the call draws as an argument.
\<close>

section \<open>Enumerations\<close>

datatype brand_profile_state = BP_DRAFT | BP_ACTIVE | BP_NEEDS_REPUBLISH | BP_ARCHIVED

datatype brand_rule_scope = SCOPE_VISUAL | SCOPE_COPY | SCOPE_COMPOSITION | SCOPE_LEGAL | SCOPE_GENERAL

fun rule_scope_value :: "brand_rule_scope \<Rightarrow> string" where
  "rule_scope_value SCOPE_VISUAL = ''VISUAL''"
| "rule_scope_value SCOPE_COPY = ''COPY''"
| "rule_scope_value SCOPE_COMPOSITION = ''COMPOSITION''"
| "rule_scope_value SCOPE_LEGAL = ''LEGAL''"
| "rule_scope_value SCOPE_GENERAL = ''GENERAL''"

datatype brand_member_role =
    ROLE_LOGO | ROLE_REQUIRED_MARK | ROLE_VISUAL_REFERENCE | ROLE_PROMPT_TEMPLATE | ROLE_MODEL_CONFIGURATION | ROLE_LORA

fun member_role_value :: "brand_member_role \<Rightarrow> string" where
  "member_role_value ROLE_LOGO = ''LOGO''"
| "member_role_value ROLE_REQUIRED_MARK = ''REQUIRED_MARK''"
| "member_role_value ROLE_VISUAL_REFERENCE = ''VISUAL_REFERENCE''"
| "member_role_value ROLE_PROMPT_TEMPLATE = ''PROMPT_TEMPLATE''"
| "member_role_value ROLE_MODEL_CONFIGURATION = ''MODEL_CONFIGURATION''"
| "member_role_value ROLE_LORA = ''LORA''"

section \<open>Drafts\<close>

text \<open>\<open>^#[0-9A-F]{6}(?:[0-9A-F]{2})?$\<close>\<close>

definition is_upper_hex :: "char \<Rightarrow> bool" where
  "is_upper_hex c \<longleftrightarrow> is_digit c \<or> between 65 70 c"

definition is_brand_color :: "string \<Rightarrow> bool" where
  "is_brand_color v \<longleftrightarrow> v \<noteq> [] \<and> hd v = CHR ''#'' \<and> length v \<in> {7, 9} \<and> list_all is_upper_hex (tl v)"

definition validate_minimum :: "int \<Rightarrow> int \<Rightarrow> error option" where
  "validate_minimum minimum v = guard (v < minimum) ValueError"

definition validate_items :: "nat \<Rightarrow> 'a list \<Rightarrow> error option" where
  "validate_items maximum xs = guard (maximum < length xs) ValueError"

definition validate_text_tuple :: "string list \<Rightarrow> error option" where
  "validate_text_tuple items = guards
     ([validate_items 64 items] @ map (validate_text 512) items @ [guard (\<not> distinct items) ValueError])"

record brand_rule =
  br_code :: string
  br_scope :: brand_rule_scope
  br_instruction :: string

definition br_check :: "brand_rule \<Rightarrow> error option" where
  "br_check r = guards [validate_token (br_code r), validate_text 1024 (br_instruction r)]"

definition br_data :: "brand_rule \<Rightarrow> json" where
  "br_data r = JObj
     [(''code'', JStr (br_code r)), (''scope'', JStr (rule_scope_value (br_scope r))),
      (''instruction'', JStr (br_instruction r))]"

record brand_color =
  bc_name :: string
  bc_value :: string

definition bc_check :: "brand_color \<Rightarrow> error option" where
  "bc_check c = guards [validate_text 64 (bc_name c), guard (\<not> is_brand_color (bc_value c)) ValueError]"

definition bc_data :: "brand_color \<Rightarrow> json" where
  "bc_data c = JObj [(''name'', JStr (bc_name c)), (''value'', JStr (bc_value c))]"

record member_selection =
  ms_asset_version_id :: string
  ms_role :: brand_member_role

definition ms_check :: "member_selection \<Rightarrow> error option" where
  "ms_check m = validate_uuid (ms_asset_version_id m)"

definition ms_data :: "member_selection \<Rightarrow> json" where
  "ms_data m = JObj
     [(''asset_version_id'', JStr (ms_asset_version_id m)), (''role'', JStr (member_role_value (ms_role m)))]"

record brand_draft =
  bd_rules :: "brand_rule list"
  bd_approved_colors :: "brand_color list"
  bd_required_marks :: "string list"
  bd_prohibited_elements :: "string list"
  bd_tone_constraints :: "string list"
  bd_copy_constraints :: "string list"
  bd_purpose :: string
  bd_provider :: string
  bd_requires_derivative :: bool
  bd_selected_assets :: "member_selection list"

definition bd_check :: "brand_draft \<Rightarrow> error option" where
  "bd_check d = guards
     [validate_items 64 (bd_rules d), guard (\<not> distinct (map br_code (bd_rules d))) ValueError,
      validate_items 32 (bd_approved_colors d), guard (\<not> distinct (map bc_name (bd_approved_colors d))) ValueError,
      validate_text_tuple (bd_required_marks d), validate_text_tuple (bd_prohibited_elements d),
      validate_text_tuple (bd_tone_constraints d), validate_text_tuple (bd_copy_constraints d),
      validate_token (bd_purpose d), validate_token (bd_provider d),
      validate_items 64 (bd_selected_assets d),
      guard (\<not> distinct (map ms_asset_version_id (bd_selected_assets d))) ValueError]"

definition text_items :: "string list \<Rightarrow> json" where
  "text_items xs = JArr (map JStr xs)"

definition bd_data :: "brand_draft \<Rightarrow> json" where
  "bd_data d = JObj
     [(''schema_version'', JStr ''brand-profile.v1''),
      (''rules'', JArr (map br_data (bd_rules d))),
      (''approved_colors'', JArr (map bc_data (bd_approved_colors d))),
      (''required_marks'', text_items (bd_required_marks d)),
      (''prohibited_elements'', text_items (bd_prohibited_elements d)),
      (''tone_constraints'', text_items (bd_tone_constraints d)),
      (''copy_constraints'', text_items (bd_copy_constraints d)),
      (''purpose'', JStr (bd_purpose d)),
      (''provider'', JStr (bd_provider d)),
      (''requires_derivative'', JBool (bd_requires_derivative d)),
      (''selected_assets'', JArr (map ms_data (bd_selected_assets d)))]"

section \<open>Published versions\<close>

record published_member =
  pm_ordinal :: int
  pm_asset_id :: string
  pm_asset_version_id :: string
  pm_role :: brand_member_role
  pm_rights_record_id :: string
  pm_rights_record_version :: int

definition pm_check :: "published_member \<Rightarrow> error option" where
  "pm_check m = guards
     [guard (pm_ordinal m < 0) ValueError, validate_uuid (pm_asset_id m), validate_uuid (pm_asset_version_id m),
      validate_uuid (pm_rights_record_id m), guard (pm_rights_record_version m < 1) ValueError]"

definition pm_data :: "published_member \<Rightarrow> json" where
  "pm_data m = JObj
     [(''ordinal'', JInt (pm_ordinal m)), (''asset_id'', JStr (pm_asset_id m)),
      (''asset_version_id'', JStr (pm_asset_version_id m)), (''role'', JStr (member_role_value (pm_role m))),
      (''rights_record_id'', JStr (pm_rights_record_id m)), (''rights_record_version'', JInt (pm_rights_record_version m))]"

definition publication_payload :: "brand_draft \<Rightarrow> published_member list \<Rightarrow> json" where
  "publication_payload d members = JObj [(''draft'', bd_data d), (''members'', JArr (map pm_data members))]"

definition publication_content_sha256 :: "(string \<Rightarrow> string) \<Rightarrow> brand_draft \<Rightarrow> published_member list \<Rightarrow> string" where
  "publication_content_sha256 sha256 d members = sha256 (json_dumps False (publication_payload d members))"

definition member_matches :: "member_selection \<Rightarrow> published_member \<Rightarrow> bool" where
  "member_matches s m \<longleftrightarrow> ms_asset_version_id s = pm_asset_version_id m \<and> ms_role s = pm_role m"

definition validate_published_members :: "brand_draft \<Rightarrow> published_member list \<Rightarrow> error option" where
  "validate_published_members d members = guards
     [validate_items 64 members,
      guard (length members \<noteq> length (bd_selected_assets d)) ValueError,
      guard (map pm_ordinal members \<noteq> [0..int (length members) - 1]) ValueError,
      guard (\<not> list_all (\<lambda>(s, m). member_matches s m) (zip (bd_selected_assets d) members)) ValueError,
      guard (\<not> distinct (map pm_asset_version_id members)) ValueError]"

record brand_version =
  bv_id :: string
  bv_workspace_id :: string
  bv_profile_id :: string
  bv_version_number :: int
  bv_draft :: brand_draft
  bv_members :: "published_member list"
  bv_content_sha256 :: string
  bv_published_by :: string
  bv_published_at :: datetime

definition bv_check :: "(string \<Rightarrow> string) \<Rightarrow> brand_version \<Rightarrow> error option" where
  "bv_check sha256 v = guards
     [validate_uuid (bv_id v), validate_workspace_id (bv_workspace_id v), validate_uuid (bv_profile_id v),
      validate_minimum 1 (bv_version_number v),
      validate_published_members (bv_draft v) (bv_members v),
      validate_sha256 (bv_content_sha256 v),
      guard (bv_content_sha256 v \<noteq> publication_content_sha256 sha256 (bv_draft v) (bv_members v)) ValueError,
      validate_text 128 (bv_published_by v), require_utc (bv_published_at v)]"

section \<open>The profile\<close>

record brand_profile =
  bp_id :: string
  bp_workspace_id :: string
  bp_brand :: string
  bp_profile_key :: string
  bp_state :: brand_profile_state
  bp_draft :: brand_draft
  bp_current_version_id :: "string option"
  bp_current_version_number :: int
  bp_version :: int
  bp_stale_at :: "datetime option"
  bp_created_by :: string
  bp_created_at :: datetime
  bp_updated_by :: string
  bp_updated_at :: datetime

fun validate_uuid_opt :: "string option \<Rightarrow> error option" where
  "validate_uuid_opt None = None"
| "validate_uuid_opt (Some v) = validate_uuid v"

definition bp_check :: "brand_profile \<Rightarrow> error option" where
  "bp_check p = guards
     [validate_uuid (bp_id p), validate_workspace_id (bp_workspace_id p), validate_text 128 (bp_brand p),
      validate_token (bp_profile_key p),
      validate_uuid_opt (bp_current_version_id p),
      validate_minimum 0 (bp_current_version_number p), validate_minimum 1 (bp_version p),
      guard ((bp_current_version_id p = None) \<noteq> (bp_current_version_number p = 0)) ValueError,
      guard (bp_state p = BP_DRAFT \<and> bp_current_version_id p \<noteq> None) ValueError,
      guard (bp_state p \<in> {BP_ACTIVE, BP_NEEDS_REPUBLISH} \<and> bp_current_version_id p = None) ValueError,
      guard (bp_state p = BP_NEEDS_REPUBLISH \<and> bp_stale_at p = None) ValueError,
      guard (bp_state p \<noteq> BP_NEEDS_REPUBLISH \<and> bp_stale_at p \<noteq> None) ValueError,
      validate_text 128 (bp_created_by p), validate_text 128 (bp_updated_by p),
      require_utc (bp_created_at p), require_utc (bp_updated_at p), require_utc_opt (bp_stale_at p)]"

definition bp_create ::
  "string \<Rightarrow> string \<Rightarrow> string \<Rightarrow> string \<Rightarrow> brand_draft \<Rightarrow> string \<Rightarrow> datetime \<Rightarrow> error + brand_profile" where
  "bp_create new_id workspace_id brand profile_key draft actor_id now =
     (let p = \<lparr>bp_id = new_id, bp_workspace_id = workspace_id, bp_brand = brand, bp_profile_key = profile_key,
               bp_state = BP_DRAFT, bp_draft = draft, bp_current_version_id = None, bp_current_version_number = 0,
               bp_version = 1, bp_stale_at = None, bp_created_by = actor_id, bp_created_at = now,
               bp_updated_by = actor_id, bp_updated_at = now\<rparr>
      in case bp_check p of Some e \<Rightarrow> Inl e | None \<Rightarrow> Inr p)"

definition bp_assert_version :: "int \<Rightarrow> brand_profile \<Rightarrow> error option" where
  "bp_assert_version expected_version p = guards
     [validate_minimum 1 expected_version, guard (bp_version p \<noteq> expected_version) ConcurrencyError]"

definition bp_update_draft ::
  "int \<Rightarrow> brand_draft \<Rightarrow> string \<Rightarrow> datetime \<Rightarrow> brand_profile \<Rightarrow> (unit, brand_profile) outcome" where
  "bp_update_draft expected_version draft actor_id now p =
     check (guards
       [bp_assert_version expected_version p, guard (bp_state p = BP_ARCHIVED) InvalidTransitionError,
        validate_text 128 actor_id, require_utc now]) p
     (Done () (p\<lparr>bp_draft := draft, bp_version := bp_version p + 1, bp_updated_by := actor_id, bp_updated_at := now\<rparr>))"

definition bp_new_version ::
  "(string \<Rightarrow> string) \<Rightarrow> string \<Rightarrow> published_member list \<Rightarrow> string \<Rightarrow> datetime \<Rightarrow> brand_profile \<Rightarrow> brand_version" where
  "bp_new_version sha256 new_id members actor_id now p =
     \<lparr>bv_id = new_id, bv_workspace_id = bp_workspace_id p, bv_profile_id = bp_id p,
      bv_version_number = bp_current_version_number p + 1, bv_draft = bp_draft p, bv_members = members,
      bv_content_sha256 = publication_content_sha256 sha256 (bp_draft p) members,
      bv_published_by = actor_id, bv_published_at = now\<rparr>"

definition bp_publish ::
  "(string \<Rightarrow> string) \<Rightarrow> string \<Rightarrow> int \<Rightarrow> published_member list \<Rightarrow> string \<Rightarrow> datetime \<Rightarrow> brand_profile \<Rightarrow>
     (brand_version, brand_profile) outcome" where
  "bp_publish sha256 new_id expected_version members actor_id now p =
     (let v = bp_new_version sha256 new_id members actor_id now p in
      check (guards
        [bp_assert_version expected_version p, guard (bp_state p = BP_ARCHIVED) InvalidTransitionError,
         validate_published_members (bp_draft p) members, validate_text 128 actor_id, require_utc now,
         bv_check sha256 v]) p
      (Done v (p\<lparr>bp_current_version_id := Some (bv_id v), bp_current_version_number := bv_version_number v,
                 bp_state := BP_ACTIVE, bp_stale_at := None, bp_version := bp_version p + 1,
                 bp_updated_by := actor_id, bp_updated_at := now\<rparr>)))"

definition bp_mark_needs_republish ::
  "string \<Rightarrow> datetime \<Rightarrow> brand_profile \<Rightarrow> (bool, brand_profile) outcome" where
  "bp_mark_needs_republish expected_current_version_id stale_at p =
     check (guards [validate_uuid expected_current_version_id, require_utc stale_at]) p
     (if bp_current_version_id p \<noteq> Some expected_current_version_id \<or> bp_state p \<noteq> BP_ACTIVE then Done False p
      else Done True (p\<lparr>bp_state := BP_NEEDS_REPUBLISH, bp_stale_at := Some stale_at, bp_version := bp_version p + 1,
                        bp_updated_at := stale_at\<rparr>))"

definition bp_archive :: "int \<Rightarrow> string \<Rightarrow> datetime \<Rightarrow> brand_profile \<Rightarrow> (unit, brand_profile) outcome" where
  "bp_archive expected_version actor_id now p =
     check (bp_assert_version expected_version p) p
     (if bp_state p = BP_ARCHIVED then Done () p
      else check (guards [validate_text 128 actor_id, require_utc now]) p
        (Done () (p\<lparr>bp_state := BP_ARCHIVED, bp_stale_at := None, bp_version := bp_version p + 1,
                    bp_updated_by := actor_id, bp_updated_at := now\<rparr>)))"

end
