(* ===== verification/Brand_Profile_Facts.thy ===== *)
theory Brand_Profile_Facts
  imports Brand_Profiles Json_Facts
begin

text \<open>
  A profile keeps its constructor's checks through every call, its published versions form a gapless
  history of checked snapshots, and an archived profile never changes again.
\<close>

section \<open>Calls and runs\<close>

datatype brand_command =
    Update_Draft int brand_draft string datetime
  | Publish_Profile string int "published_member list" string datetime
  | Mark_Needs_Republish string datetime
  | Archive_Profile int string datetime

text \<open>One call: the profile it leaves and the versions it publishes.\<close>

fun published_by_call :: "(brand_version, brand_profile) outcome \<Rightarrow> brand_version list" where
  "published_by_call (Done v p) = [v]"
| "published_by_call (Raise e p) = []"

fun bp_apply ::
  "(string \<Rightarrow> string) \<Rightarrow> brand_command \<Rightarrow> brand_profile \<Rightarrow> brand_profile \<times> brand_version list" where
  "bp_apply sha256 (Update_Draft e d a t) p = (object_after (bp_update_draft e d a t p), [])"
| "bp_apply sha256 (Publish_Profile i e ms a t) p =
     (object_after (bp_publish sha256 i e ms a t p), published_by_call (bp_publish sha256 i e ms a t p))"
| "bp_apply sha256 (Mark_Needs_Republish i t) p = (object_after (bp_mark_needs_republish i t p), [])"
| "bp_apply sha256 (Archive_Profile e a t) p = (object_after (bp_archive e a t p), [])"

fun bp_run ::
  "(string \<Rightarrow> string) \<Rightarrow> brand_command list \<Rightarrow> brand_profile \<times> brand_version list \<Rightarrow>
     brand_profile \<times> brand_version list" where
  "bp_run sha256 [] s = s"
| "bp_run sha256 (c # cs) (p, vs) =
     bp_run sha256 cs (fst (bp_apply sha256 c p), vs @ snd (bp_apply sha256 c p))"

lemma check_cases:
  obtains "g = None" "check g s k = k" | e where "g = Some e" "check g s k = Raise e s"
  by (cases g) auto

section \<open>The history\<close>

definition brand_links :: "(string \<Rightarrow> string) \<Rightarrow> brand_profile \<Rightarrow> brand_version list \<Rightarrow> bool" where
  "brand_links sha256 p vs \<longleftrightarrow> map bv_version_number vs = [1..int (length vs)] \<and>
     bp_current_version_number p = int (length vs) \<and>
     bp_current_version_id p = (if vs = [] then None else Some (bv_id (last vs))) \<and>
     (\<forall>v \<in> set vs. bv_check sha256 v = None \<and> bv_profile_id v = bp_id p \<and> bv_workspace_id v = bp_workspace_id p)"

definition brand_history :: "(string \<Rightarrow> string) \<Rightarrow> brand_profile \<Rightarrow> brand_version list \<Rightarrow> bool" where
  "brand_history sha256 p vs \<longleftrightarrow> bp_check p = None \<and> brand_links sha256 p vs"

lemma brand_links_same:
  "bp_current_version_number q = bp_current_version_number p \<Longrightarrow> bp_current_version_id q = bp_current_version_id p \<Longrightarrow>
   bp_id q = bp_id p \<Longrightarrow> bp_workspace_id q = bp_workspace_id p \<Longrightarrow> brand_links sha256 q vs = brand_links sha256 p vs"
  by (simp add: brand_links_def)

lemma brand_history_same:
  "brand_history sha256 p vs \<Longrightarrow> bp_check q = None \<Longrightarrow> bp_current_version_number q = bp_current_version_number p \<Longrightarrow>
   bp_current_version_id q = bp_current_version_id p \<Longrightarrow> bp_id q = bp_id p \<Longrightarrow> bp_workspace_id q = bp_workspace_id p \<Longrightarrow>
   brand_history sha256 q vs"
  using brand_links_same [of q p sha256 vs] by (simp add: brand_history_def)

text \<open>The checks that a change of state and current version has to keep.\<close>

definition bp_consistent :: "brand_profile_state \<Rightarrow> string option \<Rightarrow> int \<Rightarrow> datetime option \<Rightarrow> bool" where
  "bp_consistent st cid n stale \<longleftrightarrow> validate_uuid_opt cid = None \<and> 0 \<le> n \<and> (cid = None \<longleftrightarrow> n = 0) \<and>
     (st = BP_DRAFT \<longrightarrow> cid = None) \<and> (st \<in> {BP_ACTIVE, BP_NEEDS_REPUBLISH} \<longrightarrow> cid \<noteq> None) \<and>
     (st = BP_NEEDS_REPUBLISH \<longleftrightarrow> stale \<noteq> None) \<and> utc_opt stale"

definition bp_frame :: "brand_profile \<Rightarrow> bool" where
  "bp_frame p \<longleftrightarrow> validate_uuid (bp_id p) = None \<and> validate_workspace_id (bp_workspace_id p) = None \<and>
     validate_text 128 (bp_brand p) = None \<and> validate_token (bp_profile_key p) = None \<and> 1 \<le> bp_version p \<and>
     validate_text 128 (bp_created_by p) = None \<and> validate_text 128 (bp_updated_by p) = None \<and>
     is_utc (bp_created_at p) \<and> is_utc (bp_updated_at p)"

lemma bp_check_None:
  "bp_check p = None \<longleftrightarrow> bp_frame p \<and>
     bp_consistent (bp_state p) (bp_current_version_id p) (bp_current_version_number p) (bp_stale_at p)"
  unfolding bp_check_def guards_None bp_frame_def bp_consistent_def validate_minimum_def
  by (cases "bp_state p") (simp_all add: not_less, blast+)

lemma update_draft_history:
  assumes h: "brand_history sha256 p vs"
  shows "brand_history sha256 (object_after (bp_update_draft e d a t p)) vs"
proof (cases "guards [bp_assert_version e p, guard (bp_state p = BP_ARCHIVED) InvalidTransitionError,
        validate_text 128 a, require_utc t]")
  case None
  then have "validate_text 128 a = None" "is_utc t" by (simp_all add: guards_None del: guards.simps)
  with h None show ?thesis
    by (intro brand_history_same [OF h])
      (simp_all add: bp_update_draft_def brand_history_def bp_check_None bp_frame_def del: guards.simps)
qed (use h in \<open>simp add: bp_update_draft_def del: guards.simps\<close>)

lemma archive_history:
  assumes h: "brand_history sha256 p vs"
  shows "brand_history sha256 (object_after (bp_archive e a t p)) vs"
proof (cases "bp_assert_version e p = None \<and> bp_state p \<noteq> BP_ARCHIVED \<and> guards [validate_text 128 a, require_utc t] = None")
  case True
  then have "validate_text 128 a = None" "is_utc t" by (simp_all add: guards_None del: guards.simps)
  with h True show ?thesis
    by (intro brand_history_same [OF h])
      (simp_all add: bp_archive_def brand_history_def bp_check_None bp_frame_def bp_consistent_def del: guards.simps)
next
  case False
  then have "object_after (bp_archive e a t p) = p"
    by (cases "bp_assert_version e p"; cases "guards [validate_text 128 a, require_utc t]")
      (simp_all add: bp_archive_def del: guards.simps)
  with h show ?thesis by simp
qed

lemma mark_history:
  assumes h: "brand_history sha256 p vs"
  shows "brand_history sha256 (object_after (bp_mark_needs_republish i t p)) vs"
proof (cases "guards [validate_uuid i, require_utc t] = None \<and> bp_current_version_id p = Some i \<and> bp_state p = BP_ACTIVE")
  case True
  then have "is_utc t" by (simp add: guards_None del: guards.simps)
  with h True show ?thesis
    by (intro brand_history_same [OF h])
      (simp_all add: bp_mark_needs_republish_def brand_history_def bp_check_None bp_frame_def bp_consistent_def
        del: guards.simps)
next
  case False
  then have "object_after (bp_mark_needs_republish i t p) = p"
    by (cases "guards [validate_uuid i, require_utc t]") (auto simp: bp_mark_needs_republish_def simp del: guards.simps)
  with h show ?thesis by simp
qed

lemma publish_history:
  assumes h: "brand_history sha256 p vs"
  shows "brand_history sha256 (object_after (bp_publish sha256 i e ms a t p))
    (vs @ published_by_call (bp_publish sha256 i e ms a t p))"
proof -
  let ?v = "bp_new_version sha256 i ms a t p"
  let ?g = "guards [bp_assert_version e p, guard (bp_state p = BP_ARCHIVED) InvalidTransitionError,
         validate_published_members (bp_draft p) ms, validate_text 128 a, require_utc t, bv_check sha256 ?v]"
  show ?thesis
  proof (cases ?g)
    case None
    then have v: "bv_check sha256 ?v = None" "validate_text 128 a = None" "is_utc t"
      by (simp_all add: guards_None del: guards.simps)
    then have "validate_uuid (bv_id ?v) = None" by (simp add: bv_check_def guards_None)
    have n: "[1..int (length vs) + 1] = [1..int (length vs)] @ [int (length vs) + 1]"
      using upto_rec2 [of 1 "int (length vs) + 1"] by simp
    define q where "q = p\<lparr>bp_current_version_id := Some (bv_id ?v), bp_current_version_number := bv_version_number ?v,
                 bp_state := BP_ACTIVE, bp_stale_at := None, bp_version := bp_version p + 1,
                 bp_updated_by := a, bp_updated_at := t\<rparr>"
    have r: "bp_publish sha256 i e ms a t p = Done ?v q"
      using None by (simp add: bp_publish_def Let_def q_def del: guards.simps)
    have "bp_check q = None"
      using h v \<open>validate_uuid (bv_id ?v) = None\<close>
      by (simp add: brand_history_def bp_check_None bp_frame_def bp_consistent_def q_def bp_new_version_def)
    moreover have "bv_version_number ?v = int (length vs) + 1" "bv_profile_id ?v = bp_id p"
      "bv_workspace_id ?v = bp_workspace_id p"
      using h by (simp_all add: bp_new_version_def brand_history_def brand_links_def)
    ultimately show ?thesis
      using h v(1) n unfolding r by (simp add: brand_history_def brand_links_def q_def add.commute)
  next
    case (Some err)
    then show ?thesis using h by (simp add: bp_publish_def Let_def del: guards.simps)
  qed
qed

lemma apply_history:
  "brand_history sha256 p vs \<Longrightarrow> brand_history sha256 (fst (bp_apply sha256 c p)) (vs @ snd (bp_apply sha256 c p))"
  by (cases c) (simp_all add: update_draft_history archive_history mark_history publish_history)

lemma run_history:
  "brand_history sha256 p vs \<Longrightarrow> brand_history sha256 (fst (bp_run sha256 cs (p, vs))) (snd (bp_run sha256 cs (p, vs)))"
proof (induction cs arbitrary: p vs)
  case (Cons c cs)
  then show ?case using apply_history [OF Cons.prems, of c] by simp
qed simp

lemma create_history: "bp_create i w b k d a t = Inr p \<Longrightarrow> brand_history sha256 p []"
  by (auto simp: bp_create_def Let_def brand_history_def brand_links_def split: option.splits)

lemma archived_unchanged: "bp_state p = BP_ARCHIVED \<Longrightarrow> bp_apply sha256 c p = (p, [])"
proof (induction c)
  case (Update_Draft e d a t)
  then show ?case by (cases "bp_assert_version e p") (simp_all add: bp_update_draft_def)
next
  case (Publish_Profile i e ms a t)
  then show ?case by (cases "bp_assert_version e p") (simp_all add: bp_publish_def Let_def)
next
  case (Mark_Needs_Republish i t)
  then show ?case by (cases "guards [validate_uuid i, require_utc t]") (simp_all add: bp_mark_needs_republish_def)
next
  case (Archive_Profile e a t)
  then show ?case by (cases "bp_assert_version e p") (simp_all add: bp_archive_def)
qed

lemma archived_run: "bp_state p = BP_ARCHIVED \<Longrightarrow> bp_run sha256 cs (p, vs) = (p, vs)"
  by (induction cs arbitrary: vs) (simp_all add: archived_unchanged)

lemma run_append: "bp_run sha256 (cs @ ds) s = bp_run sha256 ds (bp_run sha256 cs s)"
  by (induction cs arbitrary: s) auto

section \<open>Properties\<close>

text \<open>C26: Whatever calls a profile receives, it passes its constructor's checks, and its publications form
  a gapless history: the versions are numbered 1, 2, 3, \<dots> in the order of publication, each passes its own
  check (its members resolve the selected assets of its draft one to one, under its content digest), and
  the profile points to the last of them. An archived profile never changes or publishes again.\<close>

theorem brand_publication_history:
  assumes "bp_create i w b k d a t = Inr p" "bp_run sha256 cs (p, []) = (q, vs)"
  shows "bp_check q = None \<and> map bv_version_number vs = [1..int (length vs)] \<and>
    bp_current_version_number q = int (length vs) \<and>
    bp_current_version_id q = (if vs = [] then None else Some (bv_id (last vs))) \<and>
    (\<forall>v \<in> set vs. bv_check sha256 v = None \<and> bv_profile_id v = bp_id q) \<and>
    (bp_state q = BP_ARCHIVED \<longrightarrow> (\<forall>ds. bp_run sha256 (cs @ ds) (p, []) = (q, vs)))"
  using run_history [OF create_history [OF assms(1)], of sha256 cs] assms(2)
  by (auto simp: brand_history_def brand_links_def run_append archived_run)

section \<open>A concrete profile\<close>

definition sample_draft :: brand_draft where
  "sample_draft = \<lparr>bd_rules = [], bd_approved_colors = [], bd_required_marks = [], bd_prohibited_elements = [],
     bd_tone_constraints = [], bd_copy_constraints = [], bd_purpose = ''ads'', bd_provider = ''p'',
     bd_requires_derivative = False, bd_selected_assets = [\<lparr>ms_asset_version_id = uuid_str 7, ms_role = ROLE_LOGO\<rparr>]\<rparr>"

definition sample_member :: published_member where
  "sample_member = \<lparr>pm_ordinal = 0, pm_asset_id = uuid_str 6, pm_asset_version_id = uuid_str 7, pm_role = ROLE_LOGO,
     pm_rights_record_id = uuid_str 8, pm_rights_record_version = 1\<rparr>"

definition sample_profile :: brand_profile where
  "sample_profile = \<lparr>bp_id = uuid_str 1, bp_workspace_id = ''w'', bp_brand = ''b'', bp_profile_key = ''k'',
     bp_state = BP_DRAFT, bp_draft = sample_draft, bp_current_version_id = None, bp_current_version_number = 0,
     bp_version = 1, bp_stale_at = None, bp_created_by = ''u'', bp_created_at = utc 0, bp_updated_by = ''u'',
     bp_updated_at = utc 0\<rparr>"

definition sample_commands :: "brand_command list" where
  "sample_commands = [Publish_Profile (uuid_str 2) 1 [sample_member] ''u'' (utc 1), Mark_Needs_Republish (uuid_str 2) (utc 2),
     Publish_Profile (uuid_str 3) 3 [] ''u'' (utc 3), Archive_Profile 3 ''u'' (utc 4)]"

lemma sample_text: "validate_text 128 ''u'' = None" "validate_text 128 ''b'' = None"
  by (simp_all add: validate_text_def is_text_def strip_def is_space_def is_control_def class_defs code_def)

lemma sample_profile_created:
  "bp_create (uuid_str 1) ''w'' ''b'' ''k'' sample_draft ''u'' (utc 0) = Inr sample_profile"
  by (simp add: bp_create_def sample_profile_def bp_check_def validate_minimum_def validator_defs class_defs
      is_token_char_def code_def is_text_def strip_def is_space_def is_control_def)

lemma sample_run:
  "map bv_version_number (snd (bp_run (\<lambda>s. replicate 64 CHR ''a'') sample_commands (sample_profile, []))) = [1]"
  "bp_state (fst (bp_run (\<lambda>s. replicate 64 CHR ''a'') sample_commands (sample_profile, []))) = BP_ARCHIVED"
proof -
  have u: "upto 0 0 = [0 :: int]" "uuid_str 2 \<noteq> uuid_str 3" using uuid_str_less [of 2 3] by (auto simp: upto.simps)
  have h: "validate_sha256 (replicate 64 CHR ''a'') = None"
    by (simp add: validate_sha256_def is_sha256_def list_all_iff class_defs code_def)
  have w: "validate_workspace_id ''w'' = None"
    by (simp add: validate_workspace_id_def is_valid_workspace_id_def class_defs code_def)
  show "map bv_version_number (snd (bp_run (\<lambda>s. replicate 64 CHR ''a'') sample_commands (sample_profile, []))) = [1]"
    "bp_state (fst (bp_run (\<lambda>s. replicate 64 CHR ''a'') sample_commands (sample_profile, []))) = BP_ARCHIVED"
    unfolding sample_commands_def
    by (simp_all add: bp_publish_def bp_mark_needs_republish_def bp_archive_def bp_assert_version_def
        validate_minimum_def validate_published_members_def validate_items_def member_matches_def bp_new_version_def
        bv_check_def publication_content_sha256_def sample_profile_def sample_draft_def sample_member_def u h w sample_text)
qed

theorem brand_publication_history_witness:
  "\<exists>q vs. bp_run (\<lambda>s. replicate 64 CHR ''a'') sample_commands (sample_profile, []) = (q, vs) \<and> bp_check q = None \<and>
     bp_current_version_number q = 1 \<and> bp_state q = BP_ARCHIVED"
proof -
  obtain q vs where r: "bp_run (\<lambda>s. replicate 64 CHR ''a'') sample_commands (sample_profile, []) = (q, vs)" by fastforce
  have "length vs = 1" using arg_cong [OF sample_run(1), of length] by (simp add: r)
  then show ?thesis
    using brand_publication_history [OF sample_profile_created r] sample_run(2) by (simp add: r)
qed

end
