(* ===== verification/Brief_Schemas.thy ===== *)
theory Brief_Schemas
  imports Identity
begin

text \<open>
  The field catalogue of product briefs (\<open>product_briefs/enums.py\<close>, \<open>product_briefs/schemas.py\<close>): which
  fields a brief of a category has, what kind of value each holds, and the check of a value. A Python
  \<open>dict\<close> is a \<open>JObj\<close> whose keys are distinct.
\<close>

section \<open>Enumerations\<close>

datatype brief_category = CAT_BEAUTY | CAT_AUTOMOTIVE

fun brief_category_value :: "brief_category \<Rightarrow> string" where
  "brief_category_value CAT_BEAUTY = ''BEAUTY''"
| "brief_category_value CAT_AUTOMOTIVE = ''AUTOMOTIVE''"

datatype brief_state = PB_DRAFT | PB_AWAITING_CONFIRMATION | PB_CONFIRMED | PB_ARCHIVED

datatype brief_version_source = VS_MODEL | VS_HUMAN

datatype brief_field_source = FS_MODEL | FS_HUMAN | FS_PRODUCT_DATA

fun field_source_value :: "brief_field_source \<Rightarrow> string" where
  "field_source_value FS_MODEL = ''MODEL''"
| "field_source_value FS_HUMAN = ''HUMAN''"
| "field_source_value FS_PRODUCT_DATA = ''PRODUCT_DATA''"

datatype brief_field_conflict = FC_NONE | FC_CONFLICTING | FC_RESOLVED

fun field_conflict_value :: "brief_field_conflict \<Rightarrow> string" where
  "field_conflict_value FC_NONE = ''NONE''"
| "field_conflict_value FC_CONFLICTING = ''CONFLICTING''"
| "field_conflict_value FC_RESOLVED = ''RESOLVED''"

datatype brief_evidence_kind = EK_IMAGE_REGION | EK_VISIBLE_TEXT | EK_PRODUCT_DATA | EK_HUMAN_NOTE

fun evidence_kind_value :: "brief_evidence_kind \<Rightarrow> string" where
  "evidence_kind_value EK_IMAGE_REGION = ''IMAGE_REGION''"
| "evidence_kind_value EK_VISIBLE_TEXT = ''VISIBLE_TEXT''"
| "evidence_kind_value EK_PRODUCT_DATA = ''PRODUCT_DATA''"
| "evidence_kind_value EK_HUMAN_NOTE = ''HUMAN_NOTE''"

section \<open>Field catalogues\<close>

definition common_brief_fields :: "string list" where
  "common_brief_fields =
     [''common.identity'', ''common.category'', ''common.brand'', ''common.product_type'',
      ''common.package_or_part_form'', ''common.material'', ''common.colors'', ''common.visible_text_summary'',
      ''common.visual_features'', ''common.usage_context'', ''common.prohibited_assumptions'',
      ''common.sensitive_claims'', ''common.source_conflicts'']"

definition beauty_brief_fields :: "string list" where
  "beauty_brief_fields =
     [''beauty.package_type'', ''beauty.cosmetic_form'', ''beauty.finish'', ''beauty.texture'',
      ''beauty.shade_evidence'', ''beauty.ingredient_claim_evidence'', ''beauty.skin_hair_claim_flags'',
      ''beauty.medical_like_claim_flags'', ''beauty.packaging_compliance_notes'']"

definition automotive_brief_fields :: "string list" where
  "automotive_brief_fields =
     [''automotive.part_type'', ''automotive.placement'', ''automotive.compatibility_evidence'',
      ''automotive.material'', ''automotive.finish'', ''automotive.dimensions_evidence'',
      ''automotive.installation_evidence'', ''automotive.safety_critical_claim_flags'',
      ''automotive.certification_marks'']"

definition default_sensitive_claim_paths :: "string list" where
  "default_sensitive_claim_paths =
     [''common.sensitive_claims'', ''beauty.ingredient_claim_evidence'', ''beauty.skin_hair_claim_flags'',
      ''beauty.medical_like_claim_flags'', ''automotive.compatibility_evidence'',
      ''automotive.safety_critical_claim_flags'', ''automotive.certification_marks'']"

definition common_schema_version :: string where
  "common_schema_version = ''product-brief-common-v1''"

fun category_schema_version :: "brief_category \<Rightarrow> string" where
  "category_schema_version CAT_BEAUTY = ''product-brief-beauty-v1''"
| "category_schema_version CAT_AUTOMOTIVE = ''product-brief-automotive-v1''"

datatype brief_value_kind =
    VK_IDENTITY | VK_CATEGORY | VK_TEXT | VK_TEXT_LIST | VK_STATEMENT_LIST | VK_FLAG_LIST | VK_DIMENSION_LIST

fun brief_value_kind_value :: "brief_value_kind \<Rightarrow> string" where
  "brief_value_kind_value VK_IDENTITY = ''IDENTITY''"
| "brief_value_kind_value VK_CATEGORY = ''CATEGORY''"
| "brief_value_kind_value VK_TEXT = ''TEXT''"
| "brief_value_kind_value VK_TEXT_LIST = ''TEXT_LIST''"
| "brief_value_kind_value VK_STATEMENT_LIST = ''STATEMENT_LIST''"
| "brief_value_kind_value VK_FLAG_LIST = ''FLAG_LIST''"
| "brief_value_kind_value VK_DIMENSION_LIST = ''DIMENSION_LIST''"

definition brief_field_value_kinds :: "(string \<times> brief_value_kind) list" where
  "brief_field_value_kinds =
     [(''common.identity'', VK_IDENTITY), (''common.category'', VK_CATEGORY), (''common.brand'', VK_TEXT),
      (''common.product_type'', VK_TEXT), (''common.package_or_part_form'', VK_TEXT), (''common.material'', VK_TEXT),
      (''common.colors'', VK_TEXT_LIST), (''common.visible_text_summary'', VK_TEXT),
      (''common.visual_features'', VK_TEXT_LIST), (''common.usage_context'', VK_TEXT),
      (''common.prohibited_assumptions'', VK_TEXT_LIST), (''common.sensitive_claims'', VK_STATEMENT_LIST),
      (''common.source_conflicts'', VK_STATEMENT_LIST), (''beauty.package_type'', VK_TEXT),
      (''beauty.cosmetic_form'', VK_TEXT), (''beauty.finish'', VK_TEXT), (''beauty.texture'', VK_TEXT),
      (''beauty.shade_evidence'', VK_STATEMENT_LIST), (''beauty.ingredient_claim_evidence'', VK_STATEMENT_LIST),
      (''beauty.skin_hair_claim_flags'', VK_FLAG_LIST), (''beauty.medical_like_claim_flags'', VK_FLAG_LIST),
      (''beauty.packaging_compliance_notes'', VK_TEXT), (''automotive.part_type'', VK_TEXT),
      (''automotive.placement'', VK_TEXT), (''automotive.compatibility_evidence'', VK_STATEMENT_LIST),
      (''automotive.material'', VK_TEXT), (''automotive.finish'', VK_TEXT),
      (''automotive.dimensions_evidence'', VK_DIMENSION_LIST), (''automotive.installation_evidence'', VK_STATEMENT_LIST),
      (''automotive.safety_critical_claim_flags'', VK_FLAG_LIST), (''automotive.certification_marks'', VK_STATEMENT_LIST)]"

definition brief_field_value_kind :: "string \<Rightarrow> error + brief_value_kind" where
  "brief_field_value_kind path =
     (case map_of brief_field_value_kinds path of None \<Rightarrow> Inl ValueError | Some k \<Rightarrow> Inr k)"

fun brief_field_paths :: "brief_category \<Rightarrow> string list" where
  "brief_field_paths CAT_BEAUTY = common_brief_fields @ beauty_brief_fields"
| "brief_field_paths CAT_AUTOMOTIVE = common_brief_fields @ automotive_brief_fields"

definition assert_brief_schema :: "brief_category \<Rightarrow> string \<Rightarrow> string \<Rightarrow> string list \<Rightarrow> error option" where
  "assert_brief_schema category common_version category_version paths = guards
     [guard (common_version \<noteq> common_schema_version) ValueError,
      guard (category_version \<noteq> category_schema_version category) ValueError,
      guard (\<not> distinct paths) ValueError,
      guard (\<not> set (brief_field_paths category) \<subseteq> set paths) ValueError,
      guard (\<not> set paths \<subseteq> set (brief_field_paths category)) ValueError]"

section \<open>Values\<close>

text \<open>\<open>value.get(key)\<close>, where a missing key reads as \<open>None\<close>.\<close>

definition json_get :: "string \<Rightarrow> (string \<times> json) list \<Rightarrow> json" where
  "json_get k kvs = (case map_of kvs k of None \<Rightarrow> JNull | Some v \<Rightarrow> v)"

definition validate_object_keys :: "(string \<times> json) list \<Rightarrow> string list \<Rightarrow> string list \<Rightarrow> error option" where
  "validate_object_keys kvs required optional = guard
     (\<not> set required \<subseteq> fst ` set kvs \<or> \<not> fst ` set kvs \<subseteq> set required \<union> set optional) ValueError"

fun validate_value_text :: "bool \<Rightarrow> json \<Rightarrow> error option" where
  "validate_value_text allow_empty (JStr s) = guard (\<not> allow_empty \<and> s = [] \<or> 2048 < utf8_length s) ValueError"
| "validate_value_text allow_empty v = Some ValueError"

definition validate_optional_value_text :: "json \<Rightarrow> error option" where
  "validate_optional_value_text v = (if v = JNull then None else validate_value_text True v)"

fun validate_text_collection :: "json \<Rightarrow> error option" where
  "validate_text_collection (JArr xs) = guards
     ([guard (32 < length xs) ValueError] @ map (validate_value_text False) xs @ [guard (\<not> distinct xs) ValueError])"
| "validate_text_collection v = Some ValueError"

fun validate_dimension :: "json \<Rightarrow> error option" where
  "validate_dimension (JObj kvs) = guards
     [validate_object_keys kvs [''name'', ''value''] [''unit'', ''raw_text''],
      validate_value_text False (json_get ''name'' kvs), validate_value_text False (json_get ''value'' kvs),
      validate_optional_value_text (json_get ''unit'' kvs), validate_optional_value_text (json_get ''raw_text'' kvs)]"
| "validate_dimension v = Some ValueError"

fun dimension_name :: "json \<Rightarrow> json" where
  "dimension_name (JObj kvs) = json_get ''name'' kvs"
| "dimension_name v = JNull"

fun validate_dimensions :: "json \<Rightarrow> error option" where
  "validate_dimensions (JArr xs) = guards
     ([guard (16 < length xs) ValueError] @ map validate_dimension xs @
      [guard (\<not> distinct (map dimension_name xs)) ValueError])"
| "validate_dimensions v = Some ValueError"

text \<open>The truth of a text that may be absent.\<close>

definition json_true_text :: "json \<Rightarrow> bool" where
  "json_true_text v \<longleftrightarrow> v \<noteq> JNull \<and> v \<noteq> JStr []"

fun validate_kind_value :: "brief_value_kind \<Rightarrow> (string \<times> json) list \<Rightarrow> error option" where
  "validate_kind_value VK_IDENTITY kvs = guards
     [validate_object_keys kvs [''kind'', ''display_name''] [''model_number'', ''variant''],
      validate_value_text True (json_get ''display_name'' kvs),
      validate_optional_value_text (json_get ''model_number'' kvs),
      validate_optional_value_text (json_get ''variant'' kvs),
      guard (\<not> list_ex json_true_text
        [json_get ''display_name'' kvs, json_get ''model_number'' kvs, json_get ''variant'' kvs]) ValueError]"
| "validate_kind_value VK_CATEGORY kvs = guards
     [validate_object_keys kvs [''kind'', ''code'', ''label''] [],
      validate_value_text False (json_get ''code'' kvs), validate_value_text False (json_get ''label'' kvs)]"
| "validate_kind_value VK_TEXT kvs = guards
     [validate_object_keys kvs [''kind'', ''text''] [], validate_value_text True (json_get ''text'' kvs)]"
| "validate_kind_value VK_TEXT_LIST kvs = guards
     [validate_object_keys kvs [''kind'', ''items''] [], validate_text_collection (json_get ''items'' kvs)]"
| "validate_kind_value VK_STATEMENT_LIST kvs = guards
     [validate_object_keys kvs [''kind'', ''statements''] [], validate_text_collection (json_get ''statements'' kvs)]"
| "validate_kind_value VK_FLAG_LIST kvs = guards
     [validate_object_keys kvs [''kind'', ''flags''] [], validate_text_collection (json_get ''flags'' kvs)]"
| "validate_kind_value VK_DIMENSION_LIST kvs = guards
     [validate_object_keys kvs [''kind'', ''dimensions''] [], validate_dimensions (json_get ''dimensions'' kvs)]"

fun validate_brief_field_value :: "string \<Rightarrow> json \<Rightarrow> error option" where
  "validate_brief_field_value path (JObj kvs) =
     (case brief_field_value_kind path of
        Inl e \<Rightarrow> Some e
      | Inr k \<Rightarrow> both (guard (json_get ''kind'' kvs \<noteq> JStr (brief_value_kind_value k)) ValueError)
          (validate_kind_value k kvs))"
| "validate_brief_field_value path v = Some ValueError"

end
