(* ===== verification/Product_Briefs.thy ===== *)
theory Product_Briefs
  imports Brief_Schemas Json_Text Timestamps Uploads Rounding "HOL-Library.Product_Lexorder"
begin

text \<open>
  Product briefs (\<open>product_briefs/entities.py\<close>): evidence, fields, the review policy, the immutable
  versions and the head that selects and confirms them. SHA-256 and the JSON text of an image region, a
  tuple of floats, are arguments; confidences and region bounds are rationals. A \<open>frozenset\<close> of paths is
  a list whose order and repetitions do not matter.
\<close>

section \<open>Bounded JSON\<close>

fun json_children :: "json \<Rightarrow> json list" where
  "json_children (JObj kvs) = map snd kvs"
| "json_children (JArr xs) = xs"
| "json_children v = []"

fun long_text :: "json \<Rightarrow> bool" where
  "long_text (JStr s) \<longleftrightarrow> 4096 < length s"
| "long_text v \<longleftrightarrow> False"

text \<open>The loop of \<open>_canonical_json\<close> over its stack, whose top is the head of the list.\<close>

function canonical_walk :: "nat \<Rightarrow> (json \<times> nat) list \<Rightarrow> error option" where
  "canonical_walk visited [] = None"
| "canonical_walk visited ((v, depth) # stack) =
     (if 512 < visited + 1 \<or> 12 < depth \<or> long_text v then Some ValueError
      else canonical_walk (visited + 1) (rev (map (\<lambda>x. (x, depth + 1)) (json_children v)) @ stack))"
  by pat_completeness auto

termination
  by (relation "measure (\<lambda>(visited, stack). 513 - visited)") auto

definition canonical_json :: "json \<Rightarrow> error + string" where
  "canonical_json v =
     (case canonical_walk 0 [(v, 0)] of
        Some e \<Rightarrow> Inl e
      | None \<Rightarrow> if 16 * 1024 < length (json_dumps True v) then Inl ValueError else Inr (json_dumps True v))"

fun json_nodes :: "json \<Rightarrow> nat" where
  "json_nodes (JObj kvs) = 1 + sum_list (map (\<lambda>(k, v). json_nodes v) kvs)"
| "json_nodes (JArr xs) = 1 + sum_list (map json_nodes xs)"
| "json_nodes v = 1"

lemma json_nodes_pos: "0 < json_nodes v"
  by (cases v) simp_all

definition claim_items :: "(string \<times> json) list \<Rightarrow> json list" where
  "claim_items kvs = map snd (filter (\<lambda>(k, v). k \<noteq> ''kind'') kvs)"

lemma nodes_claim_items: "sum_list (map json_nodes (claim_items kvs)) \<le> sum_list (map (\<lambda>(k, v). json_nodes v) kvs)"
  by (induction kvs) (auto simp: claim_items_def)

text \<open>The loop of \<open>_contains_claim\<close>.\<close>

function claim_loop :: "json list \<Rightarrow> bool" where
  "claim_loop [] \<longleftrightarrow> False"
| "claim_loop (JNull # stack) \<longleftrightarrow> claim_loop stack"
| "claim_loop (JBool b # stack) \<longleftrightarrow> (if b then True else claim_loop stack)"
| "claim_loop (JStr s # stack) \<longleftrightarrow> (if strip s \<noteq> [] then True else claim_loop stack)"
| "claim_loop (JInt n # stack) \<longleftrightarrow> (if n \<noteq> 0 then True else claim_loop stack)"
| "claim_loop (JObj kvs # stack) \<longleftrightarrow> claim_loop (rev (claim_items kvs) @ stack)"
| "claim_loop (JArr xs # stack) \<longleftrightarrow> claim_loop (rev xs @ stack)"
  by pat_completeness auto

termination
proof (relation "measure (\<lambda>stack. sum_list (map json_nodes stack))", goal_cases)
  case (6 kvs stack)
  then show ?case using nodes_claim_items [of kvs] by (simp add: rev_map [symmetric] del: rev_map)
next
  case (7 xs stack)
  then show ?case by (simp add: rev_map [symmetric] del: rev_map)
qed simp_all

definition contains_claim :: "json \<Rightarrow> bool" where
  "contains_claim v \<longleftrightarrow> claim_loop [v]"

text \<open>\<open>Decimal.quantize(Decimal("0.0001"))\<close> and the text of its result.\<close>

definition confidence :: "rat \<Rightarrow> error + rat" where
  "confidence x = (if 0 \<le> x \<and> x \<le> 1 then Inr (round_to_grid 10000 x) else Inl ValueError)"

definition confidence_text :: "rat \<Rightarrow> string" where
  "confidence_text x = (let k = \<lfloor>x * 10000\<rfloor> in str_of_int (k div 10000) @ ''.'' @ format_dec 4 (k mod 10000))"

section \<open>Evidence and fields\<close>

fun evidence_prefix :: "brief_evidence_kind \<Rightarrow> string" where
  "evidence_prefix EK_IMAGE_REGION = ''asset-region://''"
| "evidence_prefix EK_VISIBLE_TEXT = ''asset-text://''"
| "evidence_prefix EK_PRODUCT_DATA = ''product-data://''"
| "evidence_prefix EK_HUMAN_NOTE = ''human-note://''"

definition has_prefix :: "string \<Rightarrow> string \<Rightarrow> bool" where
  "has_prefix p s \<longleftrightarrow> take (length p) s = p"

definition validate_evidence_reference :: "brief_evidence_kind \<Rightarrow> string \<Rightarrow> error option" where
  "validate_evidence_reference kind reference = guards
     [guard (\<not> list_ex (\<lambda>k. has_prefix (evidence_prefix k) reference)
        [EK_IMAGE_REGION, EK_VISIBLE_TEXT, EK_PRODUCT_DATA, EK_HUMAN_NOTE]) ValueError,
      guard (\<not> has_prefix (evidence_prefix kind) reference) ValueError,
      guard (\<not> is_sha256 (drop (length (evidence_prefix kind)) reference)) ValueError]"

record brief_evidence =
  ev_id :: string
  ev_source_asset_version_id :: string
  ev_kind :: brief_evidence_kind
  ev_reference :: string
  ev_region :: "rat list option"
  ev_excerpt_sha256 :: "string option"

definition region_check :: "rat list \<Rightarrow> error option" where
  "region_check r = guards
     [guard (length r \<noteq> 4 \<or> \<not> list_all (\<lambda>x. 0 \<le> x \<and> x \<le> 1) r) ValueError,
      guard (r ! 2 \<le> r ! 0 \<or> r ! 3 \<le> r ! 1) ValueError]"

definition ev_check :: "brief_evidence \<Rightarrow> error option" where
  "ev_check e = guards
     [guard (ev_source_asset_version_id e = []) ValueError,
      guard (\<not> (1 \<le> length (ev_reference e) \<and> length (ev_reference e) \<le> 512)) ValueError,
      validate_evidence_reference (ev_kind e) (ev_reference e),
      (case ev_region e of None \<Rightarrow> None | Some r \<Rightarrow> region_check r),
      (case ev_excerpt_sha256 e of None \<Rightarrow> None | Some h \<Rightarrow> guard (\<not> is_sha256 h) ValueError)]"

record brief_field =
  bf_id :: string
  bf_path :: string
  bf_value :: json
  bf_confidence :: rat
  bf_source :: brief_field_source
  bf_conflict :: brief_field_conflict
  bf_review_required :: bool
  bf_sensitive :: bool
  bf_evidence :: "brief_evidence list"

text \<open>The constructor: the checks, with the confidence rounded.\<close>

definition bf_make :: "brief_field \<Rightarrow> error + brief_field" where
  "bf_make f =
     (case guards
        [guard (\<not> (1 \<le> length (bf_path f) \<and> length (bf_path f) \<le> 160)) ValueError,
         (case canonical_json (bf_value f) of Inl e \<Rightarrow> Some e | Inr t \<Rightarrow> None),
         validate_brief_field_value (bf_path f) (bf_value f)] of
        Some e \<Rightarrow> Inl e
      | None \<Rightarrow>
          (case confidence (bf_confidence f) of
             Inl e \<Rightarrow> Inl e
           | Inr c \<Rightarrow>
               if bf_evidence f = [] \<or> 32 < length (bf_evidence f) then Inl ValueError
               else Inr (f\<lparr>bf_confidence := c\<rparr>)))"

section \<open>The review policy\<close>

record review_policy =
  rvp_policy_version :: string
  rvp_confidence_threshold :: rat
  rvp_mandatory_review_paths :: "string list"
  rvp_sensitive_claim_paths :: "string list"

definition rvp_make :: "review_policy \<Rightarrow> error + review_policy" where
  "rvp_make p =
     (if \<not> (1 \<le> length (rvp_policy_version p) \<and> length (rvp_policy_version p) \<le> 64) then Inl ValueError
      else case confidence (rvp_confidence_threshold p) of
        Inl e \<Rightarrow> Inl e
      | Inr c \<Rightarrow>
          if \<not> set (rvp_mandatory_review_paths p) \<union> set (rvp_sensitive_claim_paths p) \<subseteq>
               set (brief_field_paths CAT_BEAUTY) \<union> set (brief_field_paths CAT_AUTOMOTIVE) then Inl ValueError
          else Inr (p\<lparr>rvp_confidence_threshold := c\<rparr>))"

definition rvp_snapshot :: "review_policy \<Rightarrow> json" where
  "rvp_snapshot p = JObj
     [(''confidence_threshold'', JStr (confidence_text (rvp_confidence_threshold p))),
      (''mandatory_review_paths'', JArr (map JStr (sort (remdups (rvp_mandatory_review_paths p))))),
      (''policy_version'', JStr (rvp_policy_version p)),
      (''sensitive_claim_paths'', JArr (map JStr (sort (remdups (rvp_sensitive_claim_paths p)))))]"

definition rvp_snapshot_sha256 :: "(string \<Rightarrow> string) \<Rightarrow> review_policy \<Rightarrow> error + string" where
  "rvp_snapshot_sha256 sha256 p =
     (case canonical_json (rvp_snapshot p) of Inl e \<Rightarrow> Inl e | Inr t \<Rightarrow> Inr (sha256 t))"

definition raised_field :: "review_policy \<Rightarrow> brief_field \<Rightarrow> brief_field" where
  "raised_field p f = f
     \<lparr>bf_review_required := bf_review_required f \<or> bf_path f \<in> set (rvp_mandatory_review_paths p),
      bf_sensitive := bf_sensitive f \<or> (bf_path f \<in> set (rvp_sensitive_claim_paths p) \<and> contains_claim (bf_value f))\<rparr>"

definition enforce_risk_floor :: "review_policy \<Rightarrow> brief_field list \<Rightarrow> error + brief_field list" where
  "enforce_risk_floor p fs = collect (\<lambda>f. bf_make (raised_field p f)) fs"

datatype review_reason = LOW_CONFIDENCE | SOURCE_CONFLICT | SENSITIVE_CLAIM | MANDATORY_REVIEW | PROVIDER_REVIEW

definition field_reasons :: "review_policy \<Rightarrow> rat \<Rightarrow> brief_field \<Rightarrow> review_reason list" where
  "field_reasons p threshold f =
     (if bf_confidence f < threshold then [LOW_CONFIDENCE] else []) @
     (if bf_conflict f = FC_CONFLICTING then [SOURCE_CONFLICT] else []) @
     (if bf_sensitive f then [SENSITIVE_CLAIM] else []) @
     (if bf_path f \<in> set (rvp_mandatory_review_paths p) then [MANDATORY_REVIEW]
      else if bf_review_required f then [PROVIDER_REVIEW] else [])"

record review_decision =
  rvd_policy_version :: string
  rvd_confidence_threshold :: rat
  rvd_confirmation_required :: bool
  rvd_unresolved_field_count :: int
  rvd_reasons_by_path :: "(string \<times> review_reason list) list"

definition collect_reasons :: "review_policy \<Rightarrow> rat \<Rightarrow> brief_field list \<Rightarrow> (string \<times> review_reason list) list" where
  "collect_reasons p threshold fs = foldl
     (\<lambda>reasons f. if field_reasons p threshold f = [] then reasons
                  else AList.update (bf_path f) (field_reasons p threshold f) reasons) [] fs"

definition evaluate :: "review_policy \<Rightarrow> brief_field list \<Rightarrow> error + review_decision" where
  "evaluate p fs =
     (case confidence (rvp_confidence_threshold p) of
        Inl e \<Rightarrow> Inl e
      | Inr threshold \<Rightarrow>
          let reasons = collect_reasons p threshold fs
          in Inr \<lparr>rvd_policy_version = rvp_policy_version p, rvd_confidence_threshold = threshold,
                 rvd_confirmation_required = (reasons \<noteq> []), rvd_unresolved_field_count = int (length reasons),
                 rvd_reasons_by_path = reasons\<rparr>)"

section \<open>The payload of a version\<close>

definition evidence_key :: "brief_evidence \<Rightarrow> string \<times> string \<times> string \<times> rat list \<times> string" where
  "evidence_key e =
     (ev_source_asset_version_id e, evidence_kind_value (ev_kind e), ev_reference e,
      (case ev_region e of None \<Rightarrow> [] | Some r \<Rightarrow> r), (case ev_excerpt_sha256 e of None \<Rightarrow> [] | Some h \<Rightarrow> h))"

definition evidence_data :: "(rat list \<Rightarrow> json) \<Rightarrow> brief_evidence \<Rightarrow> json" where
  "evidence_data region_json e = JObj
     [(''excerpt_sha256'', case ev_excerpt_sha256 e of None \<Rightarrow> JNull | Some h \<Rightarrow> JStr h),
      (''kind'', JStr (evidence_kind_value (ev_kind e))),
      (''reference'', JStr (ev_reference e)),
      (''region'', case ev_region e of None \<Rightarrow> JNull | Some r \<Rightarrow> region_json r),
      (''source_asset_version_id'', JStr (ev_source_asset_version_id e))]"

definition field_data :: "(rat list \<Rightarrow> json) \<Rightarrow> brief_field \<Rightarrow> json" where
  "field_data region_json f = JObj
     [(''confidence'', JStr (confidence_text (bf_confidence f))),
      (''conflict'', JStr (field_conflict_value (bf_conflict f))),
      (''evidence'', JArr (map (evidence_data region_json) (sort_key evidence_key (bf_evidence f)))),
      (''path'', JStr (bf_path f)),
      (''review_required'', JBool (bf_review_required f)),
      (''sensitive'', JBool (bf_sensitive f)),
      (''source'', JStr (field_source_value (bf_source f))),
      (''value'', bf_value f)]"

definition brief_payload :: "(rat list \<Rightarrow> json) \<Rightarrow> brief_category \<Rightarrow> string \<Rightarrow> string \<Rightarrow> brief_field list \<Rightarrow> json" where
  "brief_payload region_json category common_version category_version fs = JObj
     [(''category'', JStr (brief_category_value category)),
      (''category_schema_version'', JStr category_version),
      (''common_schema_version'', JStr common_version),
      (''fields'', JArr (map (field_data region_json) (sort_key bf_path fs)))]"

definition payload_hash ::
  "(string \<Rightarrow> string) \<Rightarrow> (rat list \<Rightarrow> json) \<Rightarrow> brief_category \<Rightarrow> string \<Rightarrow> string \<Rightarrow> brief_field list \<Rightarrow> error + string" where
  "payload_hash sha256 region_json category common_version category_version fs =
     (case canonical_json (brief_payload region_json category common_version category_version fs) of
        Inl e \<Rightarrow> Inl e
      | Inr t \<Rightarrow> Inr (sha256 t))"

section \<open>Versions\<close>

record brief_version =
  vb_id :: string
  vb_workspace_id :: string
  vb_product_brief_id :: string
  vb_version_number :: int
  vb_supersedes_version_id :: "string option"
  vb_category :: brief_category
  vb_common_schema_version :: string
  vb_category_schema_version :: string
  vb_fields :: "brief_field list"
  vb_changed_field_paths :: "string list"
  vb_payload_sha256 :: string
  vb_confirmation_required :: bool
  vb_unresolved_field_count :: int
  vb_review_policy_version :: string
  vb_source :: brief_version_source
  vb_prompt_version :: "string option"
  vb_provider_call_id :: "string option"
  vb_actor_id :: string
  vb_revision_reason :: "string option"
  vb_retention_class :: retention_class
  vb_retention_deadline :: "datetime option"
  vb_created_at :: datetime

text \<open>\<open>not value\<close> for an optional text.\<close>

definition no_text :: "string option \<Rightarrow> bool" where
  "no_text v \<longleftrightarrow> v = None \<or> v = Some []"

definition retention_check :: "retention_class \<Rightarrow> datetime option \<Rightarrow> error option" where
  "retention_check c deadline = guards
     [guard (c = RC_TASK \<and> deadline = None) ValueError, guard (c = RC_FOUNDATION \<and> deadline \<noteq> None) ValueError]"

definition vb_source_check :: "brief_version \<Rightarrow> error option" where
  "vb_source_check v =
     (if vb_source v = VS_MODEL then guards
        [guard (no_text (vb_prompt_version v) \<or> no_text (vb_provider_call_id v)) ValueError,
         guard (set (vb_changed_field_paths v) \<noteq> bf_path ` set (vb_fields v)) ValueError]
      else if no_text (vb_revision_reason v) then Some ValueError
      else guard (list_ex (\<lambda>f. bf_path f \<in> set (vb_changed_field_paths v) \<and> bf_source f \<noteq> FS_HUMAN) (vb_fields v))
        ValueError)"

definition vb_check :: "brief_version \<Rightarrow> error option" where
  "vb_check v = guards
     [validate_workspace_id (vb_workspace_id v), guard (vb_version_number v < 1) ValueError,
      require_utc (vb_created_at v), require_utc_opt (vb_retention_deadline v),
      retention_check (vb_retention_class v) (vb_retention_deadline v),
      assert_brief_schema (vb_category v) (vb_common_schema_version v) (vb_category_schema_version v)
        (map bf_path (vb_fields v)),
      guard (vb_changed_field_paths v = [] \<or> \<not> distinct (vb_changed_field_paths v) \<or>
        \<not> set (vb_changed_field_paths v) \<subseteq> bf_path ` set (vb_fields v)) ValueError,
      vb_source_check v]"

definition vb_make :: "(string \<Rightarrow> string) \<Rightarrow> (rat list \<Rightarrow> json) \<Rightarrow> brief_version \<Rightarrow> error + brief_version" where
  "vb_make sha256 region_json w =
     (let v = w\<lparr>vb_changed_field_paths := sort (vb_changed_field_paths w)\<rparr> in
      case vb_check v of
        Some e \<Rightarrow> Inl e
      | None \<Rightarrow>
          (case payload_hash sha256 region_json (vb_category v) (vb_common_schema_version v)
              (vb_category_schema_version v) (vb_fields v) of
             Inl e \<Rightarrow> Inl e
           | Inr h \<Rightarrow> if vb_payload_sha256 v \<noteq> h then Inl ValueError else Inr v))"

record version_request =
  vr_workspace_id :: string
  vr_product_brief_id :: string
  vr_version_number :: int
  vr_supersedes_version_id :: "string option"
  vr_category :: brief_category
  vr_common_schema_version :: string
  vr_category_schema_version :: string
  vr_fields :: "brief_field list"
  vr_changed_field_paths :: "string list option"
  vr_source :: brief_version_source
  vr_prompt_version :: "string option"
  vr_provider_call_id :: "string option"
  vr_actor_id :: string
  vr_revision_reason :: "string option"
  vr_retention_class :: retention_class
  vr_retention_deadline :: "datetime option"

definition vb_create ::
  "(string \<Rightarrow> string) \<Rightarrow> (rat list \<Rightarrow> json) \<Rightarrow> string \<Rightarrow> version_request \<Rightarrow> review_decision \<Rightarrow> datetime \<Rightarrow>
     error + brief_version" where
  "vb_create sha256 region_json new_id r decision now =
     (case payload_hash sha256 region_json (vr_category r) (vr_common_schema_version r) (vr_category_schema_version r)
         (vr_fields r) of
        Inl e \<Rightarrow> Inl e
      | Inr h \<Rightarrow> vb_make sha256 region_json
          \<lparr>vb_id = new_id, vb_workspace_id = vr_workspace_id r, vb_product_brief_id = vr_product_brief_id r,
           vb_version_number = vr_version_number r, vb_supersedes_version_id = vr_supersedes_version_id r,
           vb_category = vr_category r, vb_common_schema_version = vr_common_schema_version r,
           vb_category_schema_version = vr_category_schema_version r, vb_fields = vr_fields r,
           vb_changed_field_paths =
             (if vr_source r = VS_MODEL then map bf_path (vr_fields r)
              else case vr_changed_field_paths r of None \<Rightarrow> [] | Some paths \<Rightarrow> paths),
           vb_payload_sha256 = h,
           vb_confirmation_required = (rvd_confirmation_required decision \<or> vr_source r = VS_HUMAN),
           vb_unresolved_field_count = rvd_unresolved_field_count decision,
           vb_review_policy_version = rvd_policy_version decision, vb_source = vr_source r,
           vb_prompt_version = vr_prompt_version r, vb_provider_call_id = vr_provider_call_id r,
           vb_actor_id = vr_actor_id r, vb_revision_reason = vr_revision_reason r,
           vb_retention_class = vr_retention_class r, vb_retention_deadline = vr_retention_deadline r,
           vb_created_at = now\<rparr>)"

section \<open>The brief\<close>

record product_brief =
  pb_id :: string
  pb_workspace_id :: string
  pb_workflow_id :: string
  pb_product_id :: string
  pb_created_by :: string
  pb_state :: brief_state
  pb_current_version_id :: "string option"
  pb_confirmed_version_id :: "string option"
  pb_version :: int
  pb_retention_class :: retention_class
  pb_retention_deadline :: "datetime option"
  pb_created_at :: datetime
  pb_updated_at :: datetime

definition pb_check :: "product_brief \<Rightarrow> error option" where
  "pb_check b = guards
     [validate_workspace_id (pb_workspace_id b), require_utc (pb_created_at b), require_utc (pb_updated_at b),
      require_utc_opt (pb_retention_deadline b), retention_check (pb_retention_class b) (pb_retention_deadline b)]"

definition pb_create ::
  "string \<Rightarrow> string \<Rightarrow> string \<Rightarrow> string \<Rightarrow> string \<Rightarrow> retention_class \<Rightarrow> datetime option \<Rightarrow> datetime \<Rightarrow>
     error + product_brief" where
  "pb_create new_id workspace_id workflow_id product_id created_by retention deadline now =
     (let b = \<lparr>pb_id = new_id, pb_workspace_id = workspace_id, pb_workflow_id = workflow_id, pb_product_id = product_id,
               pb_created_by = created_by, pb_state = PB_DRAFT, pb_current_version_id = None,
               pb_confirmed_version_id = None, pb_version = 1, pb_retention_class = retention,
               pb_retention_deadline = deadline, pb_created_at = now, pb_updated_at = now\<rparr>
      in case pb_check b of Some e \<Rightarrow> Inl e | None \<Rightarrow> Inr b)"

definition pb_assert_version :: "int \<Rightarrow> product_brief \<Rightarrow> error option" where
  "pb_assert_version expected_version b = guard (pb_version b \<noteq> expected_version) ConcurrencyError"

fun same_deadline :: "datetime option \<Rightarrow> datetime option \<Rightarrow> bool" where
  "same_deadline (Some a) (Some b) \<longleftrightarrow> dt_eq a b"
| "same_deadline a b \<longleftrightarrow> a = None \<and> b = None"

definition pb_publish_version ::
  "brief_version \<Rightarrow> int \<Rightarrow> datetime \<Rightarrow> product_brief \<Rightarrow> (unit, product_brief) outcome" where
  "pb_publish_version v expected_version now b =
     check (guards
       [pb_assert_version expected_version b,
        guard (vb_product_brief_id v \<noteq> pb_id b) ValueError,
        guard (vb_workspace_id v \<noteq> pb_workspace_id b) ValueError,
        (if pb_current_version_id b = None
         then guard (vb_version_number v \<noteq> 1 \<or> vb_supersedes_version_id v \<noteq> None) ConcurrencyError
         else guard (vb_supersedes_version_id v \<noteq> pb_current_version_id b) ConcurrencyError),
        guard (vb_retention_class v \<noteq> pb_retention_class b \<or>
          \<not> same_deadline (vb_retention_deadline v) (pb_retention_deadline b)) ValueError]) b
     (Done () (let c = b\<lparr>pb_current_version_id := Some (vb_id v)\<rparr> in
       (if vb_confirmation_required v then c\<lparr>pb_state := PB_AWAITING_CONFIRMATION\<rparr>
        else c\<lparr>pb_state := PB_CONFIRMED, pb_confirmed_version_id := Some (vb_id v)\<rparr>)
       \<lparr>pb_version := pb_version b + 1, pb_updated_at := now\<rparr>))"

definition pb_reopen_for_analysis :: "int \<Rightarrow> datetime \<Rightarrow> product_brief \<Rightarrow> (unit, product_brief) outcome" where
  "pb_reopen_for_analysis expected_version now b =
     check (guards
       [pb_assert_version expected_version b,
        guard (pb_state b \<noteq> PB_CONFIRMED \<or> pb_current_version_id b = None \<or>
          pb_current_version_id b \<noteq> pb_confirmed_version_id b) InvalidTransitionError]) b
     (Done () (b\<lparr>pb_state := PB_DRAFT, pb_version := pb_version b + 1, pb_updated_at := now\<rparr>))"

definition pb_confirm :: "string \<Rightarrow> int \<Rightarrow> datetime \<Rightarrow> product_brief \<Rightarrow> (unit, product_brief) outcome" where
  "pb_confirm version_id expected_version now b =
     check (guards
       [pb_assert_version expected_version b, guard (Some version_id \<noteq> pb_current_version_id b) ConcurrencyError]) b
     (if pb_state b = PB_CONFIRMED then
        (if pb_confirmed_version_id b = Some version_id then Done () b else Raise InvalidTransitionError b)
      else if pb_state b \<noteq> PB_AWAITING_CONFIRMATION then Raise InvalidTransitionError b
      else Done () (b\<lparr>pb_confirmed_version_id := Some version_id, pb_state := PB_CONFIRMED,
                      pb_version := pb_version b + 1, pb_updated_at := now\<rparr>))"

end
