(* ===== verification/Product_Brief_Facts.thy ===== *)
theory Product_Brief_Facts
  imports Product_Briefs Json_Facts "HOL-Library.Multiset"
begin

text \<open>
  The review policy flags exactly the fields that need a human, a created version carries that verdict
  and exactly the fields of its schema, and a brief is never confirmed past an open review. The limits of
  the canonical form, meant for one value, also bound a whole version.
\<close>

section \<open>Bounded JSON\<close>

fun json_depth_ok :: "nat \<Rightarrow> json \<Rightarrow> bool" where
  "json_depth_ok d (JObj kvs) \<longleftrightarrow> d \<le> 12 \<and> (\<forall>(k, v) \<in> set kvs. json_depth_ok (d + 1) v)"
| "json_depth_ok d (JArr xs) \<longleftrightarrow> d \<le> 12 \<and> (\<forall>v \<in> set xs. json_depth_ok (d + 1) v)"
| "json_depth_ok d (JStr s) \<longleftrightarrow> d \<le> 12 \<and> length s \<le> 4096"
| "json_depth_ok d v \<longleftrightarrow> d \<le> 12"

lemma nodes_children: "json_nodes v = 1 + sum_list (map json_nodes (json_children v))"
  by (cases v) (simp_all add: comp_def split_def)

lemma depth_children:
  "json_depth_ok d v \<longleftrightarrow> d \<le> 12 \<and> \<not> long_text v \<and> (\<forall>w \<in> set (json_children v). json_depth_ok (d + 1) w)"
  by (cases v) (auto simp: not_less)

lemma rev_sum: "sum_list (map f (rev xs)) = sum_list (map f xs)" for f :: "'a \<Rightarrow> nat"
  by (induction xs) simp_all

text \<open>The loop accepts exactly the values within the limits.\<close>

lemma canonical_walk_exact:
  "canonical_walk visited stack = None \<longleftrightarrow>
     stack = [] \<or> visited + sum_list (map (json_nodes \<circ> fst) stack) \<le> 512 \<and> (\<forall>(v, d) \<in> set stack. json_depth_ok d v)"
proof (induction visited stack rule: canonical_walk.induct)
  case (2 visited v depth stack)
  let ?next = "rev (map (\<lambda>x. (x, depth + 1)) (json_children v)) @ stack"
  have sum: "sum_list (map (json_nodes \<circ> fst) ?next) + 1 = sum_list (map (json_nodes \<circ> fst) ((v, depth) # stack))"
    unfolding map_append sum_list_append rev_sum by (simp add: comp_def nodes_children [of v])
  have ok: "(\<forall>(w, d) \<in> set ?next. json_depth_ok d w) \<and> depth \<le> 12 \<and> \<not> long_text v \<longleftrightarrow>
      (\<forall>(w, d) \<in> set ((v, depth) # stack). json_depth_ok d w)"
    using depth_children [of depth v] by auto
  show ?case
  proof (cases "512 < visited + 1 \<or> 12 < depth \<or> long_text v")
    case True
    then show ?thesis using depth_children [of depth v] json_nodes_pos [of v] by auto
  next
    case False
    have step: "canonical_walk visited ((v, depth) # stack) = canonical_walk (visited + 1) ?next"
      using False by (simp only: canonical_walk.simps if_False)
    have vis: "visited + 1 \<le> 512" using False by simp
    define total where "total = sum_list (map (json_nodes \<circ> fst) ?next)"
    have empty: "?next = [] \<Longrightarrow> total = 0" unfolding total_def by (simp only: list.map sum_list.Nil)
    have "canonical_walk visited ((v, depth) # stack) = None \<longleftrightarrow>
        visited + 1 + total \<le> 512 \<and> (\<forall>(w, d) \<in> set ?next. json_depth_ok d w)"
      unfolding step 2 [OF False] total_def [symmetric]
    proof (cases "?next = []")
      case True
      then show "(?next = [] \<or> visited + 1 + total \<le> 512 \<and> (\<forall>(w, d) \<in> set ?next. json_depth_ok d w)) =
          (visited + 1 + total \<le> 512 \<and> (\<forall>(w, d) \<in> set ?next. json_depth_ok d w))"
        unfolding empty [OF True] True using vis by simp
    qed blast
    moreover have "sum_list (map (json_nodes \<circ> fst) ((v, depth) # stack)) = total + 1"
      unfolding total_def sum ..
    ultimately show ?thesis using ok False by (simp add: comp_def)
  qed
qed simp

lemma canonical_json_Inr:
  "canonical_json v = Inr t \<longleftrightarrow> json_nodes v \<le> 512 \<and> json_depth_ok 0 v \<and> length t \<le> 16384 \<and> t = json_dumps True v"
  unfolding canonical_json_def
  using canonical_walk_exact [of 0 "[(v, 0)]"] by (cases "canonical_walk 0 [(v, 0)]") (auto simp: not_less)

lemma canonical_walk_error: "canonical_walk n s = Some e \<Longrightarrow> e = ValueError"
  by (induction n s rule: canonical_walk.induct) (auto split: if_splits)

lemma canonical_json_error: "canonical_json v = Inl e \<Longrightarrow> e = ValueError"
  by (auto simp: canonical_json_def dest: canonical_walk_error split: option.splits if_splits)

section \<open>The verdict of the policy\<close>

definition needs_review :: "review_policy \<Rightarrow> brief_field \<Rightarrow> bool" where
  "needs_review p f \<longleftrightarrow> bf_confidence f < round_to_grid 10000 (rvp_confidence_threshold p) \<or>
     bf_conflict f = FC_CONFLICTING \<or> bf_sensitive f \<or> bf_path f \<in> set (rvp_mandatory_review_paths p) \<or>
     bf_review_required f"

lemma field_reasons_Nil: "field_reasons p (round_to_grid 10000 (rvp_confidence_threshold p)) f = [] \<longleftrightarrow> \<not> needs_review p f"
  by (simp add: field_reasons_def needs_review_def)

lemma update_not_Nil: "AList.update k v xs \<noteq> []"
  by (cases xs) (auto split: prod.splits)

lemma collect_reasons_from:
  "foldl (\<lambda>reasons f. if field_reasons p c f = [] then reasons
      else AList.update (bf_path f) (field_reasons p c f) reasons) acc fs = [] \<longleftrightarrow>
     acc = [] \<and> (\<forall>f \<in> set fs. field_reasons p c f = [])"
  by (induction fs arbitrary: acc) (auto simp: update_not_Nil)

lemma evaluate_Inr:
  "evaluate p fs = Inr d \<Longrightarrow> rvd_confirmation_required d \<longleftrightarrow> (\<exists>f \<in> set fs. needs_review p f)"
  using collect_reasons_from [of p "round_to_grid 10000 (rvp_confidence_threshold p)" "[]" fs]
  by (auto simp: evaluate_def confidence_def collect_reasons_def field_reasons_Nil Let_def split: if_splits)

lemma bf_make_Inr:
  "bf_make f = Inr g \<Longrightarrow> bf_path g = bf_path f \<and> bf_value g = bf_value f \<and> bf_sensitive g = bf_sensitive f"
  by (auto simp: bf_make_def split: option.splits sum.splits if_splits)

lemma risk_floor_Inr:
  assumes "enforce_risk_floor p fs = Inr gs" "g \<in> set gs"
    and "bf_path g \<in> set (rvp_sensitive_claim_paths p)" "contains_claim (bf_value g)"
  shows "needs_review p g"
proof -
  obtain f where "bf_make (raised_field p f) = Inr g"
    using collect_member [OF assms(1) [unfolded enforce_risk_floor_def] assms(2)] by blast
  from bf_make_Inr [OF this]
  have "bf_path g = bf_path f" "bf_value g = bf_value f"
    "bf_sensitive g = (bf_sensitive f \<or> bf_path f \<in> set (rvp_sensitive_claim_paths p) \<and> contains_claim (bf_value f))"
    by (simp_all add: raised_field_def)
  with assms(3,4) show ?thesis by (simp add: needs_review_def)
qed

section \<open>Created versions\<close>

lemma vb_make_Inr:
  "vb_make sha256 rj w = Inr v \<Longrightarrow> v = w\<lparr>vb_changed_field_paths := sort (vb_changed_field_paths w)\<rparr> \<and>
     assert_brief_schema (vb_category w) (vb_common_schema_version w) (vb_category_schema_version w)
       (map bf_path (vb_fields w)) = None"
  by (auto simp: vb_make_def Let_def vb_check_def guards_None split: option.splits sum.splits if_splits simp del: guards.simps)

lemma vb_create_Inr:
  assumes "vb_create sha256 rj i r d t = Inr v"
  shows "vb_fields v = vr_fields r" "vb_id v = i" "vb_source v = vr_source r"
    "vb_confirmation_required v \<longleftrightarrow> rvd_confirmation_required d \<or> vr_source r = VS_HUMAN"
    "assert_brief_schema (vr_category r) (vr_common_schema_version r) (vr_category_schema_version r)
      (map bf_path (vr_fields r)) = None"
    "\<exists>t. canonical_json (brief_payload rj (vr_category r) (vr_common_schema_version r) (vr_category_schema_version r)
      (vr_fields r)) = Inr t"
  using assms by (auto simp: vb_create_def payload_hash_def split: sum.splits dest!: vb_make_Inr)

section \<open>Calls and runs\<close>

datatype brief_command =
    Publish_Version brief_version int datetime
  | Reopen_For_Analysis int datetime
  | Confirm_Version string int datetime

fun pb_apply :: "brief_command \<Rightarrow> product_brief \<Rightarrow> product_brief" where
  "pb_apply (Publish_Version v e t) b = object_after (pb_publish_version v e t b)"
| "pb_apply (Reopen_For_Analysis e t) b = object_after (pb_reopen_for_analysis e t b)"
| "pb_apply (Confirm_Version i e t) b = object_after (pb_confirm i e t b)"

definition pb_run :: "brief_command list \<Rightarrow> product_brief \<Rightarrow> product_brief" where
  "pb_run cs b = foldl (\<lambda>b c. pb_apply c b) b cs"

definition confirmed_exactly :: "product_brief \<Rightarrow> bool" where
  "confirmed_exactly b \<longleftrightarrow>
     (pb_state b = PB_CONFIRMED \<longrightarrow> pb_current_version_id b \<noteq> None \<and> pb_confirmed_version_id b = pb_current_version_id b)"

lemma object_after_check: "object_after (check g s k) = (if g = None then object_after k else s)"
  by (cases g) simp_all

lemma pb_publish_object:
  "object_after (pb_publish_version v e t b) = b \<or>
   pb_current_version_id (object_after (pb_publish_version v e t b)) = Some (vb_id v) \<and>
   (if vb_confirmation_required v
    then pb_state (object_after (pb_publish_version v e t b)) = PB_AWAITING_CONFIRMATION \<and>
      pb_confirmed_version_id (object_after (pb_publish_version v e t b)) = pb_confirmed_version_id b
    else pb_state (object_after (pb_publish_version v e t b)) = PB_CONFIRMED \<and>
      pb_confirmed_version_id (object_after (pb_publish_version v e t b)) = Some (vb_id v))"
  by (simp add: pb_publish_version_def object_after_check Let_def del: guards.simps)

lemma pb_reopen_object:
  "object_after (pb_reopen_for_analysis e t b) = b \<or>
   pb_state (object_after (pb_reopen_for_analysis e t b)) = PB_DRAFT \<and>
   pb_confirmed_version_id (object_after (pb_reopen_for_analysis e t b)) = pb_confirmed_version_id b"
  by (simp add: pb_reopen_for_analysis_def object_after_check del: guards.simps)

lemma pb_confirm_object:
  "object_after (pb_confirm i e t b) = b \<or>
   pb_state b = PB_AWAITING_CONFIRMATION \<and> pb_current_version_id b = Some i \<and>
   pb_state (object_after (pb_confirm i e t b)) = PB_CONFIRMED \<and>
   pb_current_version_id (object_after (pb_confirm i e t b)) = Some i \<and>
   pb_confirmed_version_id (object_after (pb_confirm i e t b)) = Some i"
proof -
  have "guards [pb_assert_version e b, guard (Some i \<noteq> pb_current_version_id b) ConcurrencyError] = None \<Longrightarrow>
      pb_current_version_id b = Some i" by (simp add: guards_None del: guards.simps)
  then show ?thesis by (simp add: pb_confirm_def object_after_check del: guards.simps)
qed

lemma pb_apply_confirmed: "confirmed_exactly b \<Longrightarrow> confirmed_exactly (pb_apply c b)"
proof (cases c)
  case (Publish_Version v e t)
  assume "confirmed_exactly b"
  then show ?thesis
    using pb_publish_object [of v e t b] unfolding Publish_Version
    by (auto simp: confirmed_exactly_def split: if_splits)
next
  case (Reopen_For_Analysis e t)
  assume "confirmed_exactly b"
  then show ?thesis
    using pb_reopen_object [of e t b] unfolding Reopen_For_Analysis by (auto simp: confirmed_exactly_def)
next
  case (Confirm_Version i e t)
  assume "confirmed_exactly b"
  then show ?thesis
    using pb_confirm_object [of i e t b] unfolding Confirm_Version by (auto simp: confirmed_exactly_def)
qed

lemma pb_run_snoc: "pb_run (cs @ [c]) b = pb_apply c (pb_run cs b)"
  by (simp add: pb_run_def)

lemma pb_run_confirmed: "confirmed_exactly b \<Longrightarrow> confirmed_exactly (pb_run cs b)"
  by (induction cs rule: rev_induct) (simp_all add: pb_run_snoc pb_apply_confirmed, simp add: pb_run_def)

text \<open>How a confirmation comes about: a person confirms the current version, or it needed no confirmation.\<close>

definition human_confirms :: "brief_command list \<Rightarrow> product_brief \<Rightarrow> string \<Rightarrow> bool" where
  "human_confirms cs b i \<longleftrightarrow> (\<exists>pre e t post. cs = pre @ Confirm_Version i e t # post \<and>
     pb_state (pb_run pre b) = PB_AWAITING_CONFIRMATION \<and> pb_current_version_id (pb_run pre b) = Some i)"

lemma human_confirms_more: "human_confirms cs b i \<Longrightarrow> human_confirms (cs @ ds) b i"
  unfolding human_confirms_def by (metis append_Cons append_assoc)

definition published_versions :: "brief_command list \<Rightarrow> brief_version set" where
  "published_versions cs = {v. \<exists>e t. Publish_Version v e t \<in> set cs}"

lemma confirmation_origin:
  "pb_confirmed_version_id b = None \<Longrightarrow> pb_confirmed_version_id (pb_run cs b) = Some i \<Longrightarrow>
     human_confirms cs b i \<or> (\<exists>v \<in> published_versions cs. vb_id v = i \<and> \<not> vb_confirmation_required v)"
proof (induction cs rule: rev_induct)
  case (snoc c cs)
  let ?b = "pb_run cs b"
  show ?case
  proof (cases "pb_confirmed_version_id ?b = Some i")
    case True
    then show ?thesis using snoc.IH [OF snoc.prems(1)] human_confirms_more unfolding published_versions_def by fastforce
  next
    case False
    have new: "pb_confirmed_version_id (pb_apply c ?b) = Some i" using snoc.prems(2) by (simp add: pb_run_snoc)
    show ?thesis
    proof (cases c)
      case (Publish_Version v e t)
      then have "vb_id v = i \<and> \<not> vb_confirmation_required v"
        using False new pb_publish_object [of v e t ?b] by (auto split: if_splits)
      then show ?thesis unfolding published_versions_def Publish_Version by auto
    next
      case (Reopen_For_Analysis e t)
      then show ?thesis using False new pb_reopen_object [of e t ?b] by auto
    next
      case (Confirm_Version k e t)
      then have "k = i \<and> pb_state ?b = PB_AWAITING_CONFIRMATION \<and> pb_current_version_id ?b = Some i"
        using False new pb_confirm_object [of k e t ?b] by auto
      then show ?thesis unfolding human_confirms_def Confirm_Version by blast
    qed
  qed
qed (simp add: pb_run_def)

section \<open>Properties\<close>

text \<open>A version made from model or human output under a policy: its fields passed the risk floor, and it
  carries the verdict of the policy on them.\<close>

definition reviewed_version ::
  "(string \<Rightarrow> string) \<Rightarrow> (rat list \<Rightarrow> json) \<Rightarrow> review_policy \<Rightarrow> brief_version \<Rightarrow> bool" where
  "reviewed_version sha256 region_json p v \<longleftrightarrow> (\<exists>fs i r d t. enforce_risk_floor p fs = Inr (vr_fields r) \<and>
     evaluate p (vr_fields r) = Inr d \<and> vb_create sha256 region_json i r d t = Inr v)"

lemma reviewed_confirmation:
  assumes "reviewed_version sha256 rj p v"
  shows "vb_confirmation_required v \<longleftrightarrow> vb_source v = VS_HUMAN \<or> (\<exists>f \<in> set (vb_fields v). needs_review p f)"
proof -
  obtain fs i r d t where e: "evaluate p (vr_fields r) = Inr d" and c: "vb_create sha256 rj i r d t = Inr v"
    using assms unfolding reviewed_version_def by blast
  show ?thesis
    using evaluate_Inr [OF e] unfolding vb_create_Inr(1,3,4) [OF c] by blast
qed

lemma reviewed_claims:
  assumes "reviewed_version sha256 rj p v" "f \<in> set (vb_fields v)"
    and "bf_path f \<in> set (rvp_sensitive_claim_paths p)" "contains_claim (bf_value f)"
  shows "needs_review p f"
proof -
  obtain fs i r d t where f: "enforce_risk_floor p fs = Inr (vr_fields r)" and c: "vb_create sha256 rj i r d t = Inr v"
    using assms(1) unfolding reviewed_version_def by blast
  show ?thesis using risk_floor_Inr [OF f _ assms(3,4)] assms(2) unfolding vb_create_Inr(1) [OF c] by blast
qed

text \<open>C27: No brief is confirmed past an open review. After any sequence of publications, re-analyses and
  confirmations, a confirmed version that a person wrote, that has a field the policy flags, or that makes
  a claim on a sensitive path was confirmed by a call of \<open>confirm\<close> for exactly that version, while it was
  the current one and awaiting confirmation; and a brief in the state \<open>CONFIRMED\<close> points to its current
  version.\<close>

theorem brief_confirmation_guarded:
  assumes "pb_create i w flow pr by_user rc dl now = Inr b"
    and "\<forall>v \<in> published_versions cs. reviewed_version sha256 region_json p v"
    and "inj_on vb_id (published_versions cs)"
    and "v \<in> published_versions cs" "pb_confirmed_version_id (pb_run cs b) = Some (vb_id v)"
    and "vb_source v = VS_HUMAN \<or> (\<exists>f \<in> set (vb_fields v). needs_review p f \<or>
      bf_path f \<in> set (rvp_sensitive_claim_paths p) \<and> contains_claim (bf_value f))"
  shows "human_confirms cs b (vb_id v) \<and> confirmed_exactly (pb_run cs b)"
proof
  have b: "pb_confirmed_version_id b = None" "pb_state b = PB_DRAFT"
    using assms(1) by (auto simp: pb_create_def Let_def split: option.splits)
  have "vb_confirmation_required v"
    using assms(2,4,6) reviewed_confirmation reviewed_claims by blast
  then have "\<not> (\<exists>u \<in> published_versions cs. vb_id u = vb_id v \<and> \<not> vb_confirmation_required u)"
    using assms(3,4) by (metis inj_onD)
  then show "human_confirms cs b (vb_id v)" using confirmation_origin [OF b(1) assms(5)] by blast
  show "confirmed_exactly (pb_run cs b)"
    by (rule pb_run_confirmed) (simp add: confirmed_exactly_def b)
qed

section \<open>The size of a version\<close>

lemma sum_sorted: "sum_list (map f (sort_key k xs)) = sum_list (map f xs)" for f :: "'a \<Rightarrow> nat"
  by (metis mset_map mset_sort sum_mset_sum_list)

lemma evidence_nodes: "6 \<le> json_nodes (evidence_data rj e)"
  using json_nodes_pos [of "rj (the (ev_region e))"]
  by (cases "ev_region e"; cases "ev_excerpt_sha256 e") (simp_all add: evidence_data_def)

lemma field_nodes: "9 + 6 * length (bf_evidence f) \<le> json_nodes (field_data rj f)"
proof -
  let ?es = "sort_key evidence_key (bf_evidence f)"
  have "6 * length es \<le> sum_list (map (json_nodes \<circ> evidence_data rj) es)" for es :: "brief_evidence list"
    using evidence_nodes [of rj] by (induction es) (simp_all add: add_mono)
  from this [of ?es] show ?thesis
    using json_nodes_pos [of "bf_value f"] by (simp add: field_data_def)
qed

lemma payload_nodes:
  "5 + 9 * length fs + 6 * sum_list (map (length \<circ> bf_evidence) fs) \<le> json_nodes (brief_payload rj c cv sv fs)"
proof -
  have "9 * length gs + 6 * sum_list (map (length \<circ> bf_evidence) gs) \<le> sum_list (map (json_nodes \<circ> field_data rj) gs)"
    for gs :: "brief_field list"
  proof (induction gs)
    case (Cons g gs)
    then show ?case using field_nodes [of g rj] by simp
  qed simp
  from this [of "sort_key bf_path fs"] show ?thesis
    by (simp add: brief_payload_def sum_sorted)
qed

lemma schema_size: "assert_brief_schema c cv sv paths = None \<Longrightarrow> length paths = 22"
proof -
  assume a: "assert_brief_schema c cv sv paths = None"
  then have "distinct paths" "set paths = set (brief_field_paths c)"
    unfolding assert_brief_schema_def guards_None by auto
  then have "length paths = card (set (brief_field_paths c))" using distinct_card by metis
  also have "\<dots> = 22"
    by (cases c) (simp_all add: common_brief_fields_def beauty_brief_fields_def automotive_brief_fields_def)
  finally show ?thesis .
qed

lemma vb_check_error: "vb_check v = Some e \<Longrightarrow> e = ValueError"
proof -
  have s: "vb_source_check v = Some e \<Longrightarrow> e = ValueError"
    by (auto simp: vb_source_check_def both_Some split: if_splits)
  show "vb_check v = Some e \<Longrightarrow> e = ValueError"
    by (cases "vb_retention_deadline v")
      (auto simp: vb_check_def both_Some retention_check_def assert_brief_schema_def validate_workspace_id_def dest: s)
qed

lemma payload_hash_error: "payload_hash sha256 rj c cv sv fs = Inl e \<Longrightarrow> e = ValueError"
  by (auto simp: payload_hash_def split: sum.splits dest: canonical_json_error)

lemma vb_make_error: "vb_make sha256 rj w = Inl e \<Longrightarrow> e = ValueError"
  unfolding vb_make_def Let_def
  by (auto split: sum.splits option.splits if_splits dest: vb_check_error payload_hash_error)

lemma vb_create_error: "vb_create sha256 rj i r d t = Inl e \<Longrightarrow> e = ValueError"
  unfolding vb_create_def by (auto split: sum.splits dest: vb_make_error payload_hash_error)

text \<open>C28: The limits of the canonical form bound a whole version, not only the value of one field they are
  written for: fields that together carry 52 evidence records or more can never become a version, although
  every field may carry 32 and a brief has 22 fields; the constructor raises ValueError whatever else it
  is given.\<close>

theorem brief_evidence_bound:
  assumes "52 \<le> sum_list (map (length \<circ> bf_evidence) (vr_fields r))"
  shows "vb_create sha256 region_json i r d t = Inl ValueError"
proof (cases "vb_create sha256 region_json i r d t")
  case (Inl e)
  then show ?thesis using vb_create_error by simp
next
  case (Inr v)
  have "length (map bf_path (vr_fields r)) = 22" by (rule schema_size [OF vb_create_Inr(5) [OF Inr]])
  then have "513 \<le> json_nodes (brief_payload region_json (vr_category r) (vr_common_schema_version r)
      (vr_category_schema_version r) (vr_fields r))"
    using payload_nodes [of "vr_fields r" region_json] assms by (intro order_trans [OF _ payload_nodes]) simp
  then show ?thesis using vb_create_Inr(6) [OF Inr] by (auto simp: canonical_json_Inr)
qed

end
