(* ===== verification/Product_Brief_Samples.thy ===== *)
theory Product_Brief_Samples
  imports Product_Brief_Facts
begin

text \<open>
  A concrete brief: a complete set of fields, the version made of it under a policy, and its publication
  and confirmation. The length of a canonical text is computed without printing it.
\<close>

section \<open>The length of a text\<close>

definition plain :: "string \<Rightarrow> bool" where
  "plain s \<longleftrightarrow> list_all (\<lambda>c. escape_char True c = [c]) s"

fun plain_json :: "json \<Rightarrow> bool" where
  "plain_json (JStr s) \<longleftrightarrow> plain s"
| "plain_json (JArr xs) \<longleftrightarrow> list_all plain_json xs"
| "plain_json (JObj kvs) \<longleftrightarrow> list_all (\<lambda>(k, v). plain k \<and> plain_json v) kvs"
| "plain_json (JInt n) \<longleftrightarrow> False"
| "plain_json v \<longleftrightarrow> True"

text \<open>An upper bound: every element is counted with a separator.\<close>

fun json_len :: "json \<Rightarrow> nat" where
  "json_len JNull = 4"
| "json_len (JBool b) = 5"
| "json_len (JInt n) = 0"
| "json_len (JStr s) = 2 + length s"
| "json_len (JArr xs) = 2 + sum_list (map (\<lambda>x. json_len x + 1) xs)"
| "json_len (JObj kvs) = 2 + sum_list (map (\<lambda>(k, v). length k + 4 + json_len v) kvs)"

lemma plain_length: "plain s \<Longrightarrow> length (json_string True s) = 2 + length s"
  unfolding plain_def by (induction s) (auto simp: json_string_def)

lemma join_length: "length (join '','' xs) \<le> sum_list (map (\<lambda>x. length x + 1) xs)"
  by (induction "'',''" xs rule: join.induct) auto

lemma dumps_length: "plain_json v \<Longrightarrow> length (json_dumps True v) \<le> json_len v"
proof (induction v rule: json_len.induct)
  case (5 xs)
  have "length (join '','' (map (json_dumps True) xs)) \<le> sum_list (map (\<lambda>x. length (json_dumps True x) + 1) xs)"
    using join_length [of "map (json_dumps True) xs"] by (simp add: comp_def)
  also have "\<dots> \<le> sum_list (map (\<lambda>x. json_len x + 1) xs)"
    using 5 by (intro sum_list_mono) (simp add: list_all_iff)
  finally show ?case by simp
next
  case (6 kvs)
  let ?t = "member_text True (json_dumps True)"
  have "length (join '','' (map ?t (sort_key fst kvs))) \<le> sum_list (map (\<lambda>x. length (?t x) + 1) (sort_key fst kvs))"
    using join_length [of "map ?t (sort_key fst kvs)"] by (simp add: comp_def)
  also have "\<dots> = sum_list (map (\<lambda>x. length (?t x) + 1) kvs)" by (rule sum_sorted)
  also have "\<dots> \<le> sum_list (map (\<lambda>(k, v). length k + 4 + json_len v) kvs)"
    using 6 by (intro sum_list_mono) (fastforce simp: member_text_def list_all_iff plain_length)
  finally show ?case unfolding json_dumps_object by simp
qed (simp_all add: plain_length)

lemma canonical_plain:
  "plain_json v \<Longrightarrow> json_len v \<le> 16384 \<Longrightarrow> json_nodes v \<le> 512 \<Longrightarrow> json_depth_ok 0 v \<Longrightarrow>
     canonical_json v = Inr (json_dumps True v)"
  using dumps_length [of v] by (simp add: canonical_json_Inr)

lemmas plain_defs = plain_def escape_char_def short_escapes_def quote_def backslash_def code_def

section \<open>Fields\<close>

fun sample_value :: "brief_value_kind \<Rightarrow> json" where
  "sample_value VK_IDENTITY = JObj [(''kind'', JStr ''IDENTITY''), (''display_name'', JStr ''x'')]"
| "sample_value VK_CATEGORY = JObj [(''kind'', JStr ''CATEGORY''), (''code'', JStr ''c''), (''label'', JStr ''l'')]"
| "sample_value VK_TEXT = JObj [(''kind'', JStr ''TEXT''), (''text'', JStr ''t'')]"
| "sample_value VK_TEXT_LIST = JObj [(''kind'', JStr ''TEXT_LIST''), (''items'', JArr [])]"
| "sample_value VK_STATEMENT_LIST = JObj [(''kind'', JStr ''STATEMENT_LIST''), (''statements'', JArr [])]"
| "sample_value VK_FLAG_LIST = JObj [(''kind'', JStr ''FLAG_LIST''), (''flags'', JArr [])]"
| "sample_value VK_DIMENSION_LIST = JObj [(''kind'', JStr ''DIMENSION_LIST''), (''dimensions'', JArr [])]"

definition sample_evidence :: brief_evidence where
  "sample_evidence = \<lparr>ev_id = ''e'', ev_source_asset_version_id = ''a'', ev_kind = EK_HUMAN_NOTE,
     ev_reference = ''human-note://'' @ replicate 64 CHR ''a'', ev_region = None, ev_excerpt_sha256 = None\<rparr>"

definition sample_field :: "string \<times> brief_value_kind \<Rightarrow> brief_field" where
  "sample_field = (\<lambda>(path, k). \<lparr>bf_id = ''f'', bf_path = path, bf_value = sample_value k, bf_confidence = 1,
     bf_source = FS_MODEL, bf_conflict = FC_NONE, bf_review_required = False, bf_sensitive = True,
     bf_evidence = [sample_evidence]\<rparr>)"

definition beauty_kinds :: "(string \<times> brief_value_kind) list" where
  "beauty_kinds = take 22 brief_field_value_kinds"

definition sample_fields :: "brief_field list" where
  "sample_fields = map sample_field beauty_kinds"

lemma beauty_paths: "map fst beauty_kinds = brief_field_paths CAT_BEAUTY"
  by (simp add: beauty_kinds_def brief_field_value_kinds_def common_brief_fields_def beauty_brief_fields_def)

lemma beauty_distinct: "distinct (brief_field_paths CAT_BEAUTY)"
  by (simp add: common_brief_fields_def beauty_brief_fields_def)

lemma sample_kind: "(path, k) \<in> set beauty_kinds \<Longrightarrow> brief_field_value_kind path = Inr k"
proof -
  assume a: "(path, k) \<in> set beauty_kinds"
  have "distinct (map fst brief_field_value_kinds)" by (simp add: brief_field_value_kinds_def)
  moreover have "(path, k) \<in> set brief_field_value_kinds" using a in_set_takeD unfolding beauty_kinds_def by fast
  ultimately show ?thesis by (simp add: brief_field_value_kind_def)
qed

lemma sample_value_ok:
  "validate_kind_value k (case sample_value k of JObj kvs \<Rightarrow> kvs) = None"
  "canonical_json (sample_value k) = Inr (json_dumps True (sample_value k))"
  by (cases k; simp add: json_get_def validate_object_keys_def validate_optional_value_text_def json_true_text_def
      utf8_length_def code_def)
    (rule canonical_plain; cases k; simp add: plain_defs)+

lemma sample_value_object: "\<exists>kvs. sample_value k = JObj kvs \<and> json_get ''kind'' kvs = JStr (brief_value_kind_value k)"
  by (cases k) (simp_all add: json_get_def)

lemma sample_path_length: "(path, k) \<in> set beauty_kinds \<Longrightarrow> 1 \<le> length path \<and> length path \<le> 160"
  by (auto simp: beauty_kinds_def brief_field_value_kinds_def)

lemma round_one: "round_to_grid 10000 1 = 1"
  by (rule grid_fixed [of _ _ 10000]) simp_all

lemma sample_field_valid:
  assumes "pk \<in> set beauty_kinds"
  shows "bf_make (sample_field pk) = Inr (sample_field pk)"
proof -
  obtain path k where pk: "pk = (path, k)" by (cases pk)
  obtain kvs where v: "sample_value k = JObj kvs" "json_get ''kind'' kvs = JStr (brief_value_kind_value k)"
    using sample_value_object by blast
  have "validate_brief_field_value path (sample_value k) = None"
    using sample_kind [of path k] sample_value_ok(1) [of k] assms unfolding pk v(1) by (simp add: v(2))
  then show ?thesis
    using sample_path_length [of path k] assms
    unfolding pk by (simp add: sample_field_def bf_make_def sample_value_ok(2) confidence_def round_one)
qed

section \<open>A version\<close>

definition sample_review_policy :: review_policy where
  "sample_review_policy = \<lparr>rvp_policy_version = ''v'', rvp_confidence_threshold = 1, rvp_mandatory_review_paths = [],
     rvp_sensitive_claim_paths = []\<rparr>"

lemma sample_floor: "enforce_risk_floor sample_review_policy sample_fields = Inr sample_fields"
proof -
  have "list_all2 (\<lambda>f g. bf_make (raised_field sample_review_policy f) = Inr g) sample_fields sample_fields"
    unfolding sample_fields_def list_all2_map1 list_all2_map2 list_all2_same
    using sample_field_valid by (auto simp: raised_field_def sample_review_policy_def sample_field_def)
  then show ?thesis by (simp add: enforce_risk_floor_def collect_Inr)
qed

definition sample_decision :: review_decision where
  "sample_decision = (case evaluate sample_review_policy sample_fields of Inr d \<Rightarrow> d)"

lemma sample_evaluates: "evaluate sample_review_policy sample_fields = Inr sample_decision"
  by (simp add: sample_decision_def evaluate_def Let_def confidence_def sample_review_policy_def)

definition sample_version_request :: version_request where
  "sample_version_request = \<lparr>vr_workspace_id = ''w'', vr_product_brief_id = ''b'', vr_version_number = 1,
     vr_supersedes_version_id = None, vr_category = CAT_BEAUTY, vr_common_schema_version = common_schema_version,
     vr_category_schema_version = category_schema_version CAT_BEAUTY, vr_fields = sample_fields,
     vr_changed_field_paths = None, vr_source = VS_MODEL, vr_prompt_version = Some ''p'',
     vr_provider_call_id = Some ''c'', vr_actor_id = ''u'', vr_revision_reason = None,
     vr_retention_class = RC_FOUNDATION, vr_retention_deadline = None\<rparr>"

lemma sum_bound: "(\<And>x. x \<in> set xs \<Longrightarrow> f x \<le> c) \<Longrightarrow> sum_list (map f xs) \<le> length xs * c" for f :: "'a \<Rightarrow> nat"
  by (induction xs) (simp_all add: add_mono)

lemma sample_value_size:
  "plain_json (sample_value k)" "json_len (sample_value k) \<le> 100" "json_nodes (sample_value k) \<le> 4"
  "json_depth_ok 3 (sample_value k)"
  by (cases k; simp add: plain_defs)+

lemma sample_paths: "list_all (\<lambda>(path, k). plain path \<and> length path \<le> 60) beauty_kinds"
  by (simp add: beauty_kinds_def brief_field_value_kinds_def plain_defs)

lemma sample_confidence: "confidence_text 1 = ''1.0000''"
  by (simp add: confidence_text_def str_of_int_def str_of_nat.simps format_dec_numeral dec_digits)

lemma sample_evidence_size:
  "plain_json (evidence_data (\<lambda>r. JNull) sample_evidence)" "json_len (evidence_data (\<lambda>r. JNull) sample_evidence) \<le> 220"
  "json_nodes (evidence_data (\<lambda>r. JNull) sample_evidence) \<le> 6" "json_depth_ok 4 (evidence_data (\<lambda>r. JNull) sample_evidence)"
  by (simp_all add: evidence_data_def sample_evidence_def plain_defs list_all_iff)

lemma sample_field_size:
  assumes "pk \<in> set beauty_kinds"
  shows "plain_json (field_data (\<lambda>r. JNull) (sample_field pk)) \<and> json_len (field_data (\<lambda>r. JNull) (sample_field pk)) \<le> 600 \<and>
    json_nodes (field_data (\<lambda>r. JNull) (sample_field pk)) \<le> 19 \<and> json_depth_ok 2 (field_data (\<lambda>r. JNull) (sample_field pk))"
proof -
  obtain path k where pk: "pk = (path, k)" by (cases pk)
  have path: "plain path" "length path \<le> 60" using sample_paths assms unfolding pk list_all_iff by auto
  note v = sample_value_size [of k] and e = sample_evidence_size
  have d: "field_data (\<lambda>r. JNull) (sample_field pk) = JObj
     [(''confidence'', JStr ''1.0000''), (''conflict'', JStr ''NONE''),
      (''evidence'', JArr [evidence_data (\<lambda>r. JNull) sample_evidence]), (''path'', JStr path),
      (''review_required'', JBool False), (''sensitive'', JBool True), (''source'', JStr ''MODEL''),
      (''value'', sample_value k)]"
    by (simp add: pk field_data_def sample_field_def sample_confidence)
  have keys: "list_all plain [''confidence'', ''conflict'', ''evidence'', ''path'', ''review_required'', ''sensitive'', ''source'',
      ''value'', ''1.0000'', ''NONE'', ''MODEL'']"
    by (simp add: plain_defs)
  show ?thesis
    unfolding d using path v e keys by simp
qed

lemma sample_payload:
  "\<exists>t. canonical_json (brief_payload (\<lambda>r. JNull) CAT_BEAUTY common_schema_version (category_schema_version CAT_BEAUTY)
     sample_fields) = Inr t"
proof -
  let ?fs = "sort_key bf_path sample_fields" and ?d = "field_data (\<lambda>r. JNull)"
  have n: "length ?fs = 22" by (simp add: sample_fields_def beauty_kinds_def brief_field_value_kinds_def)
  have m: "plain_json (?d f) \<and> json_len (?d f) \<le> 600 \<and> json_nodes (?d f) \<le> 19 \<and> json_depth_ok 2 (?d f)"
    if "f \<in> set ?fs" for f
    using that sample_field_size unfolding sample_fields_def by auto
  have len: "sum_list (map (\<lambda>f. json_len (?d f) + 1) ?fs) \<le> 13222"
    using sum_bound [of ?fs "\<lambda>f. json_len (?d f) + 1" 601] m n by simp
  have nodes: "sum_list (map (\<lambda>f. json_nodes (?d f)) ?fs) \<le> 418"
    using sum_bound [of ?fs "\<lambda>f. json_nodes (?d f)" 19] m n by simp
  have keys: "list_all plain [''BEAUTY'', ''category'', ''category_schema_version'', ''common_schema_version'', ''fields'',
      ''product-brief-beauty-v1'', ''product-brief-common-v1'']"
    by (simp add: plain_defs)
  have "canonical_json (brief_payload (\<lambda>r. JNull) CAT_BEAUTY common_schema_version (category_schema_version CAT_BEAUTY)
     sample_fields) = Inr (json_dumps True (brief_payload (\<lambda>r. JNull) CAT_BEAUTY common_schema_version
       (category_schema_version CAT_BEAUTY) sample_fields))"
    by (rule canonical_plain; unfold brief_payload_def)
      (use m len nodes keys in \<open>simp_all add: list_all_iff comp_def common_schema_version_def numeral_2_eq_2\<close>)
  then show ?thesis by blast
qed

definition sample_payload_text :: string where
  "sample_payload_text = (case canonical_json (brief_payload (\<lambda>r. JNull) CAT_BEAUTY common_schema_version
     (category_schema_version CAT_BEAUTY) sample_fields) of Inr t \<Rightarrow> t)"

definition sample_brief_version :: brief_version where
  "sample_brief_version = \<lparr>vb_id = ''v1'', vb_workspace_id = ''w'', vb_product_brief_id = ''b'', vb_version_number = 1,
     vb_supersedes_version_id = None, vb_category = CAT_BEAUTY, vb_common_schema_version = common_schema_version,
     vb_category_schema_version = category_schema_version CAT_BEAUTY, vb_fields = sample_fields,
     vb_changed_field_paths = sort (brief_field_paths CAT_BEAUTY), vb_payload_sha256 = sample_payload_text,
     vb_confirmation_required = True,
     vb_unresolved_field_count = rvd_unresolved_field_count sample_decision,
     vb_review_policy_version = rvd_policy_version sample_decision, vb_source = VS_MODEL,
     vb_prompt_version = Some ''p'', vb_provider_call_id = Some ''c'', vb_actor_id = ''u'', vb_revision_reason = None,
     vb_retention_class = RC_FOUNDATION, vb_retention_deadline = None, vb_created_at = utc 0\<rparr>"

lemma sample_field_paths: "map bf_path sample_fields = brief_field_paths CAT_BEAUTY"
proof -
  have "bf_path (sample_field pk) = fst pk" for pk by (cases pk) (simp add: sample_field_def)
  then show ?thesis unfolding sample_fields_def map_map comp_def beauty_paths [symmetric] by simp
qed

lemma sample_needs_review: "f \<in> set sample_fields \<Longrightarrow> needs_review sample_review_policy f"
  by (auto simp: sample_fields_def sample_field_def needs_review_def)

lemma sample_confirmation: "rvd_confirmation_required sample_decision"
proof -
  have "sample_fields \<noteq> []" by (simp add: sample_fields_def beauty_kinds_def brief_field_value_kinds_def)
  then have "last sample_fields \<in> set sample_fields" by (rule last_in_set)
  then show ?thesis using evaluate_Inr [OF sample_evaluates] sample_needs_review by blast
qed

lemma sample_payload_hash:
  "payload_hash (\<lambda>s. s) (\<lambda>r. JNull) CAT_BEAUTY common_schema_version (category_schema_version CAT_BEAUTY) sample_fields =
     Inr sample_payload_text"
  using sample_payload by (auto simp: payload_hash_def sample_payload_text_def simp del: category_schema_version.simps)

lemma sample_vb_check: "vb_check sample_brief_version = None"
proof -
  have ne: "brief_field_paths CAT_BEAUTY \<noteq> []" by (simp add: common_brief_fields_def)
  have ne2: "sort (brief_field_paths CAT_BEAUTY) \<noteq> []" using ne by (metis length_0_conv length_sort)
  have img: "bf_path ` set sample_fields = set (brief_field_paths CAT_BEAUTY)" by (metis sample_field_paths set_map)
  have "assert_brief_schema CAT_BEAUTY common_schema_version (category_schema_version CAT_BEAUTY)
      (map bf_path sample_fields) = None"
    unfolding sample_field_paths assert_brief_schema_def guards_None using beauty_distinct by (simp del: brief_field_paths.simps)
  moreover have "vb_source_check sample_brief_version = None"
    by (simp add: vb_source_check_def sample_brief_version_def no_text_def img del: brief_field_paths.simps)
  ultimately show ?thesis
    unfolding vb_check_def guards_None
    using beauty_distinct ne2 img
    by (simp add: sample_brief_version_def retention_check_def validate_workspace_id_def is_valid_workspace_id_def
        class_defs code_def del: brief_field_paths.simps category_schema_version.simps)
qed

lemma sample_version_created:
  "vb_create (\<lambda>s. s) (\<lambda>r. JNull) ''v1'' sample_version_request sample_decision (utc 0) = Inr sample_brief_version"
proof -
  have made: "vb_make (\<lambda>s. s) (\<lambda>r. JNull) (sample_brief_version\<lparr>vb_changed_field_paths := brief_field_paths CAT_BEAUTY\<rparr>) =
      Inr sample_brief_version"
  proof -
    have "(sample_brief_version\<lparr>vb_changed_field_paths := brief_field_paths CAT_BEAUTY\<rparr>)
        \<lparr>vb_changed_field_paths := sort (brief_field_paths CAT_BEAUTY)\<rparr> = sample_brief_version"
      by (simp add: sample_brief_version_def)
    then show ?thesis
      using sample_vb_check sample_payload_hash
      by (simp add: vb_make_def Let_def sample_brief_version_def del: brief_field_paths.simps category_schema_version.simps)
  qed
  show ?thesis
    using made sample_payload_hash sample_confirmation
    by (simp add: vb_create_def sample_version_request_def sample_field_paths sample_brief_version_def
        del: brief_field_paths.simps category_schema_version.simps)
qed

lemma sample_reviewed: "reviewed_version (\<lambda>s. s) (\<lambda>r. JNull) sample_review_policy sample_brief_version"
  unfolding reviewed_version_def
  using sample_floor sample_evaluates sample_version_created by (force simp: sample_version_request_def)

section \<open>The brief\<close>

definition sample_brief :: product_brief where
  "sample_brief = \<lparr>pb_id = ''b'', pb_workspace_id = ''w'', pb_workflow_id = ''f'', pb_product_id = ''p'', pb_created_by = ''u'',
     pb_state = PB_DRAFT, pb_current_version_id = None, pb_confirmed_version_id = None, pb_version = 1,
     pb_retention_class = RC_FOUNDATION, pb_retention_deadline = None, pb_created_at = utc 0, pb_updated_at = utc 0\<rparr>"

definition sample_brief_calls :: "brief_command list" where
  "sample_brief_calls = [Publish_Version sample_brief_version 1 (utc 1), Confirm_Version ''v1'' 2 (utc 2)]"

lemma sample_brief_created: "pb_create ''b'' ''w'' ''f'' ''p'' ''u'' RC_FOUNDATION None (utc 0) = Inr sample_brief"
  by (simp add: pb_create_def pb_check_def retention_check_def sample_brief_def validate_workspace_id_def
      is_valid_workspace_id_def class_defs code_def)

lemma sample_brief_confirmed: "pb_confirmed_version_id (pb_run sample_brief_calls sample_brief) = Some ''v1''"
  by (simp add: sample_brief_calls_def pb_run_def pb_publish_version_def pb_confirm_def pb_assert_version_def
      sample_brief_def sample_brief_version_def)

theorem brief_confirmation_guarded_witness:
  "human_confirms sample_brief_calls sample_brief ''v1''"
proof -
  have p: "published_versions sample_brief_calls = {sample_brief_version}"
    by (auto simp: published_versions_def sample_brief_calls_def)
  have v: "vb_id sample_brief_version = ''v1''" by (simp add: sample_brief_version_def)
  have "\<exists>f \<in> set (vb_fields sample_brief_version). needs_review sample_review_policy f"
    using sample_confirmation evaluate_Inr [OF sample_evaluates] by (simp add: sample_brief_version_def)
  then show ?thesis
    using brief_confirmation_guarded [OF sample_brief_created, of sample_brief_calls "\<lambda>s. s" "\<lambda>r. JNull"
        sample_review_policy sample_brief_version]
    by (simp add: p sample_reviewed v sample_brief_confirmed) blast
qed

definition crowded_request :: version_request where
  "crowded_request = sample_version_request
     \<lparr>vr_fields := map (\<lambda>f. f\<lparr>bf_evidence := replicate 3 sample_evidence\<rparr>) sample_fields\<rparr>"

theorem brief_evidence_bound_witness:
  "vb_create (\<lambda>s. s) (\<lambda>r. JNull) ''v1'' crowded_request sample_decision (utc 0) = Inl ValueError"
  by (rule brief_evidence_bound)
    (simp add: crowded_request_def sample_fields_def beauty_kinds_def brief_field_value_kinds_def)

end
