(* ===== verification/Tool_Runtime.thy ===== *)
theory Tool_Runtime
  imports Json_Text "HOL-Library.Product_Lexorder"
begin

text \<open>
  The tool runtime (\<open>packages/tool-runtime\<close>: \<open>models.py\<close>, \<open>policy.py\<close>, \<open>registry.py\<close>, \<open>gateway.py\<close>): the
  registry of versioned tools, the server-side policy, and the gateway that runs a tool between them.

  A tool acts on a world \<open>'w\<close> that the model does not look into; a typed value of a pydantic model is an
  element of \<open>'m\<close>. The methods of a pydantic model and the implementation of a tool are fields of the
  definition that holds them, since neither is code of this package. A \<open>dict\<close> of arguments or of output
  is a list of members, a \<open>frozenset\<close> a set.
\<close>

section \<open>Invocations and results\<close>

record tool_execution_context =
  tc_workflow_id :: string
  tc_workspace_id :: string
  tc_actor_id :: string
  tc_trace_id :: string
  tc_idempotency_key :: string
  tc_policy_version :: string
  tc_scopes :: "string set"
  tc_purpose :: string
  tc_provider :: string
  tc_requires_derivative :: bool
  tc_maximum_result_count :: int
  tc_maximum_candidate_count :: int
  tc_maximum_output_bytes :: int
  tc_started_at :: datetime

definition tc_check :: "tool_execution_context \<Rightarrow> error option" where
  "tc_check c = guards
     [validate_workspace_id (tc_workspace_id c),
      guard (tc_maximum_result_count c < 1) ValueError,
      guard (tc_maximum_candidate_count c < tc_maximum_result_count c) ValueError,
      guard (tc_maximum_output_bytes c < 1) ValueError]"

record tool_invocation =
  inv_tool_name :: string
  inv_tool_version :: string
  inv_arguments :: "(string \<times> json) list"
  inv_idempotency_key :: string
  inv_policy_version :: string
  inv_reason :: string

record tool_result =
  res_tool_name :: string
  res_tool_version :: string
  res_idempotency_key :: string
  res_output :: "(string \<times> json) list"
  res_provider_request_id :: "string option"
  res_cost_amount_minor :: int
  res_currency :: string
  res_completed_at :: datetime

text \<open>The bytes of \<open>json.dumps(value, ensure_ascii=False, sort_keys=True, separators=(",", ":"))\<close> in UTF-8.\<close>

definition json_bytes :: "(string \<times> json) list \<Rightarrow> int" where
  "json_bytes kvs = int (utf8_length (json_dumps False (JObj kvs)))"

section \<open>Policy\<close>

record 'w tool_policy =
  pol_version :: string
  pol_allowed_tools :: "string set"
  pol_max_argument_bytes :: int
  pol_transaction_active :: "'w \<Rightarrow> bool"

definition pol_create :: "string \<Rightarrow> string set \<Rightarrow> int \<Rightarrow> ('w \<Rightarrow> bool) option \<Rightarrow> error + 'w tool_policy" where
  "pol_create version allowed_tools max_argument_bytes transaction_active =
     (if max_argument_bytes < 1 then Inl ValueError
      else Inr \<lparr>pol_version = version, pol_allowed_tools = allowed_tools,
                pol_max_argument_bytes = max_argument_bytes,
                pol_transaction_active = or_else transaction_active (\<lambda>w. False)\<rparr>)"

definition pol_validate :: "'w tool_policy \<Rightarrow> tool_invocation \<Rightarrow> 'w \<Rightarrow> error option" where
  "pol_validate p invocation w = guards
     [guard (inv_policy_version invocation \<noteq> pol_version p) ToolPolicyError,
      guard (inv_tool_name invocation \<notin> pol_allowed_tools p) ToolPolicyError,
      guard (strip (inv_reason invocation) = []) ToolPolicyError,
      guard (pol_max_argument_bytes p < json_bytes (inv_arguments invocation)) ToolPolicyError,
      guard (pol_transaction_active p w) ToolPolicyError]"

section \<open>Registry\<close>

datatype tool_cost_class = LOW | STANDARD | HIGH

datatype tool_audit_level = METADATA | RESOURCE_IDENTITIES

text \<open>
  A pydantic model: its schema, \<open>model_validate\<close> (\<open>None\<close> is a \<open>ValidationError\<close>) in the declared mode and
  with \<open>strict=True, extra="forbid"\<close>, and \<open>model_dump\<close> in its two modes.
\<close>

record 'm pydantic_model =
  pm_schema :: json
  pm_validate :: "(string \<times> json) list \<Rightarrow> 'm option"
  pm_validate_strict :: "(string \<times> json) list \<Rightarrow> 'm option"
  pm_dump_python :: "'m \<Rightarrow> (string \<times> json) list"
  pm_dump_json :: "'m \<Rightarrow> (string \<times> json) list"

record ('w, 'm) tool_definition =
  tl_name :: string
  tl_version :: string
  tl_description :: string
  tl_input_schema :: json
  tl_output_schema :: json
  tl_implementation :: "(tool_execution_context \<Rightarrow> tool_invocation \<Rightarrow> 'w \<Rightarrow> (tool_result, 'w) outcome) option"
  tl_input_model :: "'m pydantic_model option"
  tl_output_model :: "'m pydantic_model option"
  tl_required_scopes :: "string set"
  tl_allowed_nodes :: "string set"
  tl_resource_resolver :: "('m \<Rightarrow> error + string list) option"
  tl_provider :: "string option"
  tl_cost_class :: tool_cost_class
  tl_audit_level :: tool_audit_level
  tl_maximum_output_bytes :: int
  tl_enabled :: bool

definition tl_check :: "('w, 'm) tool_definition \<Rightarrow> error option" where
  "tl_check d = guards
     [guard (\<not> is_token (tl_name d)) ValueError, guard (\<not> is_token (tl_version d)) ValueError,
      guard (\<exists>node \<in> tl_allowed_nodes d. \<not> is_token node) ValueError,
      guard (tl_maximum_output_bytes d < 1) ValueError,
      (case tl_provider d of
         None \<Rightarrow> None
       | Some p \<Rightarrow> guard (p = [] \<or> 128 < length p) ValueError)]"

text \<open>\<open>_definitions\<close>: a \<open>dict\<close> from (name, version), in the order of registration.\<close>

type_synonym ('w, 'm) tool_registry = "((string \<times> string) \<times> ('w, 'm) tool_definition) list"

definition tl_key :: "('w, 'm) tool_definition \<Rightarrow> string \<times> string" where
  "tl_key d = (tl_name d, tl_version d)"

definition reg_register :: "('w, 'm) tool_definition \<Rightarrow> ('w, 'm) tool_registry \<Rightarrow> error + ('w, 'm) tool_registry" where
  "reg_register d r =
     (if map_of r (tl_key d) \<noteq> None then Inl ToolRegistryError else Inr (r @ [(tl_key d, d)]))"

fun reg_register_all ::
  "('w, 'm) tool_definition list \<Rightarrow> ('w, 'm) tool_registry \<Rightarrow> error + ('w, 'm) tool_registry" where
  "reg_register_all [] r = Inr r"
| "reg_register_all (d # ds) r = attempt (reg_register d r) (reg_register_all ds)"

definition reg_create :: "('w, 'm) tool_definition list \<Rightarrow> error + ('w, 'm) tool_registry" where
  "reg_create ds = reg_register_all ds []"

definition reg_resolve :: "('w, 'm) tool_registry \<Rightarrow> string \<Rightarrow> string \<Rightarrow> error + ('w, 'm) tool_definition" where
  "reg_resolve r name version =
     (case map_of r (name, version) of
        None \<Rightarrow> Inl ToolRegistryError
      | Some d \<Rightarrow> if tl_enabled d then Inr d else Inl ToolRegistryError)"

text \<open>\<open>dict\<close> values compare without regard to the order of their members.\<close>

definition reg_resolve_for_node ::
  "('w, 'm) tool_registry \<Rightarrow> string \<Rightarrow> string \<Rightarrow> string \<Rightarrow> error + ('w, 'm) tool_definition" where
  "reg_resolve_for_node r name version node =
     attempt (reg_resolve r name version) (\<lambda>d.
       case (tl_input_model d, tl_resource_resolver d) of
         (Some m, Some resolver) \<Rightarrow>
           ensure (guards
             [guard (json_norm (tl_input_schema d) \<noteq> json_norm (pm_schema m)) ToolRegistryError,
              guard (node \<notin> tl_allowed_nodes d) ToolRegistryError]) (Inr d)
       | _ \<Rightarrow> Inl ToolRegistryError)"

definition reg_list :: "('w, 'm) tool_registry \<Rightarrow> ('w, 'm) tool_definition list" where
  "reg_list r = sort_key tl_key (map snd r)"

section \<open>Gateway\<close>

definition stable_tool_key ::
  "(string \<Rightarrow> string) \<Rightarrow> string \<Rightarrow> string \<Rightarrow> string \<Rightarrow> string \<Rightarrow> string \<Rightarrow> (string \<times> json) list \<Rightarrow> string" where
  "stable_tool_key sha256 workflow_id step_key tool_name tool_version policy_version arguments =
     sha256 (join ''|'' [workflow_id, step_key, tool_name, tool_version, policy_version,
       json_dumps True (JObj arguments)])"

text \<open>The invocation with its arguments validated and dumped by the input model.\<close>

definition validated_invocation ::
  "('w, 'm) tool_definition \<Rightarrow> tool_invocation \<Rightarrow> error + tool_invocation" where
  "validated_invocation d invocation =
     (case tl_input_model d of
        None \<Rightarrow> Inr invocation
      | Some m \<Rightarrow>
          (case pm_validate m (inv_arguments invocation) of
             None \<Rightarrow> Inl (ToolExecutionError False)
           | Some validated \<Rightarrow> Inr (invocation\<lparr>inv_arguments := pm_dump_python m validated\<rparr>)))"

definition validated_result :: "('w, 'm) tool_definition \<Rightarrow> tool_result \<Rightarrow> error + tool_result" where
  "validated_result d r =
     (case tl_output_model d of
        None \<Rightarrow> Inr r
      | Some m \<Rightarrow>
          (case pm_validate m (res_output r) of
             None \<Rightarrow> Inl (ToolExecutionError False)
           | Some validated \<Rightarrow> Inr (r\<lparr>res_output := pm_dump_json m validated\<rparr>)))"

text \<open>The checks before the implementation runs, and those on its result.\<close>

definition gateway_admit ::
  "('w, 'm) tool_registry \<Rightarrow> 'w tool_policy \<Rightarrow> tool_execution_context \<Rightarrow> tool_invocation \<Rightarrow> 'w \<Rightarrow>
     error + ('w, 'm) tool_definition \<times>
       (tool_execution_context \<Rightarrow> tool_invocation \<Rightarrow> 'w \<Rightarrow> (tool_result, 'w) outcome) \<times> tool_invocation" where
  "gateway_admit r p ctx invocation w =
     ensure (pol_validate p invocation w)
       (attempt (reg_resolve r (inv_tool_name invocation) (inv_tool_version invocation)) (\<lambda>d.
          case tl_implementation d of
            None \<Rightarrow> Inl (ToolExecutionError False)
          | Some implementation \<Rightarrow>
              ensure (guard (\<not> tl_required_scopes d \<subseteq> tc_scopes ctx) ToolPolicyError)
                (attempt (validated_invocation d invocation) (\<lambda>call. Inr (d, implementation, call)))))"

definition gateway_accept ::
  "('w, 'm) tool_definition \<Rightarrow> tool_execution_context \<Rightarrow> tool_invocation \<Rightarrow> tool_result \<Rightarrow> error + tool_result" where
  "gateway_accept d ctx call r =
     ensure (guard (res_tool_name r \<noteq> tl_name d \<or> res_tool_version r \<noteq> tl_version d \<or>
         res_idempotency_key r \<noteq> inv_idempotency_key call) (ToolExecutionError False))
       (attempt (validated_result d r) (\<lambda>r'.
          ensure (guard (min (tl_maximum_output_bytes d) (tc_maximum_output_bytes ctx) < json_bytes (res_output r'))
              (ToolExecutionError False)) (Inr r')))"

definition gateway_execute ::
  "('w, 'm) tool_registry \<Rightarrow> 'w tool_policy \<Rightarrow> tool_execution_context \<Rightarrow> tool_invocation \<Rightarrow> 'w \<Rightarrow>
     (tool_result, 'w) outcome" where
  "gateway_execute r p ctx invocation w =
     branch (gateway_admit r p ctx invocation w) w (\<lambda>(d, implementation, call).
       andthen (implementation ctx call w) (\<lambda>result w'.
         branch (gateway_accept d ctx call result) w' (\<lambda>result'. Done result' w')))"

end
