(* ===== verification/Json_Shape.thy ===== *)
theory Json_Shape
  imports Json_Facts "HOL-Library.Multiset"
begin

text \<open>
  The bounded scan of a JSON value that creative plans and planning contexts run before they serialise
  it: an explicit stack of values and depths, whose top is the head of the list. The limits and the check
  of one value are parameters, since the two modules differ in them. The scan is shown equal to a
  recursive reading of the value, and blind to the order of object members.
\<close>

section \<open>The scan\<close>

text \<open>What the scan pushes for a value; an object pushes its keys as well.\<close>

fun shape_children :: "json \<Rightarrow> json list" where
  "shape_children (JObj kvs) = concat (map (\<lambda>(k, v). [JStr k, v]) kvs)"
| "shape_children (JArr xs) = xs"
| "shape_children v = []"

text \<open>The number of values the scan visits; it bounds the loop.\<close>

fun scan_nodes :: "json \<Rightarrow> nat" where
  "scan_nodes (JObj kvs) = Suc (sum_list (map (\<lambda>(k, v). Suc (scan_nodes v)) kvs))"
| "scan_nodes (JArr xs) = Suc (sum_list (map scan_nodes xs))"
| "scan_nodes v = 1"

definition stack_scan_nodes :: "json list \<Rightarrow> nat" where
  "stack_scan_nodes vs = sum_list (map scan_nodes vs)"

lemma stack_scan_nodes_simps [simp]:
  "stack_scan_nodes [] = 0" "stack_scan_nodes (v # vs) = scan_nodes v + stack_scan_nodes vs"
  "stack_scan_nodes (us @ vs) = stack_scan_nodes us + stack_scan_nodes vs" "stack_scan_nodes (rev us) = stack_scan_nodes us"
  by (simp_all add: stack_scan_nodes_def sum_list_rev flip: rev_map)

lemma scan_nodes_children: "scan_nodes v = Suc (stack_scan_nodes (shape_children v))"
proof (cases v)
  case (JObj kvs)
  have "sum_list (map (\<lambda>(k, v). Suc (scan_nodes v)) kvs) = stack_scan_nodes (shape_children (JObj kvs))"
    by (induction kvs) auto
  then show ?thesis by (simp add: JObj)
qed (simp_all add: stack_scan_nodes_def)

function shape_loop ::
  "nat \<Rightarrow> nat \<Rightarrow> (json \<Rightarrow> error option) \<Rightarrow> (json \<times> nat) list \<Rightarrow> nat \<Rightarrow> error option" where
  "shape_loop max_nodes max_depth check_value [] visited = None"
| "shape_loop max_nodes max_depth check_value ((current, depth) # stack) visited =
     both (guards [guard (max_nodes < Suc visited) ValueError, guard (max_depth < depth) ValueError,
         check_value current])
       (shape_loop max_nodes max_depth check_value
         (rev (map (\<lambda>v. (v, Suc depth)) (shape_children current)) @ stack) (Suc visited))"
  by pat_completeness auto

termination
  by (relation "measure (\<lambda>(n, d, c, stack, visited). stack_scan_nodes (map fst stack))")
    (simp_all add: scan_nodes_children rev_map [symmetric] comp_def)

section \<open>The recursive reading\<close>

fun scan_depth :: "json \<Rightarrow> nat" where
  "scan_depth (JObj kvs) = foldr (\<lambda>(k, v) d. max (Suc (scan_depth v)) d) kvs 0"
| "scan_depth (JArr xs) = foldr (\<lambda>v d. max (Suc (scan_depth v)) d) xs 0"
| "scan_depth v = 0"

text \<open>Every value passes the check, keys included.\<close>

fun every_value :: "(json \<Rightarrow> bool) \<Rightarrow> json \<Rightarrow> bool" where
  "every_value P (JObj kvs) \<longleftrightarrow> P (JObj kvs) \<and> list_all (\<lambda>(k, v). P (JStr k) \<and> every_value P v) kvs"
| "every_value P (JArr xs) \<longleftrightarrow> P (JArr xs) \<and> list_all (every_value P) xs"
| "every_value P v \<longleftrightarrow> P v"

definition shaped :: "nat \<Rightarrow> nat \<Rightarrow> (json \<Rightarrow> error option) \<Rightarrow> json \<Rightarrow> bool" where
  "shaped max_nodes max_depth check_value v \<longleftrightarrow>
     scan_nodes v \<le> max_nodes \<and> scan_depth v \<le> max_depth \<and> every_value (\<lambda>u. check_value u = None) v"

lemma foldr_max_le: "foldr (\<lambda>x d. max (f x) d) xs 0 \<le> (n :: nat) \<longleftrightarrow> (\<forall>x \<in> set xs. f x \<le> n)"
  by (induction xs) auto

lemma scan_depth_children: "d + scan_depth v \<le> n \<longleftrightarrow> d \<le> n \<and> (\<forall>u \<in> set (shape_children v). Suc d + scan_depth u \<le> n)"
proof (cases v)
  case (JObj kvs)
  have "scan_depth v \<le> m \<longleftrightarrow> (\<forall>(k, u) \<in> set kvs. Suc (scan_depth u) \<le> m)" for m
    using foldr_max_le [of "\<lambda>(k, u). Suc (scan_depth u)" kvs m] by (simp add: JObj split_def)
  then show ?thesis using le_diff_conv2 [of d n "scan_depth v"] by (cases "d \<le> n") (force simp: JObj)+
next
  case (JArr xs)
  have "scan_depth v \<le> m \<longleftrightarrow> (\<forall>u \<in> set xs. Suc (scan_depth u) \<le> m)" for m
    using foldr_max_le [of "\<lambda>u. Suc (scan_depth u)" xs m] by (simp add: JArr)
  then show ?thesis using le_diff_conv2 [of d n "scan_depth v"] by (cases "d \<le> n") (force simp: JArr)+
qed simp_all

lemma every_children: "every_value P v \<longleftrightarrow> P v \<and> (\<forall>u \<in> set (shape_children v). every_value P u)"
  by (cases v) (auto simp: list_all_iff)

definition stack_shaped :: "nat \<Rightarrow> (json \<Rightarrow> error option) \<Rightarrow> (json \<times> nat) list \<Rightarrow> bool" where
  "stack_shaped max_depth check_value stack \<longleftrightarrow>
     (\<forall>(v, d) \<in> set stack. d + scan_depth v \<le> max_depth \<and> every_value (\<lambda>u. check_value u = None) v)"

lemma stack_shaped_parts:
  "stack_shaped m c (s @ t) \<longleftrightarrow> stack_shaped m c s \<and> stack_shaped m c t"
  "stack_shaped m c (rev s) \<longleftrightarrow> stack_shaped m c s"
  "stack_shaped m c (map (\<lambda>u. (u, d)) us) \<longleftrightarrow>
     (\<forall>u \<in> set us. d + scan_depth u \<le> m) \<and> (\<forall>u \<in> set us. every_value (\<lambda>u. c u = None) u)"
  by (auto simp: stack_shaped_def)

lemma stack_shaped_step:
  "stack_shaped max_depth check_value ((v, d) # stack) \<longleftrightarrow> d \<le> max_depth \<and> check_value v = None \<and>
     stack_shaped max_depth check_value (rev (map (\<lambda>u. (u, Suc d)) (shape_children v)) @ stack)"
proof -
  have "stack_shaped max_depth check_value ((v, d) # stack) \<longleftrightarrow>
      d + scan_depth v \<le> max_depth \<and> every_value (\<lambda>u. check_value u = None) v \<and>
      stack_shaped max_depth check_value stack" by (auto simp: stack_shaped_def)
  then show ?thesis
    unfolding scan_depth_children [of d v] every_children [of _ v] stack_shaped_parts by blast
qed

lemma shape_loop_None:
  "shape_loop max_nodes max_depth check_value stack visited = None \<longleftrightarrow>
     stack_shaped max_depth check_value stack \<and> (stack = [] \<or> visited + stack_scan_nodes (map fst stack) \<le> max_nodes)"
proof (induction max_nodes max_depth check_value stack visited rule: shape_loop.induct)
  case (2 max_nodes max_depth check_value v d stack visited)
  let ?next = "rev (map (\<lambda>u. (u, Suc d)) (shape_children v)) @ stack"
  have n: "stack_scan_nodes (map fst ((v, d) # stack)) = Suc (stack_scan_nodes (map fst ?next))"
    by (simp add: scan_nodes_children rev_map [symmetric] comp_def)
  have e: "?next = [] \<Longrightarrow> stack_scan_nodes (map fst ?next) = 0" by simp
  have "shape_loop max_nodes max_depth check_value ((v, d) # stack) visited = None \<longleftrightarrow>
      Suc visited \<le> max_nodes \<and> d \<le> max_depth \<and> check_value v = None \<and>
      shape_loop max_nodes max_depth check_value ?next (Suc visited) = None"
    by (auto simp: guards_None simp del: guards.simps)
  also have "\<dots> \<longleftrightarrow> d \<le> max_depth \<and> check_value v = None \<and> stack_shaped max_depth check_value ?next \<and>
      Suc visited + stack_scan_nodes (map fst ?next) \<le> max_nodes"
    unfolding 2 using e by (metis add.right_neutral add_leD1)
  finally show ?case unfolding stack_shaped_step [of max_depth check_value v d stack] n by auto
qed (simp add: stack_shaped_def)

definition raises_value_error :: "error option \<Rightarrow> bool" where
  "raises_value_error g \<longleftrightarrow> g = None \<or> g = Some ValueError"

lemma raises_value_error_simps [simp]:
  "raises_value_error None" "raises_value_error (Some e) \<longleftrightarrow> e = ValueError"
  "raises_value_error (guard b ValueError)"
  by (auto simp: raises_value_error_def guard_def)

lemma raises_value_error_both [simp]:
  "raises_value_error a \<Longrightarrow> raises_value_error b \<Longrightarrow> raises_value_error (both a b)"
  by (cases a) simp_all

lemma value_error_guard: "raises_value_error g \<Longrightarrow> (g = None \<longleftrightarrow> \<not> bad) \<Longrightarrow> g = guard bad ValueError"
  by (auto simp: raises_value_error_def guard_def)

lemma shape_loop_error:
  "\<forall>v. raises_value_error (check_value v) \<Longrightarrow>
     raises_value_error (shape_loop max_nodes max_depth check_value stack visited)"
  by (induction max_nodes max_depth check_value stack visited rule: shape_loop.induct) simp_all

text \<open>The scan decides the recursive reading.\<close>

lemma shape_loop_exact:
  assumes "\<forall>v. raises_value_error (check_value v)"
  shows "shape_loop max_nodes max_depth check_value [(v, 0)] 0 =
    guard (\<not> shaped max_nodes max_depth check_value v) ValueError"
  using shape_loop_None [of max_nodes max_depth check_value "[(v, 0)]" 0]
  by (intro value_error_guard shape_loop_error assms) (auto simp: shaped_def stack_shaped_def)

section \<open>Canonical values\<close>

text \<open>A value and its canonical form have the same text and the same shape.\<close>

lemma sum_list_sort: "sum_list (map f (sort_key g xs)) = sum_list (map f xs)" for f :: "'a \<Rightarrow> nat"
  by (metis mset_map mset_sort sum_mset_sum_list)

lemma scan_nodes_norm: "scan_nodes (json_norm v) = scan_nodes v"
proof (induction v)
  case (JArr xs)
  then have "map scan_nodes (map json_norm xs) = map scan_nodes xs" by simp
  then show ?case by (simp only: json_norm.simps scan_nodes.simps)
next
  case (JObj kvs)
  have "map (\<lambda>(k, v). Suc (scan_nodes v)) (map (\<lambda>(k, v). (k, json_norm v)) (sort_key fst kvs)) =
      map (\<lambda>(k, v). Suc (scan_nodes v)) (sort_key fst kvs)"
    using JObj by fastforce
  then show ?case unfolding json_norm_object scan_nodes.simps by (simp only: sum_list_sort)
qed simp_all

lemma scan_depth_le:
  "scan_depth (JObj kvs) \<le> n \<longleftrightarrow> (\<forall>(k, v) \<in> set kvs. Suc (scan_depth v) \<le> n)"
  "scan_depth (JArr xs) \<le> n \<longleftrightarrow> (\<forall>v \<in> set xs. Suc (scan_depth v) \<le> n)"
  using foldr_max_le [of "\<lambda>(k, u). Suc (scan_depth u)" kvs n] foldr_max_le [of "\<lambda>u. Suc (scan_depth u)" xs n]
  by (simp_all add: split_def)

lemma scan_depth_norm: "scan_depth (json_norm v) = scan_depth v"
proof -
  have "scan_depth (json_norm v) \<le> n \<longleftrightarrow> scan_depth v \<le> n" for n
  proof (induction v arbitrary: n)
    case (JArr xs)
    have "scan_depth (json_norm x) = scan_depth x" if "x \<in> set xs" for x
      using JArr [OF that] by (meson le_antisym order_refl)
    then show ?case unfolding json_norm.simps scan_depth_le by auto
  next
    case (JObj kvs)
    have "scan_depth (json_norm x) = scan_depth x" if "(k, x) \<in> set kvs" for k x
      using JObj [OF that, of x] by (auto intro: le_antisym)
    then show ?case unfolding json_norm_object scan_depth_le by fastforce
  qed simp_all
  then show ?thesis by (meson le_antisym order_refl)
qed

lemma every_value_norm:
  assumes "\<And>v. P (json_norm v) \<longleftrightarrow> P v"
  shows "every_value P (json_norm v) \<longleftrightarrow> every_value P v"
proof (induction v)
  case (JArr xs)
  have "P (JArr (map json_norm xs)) \<longleftrightarrow> P (JArr xs)" using assms [of "JArr xs"] by simp
  then show ?case using JArr by (simp add: list_all_iff)
next
  case (JObj kvs)
  have "P (json_norm (JObj kvs)) \<longleftrightarrow> P (JObj kvs)" by (rule assms)
  then show ?case using JObj unfolding json_norm_object by (fastforce simp: list_all_iff)
qed (use assms [of JNull] assms [of "JBool _"] assms [of "JInt _"] assms [of "JStr _"] in simp_all)

lemma shaped_norm:
  assumes "\<And>v. check_value (json_norm v) = check_value v"
  shows "shaped max_nodes max_depth check_value (json_norm v) \<longleftrightarrow> shaped max_nodes max_depth check_value v"
  using every_value_norm [of "\<lambda>u. check_value u = None" v] assms
  by (simp add: shaped_def scan_nodes_norm scan_depth_norm)

section \<open>Decoded values\<close>

text \<open>What the decoder answers is a value Python can hold.\<close>

lemma dict_of_ok:
  assumes "\<forall>(k, v) \<in> set kvs. P v"
  shows "distinct (map fst (dict_of kvs)) \<and> (\<forall>(k, v) \<in> set (dict_of kvs). P v)"
proof -
  have "distinct (map fst d) \<Longrightarrow> \<forall>(k, v) \<in> set d. P v \<Longrightarrow> \<forall>(k, v) \<in> set kvs. P v \<Longrightarrow>
      distinct (map fst (foldl (\<lambda>d (k, v). AList.update k v d) d kvs)) \<and>
      (\<forall>(k, v) \<in> set (foldl (\<lambda>d (k, v). AList.update k v d) d kvs). P v)" for d
  proof (induction kvs arbitrary: d)
    case (Cons x kvs)
    obtain k v where x: "x = (k, v)" by fastforce
    have "set (AList.update k v d) \<subseteq> insert (k, v) (set d)" by (induction d) auto
    then have "\<forall>(k, v) \<in> set (AList.update k v d). P v" using Cons.prems by (auto simp: x)
    then show ?case using Cons.IH [of "AList.update k v d"] Cons.prems by (simp add: x distinct_update)
  qed simp
  from this [of "[]"] assms show ?thesis by (simp add: dict_of_def)
qed

lemma decoded_ok:
  "json_value unique n s = Some (v, r) \<Longrightarrow> json_ok v"
  "json_items unique n s = Some (vs, r) \<Longrightarrow> list_all json_ok vs"
  "json_members unique n s = Some (kvs, r) \<Longrightarrow> list_all (\<lambda>(k, v). json_ok v) kvs"
proof (induction unique n s and unique n s and unique n s arbitrary: v r and vs r and kvs r
    rule: json_value_json_items_json_members.induct)
  case (2 unique n s)
  have number: "json_number t = Some (v, r) \<Longrightarrow> json_ok v" for t
    by (auto simp: json_number_def Let_def split: if_splits)
  have object: "list_all (\<lambda>(k, v). json_ok v) kvs \<Longrightarrow> json_ok (JObj (dict_of kvs))" for kvs
    using dict_of_ok [of kvs json_ok] by (simp add: list_all_iff)
  have empty: "json_ok (JObj [])" by simp
  obtain c t where c: "skip_blank s = c # t" using "2.prems" by (auto split: list.splits)
  show ?case using "2.prems" "2.IH" [OF c] number [of "c # t"] object empty
    by (auto simp: c simp del: json_ok.simps(2) split: if_splits option.splits)
next
  case (4 unique n s)
  then show ?case by (auto split: option.splits list.splits if_splits)
next
  case (6 unique n s)
  then show ?case by (auto split: option.splits list.splits if_splits)
qed simp_all

lemma json_decode_ok: "json_decode unique s = Inr v \<Longrightarrow> json_ok v"
  using decoded_ok(1) [of unique "2 * length s + 2" s]
  by (auto simp: json_decode_def simp del: json_value.simps split: option.splits if_splits)

end
