(* ===== verification/Creative_Plans.thy ===== *)
theory Creative_Plans
  imports Json_Shape Provider_Routing
begin

text \<open>
  Creative plans (\<open>creative_plans.py\<close>): the tool intents, directions and payload a planner proposes, the
  provenance of a plan, its immutable versions and the head that points to the current one. The scans
  over JSON values keep an explicit stack like the code; its top is the head of the list. Numbers of
  tool arguments are integers (theory \<open>Json_Text\<close>). SHA-256 is an argument, and so are the identifier and
  the instant a call draws.
\<close>

section \<open>Validators of sequences and numbers\<close>

definition validate_positive :: "int \<Rightarrow> int \<Rightarrow> error option" where
  "validate_positive maximum n = guard (\<not> (1 \<le> n \<and> n \<le> maximum)) ValueError"

definition max_items :: nat where "max_items = 32"

definition plan_text_tuple :: "bool \<Rightarrow> string list \<Rightarrow> error option" where
  "plan_text_tuple allow_empty xs = guards
     [guard (max_items < length xs \<or> xs = [] \<and> \<not> allow_empty) ValueError,
      guards (map (validate_text 512) xs), guard (\<not> distinct xs) ValueError]"

definition plan_token_tuple :: "bool \<Rightarrow> string list \<Rightarrow> error option" where
  "plan_token_tuple allow_empty xs = guards
     [guard (max_items < length xs \<or> xs = [] \<and> \<not> allow_empty) ValueError,
      guards (map validate_token xs), guard (\<not> distinct xs) ValueError]"

section \<open>The shape of a JSON value\<close>

fun plan_value_check :: "json \<Rightarrow> error option" where
  "plan_value_check (JStr s) = guards
     [guard (4096 < length s) ValueError, guard (list_ex is_control s) ValueError]"
| "plan_value_check (JObj kvs) = guard (64 < length kvs) ValueError"
| "plan_value_check (JArr xs) = guard (64 < length xs) ValueError"
| "plan_value_check v = None"

definition validate_json_shape :: "json \<Rightarrow> error option" where
  "validate_json_shape v = shape_loop 512 8 plan_value_check [(v, 0)] 0"

definition plan_canonical_json :: "json \<Rightarrow> error + string" where
  "plan_canonical_json v =
     (case validate_json_shape v of
        Some e \<Rightarrow> Inl e
      | None \<Rightarrow>
          let encoded = json_dumps True v
          in if 65536 < length encoded then Inl ValueError else Inr encoded)"

section \<open>External authority\<close>

definition external_authority_fields :: "string set" where
  "external_authority_fields =
     {''access_key'', ''actor_id'', ''api_key'', ''approval_id'', ''approval_token'', ''authorization'', ''bucket'',
      ''credential'', ''credentials'', ''endpoint'', ''file_path'', ''headers'', ''http_method'',
      ''idempotency_key'', ''lease_token'', ''object_key'', ''password'', ''path'', ''principal'', ''secret'',
      ''sql'', ''token'', ''uri'', ''url'', ''workspace_id''}"

definition is_lower :: "char \<Rightarrow> bool" where "is_lower c \<longleftrightarrow> between 97 122 c"

definition is_upper :: "char \<Rightarrow> bool" where "is_upper c \<longleftrightarrow> between 65 90 c"

text \<open>
  \<open>_FIELD_NAME_BOUNDARY_PATTERN.sub("_", key)\<close>: an underscore between a lower-case letter or digit and an
  upper-case letter, and before the last capital of a run of capitals that a lower-case letter follows.
\<close>

definition boundary :: "char \<Rightarrow> char \<Rightarrow> string \<Rightarrow> bool" where
  "boundary p c cs \<longleftrightarrow> (is_lower p \<or> is_digit p) \<and> is_upper c \<or>
     is_upper p \<and> is_upper c \<and> cs \<noteq> [] \<and> is_lower (hd cs)"

fun split_words :: "string \<Rightarrow> string" where
  "split_words (p # c # cs) = (if boundary p c cs then p # CHR ''_'' # split_words (c # cs) else p # split_words (c # cs))"
| "split_words s = s"

text \<open>\<open>[^A-Za-z0-9]+\<close> replaced by one underscore, and \<open>strip("_")\<close>.\<close>

fun join_words :: "string \<Rightarrow> string" where
  "join_words [] = []"
| "join_words (c # cs) =
     (if is_alnum c then c # join_words cs
      else if cs \<noteq> [] \<and> \<not> is_alnum (hd cs) then join_words cs else CHR ''_'' # join_words cs)"

definition strip_underscores :: "string \<Rightarrow> string" where
  "strip_underscores s = rev (dropWhile ((=) CHR ''_'') (rev (dropWhile ((=) CHR ''_'') s)))"

definition field_name :: "string \<Rightarrow> string" where
  "field_name k = lower (strip_underscores (join_words (split_words k)))"

text \<open>\<open>^(?:[a-z][a-z0-9+.-]*://|data:)\<close> without regard to case, and \<open>^[A-Za-z]:[\\/]\<close>.\<close>

definition is_scheme_char :: "char \<Rightarrow> bool" where
  "is_scheme_char c \<longleftrightarrow> is_alnum c \<or> c \<in> set ''+.-''"

definition external_reference :: "string \<Rightarrow> bool" where
  "external_reference s \<longleftrightarrow>
     s \<noteq> [] \<and> (is_lower (hd s) \<or> is_upper (hd s)) \<and> starts_with ''://'' (dropWhile is_scheme_char (tl s)) \<or>
     starts_with ''data:'' (lower s)"

definition absolute_path :: "string \<Rightarrow> bool" where
  "absolute_path s \<longleftrightarrow>
     3 \<le> length s \<and> (is_lower (hd s) \<or> is_upper (hd s)) \<and> s ! 1 = CHR '':'' \<and> s ! 2 \<in> {backslash, CHR ''/''} \<or>
     s \<noteq> [] \<and> hd s \<in> {CHR ''/'', backslash}"

definition external_value :: "string \<Rightarrow> bool" where
  "external_value s \<longleftrightarrow> external_reference (strip s) \<or> absolute_path (strip s)"

lemma stack_scan_nodes_values: "stack_scan_nodes (map snd kvs) \<le> sum_list (map (\<lambda>(k, v). Suc (scan_nodes v)) kvs)"
  by (induction kvs) auto

function authority_loop :: "json list \<Rightarrow> error option" where
  "authority_loop [] = None"
| "authority_loop (JObj kvs # stack) =
     both (guard (\<exists>(k, v) \<in> set kvs. field_name k \<in> external_authority_fields) ValueError)
       (authority_loop (rev (map snd kvs) @ stack))"
| "authority_loop (JArr xs # stack) = authority_loop (rev xs @ stack)"
| "authority_loop (JStr s # stack) = both (guard (external_value s) ValueError) (authority_loop stack)"
| "authority_loop (JNull # stack) = authority_loop stack"
| "authority_loop (JBool b # stack) = authority_loop stack"
| "authority_loop (JInt n # stack) = authority_loop stack"
  by pat_completeness auto

termination
  by (relation "measure stack_scan_nodes")
    (use stack_scan_nodes_values in \<open>auto simp: less_Suc_eq_le stack_scan_nodes_def simp flip: rev_map\<close>)

definition reject_external_authority :: "json \<Rightarrow> error option" where
  "reject_external_authority v = authority_loop [v]"

section \<open>Tool intents\<close>

record tool_intent_proposal =
  tip_intent_key :: string
  tip_tool_name :: string
  tip_schema_version :: string
  tip_purpose :: string
  tip_arguments_json :: string
  tip_estimated_cost_units :: int

text \<open>The checks of the arguments: canonical text of an object that names no external authority.\<close>

definition tip_arguments_check :: "string \<Rightarrow> error option" where
  "tip_arguments_check text =
     (if 16384 < length text then Some ValueError
      else case json_loads text of
        Inr (JObj kvs) \<Rightarrow>
          both (case plan_canonical_json (JObj kvs) of
              Inl e \<Rightarrow> Some e
            | Inr canonical \<Rightarrow> guard (canonical \<noteq> text) ValueError)
            (reject_external_authority (JObj kvs))
      | _ \<Rightarrow> Some ValueError)"

definition tip_check :: "tool_intent_proposal \<Rightarrow> error option" where
  "tip_check p = guards
     [validate_token (tip_intent_key p), validate_token (tip_tool_name p), validate_token (tip_schema_version p),
      validate_text 512 (tip_purpose p), tip_arguments_check (tip_arguments_json p),
      validate_positive 1000000 (tip_estimated_cost_units p)]"

definition tip_create ::
  "string \<Rightarrow> string \<Rightarrow> string \<Rightarrow> string \<Rightarrow> (string \<times> json) list \<Rightarrow> int \<Rightarrow> error + tool_intent_proposal" where
  "tip_create intent_key tool_name schema_version purpose arguments estimated_cost_units =
     (case plan_canonical_json (JObj arguments) of
        Inl e \<Rightarrow> Inl e
      | Inr text \<Rightarrow>
          let p = \<lparr>tip_intent_key = intent_key, tip_tool_name = tool_name, tip_schema_version = schema_version,
                   tip_purpose = purpose, tip_arguments_json = text,
                   tip_estimated_cost_units = estimated_cost_units\<rparr>
          in case tip_check p of Some e \<Rightarrow> Inl e | None \<Rightarrow> Inr p)"

text \<open>\<open>json.loads\<close> cannot fail here: the constructor has read the same text.\<close>

definition tip_data :: "tool_intent_proposal \<Rightarrow> json" where
  "tip_data p = JObj
     [(''intent_key'', JStr (tip_intent_key p)), (''tool_name'', JStr (tip_tool_name p)),
      (''schema_version'', JStr (tip_schema_version p)), (''purpose'', JStr (tip_purpose p)),
      (''arguments'', (case json_loads (tip_arguments_json p) of Inr v \<Rightarrow> v | Inl e \<Rightarrow> JNull)),
      (''estimated_cost_units'', JInt (tip_estimated_cost_units p))]"

section \<open>Directions\<close>

text \<open>\<open>ImageRole\<close> is declared with the router, which reads it.\<close>

fun role_value :: "image_role \<Rightarrow> string" where
  "role_value MAIN = ''MAIN''"
| "role_value HERO = ''HERO''"
| "role_value SCENE = ''SCENE''"
| "role_value DETAIL = ''DETAIL''"
| "role_value SELLING_POINT = ''SELLING_POINT''"

record citation_selection =
  cite_citation_id :: string
  cite_reason :: string

definition cite_check :: "citation_selection \<Rightarrow> error option" where
  "cite_check c = guards [validate_token (cite_citation_id c), validate_text 512 (cite_reason c)]"

definition cite_data :: "citation_selection \<Rightarrow> json" where
  "cite_data c = JObj [(''citation_id'', JStr (cite_citation_id c)), (''reason'', JStr (cite_reason c))]"

record creative_plan_direction =
  dir_key :: string
  dir_image_role :: image_role
  dir_scene :: string
  dir_composition :: string
  dir_camera :: string
  dir_lighting :: string
  dir_color_direction :: string
  dir_product_constraints :: "string list"
  dir_required_elements :: "string list"
  dir_prohibited_elements :: "string list"
  dir_citation_selections :: "citation_selection list"
  dir_candidate_count :: int
  dir_quality_targets :: "string list"
  dir_repair_scope :: "string list"
  dir_tool_intents :: "tool_intent_proposal list"

text \<open>The constructor checks the fields and sorts citations and intents. The items themselves are
  objects that passed their own constructors.\<close>

definition dir_check :: "creative_plan_direction \<Rightarrow> error option" where
  "dir_check d = guards
     [validate_token (dir_key d),
      validate_text 1024 (dir_scene d), validate_text 1024 (dir_composition d), validate_text 1024 (dir_camera d),
      validate_text 1024 (dir_lighting d), validate_text 1024 (dir_color_direction d),
      plan_text_tuple False (dir_product_constraints d), plan_text_tuple False (dir_required_elements d),
      plan_text_tuple True (dir_prohibited_elements d),
      guard (max_items < length (dir_citation_selections d)) ValueError,
      guard (\<not> distinct (map cite_citation_id (dir_citation_selections d))) ValueError,
      validate_positive 16 (dir_candidate_count d), plan_text_tuple False (dir_quality_targets d),
      plan_token_tuple True (dir_repair_scope d),
      guard (16 < length (dir_tool_intents d)) ValueError,
      guard (\<not> distinct (map tip_intent_key (dir_tool_intents d))) ValueError]"

definition dir_create :: "creative_plan_direction \<Rightarrow> error + creative_plan_direction" where
  "dir_create d =
     (case dir_check d of
        Some e \<Rightarrow> Inl e
      | None \<Rightarrow> Inr (d\<lparr>dir_citation_selections := sort_key cite_citation_id (dir_citation_selections d),
                       dir_tool_intents := sort_key tip_intent_key (dir_tool_intents d)\<rparr>))"

definition dir_data :: "creative_plan_direction \<Rightarrow> json" where
  "dir_data d = JObj
     [(''key'', JStr (dir_key d)), (''image_role'', JStr (role_value (dir_image_role d))),
      (''scene'', JStr (dir_scene d)), (''composition'', JStr (dir_composition d)),
      (''camera'', JStr (dir_camera d)), (''lighting'', JStr (dir_lighting d)),
      (''color_direction'', JStr (dir_color_direction d)),
      (''product_constraints'', json_strings (dir_product_constraints d)),
      (''required_elements'', json_strings (dir_required_elements d)),
      (''prohibited_elements'', json_strings (dir_prohibited_elements d)),
      (''citation_selections'', JArr (map cite_data (dir_citation_selections d))),
      (''candidate_count'', JInt (dir_candidate_count d)),
      (''quality_targets'', json_strings (dir_quality_targets d)),
      (''repair_scope'', json_strings (dir_repair_scope d)),
      (''tool_intents'', JArr (map tip_data (dir_tool_intents d)))]"

section \<open>Payload and provenance\<close>

record creative_plan_payload =
  cpp_directions :: "creative_plan_direction list"
  cpp_schema_version :: string

definition payload_intents :: "creative_plan_payload \<Rightarrow> tool_intent_proposal list" where
  "payload_intents p = concat (map dir_tool_intents (cpp_directions p))"

definition cpp_check :: "creative_plan_payload \<Rightarrow> error option" where
  "cpp_check p = guards
     [guard (cpp_schema_version p \<noteq> ''creative-plan.v1'') ValueError,
      guard (\<not> (1 \<le> length (cpp_directions p) \<and> length (cpp_directions p) \<le> 12)) ValueError,
      guard (\<not> distinct (map dir_key (cpp_directions p))) ValueError,
      guard (\<not> distinct (map tip_intent_key (payload_intents p))) ValueError]"

definition cpp_create :: "creative_plan_payload \<Rightarrow> error + creative_plan_payload" where
  "cpp_create p =
     (case cpp_check p of
        Some e \<Rightarrow> Inl e
      | None \<Rightarrow> Inr (p\<lparr>cpp_directions := sort_key dir_key (cpp_directions p)\<rparr>))"

definition cpp_data :: "creative_plan_payload \<Rightarrow> json" where
  "cpp_data p = JObj
     [(''schema_version'', JStr (cpp_schema_version p)), (''directions'', JArr (map dir_data (cpp_directions p)))]"

definition payload_sha256 :: "(string \<Rightarrow> string) \<Rightarrow> creative_plan_payload \<Rightarrow> error + string" where
  "payload_sha256 sha256 p =
     (case plan_canonical_json (cpp_data p) of Inl e \<Rightarrow> Inl e | Inr text \<Rightarrow> Inr (sha256 text))"

record creative_plan_provenance =
  prov_product_brief_id :: string
  prov_product_brief_version :: int
  prov_product_brief_sha256 :: string
  prov_brand_profile_id :: "string option"
  prov_brand_profile_version :: "int option"
  prov_brand_profile_sha256 :: "string option"
  prov_retrieval_run_id :: string
  prov_retrieval_citation_ids :: "string list"
  prov_context_policy_version :: string
  prov_context_sha256 :: string
  prov_prompt_id :: string
  prov_prompt_revision :: string
  prov_prompt_sha256 :: string

definition prov_brand_check :: "creative_plan_provenance \<Rightarrow> error option" where
  "prov_brand_check p =
     (case (prov_brand_profile_id p, prov_brand_profile_version p, prov_brand_profile_sha256 p) of
        (None, None, None) \<Rightarrow> None
      | (Some i, Some n, Some h) \<Rightarrow> guards [validate_uuid i, validate_positive 1000000 n, validate_sha256 h]
      | _ \<Rightarrow> Some ValueError)"

definition prov_check :: "creative_plan_provenance \<Rightarrow> error option" where
  "prov_check p = guards
     [validate_uuid (prov_product_brief_id p), validate_positive 1000000 (prov_product_brief_version p),
      validate_sha256 (prov_product_brief_sha256 p), prov_brand_check p, validate_uuid (prov_retrieval_run_id p),
      plan_token_tuple True (prov_retrieval_citation_ids p), validate_token (prov_context_policy_version p),
      validate_sha256 (prov_context_sha256 p), validate_token (prov_prompt_id p),
      validate_token (prov_prompt_revision p), validate_sha256 (prov_prompt_sha256 p)]"

section \<open>Versions\<close>

datatype creative_plan_source = AGENT | USER

record creative_plan_version =
  cpv_id :: string
  cpv_workspace_id :: string
  cpv_workflow_id :: string
  cpv_creative_plan_id :: string
  cpv_version_number :: int
  cpv_supersedes_version_id :: "string option"
  cpv_source :: creative_plan_source
  cpv_payload :: creative_plan_payload
  cpv_provenance :: creative_plan_provenance
  cpv_payload_sha256 :: string
  cpv_actor_id :: string
  cpv_revision_reason :: "string option"
  cpv_created_at :: datetime

definition selected_citations :: "creative_plan_payload \<Rightarrow> string list" where
  "selected_citations p = concat (map (\<lambda>d. map cite_citation_id (dir_citation_selections d)) (cpp_directions p))"

definition cpv_supersedes_check :: "creative_plan_version \<Rightarrow> error option" where
  "cpv_supersedes_check v = guards
     [guard (cpv_version_number v = 1 \<and> cpv_supersedes_version_id v \<noteq> None) ValueError,
      guard (1 < cpv_version_number v \<and> cpv_supersedes_version_id v = None) ValueError,
      (case cpv_supersedes_version_id v of None \<Rightarrow> None | Some i \<Rightarrow> validate_uuid i)]"

definition cpv_payload_check :: "(string \<Rightarrow> string) \<Rightarrow> creative_plan_version \<Rightarrow> error option" where
  "cpv_payload_check sha256 v =
     (case payload_sha256 sha256 (cpv_payload v) of
        Inl e \<Rightarrow> Some e
      | Inr digest \<Rightarrow> guards
          [guard (cpv_payload_sha256 v \<noteq> digest) ValueError,
           guard (\<not> set (selected_citations (cpv_payload v)) \<subseteq>
             set (prov_retrieval_citation_ids (cpv_provenance v))) ValueError])"

definition cpv_reason_check :: "creative_plan_version \<Rightarrow> error option" where
  "cpv_reason_check v =
     (case cpv_source v of
        USER \<Rightarrow> guards
          [guard (cpv_version_number v = 1 \<or> cpv_revision_reason v \<in> {None, Some []}) ValueError,
           (case cpv_revision_reason v of None \<Rightarrow> None | Some r \<Rightarrow> validate_text 512 r)]
      | AGENT \<Rightarrow> guard (cpv_revision_reason v \<noteq> None) ValueError)"

definition cpv_check :: "(string \<Rightarrow> string) \<Rightarrow> creative_plan_version \<Rightarrow> error option" where
  "cpv_check sha256 v = guards
     [validate_uuid (cpv_id v), validate_workspace_id (cpv_workspace_id v), validate_uuid (cpv_workflow_id v),
      validate_uuid (cpv_creative_plan_id v), validate_positive 1000000 (cpv_version_number v),
      cpv_supersedes_check v, cpv_payload_check sha256 v, validate_token (cpv_actor_id v),
      cpv_reason_check v, require_utc (cpv_created_at v)]"

definition cpv_create ::
  "(string \<Rightarrow> string) \<Rightarrow> string \<Rightarrow> string \<Rightarrow> string \<Rightarrow> string \<Rightarrow> int \<Rightarrow> string option \<Rightarrow>
     creative_plan_source \<Rightarrow> creative_plan_payload \<Rightarrow> creative_plan_provenance \<Rightarrow> string \<Rightarrow> string option \<Rightarrow>
     datetime \<Rightarrow> error + creative_plan_version" where
  "cpv_create sha256 new_id workspace_id workflow_id creative_plan_id version_number supersedes source payload
     provenance actor_id revision_reason now =
     (case payload_sha256 sha256 payload of
        Inl e \<Rightarrow> Inl e
      | Inr digest \<Rightarrow>
          let v = \<lparr>cpv_id = new_id, cpv_workspace_id = workspace_id, cpv_workflow_id = workflow_id,
                   cpv_creative_plan_id = creative_plan_id, cpv_version_number = version_number,
                   cpv_supersedes_version_id = supersedes, cpv_source = source, cpv_payload = payload,
                   cpv_provenance = provenance, cpv_payload_sha256 = digest, cpv_actor_id = actor_id,
                   cpv_revision_reason = revision_reason, cpv_created_at = now\<rparr>
          in case cpv_check sha256 v of Some e \<Rightarrow> Inl e | None \<Rightarrow> Inr v)"

definition cpv_revise_by_user ::
  "(string \<Rightarrow> string) \<Rightarrow> string \<Rightarrow> creative_plan_payload \<Rightarrow> string \<Rightarrow> string \<Rightarrow> datetime \<Rightarrow> creative_plan_version \<Rightarrow>
     error + creative_plan_version" where
  "cpv_revise_by_user sha256 new_id payload actor_id reason now v =
     cpv_create sha256 new_id (cpv_workspace_id v) (cpv_workflow_id v) (cpv_creative_plan_id v)
       (cpv_version_number v + 1) (Some (cpv_id v)) USER payload (cpv_provenance v) actor_id (Some reason) now"

definition cpv_revise_by_agent ::
  "(string \<Rightarrow> string) \<Rightarrow> string \<Rightarrow> creative_plan_payload \<Rightarrow> creative_plan_provenance \<Rightarrow> string \<Rightarrow> datetime \<Rightarrow>
     creative_plan_version \<Rightarrow> error + creative_plan_version" where
  "cpv_revise_by_agent sha256 new_id payload provenance actor_id now v =
     cpv_create sha256 new_id (cpv_workspace_id v) (cpv_workflow_id v) (cpv_creative_plan_id v)
       (cpv_version_number v + 1) (Some (cpv_id v)) AGENT payload provenance actor_id None now"

section \<open>Heads\<close>

record creative_plan_head =
  cph_workspace_id :: string
  cph_workflow_id :: string
  cph_creative_plan_id :: string
  cph_current_version_id :: string
  cph_current_version_number :: int
  cph_version :: int
  cph_retain_until :: datetime
  cph_created_at :: datetime
  cph_updated_at :: datetime

definition cph_check :: "creative_plan_head \<Rightarrow> error option" where
  "cph_check h = guards
     [validate_workspace_id (cph_workspace_id h), validate_uuid (cph_workflow_id h),
      validate_uuid (cph_creative_plan_id h), validate_uuid (cph_current_version_id h),
      validate_positive 1000000 (cph_current_version_number h), validate_positive 1000000 (cph_version h),
      guard (cph_version h \<noteq> cph_current_version_number h) ValueError,
      require_utc (cph_retain_until h), require_utc (cph_created_at h), require_utc (cph_updated_at h),
      less_guard (cph_updated_at h) (cph_created_at h) ValueError,
      less_guard (cph_retain_until h) (cph_created_at h) ValueError]"

definition cph_from_first_version :: "creative_plan_version \<Rightarrow> datetime \<Rightarrow> error + creative_plan_head" where
  "cph_from_first_version v retain_until =
     (if cpv_version_number v \<noteq> 1 \<or> cpv_supersedes_version_id v \<noteq> None then Inl ValueError
      else let h = \<lparr>cph_workspace_id = cpv_workspace_id v, cph_workflow_id = cpv_workflow_id v,
                    cph_creative_plan_id = cpv_creative_plan_id v, cph_current_version_id = cpv_id v,
                    cph_current_version_number = cpv_version_number v, cph_version = 1,
                    cph_retain_until = retain_until, cph_created_at = cpv_created_at v,
                    cph_updated_at = cpv_created_at v\<rparr>
           in case cph_check h of Some e \<Rightarrow> Inl e | None \<Rightarrow> Inr h)"

definition cph_advance_check :: "creative_plan_version \<Rightarrow> int \<Rightarrow> creative_plan_head \<Rightarrow> error option" where
  "cph_advance_check v expected_version h = guards
     [guard (expected_version \<noteq> cph_version h) ConcurrencyError,
      guard (cpv_workspace_id v \<noteq> cph_workspace_id h \<or> cpv_workflow_id v \<noteq> cph_workflow_id h \<or>
        cpv_creative_plan_id v \<noteq> cph_creative_plan_id h \<or>
        cpv_version_number v \<noteq> cph_current_version_number h + 1 \<or>
        cpv_supersedes_version_id v \<noteq> Some (cph_current_version_id h)) ConcurrencyError,
      less_guard (cpv_created_at v) (cph_updated_at h) ConcurrencyError]"

definition cph_moved :: "creative_plan_version \<Rightarrow> creative_plan_head \<Rightarrow> creative_plan_head" where
  "cph_moved v h = h\<lparr>cph_current_version_id := cpv_id v, cph_current_version_number := cpv_version_number v,
     cph_version := cph_version h + 1, cph_updated_at := cpv_created_at v\<rparr>"

definition cph_advance :: "creative_plan_version \<Rightarrow> int \<Rightarrow> creative_plan_head \<Rightarrow> error + creative_plan_head" where
  "cph_advance v expected_version h =
     ensure (cph_advance_check v expected_version h)
       (let h' = cph_moved v h in ensure (cph_check h') (Inr h'))"

end
