(* ===== verification/Tool_Authorization.thy ===== *)
theory Tool_Authorization
  imports Tool_Runtime Creative_Plans Workflow_Entities
begin

text \<open>
  Authorization of the tool intents a planner proposes (\<open>tool-runtime/authorization.py\<close>) and of all
  intents of one approved creative plan (\<open>application/tool_authorization.py\<close>). SHA-256 is an argument; the
  execution authority and the entitlements are ports of the service and arguments of the model. The
  observer only records and is left out.
\<close>

section \<open>Candidates and facts\<close>

datatype tool_authorization_reason =
    ALLOWED
  | REGISTRY_DENIED
  | INVALID_ARGUMENTS
  | RIGHTS_DENIED
  | RESOURCE_DENIED
  | PROVIDER_DENIED
  | COST_CLASS_DENIED
  | INTENT_LIMIT_EXCEEDED
  | QUOTA_EXCEEDED
  | BUDGET_EXCEEDED

definition max_argument_bytes :: nat where "max_argument_bytes = 16384"

definition max_resource_identities :: nat where "max_resource_identities = 32"

text \<open>Not empty and at most 128 characters.\<close>

definition short_text :: "string \<Rightarrow> bool" where
  "short_text s \<longleftrightarrow> s \<noteq> [] \<and> length s \<le> 128"

record tool_intent_candidate =
  ic_intent_key :: string
  ic_tool_name :: string
  ic_schema_version :: string
  ic_purpose :: string
  ic_arguments_json :: string
  ic_estimated_cost_units :: int

definition ic_check :: "tool_intent_candidate \<Rightarrow> error option" where
  "ic_check c = guards
     [guard (\<not> short_text (ic_intent_key c)) ValueError, guard (\<not> short_text (ic_tool_name c)) ValueError,
      guard (\<not> short_text (ic_schema_version c)) ValueError,
      guard (strip (ic_purpose c) = [] \<or> 512 < length (ic_purpose c)) ValueError,
      guard (max_argument_bytes < utf8_length (ic_arguments_json c)) ValueError,
      guard (\<not> (1 \<le> ic_estimated_cost_units c \<and> ic_estimated_cost_units c \<le> 1000000)) ValueError]"

definition ic_create :: "tool_intent_candidate \<Rightarrow> error + tool_intent_candidate" where
  "ic_create c = ensure (ic_check c) (Inr c)"

record tool_authorization_facts =
  af_workspace_id :: string
  af_actor_id :: string
  af_workflow_id :: string
  af_workflow_version :: int
  af_creative_plan_id :: string
  af_creative_plan_version_id :: string
  af_creative_plan_version :: int
  af_approval_id :: string
  af_node :: string
  af_granted_scopes :: "string set"
  af_authorized_resource_ids :: "string set"
  af_allowed_providers :: "string set"
  af_allowed_cost_classes :: "tool_cost_class set"
  af_remaining_quota_units :: int
  af_remaining_budget_units :: int

definition af_check :: "tool_authorization_facts \<Rightarrow> error option" where
  "af_check f = guards
     [guard (\<not> list_all short_text [af_workspace_id f, af_actor_id f, af_workflow_id f, af_creative_plan_id f,
        af_creative_plan_version_id f, af_approval_id f, af_node f]) ValueError,
      guard (af_workflow_version f < 1 \<or> af_creative_plan_version f < 1) ValueError,
      guard (af_remaining_quota_units f < 0 \<or> af_remaining_budget_units f < 0) ValueError]"

definition af_create :: "tool_authorization_facts \<Rightarrow> error + tool_authorization_facts" where
  "af_create f = ensure (af_check f) (Inr f)"

section \<open>Decisions\<close>

record tool_authorization_audit =
  aa_policy_version :: string
  aa_workspace_id :: string
  aa_actor_id :: string
  aa_workflow_id :: string
  aa_workflow_version :: int
  aa_creative_plan_id :: string
  aa_creative_plan_version_id :: string
  aa_creative_plan_version :: int
  aa_approval_id :: string
  aa_intent_key :: string
  aa_tool_name :: string
  aa_schema_version :: string
  aa_allowed :: bool
  aa_reason :: tool_authorization_reason
  aa_audit_level :: tool_audit_level
  aa_argument_sha256 :: string
  aa_resource_count :: nat
  aa_resource_identity_sha256s :: "string list"
  aa_estimated_cost_units :: int

record tool_authorization_decision =
  ad_allowed :: bool
  ad_reason :: tool_authorization_reason
  ad_policy_version :: string
  ad_intent_key :: string
  ad_tool_name :: string
  ad_schema_version :: string
  ad_arguments_json :: "string option"
  ad_resource_ids :: "string list"
  ad_idempotency_key :: "string option"
  ad_audit :: tool_authorization_audit

definition intent_audit ::
  "(string \<Rightarrow> string) \<Rightarrow> string \<Rightarrow> tool_intent_candidate \<Rightarrow> tool_authorization_facts \<Rightarrow> bool \<Rightarrow>
     tool_authorization_reason \<Rightarrow> tool_audit_level \<Rightarrow> string \<Rightarrow> string list \<Rightarrow> tool_authorization_audit" where
  "intent_audit sha256 policy_version c f allowed reason audit_level argument_sha256 resource_ids =
     \<lparr>aa_policy_version = policy_version, aa_workspace_id = af_workspace_id f, aa_actor_id = af_actor_id f,
      aa_workflow_id = af_workflow_id f, aa_workflow_version = af_workflow_version f,
      aa_creative_plan_id = af_creative_plan_id f, aa_creative_plan_version_id = af_creative_plan_version_id f,
      aa_creative_plan_version = af_creative_plan_version f, aa_approval_id = af_approval_id f,
      aa_intent_key = ic_intent_key c, aa_tool_name = ic_tool_name c, aa_schema_version = ic_schema_version c,
      aa_allowed = allowed, aa_reason = reason, aa_audit_level = audit_level,
      aa_argument_sha256 = argument_sha256, aa_resource_count = length resource_ids,
      aa_resource_identity_sha256s = (if audit_level = RESOURCE_IDENTITIES then map sha256 resource_ids else []),
      aa_estimated_cost_units = ic_estimated_cost_units c\<rparr>"

definition intent_deny ::
  "(string \<Rightarrow> string) \<Rightarrow> string \<Rightarrow> tool_intent_candidate \<Rightarrow> tool_authorization_facts \<Rightarrow>
     tool_authorization_reason \<Rightarrow> string \<Rightarrow> tool_audit_level \<Rightarrow> string list \<Rightarrow> tool_authorization_decision" where
  "intent_deny sha256 policy_version c f reason argument_sha256 audit_level resource_ids =
     \<lparr>ad_allowed = False, ad_reason = reason, ad_policy_version = policy_version,
      ad_intent_key = ic_intent_key c, ad_tool_name = ic_tool_name c, ad_schema_version = ic_schema_version c,
      ad_arguments_json = None, ad_resource_ids = [], ad_idempotency_key = None,
      ad_audit = intent_audit sha256 policy_version c f False reason audit_level argument_sha256 resource_ids\<rparr>"

definition idempotency_payload ::
  "string \<Rightarrow> tool_intent_candidate \<Rightarrow> tool_authorization_facts \<Rightarrow> string \<Rightarrow> string list \<Rightarrow> string option \<Rightarrow>
     (string \<times> json) list" where
  "idempotency_payload policy_version c f canonical_arguments resource_ids provider =
     [(''policy_version'', JStr policy_version), (''workspace_id'', JStr (af_workspace_id f)),
      (''actor_id'', JStr (af_actor_id f)), (''workflow_id'', JStr (af_workflow_id f)),
      (''workflow_version'', JInt (af_workflow_version f)),
      (''creative_plan_id'', JStr (af_creative_plan_id f)),
      (''creative_plan_version_id'', JStr (af_creative_plan_version_id f)),
      (''creative_plan_version'', JInt (af_creative_plan_version f)),
      (''approval_id'', JStr (af_approval_id f)), (''node'', JStr (af_node f)),
      (''intent_key'', JStr (ic_intent_key c)), (''tool_name'', JStr (ic_tool_name c)),
      (''schema_version'', JStr (ic_schema_version c)), (''arguments_json'', JStr canonical_arguments),
      (''resource_ids'', json_strings resource_ids),
      (''provider'', json_opt provider),
      (''cost_units'', JInt (ic_estimated_cost_units c))]"

definition intent_idempotency_key ::
  "(string \<Rightarrow> string) \<Rightarrow> string \<Rightarrow> tool_intent_candidate \<Rightarrow> tool_authorization_facts \<Rightarrow> string \<Rightarrow> string list \<Rightarrow>
     string option \<Rightarrow> string" where
  "intent_idempotency_key sha256 policy_version c f canonical_arguments resource_ids provider =
     ''tool-intent:v1:'' @ sha256 (json_dumps True
       (JObj (idempotency_payload policy_version c f canonical_arguments resource_ids provider)))"

section \<open>The authorizer\<close>

definition authorizer_check :: "string \<Rightarrow> error option" where
  "authorizer_check policy_version = guard (\<not> short_text policy_version) ValueError"

text \<open>Parse, validate, serialise and resolve: the guarded block whose every exception is a denial.\<close>

definition read_arguments :: "('w, 'm) tool_definition \<Rightarrow> string \<Rightarrow> error + string \<times> string list" where
  "read_arguments d text =
     attempt (json_loads_unique text) (\<lambda>v.
       case v of
         JObj arguments \<Rightarrow>
           (case tl_input_model d of
              None \<Rightarrow> Inl AssertionError
            | Some m \<Rightarrow>
                (case pm_validate_strict m arguments of
                   None \<Rightarrow> Inl ValueError
                 | Some typed \<Rightarrow>
                     let canonical = json_dumps True (JObj (pm_dump_json m typed))
                     in ensure (guard (max_argument_bytes < utf8_length canonical) ValueError)
                       (case tl_resource_resolver d of
                          None \<Rightarrow> Inl AssertionError
                        | Some resolver \<Rightarrow>
                            attempt (resolver typed) (\<lambda>resources.
                              ensure (guard (max_resource_identities < length resources \<or> \<not> distinct resources \<or>
                                  \<not> list_all short_text resources) ValueError)
                                (Inr (canonical, sort resources))))))
       | _ \<Rightarrow> Inl ValueError)"

text \<open>The denials behind the guarded block, in their order.\<close>

definition intent_denial ::
  "('w, 'm) tool_definition \<Rightarrow> tool_intent_candidate \<Rightarrow> tool_authorization_facts \<Rightarrow> string list \<Rightarrow>
     tool_authorization_reason option" where
  "intent_denial d c f resource_ids =
     (if \<not> tl_required_scopes d \<subseteq> af_granted_scopes f then Some RIGHTS_DENIED
      else if \<not> set resource_ids \<subseteq> af_authorized_resource_ids f then Some RESOURCE_DENIED
      else if \<not> set_option (tl_provider d) \<subseteq> af_allowed_providers f then Some PROVIDER_DENIED
      else if tl_cost_class d \<notin> af_allowed_cost_classes f then Some COST_CLASS_DENIED
      else if af_remaining_quota_units f < ic_estimated_cost_units c then Some QUOTA_EXCEEDED
      else if af_remaining_budget_units f < ic_estimated_cost_units c then Some BUDGET_EXCEEDED
      else None)"

definition intent_authorize ::
  "(string \<Rightarrow> string) \<Rightarrow> ('w, 'm) tool_registry \<Rightarrow> string \<Rightarrow> tool_intent_candidate \<Rightarrow>
     tool_authorization_facts \<Rightarrow> tool_authorization_decision" where
  "intent_authorize sha256 r policy_version c f =
     (let argument_sha256 = sha256 (ic_arguments_json c)
      in case reg_resolve_for_node r (ic_tool_name c) (ic_schema_version c) (af_node f) of
           Inl e \<Rightarrow> intent_deny sha256 policy_version c f REGISTRY_DENIED argument_sha256 METADATA []
         | Inr d \<Rightarrow>
             (case read_arguments d (ic_arguments_json c) of
                Inl e \<Rightarrow>
                  intent_deny sha256 policy_version c f INVALID_ARGUMENTS argument_sha256 (tl_audit_level d) []
              | Inr (canonical_arguments, resource_ids) \<Rightarrow>
                  (case intent_denial d c f resource_ids of
                     Some reason \<Rightarrow>
                       intent_deny sha256 policy_version c f reason argument_sha256 (tl_audit_level d) resource_ids
                   | None \<Rightarrow>
                       \<lparr>ad_allowed = True, ad_reason = ALLOWED, ad_policy_version = policy_version,
                        ad_intent_key = ic_intent_key c, ad_tool_name = ic_tool_name c,
                        ad_schema_version = ic_schema_version c,
                        ad_arguments_json = Some canonical_arguments, ad_resource_ids = resource_ids,
                        ad_idempotency_key = Some (intent_idempotency_key sha256 policy_version c f
                          canonical_arguments resource_ids (tl_provider d)),
                        ad_audit = intent_audit sha256 policy_version c f True ALLOWED (tl_audit_level d)
                          (sha256 canonical_arguments) resource_ids\<rparr>)))"

text \<open>\<open>deny\<close>: a denial that resolves nothing.\<close>

definition intent_deny_plan ::
  "(string \<Rightarrow> string) \<Rightarrow> string \<Rightarrow> tool_intent_candidate \<Rightarrow> tool_authorization_facts \<Rightarrow>
     tool_authorization_reason \<Rightarrow> error + tool_authorization_decision" where
  "intent_deny_plan sha256 policy_version c f reason =
     (if reason = ALLOWED then Inl ValueError
      else Inr (intent_deny sha256 policy_version c f reason (sha256 (ic_arguments_json c)) METADATA []))"

section \<open>Authorization of a plan\<close>

record plan_execution_claim =
  pec_workflow_version :: int
  pec_plan :: creative_plan_version
  pec_approval :: approval
  pec_retain_until :: datetime

record tool_authorization_entitlements =
  te_granted_scopes :: "string set"
  te_authorized_resource_ids :: "string set"
  te_allowed_providers :: "string set"
  te_allowed_cost_classes :: "tool_cost_class set"
  te_remaining_quota_units :: int
  te_remaining_budget_units :: int

definition te_check :: "tool_authorization_entitlements \<Rightarrow> error option" where
  "te_check e = guard (te_remaining_quota_units e < 0 \<or> te_remaining_budget_units e < 0) ValueError"

text \<open>\<open>ConfiguredToolAuthorizationEntitlements.for_approved_plan\<close>\<close>

definition configured_entitlements ::
  "tool_authorization_entitlements \<Rightarrow> string \<Rightarrow> string \<Rightarrow> string \<Rightarrow> error + tool_authorization_entitlements" where
  "configured_entitlements e workspace_id actor_id creative_plan_id =
     ensure (guard (workspace_id = [] \<or> actor_id = [] \<or> creative_plan_id = []) ValueError) (Inr e)"

record tool_authorization_policy =
  tap_version :: string
  tap_node :: string
  tap_maximum_intents :: int

definition tap_check :: "tool_authorization_policy \<Rightarrow> error option" where
  "tap_check p = guards
     [guard (\<not> short_text (tap_version p)) ValueError, guard (\<not> short_text (tap_node p)) ValueError,
      guard (\<not> (1 \<le> tap_maximum_intents p \<and> tap_maximum_intents p \<le> 192)) ValueError]"

record plan_tool_authorization_result =
  ptr_workflow_id :: string
  ptr_workflow_version :: int
  ptr_creative_plan_id :: string
  ptr_creative_plan_version_id :: string
  ptr_creative_plan_version :: int
  ptr_approval_id :: string
  ptr_decisions :: "tool_authorization_decision list"

definition ptr_allowed :: "plan_tool_authorization_result \<Rightarrow> bool" where
  "ptr_allowed r \<longleftrightarrow> list_all ad_allowed (ptr_decisions r)"

text \<open>The constructor of the service: authorizer and policy carry the same version.\<close>

definition plan_service_check :: "string \<Rightarrow> tool_authorization_policy \<Rightarrow> error option" where
  "plan_service_check policy_version policy = guard (policy_version \<noteq> tap_version policy) ValueError"

definition intent_candidate :: "tool_intent_proposal \<Rightarrow> tool_intent_candidate" where
  "intent_candidate p =
     \<lparr>ic_intent_key = tip_intent_key p, ic_tool_name = tip_tool_name p, ic_schema_version = tip_schema_version p,
      ic_purpose = tip_purpose p, ic_arguments_json = tip_arguments_json p,
      ic_estimated_cost_units = tip_estimated_cost_units p\<rparr>"

definition base_facts ::
  "plan_execution_claim \<Rightarrow> tool_authorization_entitlements \<Rightarrow> tool_authorization_policy \<Rightarrow>
     tool_authorization_facts" where
  "base_facts claim e policy =
     (let plan = pec_plan claim
      in \<lparr>af_workspace_id = cpv_workspace_id plan, af_actor_id = ap_approved_by (pec_approval claim),
          af_workflow_id = cpv_workflow_id plan, af_workflow_version = pec_workflow_version claim,
          af_creative_plan_id = cpv_creative_plan_id plan, af_creative_plan_version_id = cpv_id plan,
          af_creative_plan_version = cpv_version_number plan, af_approval_id = ap_id (pec_approval claim),
          af_node = tap_node policy, af_granted_scopes = te_granted_scopes e,
          af_authorized_resource_ids = te_authorized_resource_ids e,
          af_allowed_providers = te_allowed_providers e, af_allowed_cost_classes = te_allowed_cost_classes e,
          af_remaining_quota_units = te_remaining_quota_units e,
          af_remaining_budget_units = te_remaining_budget_units e\<rparr>)"

text \<open>
  The loop over the candidates: every allowed intent is charged to the quota and to the budget. \<open>replace\<close>
  runs the constructor of the facts again.
\<close>

fun authorize_intents ::
  "(string \<Rightarrow> string) \<Rightarrow> ('w, 'm) tool_registry \<Rightarrow> string \<Rightarrow> tool_authorization_facts \<Rightarrow>
     tool_intent_candidate list \<Rightarrow> int \<Rightarrow> int \<Rightarrow> error + tool_authorization_decision list" where
  "authorize_intents sha256 r policy_version base [] quota budget = Inr []"
| "authorize_intents sha256 r policy_version base (c # cs) quota budget =
     attempt (af_create (base\<lparr>af_remaining_quota_units := quota, af_remaining_budget_units := budget\<rparr>)) (\<lambda>f.
       let decision = intent_authorize sha256 r policy_version c f;
           cost = (if ad_allowed decision then ic_estimated_cost_units c else 0)
       in attempt (authorize_intents sha256 r policy_version base cs (quota - cost) (budget - cost))
            (\<lambda>decisions. Inr (decision # decisions)))"

definition plan_result ::
  "plan_execution_claim \<Rightarrow> tool_authorization_decision list \<Rightarrow> plan_tool_authorization_result" where
  "plan_result claim decisions =
     (let plan = pec_plan claim
      in \<lparr>ptr_workflow_id = cpv_workflow_id plan, ptr_workflow_version = pec_workflow_version claim,
          ptr_creative_plan_id = cpv_creative_plan_id plan, ptr_creative_plan_version_id = cpv_id plan,
          ptr_creative_plan_version = cpv_version_number plan, ptr_approval_id = ap_id (pec_approval claim),
          ptr_decisions = decisions\<rparr>)"

definition authorize_plan ::
  "(string \<Rightarrow> string) \<Rightarrow> (string \<Rightarrow> string \<Rightarrow> string \<Rightarrow> int \<Rightarrow> string \<Rightarrow> error + plan_execution_claim) \<Rightarrow>
     (string \<Rightarrow> string \<Rightarrow> string \<Rightarrow> error + tool_authorization_entitlements) \<Rightarrow> ('w, 'm) tool_registry \<Rightarrow>
     tool_authorization_policy \<Rightarrow> string \<Rightarrow> string \<Rightarrow> string \<Rightarrow> int \<Rightarrow> string \<Rightarrow>
     error + plan_tool_authorization_result" where
  "authorize_plan sha256 authority entitlements r policy workspace_id workflow_id creative_plan_id
     creative_plan_version approval_id =
     attempt (authority workspace_id workflow_id creative_plan_id creative_plan_version approval_id) (\<lambda>claim.
       let plan = pec_plan claim
       in ensure (guard (cpv_workspace_id plan \<noteq> workspace_id \<or> cpv_workflow_id plan \<noteq> workflow_id \<or>
              cpv_creative_plan_id plan \<noteq> creative_plan_id \<or> cpv_version_number plan \<noteq> creative_plan_version \<or>
              ap_id (pec_approval claim) \<noteq> approval_id) ApprovalConflictError)
         (attempt (entitlements (cpv_workspace_id plan) (ap_approved_by (pec_approval claim))
              (cpv_creative_plan_id plan)) (\<lambda>e.
            attempt (collect ic_create (map intent_candidate (payload_intents (cpv_payload plan)))) (\<lambda>candidates.
              attempt (af_create (base_facts claim e policy)) (\<lambda>base.
                attempt
                  (if tap_maximum_intents policy < int (length candidates)
                   then collect (\<lambda>c. intent_deny_plan sha256 (tap_version policy) c base INTENT_LIMIT_EXCEEDED)
                          candidates
                   else authorize_intents sha256 r (tap_version policy) base candidates
                          (te_remaining_quota_units e) (te_remaining_budget_units e))
                  (\<lambda>decisions. Inr (plan_result claim decisions)))))))"

end
