(* ===== verification/Registries.thy ===== *)
theory Registries
  imports Prelude
begin

text \<open>
  The contract of a registry that takes every key once: an entry is refused when its key is taken, and is
  found under its key from then on. Registering a sequence of entries succeeds exactly when their keys are
  distinct and free, and an entry once registered stays.
\<close>

locale keyed_registry =
  fixes register :: "'v \<Rightarrow> 's \<Rightarrow> error + 's"
    and lookup :: "'s \<Rightarrow> 'k \<Rightarrow> 'v option"
    and key :: "'v \<Rightarrow> 'k"
  assumes taken: "lookup s (key v) \<noteq> None \<Longrightarrow> \<exists>e. register v s = Inl e"
    and free: "lookup s (key v) = None \<Longrightarrow> \<exists>t. register v s = Inr t \<and> lookup t = (lookup s)(key v \<mapsto> v)"
begin

fun register_all :: "'v list \<Rightarrow> 's \<Rightarrow> error + 's" where
  "register_all [] s = Inr s"
| "register_all (v # vs) s = attempt (register v s) (register_all vs)"

definition well_keyed :: "'s \<Rightarrow> bool" where
  "well_keyed s \<longleftrightarrow> (\<forall>k v. lookup s k = Some v \<longrightarrow> key v = k)"

lemma register_Inr: "register v s = Inr t \<Longrightarrow> lookup s (key v) = None \<and> lookup t = (lookup s)(key v \<mapsto> v)"
  using taken [of s v] free [of s v] by (cases "lookup s (key v) = None") auto

lemma register_well_keyed: "well_keyed s \<Longrightarrow> register v s = Inr t \<Longrightarrow> well_keyed t"
  by (auto dest!: register_Inr simp: well_keyed_def split: if_splits)

lemma register_all_succeeds:
  "(\<exists>t. register_all vs s = Inr t) \<longleftrightarrow> distinct (map key vs) \<and> (\<forall>v \<in> set vs. lookup s (key v) = None)"
proof (induction vs arbitrary: s)
  case (Cons v vs)
  show ?case
  proof (cases "lookup s (key v) = None")
    case True
    then obtain t where t: "register v s = Inr t" "lookup t = (lookup s)(key v \<mapsto> v)" using free by blast
    have "(\<forall>w \<in> set vs. lookup t (key w) = None) \<longleftrightarrow> key v \<notin> key ` set vs \<and> (\<forall>w \<in> set vs. lookup s (key w) = None)"
      by (auto simp: t(2) rev_image_eqI)
    with True t(1) Cons.IH [of t] show ?thesis by auto
  next
    case False
    with taken [of s v] show ?thesis by auto
  qed
qed simp

lemma register_all_lookup:
  "register_all vs s = Inr t \<Longrightarrow> lookup t k = Some v \<longleftrightarrow> lookup s k = Some v \<or> v \<in> set vs \<and> key v = k"
proof (induction vs arbitrary: s)
  case (Cons w vs)
  then obtain u where u: "register w s = Inr u" "register_all vs u = Inr t" by auto
  from register_Inr [OF u(1)] have "lookup u k = Some v \<longleftrightarrow> lookup s k = Some v \<or> v = w \<and> key v = k" by auto
  with Cons.IH [OF u(2)] show ?case by auto
qed simp

lemma register_all_well_keyed: "well_keyed s \<Longrightarrow> register_all vs s = Inr t \<Longrightarrow> well_keyed t"
  by (induction vs arbitrary: s) (auto dest: register_well_keyed)

end

end
