(* ===== verification/Creative_Plan_Facts.thy ===== *)
theory Creative_Plan_Facts
  imports Creative_Plans Interfaces
begin

text \<open>
  What creative plans guarantee: a tool intent holds exactly the arguments it was given, bounded and free
  of external authority at every depth; the hash of a payload identifies it; and a head is the end of an
  unbroken chain of versions.
\<close>

section \<open>Tool intents\<close>

lemma plan_value_check_error: "raises_value_error (plan_value_check v)"
  by (cases v) simp_all

lemma plan_value_check_norm: "plan_value_check (json_norm v) = plan_value_check v"
  by (cases v) simp_all

definition plan_shaped :: "json \<Rightarrow> bool" where
  "plan_shaped = shaped 512 8 plan_value_check"

lemma validate_json_shape_exact: "validate_json_shape v = guard (\<not> plan_shaped v) ValueError"
  unfolding validate_json_shape_def plan_shaped_def
  by (rule shape_loop_exact) (simp add: plan_value_check_error)

lemma plan_shaped_norm: "plan_shaped (json_norm v) \<longleftrightarrow> plan_shaped v"
  unfolding plan_shaped_def by (rule shaped_norm) (rule plan_value_check_norm)

lemma plan_canonical_Inr:
  "plan_canonical_json v = Inr t \<longleftrightarrow> plan_shaped v \<and> length t \<le> 65536 \<and> t = json_dumps True v"
  by (auto simp: plan_canonical_json_def validate_json_shape_exact Let_def guard_def)

lemma plan_canonical_norm: "plan_canonical_json (json_norm v) = plan_canonical_json v"
  by (simp add: plan_canonical_json_def validate_json_shape_exact plan_shaped_norm json_dumps_norm split: option.split)

text \<open>No object names an authority field and no text is an outside reference, at any depth.\<close>

fun names_no_authority :: "json \<Rightarrow> bool" where
  "names_no_authority (JObj kvs) \<longleftrightarrow>
     list_all (\<lambda>(k, v). field_name k \<notin> external_authority_fields \<and> names_no_authority v) kvs"
| "names_no_authority (JArr xs) \<longleftrightarrow> list_all names_no_authority xs"
| "names_no_authority (JStr s) \<longleftrightarrow> \<not> external_value s"
| "names_no_authority v \<longleftrightarrow> True"

lemma authority_loop_error: "raises_value_error (authority_loop stack)"
  by (induction stack rule: authority_loop.induct) simp_all

lemma authority_loop_None: "authority_loop stack = None \<longleftrightarrow> list_all names_no_authority stack"
  by (induction stack rule: authority_loop.induct) (auto simp: list_all_iff split_def)

lemma reject_external_authority_exact:
  "reject_external_authority v = guard (\<not> names_no_authority v) ValueError"
  unfolding reject_external_authority_def
  by (rule value_error_guard) (simp_all add: authority_loop_error authority_loop_None)

lemma names_no_authority_norm: "names_no_authority (json_norm v) \<longleftrightarrow> names_no_authority v"
proof (induction v)
  case (JObj kvs)
  then show ?case unfolding json_norm_object by (fastforce simp: list_all_iff)
qed (simp_all add: list_all_iff)

text \<open>The two stack scans, against their recursive readings.\<close>

text \<open>The scans of a tool intent keep an explicit stack and stop at the first offence; they decide exactly
  the recursive properties they stand for. The shape scan accepts a value with at most 512 nodes (keys
  counted), at most 8 levels deep, whose texts are short and free of control characters and whose objects
  and arrays have at most 64 members; the authority scan accepts a value in which no key at any depth is an
  authority field under its normalised name and no text is a URL, a data reference or an absolute path.\<close>

theorem intent_scans_exact:
  "validate_json_shape v = guard (\<not> (scan_nodes v \<le> 512 \<and> scan_depth v \<le> 8 \<and>
      every_value (\<lambda>u. plan_value_check u = None) v)) ValueError \<and>
   reject_external_authority v = guard (\<not> names_no_authority v) ValueError"
  using validate_json_shape_exact [of v] reject_external_authority_exact [of v]
  by (simp add: plan_shaped_def shaped_def)

text \<open>The arguments an accepted text stands for.\<close>

definition admissible_arguments :: "(string \<times> json) list \<Rightarrow> bool" where
  "admissible_arguments kvs \<longleftrightarrow> plan_shaped (JObj kvs) \<and> names_no_authority (JObj kvs) \<and>
     length (json_dumps True (JObj kvs)) \<le> 16384"

lemma tip_arguments_accepted:
  assumes "tip_arguments_check t = None"
  shows "\<exists>kvs. json_loads t = Inr (JObj kvs) \<and> json_ok (JObj kvs) \<and> t = json_dumps True (JObj kvs) \<and>
    admissible_arguments kvs"
proof -
  obtain kvs where kvs: "json_loads t = Inr (JObj kvs)" "length t \<le> 16384"
    using assms by (auto simp: tip_arguments_check_def split: if_splits sum.splits json.splits)
  moreover have "json_ok (JObj kvs)" using kvs(1) unfolding json_loads_def by (rule json_decode_ok)
  moreover have "plan_canonical_json (JObj kvs) = Inr t" "names_no_authority (JObj kvs)"
    using assms kvs
    by (auto simp: tip_arguments_check_def reject_external_authority_exact simp del: names_no_authority.simps
        split: if_splits sum.splits)
  ultimately show ?thesis by (auto simp: plan_canonical_Inr admissible_arguments_def)
qed

lemma tip_arguments_dumps:
  assumes "json_ok (JObj kvs)"
  shows "tip_arguments_check (json_dumps True (JObj kvs)) = None \<longleftrightarrow> admissible_arguments kvs"
proof -
  let ?v = "JObj kvs"
  let ?t = "json_dumps True ?v"
  obtain sorted where s: "json_norm ?v = JObj sorted" by simp
  have l: "json_loads ?t = Inr (JObj sorted)" using json_loads_dumps [OF assms, of True] s by simp
  have "plan_canonical_json (JObj sorted) = plan_canonical_json ?v" using plan_canonical_norm [of ?v] s by simp
  moreover have "names_no_authority (JObj sorted) = names_no_authority ?v"
    using names_no_authority_norm [of ?v] s by simp
  moreover have "plan_canonical_json ?v = (if plan_shaped ?v \<and> length ?t \<le> 65536 then Inr ?t else Inl ValueError)"
    by (auto simp: plan_canonical_json_def validate_json_shape_exact guard_def Let_def simp del: json_dumps.simps)
  ultimately show ?thesis
    by (auto simp: tip_arguments_check_def l reject_external_authority_exact admissible_arguments_def
        simp del: json_dumps.simps names_no_authority.simps split: if_splits)
qed

definition tip_scalars_ok :: "string \<Rightarrow> string \<Rightarrow> string \<Rightarrow> string \<Rightarrow> int \<Rightarrow> bool" where
  "tip_scalars_ok intent_key tool_name schema_version purpose cost \<longleftrightarrow>
     is_token intent_key \<and> is_token tool_name \<and> is_token schema_version \<and> is_text 512 purpose \<and>
     1 \<le> cost \<and> cost \<le> 1000000"

lemma tip_check_None:
  "tip_check p = None \<longleftrightarrow>
     tip_scalars_ok (tip_intent_key p) (tip_tool_name p) (tip_schema_version p) (tip_purpose p)
       (tip_estimated_cost_units p) \<and> tip_arguments_check (tip_arguments_json p) = None"
  by (auto simp: tip_check_def guards_None tip_scalars_ok_def validate_token_def validate_text_def validate_positive_def)

lemma intent_creation_exact_parts:
  assumes "json_ok (JObj args)"
  shows "(\<exists>p. tip_create k t v purpose args cost = Inr p) \<longleftrightarrow>
      tip_scalars_ok k t v purpose cost \<and> admissible_arguments args"
    and "tip_create k t v purpose args cost = Inr p \<Longrightarrow> json_loads (tip_arguments_json p) = Inr (json_norm (JObj args))"
proof -
  let ?t = "json_dumps True (JObj args)"
  let ?p = "\<lparr>tip_intent_key = k, tip_tool_name = t, tip_schema_version = v, tip_purpose = purpose,
    tip_arguments_json = ?t, tip_estimated_cost_units = cost\<rparr>"
  have c: "tip_create k t v purpose args cost = Inr p \<longleftrightarrow>
      plan_shaped (JObj args) \<and> length ?t \<le> 65536 \<and> p = ?p \<and> tip_check ?p = None" for p
    by (auto simp: tip_create_def plan_canonical_json_def validate_json_shape_exact guard_def Let_def
        simp del: json_dumps.simps split: option.splits)
  have "tip_check ?p = None \<longleftrightarrow> tip_scalars_ok k t v purpose cost \<and> admissible_arguments args"
    unfolding tip_check_None by (simp add: tip_arguments_dumps [OF assms] del: json_dumps.simps)
  then show "(\<exists>p. tip_create k t v purpose args cost = Inr p) \<longleftrightarrow>
      tip_scalars_ok k t v purpose cost \<and> admissible_arguments args"
    by (auto simp: c admissible_arguments_def simp del: json_dumps.simps)
  show "json_loads (tip_arguments_json p) = Inr (json_norm (JObj args))"
    if "tip_create k t v purpose args cost = Inr p"
    using that json_loads_dumps [OF assms, of True] unfolding c by (simp del: json_dumps.simps json_norm.simps)
qed

text \<open>C29: A tool intent is created exactly when its key, tool and schema version are tokens, its purpose is a
  short text, its cost is between 1 and a million, and its arguments are bounded, name no external authority
  and have at most 16384 characters; the intent then holds these arguments, in canonical order, and reading
  its text gives them back.\<close>

theorem intent_creation_exact:
  assumes "json_ok (JObj args)"
  shows "((\<exists>p. tip_create k t v purpose args cost = Inr p) \<longleftrightarrow>
      tip_scalars_ok k t v purpose cost \<and> admissible_arguments args) \<and>
      (tip_create k t v purpose args cost = Inr p \<longrightarrow> json_loads (tip_arguments_json p) = Inr (json_norm (JObj args)))"
  by (intro conjI impI; (rule intent_creation_exact_parts [OF assms]; assumption))

section \<open>Payloads and their hashes\<close>

lemma map_eq_injective:
  "map g xs = map g ys \<Longrightarrow> (\<And>x y. x \<in> set xs \<Longrightarrow> y \<in> set ys \<Longrightarrow> g x = g y \<Longrightarrow> x = y) \<Longrightarrow> xs = ys"
proof (induction xs arbitrary: ys)
  case (Cons x xs)
  then show ?case by (cases ys) auto
qed simp

text \<open>Equal canonical objects with the same literal keys have equal members.\<close>

lemma object_members:
  "json_norm (JObj xs) = json_norm (JObj ys) \<Longrightarrow> distinct (map fst xs) \<Longrightarrow> map fst xs = map fst ys \<Longrightarrow>
     map (json_norm \<circ> snd) xs = map (json_norm \<circ> snd) ys"
  by (drule json_object_inj, assumption+) (auto simp: list_all2_conv_all_nth intro: nth_equalityI)

lemma role_value_inj: "role_value a = role_value b \<Longrightarrow> a = b"
  by (cases a; cases b; simp)

lemma tip_data_arguments:
  assumes "tip_check p = None"
  shows "\<exists>v. json_loads (tip_arguments_json p) = Inr v \<and> json_ok v \<and> tip_arguments_json p = json_dumps True v"
proof -
  have "tip_arguments_check (tip_arguments_json p) = None" using assms by (simp add: tip_check_None)
  from tip_arguments_accepted [OF this] show ?thesis by (elim exE conjE) (intro exI conjI)
qed

lemma tip_data_ok: "tip_check p = None \<Longrightarrow> json_ok (tip_data p)"
  using tip_data_arguments [of p] by (auto simp: tip_data_def)

lemma tip_data_inj:
  assumes "json_norm (tip_data p) = json_norm (tip_data q)" "tip_check p = None" "tip_check q = None"
  shows "p = q"
proof -
  obtain u v where u: "json_loads (tip_arguments_json p) = Inr u" "tip_arguments_json p = json_dumps True u"
    and v: "json_loads (tip_arguments_json q) = Inr v" "tip_arguments_json q = json_dumps True v"
    using tip_data_arguments assms(2,3) by meson
  have m: "map (json_norm \<circ> snd)
      [(''intent_key'', JStr (tip_intent_key p)), (''tool_name'', JStr (tip_tool_name p)),
       (''schema_version'', JStr (tip_schema_version p)), (''purpose'', JStr (tip_purpose p)),
       (''arguments'', u), (''estimated_cost_units'', JInt (tip_estimated_cost_units p))] =
     map (json_norm \<circ> snd)
      [(''intent_key'', JStr (tip_intent_key q)), (''tool_name'', JStr (tip_tool_name q)),
       (''schema_version'', JStr (tip_schema_version q)), (''purpose'', JStr (tip_purpose q)),
       (''arguments'', v), (''estimated_cost_units'', JInt (tip_estimated_cost_units q))]"
    using assms(1) unfolding tip_data_def u(1) v(1) sum.case by (rule object_members) simp_all
  then have "tip_arguments_json p = tip_arguments_json q"
    using json_dumps_norm [of True u] json_dumps_norm [of True v] u(2) v(2) by simp
  with m show "p = q" by simp
qed

lemma cite_data_inj: "json_norm (cite_data c) = json_norm (cite_data d) \<Longrightarrow> c = d"
  unfolding cite_data_def by (drule object_members) simp_all

lemma arr_members:
  "json_norm (JArr (map f xs)) = json_norm (JArr (map f ys)) \<Longrightarrow> map (json_norm \<circ> f) xs = map (json_norm \<circ> f) ys"
  by simp

lemma dir_data_inj:
  assumes "json_norm (dir_data c) = json_norm (dir_data d)"
    and "\<forall>i \<in> set (dir_tool_intents c) \<union> set (dir_tool_intents d). tip_check i = None"
  shows "c = d"
proof -
  note m = object_members [OF assms(1) [unfolded dir_data_def]]
  have "dir_citation_selections c = dir_citation_selections d" "dir_tool_intents c = dir_tool_intents d"
    "dir_image_role c = dir_image_role d"
  proof -
    have "map (json_norm \<circ> cite_data) (dir_citation_selections c) = map (json_norm \<circ> cite_data) (dir_citation_selections d)"
      using m by simp
    then show "dir_citation_selections c = dir_citation_selections d"
      by (rule map_eq_injective) (simp add: cite_data_inj)
    have "map (json_norm \<circ> tip_data) (dir_tool_intents c) = map (json_norm \<circ> tip_data) (dir_tool_intents d)"
      using m by simp
    then show "dir_tool_intents c = dir_tool_intents d"
      by (rule map_eq_injective) (use assms(2) in \<open>auto intro: tip_data_inj\<close>)
    show "dir_image_role c = dir_image_role d" using m by (intro role_value_inj) simp
  qed
  with m show ?thesis by simp
qed

definition intents_checked :: "creative_plan_payload \<Rightarrow> bool" where
  "intents_checked p \<longleftrightarrow> (\<forall>i \<in> set (payload_intents p). tip_check i = None)"

lemma cpp_data_inj:
  assumes "json_norm (cpp_data p) = json_norm (cpp_data q)" "intents_checked p" "intents_checked q"
  shows "p = q"
proof -
  note m = object_members [OF assms(1) [unfolded cpp_data_def]]
  have "map (json_norm \<circ> dir_data) (cpp_directions p) = map (json_norm \<circ> dir_data) (cpp_directions q)"
    using m by simp
  then have "cpp_directions p = cpp_directions q"
    by (rule map_eq_injective)
      (use assms(2,3) in \<open>auto simp: intents_checked_def payload_intents_def intro!: dir_data_inj\<close>)
  with m show ?thesis by simp
qed

lemma dir_data_ok: "\<forall>i \<in> set (dir_tool_intents d). tip_check i = None \<Longrightarrow> json_ok (dir_data d)"
  by (simp add: dir_data_def list_all_iff tip_data_ok cite_data_def)

lemma cpp_data_ok: "intents_checked p \<Longrightarrow> json_ok (cpp_data p)"
  by (auto simp: cpp_data_def list_all_iff intents_checked_def payload_intents_def intro!: dir_data_ok)

text \<open>The hash of a payload identifies it: two payloads whose intents passed their constructor and whose
  hashes agree are the same payload, direction by direction and intent by intent, or SHA-256 has a
  collision on two texts.\<close>

theorem payload_hash_identifies:
  assumes "intents_checked p" "intents_checked q"
    and "payload_sha256 sha256 p = Inr h" "payload_sha256 sha256 q = Inr h"
  shows "p = q \<or> (\<exists>s t. s \<noteq> t \<and> sha256 s = sha256 t)"
proof -
  let ?s = "json_dumps True (cpp_data p)" and ?t = "json_dumps True (cpp_data q)"
  have eq: "sha256 ?s = h" "sha256 ?t = h"
    using assms(3,4) by (auto simp: payload_sha256_def plan_canonical_Inr split: sum.splits)
  show ?thesis
  proof (cases "?s = ?t")
    case True
    have "p = q" by (intro cpp_data_inj json_dumps_inj [OF _ _ True] cpp_data_ok assms)
    then show ?thesis ..
  next
    case False
    with eq show ?thesis by (intro disjI2 exI [of _ ?s] exI [of _ ?t]) simp
  qed
qed

section \<open>Heads\<close>

text \<open>\<open>w\<close> is the revision that follows \<open>v\<close>.\<close>

definition follows :: "creative_plan_version \<Rightarrow> creative_plan_version \<Rightarrow> bool" where
  "follows v w \<longleftrightarrow> cpv_workspace_id w = cpv_workspace_id v \<and> cpv_workflow_id w = cpv_workflow_id v \<and>
     cpv_creative_plan_id w = cpv_creative_plan_id v \<and> cpv_version_number w = cpv_version_number v + 1 \<and>
     cpv_supersedes_version_id w = Some (cpv_id v) \<and> dt_le (cpv_created_at v) (cpv_created_at w)"

text \<open>Commands on a head, with the versions it accepted; a refused command leaves the head alone.\<close>

definition plan_head_step ::
  "creative_plan_version \<times> int \<Rightarrow> creative_plan_head \<times> creative_plan_version list \<Rightarrow>
     creative_plan_head \<times> creative_plan_version list" where
  "plan_head_step = (\<lambda>(v, expected) (h, accepted).
     case cph_advance v expected h of Inl e \<Rightarrow> (h, accepted) | Inr h' \<Rightarrow> (h', accepted @ [v]))"

definition plan_head_run ::
  "(creative_plan_version \<times> int) list \<Rightarrow> creative_plan_head \<times> creative_plan_version list \<Rightarrow>
     creative_plan_head \<times> creative_plan_version list" where
  "plan_head_run cs s = foldl (\<lambda>s c. plan_head_step c s) s cs"

text \<open>The head shows the last of its versions.\<close>

definition shows_last :: "creative_plan_head \<Rightarrow> creative_plan_version list \<Rightarrow> bool" where
  "shows_last h chain \<longleftrightarrow> chain \<noteq> [] \<and> cph_check h = None \<and> cph_version h = int (length chain) \<and>
     cph_workspace_id h = cpv_workspace_id (last chain) \<and> cph_workflow_id h = cpv_workflow_id (last chain) \<and>
     cph_creative_plan_id h = cpv_creative_plan_id (last chain) \<and>
     cph_current_version_id h = cpv_id (last chain) \<and>
     cph_current_version_number h = cpv_version_number (last chain) \<and>
     cph_updated_at h = cpv_created_at (last chain)"

lemma cph_check_utc: "cph_check h = None \<Longrightarrow> is_utc (cph_created_at h) \<and> is_utc (cph_updated_at h) \<and> is_utc (cph_retain_until h)"
  by (simp add: cph_check_def guards_None)

lemma cph_moved_check:
  assumes "cph_check h = None" "cpv_version_number v = cph_current_version_number h + 1"
    "dt_le (cph_updated_at h) (cpv_created_at v)"
  shows "cph_check (cph_moved v h) = None \<longleftrightarrow>
    validate_uuid (cpv_id v) = None \<and> cph_version h < 1000000 \<and> is_utc (cpv_created_at v)"
  using assms by (auto simp: cph_check_def cph_moved_def guards_None validate_positive_def comparable_utc dt_defs
      simp del: guards.simps)

lemma cph_advance_exact:
  assumes "shows_last h chain"
  shows "cph_advance w e h = Inr h' \<longleftrightarrow> e = int (length chain) \<and> follows (last chain) w \<and> is_utc (cpv_created_at w) \<and>
    validate_uuid (cpv_id w) = None \<and> length chain < 1000000 \<and> h' = cph_moved w h"
proof -
  have h: "cph_check h = None" "cph_version h = int (length chain)" "is_utc (cph_updated_at h)"
    using assms cph_check_utc [of h] by (auto simp: shows_last_def)
  have g: "cph_advance_check w e h = None \<longleftrightarrow>
      e = int (length chain) \<and> follows (last chain) w \<and> \<not> incomparable (cpv_created_at w) (cph_updated_at h)"
    using assms by (auto simp: cph_advance_check_def guards_None shows_last_def follows_def dt_defs not_less)
  have "cph_advance w e h = Inr h' \<longleftrightarrow>
      cph_advance_check w e h = None \<and> cph_check (cph_moved w h) = None \<and> h' = cph_moved w h"
    by (auto simp: cph_advance_def Let_def)
  moreover have "cph_check (cph_moved w h) = None \<longleftrightarrow>
      validate_uuid (cpv_id w) = None \<and> length chain < 1000000 \<and> is_utc (cpv_created_at w)" if "follows (last chain) w"
    using cph_moved_check [OF h(1), of w] that assms h(2) by (auto simp: shows_last_def follows_def)
  moreover have "is_utc (cpv_created_at w) \<Longrightarrow> \<not> incomparable (cpv_created_at w) (cph_updated_at h)"
    using h(3) by (simp add: comparable_utc)
  ultimately show ?thesis using g by blast
qed

lemma shows_last_moved:
  assumes "shows_last h chain" "cph_advance w e h = Inr h'"
  shows "shows_last h' (chain @ [w])"
proof -
  have "h' = cph_moved w h" "follows (last chain) w" "cph_check (cph_moved w h) = None"
    using assms cph_moved_check [of h w] unfolding cph_advance_exact [OF assms(1)]
    by (auto simp: shows_last_def follows_def)
  then show ?thesis using assms(1) by (auto simp: shows_last_def cph_moved_def follows_def)
qed

lemma plan_head_run_history:
  assumes "shows_last h chain" "successively follows chain" "plan_head_run cs (h, chain) = (h', chain')"
  shows "shows_last h' chain' \<and> successively follows chain' \<and> hd chain' = hd chain"
  using assms
proof (induction cs arbitrary: h chain)
  case (Cons c cs)
  obtain w e where c: "c = (w, e)" by fastforce
  show ?case
  proof (cases "cph_advance w e h")
    case (Inl err)
    then show ?thesis using Cons by (simp add: plan_head_run_def plan_head_step_def c)
  next
    case (Inr k)
    have "follows (last chain) w" using Inr unfolding cph_advance_exact [OF Cons.prems(1)] by simp
    moreover have "chain \<noteq> []" using Cons.prems(1) by (simp add: shows_last_def)
    ultimately have "successively follows (chain @ [w])" "hd (chain @ [w]) = hd chain"
      using Cons.prems(2) by (simp_all add: successively_append_iff)
    moreover have "plan_head_run cs (k, chain @ [w]) = (h', chain')"
      using Cons.prems(3) Inr by (simp add: plan_head_run_def plan_head_step_def c)
    ultimately show ?thesis using Cons.IH [OF shows_last_moved [OF Cons.prems(1) Inr]] by metis
  qed
qed (simp add: plan_head_run_def)

lemma cph_first_shows: "cph_from_first_version v r = Inr h \<Longrightarrow> shows_last h [v] \<and> cpv_version_number v = 1"
  by (auto simp: cph_from_first_version_def Let_def shows_last_def split: if_splits option.splits)

text \<open>The chain, spelled out: numbers count from one and every version names its predecessor.\<close>

lemma successively_numbers:
  "successively follows chain \<Longrightarrow> i < length chain \<Longrightarrow> cpv_version_number (chain ! i) = cpv_version_number (hd chain) + int i"
proof (induction i)
  case (Suc i)
  then have "follows (chain ! i) (chain ! Suc i)" by (simp add: successively_conv_nth)
  with Suc show ?case by (simp add: follows_def)
qed (simp add: hd_conv_nth)

text \<open>The head is an optimistically versioned object.\<close>

interpretation plan_head: versioned "\<lambda>h h'. \<exists>v e. cph_advance v e h = Inr h'" cph_version "\<lambda>h. h"
proof unfold_locales
  fix s t
  assume "\<exists>v e. cph_advance v e s = Inr t"
  then show "cph_version s < cph_version t \<or> cph_version t = cph_version s \<and> t = s"
    by (auto simp: cph_advance_def Let_def cph_moved_def)
qed

lemma plan_head_history_parts:
  assumes "cph_from_first_version v r = Inr h" "plan_head_run cs (h, [v]) = (h', chain)"
  shows "hd chain = v" "successively follows chain" "\<forall>i < length chain. cpv_version_number (chain ! i) = int i + 1"
    and "shows_last h' chain"
    and "(\<exists>h''. cph_advance w e h' = Inr h'') \<longleftrightarrow> e = int (length chain) \<and> follows (last chain) w \<and>
      is_utc (cpv_created_at w) \<and> validate_uuid (cpv_id w) = None \<and> length chain < 1000000"
proof -
  note first = cph_first_shows [OF assms(1)]
  have run: "shows_last h' chain \<and> successively follows chain \<and> hd chain = v"
    using plan_head_run_history [OF _ _ assms(2)] first by simp
  then show "hd chain = v" "successively follows chain" "shows_last h' chain" by simp_all
  show "\<forall>i < length chain. cpv_version_number (chain ! i) = int i + 1"
    using run first successively_numbers [of chain] by simp
  show "(\<exists>h''. cph_advance w e h' = Inr h'') \<longleftrightarrow> e = int (length chain) \<and> follows (last chain) w \<and>
      is_utc (cpv_created_at w) \<and> validate_uuid (cpv_id w) = None \<and> length chain < 1000000"
    using cph_advance_exact [of h' chain w e] run by blast
qed

text \<open>C30: The head of a creative plan is the end of an unbroken chain. After any sequence of advances on a fresh
  head, refused ones included, the accepted versions start with the first one, carry the numbers 1, 2, 3 and
  so on, belong to the same plan, each names its predecessor and none is older than it; the head shows the
  last of them and counts them. The next advance is accepted exactly when it expects this count and continues
  the chain.\<close>

theorem plan_head_history:
  assumes "cph_from_first_version v r = Inr h" "plan_head_run cs (h, [v]) = (h', chain)"
  shows "(hd chain = v) \<and>
      (successively follows chain) \<and>
      (\<forall>i < length chain. cpv_version_number (chain ! i) = int i + 1) \<and>
      (shows_last h' chain) \<and>
      ((\<exists>h''. cph_advance w e h' = Inr h'') \<longleftrightarrow> e = int (length chain) \<and> follows (last chain) w \<and>
      is_utc (cpv_created_at w) \<and> validate_uuid (cpv_id w) = None \<and> length chain < 1000000)"
  by (intro conjI impI; (rule plan_head_history_parts [OF assms]; assumption))

end
