(* ===== verification/Creative_Plan_Samples.thy ===== *)
theory Creative_Plan_Samples
  imports Creative_Plan_Facts
begin

text \<open>
  A concrete creative plan: one direction with one tool intent, its payload, three versions and the
  commands that publish them. Bounds on the length of a canonical text avoid printing it.
\<close>

section \<open>The length of a text\<close>

fun text_bound :: "json \<Rightarrow> nat" where
  "text_bound JNull = 4"
| "text_bound (JBool b) = 5"
| "text_bound (JInt n) = length (str_of_int n)"
| "text_bound (JStr s) = 2 + 6 * length s"
| "text_bound (JArr xs) = 2 + sum_list (map (\<lambda>x. text_bound x + 1) xs)"
| "text_bound (JObj kvs) = 2 + sum_list (map (\<lambda>(k, v). 6 * length k + 4 + text_bound v) kvs)"

lemma escape_char_length: "length (escape_char ascii c) \<le> 6"
  by (auto simp: escape_char_def split: option.split)

lemma json_string_length: "length (json_string ascii s) \<le> 2 + 6 * length s"
proof -
  have "length (concat (map (escape_char ascii) s)) \<le> 6 * length s"
    using escape_char_length by (induction s) (auto intro: add_le_mono order_trans)
  then show ?thesis by (simp add: json_string_def)
qed

lemma joined_length: "length (join '','' xs) \<le> sum_list (map (\<lambda>x. length x + 1) xs)"
  by (induction "'',''" xs rule: join.induct) auto

lemma dumps_bound: "length (json_dumps ascii v) \<le> text_bound v"
proof (induction v rule: text_bound.induct)
  case (5 xs)
  have "length (join '','' (map (json_dumps ascii) xs)) \<le> sum_list (map (\<lambda>x. length (json_dumps ascii x) + 1) xs)"
    using joined_length [of "map (json_dumps ascii) xs"] by (simp add: comp_def)
  also have "\<dots> \<le> sum_list (map (\<lambda>x. text_bound x + 1) xs)" using 5 by (intro sum_list_mono) simp
  finally show ?case by simp
next
  case (6 kvs)
  let ?t = "member_text ascii (json_dumps ascii)"
  have "length (join '','' (map ?t (sort_key fst kvs))) \<le> sum_list (map (\<lambda>x. length (?t x) + 1) (sort_key fst kvs))"
    using joined_length [of "map ?t (sort_key fst kvs)"] by (simp add: comp_def)
  also have "\<dots> = sum_list (map (\<lambda>x. length (?t x) + 1) kvs)" by (rule sum_list_sort)
  also have "\<dots> \<le> sum_list (map (\<lambda>(k, v). 6 * length k + 4 + text_bound v) kvs)"
  proof (intro sum_list_mono)
    fix x assume x: "x \<in> set kvs"
    obtain k v where kv: "x = (k, v)" by fastforce
    show "length (?t x) + 1 \<le> (case x of (k, v) \<Rightarrow> 6 * length k + 4 + text_bound v)"
      using 6 [OF x kv [symmetric]] json_string_length [of ascii k] by (simp add: kv member_text_def)
  qed
  finally show ?case unfolding json_dumps_object by simp
qed (use json_string_length in simp_all)

section \<open>A payload\<close>

definition sample_arguments :: "(string \<times> json) list" where
  "sample_arguments = [(''size'', JArr [JInt 2, JStr ''xl'']), (''count'', JInt 3)]"

definition sample_intent :: tool_intent_proposal where
  "sample_intent = \<lparr>tip_intent_key = ''i'', tip_tool_name = ''t'', tip_schema_version = ''1'', tip_purpose = ''p'',
     tip_arguments_json = json_dumps True (JObj sample_arguments), tip_estimated_cost_units = 5\<rparr>"

definition sample_direction :: creative_plan_direction where
  "sample_direction = \<lparr>dir_key = ''d'', dir_image_role = HERO, dir_scene = ''s'', dir_composition = ''c'',
     dir_camera = ''a'', dir_lighting = ''l'', dir_color_direction = ''r'', dir_product_constraints = [''k''],
     dir_required_elements = [''e''], dir_prohibited_elements = [],
     dir_citation_selections = [\<lparr>cite_citation_id = ''x'', cite_reason = ''why''\<rparr>], dir_candidate_count = 2,
     dir_quality_targets = [''q''], dir_repair_scope = [], dir_tool_intents = [sample_intent]\<rparr>"

definition sample_payload :: creative_plan_payload where
  "sample_payload = \<lparr>cpp_directions = [sample_direction], cpp_schema_version = ''creative-plan.v1''\<rparr>"

lemma str_of_digit: "n < 10 \<Longrightarrow> length (str_of_int (int n)) = 1"
  by (simp add: str_of_int_def str_of_nat.simps)

lemma sample_digits:
  "length (str_of_int 2) = 1" "length (str_of_int 3) = 1" "length (str_of_int 5) = 1"
  using str_of_digit [of 2] str_of_digit [of 3] str_of_digit [of 5] by simp_all

lemma sample_arguments_ok:
  "json_ok (JObj sample_arguments)" "admissible_arguments sample_arguments"
proof -
  show "json_ok (JObj sample_arguments)" by (simp add: sample_arguments_def)
  have "length (json_dumps True (JObj sample_arguments)) \<le> text_bound (JObj sample_arguments)" by (rule dumps_bound)
  also have "\<dots> \<le> 16384" by (simp add: sample_arguments_def sample_digits)
  finally show "admissible_arguments sample_arguments"
    by (simp add: admissible_arguments_def sample_arguments_def plan_shaped_def shaped_def is_control_def code_def
        external_authority_fields_def field_name_def strip_underscores_def boundary_def is_lower_def is_upper_def
        is_digit_def between_def is_alnum_def lower_def lower_char_def external_value_def external_reference_def
        absolute_path_def strip_def is_space_def is_scheme_char_def starts_with_def backslash_def del: json_dumps.simps)
qed

lemma sample_intent_created:
  "tip_create ''i'' ''t'' ''1'' ''p'' sample_arguments 5 = Inr sample_intent" "tip_check sample_intent = None"
proof -
  have scalars: "tip_scalars_ok ''i'' ''t'' ''1'' ''p'' 5"
    by (simp add: tip_scalars_ok_def is_alnum_def is_digit_def between_def code_def is_text_def strip_def is_space_def
        is_control_def)
  have "tip_arguments_check (json_dumps True (JObj sample_arguments)) = None"
    using tip_arguments_dumps [OF sample_arguments_ok(1)] sample_arguments_ok(2) by simp
  with scalars show c: "tip_check sample_intent = None" unfolding tip_check_None by (simp add: sample_intent_def)
  then show "tip_create ''i'' ''t'' ''1'' ''p'' sample_arguments 5 = Inr sample_intent"
    using sample_arguments_ok(2) plan_canonical_Inr [of "JObj sample_arguments" "json_dumps True (JObj sample_arguments)"]
    by (simp add: tip_create_def admissible_arguments_def sample_intent_def del: json_dumps.simps)
qed

theorem intent_creation_exact_witness:
  "json_loads (tip_arguments_json sample_intent) = Inr (json_norm (JObj sample_arguments)) \<and>
     tip_scalars_ok ''i'' ''t'' ''1'' ''p'' 5 \<and> admissible_arguments sample_arguments"
  using intent_creation_exact [OF sample_arguments_ok(1), of "''i''" "''t''" "''1''" "''p''" 5] sample_intent_created(1)
  by blast

lemma sample_payload_checked: "intents_checked sample_payload"
  using sample_intent_created(2) by (simp add: intents_checked_def payload_intents_def sample_payload_def sample_direction_def)

lemma sample_arguments_loaded: "json_loads (tip_arguments_json sample_intent) = Inr (json_norm (JObj sample_arguments))"
  using json_loads_dumps [OF sample_arguments_ok(1), of True] by (simp add: sample_intent_def del: json_dumps.simps json_norm.simps)

definition sample_intent_data :: json where
  "sample_intent_data = JObj
     [(''intent_key'', JStr ''i''), (''tool_name'', JStr ''t''), (''schema_version'', JStr ''1''),
      (''purpose'', JStr ''p''),
      (''arguments'', JObj [(''count'', JInt 3), (''size'', JArr [JInt 2, JStr ''xl''])]),
      (''estimated_cost_units'', JInt 5)]"

lemma sample_intent_data: "tip_data sample_intent = sample_intent_data"
proof -
  have "json_norm (JObj sample_arguments) = JObj [(''count'', JInt 3), (''size'', JArr [JInt 2, JStr ''xl''])]"
    by (simp add: sample_arguments_def less_eq_char_def)
  then show ?thesis unfolding tip_data_def sample_arguments_loaded by (simp add: sample_intent_def sample_intent_data_def)
qed

lemma sample_payload_text: "plan_canonical_json (cpp_data sample_payload) = Inr (json_dumps True (cpp_data sample_payload))"
proof -
  have "length (json_dumps True (cpp_data sample_payload)) \<le> text_bound (cpp_data sample_payload)" by (rule dumps_bound)
  also have "\<dots> \<le> 65536"
    by (simp add: cpp_data_def dir_data_def sample_payload_def sample_direction_def sample_intent_data
        sample_intent_data_def sample_digits json_strings_def cite_data_def)
  finally show ?thesis
    by (simp add: plan_canonical_Inr plan_shaped_def shaped_def cpp_data_def dir_data_def sample_payload_def
        sample_direction_def sample_intent_data sample_intent_data_def json_strings_def cite_data_def is_control_def code_def
        del: json_dumps.simps)
qed

theorem payload_hash_identifies_witness:
  "sample_payload = sample_payload \<or> (\<exists>s t. s \<noteq> t \<and> (\<lambda>s. s) s = (\<lambda>s. s) (t :: string))"
  by (rule payload_hash_identifies [OF sample_payload_checked sample_payload_checked, of "\<lambda>s. s"])
    (simp_all add: payload_sha256_def sample_payload_text del: json_dumps.simps)

section \<open>Versions and their head\<close>

definition sample_provenance :: creative_plan_provenance where
  "sample_provenance = \<lparr>prov_product_brief_id = uuid_str 91, prov_product_brief_version = 1,
     prov_product_brief_sha256 = replicate 64 CHR ''a'', prov_brand_profile_id = None,
     prov_brand_profile_version = None, prov_brand_profile_sha256 = None, prov_retrieval_run_id = uuid_str 92,
     prov_retrieval_citation_ids = [''x''], prov_context_policy_version = ''v'',
     prov_context_sha256 = replicate 64 CHR ''a'', prov_prompt_id = ''p'', prov_prompt_revision = ''1'',
     prov_prompt_sha256 = replicate 64 CHR ''a''\<rparr>"

definition sample_version :: "nat \<Rightarrow> creative_plan_version" where
  "sample_version n = \<lparr>cpv_id = uuid_str n, cpv_workspace_id = ''w'', cpv_workflow_id = uuid_str 81,
     cpv_creative_plan_id = uuid_str 82, cpv_version_number = int n,
     cpv_supersedes_version_id = (if n = 1 then None else Some (uuid_str (n - 1))),
     cpv_source = AGENT, cpv_payload = sample_payload, cpv_provenance = sample_provenance,
     cpv_payload_sha256 = replicate 64 CHR ''a'', cpv_actor_id = ''a'', cpv_revision_reason = None,
     cpv_created_at = utc (int n)\<rparr>"

definition sample_head :: "nat \<Rightarrow> creative_plan_head" where
  "sample_head n = \<lparr>cph_workspace_id = ''w'', cph_workflow_id = uuid_str 81, cph_creative_plan_id = uuid_str 82,
     cph_current_version_id = uuid_str n, cph_current_version_number = int n, cph_version = int n,
     cph_retain_until = utc 100, cph_created_at = utc 1, cph_updated_at = utc (int n)\<rparr>"

lemma sample_head_checked: "1 \<le> n \<Longrightarrow> n \<le> 1000 \<Longrightarrow> cph_check (sample_head n) = None"
  by (simp add: cph_check_def sample_head_def guards_None validator_defs is_alnum_def is_digit_def between_def code_def
      validate_positive_def comparable_utc dt_defs del: guards.simps)

lemma sample_head_first: "cph_from_first_version (sample_version 1) (utc 100) = Inr (sample_head 1)"
  using sample_head_checked [of 1]
  by (simp add: cph_from_first_version_def sample_version_def sample_head_def)

lemma sample_shows: "1 \<le> n \<Longrightarrow> n \<le> 1000 \<Longrightarrow> length chain = n \<Longrightarrow> chain \<noteq> [] \<Longrightarrow> last chain = sample_version n \<Longrightarrow>
    shows_last (sample_head n) chain"
  using sample_head_checked [of n] by (simp add: shows_last_def sample_head_def sample_version_def)

text \<open>A stale second command and a third that skips a number are refused.\<close>

lemma sample_run_plan:
  "plan_head_run [(sample_version 2, 1), (sample_version 2, 1), (sample_version 4, 2)] (sample_head 1, [sample_version 1]) =
     (sample_head 2, [sample_version 1, sample_version 2])"
proof -
  have one: "shows_last (sample_head 1) [sample_version 1]" by (rule sample_shows) simp_all
  have two: "shows_last (sample_head 2) [sample_version 1, sample_version 2]" by (rule sample_shows) simp_all
  have a: "cph_advance (sample_version 2) 1 (sample_head 1) = Inr (sample_head 2)"
    unfolding cph_advance_exact [OF one]
    by (simp add: follows_def sample_version_def cph_moved_def sample_head_def dt_defs)
  have "cph_advance v e (sample_head 2) \<noteq> Inr h" if i: "e \<noteq> 2 \<or> cpv_version_number v \<noteq> 3" for v e h
    using i unfolding cph_advance_exact [OF two] by (auto simp: follows_def sample_version_def)
  then have refused: "\<exists>err. cph_advance v e (sample_head 2) = Inl err" if "e \<noteq> 2 \<or> cpv_version_number v \<noteq> 3" for v e
    using that by (meson sumE)
  have b: "\<exists>err. cph_advance (sample_version 2) 1 (sample_head 2) = Inl err" by (rule refused) simp
  have c: "\<exists>err. cph_advance (sample_version 4) 2 (sample_head 2) = Inl err"
    by (rule refused) (simp add: sample_version_def)
  from a b c show ?thesis by (auto simp: plan_head_run_def plan_head_step_def)
qed

theorem plan_head_history_witness:
  "successively follows [sample_version 1, sample_version 2] \<and>
     shows_last (sample_head 2) [sample_version 1, sample_version 2] \<and>
     (\<exists>h. cph_advance (sample_version 3) 2 (sample_head 2) = Inr h)"
  using plan_head_history [OF sample_head_first sample_run_plan]
  by (simp add: follows_def sample_version_def dt_defs)

end
