(* ===== verification/Tool_Facts.thy ===== *)
theory Tool_Facts
  imports Tool_Authorization Registries Creative_Plan_Samples
begin

text \<open>
  The tool runtime is closed by default: the gateway runs a tool only behind every check and vouches for its
  result; an intent is allowed exactly under the conditions of the authorizer; the allowed intents of a plan
  stay within its quota and budget; and an idempotency key identifies what it authorizes.
\<close>

section \<open>The registry\<close>

interpretation tools: keyed_registry reg_register map_of tl_key
proof unfold_locales
  fix s :: "('w, 'm) tool_registry" and v :: "('w, 'm) tool_definition"
  show "map_of s (tl_key v) \<noteq> None \<Longrightarrow> \<exists>e. reg_register v s = Inl e"
    by (simp add: reg_register_def)
  assume "map_of s (tl_key v) = None"
  then show "\<exists>t. reg_register v s = Inr t \<and> map_of t = (map_of s)(tl_key v \<mapsto> v)"
    by (auto simp: reg_register_def fun_eq_iff map_add_def split: option.splits)
qed

lemma reg_register_all_eq: "reg_register_all ds r = tools.register_all ds r"
  by (induction ds arbitrary: r) (auto intro!: arg_cong [where f = "attempt _"])

lemma reg_create_exact: "(\<exists>r. reg_create ds = Inr r) \<longleftrightarrow> distinct (map tl_key ds)"
  using tools.register_all_succeeds [of ds "[]"] by (simp add: reg_create_def reg_register_all_eq)

lemma reg_create_lookup: "reg_create ds = Inr r \<Longrightarrow> map_of r k = Some d \<longleftrightarrow> d \<in> set ds \<and> tl_key d = k"
  using tools.register_all_lookup [of ds "[]" r k d] by (simp add: reg_create_def reg_register_all_eq)

lemma reg_resolve_Inr:
  "reg_create ds = Inr r \<Longrightarrow> reg_resolve r name version = Inr d \<longleftrightarrow>
     d \<in> set ds \<and> tl_name d = name \<and> tl_version d = version \<and> tl_enabled d"
proof -
  assume "reg_create ds = Inr r"
  note found = reg_create_lookup [OF this, of "(name, version)" d]
  have "reg_resolve r name version = Inr d \<longleftrightarrow> map_of r (name, version) = Some d \<and> tl_enabled d"
    by (auto simp: reg_resolve_def split: option.splits)
  then show ?thesis unfolding found by (auto simp: tl_key_def)
qed

section \<open>The gateway\<close>

text \<open>The checks before a tool runs.\<close>

definition admitted ::
  "('w, 'm) tool_definition list \<Rightarrow> 'w tool_policy \<Rightarrow> tool_execution_context \<Rightarrow> tool_invocation \<Rightarrow> 'w \<Rightarrow>
     ('w, 'm) tool_definition \<Rightarrow> tool_invocation \<Rightarrow> bool" where
  "admitted ds p ctx invocation w d call \<longleftrightarrow>
     pol_validate p invocation w = None \<and>
     d \<in> set ds \<and> tl_name d = inv_tool_name invocation \<and> tl_version d = inv_tool_version invocation \<and>
     tl_enabled d \<and> tl_required_scopes d \<subseteq> tc_scopes ctx \<and> validated_invocation d invocation = Inr call"

lemma gateway_admit_Inr:
  assumes "reg_create ds = Inr r"
  shows "gateway_admit r p ctx invocation w = Inr (d, run, call) \<longleftrightarrow>
    admitted ds p ctx invocation w d call \<and> tl_implementation d = Some run"
  by (auto simp: gateway_admit_def admitted_def reg_resolve_Inr [OF assms] split: option.splits)

lemma gateway_accept_Inr:
  "gateway_accept d ctx call raw = Inr res \<Longrightarrow>
     validated_result d raw = Inr res \<and> res_tool_name res = tl_name d \<and> res_tool_version res = tl_version d \<and>
     res_idempotency_key res = inv_idempotency_key call \<and>
     json_bytes (res_output res) \<le> tl_maximum_output_bytes d \<and>
     json_bytes (res_output res) \<le> tc_maximum_output_bytes ctx"
  by (auto simp: gateway_accept_def validated_result_def split: option.splits)

lemma validated_invocation_key: "validated_invocation d invocation = Inr call \<Longrightarrow> inv_idempotency_key call = inv_idempotency_key invocation"
  by (auto simp: validated_invocation_def split: option.splits)

lemma gateway_fail_closed_parts:
  assumes "reg_create ds = Inr r"
  shows "gateway_execute r p ctx invocation w = Done res w' \<Longrightarrow>
      \<exists>d run call raw. admitted ds p ctx invocation w d call \<and> tl_implementation d = Some run \<and>
        run ctx call w = Done raw w' \<and> validated_result d raw = Inr res \<and>
        res_tool_name res = inv_tool_name invocation \<and> res_tool_version res = inv_tool_version invocation \<and>
        res_idempotency_key res = inv_idempotency_key invocation \<and>
        json_bytes (res_output res) \<le> tl_maximum_output_bytes d \<and>
        json_bytes (res_output res) \<le> tc_maximum_output_bytes ctx"
    and "gateway_execute r p ctx invocation w = Raise e w' \<Longrightarrow> w' \<noteq> w \<Longrightarrow>
      \<exists>d run call. admitted ds p ctx invocation w d call \<and> tl_implementation d = Some run \<and>
        object_after (run ctx call w) = w'"
proof -
  show "\<exists>d run call raw. admitted ds p ctx invocation w d call \<and> tl_implementation d = Some run \<and>
        run ctx call w = Done raw w' \<and> validated_result d raw = Inr res \<and>
        res_tool_name res = inv_tool_name invocation \<and> res_tool_version res = inv_tool_version invocation \<and>
        res_idempotency_key res = inv_idempotency_key invocation \<and>
        json_bytes (res_output res) \<le> tl_maximum_output_bytes d \<and>
        json_bytes (res_output res) \<le> tc_maximum_output_bytes ctx"
    if "gateway_execute r p ctx invocation w = Done res w'"
  proof -
    from that obtain d run call raw where a: "gateway_admit r p ctx invocation w = Inr (d, run, call)"
      and raw: "run ctx call w = Done raw w'" "gateway_accept d ctx call raw = Inr res"
      by (auto simp: gateway_execute_def branch_Done andthen_Done)
    have d: "admitted ds p ctx invocation w d call" "tl_implementation d = Some run"
      using a gateway_admit_Inr [OF assms] by blast+
    show ?thesis
      by (intro exI conjI, rule d(1), rule d(2), rule raw(1))
        (use gateway_accept_Inr [OF raw(2)] d(1) validated_invocation_key [of d invocation call] in
          \<open>simp_all add: admitted_def\<close>)
  qed
  show "\<exists>d run call. admitted ds p ctx invocation w d call \<and> tl_implementation d = Some run \<and>
        object_after (run ctx call w) = w'"
    if raised: "gateway_execute r p ctx invocation w = Raise e w'" and moved: "w' \<noteq> w"
  proof (cases "gateway_admit r p ctx invocation w")
    case (Inl err)
    with raised moved show ?thesis by (simp add: gateway_execute_def)
  next
    case (Inr x)
    obtain d run call where x: "x = (d, run, call)" by (cases x)
    have "object_after (run ctx call w) = w'"
    proof (cases "run ctx call w")
      case (Done raw t)
      with raised Inr show ?thesis by (cases "gateway_accept d ctx call raw") (simp_all add: x gateway_execute_def)
    next
      case (Raise err t)
      with raised Inr show ?thesis by (simp add: x gateway_execute_def)
    qed
    then show ?thesis using Inr gateway_admit_Inr [OF assms] unfolding x by blast
  qed
qed

text \<open>C31: The gateway is closed by default. A call that returns has passed the policy, runs a registered and
  enabled tool of exactly the requested name and version, whose scopes the caller holds, on the validated
  arguments; its result is the validated result of that run, names the tool, carries the caller's
  idempotency key and fits both output limits. A call that raises has left the world as it found it, unless a
  tool admitted in this way ran and left it so.\<close>

theorem gateway_fail_closed:
  assumes "reg_create ds = Inr r"
  shows "(gateway_execute r p ctx invocation w = Done res w' \<longrightarrow> (\<exists>d run call raw. admitted ds p ctx invocation w d call \<and> tl_implementation d = Some run \<and>
      run ctx call w = Done raw w' \<and> validated_result d raw = Inr res \<and>
      res_tool_name res = inv_tool_name invocation \<and> res_tool_version res = inv_tool_version invocation \<and>
      res_idempotency_key res = inv_idempotency_key invocation \<and>
      json_bytes (res_output res) \<le> tl_maximum_output_bytes d \<and>
      json_bytes (res_output res) \<le> tc_maximum_output_bytes ctx)) \<and>
      (gateway_execute r p ctx invocation w = Raise e w' \<longrightarrow> w' \<noteq> w \<longrightarrow> (\<exists>d run call. admitted ds p ctx invocation w d call \<and> tl_implementation d = Some run \<and>
      object_after (run ctx call w) = w'))"
  by (intro conjI impI; (rule gateway_fail_closed_parts [OF assms]; assumption))

section \<open>The authorizer\<close>

text \<open>What an intent must satisfy: a planner-authorizable tool of the node, arguments it accepts, and the
  entitlements of the facts.\<close>

definition authorizable ::
  "('w, 'm) tool_definition list \<Rightarrow> tool_intent_candidate \<Rightarrow> tool_authorization_facts \<Rightarrow>
     ('w, 'm) tool_definition \<Rightarrow> bool" where
  "authorizable ds c f d \<longleftrightarrow> d \<in> set ds \<and> tl_name d = ic_tool_name c \<and> tl_version d = ic_schema_version c \<and>
     tl_enabled d \<and> tl_resource_resolver d \<noteq> None \<and> af_node f \<in> tl_allowed_nodes d \<and>
     (\<exists>m. tl_input_model d = Some m \<and> json_norm (tl_input_schema d) = json_norm (pm_schema m))"

definition entitled ::
  "('w, 'm) tool_definition \<Rightarrow> tool_intent_candidate \<Rightarrow> tool_authorization_facts \<Rightarrow> string list \<Rightarrow> bool" where
  "entitled d c f resource_ids \<longleftrightarrow>
     tl_required_scopes d \<subseteq> af_granted_scopes f \<and> set resource_ids \<subseteq> af_authorized_resource_ids f \<and>
     set_option (tl_provider d) \<subseteq> af_allowed_providers f \<and> tl_cost_class d \<in> af_allowed_cost_classes f \<and>
     ic_estimated_cost_units c \<le> af_remaining_quota_units f \<and> ic_estimated_cost_units c \<le> af_remaining_budget_units f"

lemma intent_denial_None: "intent_denial d c f resource_ids = None \<longleftrightarrow> entitled d c f resource_ids"
  by (auto simp: intent_denial_def entitled_def)

lemma intent_denial_reason: "intent_denial d c f resource_ids = Some reason \<Longrightarrow> reason \<noteq> ALLOWED"
  by (auto simp: intent_denial_def split: if_splits)

lemma reg_resolve_for_node_Inr:
  assumes "reg_create ds = Inr r"
  shows "reg_resolve_for_node r (ic_tool_name c) (ic_schema_version c) (af_node f) = Inr d \<longleftrightarrow> authorizable ds c f d"
  by (auto simp: reg_resolve_for_node_def authorizable_def reg_resolve_Inr [OF assms] guards_None
      simp del: guards.simps split: option.splits)

text \<open>A denial carries nothing a caller could execute.\<close>

definition empty_denial :: "tool_authorization_decision \<Rightarrow> bool" where
  "empty_denial x \<longleftrightarrow> \<not> ad_allowed x \<and> ad_reason x \<noteq> ALLOWED \<and> ad_arguments_json x = None \<and>
     ad_resource_ids x = [] \<and> ad_idempotency_key x = None \<and> \<not> aa_allowed (ad_audit x)"

lemma intent_deny_empty: "reason \<noteq> ALLOWED \<Longrightarrow> empty_denial (intent_deny sha256 v c f reason h level resource_ids)"
  by (simp add: empty_denial_def intent_deny_def intent_audit_def)

lemma intent_authorize_cases:
  assumes "reg_create ds = Inr r"
  shows "(\<exists>d text resource_ids. authorizable ds c f d \<and> read_arguments d (ic_arguments_json c) = Inr (text, resource_ids) \<and>
        entitled d c f resource_ids \<and> ad_allowed (intent_authorize sha256 r v c f) \<and>
        ad_arguments_json (intent_authorize sha256 r v c f) = Some text \<and>
        ad_resource_ids (intent_authorize sha256 r v c f) = resource_ids \<and>
        ad_idempotency_key (intent_authorize sha256 r v c f) =
          Some (intent_idempotency_key sha256 v c f text resource_ids (tl_provider d))) \<or>
      empty_denial (intent_authorize sha256 r v c f) \<and>
      (\<forall>d text resource_ids. authorizable ds c f d \<longrightarrow>
        read_arguments d (ic_arguments_json c) = Inr (text, resource_ids) \<longrightarrow> \<not> entitled d c f resource_ids)"
proof (cases "reg_resolve_for_node r (ic_tool_name c) (ic_schema_version c) (af_node f)")
  case (Inl e)
  then have "\<not> authorizable ds c f d" for d using reg_resolve_for_node_Inr [OF assms, of c f d] by simp
  then show ?thesis using Inl by (simp add: intent_authorize_def Let_def intent_deny_empty)
next
  case (Inr d)
  then have d: "authorizable ds c f d" using reg_resolve_for_node_Inr [OF assms, of c f d] by simp
  have same: "authorizable ds c f d' \<longleftrightarrow> d' = d" for d'
    using reg_resolve_for_node_Inr [OF assms, of c f d'] Inr by auto
  show ?thesis
  proof (cases "read_arguments d (ic_arguments_json c)")
    case (Inl e)
    then show ?thesis using Inr same by (simp add: intent_authorize_def Let_def intent_deny_empty)
  next
    case read: (Inr a)
    obtain args resource_ids where a: "a = (args, resource_ids)" by fastforce
    show ?thesis
    proof (cases "intent_denial d c f resource_ids")
      case None
      then have "entitled d c f resource_ids" using intent_denial_None [of d c f resource_ids] by simp
      then show ?thesis using Inr d same read None by (simp add: a intent_authorize_def Let_def)
    next
      case (Some reason)
      then have "\<not> entitled d c f resource_ids" using intent_denial_None [of d c f resource_ids] by simp
      then show ?thesis using Inr same read Some intent_denial_reason [OF Some]
        by (simp add: a intent_authorize_def Let_def intent_deny_empty)
    qed
  qed
qed

lemma intent_authorized_iff_parts:
  assumes "reg_create ds = Inr r"
  shows "ad_allowed (intent_authorize sha256 r v c f) \<longleftrightarrow>
      (\<exists>d text resource_ids. authorizable ds c f d \<and>
        read_arguments d (ic_arguments_json c) = Inr (text, resource_ids) \<and> entitled d c f resource_ids)"
    and "ad_allowed (intent_authorize sha256 r v c f) \<Longrightarrow>
      \<exists>d text. authorizable ds c f d \<and>
        read_arguments d (ic_arguments_json c) = Inr (text, ad_resource_ids (intent_authorize sha256 r v c f)) \<and>
        ad_arguments_json (intent_authorize sha256 r v c f) = Some text \<and>
        ad_idempotency_key (intent_authorize sha256 r v c f) = Some (intent_idempotency_key sha256 v c f text
          (ad_resource_ids (intent_authorize sha256 r v c f)) (tl_provider d))"
    and "\<not> ad_allowed (intent_authorize sha256 r v c f) \<Longrightarrow> empty_denial (intent_authorize sha256 r v c f)"
proof -
  let ?x = "intent_authorize sha256 r v c f"
  note c = intent_authorize_cases [OF assms, of c f sha256 v]
  have denied: "empty_denial ?x \<Longrightarrow> \<not> ad_allowed ?x" by (simp add: empty_denial_def)
  show "ad_allowed ?x \<longleftrightarrow> (\<exists>d text resource_ids. authorizable ds c f d \<and>
      read_arguments d (ic_arguments_json c) = Inr (text, resource_ids) \<and> entitled d c f resource_ids)"
    using c denied by meson
  show "\<exists>d text. authorizable ds c f d \<and>
        read_arguments d (ic_arguments_json c) = Inr (text, ad_resource_ids ?x) \<and> ad_arguments_json ?x = Some text \<and>
        ad_idempotency_key ?x = Some (intent_idempotency_key sha256 v c f text (ad_resource_ids ?x) (tl_provider d))"
    if "ad_allowed ?x" using c denied that by metis
  show "\<not> ad_allowed ?x \<Longrightarrow> empty_denial ?x" using c by meson
qed

text \<open>C32: An intent is allowed exactly when a registered, enabled tool of its name and schema version is open to
  planners of the node, that tool reads its arguments, and the facts grant the scopes, every resource, the
  provider, the cost class, and the cost within quota and budget. An allowed decision carries the canonical
  arguments, the sorted resources and their idempotency key; every other decision carries none of them and a
  reason for the denial.\<close>

theorem intent_authorized_iff:
  assumes "reg_create ds = Inr r"
  shows "(ad_allowed (intent_authorize sha256 r v c f) \<longleftrightarrow>
      (\<exists>d text resource_ids. authorizable ds c f d \<and>
      read_arguments d (ic_arguments_json c) = Inr (text, resource_ids) \<and> entitled d c f resource_ids)) \<and>
      (ad_allowed (intent_authorize sha256 r v c f) \<longrightarrow> (\<exists>d text. authorizable ds c f d \<and>
      read_arguments d (ic_arguments_json c) = Inr (text, ad_resource_ids (intent_authorize sha256 r v c f)) \<and>
      ad_arguments_json (intent_authorize sha256 r v c f) = Some text \<and>
      ad_idempotency_key (intent_authorize sha256 r v c f) = Some (intent_idempotency_key sha256 v c f text
      (ad_resource_ids (intent_authorize sha256 r v c f)) (tl_provider d)))) \<and>
      (\<not> ad_allowed (intent_authorize sha256 r v c f) \<longrightarrow> empty_denial (intent_authorize sha256 r v c f))"
  by (intro conjI impI; (rule intent_authorized_iff_parts [OF assms]; assumption))

section \<open>The intents of a plan\<close>

lemma set_join: "set (join sep xs) \<subseteq> set sep \<union> (\<Union>x \<in> set xs. set x)"
  by (induction sep xs rule: join.induct) auto

definition ascii_text :: "string \<Rightarrow> bool" where
  "ascii_text s \<longleftrightarrow> (\<forall>c \<in> set s. code c < 128)"

lemma ascii_text_simps [simp]:
  "ascii_text []" "ascii_text (c # s) \<longleftrightarrow> code c < 128 \<and> ascii_text s"
  "ascii_text (s @ t) \<longleftrightarrow> ascii_text s \<and> ascii_text t"
  by (auto simp: ascii_text_def)

lemma ascii_concat: "\<forall>x \<in> set xs. ascii_text x \<Longrightarrow> ascii_text (concat xs)"
  by (induction xs) simp_all

lemma ascii_join: "ascii_text sep \<Longrightarrow> \<forall>x \<in> set xs. ascii_text x \<Longrightarrow> ascii_text (join sep xs)"
  using set_join [of sep xs] by (fastforce simp: ascii_text_def)

lemma ascii_digits: "ascii_text (str_of_int n)"
proof -
  have "ascii_text (str_of_nat m)" for m
    using str_of_nat_digits by (fastforce simp: ascii_text_def is_digit_def between_def)
  then show ?thesis by (simp add: str_of_int_def code_def)
qed

lemma ascii_escape: "ascii_text (escape_char True c)"
proof (cases "map_of (map prod.swap short_escapes) c")
  case None
  have "ascii_text (format_hex 4 n)" for n
    using format_hex_lower_hex [of 4 n] by (fastforce simp: list_all_iff ascii_text_def is_lower_hex_def is_digit_def between_def)
  then show ?thesis using None by (auto simp: escape_char_def backslash_def code_def)
next
  case (Some e)
  then have "e \<in> {quote, backslash, CHR ''b'', CHR ''f'', CHR ''n'', CHR ''r'', CHR ''t''}"
    by (auto simp: short_escapes_def split: if_splits)
  with Some show ?thesis by (auto simp: escape_char_def quote_def backslash_def code_def)
qed

lemma ascii_string: "ascii_text (json_string True s)"
  by (auto simp: json_string_def quote_def code_def ascii_escape intro!: ascii_concat)

lemma ascii_dumps: "ascii_text (json_dumps True v)"
proof (induction v)
  case (JArr xs)
  then have "ascii_text (join '','' (map (json_dumps True) xs))" by (intro ascii_join) (simp_all add: code_def)
  then show ?case by (simp add: code_def)
next
  case (JObj kvs)
  then have "ascii_text (join '','' (map (member_text True (json_dumps True)) (sort_key fst kvs)))"
    by (intro ascii_join) (auto simp: member_text_def ascii_string code_def)
  then show ?case unfolding json_dumps_object by (simp add: code_def)
qed (simp_all add: ascii_digits ascii_string, simp_all add: code_def)

lemma utf8_ascii: "ascii_text s \<Longrightarrow> utf8_length s = length s"
  by (induction s) (simp_all add: utf8_length_def)

lemma token_short: "is_token s \<Longrightarrow> short_text s"
  by (cases s) (auto simp: short_text_def)

text \<open>Every intent of a plan is a candidate.\<close>

lemma intent_candidate_checked:
  assumes "tip_check p = None"
  shows "ic_create (intent_candidate p) = Inr (intent_candidate p)"
proof -
  have s: "tip_scalars_ok (tip_intent_key p) (tip_tool_name p) (tip_schema_version p) (tip_purpose p)
      (tip_estimated_cost_units p)" and a: "tip_arguments_check (tip_arguments_json p) = None"
    using assms by (simp_all add: tip_check_None)
  obtain kvs where k: "tip_arguments_json p = json_dumps True (JObj kvs)" "admissible_arguments kvs"
    using tip_arguments_accepted [OF a] by blast
  have "utf8_length (tip_arguments_json p) \<le> max_argument_bytes"
    using k(2) utf8_ascii [OF ascii_dumps] unfolding k(1) by (simp add: admissible_arguments_def max_argument_bytes_def del: json_dumps.simps)
  then have "ic_check (intent_candidate p) = None"
    using s token_short by (auto simp: ic_check_def guards_None intent_candidate_def tip_scalars_ok_def is_text_def)
  then show ?thesis by (simp add: ic_create_def)
qed

lemma candidates_checked:
  "\<forall>p \<in> set ps. tip_check p = None \<Longrightarrow> collect ic_create (map intent_candidate ps) = Inr (map intent_candidate ps)"
  by (induction ps) (simp_all add: intent_candidate_checked)

text \<open>A decision about an intent, and what the allowed decisions charge.\<close>

definition decides :: "tool_intent_candidate \<Rightarrow> tool_authorization_decision \<Rightarrow> bool" where
  "decides c x \<longleftrightarrow> ad_intent_key x = ic_intent_key c \<and> ad_tool_name x = ic_tool_name c \<and>
     ad_schema_version x = ic_schema_version c \<and> aa_estimated_cost_units (ad_audit x) = ic_estimated_cost_units c"

definition charge :: "tool_authorization_decision \<Rightarrow> int" where
  "charge x = (if ad_allowed x then aa_estimated_cost_units (ad_audit x) else 0)"

definition charged :: "tool_authorization_decision list \<Rightarrow> int" where
  "charged xs = sum_list (map charge xs)"

lemma intent_authorize_decides: "decides c (intent_authorize sha256 r v c f)"
  by (auto simp: decides_def intent_authorize_def Let_def intent_deny_def intent_audit_def
      split: sum.splits option.splits)

lemma intent_deny_decides: "decides c (intent_deny sha256 v c f reason h level resource_ids)"
  by (simp add: decides_def intent_deny_def intent_audit_def)

lemma allowed_within:
  assumes "reg_create ds = Inr r" "ad_allowed (intent_authorize sha256 r v c f)"
  shows "ic_estimated_cost_units c \<le> af_remaining_quota_units f \<and> ic_estimated_cost_units c \<le> af_remaining_budget_units f"
  using intent_authorize_cases [OF assms(1), of c f sha256 v] assms(2) by (auto simp: entitled_def empty_denial_def)

lemma af_create_spent:
  assumes "af_check base = None" "0 \<le> quota" "0 \<le> budget"
  shows "af_create (base\<lparr>af_remaining_quota_units := quota, af_remaining_budget_units := budget\<rparr>) =
    Inr (base\<lparr>af_remaining_quota_units := quota, af_remaining_budget_units := budget\<rparr>)"
  using assms by (simp add: af_create_def af_check_def guards_None del: guards.simps)

lemma authorize_intents_within:
  assumes "reg_create ds = Inr r" "af_check base = None"
  shows "0 \<le> quota \<Longrightarrow> 0 \<le> budget \<Longrightarrow> \<exists>xs. authorize_intents sha256 r v base cs quota budget = Inr xs \<and>
    list_all2 decides cs xs \<and> charged xs \<le> quota \<and> charged xs \<le> budget"
proof (induction cs arbitrary: quota budget)
  case (Cons c cs)
  let ?f = "base\<lparr>af_remaining_quota_units := quota, af_remaining_budget_units := budget\<rparr>"
  let ?x = "intent_authorize sha256 r v c ?f"
  let ?cost = "if ad_allowed ?x then ic_estimated_cost_units c else 0"
  have "?cost \<le> quota" "?cost \<le> budget" using allowed_within [OF assms(1), of sha256 v c ?f] Cons.prems by auto
  then obtain xs where xs: "authorize_intents sha256 r v base cs (quota - ?cost) (budget - ?cost) = Inr xs"
    "list_all2 decides cs xs" "charged xs \<le> quota - ?cost" "charged xs \<le> budget - ?cost"
    using Cons.IH [of "quota - ?cost" "budget - ?cost"] by auto
  have d: "decides c ?x" by (rule intent_authorize_decides)
  then have "charge ?x = ?cost" by (simp add: charge_def decides_def)
  then have "charged (?x # xs) = ?cost + charged xs" by (simp add: charged_def)
  then have "authorize_intents sha256 r v base (c # cs) quota budget = Inr (?x # xs) \<and>
      list_all2 decides (c # cs) (?x # xs) \<and> charged (?x # xs) \<le> quota \<and> charged (?x # xs) \<le> budget"
    using xs d by (simp add: Let_def af_create_spent [OF assms(2) Cons.prems])
  then show ?case by blast
qed (simp add: charged_def)

lemma deny_all:
  "reason \<noteq> ALLOWED \<Longrightarrow> \<exists>xs. collect (\<lambda>c. intent_deny_plan sha256 v c f reason) cs = Inr xs \<and>
     list_all2 decides cs xs \<and> charged xs = 0 \<and> list_all empty_denial xs"
proof (induction cs)
  case (Cons c cs)
  let ?x = "intent_deny sha256 v c f reason (sha256 (ic_arguments_json c)) METADATA []"
  obtain xs where xs: "collect (\<lambda>c. intent_deny_plan sha256 v c f reason) cs = Inr xs"
    "list_all2 decides cs xs" "charged xs = 0" "list_all empty_denial xs" using Cons by blast
  have "charge ?x = 0" by (simp add: charge_def intent_deny_def)
  then show ?case using xs Cons.prems intent_deny_decides intent_deny_empty
    by (auto simp: intent_deny_plan_def charged_def)
qed (simp add: charged_def)

text \<open>Authorizing a plan whose claim answers the request always returns, with one decision per intent of the
  plan and in its order; the costs of the allowed intents together exceed neither the remaining quota nor the
  remaining budget; and a plan with more intents than the policy permits gets denials only. A claim that
  does not answer the request is an approval conflict.\<close>

theorem plan_charges_bounded:
  assumes "reg_create ds = Inr r"
    and "authority workspace_id workflow_id plan_id plan_version approval_id = Inr claim"
    and "entitlements (cpv_workspace_id (pec_plan claim)) (ap_approved_by (pec_approval claim))
      (cpv_creative_plan_id (pec_plan claim)) = Inr e"
    and "intents_checked (cpv_payload (pec_plan claim))" "af_check (base_facts claim e policy) = None"
  shows "if cpv_workspace_id (pec_plan claim) = workspace_id \<and> cpv_workflow_id (pec_plan claim) = workflow_id \<and>
        cpv_creative_plan_id (pec_plan claim) = plan_id \<and> cpv_version_number (pec_plan claim) = plan_version \<and>
        ap_id (pec_approval claim) = approval_id
      then \<exists>res. authorize_plan sha256 authority entitlements r policy workspace_id workflow_id plan_id
          plan_version approval_id = Inr res \<and>
        list_all2 (\<lambda>p. decides (intent_candidate p)) (payload_intents (cpv_payload (pec_plan claim))) (ptr_decisions res) \<and>
        charged (ptr_decisions res) \<le> te_remaining_quota_units e \<and>
        charged (ptr_decisions res) \<le> te_remaining_budget_units e \<and>
        (tap_maximum_intents policy < int (length (ptr_decisions res)) \<longrightarrow> list_all empty_denial (ptr_decisions res))
      else authorize_plan sha256 authority entitlements r policy workspace_id workflow_id plan_id
          plan_version approval_id = Inl ApprovalConflictError"
proof -
  let ?plan = "pec_plan claim"
  let ?ps = "payload_intents (cpv_payload ?plan)"
  let ?cs = "map intent_candidate ?ps"
  let ?base = "base_facts claim e policy"
  let ?matches = "cpv_workspace_id ?plan = workspace_id \<and> cpv_workflow_id ?plan = workflow_id \<and>
    cpv_creative_plan_id ?plan = plan_id \<and> cpv_version_number ?plan = plan_version \<and>
    ap_id (pec_approval claim) = approval_id"
  have cs: "collect ic_create ?cs = Inr ?cs" using assms(4) by (intro candidates_checked) (simp add: intents_checked_def)
  have base: "af_create ?base = Inr ?base" using assms(5) by (simp add: af_create_def)
  have pos: "0 \<le> te_remaining_quota_units e" "0 \<le> te_remaining_budget_units e"
    using assms(5) by (simp_all add: af_check_def guards_None base_facts_def Let_def del: guards.simps)
  define decisions where "decisions =
    (if tap_maximum_intents policy < int (length ?cs)
     then collect (\<lambda>c. intent_deny_plan sha256 (tap_version policy) c ?base INTENT_LIMIT_EXCEEDED) ?cs
     else authorize_intents sha256 r (tap_version policy) ?base ?cs (te_remaining_quota_units e)
       (te_remaining_budget_units e))"
  obtain xs where xs: "decisions = Inr xs" "list_all2 decides ?cs xs" "charged xs \<le> te_remaining_quota_units e"
    "charged xs \<le> te_remaining_budget_units e"
    "tap_maximum_intents policy < int (length ?cs) \<longrightarrow> list_all empty_denial xs"
    using authorize_intents_within [OF assms(1,5) pos, of sha256 "tap_version policy" ?cs]
      deny_all [of INTENT_LIMIT_EXCEEDED sha256 "tap_version policy" ?base ?cs] pos
    unfolding decisions_def by (cases "tap_maximum_intents policy < int (length ?cs)") auto
  have len: "length xs = length ?cs" using list_all2_lengthD [OF xs(2)] by simp
  have "authorize_plan sha256 authority entitlements r policy workspace_id workflow_id plan_id plan_version
      approval_id = (if ?matches then Inr (plan_result claim xs) else Inl ApprovalConflictError)"
    using xs(1) unfolding decisions_def
    by (auto simp: authorize_plan_def Let_def assms(2,3) cs base guard_def)
  then show ?thesis using xs len by (auto simp: plan_result_def Let_def list_all2_map1)
qed

section \<open>Idempotency keys\<close>

text \<open>What a key stands for: the authority, the intent, the arguments, the resources and the price.\<close>

definition key_subject ::
  "tool_intent_candidate \<Rightarrow> tool_authorization_facts \<Rightarrow> string \<Rightarrow> string list \<Rightarrow> string option \<Rightarrow>
     string list \<times> int list \<times> string list \<times> string option" where
  "key_subject c f args resource_ids provider =
     ([af_workspace_id f, af_actor_id f, af_workflow_id f, af_creative_plan_id f, af_creative_plan_version_id f,
       af_approval_id f, af_node f, ic_intent_key c, ic_tool_name c, ic_schema_version c, args],
      [af_workflow_version f, af_creative_plan_version f, ic_estimated_cost_units c], resource_ids, provider)"

text \<open>The idempotency key of an authorization identifies it: equal keys mean the same policy version, the same
  workspace, actor, workflow, plan version and approval with their versions, the same node, the same intent,
  tool and schema version, the same canonical arguments, resources and provider and the same cost, or SHA-256
  has a collision on two texts.\<close>

theorem idempotency_key_identifies:
  assumes "intent_idempotency_key sha256 v c f args resource_ids provider =
    intent_idempotency_key sha256 v' c' f' args' resource_ids' provider'"
  shows "v = v' \<and> key_subject c f args resource_ids provider = key_subject c' f' args' resource_ids' provider' \<or>
    (\<exists>s t. s \<noteq> t \<and> sha256 s = sha256 t)"
proof -
  let ?xs = "idempotency_payload v c f args resource_ids provider"
  let ?ys = "idempotency_payload v' c' f' args' resource_ids' provider'"
  let ?s = "json_dumps True (JObj ?xs)" and ?t = "json_dumps True (JObj ?ys)"
  have eq: "sha256 ?s = sha256 ?t" using assms by (simp add: intent_idempotency_key_def del: json_dumps.simps)
  show ?thesis
  proof (cases "?s = ?t")
    case True
    have ok: "json_ok (JObj ?xs)" "json_ok (JObj ?ys)" by (simp_all add: idempotency_payload_def)
    have keys: "distinct (map fst ?xs)" "map fst ?xs = map fst ?ys" by (simp_all add: idempotency_payload_def)
    have m: "map (json_norm \<circ> snd) ?xs = map (json_norm \<circ> snd) ?ys"
      by (rule object_members [OF json_dumps_inj [OF ok True] keys])
    then have "v = v' \<and> key_subject c f args resource_ids provider = key_subject c' f' args' resource_ids' provider'"
      unfolding idempotency_payload_def key_subject_def by simp
    then show ?thesis ..
  next
    case False
    with eq show ?thesis by (intro disjI2 exI [of _ ?s] exI [of _ ?t]) simp
  qed
qed

end
