(* ===== verification/Tool_Samples.thy ===== *)
theory Tool_Samples
  imports Tool_Facts
begin

text \<open>
  The fixture tool of the repository (\<open>fixture.py\<close>), whose typed model accepts one integer, in a registry of
  its own; one call through the gateway, one authorized intent and one authorized plan.
\<close>

section \<open>The fixture tool\<close>

text \<open>\<open>FixtureImageIntentInput\<close>: a strict model with one field \<open>count\<close>, from 1 to 10, and no others. Its
  schema is printed by pydantic.\<close>

fun fixture_count :: "(string \<times> json) list \<Rightarrow> int option" where
  "fixture_count [(k, JInt n)] = (if k = ''count'' \<and> 1 \<le> n \<and> n \<le> 10 then Some n else None)"
| "fixture_count _ = None"

definition fixture_model :: "json \<Rightarrow> int pydantic_model" where
  "fixture_model schema = \<lparr>pm_schema = schema, pm_validate = fixture_count, pm_validate_strict = fixture_count,
     pm_dump_python = (\<lambda>n. [(''count'', JInt n)]), pm_dump_json = (\<lambda>n. [(''count'', JInt n)])\<rparr>"

definition fixture_image_intent_definition :: "json \<Rightarrow> ('w, int) tool_definition" where
  "fixture_image_intent_definition schema =
     \<lparr>tl_name = ''fixture.image.generate'', tl_version = ''1.0'',
      tl_description = ''Authorize a future deterministic fixture image generation command.'',
      tl_input_schema = schema, tl_output_schema = JObj [], tl_implementation = None,
      tl_input_model = Some (fixture_model schema), tl_output_model = None,
      tl_required_scopes = {''image.generate''}, tl_allowed_nodes = {''execute_tool''},
      tl_resource_resolver = Some (\<lambda>n. Inr []), tl_provider = Some ''fixture'', tl_cost_class = LOW,
      tl_audit_level = METADATA, tl_maximum_output_bytes = 262144, tl_enabled = True\<rparr>"

lemma fixture_checked: "tl_check (fixture_image_intent_definition schema) = None"
  by (simp add: tl_check_def fixture_image_intent_definition_def is_token_char_def is_alnum_def is_digit_def
      between_def code_def)

section \<open>A call through the gateway\<close>

text \<open>A tool that counts its runs in the world and answers with their number.\<close>

definition counting_tool :: "(nat, int) tool_definition" where
  "counting_tool = (fixture_image_intent_definition JNull)\<lparr>tl_name := ''t'', tl_version := ''1'',
     tl_implementation := Some (\<lambda>ctx call w. Done \<lparr>res_tool_name = ''t'', res_tool_version = ''1'',
       res_idempotency_key = inv_idempotency_key call, res_output = inv_arguments call,
       res_provider_request_id = None, res_cost_amount_minor = 0, res_currency = ''CNY'',
       res_completed_at = utc 0\<rparr> (w + 1))\<rparr>"

definition sample_tool_policy :: "nat tool_policy" where
  "sample_tool_policy = \<lparr>pol_version = ''v'', pol_allowed_tools = {''t''}, pol_max_argument_bytes = 1000,
     pol_transaction_active = (\<lambda>w. False)\<rparr>"

definition sample_context :: tool_execution_context where
  "sample_context = \<lparr>tc_workflow_id = ''f'', tc_workspace_id = ''w'', tc_actor_id = ''a'', tc_trace_id = ''r'',
     tc_idempotency_key = ''k'', tc_policy_version = ''v'', tc_scopes = {''image.generate''}, tc_purpose = '''',
     tc_provider = '''', tc_requires_derivative = False, tc_maximum_result_count = 50,
     tc_maximum_candidate_count = 1000, tc_maximum_output_bytes = 1000, tc_started_at = utc 0\<rparr>"

definition sample_invocation :: tool_invocation where
  "sample_invocation = \<lparr>inv_tool_name = ''t'', inv_tool_version = ''1'', inv_arguments = [(''count'', JInt 3)],
     inv_idempotency_key = ''k'', inv_policy_version = ''v'', inv_reason = ''why''\<rparr>"

lemma counting_registry: "reg_create [counting_tool] = Inr [((''t'', ''1''), counting_tool)]"
  by (simp add: reg_create_def reg_register_def counting_tool_def tl_key_def)

lemma count_bytes: "json_bytes [(''count'', JInt 3)] \<le> 1000"
proof -
  have "utf8_length s \<le> 2 * length s" for s by (induction s) (simp_all add: utf8_length_def)
  from this [of "json_dumps False (JObj [(''count'', JInt 3)])"]
  have "utf8_length (json_dumps False (JObj [(''count'', JInt 3)])) \<le> 2 * text_bound (JObj [(''count'', JInt 3)])"
    using dumps_bound [of False "JObj [(''count'', JInt 3)]"] by linarith
  then show ?thesis by (simp add: json_bytes_def sample_digits del: json_dumps.simps)
qed

lemma sample_call:
  "gateway_execute [((''t'', ''1''), counting_tool)] sample_tool_policy sample_context sample_invocation 0 =
     Done \<lparr>res_tool_name = ''t'', res_tool_version = ''1'', res_idempotency_key = ''k'',
       res_output = [(''count'', JInt 3)], res_provider_request_id = None, res_cost_amount_minor = 0,
       res_currency = ''CNY'', res_completed_at = utc 0\<rparr> 1"
  using count_bytes
  by (simp add: gateway_execute_def gateway_admit_def pol_validate_def sample_tool_policy_def sample_invocation_def
      reg_resolve_def counting_tool_def fixture_image_intent_definition_def sample_context_def
      validated_invocation_def fixture_model_def gateway_accept_def validated_result_def strip_def is_space_def
      between_def code_def guard_def)

theorem gateway_fail_closed_witness:
  "\<exists>d run call raw. admitted [counting_tool] sample_tool_policy sample_context sample_invocation 0 d call \<and>
     tl_implementation d = Some run \<and> run sample_context call 0 = Done raw 1"
  using gateway_fail_closed [OF counting_registry] sample_call by blast

section \<open>Intents\<close>

definition fixture_registry :: "(nat, int) tool_registry" where
  "fixture_registry = [((''fixture.image.generate'', ''1.0''), fixture_image_intent_definition JNull)]"

lemma fixture_registered: "reg_create [fixture_image_intent_definition JNull] = Inr fixture_registry"
  by (simp add: reg_create_def reg_register_def fixture_registry_def tl_key_def fixture_image_intent_definition_def)

definition sample_facts :: tool_authorization_facts where
  "sample_facts = \<lparr>af_workspace_id = ''w'', af_actor_id = ''a'', af_workflow_id = ''f'', af_workflow_version = 1,
     af_creative_plan_id = ''p'', af_creative_plan_version_id = ''q'', af_creative_plan_version = 1,
     af_approval_id = ''o'', af_node = ''execute_tool'', af_granted_scopes = {''image.generate''},
     af_authorized_resource_ids = {}, af_allowed_providers = {''fixture''}, af_allowed_cost_classes = {LOW},
     af_remaining_quota_units = 5, af_remaining_budget_units = 5\<rparr>"

text \<open>An intent for the fixture tool, written with blanks; \<open>cost\<close> is its estimate.\<close>

definition fixture_candidate :: "int \<Rightarrow> tool_intent_candidate" where
  "fixture_candidate cost = \<lparr>ic_intent_key = ''i'', ic_tool_name = ''fixture.image.generate'', ic_schema_version = ''1.0'',
     ic_purpose = ''p'', ic_arguments_json = json_dumps True (JObj [(''count'', JInt 3)]),
     ic_estimated_cost_units = cost\<rparr>"

lemma fixture_authorizable: "authorizable [fixture_image_intent_definition JNull] (fixture_candidate cost) sample_facts
    (fixture_image_intent_definition JNull)"
  by (simp add: authorizable_def fixture_image_intent_definition_def fixture_candidate_def sample_facts_def fixture_model_def)

lemma fixture_reads: "read_arguments (fixture_image_intent_definition JNull) (ic_arguments_json (fixture_candidate cost)) =
    Inr (json_dumps True (JObj [(''count'', JInt 3)]), [])"
proof -
  let ?v = "JObj [(''count'', JInt 3)]"
  have l: "json_loads_unique (json_dumps True ?v) = Inr ?v" using json_loads_unique_dumps [of ?v True] by simp
  have "length (json_dumps True ?v) \<le> text_bound ?v" by (rule dumps_bound)
  then have "utf8_length (json_dumps True ?v) \<le> max_argument_bytes"
    using utf8_ascii [OF ascii_dumps, of ?v] by (simp add: sample_digits max_argument_bytes_def del: json_dumps.simps)
  then have "guard (max_argument_bytes < utf8_length (json_dumps True ?v)) ValueError = None" by simp
  then show ?thesis
    by (simp add: read_arguments_def fixture_candidate_def fixture_image_intent_definition_def l fixture_model_def Let_def
        guard_def max_resource_identities_def del: json_dumps.simps)
qed

lemma fixture_entitled: "entitled (fixture_image_intent_definition JNull) (fixture_candidate cost) sample_facts [] \<longleftrightarrow> cost \<le> 5"
  by (simp add: entitled_def fixture_image_intent_definition_def fixture_candidate_def sample_facts_def)

lemma fixture_only: "authorizable [fixture_image_intent_definition JNull] c f d \<Longrightarrow> d = fixture_image_intent_definition JNull"
  by (simp add: authorizable_def)

theorem intent_authorized_iff_witness:
  "ad_allowed (intent_authorize (\<lambda>s. s) fixture_registry ''v'' (fixture_candidate 5) sample_facts) \<and>
     empty_denial (intent_authorize (\<lambda>s. s) fixture_registry ''v'' (fixture_candidate 6) sample_facts)"
proof
  show "ad_allowed (intent_authorize (\<lambda>s. s) fixture_registry ''v'' (fixture_candidate 5) sample_facts)"
    unfolding intent_authorized_iff [OF fixture_registered, THEN conjunct1]
    using fixture_authorizable [of 5] fixture_reads [of 5] fixture_entitled [of 5] by blast
  have "\<not> ad_allowed (intent_authorize (\<lambda>s. s) fixture_registry ''v'' (fixture_candidate 6) sample_facts)"
    unfolding intent_authorized_iff [OF fixture_registered, THEN conjunct1]
    using fixture_entitled [of 6]
    by (auto simp: fixture_reads dest!: fixture_only simp del: json_dumps.simps)
  then show "empty_denial (intent_authorize (\<lambda>s. s) fixture_registry ''v'' (fixture_candidate 6) sample_facts)"
    using intent_authorized_iff [OF fixture_registered] by blast
qed

theorem idempotency_key_identifies_witness:
  "intent_idempotency_key (\<lambda>s. s) ''v'' (fixture_candidate 5) sample_facts ''{}'' [''x''] None =
     intent_idempotency_key (\<lambda>s. s) ''v'' (fixture_candidate 5) sample_facts ''{}'' [''x''] None \<and>
   key_subject (fixture_candidate 5) sample_facts ''{}'' [''x''] None =
     key_subject (fixture_candidate 5) sample_facts ''{}'' [''x''] None"
  using idempotency_key_identifies [of "\<lambda>s. s" "''v''" "fixture_candidate 5" sample_facts "''{}''" "[''x'']" None
      "''v''" "fixture_candidate 5" sample_facts "''{}''" "[''x'']" None] by blast

section \<open>A plan\<close>

definition sample_approval :: approval where
  "sample_approval = \<lparr>ap_id = uuid_str 71, ap_workflow_id = uuid_str 81, ap_approval_type = CREATIVE_PLAN,
     ap_subject_id = uuid_str 82, ap_subject_version = 1, ap_decision = APPROVE, ap_reason_code = None,
     ap_comment_ref = None, ap_approved_by = ''boss'', ap_expected_workflow_version = 3, ap_created_at = utc 5\<rparr>"

definition sample_claim :: plan_execution_claim where
  "sample_claim = \<lparr>pec_workflow_version = 4, pec_plan = sample_version 1, pec_approval = sample_approval,
     pec_retain_until = utc 100\<rparr>"

definition sample_entitlements :: tool_authorization_entitlements where
  "sample_entitlements = \<lparr>te_granted_scopes = {''image.generate''}, te_authorized_resource_ids = {},
     te_allowed_providers = {''fixture''}, te_allowed_cost_classes = {LOW}, te_remaining_quota_units = 7,
     te_remaining_budget_units = 9\<rparr>"

definition sample_plan_policy :: tool_authorization_policy where
  "sample_plan_policy = \<lparr>tap_version = ''v'', tap_node = ''execute_tool'', tap_maximum_intents = 16\<rparr>"

lemma uuid_short: "short_text (uuid_str n)"
proof -
  have "length (uuid_str n) = 36" using uuid_str_text [of n] by (simp add: is_uuid_text_def)
  then show ?thesis by (auto simp: short_text_def)
qed

theorem plan_charges_bounded_witness:
  "\<exists>res. authorize_plan (\<lambda>s. s) (\<lambda>w f p n a. Inr sample_claim) (configured_entitlements sample_entitlements)
      fixture_registry sample_plan_policy ''w'' (uuid_str 81) (uuid_str 82) 1 (uuid_str 71) = Inr res \<and>
    charged (ptr_decisions res) \<le> 7 \<and> length (ptr_decisions res) = 1"
proof -
  have e: "configured_entitlements sample_entitlements (cpv_workspace_id (pec_plan sample_claim))
      (ap_approved_by (pec_approval sample_claim)) (cpv_creative_plan_id (pec_plan sample_claim)) = Inr sample_entitlements"
    using uuid_short [of 82]
    by (simp add: configured_entitlements_def sample_claim_def sample_version_def sample_approval_def short_text_def)
  have i: "intents_checked (cpv_payload (pec_plan sample_claim))"
    using sample_payload_checked by (simp add: sample_claim_def sample_version_def)
  have f: "af_check (base_facts sample_claim sample_entitlements sample_plan_policy) = None"
    by (simp add: af_check_def guards_None base_facts_def Let_def sample_claim_def sample_version_def sample_approval_def
        sample_entitlements_def sample_plan_policy_def uuid_short del: guards.simps) (simp add: short_text_def)
  have n: "length (payload_intents (cpv_payload (pec_plan sample_claim))) = 1"
    by (simp add: payload_intents_def sample_claim_def sample_version_def sample_payload_def sample_direction_def)
  show ?thesis
    using plan_charges_bounded [of "[fixture_image_intent_definition JNull]" fixture_registry
        "\<lambda>w f p n a. Inr sample_claim" "''w''" "uuid_str 81" "uuid_str 82" 1 "uuid_str 71" sample_claim
        "configured_entitlements sample_entitlements" sample_entitlements sample_plan_policy "\<lambda>s. s",
        OF fixture_registered refl e i f] n
    by (auto simp: sample_claim_def sample_version_def sample_approval_def sample_entitlements_def
        dest!: list_all2_lengthD)
qed

end
