(* ===== verification/Planning_Contexts.thy ===== *)
theory Planning_Contexts
  imports Json_Shape "HOL-Library.Product_Lexorder"
begin

text \<open>
  Planning contexts (\<open>planning_contexts.py\<close>): the exact source versions a planner may read, chosen under a
  token and an image budget, as one immutable snapshot with a canonical text. The sources were loaded and
  authorized by the application; SHA-256 is an argument.
\<close>

section \<open>Canonical JSON\<close>

definition is_plain_control :: "char \<Rightarrow> bool" where
  "is_plain_control c \<longleftrightarrow> is_control c \<and> c \<notin> {CHR 0x09, CHR 0x0A, CHR 0x0D}"

fun context_value_check :: "json \<Rightarrow> error option" where
  "context_value_check (JStr s) = guard (16384 < length s \<or> list_ex is_plain_control s) ValueError"
| "context_value_check (JObj kvs) = guard (128 < length kvs \<or> list_ex (\<lambda>(k, v). k = []) kvs) ValueError"
| "context_value_check (JArr xs) = guard (128 < length xs) ValueError"
| "context_value_check v = None"

definition validate_context_shape :: "json \<Rightarrow> error option" where
  "validate_context_shape v = shape_loop 1024 8 context_value_check [(v, 0)] 0"

definition context_canonical_json :: "json \<Rightarrow> error + string" where
  "context_canonical_json v =
     ensure (validate_context_shape v)
       (let encoded = json_dumps True v
        in ensure (guard (65536 < length encoded) ValueError) (Inr encoded))"

definition canonical_snapshot_json :: "json \<Rightarrow> error + string" where
  "canonical_snapshot_json v =
     (let encoded = json_dumps True v
      in ensure (guard (4194304 < length encoded) ValueError) (Inr encoded))"

section \<open>Policy and sources\<close>

datatype planning_source_kind = PRODUCT_BRIEF_SOURCE | BRAND_PROFILE_SOURCE | RETRIEVAL_CITATION_SOURCE

fun source_kind_value :: "planning_source_kind \<Rightarrow> string" where
  "source_kind_value PRODUCT_BRIEF_SOURCE = ''PRODUCT_BRIEF''"
| "source_kind_value BRAND_PROFILE_SOURCE = ''BRAND_PROFILE''"
| "source_kind_value RETRIEVAL_CITATION_SOURCE = ''RETRIEVAL_CITATION''"

datatype omission_reason = DUPLICATE_CONTENT | TOKEN_BUDGET_EXCEEDED | IMAGE_BUDGET_EXCEEDED

fun omission_value :: "omission_reason \<Rightarrow> string" where
  "omission_value DUPLICATE_CONTENT = ''DUPLICATE_CONTENT''"
| "omission_value TOKEN_BUDGET_EXCEEDED = ''TOKEN_BUDGET_EXCEEDED''"
| "omission_value IMAGE_BUDGET_EXCEEDED = ''IMAGE_BUDGET_EXCEEDED''"

definition validate_up_to :: "int \<Rightarrow> int \<Rightarrow> error option" where
  "validate_up_to maximum n = guard (\<not> (1 \<le> n \<and> n \<le> maximum)) ValueError"

record planning_context_policy =
  pcp_version :: string
  pcp_maximum_tokens :: int
  pcp_maximum_images :: int

definition pcp_check :: "planning_context_policy \<Rightarrow> error option" where
  "pcp_check p = guards
     [validate_token (pcp_version p), validate_up_to 1000000 (pcp_maximum_tokens p),
      guard (\<not> (0 \<le> pcp_maximum_images p \<and> pcp_maximum_images p \<le> 1000)) ValueError]"

definition pcp_data :: "planning_context_policy \<Rightarrow> json" where
  "pcp_data p = JObj
     [(''version'', JStr (pcp_version p)), (''maximum_tokens'', JInt (pcp_maximum_tokens p)),
      (''maximum_images'', JInt (pcp_maximum_images p))]"

record planning_source =
  ps_kind :: planning_source_kind
  ps_source_id :: string
  ps_version_number :: "int option"
  ps_content_sha256 :: string
  ps_content_json :: string
  ps_authority_id :: "string option"
  ps_authority_version :: "int option"
  ps_retrieval_run_id :: "string option"
  ps_retrieval_policy_version :: "string option"
  ps_retrieval_rank :: "int option"
  ps_citation_id :: "string option"
  ps_image_count :: int

definition ps_content_check :: "planning_source \<Rightarrow> error option" where
  "ps_content_check s =
     (case json_loads (ps_content_json s) of
        Inr (JObj kvs) \<Rightarrow>
          (case context_canonical_json (JObj kvs) of
             Inl e \<Rightarrow> Some e
           | Inr canonical \<Rightarrow> guard (canonical \<noteq> ps_content_json s) ValueError)
      | _ \<Rightarrow> Some ValueError)"

definition ps_identity_check :: "planning_source \<Rightarrow> error option" where
  "ps_identity_check s =
     (if ps_kind s = RETRIEVAL_CITATION_SOURCE then
        (case (ps_version_number s, ps_authority_id s, ps_authority_version s, ps_retrieval_run_id s,
             ps_retrieval_policy_version s, ps_retrieval_rank s, ps_citation_id s) of
           (None, Some authority_id, Some authority_version, Some run_id, Some policy_version, Some rank,
             Some citation_id) \<Rightarrow>
             guards [validate_uuid authority_id, validate_uuid run_id, validate_token policy_version,
               validate_up_to 2147483647 authority_version, validate_up_to 1000 rank, validate_token citation_id]
         | _ \<Rightarrow> Some ValueError)
      else guards
        [guard (ps_version_number s = None) ValueError,
         guard (ps_authority_id s \<noteq> None \<or> ps_authority_version s \<noteq> None \<or> ps_retrieval_run_id s \<noteq> None \<or>
           ps_retrieval_policy_version s \<noteq> None \<or> ps_retrieval_rank s \<noteq> None \<or> ps_citation_id s \<noteq> None) ValueError,
         guard (ps_image_count s \<noteq> 0) ValueError])"

definition ps_check :: "planning_source \<Rightarrow> error option" where
  "ps_check s = guards
     [validate_uuid (ps_source_id s),
      (case ps_version_number s of None \<Rightarrow> None | Some n \<Rightarrow> validate_up_to 2147483647 n),
      validate_sha256 (ps_content_sha256 s), ps_content_check s,
      guard (\<not> (0 \<le> ps_image_count s \<and> ps_image_count s \<le> 16)) ValueError,
      ps_identity_check s]"

text \<open>\<open>create\<close>: the fields, with the content serialised in place of its text.\<close>

definition ps_create :: "(string \<times> json) list \<Rightarrow> planning_source \<Rightarrow> error + planning_source" where
  "ps_create content fields_of =
     attempt (context_canonical_json (JObj content)) (\<lambda>t.
       let s = fields_of\<lparr>ps_content_json := t\<rparr> in ensure (ps_check s) (Inr s))"

definition token_count :: "planning_source \<Rightarrow> int" where
  "token_count s = max 1 ((int (utf8_length (ps_content_json s)) + 3) div 4)"

definition opt_int :: "int option \<Rightarrow> json" where
  "opt_int n = (case n of None \<Rightarrow> JNull | Some k \<Rightarrow> JInt k)"

definition identity_data :: "planning_source \<Rightarrow> (string \<times> json) list" where
  "identity_data s =
     [(''kind'', JStr (source_kind_value (ps_kind s))), (''source_id'', JStr (ps_source_id s)),
      (''version_number'', opt_int (ps_version_number s)), (''content_sha256'', JStr (ps_content_sha256 s)),
      (''authority_id'', json_opt (ps_authority_id s)), (''authority_version'', opt_int (ps_authority_version s)),
      (''retrieval_run_id'', json_opt (ps_retrieval_run_id s)),
      (''retrieval_policy_version'', json_opt (ps_retrieval_policy_version s)),
      (''retrieval_rank'', opt_int (ps_retrieval_rank s)), (''citation_id'', json_opt (ps_citation_id s))]"

section \<open>Snapshots\<close>

record included_source =
  is_source :: planning_source
  is_citation_number :: "int option"

definition is_check :: "included_source \<Rightarrow> error option" where
  "is_check i = guards
     [guard ((ps_kind (is_source i) = RETRIEVAL_CITATION_SOURCE) \<noteq> (is_citation_number i \<noteq> None)) ValueError,
      (case is_citation_number i of None \<Rightarrow> None | Some n \<Rightarrow> validate_up_to 1000 n)]"

definition is_create :: "included_source \<Rightarrow> error + included_source" where
  "is_create i = ensure (is_check i) (Inr i)"

text \<open>\<open>content()\<close>: the constructor of the source has read the same text.\<close>

definition is_data :: "included_source \<Rightarrow> json" where
  "is_data i = JObj (identity_data (is_source i) @
     [(''citation_number'', opt_int (is_citation_number i)),
      (''content'', (case json_loads (ps_content_json (is_source i)) of Inr v \<Rightarrow> v | Inl e \<Rightarrow> JNull))])"

record omitted_source =
  os_source :: planning_source
  os_reason :: omission_reason

definition os_data :: "omitted_source \<Rightarrow> json" where
  "os_data x = JObj (identity_data (os_source x) @ [(''reason'', JStr (omission_value (os_reason x)))])"

fun kind_order :: "planning_source_kind \<Rightarrow> int" where
  "kind_order PRODUCT_BRIEF_SOURCE = 0"
| "kind_order BRAND_PROFILE_SOURCE = 1"
| "kind_order RETRIEVAL_CITATION_SOURCE = 2"

text \<open>\<open>rank or 0\<close>: the numbers are positive.\<close>

definition source_order :: "planning_source \<Rightarrow> int \<times> int \<times> string \<times> int" where
  "source_order s = (kind_order (ps_kind s), or_else (ps_retrieval_rank s) 0, ps_source_id s,
     or_else (ps_version_number s) 0)"

record planning_snapshot =
  pcs_workspace_id :: string
  pcs_workflow_id :: string
  pcs_policy :: planning_context_policy
  pcs_included_sources :: "included_source list"
  pcs_omitted_sources :: "omitted_source list"
  pcs_used_tokens :: int
  pcs_used_images :: int
  pcs_schema_version :: string

definition snapshot_sources :: "planning_snapshot \<Rightarrow> planning_source list" where
  "snapshot_sources p = map is_source (pcs_included_sources p)"

definition citation_numbers :: "planning_snapshot \<Rightarrow> int option list" where
  "citation_numbers p = map is_citation_number
     (filter (\<lambda>i. ps_kind (is_source i) = RETRIEVAL_CITATION_SOURCE) (pcs_included_sources p))"

definition pcs_bounds_check :: "planning_snapshot \<Rightarrow> error option" where
  "pcs_bounds_check p = guards
     [validate_workspace_id (pcs_workspace_id p), validate_uuid (pcs_workflow_id p),
      guard (pcs_schema_version p \<noteq> ''planning-context.v1'') ValueError,
      guard (\<not> (1 \<le> length (pcs_included_sources p) \<and> length (pcs_included_sources p) \<le> 52)) ValueError,
      guard (52 < length (pcs_omitted_sources p)) ValueError,
      guard (\<not> (1 \<le> pcs_used_tokens p \<and> pcs_used_tokens p \<le> pcp_maximum_tokens (pcs_policy p))) ValueError,
      guard (\<not> (0 \<le> pcs_used_images p \<and> pcs_used_images p \<le> pcp_maximum_images (pcs_policy p))) ValueError]"

definition pcs_sources_check :: "planning_snapshot \<Rightarrow> error option" where
  "pcs_sources_check p =
     (let sources = snapshot_sources p;
          kinds = map ps_kind sources
      in guards
        [guard (sources \<noteq> sort_key source_order sources) ValueError,
         guard (count_list kinds PRODUCT_BRIEF_SOURCE \<noteq> 1 \<or> 1 < count_list kinds BRAND_PROFILE_SOURCE) ValueError,
         guard (citation_numbers p \<noteq> map Some [1..int (length (citation_numbers p))]) ValueError,
         guard (pcs_used_tokens p \<noteq> sum_list (map token_count sources)) ValueError,
         guard (pcs_used_images p \<noteq> sum_list (map ps_image_count sources)) ValueError])"

definition pcs_check :: "planning_snapshot \<Rightarrow> error option" where
  "pcs_check p = guards [pcs_bounds_check p, pcs_sources_check p]"

definition pcs_create :: "planning_snapshot \<Rightarrow> error + planning_snapshot" where
  "pcs_create p = ensure (pcs_check p) (Inr p)"

definition pcs_data :: "planning_snapshot \<Rightarrow> json" where
  "pcs_data p = JObj
     [(''schema_version'', JStr (pcs_schema_version p)), (''workspace_id'', JStr (pcs_workspace_id p)),
      (''workflow_id'', JStr (pcs_workflow_id p)), (''policy'', pcp_data (pcs_policy p)),
      (''budget_usage'', JObj [(''tokens'', JInt (pcs_used_tokens p)), (''images'', JInt (pcs_used_images p))]),
      (''source_data'', JArr (map is_data (pcs_included_sources p))),
      (''omitted_sources'', JArr (map os_data (pcs_omitted_sources p)))]"

definition context_sha256 :: "(string \<Rightarrow> string) \<Rightarrow> planning_snapshot \<Rightarrow> error + string" where
  "context_sha256 sha256 p = attempt (canonical_snapshot_json (pcs_data p)) (\<lambda>t. Inr (sha256 t))"

section \<open>Building a context\<close>

record selection =
  sel_included :: "planning_source list"
  sel_omitted :: "omitted_source list"
  sel_tokens :: int
  sel_images :: int
  sel_seen :: "string list"

definition omit :: "planning_source \<Rightarrow> omission_reason \<Rightarrow> selection \<Rightarrow> selection" where
  "omit c reason s = s\<lparr>sel_omitted := sel_omitted s @ [\<lparr>os_source = c, os_reason = reason\<rparr>]\<rparr>"

text \<open>The body of the loop over the citations, in source order.\<close>

definition consider_citation :: "planning_context_policy \<Rightarrow> planning_source \<Rightarrow> selection \<Rightarrow> selection" where
  "consider_citation p c s =
     (if ps_content_sha256 c \<in> set (sel_seen s) then omit c DUPLICATE_CONTENT s
      else
        let t = s\<lparr>sel_seen := ps_content_sha256 c # sel_seen s\<rparr>
        in if pcp_maximum_images p < sel_images t + ps_image_count c then omit c IMAGE_BUDGET_EXCEEDED t
           else if pcp_maximum_tokens p < sel_tokens t + token_count c then omit c TOKEN_BUDGET_EXCEEDED t
           else t\<lparr>sel_included := sel_included t @ [c], sel_tokens := sel_tokens t + token_count c,
                  sel_images := sel_images t + ps_image_count c\<rparr>)"

definition select_citations :: "planning_context_policy \<Rightarrow> planning_source list \<Rightarrow> selection \<Rightarrow> selection" where
  "select_citations p cs s = foldl (\<lambda>s c. consider_citation p c s) s cs"

text \<open>The second loop numbers the citations.\<close>

fun number_sources :: "int \<Rightarrow> planning_source list \<Rightarrow> error + included_source list" where
  "number_sources n [] = Inr []"
| "number_sources n (s # ss) =
     (let m = (if ps_kind s = RETRIEVAL_CITATION_SOURCE then n + 1 else n);
          number = (if ps_kind s = RETRIEVAL_CITATION_SOURCE then Some m else None)
      in attempt (is_create \<lparr>is_source = s, is_citation_number = number\<rparr>) (\<lambda>i.
           attempt (number_sources m ss) (\<lambda>rest. Inr (i # rest))))"

definition citation_version :: "planning_source \<Rightarrow> string option \<times> string \<times> string option \<times> int option" where
  "citation_version c = (ps_retrieval_run_id c, ps_source_id c, ps_authority_id c, ps_authority_version c)"

definition context_inputs_check ::
  "planning_source \<Rightarrow> planning_source option \<Rightarrow> planning_source list \<Rightarrow> error option" where
  "context_inputs_check product_brief brand_profile citations = guards
     [guard (ps_kind product_brief \<noteq> PRODUCT_BRIEF_SOURCE) ValueError,
      guard (\<exists>b \<in> set_option brand_profile. ps_kind b \<noteq> BRAND_PROFILE_SOURCE) ValueError,
      guard (50 < length citations \<or> (\<exists>c \<in> set citations. ps_kind c \<noteq> RETRIEVAL_CITATION_SOURCE)) ValueError,
      guard (\<not> distinct (map ps_citation_id citations) \<or> \<not> distinct (map ps_retrieval_rank citations) \<or>
        \<not> distinct (map citation_version citations)) ValueError]"

definition required_sources :: "planning_source \<Rightarrow> planning_source option \<Rightarrow> planning_source list" where
  "required_sources product_brief brand_profile =
     product_brief # (case brand_profile of None \<Rightarrow> [] | Some b \<Rightarrow> [b])"

definition build_planning_context ::
  "string \<Rightarrow> string \<Rightarrow> planning_source \<Rightarrow> planning_source option \<Rightarrow> planning_source list \<Rightarrow>
     planning_context_policy \<Rightarrow> error + planning_snapshot" where
  "build_planning_context workspace_id workflow_id product_brief brand_profile citations policy =
     ensure (context_inputs_check product_brief brand_profile citations)
       (let required = required_sources product_brief brand_profile;
            required_tokens = sum_list (map token_count required)
        in ensure (guard (pcp_maximum_tokens policy < required_tokens) ValueError)
          (let s = select_citations policy (sort_key source_order citations)
                 \<lparr>sel_included = required, sel_omitted = [], sel_tokens = required_tokens, sel_images = 0,
                  sel_seen = []\<rparr>
           in attempt (number_sources 0 (sort_key source_order (sel_included s))) (\<lambda>included.
                pcs_create \<lparr>pcs_workspace_id = workspace_id, pcs_workflow_id = workflow_id, pcs_policy = policy,
                  pcs_included_sources = included,
                  pcs_omitted_sources =
                    sort_key (\<lambda>x. (source_order (os_source x), omission_value (os_reason x))) (sel_omitted s),
                  pcs_used_tokens = sel_tokens s, pcs_used_images = sel_images s,
                  pcs_schema_version = ''planning-context.v1''\<rparr>)))"

end
