(* ===== verification/Planning_Context_Facts.thy ===== *)
theory Planning_Context_Facts
  imports Planning_Contexts "HOL-Library.Sublist" "HOL-Library.Multiset"
begin

text \<open>
  What a planning context holds: the selection loop splits the citations into included and omitted ones within
  the two budgets, and the snapshot built from it always satisfies its own constructor.
\<close>

section \<open>The selection loop\<close>

definition fits_not :: "planning_context_policy \<Rightarrow> int \<Rightarrow> int \<Rightarrow> omitted_source \<Rightarrow> bool" where
  "fits_not p images tokens x \<longleftrightarrow>
     (os_reason x = IMAGE_BUDGET_EXCEEDED \<longrightarrow> pcp_maximum_images p < images + ps_image_count (os_source x)) \<and>
     (os_reason x = TOKEN_BUDGET_EXCEEDED \<longrightarrow> pcp_maximum_tokens p < tokens + token_count (os_source x))"

definition selection_ok ::
  "planning_context_policy \<Rightarrow> planning_source list \<Rightarrow> planning_source list \<Rightarrow> planning_source list \<Rightarrow>
     selection \<Rightarrow> bool" where
  "selection_ok p required cs inc s \<longleftrightarrow>
     sel_included s = required @ inc \<and> subseq inc cs \<and>
     mset inc + mset (map os_source (sel_omitted s)) = mset cs \<and>
     distinct (map ps_content_sha256 inc) \<and> ps_content_sha256 ` set cs \<subseteq> set (sel_seen s) \<and>
     sel_tokens s = sum_list (map token_count (required @ inc)) \<and> sel_tokens s \<le> pcp_maximum_tokens p \<and>
     sel_images s = sum_list (map ps_image_count (required @ inc)) \<and> sel_images s \<le> pcp_maximum_images p \<and>
     (\<forall>x\<in>set (sel_omitted s). fits_not p (sel_images s) (sel_tokens s) x)"

lemma token_count_pos: "1 \<le> token_count s"
  by (simp add: token_count_def)

lemma token_count_nonneg: "0 \<le> token_count s"
  using token_count_pos [of s] by simp

lemma fits_not_mono: "fits_not p i t x \<Longrightarrow> i \<le> j \<Longrightarrow> t \<le> u \<Longrightarrow> fits_not p j u x"
  by (auto simp: fits_not_def)

lemma consider_citation_ok:
  assumes ok: "selection_ok p required cs inc s" and n: "0 \<le> ps_image_count c"
  shows "\<exists>inc'. selection_ok p required (cs @ [c]) inc' (consider_citation p c s)"
proof (cases "ps_content_sha256 c \<in> set (sel_seen s) \<or> pcp_maximum_images p < sel_images s + ps_image_count c \<or>
    pcp_maximum_tokens p < sel_tokens s + token_count c")
  case True
  then have "selection_ok p required (cs @ [c]) inc (consider_citation p c s)"
    using ok by (auto simp: selection_ok_def consider_citation_def omit_def fits_not_def Let_def
        intro: subseq_order.trans)
  then show ?thesis ..
next
  case False
  have fresh: "ps_content_sha256 c \<notin> ps_content_sha256 ` set inc"
    using ok False by (auto simp: selection_ok_def dest: list_emb_set)
  have "selection_ok p required (cs @ [c]) (inc @ [c]) (consider_citation p c s)"
    using ok False fresh n token_count_pos [of c]
    by (auto simp: selection_ok_def consider_citation_def Let_def fits_not_def intro: list_emb_append_mono)
  then show ?thesis ..
qed

lemma select_citations_ok:
  assumes s: "selection_ok p required [] [] s" and n: "\<forall>c\<in>set cs. 0 \<le> ps_image_count c"
  shows "\<exists>inc. selection_ok p required cs inc (select_citations p cs s)"
  using n
proof (induction cs rule: rev_induct)
  case Nil
  then show ?case using s by (auto simp: select_citations_def)
next
  case (snoc c cs)
  then obtain inc where "selection_ok p required cs inc (select_citations p cs s)" by auto
  then show ?case using consider_citation_ok [of p required cs inc _ c] snoc.prems
    by (simp add: select_citations_def)
qed

section \<open>Order and numbering\<close>

abbreviation is_citation :: "planning_source \<Rightarrow> bool" where
  "is_citation s \<equiv> ps_kind s = RETRIEVAL_CITATION_SOURCE"

lemma number_sources_ok:
  "0 \<le> n \<Longrightarrow> n + int (length (filter is_citation ss)) \<le> 1000 \<Longrightarrow>
   \<exists>xs. number_sources n ss = Inr xs \<and> map is_source xs = ss \<and>
     map is_citation_number (filter (\<lambda>i. is_citation (is_source i)) xs) =
       map Some [n + 1..n + int (length (filter is_citation ss))]"
proof (induction ss arbitrary: n)
  case (Cons s ss)
  show ?case
  proof (cases "is_citation s")
    case True
    then obtain xs where "number_sources (n + 1) ss = Inr xs" "map is_source xs = ss"
      "map is_citation_number (filter (\<lambda>i. is_citation (is_source i)) xs) =
         map Some [n + 1 + 1..n + 1 + int (length (filter is_citation ss))]"
      using Cons.IH [of "n + 1"] Cons.prems by auto
    moreover have "[n + 1..n + 1 + int (length (filter is_citation ss))] =
        (n + 1) # [n + 1 + 1..n + 1 + int (length (filter is_citation ss))]"
      by (rule upto_rec1) simp
    ultimately show ?thesis using True Cons.prems
      by (auto simp: is_create_def is_check_def validate_up_to_def add.assoc)
  next
    case False
    then show ?thesis using Cons.IH [of n] Cons.prems by (auto simp: is_create_def is_check_def)
  qed
qed simp

section \<open>The snapshot\<close>

definition required_ok :: "planning_source list \<Rightarrow> bool" where
  "required_ok required \<longleftrightarrow> required \<noteq> [] \<and> length required \<le> 2 \<and> sorted (map source_order required) \<and>
     count_list (map ps_kind required) PRODUCT_BRIEF_SOURCE = 1 \<and>
     count_list (map ps_kind required) BRAND_PROFILE_SOURCE \<le> 1 \<and>
     (\<forall>s\<in>set required. \<not> is_citation s \<and> ps_image_count s = 0)"

lemma is_check_kind: "ps_check s = None \<Longrightarrow> \<not> is_citation s \<Longrightarrow> ps_image_count s = 0"
  by (auto simp: ps_check_def ps_identity_check_def guards_None split: if_splits)

lemma ps_check_images: "ps_check s = None \<Longrightarrow> 0 \<le> ps_image_count s"
  by (simp add: ps_check_def guards_None)

lemma required_ok_sources:
  assumes "ps_check b = None" "\<forall>x\<in>set_option br. ps_check x = None"
    and "context_inputs_check b br cs = None"
  shows "required_ok (required_sources b br)"
  using assms is_check_kind [of b] is_check_kind [of "the br"]
  by (cases br)
    (auto simp: required_ok_def required_sources_def context_inputs_check_def guards_None source_order_def)

lemma kind_order_citation: "kind_order k = 2 \<longleftrightarrow> k = RETRIEVAL_CITATION_SOURCE" "kind_order k \<le> 2"
  by (cases k; simp)+

lemma included_sorted:
  assumes "required_ok required" "\<forall>c\<in>set inc. is_citation c" "sorted (map source_order inc)"
  shows "sorted (map source_order (required @ inc))"
proof -
  have "source_order s \<le> source_order c" if "s \<in> set required" "c \<in> set inc" for s c
  proof -
    have "kind_order (ps_kind s) < 2"
      using that assms(1) kind_order_citation [of "ps_kind s"] by (force simp: required_ok_def)
    then show ?thesis using that assms(2) by (simp add: source_order_def less_eq_prod_def)
  qed
  then show ?thesis using assms(1,3) by (auto simp: required_ok_def sorted_append)
qed

lemma snapshot_ok:
  assumes r: "required_ok required" and cs: "\<forall>c\<in>set cs. is_citation c \<and> 0 \<le> ps_image_count c" "length cs \<le> 50"
    and sorted: "sorted (map source_order cs)" and s: "selection_ok p required cs inc s"
    and w: "validate_workspace_id w = None" "validate_uuid f = None"
    and o: "mset om = mset (sel_omitted s)"
  shows "\<exists>xs. number_sources 0 (sort_key source_order (sel_included s)) = Inr xs \<and> map is_source xs = required @ inc \<and>
    pcs_check \<lparr>pcs_workspace_id = w, pcs_workflow_id = f, pcs_policy = p, pcs_included_sources = xs,
      pcs_omitted_sources = om, pcs_used_tokens = sel_tokens s, pcs_used_images = sel_images s,
      pcs_schema_version = ''planning-context.v1''\<rparr> = None"
proof -
  have sub: "subseq inc cs" and ms: "mset inc + mset (map os_source (sel_omitted s)) = mset cs"
    using s by (auto simp: selection_ok_def)
  have inc: "\<forall>c\<in>set inc. is_citation c \<and> 0 \<le> ps_image_count c" using sub cs(1) by (auto dest: list_emb_set)
  have so: "sorted (map source_order (required @ inc))"
  proof -
    have "sorted (map source_order inc)"
      using sorted subseq_map [OF sub, of source_order] by (auto simp: subseq_conv_nths sorted_nths)
    then show ?thesis using included_sorted [OF r] inc by blast
  qed
  have len: "length inc \<le> 50" "length om \<le> 50"
    using arg_cong [OF ms, of size] arg_cong [OF o, of size] cs(2) by auto
  have fl: "filter is_citation (required @ inc) = inc"
    using r inc by (auto simp: required_ok_def filter_id_conv filter_empty_conv)
  obtain xs where xs: "number_sources 0 (required @ inc) = Inr xs" "map is_source xs = required @ inc"
      "map is_citation_number (filter (\<lambda>i. is_citation (is_source i)) xs) = map Some [1..int (length inc)]"
    using number_sources_ok [of 0 "required @ inc"] len unfolding fl by auto
  have kinds: "count_list (map ps_kind inc) k = 0" if "k \<noteq> RETRIEVAL_CITATION_SOURCE" for k
    using that inc by (auto simp: count_list_0_iff)
  have lx: "length xs = length required + length inc" using arg_cong [OF xs(2), of length] by simp
  have ln: "length (filter (\<lambda>i. is_citation (is_source i)) xs) = length inc"
    using arg_cong [OF xs(3), of length] by simp
  have pos: "1 \<le> sum_list (map token_count required)"
  proof -
    obtain a as where "required = a # as" using r by (cases required) (auto simp: required_ok_def)
    moreover have "0 \<le> sum_list (map token_count as)"
      by (intro sum_list_nonneg) (auto simp: token_count_nonneg)
    ultimately show ?thesis using token_count_pos [of a] by simp
  qed
  have inc0: "0 \<le> sum_list (map token_count inc)" "0 \<le> sum_list (map ps_image_count inc)"
    using inc token_count_nonneg by (auto intro!: sum_list_nonneg)
  have req0: "sum_list (map ps_image_count required) = 0"
    using r by (auto simp: required_ok_def intro!: sum_list_0 cong: map_cong)
  have mm: "map (f \<circ> is_source) xs = map f required @ map f inc" for f :: "planning_source \<Rightarrow> 'z"
    using arg_cong [OF xs(2), of "map f"] by simp
  have ne: "1 \<le> length required" using r by (cases required) (auto simp: required_ok_def)
  have "sort_key source_order (required @ inc) = required @ inc" using so by (rule sort_key_id_if_sorted)
  then show ?thesis
    using xs lx ln len so s r w pos inc0 req0 kinds ne
    by (auto simp: mm pcs_check_def pcs_bounds_check_def pcs_sources_check_def guards_None selection_ok_def
        snapshot_sources_def citation_numbers_def required_ok_def Let_def sort_key_id_if_sorted
        simp del: guards.simps)
qed

section \<open>The whole construction\<close>

lemma context_inputs_check_error: "context_inputs_check b br cs = Some e \<Longrightarrow> e = ValueError"
  unfolding context_inputs_check_def by (erule guards_only) (auto simp: guard_def split: if_splits)

definition context_ok ::
  "planning_context_policy \<Rightarrow> planning_source list \<Rightarrow> planning_source list \<Rightarrow> planning_snapshot \<Rightarrow> bool" where
  "context_ok p required citations r \<longleftrightarrow>
     pcs_check r = None \<and> pcs_policy r = p \<and>
     mset (snapshot_sources r) + mset (map os_source (pcs_omitted_sources r)) = mset (required @ citations) \<and>
     set required \<subseteq> set (snapshot_sources r) \<and>
     distinct (map ps_content_sha256 (filter is_citation (snapshot_sources r))) \<and>
     (\<forall>x\<in>set (pcs_omitted_sources r). fits_not p (pcs_used_images r) (pcs_used_tokens r) x)"

lemma context_inputs_citations:
  "context_inputs_check b br cs = None \<Longrightarrow> length cs \<le> 50 \<and> (\<forall>c\<in>set cs. is_citation c)"
  by (auto simp: context_inputs_check_def guards_None)

lemma build_context_ok:
  assumes p: "pcp_check policy = None" and w: "validate_workspace_id w = None" "validate_uuid f = None"
    and src: "ps_check b = None" "\<forall>x\<in>set_option br. ps_check x = None" "\<forall>c\<in>set cs. ps_check c = None"
    and inputs: "context_inputs_check b br cs = None"
    and fit: "sum_list (map token_count (required_sources b br)) \<le> pcp_maximum_tokens policy"
  shows "\<exists>r. build_planning_context w f b br cs policy = Inr r \<and> context_ok policy (required_sources b br) cs r"
proof -
  let ?req = "required_sources b br" and ?cs = "sort_key source_order cs"
  let ?start = "\<lparr>sel_included = ?req, sel_omitted = [], sel_tokens = sum_list (map token_count ?req),
    sel_images = 0, sel_seen = []\<rparr>"
  let ?s = "select_citations policy ?cs ?start"
  let ?om = "sort_key (\<lambda>x. (source_order (os_source x), omission_value (os_reason x))) (sel_omitted ?s)"
  have req: "required_ok ?req" by (rule required_ok_sources [OF src(1,2) inputs])
  then have images: "sum_list (map ps_image_count ?req) = 0"
    by (auto simp: required_ok_def intro!: sum_list_0 cong: map_cong)
  have cit: "\<forall>c\<in>set ?cs. is_citation c \<and> 0 \<le> ps_image_count c" "length ?cs \<le> 50"
    using context_inputs_citations [OF inputs] ps_check_images src(3) by auto
  have "selection_ok policy ?req [] [] ?start"
    using fit images p by (simp add: selection_ok_def pcp_check_def guards_None)
  then obtain inc where ok: "selection_ok policy ?req ?cs inc ?s"
    using select_citations_ok [of policy ?req ?start ?cs] cit(1) by auto
  obtain xs where xs: "number_sources 0 (sort_key source_order (sel_included ?s)) = Inr xs"
      "map is_source xs = ?req @ inc" and c: "pcs_check \<lparr>pcs_workspace_id = w, pcs_workflow_id = f,
      pcs_policy = policy, pcs_included_sources = xs, pcs_omitted_sources = ?om, pcs_used_tokens = sel_tokens ?s,
      pcs_used_images = sel_images ?s, pcs_schema_version = ''planning-context.v1''\<rparr> = None"
    using snapshot_ok [OF req cit _ ok w, of ?om] by auto
  have "filter is_citation (?req @ inc) = inc"
    using req ok cit(1) by (auto simp: required_ok_def selection_ok_def filter_id_conv filter_empty_conv
        dest: list_emb_set)
  moreover have img: "image_mset is_source (mset xs) = mset ?req + mset inc" "is_source ` set xs = set ?req \<union> set inc"
    unfolding mset_map [symmetric] set_map [symmetric] xs(2) by simp_all
  ultimately show ?thesis
    using inputs fit xs c ok
    by (auto simp: build_planning_context_def pcs_create_def context_ok_def snapshot_sources_def selection_ok_def
        Let_def img simp flip: filter_append)
qed

text \<open>C33: For sources, a policy and identities their own constructors accept, building a planning context either
  raises ValueError, exactly when the inputs are not one brief, at most one profile and at most fifty citations
  with distinct identities or when the authoritative sources alone exceed the token budget, or it returns a
  snapshot that its own constructor accepts (budgets, order, citation numbers, usage totals), in which every
  required source and every citation is either included or omitted exactly once, all required sources are
  included, no two included citations have the same content, and no citation omitted for a budget would
  still fit into what the snapshot leaves.\<close>

theorem planning_context_exact:
  assumes "pcp_check policy = None" "validate_workspace_id w = None" "validate_uuid f = None"
    and "ps_check b = None" "\<forall>x\<in>set_option br. ps_check x = None" "\<forall>c\<in>set cs. ps_check c = None"
  shows "case build_planning_context w f b br cs policy of
      Inl e \<Rightarrow> e = ValueError \<and> (context_inputs_check b br cs \<noteq> None \<or>
        pcp_maximum_tokens policy < sum_list (map token_count (required_sources b br)))
    | Inr r \<Rightarrow> context_inputs_check b br cs = None \<and> context_ok policy (required_sources b br) cs r"
proof (cases "context_inputs_check b br cs = None \<and>
    sum_list (map token_count (required_sources b br)) \<le> pcp_maximum_tokens policy")
  case True
  then show ?thesis using build_context_ok [OF assms] by auto
next
  case False
  then show ?thesis
    by (cases "context_inputs_check b br cs") (auto simp: build_planning_context_def context_inputs_check_error)
qed

section \<open>A sample\<close>

definition sample_planning_source :: "planning_source_kind \<Rightarrow> nat \<Rightarrow> nat \<Rightarrow> planning_source" where
  "sample_planning_source kind i rank =
     (let cited = (if kind = RETRIEVAL_CITATION_SOURCE then Some else (\<lambda>_. None))
      in \<lparr>ps_kind = kind, ps_source_id = uuid_str i,
        ps_version_number = (if kind = RETRIEVAL_CITATION_SOURCE then None else Some 1),
        ps_content_sha256 = replicate 64 CHR ''a'', ps_content_json = ''{}'', ps_authority_id = cited (uuid_str 9),
        ps_authority_version = (if kind = RETRIEVAL_CITATION_SOURCE then Some 1 else None),
        ps_retrieval_run_id = cited (uuid_str 8), ps_retrieval_policy_version = cited ''v'',
        ps_retrieval_rank = (if kind = RETRIEVAL_CITATION_SOURCE then Some (int rank) else None),
        ps_citation_id = cited (replicate rank CHR ''c''), ps_image_count = 0\<rparr>)"

definition sample_context_policy :: planning_context_policy where
  "sample_context_policy = \<lparr>pcp_version = ''v'', pcp_maximum_tokens = 3, pcp_maximum_images = 0\<rparr>"

lemma sample_content: "ps_content_check (sample_planning_source k i r) = None"
proof -
  have "json_loads (json_dumps True (JObj [])) = Inr (JObj [])"
    by (subst json_loads_dumps) simp_all
  then show ?thesis
    by (simp add: ps_content_check_def sample_planning_source_def Let_def context_canonical_json_def validate_context_shape_def)
qed

lemma sample_planning_source_ok: "rank \<in> {1, 2} \<Longrightarrow> ps_check (sample_planning_source k i rank) = None"
  using sample_content [of k i rank]
  by (auto simp: ps_check_def ps_identity_check_def sample_planning_source_def Let_def validate_sha256_def is_sha256_def
      list_all_iff validate_up_to_def class_defs code_def validate_token_def is_token_char_def numeral_2_eq_2)

theorem planning_context_exact_witness:
  "\<exists>r. build_planning_context ''w'' (uuid_str 1) (sample_planning_source PRODUCT_BRIEF_SOURCE 2 1) None
      [sample_planning_source RETRIEVAL_CITATION_SOURCE 4 2, sample_planning_source RETRIEVAL_CITATION_SOURCE 3 1] sample_context_policy = Inr r
    \<and> context_ok sample_context_policy [sample_planning_source PRODUCT_BRIEF_SOURCE 2 1]
      [sample_planning_source RETRIEVAL_CITATION_SOURCE 4 2, sample_planning_source RETRIEVAL_CITATION_SOURCE 3 1] r"
proof -
  let ?b = "sample_planning_source PRODUCT_BRIEF_SOURCE 2 1"
  let ?cs = "[sample_planning_source RETRIEVAL_CITATION_SOURCE 4 2, sample_planning_source RETRIEVAL_CITATION_SOURCE 3 1]"
  have i: "context_inputs_check ?b None ?cs = None"
    using uuid_str_less [of 3 4] by (auto simp: context_inputs_check_def sample_planning_source_def citation_version_def numeral_2_eq_2)
  have t: "token_count ?b = 1" by (simp add: token_count_def sample_planning_source_def Let_def utf8_length_def)
  have p: "pcp_check sample_context_policy = None"
    by (simp add: pcp_check_def sample_context_policy_def validate_up_to_def validate_token_def class_defs code_def)
  have w: "validate_workspace_id ''w'' = None" by (simp add: validator_defs class_defs code_def)
  have s: "ps_check ?b = None" "\<forall>x\<in>set_option None. ps_check x = None" "\<forall>c\<in>set ?cs. ps_check c = None"
    by (simp_all add: sample_planning_source_ok del: One_nat_def)
  note planning_context_exact [OF p w validate_uuid_str s, of 1]
  moreover have "\<not> pcp_maximum_tokens sample_context_policy < sum_list (map token_count (required_sources ?b None))"
    using t by (simp add: required_sources_def sample_context_policy_def)
  moreover have "required_sources ?b None = [?b]" by (simp add: required_sources_def)
  ultimately show ?thesis using i by (simp split: sum.splits)
qed

end
