(* ===== verification/Prompt_Facts.thy ===== *)
theory Prompt_Facts
  imports Prompt_Registry Interfaces "HOL-Library.Multiset"
begin

text \<open>
  What the prompt registry guarantees: how a template is read, the review lifecycle of a revision, and what
  the production pointer shows.
\<close>

section \<open>Revisions\<close>

text \<open>What a revision shows of its template and origin; the lifecycle never changes it.\<close>

definition pr_fixed :: "prompt_revision \<Rightarrow> prompt_revision" where
  "pr_fixed r = r\<lparr>pr_status := PR_DRAFT, pr_version := 1, pr_updated_at := pr_created_at r,
     pr_submitted_by := None, pr_submitted_at := None, pr_reviewed_by := None, pr_reviewed_at := None,
     pr_published_by := None, pr_published_at := None, pr_deprecated_by := None, pr_deprecated_at := None\<rparr>"

datatype prompt_command =
    Submit int string datetime | Stage int string datetime | Publish_Prompt int string datetime
  | Deprecate int string datetime

fun prompt_step :: "(string \<Rightarrow> string) \<Rightarrow> prompt_command \<Rightarrow> prompt_revision \<Rightarrow> error + prompt_revision" where
  "prompt_step sha256 (Submit e a t) r = submit_for_review sha256 e a t r"
| "prompt_step sha256 (Stage e a t) r = stage sha256 e a t r"
| "prompt_step sha256 (Publish_Prompt e a t) r = publish_prompt sha256 e a t r"
| "prompt_step sha256 (Deprecate e a t) r = deprecate sha256 e a t r"

text \<open>The revision that is stored after a list of commands; a refused one leaves it alone.\<close>

definition prompt_run :: "(string \<Rightarrow> string) \<Rightarrow> prompt_command list \<Rightarrow> prompt_revision \<Rightarrow> prompt_revision" where
  "prompt_run sha256 cs r = foldl (\<lambda>r c. case prompt_step sha256 c r of Inl e \<Rightarrow> r | Inr s \<Rightarrow> s) r cs"

fun command_target :: "prompt_command \<Rightarrow> prompt_status" where
  "command_target (Submit e a t) = PR_REVIEW"
| "command_target (Stage e a t) = PR_STAGING"
| "command_target (Publish_Prompt e a t) = PR_PRODUCTION"
| "command_target (Deprecate e a t) = PR_DEPRECATED"

fun command_parts :: "prompt_command \<Rightarrow> int \<times> string \<times> datetime" where
  "command_parts (Submit e a t) = (e, a, t)"
| "command_parts (Stage e a t) = (e, a, t)"
| "command_parts (Publish_Prompt e a t) = (e, a, t)"
| "command_parts (Deprecate e a t) = (e, a, t)"

text \<open>The abstract lifecycle: a revision is its template and the list of signed steps taken so far.\<close>

definition stations :: "prompt_status list" where
  "stations = [PR_DRAFT, PR_REVIEW, PR_STAGING, PR_PRODUCTION, PR_DEPRECATED]"

definition signed_off :: "prompt_revision \<Rightarrow> (string \<times> datetime) list \<Rightarrow> bool" where
  "signed_off r steps \<longleftrightarrow> length steps \<le> 4 \<and> pr_status r = stations ! length steps \<and>
     pr_version r = int (length steps) + 1 \<and>
     lifecycle_facts r = map (\<lambda>(a, t). (Some a, Some t)) steps @ replicate (4 - length steps) (None, None) \<and>
     pr_updated_at r = last (pr_created_at r # map snd steps) \<and>
     (\<forall>(a, t)\<in>set steps. is_text 128 a \<and> is_utc t) \<and>
     sorted (map instant (pr_created_at r # map snd steps))"

text \<open>The checks that do not look at the lifecycle.\<close>

definition static_ok :: "(string \<Rightarrow> string) \<Rightarrow> prompt_revision \<Rightarrow> bool" where
  "static_ok sha256 r \<longleftrightarrow> pr_header_check r = None \<and> pr_template_check r = None \<and>
     is_sha256 (pr_content_sha256 r) \<and> pr_content_sha256 r = sha256 (pr_content r) \<and>
     is_text 128 (pr_created_by r) \<and> is_text 512 (pr_change_summary r) \<and> is_utc (pr_created_at r)"

lemma static_ok_fixed: "static_ok sha256 (pr_fixed r) = static_ok sha256 r"
  by (simp add: static_ok_def pr_header_check_def pr_template_check_def pr_fixed_def)

lemma pr_sorted_fixed: "pr_fixed (pr_sorted r) = pr_sorted (pr_fixed r)"
  by (simp add: pr_fixed_def pr_sorted_def)

lemma validate_applicability_sort: "validate_applicability (sort xs) = None \<longleftrightarrow> validate_applicability xs = None"
  by (simp add: validate_applicability_def guards_None del: guards.simps)
    (metis set_empty set_sort)

lemma static_ok_sorted: "static_ok sha256 (pr_sorted r) = static_ok sha256 r"
proof -
  have "distinct (map tv_name (sort_key tv_name vs)) = distinct (map tv_name vs)" for vs :: "template_variable list"
    using mset_sort [of tv_name vs] by (metis mset_eq_imp_distinct_iff mset_map)
  moreover have "list_ex P (map tv_name (sort_key tv_name vs)) = list_ex P (map tv_name vs)" for P and vs :: "template_variable list"
    by (simp add: list_ex_iff)
  ultimately show ?thesis
    by (simp add: static_ok_def pr_header_check_def pr_template_check_def pr_sorted_def guards_None split_def Let_def
        validate_applicability_sort del: guards.simps)
qed

lemma pr_sorted_twice [simp]: "pr_sorted (pr_sorted r) = pr_sorted r"
  by (simp add: pr_sorted_def sorted_sort_id sort_key_id_if_sorted)

lemma facts_check_signed:
  "\<forall>(a, t)\<in>set steps. is_text 128 a \<and> is_utc t \<Longrightarrow>
   facts_check (length steps) (map (\<lambda>(a, t). (Some a, Some t)) steps @ replicate k (None, None)) = None"
proof (induction steps)
  case Nil
  show ?case by (induction k) simp_all
qed (auto simp: validate_text_def)

lemma expected_facts_stations: "n \<le> 4 \<Longrightarrow> expected_facts (stations ! n) = n"
  by (cases "n = 0 \<or> n = 1 \<or> n = 2 \<or> n = 3 \<or> n = 4") (auto simp: stations_def)

lemma lifecycle_times_signed: "signed_off r steps \<Longrightarrow> lifecycle_times r = map snd steps"
proof -
  have "List.map_filter snd (map (\<lambda>(a, t). (Some a, Some t)) xs) = map snd xs" for xs :: "(string \<times> datetime) list"
    by (induction xs) (auto simp: map_filter_simps)
  then show "signed_off r steps \<Longrightarrow> lifecycle_times r = map snd steps"
    by (auto simp: lifecycle_times_def signed_off_def expected_facts_stations)
qed

lemma signed_updated: "signed_off r steps \<Longrightarrow> is_utc (pr_created_at r) \<Longrightarrow>
    is_utc (pr_updated_at r) \<and> \<not> dt_less (pr_updated_at r) (pr_created_at r)"
  by (cases steps rule: rev_cases) (auto simp: signed_off_def dt_defs sorted_append)

lemma pr_check_signed:
  assumes st: "static_ok sha256 r" and sg: "signed_off r steps"
  shows "pr_check sha256 r = None"
proof -
  have n: "length steps \<le> 4" and f: "expected_facts (pr_status r) = length steps"
    using sg by (simp_all add: signed_off_def expected_facts_stations)
  have "facts_check (expected_facts (pr_status r)) (lifecycle_facts r) = None"
    using sg facts_check_signed [of steps "4 - length steps"] unfolding f by (simp add: signed_off_def)
  moreover have "\<not> dt_less (hd (map snd steps)) (pr_created_at r)" if "steps \<noteq> []"
    using sg that by (cases steps) (auto simp: signed_off_def dt_defs)
  moreover have "last (map snd steps) = pr_updated_at r" if "steps \<noteq> []"
    using sg that by (cases steps rule: rev_cases) (auto simp: signed_off_def)
  moreover have "sort (map instant (map snd steps)) = map instant (map snd steps)"
    using sg by (simp add: signed_off_def sorted_sort_id)
  moreover have "pr_updated_at r = pr_created_at r" if "steps = []"
    using sg that by (simp add: signed_off_def)
  ultimately have "pr_lifecycle_check r = None"
    unfolding pr_lifecycle_check_def lifecycle_times_signed [OF sg] Let_def
    by (cases "steps = []") (simp_all add: dt_eq_def incomparable_def del: facts_check.simps)
  then show ?thesis
    using st signed_updated [OF sg] sg
    by (auto simp: pr_check_def guards_None static_ok_def validate_text_def signed_off_def simp del: guards.simps)
qed

lemma signed_sorted: "signed_off (pr_sorted r) steps = signed_off r steps"
  by (simp add: signed_off_def pr_sorted_def lifecycle_facts_def)

lemma pr_check_static: "pr_check sha256 r = None \<Longrightarrow> static_ok sha256 r"
  by (auto simp: pr_check_def guards_None static_ok_def validate_text_def simp del: guards.simps)

lemma pr_construct_ok: "pr_construct sha256 r = Inr s \<Longrightarrow> static_ok sha256 s \<and> pr_sorted s = s \<and> s = pr_sorted r"
  using pr_check_static [of sha256 r] by (auto simp: pr_construct_def static_ok_sorted)

lemma pr_construct_signed: "static_ok sha256 r \<Longrightarrow> signed_off r steps \<Longrightarrow> pr_construct sha256 r = Inr (pr_sorted r)"
  by (simp add: pr_construct_def pr_check_signed)

lemma replicate_few: "replicate 4 x = [x, x, x, x]" "replicate 3 x = [x, x, x]" "replicate 2 x = [x, x]"
  by (simp_all add: eval_nat_numeral)

text \<open>A created revision is an unsigned draft.\<close>

lemma pr_create_signed:
  assumes "pr_create sha256 new_id now args = Inr r"
  shows "static_ok sha256 r \<and> pr_sorted r = r \<and> signed_off r []"
proof -
  note k = pr_construct_ok [OF assms [unfolded pr_create_def]]
  have "signed_off r []" unfolding k [THEN conjunct2, THEN conjunct2] signed_sorted
    by (simp add: signed_off_def lifecycle_facts_def stations_def replicate_few)
  then show ?thesis using k by blast
qed

definition prompt_accepts :: "prompt_command \<Rightarrow> prompt_revision \<Rightarrow> (string \<times> datetime) list \<Rightarrow> bool" where
  "prompt_accepts c r steps \<longleftrightarrow>
     (case command_parts c of (e, a, t) \<Rightarrow>
        length steps < 4 \<and> command_target c = stations ! (length steps + 1) \<and> e = int (length steps) + 1 \<and>
        is_text 128 a \<and> is_utc t \<and> dt_le (pr_updated_at r) t)"

lemma signed_lengths:
  assumes "signed_off r steps"
  obtains "steps = []" | s1 where "steps = [s1]" | s1 s2 where "steps = [s1, s2]"
  | s1 s2 s3 where "steps = [s1, s2, s3]" | s1 s2 s3 s4 where "steps = [s1, s2, s3, s4]"
  using assms by (cases steps; cases "tl steps"; cases "tl (tl steps)"; cases "tl (tl (tl steps))";
      cases "tl (tl (tl (tl steps)))") (auto simp: signed_off_def)

fun pr_moved :: "prompt_command \<Rightarrow> prompt_revision \<Rightarrow> prompt_revision" where
  "pr_moved (Submit e a t) r = r\<lparr>pr_status := PR_REVIEW, pr_version := pr_version r + 1, pr_updated_at := t,
     pr_submitted_by := Some a, pr_submitted_at := Some t\<rparr>"
| "pr_moved (Stage e a t) r = r\<lparr>pr_status := PR_STAGING, pr_version := pr_version r + 1, pr_updated_at := t,
     pr_reviewed_by := Some a, pr_reviewed_at := Some t\<rparr>"
| "pr_moved (Publish_Prompt e a t) r = r\<lparr>pr_status := PR_PRODUCTION, pr_version := pr_version r + 1,
     pr_updated_at := t, pr_published_by := Some a, pr_published_at := Some t\<rparr>"
| "pr_moved (Deprecate e a t) r = r\<lparr>pr_status := PR_DEPRECATED, pr_version := pr_version r + 1,
     pr_updated_at := t, pr_deprecated_by := Some a, pr_deprecated_at := Some t\<rparr>"

lemma prompt_step_moved:
  "command_parts c = (e, a, t) \<Longrightarrow> prompt_step sha256 c r = ensure (validate_text 128 a)
     (ensure (transition_time (command_target c) e t r) (pr_construct sha256 (pr_moved c r)))"
  by (cases c) (simp_all add: submit_for_review_def stage_def publish_prompt_def deprecate_def)

lemma pr_moved_fixed: "pr_fixed (pr_moved c r) = pr_fixed r" "pr_sorted r = r \<Longrightarrow> pr_sorted (pr_moved c r) = pr_moved c r"
proof -
  show "pr_fixed (pr_moved c r) = pr_fixed r" by (cases c) (simp_all add: pr_fixed_def)
  have "pr_sorted (pr_moved c r) = pr_moved c (pr_sorted r)" by (cases c) (simp_all add: pr_sorted_def)
  then show "pr_sorted r = r \<Longrightarrow> pr_sorted (pr_moved c r) = pr_moved c r" by simp
qed

lemma next_station: "n \<le> 4 \<Longrightarrow> prompt_transitions (stations ! n) = Some x \<longleftrightarrow> n < 4 \<and> x = stations ! (n + 1)"
  by (cases "n = 0 \<or> n = 1 \<or> n = 2 \<or> n = 3 \<or> n = 4") (auto simp: stations_def)

lemma station_of_target: "command_target c = stations ! (n + 1) \<Longrightarrow> n < 4 \<Longrightarrow>
    n = (case c of Submit _ _ _ \<Rightarrow> 0 | Stage _ _ _ \<Rightarrow> 1 | Publish_Prompt _ _ _ \<Rightarrow> 2 | Deprecate _ _ _ \<Rightarrow> 3)"
  by (cases c; cases "n = 0 \<or> n = 1 \<or> n = 2 \<or> n = 3") (auto simp: stations_def)

lemma pr_moved_signed:
  assumes sg: "signed_off r steps" and a: "prompt_accepts c r steps"
  shows "signed_off (pr_moved c r) (steps @ [snd (command_parts c)])"
proof -
  have sorted: "sorted (map instant (pr_created_at r # map snd steps @ [t]))" if "dt_le (pr_updated_at r) t" for t
    using sg that by (cases steps rule: rev_cases) (auto simp: signed_off_def dt_defs sorted_append comp_def)
  have n: "length steps = (case c of Submit _ _ _ \<Rightarrow> 0 | Stage _ _ _ \<Rightarrow> 1 | Publish_Prompt _ _ _ \<Rightarrow> 2 | Deprecate _ _ _ \<Rightarrow> 3)"
    using a station_of_target [of c "length steps"] by (auto simp: prompt_accepts_def split: prod.splits)
  show ?thesis
    using sg
  proof (cases rule: signed_lengths)
    case 1
    then show ?thesis using sg a n sorted
      by (cases c) (auto simp: signed_off_def prompt_accepts_def lifecycle_facts_def replicate_few stations_def comp_def)
  next
    case 2
    then show ?thesis using sg a n sorted
      by (cases c) (auto simp: signed_off_def prompt_accepts_def lifecycle_facts_def replicate_few stations_def comp_def)
  next
    case 3
    then show ?thesis using sg a n sorted
      by (cases c) (auto simp: signed_off_def prompt_accepts_def lifecycle_facts_def replicate_few stations_def comp_def)
  next
    case 4
    then show ?thesis using sg a n sorted
      by (cases c) (auto simp: signed_off_def prompt_accepts_def lifecycle_facts_def replicate_few stations_def comp_def)
  next
    case 5
    then show ?thesis using n by (cases c) auto
  qed
qed

text \<open>One accepted command adds one signature and nothing else; the constructor never refuses it.\<close>

lemma prompt_step_exact:
  assumes st: "static_ok sha256 r" and so: "pr_sorted r = r" and sg: "signed_off r steps"
  shows "if prompt_accepts c r steps
    then \<exists>s. prompt_step sha256 c r = Inr s \<and> static_ok sha256 s \<and> pr_sorted s = s \<and> pr_fixed s = pr_fixed r \<and>
      signed_off s (steps @ [snd (command_parts c)])
    else \<exists>e. prompt_step sha256 c r = Inl e"
proof -
  obtain e a t where c: "command_parts c = (e, a, t)" by (cases "command_parts c") auto
  have g: "ensure (validate_text 128 a) (ensure (transition_time (command_target c) e t r) k) =
      (if prompt_accepts c r steps then k else Inl (the (both (validate_text 128 a) (transition_time (command_target c) e t r))))"
    for k :: "error + prompt_revision"
  proof -
    have "validate_text 128 a = None \<and> transition_time (command_target c) e t r = None \<longleftrightarrow> prompt_accepts c r steps"
      using sg next_station [of "length steps"]
      by (auto simp: prompt_accepts_def c transition_time_def guards_None signed_off_def validate_text_def dt_defs
          simp del: guards.simps)
    then show ?thesis
      by (cases "validate_text 128 a"; cases "transition_time (command_target c) e t r") auto
  qed
  have m: "static_ok sha256 (pr_moved c r)" using st by (metis static_ok_fixed pr_moved_fixed(1))
  show ?thesis
  proof (cases "prompt_accepts c r steps")
    case True
    then have "signed_off (pr_moved c r) (steps @ [snd (command_parts c)])" using sg by (rule pr_moved_signed [rotated])
    then show ?thesis using True m so
      by (simp add: prompt_step_moved [OF c] g pr_construct_signed pr_moved_fixed)
  qed (simp add: prompt_step_moved [OF c] g)
qed

interpretation prompt_revisions: versioned
  "\<lambda>r s. \<exists>sha256 c. prompt_step sha256 c r = Inr s" pr_version pr_fixed
proof unfold_locales
  fix r s
  assume "\<exists>sha256 c. prompt_step sha256 c r = Inr s"
  then obtain sha256 c e a t where "prompt_step sha256 c r = Inr s" "command_parts c = (e, a, t)"
    by (metis prod_cases3)
  then have "s = pr_sorted (pr_moved c r)" by (simp add: prompt_step_moved pr_construct_def)
  moreover have "pr_version (pr_sorted (pr_moved c r)) = pr_version r + 1" by (cases c) (simp_all add: pr_sorted_def)
  ultimately show "pr_version r < pr_version s \<or> pr_version s = pr_version r \<and> pr_fixed s = pr_fixed r" by simp
qed

lemma prompt_run_signed:
  assumes "static_ok sha256 r \<and> pr_sorted r = r \<and> signed_off r []"
  shows "\<exists>steps. signed_off (prompt_run sha256 cs r) steps \<and> static_ok sha256 (prompt_run sha256 cs r) \<and>
    pr_sorted (prompt_run sha256 cs r) = prompt_run sha256 cs r \<and> pr_fixed (prompt_run sha256 cs r) = pr_fixed r"
proof (induction cs rule: rev_induct)
  case Nil
  then show ?case using assms by (auto simp: prompt_run_def)
next
  case (snoc c cs)
  then obtain steps where *: "signed_off (prompt_run sha256 cs r) steps" "static_ok sha256 (prompt_run sha256 cs r)"
    "pr_sorted (prompt_run sha256 cs r) = prompt_run sha256 cs r" "pr_fixed (prompt_run sha256 cs r) = pr_fixed r" by blast
  have "prompt_run sha256 (cs @ [c]) r = (case prompt_step sha256 c (prompt_run sha256 cs r) of
      Inl e \<Rightarrow> prompt_run sha256 cs r | Inr s \<Rightarrow> s)" unfolding prompt_run_def by simp
  then show ?case using prompt_step_exact [OF *(2,3,1), of c] * by (auto split: if_splits)
qed

text \<open>C34: After any sequence of submissions, stagings, publications and deprecations, refused ones included, a created
  prompt revision is its unchanged template together with a list of at most four signatures: its status is the
  station the list has reached, its version is the number of signatures plus one, its four pairs of actor and time
  are exactly the signatures taken so far, in order of time and not before its creation, and it passes its own
  constructor. The next command succeeds exactly when it names the current version, targets the next station and
  signs at a UTC time not before the last change; it then adds its own signature and nothing else. So no
  revision reaches production without a submission, a review and a publication.\<close>

theorem prompt_lifecycle_refines:
  assumes "pr_create sha256 new_id now args = Inr r"
  shows "\<exists>steps. signed_off (prompt_run sha256 cs r) steps \<and> pr_fixed (prompt_run sha256 cs r) = pr_fixed r \<and>
    pr_check sha256 (prompt_run sha256 cs r) = None \<and>
    (\<forall>c. if prompt_accepts c (prompt_run sha256 cs r) steps
      then \<exists>s. prompt_step sha256 c (prompt_run sha256 cs r) = Inr s \<and> pr_fixed s = pr_fixed r \<and>
        signed_off s (steps @ [snd (command_parts c)])
      else \<exists>e. prompt_step sha256 c (prompt_run sha256 cs r) = Inl e)"
proof -
  obtain steps where *: "signed_off (prompt_run sha256 cs r) steps" "static_ok sha256 (prompt_run sha256 cs r)"
    "pr_sorted (prompt_run sha256 cs r) = prompt_run sha256 cs r" "pr_fixed (prompt_run sha256 cs r) = pr_fixed r"
    using prompt_run_signed [OF pr_create_signed [OF assms]] by blast
  have "if prompt_accepts c (prompt_run sha256 cs r) steps
      then \<exists>s. prompt_step sha256 c (prompt_run sha256 cs r) = Inr s \<and> pr_fixed s = pr_fixed r \<and>
        signed_off s (steps @ [snd (command_parts c)])
      else \<exists>e. prompt_step sha256 c (prompt_run sha256 cs r) = Inl e" for c
    using prompt_step_exact [OF *(2,3,1), of c] *(4) by (auto split: if_splits)
  then show ?thesis using pr_check_signed [OF *(2,1)] *(1,4) by blast
qed

section \<open>Templates\<close>

datatype template_part = Literal string | Placeholder string string string

fun render_part :: "template_part \<Rightarrow> string" where
  "render_part (Literal s) = s"
| "render_part (Placeholder before name after) = ''{{'' @ before @ name @ after @ ''}}''"

definition render :: "template_part list \<Rightarrow> string" where
  "render parts = concat (map render_part parts)"

fun part_ok :: "template_part \<Rightarrow> bool" where
  "part_ok (Literal s) \<longleftrightarrow> CHR ''{'' \<notin> set s"
| "part_ok (Placeholder before name after) \<longleftrightarrow>
     list_all is_space before \<and> list_all is_space after \<and> is_variable_name name"

fun part_names :: "template_part \<Rightarrow> string list" where
  "part_names (Literal s) = []"
| "part_names (Placeholder before name after) = [name]"

fun part_text :: "template_part \<Rightarrow> string" where
  "part_text (Literal s) = s"
| "part_text (Placeholder before name after) = []"

lemma space_not_name: "is_space c \<Longrightarrow> \<not> is_name_char c"
  by (auto simp: is_space_def is_name_char_def is_alnum_def is_digit_def between_def code_def)

lemma brace_not_name: "\<not> is_name_char CHR ''}''" "\<not> is_space CHR ''}''"
  by (simp_all add: is_space_def is_name_char_def is_alnum_def is_digit_def between_def code_def)

lemma dropWhile_all_append: "list_all P xs \<Longrightarrow> dropWhile P (xs @ ys) = dropWhile P ys"
  by (induction xs) auto

lemma takeWhile_all_append: "list_all P xs \<Longrightarrow> takeWhile P (xs @ ys) = xs @ takeWhile P ys"
  by (induction xs) auto

lemma placeholder_at_part:
  assumes "part_ok (Placeholder before name after)"
  shows "placeholder_at (render_part (Placeholder before name after) @ rest) = Some (name, rest)"
proof -
  let ?tail = "after @ ''}}'' @ rest"
  have n: "list_all is_name_char name" "name \<noteq> []" and v: "is_variable_name name"
    and b: "list_all is_space before" and a: "list_all is_space after"
    using assms by (auto simp: is_variable_name_def)
  have hd: "\<not> is_space (hd name)" using n space_not_name by (cases name) auto
  have tl: "takeWhile is_name_char ?tail = [] \<and> dropWhile is_name_char ?tail = ?tail"
    using a space_not_name brace_not_name by (cases after) auto
  have "dropWhile is_space (before @ name @ ?tail) = name @ ?tail"
    using b n(2) hd by (cases name) (simp_all add: dropWhile_all_append)
  moreover have "takeWhile is_name_char (name @ ?tail) = name" using n(1) tl by (simp add: takeWhile_all_append)
  moreover have "dropWhile is_name_char (name @ ?tail) = ?tail" using n(1) tl by (simp add: dropWhile_all_append)
  moreover have "dropWhile is_space ?tail = ''}}'' @ rest" using a brace_not_name by (simp add: dropWhile_all_append)
  ultimately show ?thesis using v by (simp add: placeholder_at_def starts_with_def eval_nat_numeral)
qed

lemma scan_literal: "CHR ''{'' \<notin> set s \<Longrightarrow>
    scan_placeholders (s @ rest) = (fst (scan_placeholders rest), s @ snd (scan_placeholders rest))"
proof (induction s)
  case (Cons c s)
  have "placeholder_at (c # s @ rest) = None" using Cons.prems by (auto simp: placeholder_at_def starts_with_def)
  then show ?case using Cons by (subst scan_placeholders.simps) (auto simp: split_def Let_def)
qed simp

lemma scan_part: "part_ok p \<Longrightarrow> scan_placeholders (render_part p @ rest) =
    (part_names p @ fst (scan_placeholders rest), part_text p @ snd (scan_placeholders rest))"
proof (cases p)
  case (Placeholder before name after)
  moreover assume "part_ok p"
  ultimately have "placeholder_at (render_part p @ rest) = Some (name, rest)" using placeholder_at_part by blast
  then show ?thesis using Placeholder
    by (subst scan_placeholders.simps) (auto simp: split_def Let_def split: list.split)
qed (simp add: scan_literal)

lemma scan_render:
  "list_all part_ok parts \<Longrightarrow>
   scan_placeholders (render parts) = (concat (map part_names parts), concat (map part_text parts))"
proof (induction parts)
  case Nil
  then show ?case by (simp add: render_def scan_placeholders.simps [of "[]"])
next
  case (Cons p parts)
  then show ?case using scan_part [of p "render parts"] by (simp add: render_def)
qed

text \<open>C35: Reading a template inverts writing it. From any template written as literal text without opening braces and
  placeholders with a variable name padded by blanks, the scan returns exactly the names in their order and the
  literal text; and a revision whose content is written in this way is accepted only if its variables are
  exactly those names and the literal text has no closing double brace.\<close>

theorem template_scan_roundtrip:
  assumes "list_all part_ok parts"
  shows "scan_placeholders (render parts) = (concat (map part_names parts), concat (map part_text parts)) \<and>
    (pr_template_check (r\<lparr>pr_content := render parts\<rparr>) = None \<longrightarrow>
       set (concat (map part_names parts)) = tv_name ` set (pr_variables r) \<and>
       \<not> contains ''}}'' (concat (map part_text parts)))"
  using scan_render [OF assms]
  by (auto simp: pr_template_check_def guards_None Let_def simp del: guards.simps)

section \<open>The production pointer\<close>

definition names_revision :: "production_pointer \<Rightarrow> prompt_revision \<Rightarrow> bool" where
  "names_revision p r \<longleftrightarrow> pp_workspace_id p = pr_workspace_id r \<and> pp_prompt_id p = pr_prompt_id r \<and>
     pp_node p = pr_node r \<and> pp_revision_id p = pr_id r \<and> pp_semantic_revision p = pr_semantic_revision r \<and>
     pp_content_sha256 p = pr_content_sha256 r"

definition pointer_run ::
  "(prompt_revision \<times> int \<times> string \<times> datetime) list \<Rightarrow> production_pointer \<Rightarrow> production_pointer" where
  "pointer_run cs p = foldl (\<lambda>p (r, e, a, t). case repoint r e a t p of Inl err \<Rightarrow> p | Inr q \<Rightarrow> q) p cs"

lemma revision_pointer_check:
  "pr_check sha256 r = None \<Longrightarrow> validate_workspace_id (pr_workspace_id r) = None \<and> is_token (pr_prompt_id r) \<and>
     is_token (pr_node r) \<and> validate_uuid (pr_id r) = None \<and> is_semantic_revision (pr_semantic_revision r) \<and>
     is_sha256 (pr_content_sha256 r)"
  using pr_check_static [of sha256 r]
  by (auto simp: static_ok_def pr_header_check_def guards_None validate_token_def simp del: guards.simps)

definition pointer_target :: "prompt_revision \<Rightarrow> production_pointer \<Rightarrow> bool" where
  "pointer_target r p \<longleftrightarrow> pr_status r = PR_PRODUCTION \<and> pr_workspace_id r = pp_workspace_id p \<and>
     pr_prompt_id r = pp_prompt_id p \<and> pr_node r = pp_node p"

lemma repoint_exact:
  assumes r: "pr_check sha256 r = None" and p: "pp_check p = None"
  shows "repoint r e a t p = Inr q \<longleftrightarrow> e = pp_version p \<and> pointer_target r p \<and>
    (if pr_id r = pp_revision_id p then q = p
     else is_utc t \<and> dt_le (pp_updated_at p) t \<and> is_text 128 a \<and>
       q = p\<lparr>pp_revision_id := pr_id r, pp_semantic_revision := pr_semantic_revision r,
         pp_content_sha256 := pr_content_sha256 r, pp_version := pp_version p + 1, pp_updated_by := a,
         pp_updated_at := t\<rparr>)"
  using revision_pointer_check [OF r] p
  by (auto simp: repoint_def pp_construct_def pp_check_def guards_None pointer_target_def validator_defs dt_defs
      simp del: guards.simps)

lemma repoint_names:
  assumes r: "pr_check sha256 r = None" and p: "pp_check p = None" and q: "repoint r e a t p = Inr q"
    and s: "names_revision p s" "pr_status s = PR_PRODUCTION"
  shows "pp_check q = None \<and> dt_le (pp_updated_at p) (pp_updated_at q) \<and> pp_version p \<le> pp_version q \<and>
    (names_revision q r \<or> q = p)"
  using q revision_pointer_check [OF r] p unfolding repoint_exact [OF r p]
  by (auto simp: pp_check_def guards_None pointer_target_def validator_defs dt_defs names_revision_def
      simp del: guards.simps split: if_splits)

lemma pp_create_names:
  assumes r: "pr_check sha256 r = None" and p: "pp_create r a t = Inr p"
  shows "pp_check p = None \<and> names_revision p r \<and> pr_status r = PR_PRODUCTION \<and> pp_version p = 1 \<and> pp_updated_at p = t"
  using p by (auto simp: pp_create_def pp_construct_def names_revision_def split: option.splits)

text \<open>C36: A production pointer never shows anything but a production revision of its own prompt: after any sequence of
  repointings at accepted revisions, refused ones included, it names, field by field, the revision it was created
  for or one it was repointed to, which was in production and belongs to the same workspace, prompt and node;
  it passes its own constructor, its version and its time never go back, and the next repointing succeeds
  exactly for the current version and such a target, with a UTC time not before the last move and a valid
  actor unless the target is already selected, which changes nothing.\<close>

theorem prompt_pointer_history:
  assumes created: "pp_create r a t = Inr p" and valid: "\<forall>s\<in>insert r (fst ` set cs). pr_check sha256 s = None"
  shows "(\<exists>s\<in>insert r (fst ` set cs). pr_status s = PR_PRODUCTION \<and> names_revision (pointer_run cs p) s) \<and>
    pp_check (pointer_run cs p) = None \<and> 1 \<le> pp_version (pointer_run cs p) \<and>
    dt_le t (pp_updated_at (pointer_run cs p)) \<and>
    (\<forall>s e b u. pr_check sha256 s = None \<longrightarrow>
      ((\<exists>q. repoint s e b u (pointer_run cs p) = Inr q) \<longleftrightarrow>
         e = pp_version (pointer_run cs p) \<and> pointer_target s (pointer_run cs p) \<and>
         (pr_id s = pp_revision_id (pointer_run cs p) \<or>
          is_utc u \<and> dt_le (pp_updated_at (pointer_run cs p)) u \<and> is_text 128 b)))"
proof -
  have run: "(\<exists>s\<in>insert r (fst ` set cs). pr_status s = PR_PRODUCTION \<and> names_revision (pointer_run cs p) s) \<and>
    pp_check (pointer_run cs p) = None \<and> 1 \<le> pp_version (pointer_run cs p) \<and>
    dt_le t (pp_updated_at (pointer_run cs p))"
    using valid
  proof (induction cs rule: rev_induct)
    case Nil
    then show ?case using pp_create_names [OF _ created, of sha256] by (simp add: pointer_run_def dt_defs)
  next
    case (snoc c cs)
    obtain s e b u where c: "c = (s, e, b, u)" by (cases c) auto
    let ?p = "pointer_run cs p"
    have step: "pointer_run (cs @ [c]) p = (case repoint s e b u ?p of Inl err \<Rightarrow> ?p | Inr q \<Rightarrow> q)"
      unfolding pointer_run_def c by simp
    have s: "pr_check sha256 s = None" using snoc.prems c by simp
    obtain s0 where *: "s0 \<in> insert r (fst ` set cs)" "pr_status s0 = PR_PRODUCTION" "names_revision ?p s0"
      "pp_check ?p = None" "1 \<le> pp_version ?p" "dt_le t (pp_updated_at ?p)" using snoc by auto
    show ?case
    proof (cases "repoint s e b u ?p")
      case (Inl err)
      then show ?thesis using * by (auto simp: step)
    next
      case (Inr q)
      have "pr_status s = PR_PRODUCTION" using Inr unfolding repoint_exact [OF s *(4)] by (simp add: pointer_target_def)
      moreover have q: "pointer_run (cs @ [c]) p = q" using Inr by (simp add: step)
      ultimately show ?thesis unfolding q using repoint_names [OF s *(4) Inr *(3,2)] * c by (auto simp: dt_defs)
    qed
  qed
  have "(\<exists>q. repoint s e b u (pointer_run cs p) = Inr q) \<longleftrightarrow>
         e = pp_version (pointer_run cs p) \<and> pointer_target s (pointer_run cs p) \<and>
         (pr_id s = pp_revision_id (pointer_run cs p) \<or>
          is_utc u \<and> dt_le (pp_updated_at (pointer_run cs p)) u \<and> is_text 128 b)"
    if "pr_check sha256 s = None" for s e b u
    using repoint_exact [OF that, of "pointer_run cs p" e b u] run by auto
  then show ?thesis using run by blast
qed

section \<open>A sample\<close>

definition sample_digest :: "string \<Rightarrow> string" where "sample_digest s = replicate 64 CHR ''a''"

definition sample_prompt :: "nat \<Rightarrow> int \<Rightarrow> prompt_revision" where
  "sample_prompt i t = \<lparr>pr_id = uuid_str i, pr_workspace_id = ''w'', pr_prompt_id = ''p'',
     pr_semantic_revision = ''1.0.0'', pr_node = ''n'', pr_category_applicability = [''c''],
     pr_model_family_applicability = [''m''], pr_input_schema_version = ''planning-context.v1'',
     pr_output_schema_version = ''creative-plan.v1'', pr_policy_version = ''v'', pr_content = ''a{{ x }}'',
     pr_variables = [\<lparr>tv_name = ''x'', tv_required = True\<rparr>], pr_content_sha256 = replicate 64 CHR ''a'',
     pr_status = PR_DRAFT, pr_version = 1, pr_created_by = ''u'', pr_change_summary = ''s'',
     pr_created_at = utc t, pr_updated_at = utc t, pr_submitted_by = None, pr_submitted_at = None,
     pr_reviewed_by = None, pr_reviewed_at = None, pr_published_by = None, pr_published_at = None,
     pr_deprecated_by = None, pr_deprecated_at = None\<rparr>"

definition sample_steps :: "int \<Rightarrow> (string \<times> datetime) list" where
  "sample_steps t = [(''u'', utc t), (''u'', utc t), (''u'', utc t)]"

definition sample_production :: "nat \<Rightarrow> int \<Rightarrow> prompt_revision" where
  "sample_production i t = (sample_prompt i t)\<lparr>pr_status := PR_PRODUCTION, pr_version := 4,
     pr_submitted_by := Some ''u'', pr_submitted_at := Some (utc t), pr_reviewed_by := Some ''u'',
     pr_reviewed_at := Some (utc t), pr_published_by := Some ''u'', pr_published_at := Some (utc t)\<rparr>"

lemmas class_facts = class_defs code_def is_space_def is_control_def is_name_char_def is_letter_def

lemma sample_letter: "is_text n [c] \<longleftrightarrow> 1 \<le> n \<and> \<not> is_space c \<and> \<not> is_control c"
  by (auto simp: is_text_def strip_def)

definition sample_parts :: "template_part list" where
  "sample_parts = [Literal ''a'', Placeholder '' '' ''x'' '' '']"

lemma sample_parts_ok: "list_all part_ok sample_parts" "render sample_parts = ''a{{ x }}''"
  by (simp_all add: sample_parts_def render_def is_variable_name_def class_facts)

theorem template_scan_roundtrip_witness:
  "scan_placeholders (render sample_parts) = ([''x''], ''a'')"
  using template_scan_roundtrip [OF sample_parts_ok(1), THEN conjunct1] by (simp add: sample_parts_def)

lemma sample_static: "static_ok sample_digest (sample_prompt i t)"
proof -
  have "scan_placeholders ''a{{ x }}'' = ([''x''], ''a'')"
    using scan_render [OF sample_parts_ok(1)] unfolding sample_parts_ok(2) by (simp add: sample_parts_def)
  then have "pr_template_check (sample_prompt i t) = None"
    by (simp add: pr_template_check_def sample_prompt_def validate_template_content_def secret_material_def
        strip_def lower_def lower_char_def upper_ascii_def keyed_assignment_def named_assignment_def starts_with_def
        secret_variable_def is_word_char_def class_facts Let_def)
  moreover have "is_semantic_revision ''1.0.0''"
    by (simp add: is_semantic_revision_def version_number_def optional_labels_def class_facts Let_def)
  then have "pr_header_check (sample_prompt i t) = None"
    by (simp add: pr_header_check_def sample_prompt_def validate_applicability_def validator_defs class_facts)
  ultimately show ?thesis
    by (simp add: static_ok_def sample_letter)
      (simp add: sample_prompt_def sample_digest_def is_sha256_def list_all_iff class_facts sample_letter)
qed

lemma sample_sorted: "pr_sorted (sample_prompt i t) = sample_prompt i t" "pr_sorted (sample_production i t) = sample_production i t"
  by (simp_all add: pr_sorted_def sample_prompt_def sample_production_def)

lemma sample_created: "pr_create sample_digest (uuid_str i) (utc t) (sample_prompt i t) = Inr (sample_prompt i t)"
proof -
  have "pr_create sample_digest (uuid_str i) (utc t) (sample_prompt i t) = pr_construct sample_digest (sample_prompt i t)"
    by (simp add: pr_create_def sample_prompt_def sample_digest_def)
  moreover have "signed_off (sample_prompt i t) []"
    by (simp add: signed_off_def sample_prompt_def lifecycle_facts_def stations_def replicate_few)
  ultimately show ?thesis using pr_construct_signed [OF sample_static] sample_sorted(1) by metis
qed

theorem prompt_lifecycle_refines_witness:
  "pr_check sample_digest (prompt_run sample_digest [Submit 1 ''u'' (utc 2)] (sample_prompt 1 0)) = None"
  using prompt_lifecycle_refines [OF sample_created] by blast

lemma sample_production_ok: "pr_check sample_digest (sample_production i t) = None"
proof (rule pr_check_signed)
  have "pr_fixed (sample_production i t) = pr_fixed (sample_prompt i t)"
    by (simp add: pr_fixed_def sample_production_def)
  then show "static_ok sample_digest (sample_production i t)" using sample_static by (metis static_ok_fixed)
  show "signed_off (sample_production i t) (sample_steps t)"
    by (simp add: signed_off_def sample_production_def sample_prompt_def sample_steps_def lifecycle_facts_def
        stations_def replicate_few sample_letter class_facts)
qed

definition sample_pointer :: "nat \<Rightarrow> int \<Rightarrow> int \<Rightarrow> production_pointer" where
  "sample_pointer i n t = \<lparr>pp_workspace_id = ''w'', pp_prompt_id = ''p'', pp_node = ''n'',
     pp_revision_id = uuid_str i, pp_semantic_revision = ''1.0.0'', pp_content_sha256 = replicate 64 CHR ''a'',
     pp_version = n, pp_updated_by = ''u'', pp_updated_at = utc t\<rparr>"

lemma sample_pointer_created: "pp_create (sample_production 1 0) ''u'' (utc 4) = Inr (sample_pointer 1 1 4)"
proof -
  have "pp_check (sample_pointer 1 1 4) = None"
    using revision_pointer_check [OF sample_production_ok [of 1 0]]
    by (simp add: pp_check_def sample_pointer_def sample_production_def sample_prompt_def validator_defs)
      (simp add: sample_letter class_facts)
  then show ?thesis
    by (simp add: pp_create_def pp_construct_def sample_production_def sample_prompt_def sample_pointer_def dt_defs)
qed

theorem prompt_pointer_history_witness:
  "pp_check (pointer_run [(sample_production 2 9, 1, ''u'', utc 5)] (sample_pointer 1 1 4)) = None"
  using prompt_pointer_history [OF sample_pointer_created, of "[(sample_production 2 9, 1, ''u'', utc 5)]" sample_digest]
    sample_production_ok by simp

text \<open>
  \<open>create\<close> refuses a pointer older than the publication of its revision; \<open>repoint\<close> does not compare the two,
  so a pointer can be moved to a revision before the time at which that was published.
\<close>

lemma repoint_before_publication:
  "\<exists>q. repoint (sample_production 2 9) 1 ''u'' (utc 5) (sample_pointer 1 1 4) = Inr q \<and>
     pp_updated_at q = utc 5 \<and> pr_published_at (sample_production 2 9) = Some (utc 9)"
proof -
  have p: "pp_check (sample_pointer 1 1 4) = None"
    using pp_create_names [OF sample_production_ok sample_pointer_created] by blast
  show ?thesis
    unfolding repoint_exact [OF sample_production_ok p] using uuid_str_less [of 1 2]
    by (auto simp: pointer_target_def sample_production_def sample_prompt_def sample_pointer_def dt_defs sample_letter
        class_facts)
qed

end
