(* ===== verification/Provider_Execution.thy ===== *)
theory Provider_Execution
  imports Provider_Routing Json_Text
begin

text \<open>
  Evidence of provider calls and of what they cost (\<open>provider_execution.py\<close>): immutable records whose
  constructors tie the outcome of a call to whether it may have been dispatched, and an amount to quantity,
  price and evidence. SHA-256 is an argument.
\<close>

section \<open>Provider calls\<close>

datatype call_outcome =
    CONFIRMED_SUCCESS | CONFIRMED_FAILURE | CONTENT_REJECTED | SAFE_TO_RETRY_PRE_DISPATCH
  | UNKNOWN_AFTER_POSSIBLE_DISPATCH

fun validate_sha256_opt :: "string option \<Rightarrow> error option" where
  "validate_sha256_opt None = None"
| "validate_sha256_opt (Some v) = validate_sha256 v"

record provider_call =
  pc_id :: string
  pc_workspace_id :: string
  pc_candidate_slot_id :: string
  pc_durable_operation_id :: string
  pc_operation_attempt :: int
  pc_call_index :: int
  pc_route_decision_sha256 :: string
  pc_endpoint_capability_version_id :: string
  pc_provider :: string
  pc_model :: string
  pc_request_sha256 :: string
  pc_idempotency_key_sha256 :: string
  pc_outcome :: call_outcome
  pc_possible_dispatch :: bool
  pc_provider_request_id_sha256 :: "string option"
  pc_latency_ms :: int
  pc_observed_at :: datetime

definition pc_outcome_check :: "provider_call \<Rightarrow> error option" where
  "pc_outcome_check c = guards
     [guard (pc_outcome c = UNKNOWN_AFTER_POSSIBLE_DISPATCH \<and> \<not> pc_possible_dispatch c) ValueError,
      (if pc_outcome c = SAFE_TO_RETRY_PRE_DISPATCH then guards
         [guard (pc_possible_dispatch c) ValueError, guard (pc_provider_request_id_sha256 c \<noteq> None) ValueError]
       else guard (\<not> pc_possible_dispatch c) ValueError)]"

definition validate_latency :: "int \<Rightarrow> error option" where
  "validate_latency n = guard (\<not> (0 \<le> n \<and> n \<le> 86400000)) ValueError"

definition pc_check :: "provider_call \<Rightarrow> error option" where
  "pc_check c = guards
     [validate_uuid (pc_id c), validate_uuid (pc_candidate_slot_id c), validate_uuid (pc_durable_operation_id c),
      validate_uuid (pc_endpoint_capability_version_id c), validate_workspace_id (pc_workspace_id c),
      validate_sha256 (pc_route_decision_sha256 c), guard (pc_operation_attempt c < 1) ValueError,
      guard (\<not> (0 \<le> pc_call_index c \<and> pc_call_index c < 8)) ValueError, validate_token (pc_provider c),
      validate_token (pc_model c), validate_sha256 (pc_request_sha256 c), validate_sha256 (pc_idempotency_key_sha256 c),
      validate_sha256_opt (pc_provider_request_id_sha256 c), validate_latency (pc_latency_ms c),
      require_utc (pc_observed_at c), pc_outcome_check c]"

definition call_identity :: "provider_call \<Rightarrow> (string \<times> json) list" where
  "call_identity c =
     [(''schema_version'', JStr ''provider-call-identity.v1''), (''workspace_id'', JStr (pc_workspace_id c)),
      (''candidate_slot_id'', JStr (pc_candidate_slot_id c)),
      (''durable_operation_id'', JStr (pc_durable_operation_id c)),
      (''operation_attempt'', JInt (pc_operation_attempt c)), (''call_index'', JInt (pc_call_index c))]"

definition call_identity_sha256 :: "(string \<Rightarrow> string) \<Rightarrow> provider_call \<Rightarrow> string" where
  "call_identity_sha256 sha256 c = sha256 (json_dumps True (JObj (call_identity c)))"

definition must_reconcile :: "provider_call \<Rightarrow> bool" where
  "must_reconcile c \<longleftrightarrow> pc_outcome c = UNKNOWN_AFTER_POSSIBLE_DISPATCH"

definition resubmission_safe :: "provider_call \<Rightarrow> bool" where
  "resubmission_safe c \<longleftrightarrow> pc_outcome c = SAFE_TO_RETRY_PRE_DISPATCH"

section \<open>Usage records\<close>

datatype usage_resolution = UNRESOLVED | FINALIZED

datatype usage_source = DIRECT_RESPONSE | PROVIDER_RECONCILIATION | OPERATOR_RECONCILIATION

definition validate_decimal :: "bool \<Rightarrow> rat \<Rightarrow> error option" where
  "validate_decimal positive v =
     guard (v < 0 \<or> max_money < v \<or> \<not> six_places v \<or> positive \<and> v = 0) ValueError"

fun validate_decimal_opt :: "bool \<Rightarrow> rat option \<Rightarrow> error option" where
  "validate_decimal_opt positive None = None"
| "validate_decimal_opt positive (Some v) = validate_decimal positive v"

record usage_record =
  ur_id :: string
  ur_workspace_id :: string
  ur_provider_call_id :: string
  ur_provider_call_identity_sha256 :: string
  ur_durable_operation_id :: string
  ur_operation_attempt :: int
  ur_provider :: string
  ur_model :: string
  ur_endpoint_capability_version_id :: string
  ur_pricing_unit :: provider_pricing_unit
  ur_estimated_quantity :: rat
  ur_provider_reported_quantity :: "rat option"
  ur_configured_unit_price :: rat
  ur_estimated_amount :: rat
  ur_actual_amount :: "rat option"
  ur_currency :: string
  ur_unit_price_version :: string
  ur_provider_usage_evidence_sha256 :: "string option"
  ur_pricing_evidence_sha256 :: string
  ur_final_cost_evidence_sha256 :: "string option"
  ur_resolution_status :: usage_resolution
  ur_evidence_source :: usage_source
  ur_latency_ms :: int
  ur_recorded_at :: datetime

text \<open>
  The product is taken under 48 significant digits. Both factors have passed \<open>_validate_decimal\<close>, so each
  has at most 20 significant digits and the product is exact; only \<open>quantize\<close> rounds it.
\<close>

definition expected_estimate :: "usage_record \<Rightarrow> rat" where
  "expected_estimate u = quantize6 (ur_estimated_quantity u * ur_configured_unit_price u)"

definition ur_amount_check :: "usage_record \<Rightarrow> error option" where
  "ur_amount_check u = guards
     [validate_decimal True (ur_estimated_quantity u), validate_decimal_opt True (ur_provider_reported_quantity u),
      validate_decimal False (ur_configured_unit_price u), validate_decimal False (ur_estimated_amount u),
      guard (max_money < expected_estimate u \<or> ur_estimated_amount u \<noteq> expected_estimate u) ValueError,
      validate_decimal_opt False (ur_actual_amount u)]"

definition ur_resolution_check :: "usage_record \<Rightarrow> error option" where
  "ur_resolution_check u =
     (let missing = ur_provider_reported_quantity u = None \<or> ur_provider_usage_evidence_sha256 u = None;
          present = ur_provider_reported_quantity u \<noteq> None \<or> ur_provider_usage_evidence_sha256 u \<noteq> None
      in guards
        [guard (missing \<and> present) ValueError,
         (if ur_resolution_status u = UNRESOLVED
          then guard (ur_actual_amount u \<noteq> None \<or> ur_final_cost_evidence_sha256 u \<noteq> None) ValueError
          else guards [guard missing ValueError,
            guard (ur_actual_amount u = None \<or> ur_final_cost_evidence_sha256 u = None) ValueError])])"

definition ur_check :: "usage_record \<Rightarrow> error option" where
  "ur_check u = guards
     [validate_uuid (ur_id u), validate_uuid (ur_provider_call_id u), validate_uuid (ur_durable_operation_id u),
      validate_uuid (ur_endpoint_capability_version_id u), validate_workspace_id (ur_workspace_id u),
      validate_sha256 (ur_provider_call_identity_sha256 u), guard (ur_operation_attempt u < 1) ValueError,
      validate_token (ur_provider u), validate_token (ur_model u), ur_amount_check u,
      guard (\<not> is_currency (ur_currency u)) ValueError, validate_token (ur_unit_price_version u),
      validate_sha256_opt (ur_provider_usage_evidence_sha256 u), validate_sha256 (ur_pricing_evidence_sha256 u),
      validate_sha256_opt (ur_final_cost_evidence_sha256 u), validate_latency (ur_latency_ms u),
      require_utc (ur_recorded_at u), ur_resolution_check u]"

definition usage_key :: "usage_record \<Rightarrow> string" where
  "usage_key u = ''usage:'' @ ur_provider_call_identity_sha256 u"

definition budget_releasable :: "usage_record \<Rightarrow> bool" where
  "budget_releasable u \<longleftrightarrow> ur_resolution_status u = FINALIZED"

end
