(* ===== verification/Provider_Execution_Facts.thy ===== *)
theory Provider_Execution_Facts
  imports Provider_Execution Creative_Plan_Facts
begin

text \<open>
  What an accepted provider call and an accepted usage record stand for: a call may be repeated exactly when it
  cannot have been dispatched, its identity names it, and an amount is the exact price rounded once.
\<close>

section \<open>Calls\<close>

lemma pc_outcome_cases:
  "pc_outcome_check c = None \<longleftrightarrow>
     (pc_possible_dispatch c \<longleftrightarrow> pc_outcome c \<noteq> SAFE_TO_RETRY_PRE_DISPATCH) \<and>
     (pc_outcome c = SAFE_TO_RETRY_PRE_DISPATCH \<longrightarrow> pc_provider_request_id_sha256 c = None)"
  by (auto simp: pc_outcome_check_def guards_None simp del: guards.simps)

lemma call_identity_names:
  assumes "call_identity_sha256 sha256 c = call_identity_sha256 sha256 d"
  shows "(pc_workspace_id c, pc_candidate_slot_id c, pc_durable_operation_id c, pc_operation_attempt c, pc_call_index c) =
      (pc_workspace_id d, pc_candidate_slot_id d, pc_durable_operation_id d, pc_operation_attempt d, pc_call_index d) \<or>
    (\<exists>s t. s \<noteq> t \<and> sha256 s = sha256 t)"
proof -
  let ?xs = "call_identity c" and ?ys = "call_identity d"
  let ?s = "json_dumps True (JObj ?xs)" and ?t = "json_dumps True (JObj ?ys)"
  have eq: "sha256 ?s = sha256 ?t" using assms by (simp add: call_identity_sha256_def del: json_dumps.simps)
  show ?thesis
  proof (cases "?s = ?t")
    case True
    have ok: "json_ok (JObj ?xs)" "json_ok (JObj ?ys)" by (simp_all add: call_identity_def)
    have keys: "distinct (map fst ?xs)" "map fst ?xs = map fst ?ys" by (simp_all add: call_identity_def)
    have "map (json_norm \<circ> snd) ?xs = map (json_norm \<circ> snd) ?ys"
      by (rule object_members [OF json_dumps_inj [OF ok True] keys])
    then show ?thesis unfolding call_identity_def by simp
  next
    case False
    with eq show ?thesis by (intro disjI2 exI [of _ ?s] exI [of _ ?t]) simp
  qed
qed

text \<open>C37: An accepted provider call says one thing about dispatch. It may be resubmitted automatically exactly when the
  request cannot have left the system, and then no provider request is known; a call that must be reconciled may
  have been dispatched and is never resubmitted. Its identity is fixed by workspace, candidate slot, durable
  operation, attempt and call index: two calls with equal identity hashes agree on all five, or SHA-256 has a
  collision on two texts.\<close>

theorem provider_call_evidence:
  assumes "pc_check c = None" "call_identity_sha256 sha256 c = call_identity_sha256 sha256 d"
  shows "(resubmission_safe c \<longleftrightarrow> \<not> pc_possible_dispatch c) \<and>
    (resubmission_safe c \<longrightarrow> pc_provider_request_id_sha256 c = None \<and> \<not> must_reconcile c) \<and>
    (must_reconcile c \<longrightarrow> pc_possible_dispatch c) \<and>
    ((pc_workspace_id c, pc_candidate_slot_id c, pc_durable_operation_id c, pc_operation_attempt c, pc_call_index c) =
      (pc_workspace_id d, pc_candidate_slot_id d, pc_durable_operation_id d, pc_operation_attempt d, pc_call_index d) \<or>
    (\<exists>s t. s \<noteq> t \<and> sha256 s = sha256 t))"
proof -
  have "pc_outcome_check c = None" using assms(1) by (simp add: pc_check_def guards_None del: guards.simps)
  then show ?thesis using call_identity_names [OF assms(2)]
    by (auto simp: pc_outcome_cases resubmission_safe_def must_reconcile_def)
qed

section \<open>Amounts\<close>

lemma round_half_even_near: "\<bar>of_int (round_half_even x) - x\<bar> \<le> 1 / 2"
proof -
  have "of_int \<lfloor>x\<rfloor> \<le> x" "x < of_int \<lfloor>x\<rfloor> + 1" by linarith+
  then show ?thesis unfolding round_half_even_def Let_def by (auto simp: abs_le_iff)
qed

lemma quantize6_near: "\<bar>quantize6 x - x\<bar> \<le> 1 / 2000000"
  using round_half_even_near [of "x * 1000000"]
  by (simp add: quantize6_def round_to_grid_def abs_le_iff field_simps)

text \<open>Six-place rationals that lie within half a unit, off the midpoint, coincide.\<close>

lemma quantize6_nearest:
  assumes "six_places y" "\<bar>y - x\<bar> < 1 / 2000000"
  shows "quantize6 x = y"
proof -
  obtain k where y: "y = of_int k / 1000000" using six_placesD [OF assms(1)] by blast
  have "\<bar>of_int k - x * 1000000\<bar> < 1 / 2" using assms(2) unfolding y by (simp add: abs_less_iff field_simps)
  moreover have "\<bar>of_int (round_half_even (x * 1000000)) - x * 1000000\<bar> \<le> 1 / 2" by (rule round_half_even_near)
  ultimately have "\<bar>(of_int (round_half_even (x * 1000000)) :: rat) - of_int k\<bar> < 1" by linarith
  then have "\<bar>round_half_even (x * 1000000) - k\<bar> < 1" by (simp flip: of_int_diff of_int_abs of_int_less_1_iff)
  then show ?thesis by (simp add: quantize6_def round_to_grid_def y)
qed

text \<open>An accepted usage record carries sound amounts. The estimated amount lies within half a millionth of quantity
  times price and is the only amount with six decimal places that lies closer than that; all amounts are
  within the money range with six places. The record releases its budget exactly when an actual amount is
  recorded, which is exactly when final cost evidence is, and only together with the quantity and the evidence the
  provider reported, which are always recorded both or neither.\<close>

theorem usage_amounts_sound:
  assumes "ur_check u = None"
  shows "\<bar>ur_estimated_amount u - ur_estimated_quantity u * ur_configured_unit_price u\<bar> \<le> 1 / 2000000 \<and>
    (\<forall>y. six_places y \<and> \<bar>y - ur_estimated_quantity u * ur_configured_unit_price u\<bar> < 1 / 2000000 \<longrightarrow>
      y = ur_estimated_amount u) \<and>
    0 < ur_estimated_quantity u \<and>
    (\<forall>v\<in>insert (ur_estimated_amount u) (set_option (ur_actual_amount u)). is_money v) \<and>
    (budget_releasable u \<longleftrightarrow> ur_actual_amount u \<noteq> None) \<and>
    (budget_releasable u \<longleftrightarrow> ur_final_cost_evidence_sha256 u \<noteq> None) \<and>
    (budget_releasable u \<longrightarrow> ur_provider_reported_quantity u \<noteq> None) \<and>
    (ur_provider_reported_quantity u = None \<longleftrightarrow> ur_provider_usage_evidence_sha256 u = None)"
proof -
  have a: "ur_amount_check u = None" and r: "ur_resolution_check u = None"
    using assms by (simp_all add: ur_check_def guards_None del: guards.simps)
  have e: "ur_estimated_amount u = quantize6 (ur_estimated_quantity u * ur_configured_unit_price u)"
    using a by (simp add: ur_amount_check_def guards_None expected_estimate_def del: guards.simps)
  have m: "0 < ur_estimated_quantity u \<and> (\<forall>v\<in>insert (ur_estimated_amount u) (set_option (ur_actual_amount u)). is_money v)"
    using a by (cases "ur_actual_amount u")
      (auto simp: ur_amount_check_def guards_None validate_decimal_def is_money_def simp del: guards.simps)
  have s: "(budget_releasable u \<longleftrightarrow> ur_actual_amount u \<noteq> None) \<and>
      (budget_releasable u \<longleftrightarrow> ur_final_cost_evidence_sha256 u \<noteq> None) \<and>
      (budget_releasable u \<longrightarrow> ur_provider_reported_quantity u \<noteq> None) \<and>
      (ur_provider_reported_quantity u = None \<longleftrightarrow> ur_provider_usage_evidence_sha256 u = None)"
    using r by (cases "ur_resolution_status u")
      (auto simp: ur_resolution_check_def budget_releasable_def guards_None Let_def simp del: guards.simps)
  show ?thesis
    using m s quantize6_near [of "ur_estimated_quantity u * ur_configured_unit_price u"]
      quantize6_nearest [of _ "ur_estimated_quantity u * ur_configured_unit_price u"] unfolding e by auto
qed

section \<open>Samples\<close>

definition sample_hash :: string where "sample_hash = replicate 64 CHR ''a''"

definition sample_provider_call :: provider_call where
  "sample_provider_call = \<lparr>pc_id = uuid_str 1, pc_workspace_id = ''w'', pc_candidate_slot_id = uuid_str 2,
     pc_durable_operation_id = uuid_str 3, pc_operation_attempt = 1, pc_call_index = 0,
     pc_route_decision_sha256 = sample_hash, pc_endpoint_capability_version_id = uuid_str 4, pc_provider = ''p'',
     pc_model = ''m'', pc_request_sha256 = sample_hash, pc_idempotency_key_sha256 = sample_hash,
     pc_outcome = UNKNOWN_AFTER_POSSIBLE_DISPATCH, pc_possible_dispatch = True, pc_provider_request_id_sha256 = None,
     pc_latency_ms = 5, pc_observed_at = utc 0\<rparr>"

definition sample_usage :: usage_record where
  "sample_usage = \<lparr>ur_id = uuid_str 1, ur_workspace_id = ''w'', ur_provider_call_id = uuid_str 2,
     ur_provider_call_identity_sha256 = sample_hash, ur_durable_operation_id = uuid_str 3, ur_operation_attempt = 1,
     ur_provider = ''p'', ur_model = ''m'', ur_endpoint_capability_version_id = uuid_str 4, ur_pricing_unit = PU_IMAGE,
     ur_estimated_quantity = 3, ur_provider_reported_quantity = Some 3, ur_configured_unit_price = 2,
     ur_estimated_amount = 6, ur_actual_amount = Some 6, ur_currency = ''USD'', ur_unit_price_version = ''v'',
     ur_provider_usage_evidence_sha256 = Some sample_hash, ur_pricing_evidence_sha256 = sample_hash,
     ur_final_cost_evidence_sha256 = Some sample_hash, ur_resolution_status = FINALIZED,
     ur_evidence_source = DIRECT_RESPONSE, ur_latency_ms = 5, ur_recorded_at = utc 0\<rparr>"

lemma sample_hash_ok: "is_sha256 sample_hash"
  by (simp add: sample_hash_def is_sha256_def list_all_iff class_defs code_def)

lemma six_places_whole: "six_places (of_int n)"
  using six_placesI [of "n * 1000000"] by simp

theorem provider_call_evidence_witness: "must_reconcile sample_provider_call \<and> \<not> resubmission_safe sample_provider_call"
proof -
  have c: "pc_check sample_provider_call = None"
    by (simp add: pc_check_def sample_provider_call_def sample_hash_ok validator_defs validate_latency_def
        pc_outcome_check_def class_defs code_def)
  have "must_reconcile sample_provider_call" by (simp add: must_reconcile_def sample_provider_call_def)
  then show ?thesis using provider_call_evidence [OF c refl, of "\<lambda>s. s"] by blast
qed

theorem usage_amounts_sound_witness: "budget_releasable sample_usage \<and> is_money 6"
proof -
  have q: "quantize6 6 = 6" using six_places_whole [of 6] by (simp add: six_places_def)
  have s: "six_places 6" "six_places 3" "six_places 2"
    using six_places_whole [of 6] six_places_whole [of 3] six_places_whole [of 2] by simp_all
  have "ur_amount_check sample_usage = None"
    by (simp add: ur_amount_check_def sample_usage_def expected_estimate_def q s validate_decimal_def max_money_def)
  then have "ur_check sample_usage = None"
    by (simp add: ur_check_def ur_resolution_check_def)
      (simp add: sample_usage_def sample_hash_ok validate_latency_def
        validator_defs is_currency_def class_defs code_def)
  from usage_amounts_sound [OF this] show ?thesis by (simp add: sample_usage_def)
qed

end
