(* ===== verification/Catalog.thy ===== *)
theory Catalog
  imports Json_Text "HOL-Library.Product_Lexorder"
begin

text \<open>
  The product catalogue, from the aggregates (\<open>catalog/entities.py\<close>) over the tables they are kept in
  (\<open>persistence/catalog.py\<close>, with the idempotency and audit rows of \<open>persistence/repositories.py\<close>) to the
  commands of \<open>application/catalog.py\<close>. A table is the list of its rows; a unit of work runs on the tables and
  leaves them as they were unless it commits. Commands run one after the other, which is what the row locks
  and the conditions on versions in the statements enforce. The request and response models are pydantic's;
  their conversions from and to JSON are arguments, and so is SHA-256. Cursor texts are not modelled: a cursor is
  the pair it stands for.
\<close>

section \<open>Aggregates\<close>

record product =
  pd_id :: string
  pd_workspace_id :: string
  pd_source_namespace :: string
  pd_external_id :: string
  pd_source_version :: "string option"
  pd_title :: string
  pd_category_code :: string
  pd_brand :: string
  pd_attributes :: json
  pd_expires_at :: "datetime option"
  pd_version :: int
  pd_created_at :: datetime
  pd_updated_at :: datetime

text \<open>A SKU has the same fields and the product it belongs to.\<close>

record sku = product +
  sk_product_id :: string

record catalog_create_request =
  cr_source_namespace :: string
  cr_external_id :: string
  cr_source_version :: "string option"
  cr_title :: string
  cr_category_code :: string
  cr_brand :: string
  cr_attributes :: json
  cr_expires_at :: "datetime option"

record catalog_update_request =
  cu_expected_version :: int
  cu_source_version :: "string option"
  cu_title :: string
  cu_category_code :: string
  cu_brand :: string
  cu_attributes :: json
  cu_expires_at :: "datetime option"

definition validate_expiry :: "datetime option \<Rightarrow> error option" where
  "validate_expiry expires_at = guard (\<exists>d \<in> set_option expires_at. offset d = None) ValueError"

definition product_create :: "string \<Rightarrow> string \<Rightarrow> catalog_create_request \<Rightarrow> datetime \<Rightarrow> error + product" where
  "product_create new_id workspace_id r now =
     ensure (validate_expiry (cr_expires_at r)) (ensure (validate_workspace_id workspace_id)
       (Inr \<lparr>pd_id = new_id, pd_workspace_id = workspace_id, pd_source_namespace = cr_source_namespace r,
          pd_external_id = cr_external_id r, pd_source_version = cr_source_version r, pd_title = cr_title r,
          pd_category_code = cr_category_code r, pd_brand = cr_brand r, pd_attributes = cr_attributes r,
          pd_expires_at = cr_expires_at r, pd_version = 1, pd_created_at = now, pd_updated_at = now\<rparr>))"

definition sku_create ::
  "string \<Rightarrow> string \<Rightarrow> string \<Rightarrow> catalog_create_request \<Rightarrow> datetime \<Rightarrow> error + sku" where
  "sku_create new_id workspace_id product_id r now =
     ensure (validate_expiry (cr_expires_at r)) (ensure (validate_workspace_id workspace_id)
       (Inr \<lparr>pd_id = new_id, pd_workspace_id = workspace_id, pd_source_namespace = cr_source_namespace r,
          pd_external_id = cr_external_id r, pd_source_version = cr_source_version r, pd_title = cr_title r,
          pd_category_code = cr_category_code r, pd_brand = cr_brand r, pd_attributes = cr_attributes r,
          pd_expires_at = cr_expires_at r, pd_version = 1, pd_created_at = now, pd_updated_at = now,
          sk_product_id = product_id\<rparr>))"

definition assert_catalog_version :: "int \<Rightarrow> 'a product_scheme \<Rightarrow> error option" where
  "assert_catalog_version expected_version p = guard (pd_version p \<noteq> expected_version) ConcurrencyError"

definition catalog_update ::
  "catalog_update_request \<Rightarrow> datetime \<Rightarrow> 'a product_scheme \<Rightarrow> (unit, 'a product_scheme) outcome" where
  "catalog_update r now p =
     check (assert_catalog_version (cu_expected_version r) p) p (check (validate_expiry (cu_expires_at r)) p
       (Done () (p\<lparr>pd_source_version := cu_source_version r, pd_title := cu_title r,
          pd_category_code := cu_category_code r, pd_brand := cu_brand r, pd_attributes := cu_attributes r,
          pd_expires_at := cu_expires_at r, pd_version := pd_version p + 1, pd_updated_at := now\<rparr>)))"

definition product_update :: "catalog_update_request \<Rightarrow> datetime \<Rightarrow> product \<Rightarrow> (unit, product) outcome" where
  "product_update r now p = catalog_update r now p"

definition sku_update :: "catalog_update_request \<Rightarrow> datetime \<Rightarrow> sku \<Rightarrow> (unit, sku) outcome" where
  "sku_update r now k = catalog_update r now k"

section \<open>Tables\<close>

record external_identity =
  ci_workspace_id :: string
  ci_source_namespace :: string
  ci_external_id :: string
  ci_owner_type :: string
  ci_owner_id :: string
  ci_created_at :: datetime

datatype idempotency_status = IK_PENDING | IK_COMPLETED

record idempotency_row =
  ik_scope :: string
  ik_key_hash :: string
  ik_request_hash :: string
  ik_resource_type :: string
  ik_resource_id :: string
  ik_response :: "json option"
  ik_status :: idempotency_status
  ik_expires_at :: datetime

record audit_row =
  au_workspace_id :: string
  au_actor_type :: string
  au_actor_id :: string
  au_action :: string
  au_resource_type :: string
  au_resource_id :: string
  au_trace_id :: string
  au_metadata :: json
  au_created_at :: datetime
  au_expires_at :: datetime

record catalog_store =
  ct_products :: "product list"
  ct_skus :: "sku list"
  ct_identities :: "external_identity list"
  ct_idempotency :: "idempotency_row list"
  ct_audit :: "audit_row list"

text \<open>\<open>UTCDateTime\<close> columns keep the instant and give it back in UTC.\<close>

definition stored_time :: "datetime \<Rightarrow> datetime" where
  "stored_time d = utc (instant d)"

definition stored_item :: "'a product_scheme \<Rightarrow> 'a product_scheme" where
  "stored_item p = p\<lparr>pd_expires_at := map_option stored_time (pd_expires_at p),
     pd_created_at := stored_time (pd_created_at p), pd_updated_at := stored_time (pd_updated_at p)\<rparr>"

definition external_key :: "'a product_scheme \<Rightarrow> string \<times> string \<times> string" where
  "external_key p = (pd_workspace_id p, pd_source_namespace p, pd_external_id p)"

subsection \<open>Products\<close>

text \<open>The primary key, and \<open>uq_products_external_identity\<close>, which \<open>commit\<close> translates.\<close>

definition products_add :: "product \<Rightarrow> catalog_store \<Rightarrow> error + catalog_store" where
  "products_add p s = ensure (guards
       [guard (pd_id p \<in> pd_id ` set (ct_products s)) UniqueConstraintError,
        guard (external_key p \<in> external_key ` set (ct_products s)) DuplicateExternalIdentifierError])
     (Inr (s\<lparr>ct_products := ct_products s @ [stored_item p]\<rparr>))"

definition is_product :: "string \<Rightarrow> string \<Rightarrow> 'a product_scheme \<Rightarrow> bool" where
  "is_product workspace_id product_id p \<longleftrightarrow> pd_workspace_id p = workspace_id \<and> pd_id p = product_id"

definition products_get :: "string \<Rightarrow> string \<Rightarrow> catalog_store \<Rightarrow> product option" where
  "products_get workspace_id product_id s = find (is_product workspace_id product_id) (ct_products s)"

text \<open>The columns an \<open>UPDATE\<close> writes, in every row that its condition selects; it must select exactly one.\<close>

definition written_item :: "'a product_scheme \<Rightarrow> 'a product_scheme \<Rightarrow> 'a product_scheme" where
  "written_item p row = row\<lparr>pd_source_version := pd_source_version p, pd_title := pd_title p,
     pd_category_code := pd_category_code p, pd_brand := pd_brand p, pd_attributes := pd_attributes p,
     pd_expires_at := map_option stored_time (pd_expires_at p), pd_version := pd_version p,
     pd_updated_at := stored_time (pd_updated_at p)\<rparr>"

definition products_save :: "int \<Rightarrow> product \<Rightarrow> catalog_store \<Rightarrow> error + catalog_store" where
  "products_save loaded_version p s =
     (let hit = (\<lambda>row. is_product (pd_workspace_id p) (pd_id p) row \<and> pd_version row = loaded_version)
      in ensure (guard (length (filter hit (ct_products s)) \<noteq> 1) ConcurrencyError)
        (Inr (s\<lparr>ct_products := map (\<lambda>row. if hit row then written_item p row else row) (ct_products s)\<rparr>)))"

text \<open>The foreign key of \<open>skus\<close> restricts the deletion of a product.\<close>

definition products_delete :: "string \<Rightarrow> string \<Rightarrow> int \<Rightarrow> catalog_store \<Rightarrow> error + catalog_store" where
  "products_delete workspace_id product_id expected_version s =
     (let hit = (\<lambda>row. is_product workspace_id product_id row \<and> pd_version row = expected_version)
      in ensure (guards
          [guard (\<exists>p \<in> set (ct_products s). hit p \<and>
             (\<exists>k \<in> set (ct_skus s). pd_workspace_id k = workspace_id \<and> sk_product_id k = product_id)) ReferenceConstraintError,
           guard (length (filter hit (ct_products s)) \<noteq> 1) ConcurrencyError])
        (Inr (s\<lparr>ct_products := filter (\<lambda>row. \<not> hit row) (ct_products s)\<rparr>)))"

text \<open>Newest first; a cursor is the time and identifier of the last product of the page before.\<close>

definition product_key :: "product \<Rightarrow> int \<times> string" where
  "product_key p = (instant (pd_created_at p), pd_id p)"

definition products_list ::
  "string \<Rightarrow> nat \<Rightarrow> (datetime \<times> string) option \<Rightarrow> catalog_store \<Rightarrow> product list" where
  "products_list workspace_id limit cursor s =
     take limit (rev (sort_key product_key (filter (\<lambda>p. pd_workspace_id p = workspace_id \<and>
       (case cursor of None \<Rightarrow> True | Some (created_at, product_id) \<Rightarrow>
          dt_less (pd_created_at p) created_at \<or> instant (pd_created_at p) = instant created_at \<and> pd_id p < product_id))
       (ct_products s))))"

subsection \<open>SKUs\<close>

definition skus_add :: "sku \<Rightarrow> catalog_store \<Rightarrow> error + catalog_store" where
  "skus_add k s = ensure (guards
       [guard (pd_id k \<in> pd_id ` set (ct_skus s)) UniqueConstraintError,
        guard (external_key k \<in> external_key ` set (ct_skus s)) DuplicateExternalIdentifierError,
        guard (\<not> (\<exists>p \<in> set (ct_products s). is_product (pd_workspace_id k) (sk_product_id k) p)) ReferenceConstraintError])
     (Inr (s\<lparr>ct_skus := ct_skus s @ [stored_item k]\<rparr>))"

definition is_sku :: "string \<Rightarrow> string \<Rightarrow> string \<Rightarrow> sku \<Rightarrow> bool" where
  "is_sku workspace_id product_id sku_id k \<longleftrightarrow>
     pd_workspace_id k = workspace_id \<and> sk_product_id k = product_id \<and> pd_id k = sku_id"

definition skus_get :: "string \<Rightarrow> string \<Rightarrow> string \<Rightarrow> catalog_store \<Rightarrow> sku option" where
  "skus_get workspace_id product_id sku_id s = find (is_sku workspace_id product_id sku_id) (ct_skus s)"

definition sku_key :: "sku \<Rightarrow> int \<times> string" where
  "sku_key k = (instant (pd_created_at k), pd_id k)"

definition skus_of_product :: "string \<Rightarrow> string \<Rightarrow> catalog_store \<Rightarrow> sku list" where
  "skus_of_product workspace_id product_id s =
     take 100 (sort_key sku_key
       (filter (\<lambda>k. pd_workspace_id k = workspace_id \<and> sk_product_id k = product_id) (ct_skus s)))"

definition skus_save :: "int \<Rightarrow> sku \<Rightarrow> catalog_store \<Rightarrow> error + catalog_store" where
  "skus_save loaded_version k s =
     (let hit = (\<lambda>row. is_sku (pd_workspace_id k) (sk_product_id k) (pd_id k) row \<and> pd_version row = loaded_version)
      in ensure (guard (length (filter hit (ct_skus s)) \<noteq> 1) ConcurrencyError)
        (Inr (s\<lparr>ct_skus := map (\<lambda>row. if hit row then written_item k row else row) (ct_skus s)\<rparr>)))"

definition skus_delete :: "string \<Rightarrow> string \<Rightarrow> string \<Rightarrow> int \<Rightarrow> catalog_store \<Rightarrow> error + catalog_store" where
  "skus_delete workspace_id product_id sku_id expected_version s =
     (let hit = (\<lambda>row. is_sku workspace_id product_id sku_id row \<and> pd_version row = expected_version)
      in ensure (guard (length (filter hit (ct_skus s)) \<noteq> 1) ConcurrencyError)
        (Inr (s\<lparr>ct_skus := filter (\<lambda>row. \<not> hit row) (ct_skus s)\<rparr>)))"

subsection \<open>External identities\<close>

definition identity_key :: "external_identity \<Rightarrow> string \<times> string \<times> string" where
  "identity_key i = (ci_workspace_id i, ci_source_namespace i, ci_external_id i)"

text \<open>The unique key compares namespaces and identifiers exactly; a collation that folds case is not modelled.\<close>

definition identities_reserve :: "external_identity \<Rightarrow> catalog_store \<Rightarrow> error + catalog_store" where
  "identities_reserve i s =
     ensure (guard (\<exists>j \<in> set (ct_identities s). identity_key j = identity_key i) DuplicateExternalIdentifierError)
       (Inr (s\<lparr>ct_identities := ct_identities s @ [i\<lparr>ci_created_at := stored_time (ci_created_at i)\<rparr>]\<rparr>))"

definition identities_release ::
  "string \<times> string \<times> string \<Rightarrow> string \<Rightarrow> string \<Rightarrow> catalog_store \<Rightarrow> error + catalog_store" where
  "identities_release key owner_type owner_id s =
     (let hit = (\<lambda>i. identity_key i = key \<and> ci_owner_type i = owner_type \<and> ci_owner_id i = owner_id)
      in ensure (guard (length (filter hit (ct_identities s)) \<noteq> 1) ConcurrencyError)
        (Inr (s\<lparr>ct_identities := filter (\<lambda>i. \<not> hit i) (ct_identities s)\<rparr>)))"

subsection \<open>Idempotency and audit\<close>

definition is_claim :: "string \<Rightarrow> string \<Rightarrow> idempotency_row \<Rightarrow> bool" where
  "is_claim scope key_hash r \<longleftrightarrow> ik_scope r = scope \<and> ik_key_hash r = key_hash"

definition idempotency_claim ::
  "string \<Rightarrow> string \<Rightarrow> string \<Rightarrow> datetime \<Rightarrow> catalog_store \<Rightarrow> idempotency_row \<times> catalog_store" where
  "idempotency_claim scope key_hash request_hash expires_at s =
     (case find (is_claim scope key_hash) (ct_idempotency s) of
        Some r \<Rightarrow> (r, s)
      | None \<Rightarrow>
          (let r = \<lparr>ik_scope = scope, ik_key_hash = key_hash, ik_request_hash = request_hash,
                 ik_resource_type = ''PENDING'', ik_resource_id = '''', ik_response = None, ik_status = IK_PENDING,
                 ik_expires_at = stored_time expires_at\<rparr>
           in (r, s\<lparr>ct_idempotency := ct_idempotency s @ [r]\<rparr>)))"

definition idempotency_complete ::
  "string \<Rightarrow> string \<Rightarrow> string \<Rightarrow> string \<Rightarrow> string \<Rightarrow> json \<Rightarrow> catalog_store \<Rightarrow> error + catalog_store" where
  "idempotency_complete scope key_hash request_hash resource_type resource_id response s =
     (let hit = (\<lambda>r. is_claim scope key_hash r \<and> ik_request_hash r = request_hash)
      in ensure (guard (length (filter hit (ct_idempotency s)) \<noteq> 1) ConcurrencyError)
        (Inr (s\<lparr>ct_idempotency := map (\<lambda>r. if hit r
           then r\<lparr>ik_resource_type := resource_type, ik_resource_id := resource_id, ik_response := Some response,
                  ik_status := IK_COMPLETED\<rparr>
           else r) (ct_idempotency s)\<rparr>)))"

definition audit_add :: "audit_row \<Rightarrow> catalog_store \<Rightarrow> catalog_store" where
  "audit_add a s = s\<lparr>ct_audit := ct_audit s @ [a\<lparr>au_created_at := stored_time (au_created_at a),
     au_expires_at := stored_time (au_expires_at a)\<rparr>]\<rparr>"

end
