(* ===== verification/Catalog_Service.thy ===== *)
theory Catalog_Service
  imports Catalog
begin

text \<open>
  The commands and queries of the catalogue (\<open>application/catalog.py\<close>). Each command runs in one unit of
  work: it claims its idempotency key, does its work, records its response under the key and writes one
  audit row; a repeated key gives the recorded response back.
\<close>

section \<open>Context\<close>

type_synonym product_response = "product \<times> sku list"

text \<open>SHA-256 and the conversions of the pydantic models.\<close>

record catalog_contracts =
  co_sha256 :: "string \<Rightarrow> string"
  co_create_json :: "catalog_create_request \<Rightarrow> json"
  co_update_json :: "catalog_update_request \<Rightarrow> json"
  co_delete_json :: "int \<Rightarrow> json"
  co_product_json :: "product_response \<Rightarrow> json"
  co_product_read :: "json \<Rightarrow> error + product_response"
  co_sku_json :: "sku \<Rightarrow> json"
  co_sku_read :: "json \<Rightarrow> error + sku"

record catalog_caller =
  cl_workspace_id :: string
  cl_actor_id :: string
  cl_idempotency_key :: string
  cl_trace_id :: string

definition catalog_hash :: "catalog_contracts \<Rightarrow> json \<Rightarrow> string" where
  "catalog_hash co v = co_sha256 co (json_dumps True v)"

definition key_hash :: "catalog_contracts \<Rightarrow> string \<Rightarrow> string" where
  "key_hash co key = co_sha256 co key"

definition catalog_scope :: "catalog_contracts \<Rightarrow> string \<Rightarrow> string \<Rightarrow> string option \<Rightarrow> string" where
  "catalog_scope co operation workspace_id resource_id =
     ''catalog:'' @ operation @ '':'' @ take 16 (co_sha256 co workspace_id) @
       (case resource_id of None \<Rightarrow> [] | Some r \<Rightarrow> if r = [] then [] else '':'' @ r)"

section \<open>The unit of work\<close>

definition claim_idempotency ::
  "string \<Rightarrow> string \<Rightarrow> string \<Rightarrow> datetime \<Rightarrow> catalog_store \<Rightarrow> error + (idempotency_row option \<times> catalog_store)" where
  "claim_idempotency scope key request_hash now s =
     (let (r, t) = idempotency_claim scope key request_hash (dt_add now (hours (30 * 24))) s
      in ensure (guard (ik_request_hash r \<noteq> request_hash) IdempotencyConflictError)
        (Inr (if ik_status r = IK_COMPLETED then Some r else None, t)))"

text \<open>
  The frame of every command: a completed claim is replayed and nothing is committed; otherwise the work is
  committed as a whole, and an exception rolls everything back, the claim included.
\<close>

definition idempotent_command ::
  "string \<Rightarrow> string \<Rightarrow> string \<Rightarrow> datetime \<Rightarrow> (idempotency_row \<Rightarrow> error + 'r) \<Rightarrow>
     (catalog_store \<Rightarrow> error + ('r \<times> catalog_store)) \<Rightarrow> catalog_store \<Rightarrow> ('r, catalog_store) outcome" where
  "idempotent_command scope key request_hash now replay perform s =
     (case claim_idempotency scope key request_hash now s of
        Inl e \<Rightarrow> Raise e s
      | Inr (Some r, t) \<Rightarrow> (case replay r of Inl e \<Rightarrow> Raise e s | Inr response \<Rightarrow> Done response s)
      | Inr (None, t) \<Rightarrow> (case perform t of Inl e \<Rightarrow> Raise e s | Inr (response, u) \<Rightarrow> Done response u))"

definition product_replay :: "catalog_contracts \<Rightarrow> idempotency_row \<Rightarrow> error + product_response" where
  "product_replay co r =
     (case ik_response r of
        Some (JObj kvs) \<Rightarrow> ensure (guard (ik_resource_type r \<noteq> ''product'') ConcurrencyError) (co_product_read co (JObj kvs))
      | _ \<Rightarrow> Inl ConcurrencyError)"

definition sku_replay :: "catalog_contracts \<Rightarrow> idempotency_row \<Rightarrow> error + sku" where
  "sku_replay co r =
     (case ik_response r of
        Some (JObj kvs) \<Rightarrow> ensure (guard (ik_resource_type r \<noteq> ''sku'') ConcurrencyError) (co_sku_read co (JObj kvs))
      | _ \<Rightarrow> Inl ConcurrencyError)"

definition found :: "'a option \<Rightarrow> error + 'a" where
  "found x = (case x of None \<Rightarrow> Inl NotFoundError | Some y \<Rightarrow> Inr y)"

text \<open>The object after a method of an aggregate, or its exception.\<close>

fun settled :: "(unit, 's) outcome \<Rightarrow> error + 's" where
  "settled (Done r s) = Inr s"
| "settled (Raise e s) = Inl e"

definition no_content :: json where
  "no_content = JObj [(''status_code'', JInt 204)]"

definition catalog_audit ::
  "catalog_caller \<Rightarrow> string \<Rightarrow> string \<Rightarrow> string \<Rightarrow> (string \<times> json) list \<Rightarrow> datetime \<Rightarrow> audit_row" where
  "catalog_audit c action resource_type resource_id metadata now =
     \<lparr>au_workspace_id = cl_workspace_id c, au_actor_type = ''USER'', au_actor_id = cl_actor_id c, au_action = action,
      au_resource_type = resource_type, au_resource_id = resource_id, au_trace_id = cl_trace_id c,
      au_metadata = JObj metadata, au_created_at = now, au_expires_at = dt_add now (hours (180 * 24))\<rparr>"

text \<open>The last two steps before the commit.\<close>

definition record_response ::
  "string \<Rightarrow> string \<Rightarrow> string \<Rightarrow> json \<Rightarrow> audit_row \<Rightarrow> 'r \<Rightarrow> catalog_store \<Rightarrow> error + ('r \<times> catalog_store)" where
  "record_response scope key request_hash data a response s =
     attempt (idempotency_complete scope key request_hash (au_resource_type a) (au_resource_id a) data s)
       (\<lambda>t. Inr (response, audit_add a t))"

section \<open>Commands on products\<close>

definition create_product ::
  "catalog_contracts \<Rightarrow> catalog_create_request \<Rightarrow> catalog_caller \<Rightarrow> string \<Rightarrow> datetime \<Rightarrow> catalog_store \<Rightarrow>
     (product_response, catalog_store) outcome" where
  "create_product co r c new_id now s =
     check (validate_workspace_id (cl_workspace_id c)) s
       (let scope = catalog_scope co ''product-create'' (cl_workspace_id c) None;
            key = key_hash co (cl_idempotency_key c);
            request_hash = catalog_hash co (co_create_json co r)
        in idempotent_command scope key request_hash now (product_replay co) (\<lambda>t.
          attempt (product_create new_id (cl_workspace_id c) r now) (\<lambda>p.
          attempt (identities_reserve \<lparr>ci_workspace_id = cl_workspace_id c, ci_source_namespace = pd_source_namespace p,
            ci_external_id = pd_external_id p, ci_owner_type = ''PRODUCT'', ci_owner_id = pd_id p, ci_created_at = now\<rparr> t) (\<lambda>t.
          attempt (products_add p t) (\<lambda>t.
          record_response scope key request_hash (co_product_json co (p, []))
            (catalog_audit c ''catalog.product.created'' ''product'' (pd_id p)
              [(''source_namespace'', JStr (pd_source_namespace p)), (''external_id'', JStr (pd_external_id p))] now)
            (p, []) t)))) s)"

definition update_product ::
  "catalog_contracts \<Rightarrow> string \<Rightarrow> catalog_update_request \<Rightarrow> catalog_caller \<Rightarrow> datetime \<Rightarrow> catalog_store \<Rightarrow>
     (product_response, catalog_store) outcome" where
  "update_product co product_id r c now s =
     (let scope = catalog_scope co ''product-update'' (cl_workspace_id c) (Some product_id);
          key = key_hash co (cl_idempotency_key c);
          request_hash = catalog_hash co (co_update_json co r)
      in idempotent_command scope key request_hash now (product_replay co) (\<lambda>t.
        attempt (found (products_get (cl_workspace_id c) product_id t)) (\<lambda>loaded.
        attempt (settled (product_update r now loaded)) (\<lambda>p.
        attempt (products_save (pd_version loaded) p t) (\<lambda>t.
        let response = (p, skus_of_product (cl_workspace_id c) (pd_id p) t)
        in record_response scope key request_hash (co_product_json co response)
            (catalog_audit c ''catalog.product.updated'' ''product'' (pd_id p) [(''version'', JInt (pd_version p))] now)
            response t)))) s)"

definition delete_product ::
  "catalog_contracts \<Rightarrow> string \<Rightarrow> int \<Rightarrow> catalog_caller \<Rightarrow> datetime \<Rightarrow> catalog_store \<Rightarrow>
     (unit, catalog_store) outcome" where
  "delete_product co product_id expected_version c now s =
     (let scope = catalog_scope co ''product-delete'' (cl_workspace_id c) (Some product_id);
          key = key_hash co (cl_idempotency_key c);
          request_hash = catalog_hash co (co_delete_json co expected_version)
      in idempotent_command scope key request_hash now (\<lambda>r. Inr ()) (\<lambda>t.
        attempt (found (products_get (cl_workspace_id c) product_id t)) (\<lambda>p.
        ensure (assert_catalog_version expected_version p)
        (ensure (guard (skus_of_product (cl_workspace_id c) product_id t \<noteq> []) ConcurrencyError)
        (attempt (products_delete (cl_workspace_id c) product_id expected_version t) (\<lambda>t.
        attempt (identities_release (cl_workspace_id c, pd_source_namespace p, pd_external_id p) ''PRODUCT'' (pd_id p) t) (\<lambda>t.
        record_response scope key request_hash no_content
          (catalog_audit c ''catalog.product.deleted'' ''product'' product_id
            [(''expected_version'', JInt expected_version)] now) () t)))))) s)"

section \<open>Commands on SKUs\<close>

definition create_sku ::
  "catalog_contracts \<Rightarrow> string \<Rightarrow> catalog_create_request \<Rightarrow> catalog_caller \<Rightarrow> string \<Rightarrow> datetime \<Rightarrow> catalog_store \<Rightarrow>
     (sku, catalog_store) outcome" where
  "create_sku co product_id r c new_id now s =
     (let scope = catalog_scope co ''sku-create'' (cl_workspace_id c) (Some product_id);
          key = key_hash co (cl_idempotency_key c);
          request_hash = catalog_hash co (co_create_json co r)
      in idempotent_command scope key request_hash now (sku_replay co) (\<lambda>t.
        attempt (found (products_get (cl_workspace_id c) product_id t)) (\<lambda>p.
        attempt (sku_create new_id (cl_workspace_id c) product_id r now) (\<lambda>k.
        attempt (identities_reserve \<lparr>ci_workspace_id = cl_workspace_id c, ci_source_namespace = pd_source_namespace k,
          ci_external_id = pd_external_id k, ci_owner_type = ''SKU'', ci_owner_id = pd_id k, ci_created_at = now\<rparr> t) (\<lambda>t.
        attempt (skus_add k t) (\<lambda>t.
        record_response scope key request_hash (co_sku_json co k)
          (catalog_audit c ''catalog.sku.created'' ''sku'' (pd_id k) [(''product_id'', JStr (pd_id p))] now) k t))))) s)"

definition update_sku ::
  "catalog_contracts \<Rightarrow> string \<Rightarrow> string \<Rightarrow> catalog_update_request \<Rightarrow> catalog_caller \<Rightarrow> datetime \<Rightarrow> catalog_store \<Rightarrow>
     (sku, catalog_store) outcome" where
  "update_sku co product_id sku_id r c now s =
     (let scope = catalog_scope co ''sku-update'' (cl_workspace_id c) (Some sku_id);
          key = key_hash co (cl_idempotency_key c);
          request_hash = catalog_hash co (co_update_json co r)
      in idempotent_command scope key request_hash now (sku_replay co) (\<lambda>t.
        attempt (found (products_get (cl_workspace_id c) product_id t)) (\<lambda>p.
        attempt (found (skus_get (cl_workspace_id c) product_id sku_id t)) (\<lambda>loaded.
        attempt (settled (sku_update r now loaded)) (\<lambda>k.
        attempt (skus_save (pd_version loaded) k t) (\<lambda>t.
        record_response scope key request_hash (co_sku_json co k)
          (catalog_audit c ''catalog.sku.updated'' ''sku'' (pd_id k)
            [(''product_id'', JStr (pd_id p)), (''version'', JInt (pd_version k))] now) k t))))) s)"

definition delete_sku ::
  "catalog_contracts \<Rightarrow> string \<Rightarrow> string \<Rightarrow> int \<Rightarrow> catalog_caller \<Rightarrow> datetime \<Rightarrow> catalog_store \<Rightarrow>
     (unit, catalog_store) outcome" where
  "delete_sku co product_id sku_id expected_version c now s =
     (let scope = catalog_scope co ''sku-delete'' (cl_workspace_id c) (Some sku_id);
          key = key_hash co (cl_idempotency_key c);
          request_hash = catalog_hash co (co_delete_json co expected_version)
      in idempotent_command scope key request_hash now (\<lambda>r. Inr ()) (\<lambda>t.
        attempt (found (products_get (cl_workspace_id c) product_id t)) (\<lambda>p.
        attempt (found (skus_get (cl_workspace_id c) product_id sku_id t)) (\<lambda>k.
        ensure (assert_catalog_version expected_version k)
        (attempt (skus_delete (cl_workspace_id c) product_id sku_id expected_version t) (\<lambda>t.
        attempt (identities_release (cl_workspace_id c, pd_source_namespace k, pd_external_id k) ''SKU'' (pd_id k) t) (\<lambda>t.
        record_response scope key request_hash no_content
          (catalog_audit c ''catalog.sku.deleted'' ''sku'' sku_id
            [(''product_id'', JStr product_id), (''expected_version'', JInt expected_version)] now) () t)))))) s)"

section \<open>Queries\<close>

definition get_product :: "string \<Rightarrow> string \<Rightarrow> catalog_store \<Rightarrow> error + product_response" where
  "get_product workspace_id product_id s =
     attempt (found (products_get workspace_id product_id s)) (\<lambda>p.
       Inr (p, skus_of_product workspace_id product_id s))"

definition list_products ::
  "string \<Rightarrow> int \<Rightarrow> (datetime \<times> string) option \<Rightarrow> catalog_store \<Rightarrow> product list \<times> (datetime \<times> string) option" where
  "list_products workspace_id limit cursor s =
     (let bounded_limit = nat (min (max limit 1) 100);
          products = products_list workspace_id (bounded_limit + 1) cursor s;
          page = take bounded_limit products
      in (page, if bounded_limit < length products \<and> page \<noteq> []
           then Some (pd_created_at (last page), pd_id (last page)) else None))"

end
