(* ===== verification/Replays.thy ===== *)
theory Replays
  imports Prelude
begin

text \<open>
  The contract of commands that are recorded under a key: a command that succeeds leaves its answer under its
  key, a recorded answer is given back to a repeated request and refused to a different one, and no command
  touches an answer once it is recorded. Its consequence: a client may repeat a command at any later time.
\<close>

locale replayed_commands =
  fixes step :: "'c \<Rightarrow> 's \<Rightarrow> ('r, 's) outcome"
    and recorded :: "'s \<Rightarrow> 'k \<Rightarrow> (string \<times> 'd) option"
    and key :: "'c \<Rightarrow> 'k"
    and request :: "'c \<Rightarrow> string"
    and written :: "'c \<Rightarrow> 'r \<Rightarrow> 'd"
    and reads :: "'c \<Rightarrow> 'd \<Rightarrow> error + 'r"
    and admissible :: "'c \<Rightarrow> bool"
  assumes records: "step c s = Done r t \<Longrightarrow>
      \<exists>d. recorded t (key c) = Some (request c, d) \<and> (d = written c r \<or> reads c d = Inr r)"
    and replays: "admissible c \<Longrightarrow> recorded s (key c) = Some (q, d) \<Longrightarrow>
      step c s = (if q \<noteq> request c then Raise IdempotencyConflictError s
        else case reads c d of Inl e \<Rightarrow> Raise e s | Inr r \<Rightarrow> Done r s)"
    and keeps: "recorded s k = Some a \<Longrightarrow> recorded (object_after (step c s)) k = Some a"
begin

definition run :: "'c list \<Rightarrow> 's \<Rightarrow> 's" where
  "run cs s = foldl (\<lambda>s c. object_after (step c s)) s cs"

lemma run_keeps: "recorded s k = Some a \<Longrightarrow> recorded (run cs s) k = Some a"
  unfolding run_def by (induction cs arbitrary: s) (simp_all add: keeps)

text \<open>A repetition may differ in what the request does not say, for instance in the time of the call.\<close>

lemma repeated:
  assumes "step c s = Done r t" "admissible c'" "key c' = key c" "request c' = request c" "reads c' = reads c"
    and "reads c (written c r) = Inr r"
  shows "step c' (run cs t) = Done r (run cs t)"
proof -
  obtain d where d: "recorded t (key c) = Some (request c, d)" "reads c d = Inr r"
    using records [OF assms(1)] assms(6) by auto
  show ?thesis using replays [OF assms(2) run_keeps [OF d(1) [folded assms(3)]]] d(2) assms(4,5) by simp
qed

lemma reused:
  assumes "step c s = Done r t" "admissible c'" "key c' = key c" "request c' \<noteq> request c"
  shows "step c' (run cs t) = Raise IdempotencyConflictError (run cs t)"
proof -
  obtain d where "recorded t (key c) = Some (request c, d)" using records [OF assms(1)] by auto
  from replays [OF assms(2) run_keeps [OF this [folded assms(3)]]] assms(4) show ?thesis by simp
qed

end

end
