(* ===== verification/Catalog_Facts.thy ===== *)
theory Catalog_Facts
  imports Catalog_Service Replays "HOL-Library.Sublist" "HOL-Library.Multiset"
begin

text \<open>
  The commands of the catalogue as one step function, and the guarantee that each of them may be repeated
  (locale \<open>replayed_commands\<close>), with a sample.
\<close>

section \<open>Commands\<close>

datatype catalog_command =
    Create_Product catalog_create_request catalog_caller string datetime
  | Update_Product string catalog_update_request catalog_caller datetime
  | Delete_Product string int catalog_caller datetime
  | Create_Sku string catalog_create_request catalog_caller string datetime
  | Update_Sku string string catalog_update_request catalog_caller datetime
  | Delete_Sku string string int catalog_caller datetime

datatype catalog_response = Product_Response product_response | Sku_Response sku | No_Content

fun tagged :: "('a \<Rightarrow> 'b) \<Rightarrow> ('a, 's) outcome \<Rightarrow> ('b, 's) outcome" where
  "tagged f (Done r s) = Done (f r) s"
| "tagged f (Raise e s) = Raise e s"

fun catalog_step ::
  "catalog_contracts \<Rightarrow> catalog_command \<Rightarrow> catalog_store \<Rightarrow> (catalog_response, catalog_store) outcome" where
  "catalog_step co (Create_Product r c i now) s = tagged Product_Response (create_product co r c i now s)"
| "catalog_step co (Update_Product p r c now) s = tagged Product_Response (update_product co p r c now s)"
| "catalog_step co (Delete_Product p v c now) s = tagged (\<lambda>_. No_Content) (delete_product co p v c now s)"
| "catalog_step co (Create_Sku p r c i now) s = tagged Sku_Response (create_sku co p r c i now s)"
| "catalog_step co (Update_Sku p k r c now) s = tagged Sku_Response (update_sku co p k r c now s)"
| "catalog_step co (Delete_Sku p k v c now) s = tagged (\<lambda>_. No_Content) (delete_sku co p k v c now s)"

fun command_caller :: "catalog_command \<Rightarrow> catalog_caller" where
  "command_caller (Create_Product r c i now) = c"
| "command_caller (Update_Product p r c now) = c"
| "command_caller (Delete_Product p v c now) = c"
| "command_caller (Create_Sku p r c i now) = c"
| "command_caller (Update_Sku p k r c now) = c"
| "command_caller (Delete_Sku p k v c now) = c"

fun command_scope :: "catalog_contracts \<Rightarrow> catalog_command \<Rightarrow> string" where
  "command_scope co (Create_Product r c i now) = catalog_scope co ''product-create'' (cl_workspace_id c) None"
| "command_scope co (Update_Product p r c now) = catalog_scope co ''product-update'' (cl_workspace_id c) (Some p)"
| "command_scope co (Delete_Product p v c now) = catalog_scope co ''product-delete'' (cl_workspace_id c) (Some p)"
| "command_scope co (Create_Sku p r c i now) = catalog_scope co ''sku-create'' (cl_workspace_id c) (Some p)"
| "command_scope co (Update_Sku p k r c now) = catalog_scope co ''sku-update'' (cl_workspace_id c) (Some k)"
| "command_scope co (Delete_Sku p k v c now) = catalog_scope co ''sku-delete'' (cl_workspace_id c) (Some k)"

definition command_key :: "catalog_contracts \<Rightarrow> catalog_command \<Rightarrow> string \<times> string" where
  "command_key co c = (command_scope co c, key_hash co (cl_idempotency_key (command_caller c)))"

fun command_request :: "catalog_contracts \<Rightarrow> catalog_command \<Rightarrow> string" where
  "command_request co (Create_Product r c i now) = catalog_hash co (co_create_json co r)"
| "command_request co (Update_Product p r c now) = catalog_hash co (co_update_json co r)"
| "command_request co (Delete_Product p v c now) = catalog_hash co (co_delete_json co v)"
| "command_request co (Create_Sku p r c i now) = catalog_hash co (co_create_json co r)"
| "command_request co (Update_Sku p k r c now) = catalog_hash co (co_update_json co r)"
| "command_request co (Delete_Sku p k v c now) = catalog_hash co (co_delete_json co v)"

text \<open>What is recorded of a response, and how it is read back.\<close>

fun response_data :: "catalog_contracts \<Rightarrow> catalog_response \<Rightarrow> json" where
  "response_data co (Product_Response r) = co_product_json co r"
| "response_data co (Sku_Response k) = co_sku_json co k"
| "response_data co No_Content = no_content"

fun command_kind :: "catalog_command \<Rightarrow> string" where
  "command_kind (Create_Product r c i now) = ''product''"
| "command_kind (Update_Product p r c now) = ''product''"
| "command_kind (Delete_Product p v c now) = ''product''"
| "command_kind (Create_Sku p r c i now) = ''sku''"
| "command_kind (Update_Sku p k r c now) = ''sku''"
| "command_kind (Delete_Sku p k v c now) = ''sku''"

definition command_written :: "catalog_contracts \<Rightarrow> catalog_command \<Rightarrow> catalog_response \<Rightarrow> string \<times> json option" where
  "command_written co c r = (command_kind c, Some (response_data co r))"

definition answer_row :: "string \<times> json option \<Rightarrow> idempotency_row" where
  "answer_row d = \<lparr>ik_scope = [], ik_key_hash = [], ik_request_hash = [], ik_resource_type = fst d,
     ik_resource_id = [], ik_response = snd d, ik_status = IK_COMPLETED, ik_expires_at = utc 0\<rparr>"

fun command_reads :: "catalog_contracts \<Rightarrow> catalog_command \<Rightarrow> string \<times> json option \<Rightarrow> error + catalog_response" where
  "command_reads co (Create_Product r c i now) d = map_sum id Product_Response (product_replay co (answer_row d))"
| "command_reads co (Update_Product p r c now) d = map_sum id Product_Response (product_replay co (answer_row d))"
| "command_reads co (Delete_Product p v c now) d = Inr No_Content"
| "command_reads co (Create_Sku p r c i now) d = map_sum id Sku_Response (sku_replay co (answer_row d))"
| "command_reads co (Update_Sku p k r c now) d = map_sum id Sku_Response (sku_replay co (answer_row d))"
| "command_reads co (Delete_Sku p k v c now) d = Inr No_Content"

definition recorded_answer :: "catalog_store \<Rightarrow> string \<times> string \<Rightarrow> (string \<times> string \<times> json option) option" where
  "recorded_answer s k =
     (case find (is_claim (fst k) (snd k)) (ct_idempotency s) of
        Some r \<Rightarrow> if ik_status r = IK_COMPLETED then Some (ik_request_hash r, ik_resource_type r, ik_response r) else None
      | None \<Rightarrow> None)"

text \<open>Only the creation of a product checks the workspace itself; the others find nothing in an invalid one.\<close>

fun accepted_caller :: "catalog_command \<Rightarrow> bool" where
  "accepted_caller (Create_Product r c i now) \<longleftrightarrow> validate_workspace_id (cl_workspace_id c) = None"
| "accepted_caller c \<longleftrightarrow> True"

section \<open>The frame\<close>

definition same_log :: "catalog_store \<Rightarrow> catalog_store \<Rightarrow> bool" where
  "same_log s t \<longleftrightarrow> ct_idempotency t = ct_idempotency s \<and> ct_audit t = ct_audit s"

lemma log_unchanged [simp]:
  "products_add p s = Inr t \<Longrightarrow> same_log v s \<Longrightarrow> same_log v t"
  "products_save n p s = Inr t \<Longrightarrow> same_log v s \<Longrightarrow> same_log v t"
  "products_delete w i n s = Inr t \<Longrightarrow> same_log v s \<Longrightarrow> same_log v t"
  "skus_add k s = Inr t \<Longrightarrow> same_log v s \<Longrightarrow> same_log v t"
  "skus_save n k s = Inr t \<Longrightarrow> same_log v s \<Longrightarrow> same_log v t"
  "skus_delete w i j n s = Inr t \<Longrightarrow> same_log v s \<Longrightarrow> same_log v t"
  "identities_reserve x s = Inr t \<Longrightarrow> same_log v s \<Longrightarrow> same_log v t"
  "identities_release y ty i s = Inr t \<Longrightarrow> same_log v s \<Longrightarrow> same_log v t"
  by (auto simp: products_add_def products_save_def products_delete_def skus_add_def skus_save_def skus_delete_def
      identities_reserve_def identities_release_def Let_def same_log_def)

lemma log_same [simp]: "same_log s s"
  by (simp add: same_log_def)

text \<open>Every command is the frame around a piece of work that ends by recording its response.\<close>

definition works ::
  "string \<Rightarrow> string \<Rightarrow> string \<Rightarrow> ('r \<Rightarrow> json) \<Rightarrow> string \<Rightarrow> (catalog_store \<Rightarrow> error + ('r \<times> catalog_store)) \<Rightarrow> bool" where
  "works sc k h data kind perform \<longleftrightarrow> (\<forall>u r t. perform u = Inr (r, t) \<longrightarrow>
     (\<exists>u'. same_log u u' \<and> (\<exists>a. au_resource_type a = kind \<and>
        record_response sc k h (data r) a r u' = Inr (r, t))))"

definition framed ::
  "catalog_contracts \<Rightarrow> catalog_command \<Rightarrow> (catalog_store \<Rightarrow> (catalog_response, catalog_store) outcome) \<Rightarrow> bool" where
  "framed co c f \<longleftrightarrow> (\<exists>now replay perform.
     f = idempotent_command (command_scope co c) (snd (command_key co c)) (command_request co c) now replay perform \<and>
     works (command_scope co c) (snd (command_key co c)) (command_request co c) (response_data co) (command_kind c) perform \<and>
     (\<forall>r. replay r = command_reads co c (ik_resource_type r, ik_response r)))"

lemma tagged_command:
  "tagged f (idempotent_command sc k h now replay perform s) =
     idempotent_command sc k h now (\<lambda>r. map_sum id f (replay r)) (\<lambda>t. map_sum id (map_prod f id) (perform t)) s"
  by (auto simp: idempotent_command_def split: sum.splits option.splits)

lemma works_tagged:
  assumes "works sc k h data kind perform" "\<And>r. data' (f r) = data r"
  shows "works sc k h data' kind (\<lambda>t. map_sum id (map_prod f id) (perform t))"
  unfolding works_def
proof (intro allI impI)
  fix u r t
  assume "map_sum id (map_prod f id) (perform u) = Inr (r, t)"
  then obtain r0 where p: "perform u = Inr (r0, t)" "r = f r0" by (cases "perform u") auto
  obtain u' a where "same_log u u'" "au_resource_type a = kind"
    "record_response sc k h (data r0) a r0 u' = Inr (r0, t)" using assms(1) p(1) unfolding works_def by blast
  then show "\<exists>u'. same_log u u' \<and> (\<exists>a. au_resource_type a = kind \<and>
      record_response sc k h (data' r) a r u' = Inr (r, t))"
    using assms(2) p(2) by (intro exI [of _ u'] conjI exI [of _ a]) (auto simp: record_response_def)
qed

lemma worksI:
  assumes "\<And>u r t. perform u = Inr (r, t) \<Longrightarrow> \<exists>u'. same_log u u' \<and> (\<exists>a. au_resource_type a = kind \<and>
    record_response sc k h (data r) a r u' = Inr (r, t))"
  shows "works sc k h data kind perform"
  using assms by (simp add: works_def)

lemma record_response_fixes: "record_response sc k h d a x u = Inr (r, t) \<Longrightarrow> x = r"
  by (auto simp: record_response_def)

lemma catalog_audit_type [simp]: "au_resource_type (catalog_audit c act kind i m now) = kind"
  by (simp add: catalog_audit_def)

lemma works_end:
  assumes "record_response sc k h (data x) a x u' = Inr (r, t)" "same_log u u'"
    and "au_resource_type a = kind"
  shows "\<exists>u'. same_log u u' \<and> (\<exists>a. au_resource_type a = kind \<and>
    record_response sc k h (data r) a r u' = Inr (r, t))"
proof -
  have "x = r" using assms(1) by (rule record_response_fixes)
  then show ?thesis using assms by blast
qed

lemma replay_row:
  "product_replay co r = product_replay co (answer_row (ik_resource_type r, ik_response r))"
  "sku_replay co r = sku_replay co (answer_row (ik_resource_type r, ik_response r))"
  by (simp_all add: product_replay_def sku_replay_def answer_row_def cong: option.case_cong json.case_cong)

lemma framedI:
  assumes "f = (\<lambda>s. tagged g (idempotent_command (command_scope co c) (snd (command_key co c)) (command_request co c) now replay perform s))"
    and "works (command_scope co c) (snd (command_key co c)) (command_request co c) (\<lambda>r. response_data co (g r)) (command_kind c) perform"
    and "\<And>r. map_sum id g (replay r) = command_reads co c (ik_resource_type r, ik_response r)"
  shows "framed co c f"
  unfolding framed_def assms(1) tagged_command
  using works_tagged [OF assms(2), of "response_data co" g] assms(3) by blast

lemmas command_defs = create_product_def update_product_def delete_product_def create_sku_def update_sku_def delete_sku_def

lemma step_framed:
  assumes "accepted_caller c"
  shows "framed co c (catalog_step co c)"
  by (insert assms, cases c; hypsubst; rule framedI, rule ext,
      simp only: catalog_step.simps command_defs Let_def command_caller.simps accepted_caller.simps check.simps
        command_scope.simps command_key_def snd_conv command_request.simps,
      rule worksI, (auto intro!: works_end simp: command_key_def) [],
      auto simp flip: replay_row)

lemma step_refused: "\<not> accepted_caller c \<Longrightarrow> \<exists>e. catalog_step co c s = Raise e s"
  by (cases c) (auto simp: create_product_def)

section \<open>Repetition\<close>

lemma find_map_same: "(\<And>x. P (f x) = P x) \<Longrightarrow> find P (map f xs) = map_option f (find P xs)"
  by (induction xs) auto

lemma find_append_some: "find P xs = Some y \<Longrightarrow> find P (xs @ ys) = Some y"
  by (induction xs) auto

lemma find_append_none: "find P xs = None \<Longrightarrow> find P (xs @ ys) = find P ys"
  by (induction xs) (auto split: if_splits)

lemma found_holds: "find P xs = Some x \<Longrightarrow> P x \<and> x \<in> set xs"
  by (induction xs) (auto split: if_splits)

lemma claim_conflict:
  "claim_idempotency sc k h now s = Inl e \<Longrightarrow>
   e = IdempotencyConflictError \<and> (\<exists>row. find (is_claim sc k) (ct_idempotency s) = Some row \<and> ik_request_hash row \<noteq> h)"
  by (cases "find (is_claim sc k) (ct_idempotency s)")
    (auto simp: claim_idempotency_def idempotency_claim_def Let_def ensure_Inl)

text \<open>Where the work starts: the claim is pending in the tables, and no other answer has changed.\<close>

lemma claim_pending:
  assumes "claim_idempotency sc k h now s = Inr (None, u)"
  shows "\<exists>row. find (is_claim sc k) (ct_idempotency u) = Some row \<and> ik_request_hash row = h"
    and "recorded_answer s x = Some a \<Longrightarrow> recorded_answer u x = Some a \<and> x \<noteq> (sc, k)"
  using assms
  by (auto simp: claim_idempotency_def idempotency_claim_def Let_def recorded_answer_def is_claim_def find_append_some
      find_append_none split: option.splits if_splits)

lemma recorded_response:
  assumes "record_response sc k h d a r u = Inr (r', t)"
  shows "find (is_claim sc k) (ct_idempotency u) = Some row \<Longrightarrow> ik_request_hash row = h \<Longrightarrow>
      recorded_answer t (sc, k) = Some (h, au_resource_type a, Some d)"
    and "x \<noteq> (sc, k) \<Longrightarrow> recorded_answer t x = recorded_answer u x"
proof -
  let ?f = "\<lambda>r. if is_claim sc k r \<and> ik_request_hash r = h
    then r\<lparr>ik_resource_type := au_resource_type a, ik_resource_id := au_resource_id a, ik_response := Some d,
           ik_status := IK_COMPLETED\<rparr> else r"
  have t: "ct_idempotency t = map ?f (ct_idempotency u)"
    using assms by (auto simp: record_response_def idempotency_complete_def audit_add_def Let_def)
  have f: "find (is_claim y z) (map ?f xs) = map_option ?f (find (is_claim y z) xs)" for y z xs
    by (rule find_map_same) (auto simp: is_claim_def)
  show "find (is_claim sc k) (ct_idempotency u) = Some row \<Longrightarrow> ik_request_hash row = h \<Longrightarrow>
      recorded_answer t (sc, k) = Some (h, au_resource_type a, Some d)"
    using found_holds [of "is_claim sc k" "ct_idempotency u" row] by (simp add: recorded_answer_def t f)
  show "x \<noteq> (sc, k) \<Longrightarrow> recorded_answer t x = recorded_answer u x"
  proof (cases "find (is_claim (fst x) (snd x)) (ct_idempotency u)")
    case (Some r)
    assume "x \<noteq> (sc, k)"
    with found_holds [OF Some] have "\<not> is_claim sc k r" by (cases x) (auto simp: is_claim_def)
    then show ?thesis by (simp add: recorded_answer_def t f Some)
  qed (simp add: recorded_answer_def t f)
qed

text \<open>A framed command records its answer, replays it, and keeps the answers of others.\<close>

lemma framed_cases:
  assumes "framed co c f"
  obtains (conflict) q d where "recorded_answer s (command_key co c) = Some (q, d)" "q \<noteq> command_request co c"
      "f s = Raise IdempotencyConflictError s"
  | (replayed) d where "recorded_answer s (command_key co c) = Some (command_request co c, d)"
      "f s = (case command_reads co c d of Inl e \<Rightarrow> Raise e s | Inr r \<Rightarrow> Done r s)"
  | (refused) e where "recorded_answer s (command_key co c) = None" "f s = Raise e s"
  | (performed) r t where "recorded_answer s (command_key co c) = None" "f s = Done r t"
      "recorded_answer t (command_key co c) = Some (command_request co c, command_written co c r)"
      "\<And>x a. recorded_answer s x = Some a \<Longrightarrow> recorded_answer t x = Some a"
proof -
  let ?h = "command_request co c"
  obtain sc k where key: "command_key co c = (sc, k)" by (cases "command_key co c")
  then have sc: "command_scope co c = sc" by (simp add: command_key_def)
  from assms obtain now replay perform where f: "f = idempotent_command sc k ?h now replay perform"
    and w: "works sc k ?h (response_data co) (command_kind c) perform"
    and r: "\<And>r. replay r = command_reads co c (ik_resource_type r, ik_response r)"
    unfolding framed_def key sc snd_conv by blast
  show thesis
  proof (cases "claim_idempotency sc k ?h now s")
    case (Inl e)
    note cc = claim_conflict [OF Inl]
    then obtain row where row: "find (is_claim sc k) (ct_idempotency s) = Some row" "ik_request_hash row \<noteq> ?h" by auto
    have "f s = Raise IdempotencyConflictError s" using Inl cc [THEN conjunct1] by (simp add: f idempotent_command_def)
    then show thesis using conflict refused row
      by (cases "ik_status row = IK_COMPLETED") (simp_all add: recorded_answer_def key)
  next
    case (Inr y)
    obtain o' u where y: "y = (o', u)" by (cases y)
    show thesis
    proof (cases o')
      case (Some row)
      then have "recorded_answer s (command_key co c) = Some (?h, ik_resource_type row, ik_response row)"
        using Inr y by (auto simp: claim_idempotency_def idempotency_claim_def recorded_answer_def key Let_def
            split: option.splits if_splits)
      then show thesis using replayed Inr y Some by (simp add: f idempotent_command_def r)
    next
      case None
      note p = claim_pending [OF Inr [unfolded y None]]
      have n: "recorded_answer s (command_key co c) = None"
        using p(2) [of "(sc, k)"] by (cases "recorded_answer s (sc, k)") (auto simp: key)
      show thesis
      proof (cases "perform u")
        case (Inl e)
        then show thesis using refused n Inr y None by (simp add: f idempotent_command_def)
      next
        fix z assume "perform u = Inr z"
        then obtain x t where pu: "perform u = Inr (x, t)" by (cases z) auto
        then obtain u' a where u': "same_log u u'" "au_resource_type a = command_kind c"
          "record_response sc k ?h (response_data co x) a x u' = Inr (x, t)" using w unfolding works_def by blast
        have same: "recorded_answer u' = recorded_answer u" using u'(1) by (intro ext) (simp add: recorded_answer_def same_log_def)
        have "recorded_answer t (sc, k) = Some (?h, command_written co c x)"
          using recorded_response(1) [OF u'(3)] p(1) u'(1,2) by (auto simp: command_written_def same_log_def)
        moreover have "recorded_answer t v = Some b" if "recorded_answer s v = Some b" for v b
          using recorded_response(2) [OF u'(3), of v] p(2) [OF that] by (simp add: same)
        moreover have "f s = Done x t" using Inr y None pu by (simp add: f idempotent_command_def)
        ultimately show thesis using performed n unfolding key by blast
      qed
    qed
  qed
qed

interpretation catalog_commands: replayed_commands
  "catalog_step co" recorded_answer "command_key co" "command_request co" "command_written co" "command_reads co"
  accepted_caller for co
proof unfold_locales
  fix c s r t
  assume d: "catalog_step co c s = Done r t"
  then have "accepted_caller c" using step_refused [of c] by (metis outcome.distinct(1))
  from framed_cases [OF step_framed [OF this, of co], of s] show
    "\<exists>d. recorded_answer t (command_key co c) = Some (command_request co c, d) \<and>
      (d = command_written co c r \<or> command_reads co c d = Inr r)"
    using d by cases (auto split: sum.splits)
next
  fix c s q d
  assume "accepted_caller c" and a: "recorded_answer s (command_key co c) = Some (q, d)"
  from framed_cases [OF step_framed [OF this(1), of co], of s] show
    "catalog_step co c s = (if q \<noteq> command_request co c then Raise IdempotencyConflictError s
      else case command_reads co c d of Inl e \<Rightarrow> Raise e s | Inr r \<Rightarrow> Done r s)"
    using a by cases auto
next
  fix s k a c
  assume a: "recorded_answer s k = Some a"
  show "recorded_answer (object_after (catalog_step co c s)) k = Some a"
  proof (cases "accepted_caller c")
    case True
    from framed_cases [OF step_framed [OF this, of co], of s] show ?thesis
      using a by cases (auto split: sum.splits)
  next
    case False
    then show ?thesis using step_refused [OF False] a by (metis outcome.sel(3))
  qed
qed

text \<open>What the program relies on of the pydantic models: the dumped response is an object and is read back as it was.\<close>

fun dumped_object :: "json \<Rightarrow> bool" where
  "dumped_object (JObj kvs) \<longleftrightarrow> True"
| "dumped_object v \<longleftrightarrow> False"

fun reads_back :: "catalog_contracts \<Rightarrow> catalog_response \<Rightarrow> bool" where
  "reads_back co (Product_Response x) \<longleftrightarrow> dumped_object (co_product_json co x) \<and> co_product_read co (co_product_json co x) = Inr x"
| "reads_back co (Sku_Response k) \<longleftrightarrow> dumped_object (co_sku_json co k) \<and> co_sku_read co (co_sku_json co k) = Inr k"
| "reads_back co No_Content \<longleftrightarrow> True"

lemma replay_back:
  "reads_back co (Product_Response x) \<Longrightarrow> product_replay co (answer_row (''product'', Some (co_product_json co x))) = Inr x"
  "reads_back co (Sku_Response k) \<Longrightarrow> sku_replay co (answer_row (''sku'', Some (co_sku_json co k))) = Inr k"
  by (auto simp: product_replay_def sku_replay_def answer_row_def split: json.split)

lemma tagged_Done: "tagged f x = Done r t \<Longrightarrow> \<exists>y. r = f y"
  by (cases x) auto

lemma response_read:
  assumes "reads_back co r" "catalog_step co c s = Done r t"
  shows "command_reads co c (command_written co c r) = Inr r"
  using assms by (cases c) (auto dest!: tagged_Done simp: command_written_def replay_back simp del: reads_back.simps)

text \<open>The scope names the operation.\<close>

lemma same_reads: "command_scope co c = command_scope co d \<Longrightarrow> command_reads co c = command_reads co d"
  by (cases c; cases d) (auto simp: catalog_scope_def fun_eq_iff)

definition no_catalog :: catalog_store where
  "no_catalog = \<lparr>ct_products = [], ct_skus = [], ct_identities = [], ct_idempotency = [], ct_audit = []\<rparr>"

abbreviation catalog_run :: "catalog_contracts \<Rightarrow> catalog_command list \<Rightarrow> catalog_store \<Rightarrow> catalog_store" where
  "catalog_run co \<equiv> catalog_commands.run co"

text \<open>C38: Every catalogue command may be repeated. Once a command has succeeded under an idempotency key, whatever
  commands are carried out in between, a repetition of the request under the key returns the response of the first
  time and changes nothing, even though it draws another identifier and another time; and a different
  request under the same key raises IdempotencyConflictError and changes nothing.\<close>

theorem catalog_retry_safe:
  assumes "catalog_step co c s = Done r t" "reads_back co r"
    and "command_key co d = command_key co c" "accepted_caller d"
  shows "catalog_step co d (catalog_run co cs t) =
    (if command_request co d = command_request co c then Done r (catalog_run co cs t)
     else Raise IdempotencyConflictError (catalog_run co cs t))"
proof -
  have "command_reads co d = command_reads co c"
    using assms(3) same_reads [of co d c] by (simp add: command_key_def)
  then show ?thesis
    using catalog_commands.repeated [OF assms(1,4,3), of cs] catalog_commands.reused [OF assms(1,4,3), of cs]
      response_read [OF assms(2,1)] by simp
qed

text \<open>A sample: a product is created, another one follows, and the first request is repeated.\<close>

definition sample_product :: product where
  "sample_product = \<lparr>pd_id = [], pd_workspace_id = ''w1'', pd_source_namespace = ''shop'', pd_external_id = [],
     pd_source_version = None, pd_title = [], pd_category_code = ''mugs'', pd_brand = ''Acme'', pd_attributes = JObj [],
     pd_expires_at = None, pd_version = 1, pd_created_at = utc 0, pd_updated_at = utc 0\<rparr>"

definition sample_dump :: "product_response \<Rightarrow> json" where
  "sample_dump x = JObj [(''id'', JStr (pd_id (fst x))), (''title'', JStr (pd_title (fst x))),
     (''external_id'', JStr (pd_external_id (fst x))), (''created_at'', JInt (instant (pd_created_at (fst x))))]"

definition sample_load :: "json \<Rightarrow> error + product_response" where
  "sample_load v = (case v of
     JObj [(_, JStr i), (_, JStr title), (_, JStr x), (_, JInt now)] \<Rightarrow>
       Inr (sample_product\<lparr>pd_id := i, pd_title := title, pd_external_id := x, pd_created_at := utc now,
         pd_updated_at := utc now\<rparr>, [])
   | _ \<Rightarrow> Inl ValueError)"

definition sample_models :: catalog_contracts where
  "sample_models = \<lparr>co_sha256 = \<lambda>x. x, co_create_json = \<lambda>r. JObj [(''external_id'', JStr (cr_external_id r))],
     co_update_json = \<lambda>r. JObj [(''title'', JStr (cu_title r))], co_delete_json = \<lambda>v. JObj [(''expected_version'', JInt v)],
     co_product_json = sample_dump, co_product_read = sample_load, co_sku_json = \<lambda>k. JNull,
     co_sku_read = \<lambda>v. Inl ValueError\<rparr>"

definition sample_creation :: "string \<Rightarrow> string \<Rightarrow> string \<Rightarrow> datetime \<Rightarrow> catalog_command" where
  "sample_creation x key i now = Create_Product
     \<lparr>cr_source_namespace = ''shop'', cr_external_id = x, cr_source_version = None, cr_title = ''Mug'',
      cr_category_code = ''mugs'', cr_brand = ''Acme'', cr_attributes = JObj [], cr_expires_at = None\<rparr>
     \<lparr>cl_workspace_id = ''w1'', cl_actor_id = ''ann'', cl_idempotency_key = key, cl_trace_id = ''t''\<rparr> i now"

definition sample_answer :: catalog_response where
  "sample_answer = Product_Response (sample_product\<lparr>pd_id := ''p1'', pd_external_id := ''mug-1'', pd_title := ''Mug''\<rparr>, [])"

theorem catalog_retry_safe_witness:
  "let t = object_after (catalog_step sample_models (sample_creation ''mug-1'' ''k'' ''p1'' (utc 0)) no_catalog);
       u = catalog_run sample_models [sample_creation ''mug-2'' ''k2'' ''p2'' (utc 1)] t
   in catalog_step sample_models (sample_creation ''mug-1'' ''k'' ''p3'' (utc 2)) u = Done sample_answer u \<and>
      catalog_step sample_models (sample_creation ''mug-3'' ''k'' ''p3'' (utc 2)) u = Raise IdempotencyConflictError u"
proof -
  let ?c = "sample_creation ''mug-1'' ''k'' ''p1'' (utc 0)" and ?d = "sample_creation ''mug-1'' ''k'' ''p3'' (utc 2)"
    and ?e = "sample_creation ''mug-3'' ''k'' ''p3'' (utc 2)"
  let ?t = "object_after (catalog_step sample_models ?c no_catalog)"
  have step: "catalog_step sample_models ?c no_catalog = Done sample_answer ?t" by code_simp
  have ok: "reads_back sample_models sample_answer" by code_simp
  have d: "command_key sample_models ?d = command_key sample_models ?c" "accepted_caller ?d"
    "command_request sample_models ?d = command_request sample_models ?c" by code_simp+
  have e: "command_key sample_models ?e = command_key sample_models ?c" "accepted_caller ?e"
    "command_request sample_models ?e \<noteq> command_request sample_models ?c" by code_simp+
  show ?thesis
    using catalog_retry_safe [OF step ok d(1,2), of "[sample_creation ''mug-2'' ''k2'' ''p2'' (utc 1)]"] d(3)
      catalog_retry_safe [OF step ok e(1,2), of "[sample_creation ''mug-2'' ''k2'' ''p2'' (utc 1)]"] e(3)
    by (simp add: Let_def)
qed

end
