(* ===== verification/Catalog_Integrity.thy ===== *)
theory Catalog_Integrity
  imports Catalog_Facts
begin

text \<open>
  The tables of the catalogue under its commands: what each row belongs to, and that every command keeps it so.
\<close>

section \<open>Rows\<close>

lemma stored_item_simps [simp]:
  "pd_id (stored_item p) = pd_id p" "pd_workspace_id (stored_item p) = pd_workspace_id p"
  "pd_version (stored_item p) = pd_version p" "external_key (stored_item p) = external_key p"
  "is_product w i (stored_item p) = is_product w i p" "sk_product_id (stored_item k) = sk_product_id k"
  by (simp_all add: stored_item_def external_key_def is_product_def)

lemma written_item_simps [simp]:
  "pd_id (written_item p row) = pd_id row" "pd_workspace_id (written_item p row) = pd_workspace_id row"
  "pd_version (written_item p row) = pd_version p" "external_key (written_item p row) = external_key row"
  "is_product w i (written_item p row) = is_product w i row" "sk_product_id (written_item k krow) = sk_product_id krow"
  by (simp_all add: written_item_def external_key_def is_product_def)

lemma filter_one:
  assumes "length (filter P xs) = 1"
  shows "\<exists>x. P x \<and> x \<in> set xs \<and> mset xs = add_mset x (mset (filter (\<lambda>x. \<not> P x) xs))"
proof -
  obtain x where x: "filter P xs = [x]" using assms by (auto simp: length_Suc_conv)
  have "mset xs = mset (filter P xs) + mset (filter (\<lambda>x. \<not> P x) xs)" by (simp add: multiset_partition)
  moreover have "P x \<and> x \<in> set xs" using arg_cong [OF x, of set] by auto
  ultimately show ?thesis using x by (intro exI [of _ x]) (simp add: mset_filter [symmetric] del: mset_filter)
qed

section \<open>Consistent tables\<close>

text \<open>
  The external identities are exactly those of the products and SKUs, each with its owner, and none occurs
  twice; every SKU has its product.
\<close>

definition identity_facts :: "catalog_store \<Rightarrow> ((string \<times> string \<times> string) \<times> string \<times> string) multiset" where
  "identity_facts s = mset (map (\<lambda>i. (identity_key i, ci_owner_type i, ci_owner_id i)) (ct_identities s))"

definition owner_facts :: "catalog_store \<Rightarrow> ((string \<times> string \<times> string) \<times> string \<times> string) multiset" where
  "owner_facts s = mset (map (\<lambda>p. (external_key p, ''PRODUCT'', pd_id p)) (ct_products s)) +
     mset (map (\<lambda>k. (external_key k, ''SKU'', pd_id k)) (ct_skus s))"

definition tables_ok :: "catalog_store \<Rightarrow> bool" where
  "tables_ok s \<longleftrightarrow> identity_facts s = owner_facts s \<and> distinct (map identity_key (ct_identities s)) \<and>
     distinct (map pd_id (ct_products s)) \<and> distinct (map pd_id (ct_skus s)) \<and>
     (\<forall>k\<in>set (ct_skus s). (pd_workspace_id k, sk_product_id k) \<in> (\<lambda>p. (pd_workspace_id p, pd_id p)) ` set (ct_products s)) \<and>
     (\<forall>p\<in>set (ct_products s). 1 \<le> pd_version p) \<and> (\<forall>k\<in>set (ct_skus s). 1 \<le> pd_version k)"

definition same_tables :: "catalog_store \<Rightarrow> catalog_store \<Rightarrow> bool" where
  "same_tables s t \<longleftrightarrow> ct_products t = ct_products s \<and> ct_skus t = ct_skus s \<and> ct_identities t = ct_identities s"

lemma same_tables_ok: "same_tables s t \<Longrightarrow> tables_ok t = tables_ok s"
  by (simp add: same_tables_def tables_ok_def identity_facts_def owner_facts_def)

lemma reserve_facts:
  assumes "identities_reserve i s = Inr t"
  shows "\<exists>j. ct_identities t = ct_identities s @ [j] \<and> identity_key j = identity_key i \<and>
    ci_owner_type j = ci_owner_type i \<and> ci_owner_id j = ci_owner_id i \<and>
    identity_key i \<notin> identity_key ` set (ct_identities s) \<and> ct_products t = ct_products s \<and> ct_skus t = ct_skus s"
proof -
  let ?j = "i\<lparr>ci_created_at := stored_time (ci_created_at i)\<rparr>"
  have "\<forall>x\<in>set (ct_identities s). identity_key x \<noteq> identity_key i" "t = s\<lparr>ct_identities := ct_identities s @ [?j]\<rparr>"
    using assms by (simp_all add: identities_reserve_def)
  moreover have "identity_key ?j = identity_key i" by (simp add: identity_key_def)
  ultimately show ?thesis by (intro exI [of _ ?j] conjI) (simp_all, metis image_iff)
qed

lemma add_product_ok:
  assumes ok: "tables_ok s" and p: "product_create i w r now = Inr p"
    and reserve: "identities_reserve \<lparr>ci_workspace_id = w, ci_source_namespace = pd_source_namespace p,
      ci_external_id = pd_external_id p, ci_owner_type = ''PRODUCT'', ci_owner_id = pd_id p, ci_created_at = now\<rparr> s = Inr t"
    and add: "products_add p t = Inr u"
  shows "tables_ok u"
proof -
  let ?i = "\<lparr>ci_workspace_id = w, ci_source_namespace = pd_source_namespace p, ci_external_id = pd_external_id p,
    ci_owner_type = ''PRODUCT'', ci_owner_id = pd_id p, ci_created_at = now\<rparr>"
  have w: "pd_workspace_id p = w" and v: "pd_version p = 1" using p by (auto simp: product_create_def)
  have "identity_key ?i = external_key p" using w by (simp add: identity_key_def external_key_def)
  then obtain j where j: "ct_identities t = ct_identities s @ [j]" "identity_key j = external_key p"
    "ci_owner_type j = ''PRODUCT''" "ci_owner_id j = pd_id p" "external_key p \<notin> identity_key ` set (ct_identities s)"
    "ct_products t = ct_products s" "ct_skus t = ct_skus s" using reserve_facts [OF reserve] by auto
  have u: "ct_products u = ct_products s @ [stored_item p]" "ct_skus u = ct_skus s" "ct_identities u = ct_identities t"
    "pd_id p \<notin> pd_id ` set (ct_products s)" using add by (auto simp: products_add_def j(6,7))
  show ?thesis using ok v by (simp add: tables_ok_def identity_facts_def owner_facts_def u j)
qed

lemma add_sku_ok:
  assumes ok: "tables_ok s" and k: "sku_create i w pid r now = Inr k"
    and reserve: "identities_reserve \<lparr>ci_workspace_id = w, ci_source_namespace = pd_source_namespace k,
      ci_external_id = pd_external_id k, ci_owner_type = ''SKU'', ci_owner_id = pd_id k, ci_created_at = now\<rparr> s = Inr t"
    and add: "skus_add k t = Inr u"
  shows "tables_ok u"
proof -
  let ?i = "\<lparr>ci_workspace_id = w, ci_source_namespace = pd_source_namespace k, ci_external_id = pd_external_id k,
    ci_owner_type = ''SKU'', ci_owner_id = pd_id k, ci_created_at = now\<rparr>"
  have w: "pd_workspace_id k = w" and v: "pd_version k = 1" using k by (auto simp: sku_create_def)
  have "identity_key ?i = external_key k" using w by (simp add: identity_key_def external_key_def)
  then obtain j where j: "ct_identities t = ct_identities s @ [j]" "identity_key j = external_key k"
    "ci_owner_type j = ''SKU''" "ci_owner_id j = pd_id k" "external_key k \<notin> identity_key ` set (ct_identities s)"
    "ct_products t = ct_products s" "ct_skus t = ct_skus s" using reserve_facts [OF reserve] by auto
  have u: "ct_skus u = ct_skus s @ [stored_item k]" "ct_products u = ct_products s" "ct_identities u = ct_identities t"
    "pd_id k \<notin> pd_id ` set (ct_skus s)" using add by (auto simp: skus_add_def is_product_def j(6,7))
  have fk: "(pd_workspace_id k, sk_product_id k) \<in> (\<lambda>p. (pd_workspace_id p, pd_id p)) ` set (ct_products s)"
    using add by (auto simp: skus_add_def is_product_def j(6,7) intro: rev_image_eqI)
  show ?thesis using ok v by (simp add: tables_ok_def identity_facts_def owner_facts_def u j fk)
qed

lemma map_written: "(\<And>x. f (g x) = f x) \<Longrightarrow> map f (map (\<lambda>x. if P x then g x else x) xs) = map f xs"
  by (induction xs) auto

lemma save_product_ok:
  assumes ok: "tables_ok s" and p: "1 \<le> pd_version p" and save: "products_save v p s = Inr t"
  shows "tables_ok t"
proof -
  let ?hit = "\<lambda>row. is_product (pd_workspace_id p) (pd_id p) row \<and> pd_version row = v"
  have t: "ct_products t = map (\<lambda>row. if ?hit row then written_item p row else row) (ct_products s)"
    "ct_skus t = ct_skus s" "ct_identities t = ct_identities s"
    using save by (auto simp: products_save_def Let_def)
  have m: "map pd_id (ct_products t) = map pd_id (ct_products s)"
    "map (\<lambda>p. (external_key p, ''PRODUCT'', pd_id p)) (ct_products t) =
       map (\<lambda>p. (external_key p, ''PRODUCT'', pd_id p)) (ct_products s)"
    "map (\<lambda>p. (pd_workspace_id p, pd_id p)) (ct_products t) = map (\<lambda>p. (pd_workspace_id p, pd_id p)) (ct_products s)"
    unfolding t(1) by (rule map_written, simp)+
  have "\<forall>q\<in>set (ct_products t). 1 \<le> pd_version q" using ok p by (auto simp: t(1) tables_ok_def)
  then show ?thesis
    using ok unfolding tables_ok_def identity_facts_def owner_facts_def t(2,3) m set_map [symmetric] by blast
qed

lemma save_sku_ok:
  assumes ok: "tables_ok s" and k: "1 \<le> pd_version k" and save: "skus_save v k s = Inr t"
  shows "tables_ok t"
proof -
  let ?hit = "\<lambda>row. is_sku (pd_workspace_id k) (sk_product_id k) (pd_id k) row \<and> pd_version row = v"
  have t: "ct_skus t = map (\<lambda>row. if ?hit row then written_item k row else row) (ct_skus s)"
    "ct_products t = ct_products s" "ct_identities t = ct_identities s"
    using save by (auto simp: skus_save_def Let_def)
  have m: "map pd_id (ct_skus t) = map pd_id (ct_skus s)"
    "map (\<lambda>k. (external_key k, ''SKU'', pd_id k)) (ct_skus t) = map (\<lambda>k. (external_key k, ''SKU'', pd_id k)) (ct_skus s)"
    unfolding t(1) by (rule map_written, simp)+
  have "\<forall>q\<in>set (ct_skus t). 1 \<le> pd_version q" using ok k by (auto simp: t(1) tables_ok_def)
  moreover have "\<forall>q\<in>set (ct_skus t). (pd_workspace_id q, sk_product_id q) \<in> (\<lambda>p. (pd_workspace_id p, pd_id p)) ` set (ct_products s)"
    using ok by (auto simp: t(1) tables_ok_def)
  ultimately show ?thesis
    using ok unfolding tables_ok_def identity_facts_def owner_facts_def t(2,3) m by blast
qed

text \<open>Removing a row and its identity.\<close>

lemma release_facts:
  assumes "identities_release x ty i s = Inr t"
  shows "\<exists>j. identity_key j = x \<and> ci_owner_type j = ty \<and> ci_owner_id j = i \<and>
    mset (ct_identities s) = add_mset j (mset (ct_identities t)) \<and> ct_products t = ct_products s \<and> ct_skus t = ct_skus s"
  using assms filter_one [of "\<lambda>j. identity_key j = x \<and> ci_owner_type j = ty \<and> ci_owner_id j = i" "ct_identities s"]
  by (auto simp: identities_release_def Let_def)

lemma distinct_removed: "distinct (map f xs) \<Longrightarrow> mset xs = add_mset x (mset ys) \<Longrightarrow> distinct (map f ys) \<and> f x \<notin> f ` set ys"
proof -
  assume "distinct (map f xs)" and m: "mset xs = add_mset x (mset ys)"
  then have "distinct (map f (x # ys))"
    using mset_eq_imp_distinct_iff [of "map f xs" "map f (x # ys)"] by (simp add: m)
  then show ?thesis by simp
qed

lemma delete_product_ok:
  assumes ok: "tables_ok s" and get: "products_get w i s = Some p"
    and delete: "products_delete w i v s = Inr t"
    and release: "identities_release (w, pd_source_namespace p, pd_external_id p) ''PRODUCT'' (pd_id p) t = Inr u"
  shows "tables_ok u"
proof -
  let ?hit = "\<lambda>row. is_product w i row \<and> pd_version row = v"
  have p: "p \<in> set (ct_products s)" "pd_workspace_id p = w" "pd_id p = i"
    using found_holds [OF get [unfolded products_get_def]] by (auto simp: is_product_def)
  obtain x where x: "?hit x" "x \<in> set (ct_products s)" "mset (ct_products s) = add_mset x (mset (ct_products t))"
    and t: "ct_skus t = ct_skus s" "ct_identities t = ct_identities s"
    using delete filter_one [of ?hit "ct_products s"] by (auto simp: products_delete_def Let_def)
  have px: "x = p" using ok p x by (auto simp: tables_ok_def is_product_def distinct_map inj_on_def)
  have unused: "\<forall>k\<in>set (ct_skus s). (pd_workspace_id k, sk_product_id k) \<noteq> (w, i)"
    using delete x by (auto simp: products_delete_def Let_def)
  obtain j where j: "identity_key j = external_key p" "ci_owner_type j = ''PRODUCT''" "ci_owner_id j = pd_id p"
    "mset (ct_identities s) = add_mset j (mset (ct_identities u))" "ct_products u = ct_products t" "ct_skus u = ct_skus s"
    using release_facts [OF release] p(2) by (auto simp: t external_key_def)
  have "identity_facts u = owner_facts u"
    using ok x(3) j by (simp add: tables_ok_def identity_facts_def owner_facts_def px)
  moreover have "distinct (map identity_key (ct_identities u))" "distinct (map pd_id (ct_products u))"
    using ok distinct_removed [OF _ j(4), of identity_key] distinct_removed [OF _ x(3), of pd_id]
    by (simp_all add: tables_ok_def j(5))
  moreover have sub: "set (ct_products s) = insert x (set (ct_products u))"
    using arg_cong [OF x(3), of set_mset] by (simp add: j(5))
  ultimately show ?thesis
    using ok unused p by (auto simp: tables_ok_def j(6) px)
qed

lemma delete_sku_ok:
  assumes ok: "tables_ok s" and get: "skus_get w pid i s = Some k"
    and delete: "skus_delete w pid i v s = Inr t"
    and release: "identities_release (w, pd_source_namespace k, pd_external_id k) ''SKU'' (pd_id k) t = Inr u"
  shows "tables_ok u"
proof -
  let ?hit = "\<lambda>row. is_sku w pid i row \<and> pd_version row = v"
  have k: "k \<in> set (ct_skus s)" "pd_workspace_id k = w" "pd_id k = i"
    using found_holds [OF get [unfolded skus_get_def]] by (auto simp: is_sku_def)
  obtain x where x: "?hit x" "x \<in> set (ct_skus s)" "mset (ct_skus s) = add_mset x (mset (ct_skus t))"
    and t: "ct_products t = ct_products s" "ct_identities t = ct_identities s"
    using delete filter_one [of ?hit "ct_skus s"] by (auto simp: skus_delete_def Let_def)
  have kx: "x = k" using ok k x by (auto simp: tables_ok_def is_sku_def distinct_map inj_on_def)
  obtain j where j: "identity_key j = external_key k" "ci_owner_type j = ''SKU''" "ci_owner_id j = pd_id k"
    "mset (ct_identities s) = add_mset j (mset (ct_identities u))" "ct_products u = ct_products s" "ct_skus u = ct_skus t"
    using release_facts [OF release] k(2) by (auto simp: t external_key_def)
  have "identity_facts u = owner_facts u"
    using ok x(3) j by (simp add: tables_ok_def identity_facts_def owner_facts_def kx)
  moreover have "distinct (map identity_key (ct_identities u))" "distinct (map pd_id (ct_skus u))"
    using ok distinct_removed [OF _ j(4), of identity_key] distinct_removed [OF _ x(3), of pd_id]
    by (simp_all add: tables_ok_def j(6))
  moreover have "set (ct_skus s) = insert x (set (ct_skus u))"
    using arg_cong [OF x(3), of set_mset] by (simp add: j(6))
  ultimately show ?thesis using ok by (auto simp: tables_ok_def j(5))
qed

section \<open>Every command\<close>

lemma claim_tables: "claim_idempotency sc k h now s = Inr (x, u) \<Longrightarrow> same_tables s u"
  by (auto simp: claim_idempotency_def idempotency_claim_def same_tables_def Let_def split: option.splits if_splits)

lemma record_tables: "record_response sc k h d a x s = Inr (r, t) \<Longrightarrow> same_tables s t"
  by (auto simp: record_response_def idempotency_complete_def audit_add_def same_tables_def Let_def)

lemma command_tables:
  assumes ok: "tables_ok s" and perform: "\<And>u r t. tables_ok u \<Longrightarrow> perform u = Inr (r, t) \<Longrightarrow> tables_ok t"
  shows "tables_ok (object_after (idempotent_command sc k h now replay perform s))"
  using ok by (auto simp: idempotent_command_def dest: perform claim_tables same_tables_ok split: sum.splits option.splits)

lemma tables_recorded: "record_response sc k h d a x s = Inr (r, t) \<Longrightarrow> tables_ok s \<Longrightarrow> tables_ok t"
  by (drule same_tables_ok [OF record_tables]) simp

lemma update_version: "settled (catalog_update r now p) = Inr q \<Longrightarrow> pd_version q = pd_version p + 1"
  by (cases "validate_expiry (cu_expires_at r)"; cases "assert_catalog_version (cu_expected_version r) p")
    (auto simp: catalog_update_def)

lemma object_after_tagged [simp]: "object_after (tagged f x) = object_after x"
  by (cases x) simp_all

lemma found_version:
  "tables_ok s \<Longrightarrow> products_get w i s = Some p \<Longrightarrow> 1 \<le> pd_version p"
  "tables_ok s \<Longrightarrow> skus_get w i j s = Some k \<Longrightarrow> 1 \<le> pd_version k"
  by (auto simp: tables_ok_def products_get_def skus_get_def dest: found_holds)

lemma update_tables:
  "tables_ok s \<Longrightarrow> products_get w i s = Some p \<Longrightarrow> settled (catalog_update r now p) = Inr q \<Longrightarrow>
    products_save v q s = Inr t \<Longrightarrow> tables_ok t"
  "tables_ok s \<Longrightarrow> skus_get w i j s = Some k \<Longrightarrow> settled (catalog_update r now k) = Inr l \<Longrightarrow>
    skus_save v l s = Inr t \<Longrightarrow> tables_ok t"
  using save_product_ok [of s q v t] save_sku_ok [of s l v t] found_version [of s] update_version [of r now]
  by fastforce+

lemma found_Inr [simp]: "found x = Inr y \<longleftrightarrow> x = Some y"
  by (simp add: found_def split: option.split)

lemma step_tables_ok: "tables_ok s \<Longrightarrow> tables_ok (object_after (catalog_step co c s))"
proof (induction c)
  case (Create_Product r c i now)
  then show ?case
    by (cases "validate_workspace_id (cl_workspace_id c)")
      (auto simp: create_product_def Let_def intro!: command_tables elim!: tables_recorded elim: add_product_ok)
next
  case (Update_Product p r c now)
  then show ?case
    by (auto simp: update_product_def Let_def product_update_def intro!: command_tables
        elim!: tables_recorded elim: update_tables(1))
next
  case (Delete_Product p v c now)
  then show ?case
    by (auto simp: delete_product_def Let_def intro!: command_tables elim!: tables_recorded elim: delete_product_ok)
next
  case (Create_Sku p r c i now)
  then show ?case
    by (auto simp: create_sku_def Let_def intro!: command_tables elim!: tables_recorded elim: add_sku_ok)
next
  case (Update_Sku p k r c now)
  then show ?case
    by (auto simp: update_sku_def Let_def sku_update_def intro!: command_tables
        elim!: tables_recorded elim: update_tables(2))
next
  case (Delete_Sku p k v c now)
  then show ?case
    by (auto simp: delete_sku_def Let_def intro!: command_tables elim!: tables_recorded elim: delete_sku_ok)
qed

section \<open>The log of answers\<close>

text \<open>
  Outside a unit of work no claim is pending, no key is claimed twice, and every answer has its audit row.
\<close>

definition claim_key :: "idempotency_row \<Rightarrow> string \<times> string" where
  "claim_key r = (ik_scope r, ik_key_hash r)"

definition log_ok :: "catalog_store \<Rightarrow> bool" where
  "log_ok s \<longleftrightarrow> distinct (map claim_key (ct_idempotency s)) \<and>
     (\<forall>r\<in>set (ct_idempotency s). ik_status r = IK_COMPLETED \<and> ik_response r \<noteq> None) \<and>
     map (\<lambda>r. (ik_resource_type r, ik_resource_id r)) (ct_idempotency s) =
       map (\<lambda>a. (au_resource_type a, au_resource_id a)) (ct_audit s)"

lemma is_claim_key: "is_claim sc k r \<longleftrightarrow> claim_key r = (sc, k)"
  by (simp add: is_claim_def claim_key_def)

lemma claim_appends:
  assumes "log_ok s" "claim_idempotency sc k h now s = Inr (None, u)"
  shows "\<exists>p. ct_idempotency u = ct_idempotency s @ [p] \<and> claim_key p = (sc, k) \<and> ik_request_hash p = h \<and>
    (sc, k) \<notin> claim_key ` set (ct_idempotency s) \<and> ct_audit u = ct_audit s"
proof (cases "find (is_claim sc k) (ct_idempotency s)")
  case None
  then have "(sc, k) \<notin> claim_key ` set (ct_idempotency s)" by (auto simp: find_None_iff is_claim_key)
  with None show ?thesis using assms(2)
    by (auto simp: claim_idempotency_def idempotency_claim_def Let_def claim_key_def)
next
  case (Some r)
  with found_holds [OF Some] assms(1) have "ik_status r = IK_COMPLETED" by (simp add: log_ok_def)
  with Some assms(2) show ?thesis by (auto simp: claim_idempotency_def idempotency_claim_def Let_def)
qed

lemma record_log:
  assumes ok: "log_ok s" and u: "ct_idempotency u = ct_idempotency s @ [p]" "claim_key p = (sc, k)" "ik_request_hash p = h"
    "(sc, k) \<notin> claim_key ` set (ct_idempotency s)" "ct_audit u = ct_audit s"
    and saved: "record_response sc k h d a x u = Inr (r, t)"
  shows "log_ok t"
proof -
  let ?f = "\<lambda>r. if is_claim sc k r \<and> ik_request_hash r = h
    then r\<lparr>ik_resource_type := au_resource_type a, ik_resource_id := au_resource_id a, ik_response := Some d,
           ik_status := IK_COMPLETED\<rparr> else r"
  have t: "ct_idempotency t = map ?f (ct_idempotency u)" "map (\<lambda>a. (au_resource_type a, au_resource_id a)) (ct_audit t) =
      map (\<lambda>a. (au_resource_type a, au_resource_id a)) (ct_audit s) @ [(au_resource_type a, au_resource_id a)]"
    using saved by (auto simp: record_response_def idempotency_complete_def audit_add_def Let_def u(5))
  have same: "map ?f (ct_idempotency s) = ct_idempotency s"
    using u(4) by (intro map_idI) (metis image_eqI is_claim_key)
  have "ct_idempotency t = ct_idempotency s @ [?f p]" by (simp only: t(1) u(1) map_append same list.map)
  moreover have "claim_key (?f p) = (sc, k)" "ik_status (?f p) = IK_COMPLETED" "ik_response (?f p) = Some d"
    "ik_resource_type (?f p) = au_resource_type a" "ik_resource_id (?f p) = au_resource_id a"
    using u(2,3) by (simp_all add: is_claim_key) (simp_all add: claim_key_def)
  ultimately show ?thesis using ok u(4) by (simp add: log_ok_def t(2) del: is_claim_def)
qed

lemma same_log_ok: "same_log s t \<Longrightarrow> log_ok t = log_ok s"
  by (simp add: same_log_def log_ok_def)

lemma framed_log:
  assumes "framed co c f" "log_ok s"
  shows "log_ok (object_after (f s))"
proof -
  obtain sc k h data kind now replay perform where f: "f = idempotent_command sc k h now replay perform"
    and w: "works sc k h data kind perform" using assms(1) unfolding framed_def by blast
  show ?thesis
  proof (cases "claim_idempotency sc k h now s")
    case (Inr y)
    then obtain v u where y: "claim_idempotency sc k h now s = Inr (v, u)" by (cases y) auto
    show ?thesis
    proof (cases "v = None \<and> \<not> isl (perform u)")
      case True
      then obtain x t where pu: "perform u = Inr (x, t)" by (cases "perform u") auto
      then obtain u' a where u': "same_log u u'" "record_response sc k h (data x) a x u' = Inr (x, t)"
        using w unfolding works_def by blast
      have "log_ok t" using claim_appends [OF assms(2)] y True u'(1) record_log [OF assms(2) _ _ _ _ _ u'(2)]
        by (fastforce simp: same_log_def)
      then show ?thesis using y True pu by (simp add: f idempotent_command_def)
    next
      case False
      then show ?thesis using y assms(2)
        by (cases v; cases "perform u") (auto simp: f idempotent_command_def split: sum.split)
    qed
  qed (simp add: f idempotent_command_def assms(2))
qed

lemma step_log_ok: "log_ok s \<Longrightarrow> log_ok (object_after (catalog_step co c s))"
  using step_framed [of c co] step_refused [of c co s] framed_log by (metis outcome.sel(3))

lemma step_raises_unchanged: "catalog_step co c s = Raise e t \<Longrightarrow> t = s"
proof (cases "accepted_caller c")
  case True
  assume r: "catalog_step co c s = Raise e t"
  from framed_cases [OF step_framed [OF True, of co], of s] show "t = s"
    using r by cases (auto split: sum.splits)
next
  case False
  then show "catalog_step co c s = Raise e t \<Longrightarrow> t = s" using step_refused [of c co s] by auto
qed

section \<open>Every sequence of commands\<close>

lemma run_ok: "tables_ok s \<Longrightarrow> log_ok s \<Longrightarrow> tables_ok (catalog_run co cs s) \<and> log_ok (catalog_run co cs s)"
  unfolding catalog_commands.run_def by (induction cs arbitrary: s) (simp_all add: step_tables_ok step_log_ok)

lemma external_keys_distinct:
  assumes "tables_ok s"
  shows "distinct (map external_key (ct_products s) @ map external_key (ct_skus s))"
proof -
  have "image_mset fst (identity_facts s) = mset (map identity_key (ct_identities s))"
    "image_mset fst (owner_facts s) = mset (map external_key (ct_products s) @ map external_key (ct_skus s))"
    by (simp_all add: identity_facts_def owner_facts_def multiset.map_comp comp_def)
  then show ?thesis using assms mset_eq_imp_distinct_iff unfolding tables_ok_def by metis
qed

lemma run_from_empty: "tables_ok (catalog_run co cs no_catalog) \<and> log_ok (catalog_run co cs no_catalog)"
  by (rule run_ok) (simp_all add: no_catalog_def tables_ok_def log_ok_def identity_facts_def owner_facts_def)

text \<open>C39: Whatever commands a catalogue has been given, accepted, refused or repeated: its external identities are
  exactly those of its products and SKUs, each with its owner, and no two of them share one in a workspace;
  identifiers are not used twice; every SKU belongs to a product of its workspace; versions start at 1. No
  idempotency key is claimed twice, none is left pending, and each has its response and one audit row of its
  resource. And a command that raises changes nothing.\<close>

theorem catalog_integrity:
  "let s = catalog_run co cs no_catalog
   in tables_ok s \<and> distinct (map external_key (ct_products s) @ map external_key (ct_skus s)) \<and> log_ok s \<and>
      (case catalog_step co c s of Done r t \<Rightarrow> tables_ok t \<and> log_ok t | Raise e t \<Rightarrow> t = s)"
proof -
  show ?thesis
    using run_from_empty [of co cs] step_tables_ok [of "catalog_run co cs no_catalog" co c] step_log_ok [of "catalog_run co cs no_catalog" co c]
      external_keys_distinct [of "catalog_run co cs no_catalog"]
    by (auto simp: Let_def simp del: distinct_append dest: step_raises_unchanged split: outcome.split)
qed

end
