(* ===== verification/Catalog_Pages.thy ===== *)
theory Catalog_Pages
  imports Catalog_Integrity
begin

text \<open>
  The pages of the listing of products, as a client sees them that follows the cursors.
\<close>

section \<open>Pages\<close>

text \<open>
  A client that follows the cursors until it is handed none: its pages, or \<open>None\<close> when so many requests
  were not enough to reach a page without a cursor.
\<close>

fun product_pages ::
  "nat \<Rightarrow> string \<Rightarrow> int \<Rightarrow> (datetime \<times> string) option \<Rightarrow> catalog_store \<Rightarrow> product list list option" where
  "product_pages 0 w limit cursor s = None"
| "product_pages (Suc n) w limit cursor s =
     (case list_products w limit cursor s of
        (page, None) \<Rightarrow> Some [page]
      | (page, Some c) \<Rightarrow> map_option (\<lambda>pages. page # pages) (product_pages n w limit (Some c) s))"

definition newest_first :: "string \<Rightarrow> catalog_store \<Rightarrow> product list" where
  "newest_first w s = rev (sort_key product_key (filter (\<lambda>p. pd_workspace_id p = w) (ct_products s)))"

lemma newest_first_descends:
  assumes "tables_ok s"
  shows "sorted_wrt (\<lambda>p q. product_key q < product_key p) (newest_first w s)"
proof -
  let ?ys = "sort_key product_key (filter (\<lambda>p. pd_workspace_id p = w) (ct_products s))"
  have "distinct (map pd_id ?ys)"
    using assms by (simp add: tables_ok_def distinct_map inj_on_def)
  then have "distinct (map product_key ?ys)" by (simp add: distinct_map inj_on_def product_key_def)
  then have "sorted_wrt (<) (map product_key ?ys)" by (simp add: strict_sorted_iff)
  then show ?thesis by (simp add: newest_first_def sorted_wrt_rev sorted_wrt_map)
qed

lemma listed_after:
  "products_list w n None s = take n (newest_first w s)"
  "products_list w n (Some (pd_created_at c, pd_id c)) s =
     take n (filter (\<lambda>p. product_key p < product_key c) (newest_first w s))"
proof -
  have "products_list w n (Some (pd_created_at c, pd_id c)) s = take n (rev (sort_key product_key
      (filter (\<lambda>p. product_key p < product_key c) (filter (\<lambda>p. pd_workspace_id p = w) (ct_products s)))))"
    by (simp add: products_list_def product_key_def less_prod_def' dt_less_def conj_commute cong: filter_cong)
  then show "products_list w n (Some (pd_created_at c, pd_id c)) s =
     take n (filter (\<lambda>p. product_key p < product_key c) (newest_first w s))"
    by (simp only: newest_first_def rev_filter [symmetric] filter_sort)
qed (simp add: products_list_def newest_first_def)

lemma filter_below:
  "sorted_wrt (\<lambda>p q. key q < (key p :: 'b::linorder)) (xs @ c # ys) \<Longrightarrow> filter (\<lambda>p. key p < key c) (xs @ c # ys) = ys"
  by (auto simp: sorted_wrt_append filter_empty_conv intro!: filter_True dest: less_asym)

lemma pages_of_rest:
  assumes ok: "tables_ok s" and split: "newest_first w s = xs @ ys"
    and cursor: "cursor = (if xs = [] then None else Some (pd_created_at (last xs), pd_id (last xs)))"
    and n: "length ys < n"
  shows "\<exists>pages. product_pages n w limit cursor s = Some pages \<and> concat pages = ys \<and>
    list_all (\<lambda>page. length page \<le> nat (min (max limit 1) 100)) pages"
  using split cursor n
proof (induction n arbitrary: xs ys cursor)
  case (Suc n)
  obtain L where bound: "nat (min (max limit 1) 100) = L" by simp
  then have L: "0 < L" by auto
  have rest: "products_list w m cursor s = take m ys" for m
  proof (cases xs rule: rev_cases)
    case (snoc zs c)
    then show ?thesis
      using Suc.prems filter_below [of product_key zs c ys] newest_first_descends [OF ok, of w] by (simp add: listed_after)
  qed (use Suc.prems in \<open>simp add: listed_after\<close>)
  show ?case
  proof (cases "L < length ys")
    case True
    then have page: "take L ys \<noteq> []" "last (xs @ take L ys) = last (take L ys)" "ys \<noteq> []"
      using L by (auto simp del: take_eq_Nil simp: take_eq_Nil [of L ys] last_append)
    let ?c = "Some (pd_created_at (last (take L ys)), pd_id (last (take L ys)))"
    have "\<exists>pages. product_pages n w limit ?c s = Some pages \<and> concat pages = drop L ys \<and>
      list_all (\<lambda>page. length page \<le> nat (min (max limit 1) 100)) pages"
      using Suc.prems True L by (intro Suc.IH [of "xs @ take L ys"]) (simp_all add: page bound)
    then show ?thesis using True page by (auto simp: list_products_def rest Let_def bound)
  next
    case False
    then show ?thesis by (simp add: list_products_def rest Let_def bound)
  qed
qed simp

text \<open>C40: The pages of a listing are the listing, and it ends: whatever commands have been carried out, a client
  that follows the cursors is handed a page without a cursor after at most one request more than there are
  products. By then it has received every product of its workspace once and no other, newest first, in pages of
  at most the requested number, which is brought between 1 and 100.\<close>

theorem catalog_pages:
  "let s = catalog_run co cs no_catalog
   in \<exists>pages. product_pages (length (ct_products s) + 1 + n) w limit None s = Some pages \<and>
      concat pages = newest_first w s \<and> sorted_wrt (\<lambda>p q. product_key q < product_key p) (concat pages) \<and>
      mset (concat pages) = mset (filter (\<lambda>p. pd_workspace_id p = w) (ct_products s)) \<and>
      list_all (\<lambda>page. length page \<le> nat (min (max limit 1) 100)) pages"
proof -
  let ?s = "catalog_run co cs no_catalog"
  have ok: "tables_ok ?s" using run_from_empty by blast
  have "length (newest_first w ?s) \<le> length (ct_products ?s)" by (simp add: newest_first_def)
  then have "length (newest_first w ?s) < length (ct_products ?s) + 1 + n" by simp
  from pages_of_rest [where xs = "[]" and cursor = None and limit = limit, OF ok _ _ this]
  obtain pages where "product_pages (length (ct_products ?s) + 1 + n) w limit None ?s = Some pages"
    "concat pages = newest_first w ?s" "list_all (\<lambda>page. length page \<le> nat (min (max limit 1) 100)) pages" by auto
  moreover have "mset (newest_first w ?s) = mset (filter (\<lambda>p. pd_workspace_id p = w) (ct_products ?s))"
    by (simp add: newest_first_def)
  ultimately show ?thesis using newest_first_descends [OF ok, of w] unfolding Let_def by metis
qed

end
