(* ===== verification/Spec2Isabelle.thy ===== *)
theory Spec2Isabelle
  imports Identity Workflow_Facts Step_Facts Operation_Recovery_Facts Upload_Facts Asset_Facts Routing_Facts
    Retrieval_Answers Generation_Facts Control_Plane_Facts Brand_Profile_Facts
    Product_Brief_Samples Tool_Samples Planning_Context_Facts Prompt_Facts
    Provider_Execution_Facts Catalog_Pages
begin

text \<open>
  The verification library of CommerceVision, a system that turns product briefs into generated
  commerce images. The domain rules live in \<open>src/packages/domain/src/commercevision_domain/\<close> (below:
  the domain package); the application packages orchestrate them over repositories and providers.
  The library models the domain rules, and the application code that carries rules of its own.

  \<^bold>\<open>How the program is put together.\<close> A \<open>Workflow\<close> and its \<open>WorkflowStep\<close>s move a brief through planning,
  two human approvals, generation and export. Everything that talks to the outside runs as a
  \<open>DurableOperation\<close>, claimed by a worker under a lease and reconciled when its outcome is unknown.
  Inputs are uploaded (\<open>UploadSession\<close>) and become \<open>Asset\<close>s, which only a rights record makes usable.
  The retrieval service ranks usable assets from several channels. A brief is confirmed by a human, a
  planning context fixes what the planner may read, a creative plan is its answer, and the tool runtime
  authorizes what the plan wants to run. The control plane publishes endpoint capabilities and route
  policies, the router picks the endpoints for a generation, a batch derives its candidate slots, and
  every provider call leaves evidence of its outcome and cost. Products and SKUs are kept by the catalogue.
  Aggregates carry an optimistic version; events travel by an outbox and an inbox.

  \<^bold>\<open>Conventions.\<close> A Python dataclass is a \<open>record\<close>, an enumeration a \<open>datatype\<close>. A method that changes
  an object returns an \<open>outcome\<close> (theory \<open>Prelude\<close>): the result with the new object, or the exception
  with the object as it was when it was raised, so that changes before a raise stay visible. A function
  without state returns \<open>error + 'a\<close>, \<open>Inl\<close> for an exception; a constructor check is \<open>error option\<close>,
  a list of guards in the order of the code. A \<open>datetime\<close> keeps its offset, since comparing an aware
  with a naive value raises. \<open>int\<close> is Python's unbounded \<open>int\<close>, \<open>rat\<close> stands for \<open>Decimal\<close> and \<open>float\<close>
  with their rounding written out, a \<open>dict\<close> with observable order is an association list. What is not
  part of the repository (SHA-256, name-based UUIDs, random tokens, providers, vector search, pydantic's
  conversions, tool implementations) is an argument. Text is a list of 8-bit characters (Latin-1); JSON numbers
  are integers, since the modelled values carry amounts and scores as text.

  \<^bold>\<open>Shared theories.\<close>
  \<^item> \<open>Prelude\<close>: exceptions, outcomes, guards, instants, JSON values.
  \<^item> \<open>Interfaces\<close>: the contracts several components share, as locales: \<open>versioned\<close> (an object never
    changes without its version), \<open>state_table\<close> and \<open>table_driven\<close> (a status moves along a table),
    \<open>lease_discipline\<close> (exclusive expiring ownership). \<open>Version_Pointers\<close> holds \<open>version_pointer\<close> (a head
    implements the log of its versions), \<open>Registries\<close> \<open>keyed_registry\<close> (a key is taken once), \<open>Replays\<close>
    \<open>replayed_commands\<close> (a recorded command may be repeated). Each is interpreted on the models below.
  \<^item> \<open>Identity\<close>: text predicates and \<open>ids.py\<close>, \<open>workspace_identity.py\<close>, \<open>retention.py\<close>: parsing of UUIDs
    is idempotent, UUIDv7 keys are ordered by time.
  \<^item> \<open>Rounding\<close>, \<open>Decimals\<close>, \<open>Floats\<close>: correct rounding of \<open>Decimal\<close> (28 digits) and of binary64
    numbers, with monotonicity and idempotence. Exponents are in the range the program uses: overflow to
    infinity is excluded, gradual underflow is modelled.
  \<^item> \<open>Texts\<close>: printed numbers and joined fields, which are injective. \<open>Timestamps\<close>: the ISO text of an instant.
  \<^item> \<open>Json_Text\<close>, \<open>Json_Facts\<close>: canonical JSON and its decoder; two values have the same canonical text exactly
    when they are equal up to the order of members. \<open>Json_Shape\<close>: the bounded scan of a value, which equals a
    recursive reading of it.

  \<^bold>\<open>Workflow lifecycle\<close> (\<open>workflow/\<close>). \<open>Workflow_States\<close> holds the enumerations and transition tables,
  \<open>Workflow_Entities\<close> the entities \<open>Workflow\<close>, \<open>WorkflowStep\<close>, \<open>WorkflowAttempt\<close>, \<open>Approval\<close> with every
  method. \<open>Workflow_Facts\<close>: no history skips a human gate, stale commands are refused, cancellation is
  permanent. \<open>Step_Facts\<close>: the lease and completion invariant of steps, exclusivity, and the retry budget
  with its gap (an expired lease can be taken over beyond \<open>max_attempts\<close>); the bare \<open>transition\<close> is a step too,
  and keeps the invariant exactly when its target fits the fields.

  \<^bold>\<open>Durable operations\<close> (\<open>operations/\<close>). \<open>Operations\<close> models every method of \<open>DurableOperation\<close>;
  \<open>Operation_Invariant\<close> its reachable states as a step relation and their invariant; \<open>Operation_Facts\<close>
  exclusive leases over whole histories, no blind re-execution after a start, bounded work per budget, and refusal of
  stale results. \<open>Operation_Recovery\<close> models how operations are taken up again (\<open>application/operation_recovery.py\<close>,
  the claims and the terminal dead letter of \<open>application/operations.py\<close>, the selection of
  \<open>persistence/operations.py\<close>) over the rows of one operation, and \<open>Operation_Recovery_Facts\<close> proves that two rounds of
  scanner and worker finish every operation, whichever workers vanish.

  \<^bold>\<open>Messages\<close> (\<open>messaging/events.py\<close>). \<open>Messaging\<close>: the envelope, outbox, inbox, dead letters and replays.

  \<^bold>\<open>Uploads, assets and rights\<close> (\<open>assets/\<close> and \<open>select_current_rights\<close> of \<open>application/asset_rights.py\<close>).
  \<open>Uploads\<close>/\<open>Upload_Facts\<close>: upload sessions, one finalizer at a time and one finalization. \<open>Assets\<close>, \<open>Rights\<close>, \<open>Asset_Facts\<close>:
  the asset's life, the usability decision and its exact characterisation, withdrawal from its start on, the
  deletion fence, and the deletion for expired rights that new rights can overtake for good.

  \<^bold>\<open>Provider routing\<close> (\<open>provider_routing.py\<close>, \<open>_model_route_selection.py\<close>). \<open>Provider_Routing\<close> and
  \<open>Routing_Facts\<close>: the route is exactly the admissible endpoints in score order, independent of the
  order of its inputs; rejections are counted exactly; failover walks the route once.

  \<^bold>\<open>Indexing and retrieval\<close> (\<open>indexing/\<close>, \<open>retrieval.py\<close>, \<open>application/retrieval.py\<close>, \<open>contracts/retrieval.py\<close>).
  \<open>Indexing\<close>/\<open>Indexing_Facts\<close>: collection identities and embedding records, whose generations are
  settled once. \<open>Retrieval\<close>/\<open>Retrieval_Facts\<close>: fusion against its formula, dominance, deduplication and
  bound. \<open>Retrieval_Service\<close> composes these with the authority, the sources (locale \<open>honest_source\<close>,
  interpreted on the explicit source) and the reranker; \<open>Retrieval_Service_Facts\<close> proves the rights
  fence and \<open>Retrieval_Answers\<close> that a request whose collaborators keep their contracts is answered.

  \<^bold>\<open>Generation\<close> (\<open>generation_candidates.py\<close>). \<open>Generation\<close>/\<open>Generation_Facts\<close>: batches, slots and requests; the
  digest stands for the whole batch, and a slot's identity for its batch and index.

  \<^bold>\<open>Provider control plane and evidence\<close> (\<open>provider_control_plane.py\<close>, \<open>provider_execution.py\<close>). \<open>Control_Plane\<close> and
  its facts: both heads implement the log of their versions (publish, roll back), and discovery evidence is
  stored canonically without credentials. \<open>Provider_Execution\<close> and its facts: a call may be repeated exactly
  when it cannot have been dispatched; an amount is the exact price rounded once.

  \<^bold>\<open>Brand profiles and product briefs\<close> (\<open>brand_profiles/\<close>, \<open>product_briefs/\<close>). \<open>Brand_Profiles\<close> and its facts:
  published versions form a gapless history. \<open>Brief_Schemas\<close>, \<open>Product_Briefs\<close>, \<open>Product_Brief_Facts\<close>: the review
  policy, versions, and confirmation that no open review can pass; the size limit that also bounds a whole
  version. \<open>Product_Brief_Samples\<close> evaluates a concrete brief.

  \<^bold>\<open>Creative plans and contexts\<close> (\<open>creative_plans.py\<close>, \<open>planning_contexts.py\<close>). \<open>Creative_Plans\<close> and its facts and
  samples: which tool intents can be created, and the chain of versions behind a head. \<open>Planning_Contexts\<close>
  and its facts: the selection under the token and the image budget, and the snapshot made of it.

  \<^bold>\<open>Prompts\<close> (\<open>prompt_registry.py\<close>). \<open>Prompt_Registry\<close>, \<open>Prompt_Facts\<close>: the scan of a template, the review
  lifecycle of a revision as a refinement of its table, and the production pointer.

  \<^bold>\<open>Tool runtime\<close> (\<open>packages/tool-runtime\<close>, \<open>application/tool_authorization.py\<close>). \<open>Tool_Runtime\<close>: registry, policy
  and gateway, closed by default. \<open>Tool_Authorization\<close>: the authorizer of one intent and of all intents of a
  plan. \<open>Tool_Facts\<close>, \<open>Tool_Samples\<close>: the exact conditions of an authorization, and the fixture tool.

  \<^bold>\<open>Catalogue\<close> (\<open>catalog/\<close>, \<open>persistence/catalog.py\<close>, \<open>application/catalog.py\<close>, the idempotency and audit rows of
  \<open>persistence/repositories.py\<close>). \<open>Catalog\<close> holds the aggregates and tables, \<open>Catalog_Service\<close> the commands and
  queries. \<open>Catalog_Facts\<close>: every command may be repeated. \<open>Catalog_Integrity\<close>: identities, owners, answers and
  audit rows stay consistent under every sequence of commands. \<open>Catalog_Pages\<close>: the pages of a listing are
  the listing.

  \<^bold>\<open>Termination and fuel.\<close> The loops of the code run over finite sequences and are structural recursions or
  folds; the scans with an explicit stack have a termination measure. The JSON decoder takes fuel,
  \<open>2 * length + 2\<close> of the text, which is enough for every canonical text (\<open>json_decode_dumps\<close>); the client of
  a listing has at most one request per product and one more, and is proved to be handed a last page by then. Unbounded histories are runs of step relations or
  sequences of commands, and the properties hold for all of them.

  \<^bold>\<open>Not modelled.\<close> Unicode beyond Latin-1 and its normalisation; asset validation evidence; floating-point
  numbers in JSON; CPython's limits on nesting and on the digits of a printed integer; collations that fold case;
  the range of \<open>datetime\<close>; the generator of fixture images; the text form of cursors; the transactional application
  services other than the catalogue's and the recovery of operations, and their SQL; the batches of the scanner; network clients, agent graph wiring, HTTP and worker
  entry points; and the web application, which is TypeScript.
\<close>

end
